(* ===== verification/Prelude.thy ===== *)
theory Prelude
  imports Main "HOL-Library.Word" "HOL-Library.Product_Lexorder"
begin

text \<open>
  Shared ground of the development: the byte and string types, the result type for code
  that raises, little-endian integers, the \<open>enum\<close> contract every wire enumeration obeys,
  the contract of a frame codec that tolerates trailing bytes, reachability with
  invariants, and the contract of a keyed store. A Python \<^verbatim>\<open>int\<close> is an \<open>int\<close>, a byte of a
  \<^verbatim>\<open>bytes\<close> value an \<open>8 word\<close>, a Python \<^verbatim>\<open>str\<close> a \<open>string\<close> whose characters are the code points
  below 256.
\<close>

type_synonym byte = "8 word"
type_synonym bytes = "byte list"
type_synonym firmware_version = "int \<times> int \<times> int"

named_theorems codec_simps \<open>one-step rewriting of readers, writers and frames\<close>
named_theorems py_defs \<open>definitions unfolded when a model is evaluated\<close>

section \<open>Results: an error or a value\<close>

text \<open>
  Code that raises returns \<open>Inl\<close> of the exception. \<open>bindE\<close> is sequencing: the rest of the
  function runs only when the step before it did not raise. \<open>raise_if\<close> is the source's
  \<^verbatim>\<open>if c: raise e\<close>.
\<close>

fun bindE :: "'e + 'a \<Rightarrow> ('a \<Rightarrow> 'e + 'b) \<Rightarrow> 'e + 'b" where
  "bindE (Inl e) f = Inl e"
| "bindE (Inr x) f = f x"

definition raise_if :: "bool \<Rightarrow> 'e \<Rightarrow> 'e + unit" where
  "raise_if c e = (if c then Inl e else Inr ())"

lemma raise_if_simps [simp]:
  "c \<Longrightarrow> raise_if c e = Inl e"
  "\<not> c \<Longrightarrow> raise_if c e = Inr ()"
  by (simp_all add: raise_if_def)

lemma raise_if_eq_Inr [simp]: "raise_if c e = Inr u \<longleftrightarrow> \<not> c"
  by (simp add: raise_if_def)

lemma raise_if_eq_Inl [simp]: "raise_if c e = Inl e' \<longleftrightarrow> c \<and> e' = e"
  by (auto simp: raise_if_def)

lemma bindE_eq_Inr: "bindE m f = Inr y \<longleftrightarrow> (\<exists>x. m = Inr x \<and> f x = Inr y)"
  by (cases m) auto

lemma bindE_eq_Inl: "bindE m f = Inl e \<longleftrightarrow> m = Inl e \<or> (\<exists>x. m = Inr x \<and> f x = Inl e)"
  by (cases m) auto

lemma bindE_assoc [simp]: "bindE (bindE m f) g = bindE m (\<lambda>x. bindE (f x) g)"
  by (cases m) auto

lemma bindE_cong [fundef_cong]:
  "m = m' \<Longrightarrow> (\<And>x. m' = Inr x \<Longrightarrow> f x = f' x) \<Longrightarrow> bindE m f = bindE m' f'"
  by (cases m') auto

lemma bindE_raise_if:
  "bindE (raise_if c e) f = (if c then Inl e else f ())"
  by simp

text \<open>A list comprehension whose element may raise.\<close>

fun mapE :: "('a \<Rightarrow> 'e + 'b) \<Rightarrow> 'a list \<Rightarrow> 'e + 'b list" where
  "mapE f [] = Inr []"
| "mapE f (x # xs) = bindE (f x) (\<lambda>y. bindE (mapE f xs) (\<lambda>ys. Inr (y # ys)))"

section \<open>Little-endian integers\<close>

text \<open>
  \<open>int_to_le n v\<close> is \<^verbatim>\<open>v.to_bytes(n, "little")\<close> where the value fits, \<open>int_from_le\<close> is
  \<^verbatim>\<open>int.from_bytes(data, "little")\<close>.
\<close>

primrec int_to_le :: "nat \<Rightarrow> int \<Rightarrow> bytes" where
  "int_to_le 0 v = []"
| "int_to_le (Suc n) v = word_of_int v # int_to_le n (v div 256)"

primrec int_from_le :: "bytes \<Rightarrow> int" where
  "int_from_le [] = 0"
| "int_from_le (b # bs) = uint b + 256 * int_from_le bs"

lemma length_int_to_le [simp]: "length (int_to_le n v) = n"
  by (induction n arbitrary: v) auto

lemma uint_byte_bounds [simp]: "0 \<le> uint (b :: byte)" "uint (b :: byte) < 256"
  using uint_lt2p [of b] by auto

lemma uint_byte_le [simp]: "uint (b :: byte) \<le> 255"
  using uint_byte_bounds(2) [of b] by linarith

lemma int_from_le_nonneg [simp]: "0 \<le> int_from_le bs"
  by (induction bs) auto

lemma int_from_le_bound: "int_from_le bs < 256 ^ length bs"
proof (induction bs)
  case Nil
  then show ?case by simp
next
  case (Cons b bs)
  have "uint b < 256" by simp
  moreover from Cons have "256 * int_from_le bs + 256 \<le> 256 * 256 ^ length bs" by simp
  ultimately have "uint b + 256 * int_from_le bs < 256 * 256 ^ length bs" by linarith
  then show ?case by simp
qed

lemma uint_word_of_int_byte: "uint (word_of_int v :: byte) = v mod 256"
  by (simp add: uint_word_of_int)

lemma int_from_to_le: "0 \<le> v \<Longrightarrow> v < 256 ^ n \<Longrightarrow> int_from_le (int_to_le n v) = v"
proof (induction n arbitrary: v)
  case 0
  then show ?case by simp
next
  case (Suc n)
  then have "v div 256 < 256 ^ n" "0 \<le> v div 256"
    by (simp_all add: div_less_iff_less_mult mult.commute)
  then show ?case
    using Suc.IH [of "v div 256"] by (simp add: uint_word_of_int_byte)
qed

lemma int_to_from_le: "int_to_le (length bs) (int_from_le bs) = bs"
proof (induction bs)
  case Nil
  then show ?case by simp
next
  case (Cons b bs)
  have "word_of_int (uint b + 256 * int_from_le bs) = b"
    by (simp only: word_uint_eq_iff uint_word_of_int_byte) simp
  moreover have "(uint b + 256 * int_from_le bs) div 256 = int_from_le bs"
    by simp
  ultimately show ?case using Cons by simp
qed

section \<open>Enumerations with wire values\<close>

text \<open>
  An \<^verbatim>\<open>IntEnum\<close> is a datatype with the value of each member and the list of its members.
  \<^verbatim>\<open>Enum(value)\<close> is the search for the member with that value; \<open>None\<close> is Python's
  ValueError. What every client relies on follows from the members being all of the type
  and their values being distinct.
\<close>

locale wire_enum =
  fixes val :: "'e \<Rightarrow> int"
    and members :: "'e list"
    and of_val :: "int \<Rightarrow> 'e option"
  assumes of_val_find: "of_val v = find (\<lambda>m. val m = v) members"
    and all_members: "m \<in> set members"
    and distinct_vals: "distinct (map val members)"
begin

lemma val_inj: "val a = val b \<Longrightarrow> a = b"
  using distinct_vals all_members [of a] all_members [of b]
  by (auto simp: distinct_map dest: inj_onD)

lemma of_val_eq_Some: "of_val v = Some m \<longleftrightarrow> val m = v"
proof
  assume "of_val v = Some m"
  then show "val m = v" by (auto simp: of_val_find find_Some_iff)
next
  assume m: "val m = v"
  then have "of_val v \<noteq> None"
    using all_members [of m] by (auto simp: of_val_find find_None_iff)
  then obtain m' where "of_val v = Some m'" by auto
  moreover from this have "val m' = v" by (auto simp: of_val_find find_Some_iff)
  ultimately show "of_val v = Some m" using m val_inj by metis
qed

lemma of_val_val: "of_val (val m) = Some m"
  by (simp add: of_val_eq_Some)

lemma of_val_None: "of_val v = None \<longleftrightarrow> v \<notin> range val"
  by (metis not_Some_eq of_val_eq_Some rangeE rangeI)

end

section \<open>Frames that tolerate trailing bytes\<close>

text \<open>
  A layer's frame carries its own length: a decoder returns the frame even when bytes
  follow it, which is what lets the cipher's zero padding pass. The contract is stated
  once; unique decodability follows for every layer that keeps it.
\<close>

locale padded_frame =
  fixes to_b :: "'a \<Rightarrow> 'e + bytes"
    and from_b :: "bytes \<Rightarrow> 'e + 'a"
    and ok :: "'a \<Rightarrow> bool"
  assumes to_b_ok: "ok x \<Longrightarrow> \<exists>bs. to_b x = Inr bs"
    and from_to_b: "ok x \<Longrightarrow> to_b x = Inr bs \<Longrightarrow> from_b (bs @ pad) = Inr x"
begin

lemma from_to_exact: "ok x \<Longrightarrow> to_b x = Inr bs \<Longrightarrow> from_b bs = Inr x"
  using from_to_b [of x bs "[]"] by simp

lemma unique_decoding:
  assumes "ok x" "ok y" "to_b x = Inr a" "to_b y = Inr b" "a @ r = b @ s"
  shows "x = y \<and> r = s"
proof -
  from from_to_b [OF assms(1,3), of r] from_to_b [OF assms(2,4), of s] assms(5)
  have "x = y" by simp
  with assms(3,4,5) show ?thesis by simp
qed

end

section \<open>Reachable states and invariants\<close>

inductive reach :: "('s \<Rightarrow> bool) \<Rightarrow> ('s \<Rightarrow> 's \<Rightarrow> bool) \<Rightarrow> 's \<Rightarrow> bool"
  for start :: "'s \<Rightarrow> bool" and stp :: "'s \<Rightarrow> 's \<Rightarrow> bool" where
  reach_start: "start s \<Longrightarrow> reach start stp s"
| reach_step: "reach start stp s \<Longrightarrow> stp s t \<Longrightarrow> reach start stp t"

locale state_machine =
  fixes start :: "'s \<Rightarrow> bool"
    and stp :: "'s \<Rightarrow> 's \<Rightarrow> bool"
    and inv :: "'s \<Rightarrow> bool"
  assumes inv_start: "start s \<Longrightarrow> inv s"
    and inv_step: "inv s \<Longrightarrow> stp s t \<Longrightarrow> inv t"
begin

lemma reach_inv: "reach start stp s \<Longrightarrow> inv s"
  by (induction rule: reach.induct) (auto intro: inv_start inv_step)

end

text \<open>A machine that implements a simpler one: each of its steps is a step there, or none.\<close>

locale simulation = state_machine start stp inv
  for start :: "'s \<Rightarrow> bool" and stp :: "'s \<Rightarrow> 's \<Rightarrow> bool" and inv :: "'s \<Rightarrow> bool" +
  fixes abs :: "'s \<Rightarrow> 'a"
    and astart :: "'a \<Rightarrow> bool"
    and astp :: "'a \<Rightarrow> 'a \<Rightarrow> bool"
  assumes abs_start: "start s \<Longrightarrow> astart (abs s)"
    and abs_step: "inv s \<Longrightarrow> stp s t \<Longrightarrow> abs t = abs s \<or> astp (abs s) (abs t)"
begin

lemma reach_abs: "reach start stp s \<Longrightarrow> reach astart astp (abs s)"
proof (induction rule: reach.induct)
  case (reach_start s)
  then show ?case by (intro reach.reach_start abs_start)
next
  case (reach_step s t)
  then show ?case using abs_step [OF reach_inv [OF reach_step.hyps(1)] reach_step.hyps(2)]
    by (auto intro: reach.reach_step)
qed

end

section \<open>Stores\<close>

text \<open>
  What a client asks of a place where values are kept under keys: what was put there last is
  what is read, and a value put under one key leaves the others.
\<close>

locale keyed_store =
  fixes put :: "'v \<Rightarrow> 'd \<Rightarrow> 'd"
    and get :: "'d \<Rightarrow> 'k \<Rightarrow> 'r"
    and key :: "'v \<Rightarrow> 'k"
    and shown :: "'v \<Rightarrow> 'r"
    and good :: "'v \<Rightarrow> bool"
  assumes get_put: "good v \<Longrightarrow> get (put v d) (key v) = shown v"
    and get_other: "k \<noteq> key v \<Longrightarrow> get (put v d) k = get d k"
begin

lemma get_others: "k \<notin> key ` set vs \<Longrightarrow> get (fold put vs d) k = get d k"
  by (induction vs arbitrary: d) (simp_all add: get_other)

lemma get_last: "good v \<Longrightarrow> key v \<notin> key ` set ws \<Longrightarrow> get (fold put (vs @ v # ws) d) (key v) = shown v"
  by (simp add: get_others get_put)

end

section \<open>Lists\<close>

lemma find_SomeD: "find P xs = Some x \<Longrightarrow> x \<in> set xs \<and> P x"
  by (auto simp: find_Some_iff)

lemma take_append_exact [simp]: "length xs = n \<Longrightarrow> take n (xs @ ys) = xs"
  by simp

lemma drop_append_exact [simp]: "length xs = n \<Longrightarrow> drop n (xs @ ys) = ys"
  by simp

lemma take_length_split: "n \<le> length xs \<Longrightarrow> \<exists>a b. xs = a @ b \<and> length a = n"
  by (metis append_take_drop_id length_take min.absorb2)

end
