(* ===== verification/Wire_Const.thy ===== *)
theory Wire_Const
  imports Prelude
begin

text \<open>
  The wire constants and enumerations of \<^verbatim>\<open>ble/protocol/const.py\<close>: sizes, slot ranges,
  firmware floors, and each \<^verbatim>\<open>IntEnum\<close> as a datatype with its values. Every enumeration is
  an interpretation of \<open>wire_enum\<close>, so \<open>..._of\<close> inverts \<open>..._value\<close> and fails on every
  other byte.
\<close>

section \<open>Sizes and ranges\<close>

definition DEFAULT_MTU :: int where [simp]: "DEFAULT_MTU = 23"
definition ATT_OVERHEAD :: int where [simp]: "ATT_OVERHEAD = 3"
definition PACKET_HEADER_SIZE :: int where [simp]: "PACKET_HEADER_SIZE = 4"
definition PACKET_PAYLOAD_MAX :: int where [simp]: "PACKET_PAYLOAD_MAX = 255"
definition FIRST_SEQUENCE_NUMBER :: int where [simp]: "FIRST_SEQUENCE_NUMBER = 1"
definition COMMAND_HEADER_SIZE :: int where [simp]: "COMMAND_HEADER_SIZE = 4"
definition COMMAND_REF_MIN :: int where [simp]: "COMMAND_REF_MIN = 1"
definition COMMAND_REF_MAX :: int where [simp]: "COMMAND_REF_MAX = 254"
definition COMMAND_REF_STATIC :: int where [simp]: "COMMAND_REF_STATIC = 16"
definition COMMAND_REF_COUNTER_WRAP :: int where [simp]: "COMMAND_REF_COUNTER_WRAP = 128"
definition RESPONSE_HEADER_SIZE :: int where [simp]: "RESPONSE_HEADER_SIZE = 4"
definition BLOB_HEADER_SIZE :: int where [simp]: "BLOB_HEADER_SIZE = 4"
definition BLOB_FLAG_ENCRYPTED :: int where [simp]: "BLOB_FLAG_ENCRYPTED = 1"

definition PUBLIC_KEY_LENGTH :: int where [simp]: "PUBLIC_KEY_LENGTH = 64"
definition CHALLENGE_LENGTH :: int where [simp]: "CHALLENGE_LENGTH = 16"
definition DEVICE_ID_LENGTH :: int where [simp]: "DEVICE_ID_LENGTH = 6"
definition DEVICE_ID_SEED_LENGTH :: int where [simp]: "DEVICE_ID_SEED_LENGTH = 2"
definition DEFAULT_DEVICE_ID_SEED :: bytes where [simp]: "DEFAULT_DEVICE_ID_SEED = [0, 0]"

definition DEVICE_NAME_MAX_LENGTH :: int where [simp]: "DEVICE_NAME_MAX_LENGTH = 9"
definition PIN_LENGTH_MIN :: int where [simp]: "PIN_LENGTH_MIN = 4"
definition PIN_LENGTH_MAX :: int where [simp]: "PIN_LENGTH_MAX = 8"

text \<open>A Python \<^verbatim>\<open>range\<close> is its start and its end (exclusive).\<close>

type_synonym slot_range = "int \<times> int"

definition in_range :: "int \<Rightarrow> slot_range \<Rightarrow> bool" where
  [simp]: "in_range slot r = (fst r \<le> slot \<and> slot < snd r)"

definition PIN_SLOTS :: slot_range where [simp]: "PIN_SLOTS = (800, 900)"
definition FINGERPRINT_SLOTS :: slot_range where [simp]: "FINGERPRINT_SLOTS = (150, 200)"
definition RFID_SLOTS :: slot_range where [simp]: "RFID_SLOTS = (900, 1000)"

definition MIN_FIRMWARE_ADMIN :: firmware_version where
  [simp]: "MIN_FIRMWARE_ADMIN = (4, 7, 90)"

section \<open>Enumerations\<close>

subsection \<open>PacketTypeId\<close>

datatype packet_type_id =
    PT_SINGLE | PT_SINGLE_ENCRYPTED | PT_BLOB_START | PT_BLOB_STREAM | PT_BLOB_COMPLETE
  | PT_ACK | PT_NAC | PT_ERROR

primrec packet_type_value :: "packet_type_id \<Rightarrow> int" where
  "packet_type_value PT_SINGLE = 1"
| "packet_type_value PT_SINGLE_ENCRYPTED = 2"
| "packet_type_value PT_BLOB_START = 3"
| "packet_type_value PT_BLOB_STREAM = 4"
| "packet_type_value PT_BLOB_COMPLETE = 5"
| "packet_type_value PT_ACK = 6"
| "packet_type_value PT_NAC = 7"
| "packet_type_value PT_ERROR = 240"

definition packet_type_members :: "packet_type_id list" where
  "packet_type_members =
    [PT_SINGLE, PT_SINGLE_ENCRYPTED, PT_BLOB_START, PT_BLOB_STREAM, PT_BLOB_COMPLETE, PT_ACK,
     PT_NAC, PT_ERROR]"

definition packet_type_of :: "int \<Rightarrow> packet_type_id option" where
  "packet_type_of v = find (\<lambda>m. packet_type_value m = v) packet_type_members"

lemma packet_type_members_all: "m \<in> set packet_type_members"
  by (cases m) (simp_all add: packet_type_members_def)

lemma packet_type_values_distinct: "distinct (map packet_type_value packet_type_members)"
  by (simp add: packet_type_members_def)

interpretation packet_type_enum: wire_enum packet_type_value packet_type_members packet_type_of
  by unfold_locales (simp_all add: packet_type_of_def packet_type_members_all packet_type_values_distinct)

lemmas packet_type_of_value [simp] = packet_type_enum.of_val_val

subsection \<open>CommandId\<close>

datatype command_id =
    CMD_EXCHANGE_KEY_PUB_M | CMD_EKEY_USER_AUTH | CMD_EKEY_OPERATE | CMD_EKEY_USER_ADD
  | CMD_EKEY_USER_REMOVE | CMD_EKEY_USERS_LIST | CMD_EKEY_DEVICE_INFO_GET
  | CMD_EKEY_DEVICE_INFO_SET | CMD_USER_AUTH_BEGIN | CMD_USER_AUTH_FINALIZE
  | CMD_USER_AUTH_UPDATE | CMD_DEVICE_ID_SET | CMD_DEVICE_ID_GET | CMD_DEVICE_NAME_SET
  | CMD_DEVICE_NAME_GET | CMD_CURRENT_TIME_GET | CMD_CURRENT_TIME_SET
  | CMD_SERVER_KEY_UPDATE | CMD_DEVICE_LOG_GET | CMD_PIN_CODE_SET | CMD_PIN_CODE_CLEAR
  | CMD_RFID_CODE_CLEAR | CMD_SCAN_RFID_CODE | CMD_FINGERPRINT_SCAN | CMD_FINGERPRINT_CLEAR
  | CMD_VOLUME_SET | CMD_AUTO_LOCK_SET | CMD_KEYPAD_ENABLE_SET | CMD_BATT_INFO_GET
  | CMD_DEVICE_MODEL_GET | CMD_FACTORY_RESET_MODULE

primrec command_value :: "command_id \<Rightarrow> int" where
  "command_value CMD_EXCHANGE_KEY_PUB_M = 1"
| "command_value CMD_EKEY_USER_AUTH = 23"
| "command_value CMD_EKEY_OPERATE = 24"
| "command_value CMD_EKEY_USER_ADD = 27"
| "command_value CMD_EKEY_USER_REMOVE = 28"
| "command_value CMD_EKEY_USERS_LIST = 29"
| "command_value CMD_EKEY_DEVICE_INFO_GET = 31"
| "command_value CMD_EKEY_DEVICE_INFO_SET = 32"
| "command_value CMD_USER_AUTH_BEGIN = 34"
| "command_value CMD_USER_AUTH_FINALIZE = 35"
| "command_value CMD_USER_AUTH_UPDATE = 36"
| "command_value CMD_DEVICE_ID_SET = 48"
| "command_value CMD_DEVICE_ID_GET = 49"
| "command_value CMD_DEVICE_NAME_SET = 50"
| "command_value CMD_DEVICE_NAME_GET = 51"
| "command_value CMD_CURRENT_TIME_GET = 64"
| "command_value CMD_CURRENT_TIME_SET = 65"
| "command_value CMD_SERVER_KEY_UPDATE = 66"
| "command_value CMD_DEVICE_LOG_GET = 68"
| "command_value CMD_PIN_CODE_SET = 82"
| "command_value CMD_PIN_CODE_CLEAR = 83"
| "command_value CMD_RFID_CODE_CLEAR = 85"
| "command_value CMD_SCAN_RFID_CODE = 86"
| "command_value CMD_FINGERPRINT_SCAN = 87"
| "command_value CMD_FINGERPRINT_CLEAR = 88"
| "command_value CMD_VOLUME_SET = 90"
| "command_value CMD_AUTO_LOCK_SET = 91"
| "command_value CMD_KEYPAD_ENABLE_SET = 92"
| "command_value CMD_BATT_INFO_GET = 93"
| "command_value CMD_DEVICE_MODEL_GET = 98"
| "command_value CMD_FACTORY_RESET_MODULE = 112"

definition command_members :: "command_id list" where
  "command_members =
    [CMD_EXCHANGE_KEY_PUB_M, CMD_EKEY_USER_AUTH, CMD_EKEY_OPERATE, CMD_EKEY_USER_ADD,
     CMD_EKEY_USER_REMOVE, CMD_EKEY_USERS_LIST, CMD_EKEY_DEVICE_INFO_GET,
     CMD_EKEY_DEVICE_INFO_SET, CMD_USER_AUTH_BEGIN, CMD_USER_AUTH_FINALIZE,
     CMD_USER_AUTH_UPDATE, CMD_DEVICE_ID_SET, CMD_DEVICE_ID_GET, CMD_DEVICE_NAME_SET,
     CMD_DEVICE_NAME_GET, CMD_CURRENT_TIME_GET, CMD_CURRENT_TIME_SET, CMD_SERVER_KEY_UPDATE,
     CMD_DEVICE_LOG_GET, CMD_PIN_CODE_SET, CMD_PIN_CODE_CLEAR, CMD_RFID_CODE_CLEAR,
     CMD_SCAN_RFID_CODE, CMD_FINGERPRINT_SCAN, CMD_FINGERPRINT_CLEAR, CMD_VOLUME_SET,
     CMD_AUTO_LOCK_SET, CMD_KEYPAD_ENABLE_SET, CMD_BATT_INFO_GET, CMD_DEVICE_MODEL_GET,
     CMD_FACTORY_RESET_MODULE]"

definition command_of :: "int \<Rightarrow> command_id option" where
  "command_of v = find (\<lambda>m. command_value m = v) command_members"

lemma command_members_all: "m \<in> set command_members"
  by (cases m) (simp_all add: command_members_def)

lemma command_values_distinct: "distinct (map command_value command_members)"
  by (simp add: command_members_def)

interpretation command_enum: wire_enum command_value command_members command_of
  by unfold_locales (simp_all add: command_of_def command_members_all command_values_distinct)

lemmas command_of_value [simp] = command_enum.of_val_val

subsection \<open>ResponseId\<close>

datatype response_id =
    RSP_EXCHANGE_KEY_PUB_L | RSP_EKEY_USER_AUTH | RSP_EKEY_OPERATE | RSP_EKEY_USER_ADD
  | RSP_EKEY_USER_REMOVE | RSP_EKEY_USERS_LIST | RSP_EKEY_DEVICE_INFO_GET
  | RSP_EKEY_DEVICE_INFO_SET | RSP_USER_ADDED | RSP_USER_AUTH_BEGIN | RSP_USER_AUTH_FINALIZE
  | RSP_USER_AUTH_UPDATE | RSP_DEVICE_ID_SET | RSP_DEVICE_ID_GET | RSP_DEVICE_NAME_SET
  | RSP_DEVICE_NAME_GET | RSP_CURRENT_TIME_GET | RSP_CURRENT_TIME_SET
  | RSP_SERVER_KEY_UPDATE | RSP_DEVICE_LOG_GET | RSP_PIN_CODE_SET | RSP_PIN_CODE_CLEAR
  | RSP_RFID_CODE_CLEAR | RSP_SCAN_RFID_CODE | RSP_FINGERPRINT_SCAN | RSP_FINGERPRINT_CLEAR
  | RSP_VOLUME_SET | RSP_AUTO_LOCK_SET | RSP_KEYPAD_ENABLE_SET | RSP_BATT_INFO_GET
  | RSP_LOCK_STATUS | RSP_DEVICE_MODEL_GET | RSP_FACTORY_RESET_MODULE

primrec response_value :: "response_id \<Rightarrow> int" where
  "response_value RSP_EXCHANGE_KEY_PUB_L = 1"
| "response_value RSP_EKEY_USER_AUTH = 23"
| "response_value RSP_EKEY_OPERATE = 24"
| "response_value RSP_EKEY_USER_ADD = 27"
| "response_value RSP_EKEY_USER_REMOVE = 28"
| "response_value RSP_EKEY_USERS_LIST = 29"
| "response_value RSP_EKEY_DEVICE_INFO_GET = 31"
| "response_value RSP_EKEY_DEVICE_INFO_SET = 32"
| "response_value RSP_USER_ADDED = 20"
| "response_value RSP_USER_AUTH_BEGIN = 34"
| "response_value RSP_USER_AUTH_FINALIZE = 35"
| "response_value RSP_USER_AUTH_UPDATE = 36"
| "response_value RSP_DEVICE_ID_SET = 48"
| "response_value RSP_DEVICE_ID_GET = 49"
| "response_value RSP_DEVICE_NAME_SET = 50"
| "response_value RSP_DEVICE_NAME_GET = 51"
| "response_value RSP_CURRENT_TIME_GET = 64"
| "response_value RSP_CURRENT_TIME_SET = 65"
| "response_value RSP_SERVER_KEY_UPDATE = 66"
| "response_value RSP_DEVICE_LOG_GET = 68"
| "response_value RSP_PIN_CODE_SET = 82"
| "response_value RSP_PIN_CODE_CLEAR = 83"
| "response_value RSP_RFID_CODE_CLEAR = 85"
| "response_value RSP_SCAN_RFID_CODE = 86"
| "response_value RSP_FINGERPRINT_SCAN = 87"
| "response_value RSP_FINGERPRINT_CLEAR = 88"
| "response_value RSP_VOLUME_SET = 90"
| "response_value RSP_AUTO_LOCK_SET = 91"
| "response_value RSP_KEYPAD_ENABLE_SET = 92"
| "response_value RSP_BATT_INFO_GET = 93"
| "response_value RSP_LOCK_STATUS = 96"
| "response_value RSP_DEVICE_MODEL_GET = 98"
| "response_value RSP_FACTORY_RESET_MODULE = 112"

definition response_members :: "response_id list" where
  "response_members =
    [RSP_EXCHANGE_KEY_PUB_L, RSP_EKEY_USER_AUTH, RSP_EKEY_OPERATE, RSP_EKEY_USER_ADD,
     RSP_EKEY_USER_REMOVE, RSP_EKEY_USERS_LIST, RSP_EKEY_DEVICE_INFO_GET,
     RSP_EKEY_DEVICE_INFO_SET, RSP_USER_ADDED, RSP_USER_AUTH_BEGIN, RSP_USER_AUTH_FINALIZE,
     RSP_USER_AUTH_UPDATE, RSP_DEVICE_ID_SET, RSP_DEVICE_ID_GET, RSP_DEVICE_NAME_SET,
     RSP_DEVICE_NAME_GET, RSP_CURRENT_TIME_GET, RSP_CURRENT_TIME_SET, RSP_SERVER_KEY_UPDATE,
     RSP_DEVICE_LOG_GET, RSP_PIN_CODE_SET, RSP_PIN_CODE_CLEAR, RSP_RFID_CODE_CLEAR,
     RSP_SCAN_RFID_CODE, RSP_FINGERPRINT_SCAN, RSP_FINGERPRINT_CLEAR, RSP_VOLUME_SET,
     RSP_AUTO_LOCK_SET, RSP_KEYPAD_ENABLE_SET, RSP_BATT_INFO_GET, RSP_LOCK_STATUS,
     RSP_DEVICE_MODEL_GET, RSP_FACTORY_RESET_MODULE]"

definition response_of :: "int \<Rightarrow> response_id option" where
  "response_of v = find (\<lambda>m. response_value m = v) response_members"

lemma response_members_all: "m \<in> set response_members"
  by (cases m) (simp_all add: response_members_def)

lemma response_values_distinct: "distinct (map response_value response_members)"
  by (simp add: response_members_def)

interpretation response_enum: wire_enum response_value response_members response_of
  by unfold_locales (simp_all add: response_of_def response_members_all response_values_distinct)

lemmas response_of_value [simp] = response_enum.of_val_val

subsection \<open>ResponseStatusId\<close>

datatype response_status_id =
    STATUS_SUCCESS | STATUS_FAILED | STATUS_NOT_AVAILABLE | STATUS_INTERNAL_ERROR
  | STATUS_PARAMETER_ERROR | STATUS_LENGTH_ERROR | STATUS_NOT_FOUND_ERROR
  | STATUS_NO_MATCH_ERROR | STATUS_NOT_SUPPORTED_ERROR | STATUS_NOT_VALID_ERROR
  | STATUS_SECURITY_ERROR

primrec status_value :: "response_status_id \<Rightarrow> int" where
  "status_value STATUS_SUCCESS = 0"
| "status_value STATUS_FAILED = 1"
| "status_value STATUS_NOT_AVAILABLE = 2"
| "status_value STATUS_INTERNAL_ERROR = 3"
| "status_value STATUS_PARAMETER_ERROR = 4"
| "status_value STATUS_LENGTH_ERROR = 5"
| "status_value STATUS_NOT_FOUND_ERROR = 6"
| "status_value STATUS_NO_MATCH_ERROR = 7"
| "status_value STATUS_NOT_SUPPORTED_ERROR = 8"
| "status_value STATUS_NOT_VALID_ERROR = 9"
| "status_value STATUS_SECURITY_ERROR = 10"

definition status_members :: "response_status_id list" where
  "status_members =
    [STATUS_SUCCESS, STATUS_FAILED, STATUS_NOT_AVAILABLE, STATUS_INTERNAL_ERROR,
     STATUS_PARAMETER_ERROR, STATUS_LENGTH_ERROR, STATUS_NOT_FOUND_ERROR,
     STATUS_NO_MATCH_ERROR, STATUS_NOT_SUPPORTED_ERROR, STATUS_NOT_VALID_ERROR,
     STATUS_SECURITY_ERROR]"

definition status_of :: "int \<Rightarrow> response_status_id option" where
  "status_of v = find (\<lambda>m. status_value m = v) status_members"

lemma status_members_all: "m \<in> set status_members"
  by (cases m) (simp_all add: status_members_def)

lemma status_values_distinct: "distinct (map status_value status_members)"
  by (simp add: status_members_def)

interpretation status_enum: wire_enum status_value status_members status_of
  by unfold_locales (simp_all add: status_of_def status_members_all status_values_distinct)

lemmas status_of_value [simp] = status_enum.of_val_val

subsection \<open>LockModelId\<close>

datatype lock_model_id =
    MODEL_UNKNOWN | MODEL_EASY_FINGER_TOUCH | MODEL_EASY_CODE_TOUCH | MODEL_NIMLY_CODE
  | MODEL_NIMLY_TOUCH | MODEL_NIMLY_PRO | MODEL_NIMLY_INDOOR | MODEL_NIMLY_KEYBOX
  | MODEL_NIMLY_TWIST | MODEL_NIMLY_CODE_2 | MODEL_NIMLY_TOUCH_2 | MODEL_NIMLY_PRO_24
  | MODEL_NIMLY_INDOOR_2 | MODEL_NIMLY_KEYBOX_2 | MODEL_NIMLY_TWIST_2

primrec model_value :: "lock_model_id \<Rightarrow> int" where
  "model_value MODEL_UNKNOWN = 0"
| "model_value MODEL_EASY_FINGER_TOUCH = 8"
| "model_value MODEL_EASY_CODE_TOUCH = 9"
| "model_value MODEL_NIMLY_CODE = 21"
| "model_value MODEL_NIMLY_TOUCH = 22"
| "model_value MODEL_NIMLY_PRO = 23"
| "model_value MODEL_NIMLY_INDOOR = 24"
| "model_value MODEL_NIMLY_KEYBOX = 26"
| "model_value MODEL_NIMLY_TWIST = 27"
| "model_value MODEL_NIMLY_CODE_2 = 31"
| "model_value MODEL_NIMLY_TOUCH_2 = 32"
| "model_value MODEL_NIMLY_PRO_24 = 33"
| "model_value MODEL_NIMLY_INDOOR_2 = 34"
| "model_value MODEL_NIMLY_KEYBOX_2 = 36"
| "model_value MODEL_NIMLY_TWIST_2 = 37"

definition model_members :: "lock_model_id list" where
  "model_members =
    [MODEL_UNKNOWN, MODEL_EASY_FINGER_TOUCH, MODEL_EASY_CODE_TOUCH, MODEL_NIMLY_CODE,
     MODEL_NIMLY_TOUCH, MODEL_NIMLY_PRO, MODEL_NIMLY_INDOOR, MODEL_NIMLY_KEYBOX,
     MODEL_NIMLY_TWIST, MODEL_NIMLY_CODE_2, MODEL_NIMLY_TOUCH_2, MODEL_NIMLY_PRO_24,
     MODEL_NIMLY_INDOOR_2, MODEL_NIMLY_KEYBOX_2, MODEL_NIMLY_TWIST_2]"

definition model_of :: "int \<Rightarrow> lock_model_id option" where
  "model_of v = find (\<lambda>m. model_value m = v) model_members"

lemma model_members_all: "m \<in> set model_members"
  by (cases m) (simp_all add: model_members_def)

lemma model_values_distinct: "distinct (map model_value model_members)"
  by (simp add: model_members_def)

interpretation model_enum: wire_enum model_value model_members model_of
  by unfold_locales (simp_all add: model_of_def model_members_all model_values_distinct)

lemmas model_of_value [simp] = model_enum.of_val_val

subsection \<open>LockStatusId\<close>

datatype lock_status_id =
    SCAN_OK | SCAN_ERROR | SCAN_UNKNOWN_COMMAND | SCAN_CRC_ERROR | SCAN_INVALID_DATA
  | SCAN_NO_SPACE_LEFT | SCAN_NO_MATCH

primrec scan_status_value :: "lock_status_id \<Rightarrow> int" where
  "scan_status_value SCAN_OK = 0"
| "scan_status_value SCAN_ERROR = 1"
| "scan_status_value SCAN_UNKNOWN_COMMAND = 2"
| "scan_status_value SCAN_CRC_ERROR = 3"
| "scan_status_value SCAN_INVALID_DATA = 4"
| "scan_status_value SCAN_NO_SPACE_LEFT = 5"
| "scan_status_value SCAN_NO_MATCH = 6"

definition scan_status_members :: "lock_status_id list" where
  "scan_status_members =
    [SCAN_OK, SCAN_ERROR, SCAN_UNKNOWN_COMMAND, SCAN_CRC_ERROR, SCAN_INVALID_DATA,
     SCAN_NO_SPACE_LEFT, SCAN_NO_MATCH]"

definition scan_status_of :: "int \<Rightarrow> lock_status_id option" where
  "scan_status_of v = find (\<lambda>m. scan_status_value m = v) scan_status_members"

lemma scan_status_members_all: "m \<in> set scan_status_members"
  by (cases m) (simp_all add: scan_status_members_def)

lemma scan_status_values_distinct: "distinct (map scan_status_value scan_status_members)"
  by (simp add: scan_status_members_def)

interpretation scan_status_enum: wire_enum scan_status_value scan_status_members scan_status_of
  by unfold_locales (simp_all add: scan_status_of_def scan_status_members_all scan_status_values_distinct)

lemmas scan_status_of_value [simp] = scan_status_enum.of_val_val

subsection \<open>LockStateId\<close>

datatype lock_state_id =
    BOLT_LOCKED | BOLT_UNLOCKED

primrec bolt_state_value :: "lock_state_id \<Rightarrow> int" where
  "bolt_state_value BOLT_LOCKED = 1"
| "bolt_state_value BOLT_UNLOCKED = 2"

definition bolt_state_members :: "lock_state_id list" where
  "bolt_state_members =
    [BOLT_LOCKED, BOLT_UNLOCKED]"

definition bolt_state_of :: "int \<Rightarrow> lock_state_id option" where
  "bolt_state_of v = find (\<lambda>m. bolt_state_value m = v) bolt_state_members"

lemma bolt_state_members_all: "m \<in> set bolt_state_members"
  by (cases m) (simp_all add: bolt_state_members_def)

lemma bolt_state_values_distinct: "distinct (map bolt_state_value bolt_state_members)"
  by (simp add: bolt_state_members_def)

interpretation bolt_state_enum: wire_enum bolt_state_value bolt_state_members bolt_state_of
  by unfold_locales (simp_all add: bolt_state_of_def bolt_state_members_all bolt_state_values_distinct)

lemmas bolt_state_of_value [simp] = bolt_state_enum.of_val_val

subsection \<open>DoorlockMethodId\<close>

datatype doorlock_method_id =
    METHOD_KEY | METHOD_BUTTON | METHOD_PANEL | METHOD_FINGERPRINT | METHOD_RFID
  | METHOD_OTHER

primrec method_value :: "doorlock_method_id \<Rightarrow> int" where
  "method_value METHOD_KEY = 0"
| "method_value METHOD_BUTTON = 1"
| "method_value METHOD_PANEL = 2"
| "method_value METHOD_FINGERPRINT = 3"
| "method_value METHOD_RFID = 4"
| "method_value METHOD_OTHER = 5"

definition method_members :: "doorlock_method_id list" where
  "method_members =
    [METHOD_KEY, METHOD_BUTTON, METHOD_PANEL, METHOD_FINGERPRINT, METHOD_RFID, METHOD_OTHER]"

definition method_of :: "int \<Rightarrow> doorlock_method_id option" where
  "method_of v = find (\<lambda>m. method_value m = v) method_members"

lemma method_members_all: "m \<in> set method_members"
  by (cases m) (simp_all add: method_members_def)

lemma method_values_distinct: "distinct (map method_value method_members)"
  by (simp add: method_members_def)

interpretation method_enum: wire_enum method_value method_members method_of
  by unfold_locales (simp_all add: method_of_def method_members_all method_values_distinct)

lemmas method_of_value [simp] = method_enum.of_val_val

subsection \<open>EkeyOperationId\<close>

datatype ekey_operation_id =
    EKEY_OP_UNLOCK | EKEY_OP_LOCK | EKEY_OP_INVALIDATE_TOKEN

primrec ekey_op_value :: "ekey_operation_id \<Rightarrow> int" where
  "ekey_op_value EKEY_OP_UNLOCK = 1"
| "ekey_op_value EKEY_OP_LOCK = 2"
| "ekey_op_value EKEY_OP_INVALIDATE_TOKEN = 3"

definition ekey_op_members :: "ekey_operation_id list" where
  "ekey_op_members =
    [EKEY_OP_UNLOCK, EKEY_OP_LOCK, EKEY_OP_INVALIDATE_TOKEN]"

definition ekey_op_of :: "int \<Rightarrow> ekey_operation_id option" where
  "ekey_op_of v = find (\<lambda>m. ekey_op_value m = v) ekey_op_members"

lemma ekey_op_members_all: "m \<in> set ekey_op_members"
  by (cases m) (simp_all add: ekey_op_members_def)

lemma ekey_op_values_distinct: "distinct (map ekey_op_value ekey_op_members)"
  by (simp add: ekey_op_members_def)

interpretation ekey_op_enum: wire_enum ekey_op_value ekey_op_members ekey_op_of
  by unfold_locales (simp_all add: ekey_op_of_def ekey_op_members_all ekey_op_values_distinct)

lemmas ekey_op_of_value [simp] = ekey_op_enum.of_val_val

subsection \<open>LockVolumeId\<close>

datatype lock_volume_id =
    VOLUME_OFF | VOLUME_LOW | VOLUME_NORMAL

primrec volume_value :: "lock_volume_id \<Rightarrow> int" where
  "volume_value VOLUME_OFF = 0"
| "volume_value VOLUME_LOW = 1"
| "volume_value VOLUME_NORMAL = 2"

definition volume_members :: "lock_volume_id list" where
  "volume_members =
    [VOLUME_OFF, VOLUME_LOW, VOLUME_NORMAL]"

definition volume_of :: "int \<Rightarrow> lock_volume_id option" where
  "volume_of v = find (\<lambda>m. volume_value m = v) volume_members"

lemma volume_members_all: "m \<in> set volume_members"
  by (cases m) (simp_all add: volume_members_def)

lemma volume_values_distinct: "distinct (map volume_value volume_members)"
  by (simp add: volume_members_def)

interpretation volume_enum: wire_enum volume_value volume_members volume_of
  by unfold_locales (simp_all add: volume_of_def volume_members_all volume_values_distinct)

lemmas volume_of_value [simp] = volume_enum.of_val_val

subsection \<open>UserAddedStatusId\<close>

datatype user_added_status_id =
    ADDED_NOT_ADDED | ADDED_PIN_CODE | ADDED_RFID_CODE | ADDED_FINGERPRINT
  | ADDED_SLOT_OCCUPIED

primrec added_status_value :: "user_added_status_id \<Rightarrow> int" where
  "added_status_value ADDED_NOT_ADDED = 0"
| "added_status_value ADDED_PIN_CODE = 1"
| "added_status_value ADDED_RFID_CODE = 2"
| "added_status_value ADDED_FINGERPRINT = 3"
| "added_status_value ADDED_SLOT_OCCUPIED = 4"

definition added_status_members :: "user_added_status_id list" where
  "added_status_members =
    [ADDED_NOT_ADDED, ADDED_PIN_CODE, ADDED_RFID_CODE, ADDED_FINGERPRINT, ADDED_SLOT_OCCUPIED]"

definition added_status_of :: "int \<Rightarrow> user_added_status_id option" where
  "added_status_of v = find (\<lambda>m. added_status_value m = v) added_status_members"

lemma added_status_members_all: "m \<in> set added_status_members"
  by (cases m) (simp_all add: added_status_members_def)

lemma added_status_values_distinct: "distinct (map added_status_value added_status_members)"
  by (simp add: added_status_members_def)

interpretation added_status_enum: wire_enum added_status_value added_status_members added_status_of
  by unfold_locales (simp_all add: added_status_of_def added_status_members_all added_status_values_distinct)

lemmas added_status_of_value [simp] = added_status_enum.of_val_val
section \<open>Model features\<close>

record model_features =
  mf_fingerprint :: bool
  mf_keypad_enable :: bool
  mf_master_pin :: bool

datatype device_feature =
    AVAILABLE_ALWAYS
  | AVAILABLE
  | UNAVAILABLE
  | UNAVAILABLE_VERSION
  | UNAVAILABLE_UNKNOWN

definition feature_available :: "device_feature \<Rightarrow> bool" where
  "feature_available f = (f = AVAILABLE_ALWAYS \<or> f = AVAILABLE)"

abbreviation features3 :: "bool \<Rightarrow> bool \<Rightarrow> bool \<Rightarrow> model_features" where
  "features3 f k m \<equiv> \<lparr>mf_fingerprint = f, mf_keypad_enable = k, mf_master_pin = m\<rparr>"

primrec model_features_of :: "lock_model_id \<Rightarrow> model_features" where
  "model_features_of MODEL_UNKNOWN = features3 False False False"
| "model_features_of MODEL_EASY_FINGER_TOUCH = features3 True False False"
| "model_features_of MODEL_EASY_CODE_TOUCH = features3 False False False"
| "model_features_of MODEL_NIMLY_CODE = features3 False False False"
| "model_features_of MODEL_NIMLY_TOUCH = features3 False False False"
| "model_features_of MODEL_NIMLY_PRO = features3 True False False"
| "model_features_of MODEL_NIMLY_INDOOR = features3 False False False"
| "model_features_of MODEL_NIMLY_KEYBOX = features3 False False False"
| "model_features_of MODEL_NIMLY_TWIST = features3 False False False"
| "model_features_of MODEL_NIMLY_CODE_2 = features3 False True True"
| "model_features_of MODEL_NIMLY_TOUCH_2 = features3 False True True"
| "model_features_of MODEL_NIMLY_PRO_24 = features3 True True True"
| "model_features_of MODEL_NIMLY_INDOOR_2 = features3 False True True"
| "model_features_of MODEL_NIMLY_KEYBOX_2 = features3 False True True"
| "model_features_of MODEL_NIMLY_TWIST_2 = features3 False True True"

text \<open>The master PIN is offered on exactly the models whose keypad can be disabled.\<close>

lemma master_pin_iff_keypad_enable:
  "mf_master_pin (model_features_of m) = mf_keypad_enable (model_features_of m)"
  by (cases m) simp_all

section \<open>Known or raw values\<close>

text \<open>
  A byte that a newer firmware may have extended stays a raw int when it is no member
  (\<^verbatim>\<open>ResponseId | int\<close>). Comparing such a value with a member compares ints.
\<close>

datatype 'e raw_enum = Known 'e | Raw int

fun raw_value :: "('e \<Rightarrow> int) \<Rightarrow> 'e raw_enum \<Rightarrow> int" where
  "raw_value val (Known m) = val m"
| "raw_value val (Raw v) = v"

fun known :: "(int \<Rightarrow> 'e option) \<Rightarrow> int \<Rightarrow> 'e raw_enum" where
  "known of_val v = (case of_val v of Some m \<Rightarrow> Known m | None \<Rightarrow> Raw v)"

context wire_enum
begin

lemma raw_value_known: "raw_value val (known of_val v) = v"
  by (auto simp: of_val_eq_Some split: option.splits)

lemma known_val: "known of_val (val m) = Known m"
  by (simp add: of_val_val)

end

end
