(* ===== verification/Ble_Errors.thy ===== *)
theory Ble_Errors
  imports Wire_Const
begin

text \<open>
  The exceptions of \<^verbatim>\<open>ble/errors.py\<close>. A message is its template and the numbers formatted
  into it, so that what an error can disclose is part of the model: the templates and the
  numbers are all a caller, or a log, sees. \<open>PyException\<close> stands for an exception that is not
  a BleError: a ValueError of the standard library, or whatever a caller's own transport
  or callback raises.
\<close>

type_synonym msg = "string \<times> int list"

datatype operation_error_class =
    BleOperationErrorBase
  | BleFailedError
  | BleNotAvailableError
  | BleInternalError
  | BleParameterError
  | BleLengthError
  | BleNotFoundError
  | BleNoMatchError
  | BleNotSupportedError
  | BleNotValidError
  | BleSecurityError

datatype ble_error =
    BleError msg
  | BleValidationError msg
  | BleSessionStateError msg
  | BleProtocolError msg
  | BleTimeoutError msg
  | BleDisconnectedError msg
  | BleFirmwareTooOldError firmware_version firmware_version
  | BleFeatureUnavailableError command_id device_feature firmware_version "lock_model_id option"
  | BleOperationError operation_error_class int int
  | PyException string

type_synonym 'a res = "ble_error + 'a"

definition is_protocol_error :: "ble_error \<Rightarrow> bool" where
  "is_protocol_error e = (case e of BleProtocolError m \<Rightarrow> True | _ \<Rightarrow> False)"

definition is_ble_error :: "ble_error \<Rightarrow> bool" where
  "is_ble_error e = (case e of PyException m \<Rightarrow> False | _ \<Rightarrow> True)"

definition is_security_error :: "ble_error \<Rightarrow> bool" where
  "is_security_error e =
     (case e of BleOperationError c s i \<Rightarrow> c = BleSecurityError | _ \<Rightarrow> False)"

lemma is_protocol_error_simps [simp]:
  "is_protocol_error (BleProtocolError m)"
  "\<not> is_protocol_error (BleError m)"
  "\<not> is_protocol_error (BleValidationError m)"
  "\<not> is_protocol_error (BleSessionStateError m)"
  "\<not> is_protocol_error (BleTimeoutError m)"
  "\<not> is_protocol_error (BleDisconnectedError m)"
  "\<not> is_protocol_error (BleOperationError c s i)"
  "\<not> is_protocol_error (PyException t)"
  by (simp_all add: is_protocol_error_def)

section \<open>The exception of a failed status\<close>

primrec status_error_class :: "response_status_id \<Rightarrow> operation_error_class" where
  "status_error_class STATUS_SUCCESS = BleOperationErrorBase"
| "status_error_class STATUS_FAILED = BleFailedError"
| "status_error_class STATUS_NOT_AVAILABLE = BleNotAvailableError"
| "status_error_class STATUS_INTERNAL_ERROR = BleInternalError"
| "status_error_class STATUS_PARAMETER_ERROR = BleParameterError"
| "status_error_class STATUS_LENGTH_ERROR = BleLengthError"
| "status_error_class STATUS_NOT_FOUND_ERROR = BleNotFoundError"
| "status_error_class STATUS_NO_MATCH_ERROR = BleNoMatchError"
| "status_error_class STATUS_NOT_SUPPORTED_ERROR = BleNotSupportedError"
| "status_error_class STATUS_NOT_VALID_ERROR = BleNotValidError"
| "status_error_class STATUS_SECURITY_ERROR = BleSecurityError"

text \<open>
  \<^verbatim>\<open>error_for_status\<close> returns the exception to raise, and itself raises when asked for the
  error of SUCCESS. \<open>cmd\<close> is the id of the command or response the error names.
\<close>

definition error_for_status :: "int \<Rightarrow> int \<Rightarrow> ble_error res" where
  "error_for_status status cmd =
     (if status = status_value STATUS_SUCCESS
      then Inl (BleValidationError (''SUCCESS is not an error status'', []))
      else case status_of status of
             None \<Rightarrow> Inr (BleOperationError BleOperationErrorBase status cmd)
           | Some s \<Rightarrow> Inr (BleOperationError (status_error_class s) (status_value s) cmd))"

lemma error_for_status_value:
  "s \<noteq> STATUS_SUCCESS \<Longrightarrow>
    error_for_status (status_value s) cmd
      = Inr (BleOperationError (status_error_class s) (status_value s) cmd)"
  by (cases s) (simp_all add: error_for_status_def status_of_def status_members_def)

lemma status_error_class_inj:
  "status_error_class s = status_error_class t \<Longrightarrow> s = t"
  by (cases s; cases t) simp_all

lemma error_for_status_total:
  "status \<noteq> 0 \<Longrightarrow> \<exists>c. error_for_status status cmd = Inr (BleOperationError c status cmd)"
  by (auto simp: error_for_status_def status_enum.of_val_eq_Some split: option.splits)

end
