(* ===== verification/Streams.thy ===== *)
theory Streams
  imports Ble_Errors
begin

text \<open>
  \<^verbatim>\<open>ble/protocol/streams.py\<close>: the reader (a byte string and a position) and the writer (the
  bytes written so far). Reads past the end are protocol errors, writes that do not fit
  are validation errors. \<open>reader_at done rest\<close> is the reader that has consumed \<open>done\<close> and
  has \<open>rest\<close> ahead; stated over it, each read is one rewrite step.
\<close>

section \<open>ByteReader\<close>

record byte_reader =
  rd_data :: bytes
  rd_pos :: nat

definition byte_reader_init :: "bytes \<Rightarrow> byte_reader" where
  "byte_reader_init data = \<lparr>rd_data = data, rd_pos = 0\<rparr>"

definition remaining :: "byte_reader \<Rightarrow> int" where
  "remaining r = int (length (rd_data r)) - int (rd_pos r)"

definition reader_take :: "byte_reader \<Rightarrow> int \<Rightarrow> (bytes \<times> byte_reader) res" where
  "reader_take r count =
     (if count < 0
      then Inl (BleValidationError (''Cannot read a negative number of bytes'', []))
      else if count > remaining r
      then Inl (BleProtocolError
             (''Tried to read {} byte(s), but only {} remain'', [count, remaining r]))
      else Inr (take (nat count) (drop (rd_pos r) (rd_data r)),
                r\<lparr>rd_pos := rd_pos r + nat count\<rparr>))"

definition read_uint8 :: "byte_reader \<Rightarrow> (int \<times> byte_reader) res" where
  "read_uint8 r = bindE (reader_take r 1) (\<lambda>(bs, r). Inr (uint (hd bs), r))"

definition read_uint16 :: "byte_reader \<Rightarrow> (int \<times> byte_reader) res" where
  "read_uint16 r = bindE (reader_take r 2) (\<lambda>(bs, r). Inr (int_from_le bs, r))"

definition read_uint32 :: "byte_reader \<Rightarrow> (int \<times> byte_reader) res" where
  "read_uint32 r = bindE (reader_take r 4) (\<lambda>(bs, r). Inr (int_from_le bs, r))"

definition read_bytes :: "byte_reader \<Rightarrow> int \<Rightarrow> (bytes \<times> byte_reader) res" where
  "read_bytes r count = reader_take r count"

definition read_rest :: "byte_reader \<Rightarrow> (bytes \<times> byte_reader) res" where
  "read_rest r = reader_take r (remaining r)"

text \<open>
  Decoding ASCII with \<^verbatim>\<open>errors="replace"\<close>: a byte above 127 becomes U+FFFD. A decoded
  string can therefore hold a code point no \<open>char\<close> stands for, so it is a list of code
  points.
\<close>

type_synonym code_points = "int list"

definition ascii_replace :: "bytes \<Rightarrow> code_points" where
  "ascii_replace bs = map (\<lambda>b. if uint b < 128 then uint b else 65533) bs"

definition read_string :: "byte_reader \<Rightarrow> int \<Rightarrow> (code_points \<times> byte_reader) res" where
  "read_string r width =
     bindE (reader_take r width) (\<lambda>(raw, r).
       if 0 \<in> set raw then Inr (ascii_replace (takeWhile (\<lambda>b. b \<noteq> 0) raw), r)
       else Inl (BleProtocolError (''String field of {} byte(s) has no NUL terminator'', [width])))"

section \<open>Reads as rewriting\<close>

definition reader_at :: "bytes \<Rightarrow> bytes \<Rightarrow> byte_reader" where
  "reader_at pre rest = \<lparr>rd_data = pre @ rest, rd_pos = length pre\<rparr>"

lemma uint_word_of_nat_byte: "uint (word_of_nat n :: byte) = int n mod 256"
  using uint_word_of_int_byte [of "int n"] by simp

lemma byte_reader_init_at [codec_simps]: "byte_reader_init data = reader_at [] data"
  by (simp add: byte_reader_init_def reader_at_def)

lemma remaining_at [codec_simps]: "remaining (reader_at pre rest) = int (length rest)"
  by (simp add: remaining_def reader_at_def)

lemma reader_take_at:
  "0 \<le> n \<Longrightarrow> int (length xs) = n \<Longrightarrow>
    reader_take (reader_at pre (xs @ rest)) n = Inr (xs, reader_at (pre @ xs) rest)"
  by (auto simp: reader_take_def remaining_def reader_at_def)

lemma reader_take_short:
  "0 \<le> n \<Longrightarrow> int (length rest) < n \<Longrightarrow>
    \<exists>m. reader_take (reader_at pre rest) n = Inl (BleProtocolError m)"
  by (auto simp: reader_take_def remaining_at)

lemma reader_take_Inr:
  "reader_take (reader_at pre rest) n = Inr (xs, r') \<longleftrightarrow>
    0 \<le> n \<and> n \<le> int (length rest) \<and> xs = take (nat n) rest
      \<and> r' = reader_at (pre @ take (nat n) rest) (drop (nat n) rest)"
  by (auto simp: reader_take_def remaining_def reader_at_def split: if_splits)

lemma read_uint8_at [codec_simps]:
  "read_uint8 (reader_at pre (b # rest)) = Inr (uint b, reader_at (pre @ [b]) rest)"
  using reader_take_at [of 1 "[b]" pre rest] by (simp add: read_uint8_def)

lemma read_uint16_at [codec_simps]:
  "read_uint16 (reader_at pre (a # b # rest))
     = Inr (int_from_le [a, b], reader_at (pre @ [a, b]) rest)"
  using reader_take_at [of 2 "[a, b]" pre rest] by (simp add: read_uint16_def)

lemma read_uint32_at [codec_simps]:
  "read_uint32 (reader_at pre (a # b # c # d # rest))
     = Inr (int_from_le [a, b, c, d], reader_at (pre @ [a, b, c, d]) rest)"
  using reader_take_at [of 4 "[a, b, c, d]" pre rest] by (simp add: read_uint32_def)

lemma read_bytes_at [codec_simps]:
  "int (length xs) = n \<Longrightarrow>
    read_bytes (reader_at pre (xs @ rest)) n = Inr (xs, reader_at (pre @ xs) rest)"
  using reader_take_at [of n xs pre rest] by (simp add: read_bytes_def)

lemma read_rest_at [codec_simps]:
  "read_rest (reader_at pre rest) = Inr (rest, reader_at (pre @ rest) [])"
  using reader_take_at [of "int (length rest)" rest pre "[]"]
  by (simp add: read_rest_def remaining_at)

text \<open>What a read on any reader can do: take a prefix of what is ahead, or fail.\<close>

lemma reader_take_error:
  "reader_take r n = Inl e \<Longrightarrow> 0 \<le> n \<Longrightarrow> is_protocol_error e"
  by (auto simp: reader_take_def split: if_splits)

lemma read_uint8_error: "read_uint8 r = Inl e \<Longrightarrow> is_protocol_error e"
  by (auto simp: read_uint8_def bindE_eq_Inl split: prod.splits dest: reader_take_error)

lemma read_uint16_error: "read_uint16 r = Inl e \<Longrightarrow> is_protocol_error e"
  by (auto simp: read_uint16_def bindE_eq_Inl split: prod.splits dest: reader_take_error)

lemma read_uint32_error: "read_uint32 r = Inl e \<Longrightarrow> is_protocol_error e"
  by (auto simp: read_uint32_def bindE_eq_Inl split: prod.splits dest: reader_take_error)

lemma read_bytes_error: "read_bytes r n = Inl e \<Longrightarrow> 0 \<le> n \<Longrightarrow> is_protocol_error e"
  by (auto simp: read_bytes_def dest: reader_take_error)

lemma read_string_error: "read_string r n = Inl e \<Longrightarrow> 0 \<le> n \<Longrightarrow> is_protocol_error e"
  by (auto simp: read_string_def bindE_eq_Inl split: prod.splits if_splits dest: reader_take_error)

lemma read_uint8_nonneg: "read_uint8 r = Inr (v, r') \<Longrightarrow> 0 \<le> v \<and> v < 256"
  by (auto simp: read_uint8_def bindE_eq_Inr)

lemmas read_errors =
  read_uint8_error read_uint16_error read_uint32_error read_bytes_error read_string_error

section \<open>ByteWriter\<close>

type_synonym byte_writer = bytes

definition byte_writer_init :: byte_writer where
  [codec_simps]: "byte_writer_init = []"

definition write_uint :: "byte_writer \<Rightarrow> int \<Rightarrow> nat \<Rightarrow> byte_writer res" where
  "write_uint w v width =
     (if \<not> (0 \<le> v \<and> v < 2 ^ (8 * width))
      then Inl (BleValidationError
             (''Value {} does not fit an unsigned {}-bit field'', [v, 8 * int width]))
      else Inr (w @ int_to_le width v))"

definition write_uint8 :: "byte_writer \<Rightarrow> int \<Rightarrow> byte_writer res" where
  "write_uint8 w v = write_uint w v 1"

definition write_uint16 :: "byte_writer \<Rightarrow> int \<Rightarrow> byte_writer res" where
  "write_uint16 w v = write_uint w v 2"

definition write_uint32 :: "byte_writer \<Rightarrow> int \<Rightarrow> byte_writer res" where
  "write_uint32 w v = write_uint w v 4"

definition write_bytes :: "byte_writer \<Rightarrow> bytes \<Rightarrow> byte_writer res" where
  [codec_simps]: "write_bytes w data = Inr (w @ data)"

definition isascii :: "string \<Rightarrow> bool" where
  "isascii t = (\<forall>c \<in> set t. of_char c < (128 :: int))"

definition ascii_encode :: "string \<Rightarrow> bytes" where
  "ascii_encode t = map of_char t"

definition ascii_error :: ble_error where
  "ascii_error = BleValidationError (''String is not plain ASCII'', [])"

definition write_raw_string :: "byte_writer \<Rightarrow> string \<Rightarrow> byte_writer res" where
  "write_raw_string w t =
     bindE (raise_if (\<not> isascii t) ascii_error) (\<lambda>_. write_bytes w (ascii_encode t))"

definition write_string :: "byte_writer \<Rightarrow> string \<Rightarrow> int \<Rightarrow> byte_writer res" where
  "write_string w t width =
     bindE (raise_if (\<not> isascii t) ascii_error) (\<lambda>_.
     bindE (raise_if (int (length t) \<ge> width)
              (BleValidationError (''String of {} characters does not fit a {}-byte field'',
                 [int (length t), width]))) (\<lambda>_.
     write_bytes w (ascii_encode t @ replicate (nat width - length t) 0)))"

lemma write_uint8_ok [codec_simps]:
  "0 \<le> v \<Longrightarrow> v < 256 \<Longrightarrow> write_uint8 w v = Inr (w @ [word_of_int v])"
  by (simp add: write_uint8_def write_uint_def)

lemma write_uint8_bad:
  "\<not> (0 \<le> v \<and> v < 256) \<Longrightarrow>
    write_uint8 w v = Inl (BleValidationError (''Value {} does not fit an unsigned {}-bit field'', [v, 8]))"
  by (auto simp: write_uint8_def write_uint_def)

lemma write_uint16_ok [codec_simps]:
  "0 \<le> v \<Longrightarrow> v < 65536 \<Longrightarrow> write_uint16 w v = Inr (w @ int_to_le 2 v)"
  by (simp add: write_uint16_def write_uint_def)

lemma write_uint32_ok [codec_simps]:
  "0 \<le> v \<Longrightarrow> v < 4294967296 \<Longrightarrow> write_uint32 w v = Inr (w @ int_to_le 4 v)"
  by (simp add: write_uint32_def write_uint_def)

lemma int_to_le_2: "int_to_le 2 v = [word_of_int v, word_of_int (v div 256)]"
  by (simp add: numeral_2_eq_2)

lemma int_from_le_2:
  "0 \<le> v \<Longrightarrow> v < 65536 \<Longrightarrow>
    int_from_le [word_of_int v, word_of_int (v div 256)] = v"
  using int_from_to_le [of v 2] by (simp only: int_to_le_2) simp

lemma int_to_le_4:
  "int_to_le 4 v = [word_of_int v, word_of_int (v div 256),
     word_of_int (v div 256 div 256), word_of_int (v div 256 div 256 div 256)]"
  by (simp add: eval_nat_numeral)

lemma int_from_le_4:
  "0 \<le> v \<Longrightarrow> v < 4294967296 \<Longrightarrow>
    int_from_le [word_of_int v, word_of_int (v div 256), word_of_int (v div 256 div 256),
      word_of_int (v div 256 div 256 div 256)] = v"
  using int_from_to_le [of v 4] by (simp only: int_to_le_4) simp

text \<open>A fixed-size string field reads back as the text that was written.\<close>

lemma of_char_int_bounds [simp]: "0 \<le> (of_char c :: int)" "(of_char c :: int) < 256"
proof -
  have eq: "(of_char c :: int) = of_char c mod 256" by simp
  show "0 \<le> (of_char c :: int)" by (subst eq) (rule pos_mod_sign, simp)
  show "(of_char c :: int) < 256" by (subst eq) (rule pos_mod_bound, simp)
qed

lemma uint_of_char_byte [simp]: "uint (of_char c :: byte) = of_char c"
proof -
  have "uint (of_char c :: byte) = uint (word_of_int (of_char c) :: byte)"
    by (simp add: of_int_of_char)
  also have "\<dots> = of_char c mod 256" by (rule uint_word_of_int_byte)
  finally show ?thesis by simp
qed

lemma of_char_byte_eq_0 [simp]: "(of_char c :: byte) = 0 \<longleftrightarrow> (of_char c :: int) = 0"
  by (simp flip: uint_of_char_byte add: uint_0_iff)

lemma length_ascii_encode [simp]: "length (ascii_encode t) = length t"
  by (simp add: ascii_encode_def)

lemma ascii_replace_encode:
  "isascii t \<Longrightarrow> ascii_replace (ascii_encode t) = map of_char t"
  by (auto simp: isascii_def ascii_replace_def ascii_encode_def)

lemma takeWhile_ascii_encode:
  "\<forall>c \<in> set t. (of_char c :: int) \<noteq> 0 \<Longrightarrow>
    takeWhile (\<lambda>b. b \<noteq> 0) (ascii_encode t @ replicate (Suc n) 0) = ascii_encode t"
  by (induction t) (auto simp: ascii_encode_def)

lemma read_write_string:
  assumes "write_string w t width = Inr w'" and "\<forall>c \<in> set t. (of_char c :: int) \<noteq> 0"
  shows "\<exists>f. w' = w @ f \<and> int (length f) = width
           \<and> read_string (reader_at pre (f @ rest)) width
               = Inr (map of_char t, reader_at (pre @ f) rest)"
proof -
  from assms(1) have t: "isascii t" and len: "int (length t) < width"
    and w': "w' = w @ ascii_encode t @ replicate (nat width - length t) 0"
    by (auto simp: write_string_def bindE_raise_if write_bytes_def split: if_splits)
  define f :: bytes where "f = ascii_encode t @ replicate (nat width - length t) 0"
  from len obtain n where n: "nat width - length t = Suc n"
    by (metis Suc_pred zero_less_diff zless_nat_eq_int_zless)
  have l: "int (length f) = width" using len by (simp add: f_def)
  have "0 \<in> set f" using n by (simp add: f_def)
  moreover have "takeWhile (\<lambda>b. b \<noteq> 0) f = ascii_encode t"
    using takeWhile_ascii_encode [OF assms(2), of n] n by (simp add: f_def)
  ultimately have "read_string (reader_at pre (f @ rest)) width
      = Inr (map of_char t, reader_at (pre @ f) rest)"
    using reader_take_at [of width f pre rest] l t by (simp add: read_string_def ascii_replace_encode)
  with l w' show ?thesis by (auto simp: f_def)
qed

end
