(* ===== verification/Blob.thy ===== *)
theory Blob
  imports Streams
begin

text \<open>
  \<^verbatim>\<open>ble/protocol/blob.py\<close>: the 4-byte header at the front of a BlobStart packet and the
  assembler that collects the chunks of one incoming blob. The invariant is that the
  buffer never outgrows the declared length, and a completed blob has exactly that length.
\<close>

unbundle bit_operations_syntax

definition BLOB_LENGTH_MAX :: int where [simp]: "BLOB_LENGTH_MAX = 65535"

section \<open>BlobHeader\<close>

record blob_header =
  bh_length :: int
  bh_flags :: int
  bh_rfu :: int

definition blob_header_for_payload :: "int \<Rightarrow> bool \<Rightarrow> blob_header" where
  "blob_header_for_payload len encrypted =
     \<lparr>bh_length = len, bh_flags = (if encrypted then BLOB_FLAG_ENCRYPTED else 0), bh_rfu = 0\<rparr>"

definition blob_header_encrypted :: "blob_header \<Rightarrow> bool" where
  "blob_header_encrypted h = (bh_flags h AND BLOB_FLAG_ENCRYPTED \<noteq> 0)"

definition blob_header_to_bytes :: "blob_header \<Rightarrow> bytes res" where
  "blob_header_to_bytes h =
     bindE (write_uint8 byte_writer_init (bh_flags h)) (\<lambda>w.
     bindE (write_uint16 w (bh_length h)) (\<lambda>w.
     write_uint8 w (bh_rfu h)))"

definition blob_header_split :: "bytes \<Rightarrow> (blob_header \<times> bytes) res" where
  "blob_header_split start_payload =
     bindE (raise_if (int (length start_payload) < BLOB_HEADER_SIZE)
              (BleProtocolError (''BlobStart payload is {} byte(s), shorter than the {}-byte header'',
                 [int (length start_payload), BLOB_HEADER_SIZE]))) (\<lambda>_.
     bindE (read_uint8 (byte_reader_init start_payload)) (\<lambda>(flags, r).
     bindE (read_uint16 r) (\<lambda>(len, r).
     bindE (read_uint8 r) (\<lambda>(rfu, r).
     bindE (read_rest r) (\<lambda>(rest, r).
     Inr (\<lparr>bh_length = len, bh_flags = flags, bh_rfu = rfu\<rparr>, rest))))))"

lemma blob_header_to_bytes_for_payload:
  "0 \<le> n \<Longrightarrow> n \<le> 65535 \<Longrightarrow>
    blob_header_to_bytes (blob_header_for_payload n enc)
      = Inr [if enc then 1 else 0, word_of_int n, word_of_int (n div 256), 0]"
  by (simp add: blob_header_to_bytes_def blob_header_for_payload_def codec_simps int_to_le_2)

lemma blob_header_split_bytes:
  "blob_header_split (a # b # c # d # rest)
     = Inr (\<lparr>bh_length = int_from_le [b, c], bh_flags = uint a, bh_rfu = uint d\<rparr>, rest)"
  by (simp add: blob_header_split_def codec_simps)

lemma blob_header_split_for_payload:
  "0 \<le> n \<Longrightarrow> n \<le> 65535 \<Longrightarrow>
    blob_header_split ([if enc then 1 else 0, word_of_int n, word_of_int (n div 256), 0] @ rest)
      = Inr (blob_header_for_payload n enc, rest)"
  using int_from_le_2 [of n]
  by (simp add: blob_header_split_bytes blob_header_for_payload_def)

lemma blob_header_for_payload_encrypted [simp]:
  "blob_header_encrypted (blob_header_for_payload n enc) = enc"
  by (simp add: blob_header_encrypted_def blob_header_for_payload_def)

lemma blob_header_for_payload_length [simp]:
  "bh_length (blob_header_for_payload n enc) = n"
  by (simp add: blob_header_for_payload_def)

text \<open>The only way the header of a BlobStart does not parse is being too short.\<close>

lemma four_bytes:
  "4 \<le> length xs \<Longrightarrow> \<exists>a b c d rest. xs = a # b # c # d # rest"
  by (auto simp: Suc_le_length_iff eval_nat_numeral)

lemma blob_header_split_cases:
  "(\<exists>m. blob_header_split p = Inl (BleProtocolError m)) \<and> length p < 4
   \<or> (\<exists>h rest. blob_header_split p = Inr (h, rest) \<and> 0 \<le> bh_length h \<and> bh_length h \<le> 65535
        \<and> length p = length rest + 4)"
proof (cases "length p < 4")
  case True
  then show ?thesis by (simp add: blob_header_split_def)
next
  case False
  then obtain a b c d rest where p: "p = a # b # c # d # rest" using four_bytes [of p] by auto
  have "int_from_le [b, c] < 65536" using int_from_le_bound [of "[b, c]"] by simp
  with p show ?thesis by (auto simp: blob_header_split_bytes)
qed

section \<open>BlobAssembler\<close>

record blob_assembler =
  ba_header :: blob_header
  ba_buffer :: bytes
  ba_complete :: bool

definition blob_append :: "blob_assembler \<Rightarrow> bytes \<Rightarrow> blob_assembler res" where
  "blob_append ba chunk =
     (if ba_complete ba then Inl (BleProtocolError (''Blob already completed'', []))
      else if int (length (ba_buffer ba) + length chunk) > bh_length (ba_header ba)
      then Inl (BleProtocolError
             (''Blob overflows its declared length of {} byte(s) ({} received)'',
              [bh_length (ba_header ba), int (length (ba_buffer ba) + length chunk)]))
      else Inr (ba\<lparr>ba_buffer := ba_buffer ba @ chunk\<rparr>))"

definition blob_assembler_init :: "bytes \<Rightarrow> blob_assembler res" where
  "blob_assembler_init start_payload =
     bindE (blob_header_split start_payload) (\<lambda>(header, first_chunk).
     blob_append \<lparr>ba_header = header, ba_buffer = [], ba_complete = False\<rparr> first_chunk)"

definition blob_encrypted :: "blob_assembler \<Rightarrow> bool" where
  "blob_encrypted ba = blob_header_encrypted (ba_header ba)"

definition blob_received :: "blob_assembler \<Rightarrow> int" where
  "blob_received ba = int (length (ba_buffer ba))"

definition blob_add :: "blob_assembler \<Rightarrow> bytes \<Rightarrow> blob_assembler res" where
  "blob_add ba chunk = blob_append ba chunk"

text \<open>\<open>complete\<close> can fail after its chunk went into the buffer, so it returns both.\<close>

definition blob_complete :: "blob_assembler \<Rightarrow> bytes \<Rightarrow> blob_assembler \<times> bytes res" where
  "blob_complete ba chunk =
     (case blob_append ba chunk of
        Inl e \<Rightarrow> (ba, Inl e)
      | Inr ba \<Rightarrow>
          (if int (length (ba_buffer ba)) \<noteq> bh_length (ba_header ba)
           then (ba, Inl (BleProtocolError (''Blob declared {} byte(s) but carried {}'',
                   [bh_length (ba_header ba), int (length (ba_buffer ba))])))
           else (ba\<lparr>ba_complete := True\<rparr>, Inr (ba_buffer ba))))"

section \<open>The assembler's invariant\<close>

definition blob_ok :: "blob_assembler \<Rightarrow> bool" where
  "blob_ok ba \<longleftrightarrow>
     blob_received ba \<le> bh_length (ba_header ba)
     \<and> bh_length (ba_header ba) \<le> BLOB_LENGTH_MAX
     \<and> (ba_complete ba \<longrightarrow> blob_received ba = bh_length (ba_header ba))"

lemma blob_append_ok: "blob_ok ba \<Longrightarrow> blob_append ba chunk = Inr ba' \<Longrightarrow> blob_ok ba'"
  by (auto simp: blob_append_def blob_ok_def blob_received_def split: if_splits)

lemma blob_assembler_init_ok:
  assumes "blob_assembler_init p = Inr ba"
  shows "blob_ok ba \<and> \<not> ba_complete ba"
proof -
  obtain h rest where h: "blob_header_split p = Inr (h, rest)"
    and app: "blob_append \<lparr>ba_header = h, ba_buffer = [], ba_complete = False\<rparr> rest = Inr ba"
    using assms by (auto simp: blob_assembler_init_def bindE_eq_Inr)
  from h blob_header_split_cases [of p] have "0 \<le> bh_length h" "bh_length h \<le> 65535" by auto
  then have "blob_ok \<lparr>ba_header = h, ba_buffer = [], ba_complete = False\<rparr>"
    by (simp add: blob_ok_def blob_received_def)
  then have "blob_ok ba" using app by (rule blob_append_ok)
  moreover have "\<not> ba_complete ba" using app by (auto simp: blob_append_def split: if_splits)
  ultimately show ?thesis by simp
qed

lemma blob_complete_ok: "blob_ok ba \<Longrightarrow> blob_ok (fst (blob_complete ba chunk))"
  by (auto simp: blob_complete_def blob_ok_def blob_received_def blob_append_def)

lemma blob_complete_Inr:
  "snd (blob_complete ba chunk) = Inr data \<longleftrightarrow>
     \<not> ba_complete ba \<and> data = ba_buffer ba @ chunk
     \<and> int (length data) = bh_length (ba_header ba)"
  by (auto simp: blob_complete_def blob_append_def split: if_splits)

lemma blob_append_error: "blob_append ba c = Inl e \<Longrightarrow> is_protocol_error e"
  by (auto simp: blob_append_def split: if_splits)

lemma blob_complete_error: "snd (blob_complete ba c) = Inl e \<Longrightarrow> is_protocol_error e"
  by (auto simp: blob_complete_def split: sum.splits if_splits dest: blob_append_error)

lemma blob_assembler_init_error: "blob_assembler_init p = Inl e \<Longrightarrow> is_protocol_error e"
  using blob_header_split_cases [of p]
  by (auto simp: blob_assembler_init_def bindE_eq_Inl dest: blob_append_error)

end
