(* ===== verification/Packet.thy ===== *)
theory Packet
  imports Blob
begin

text \<open>
  \<^verbatim>\<open>ble/protocol/packet.py\<close>: Layer 1 packets, cutting a payload into them
  (\<^verbatim>\<open>packetize\<close>) and putting incoming packets back together (\<^verbatim>\<open>PacketStream\<close>). A cipher is a
  pair of functions that may raise, as the \<^verbatim>\<open>PayloadCipher\<close> protocol allows.
\<close>

definition MTU_MIN :: int where
  [simp]: "MTU_MIN = ATT_OVERHEAD + PACKET_HEADER_SIZE + BLOB_HEADER_SIZE + 1"

section \<open>Packet\<close>

record packet =
  pk_type :: packet_type_id
  pk_sequence :: int
  pk_payload :: bytes
  pk_rfu :: int

definition mk_packet :: "packet_type_id \<Rightarrow> int \<Rightarrow> bytes \<Rightarrow> packet" where
  "mk_packet t s p = \<lparr>pk_type = t, pk_sequence = s, pk_payload = p, pk_rfu = 0\<rparr>"

lemma mk_packet_sel [simp]:
  "pk_type (mk_packet t s p) = t" "pk_sequence (mk_packet t s p) = s"
  "pk_payload (mk_packet t s p) = p" "pk_rfu (mk_packet t s p) = 0"
  by (simp_all add: mk_packet_def)

definition packet_to_bytes :: "packet \<Rightarrow> bytes res" where
  "packet_to_bytes p =
     bindE (raise_if (int (length (pk_payload p)) > PACKET_PAYLOAD_MAX)
              (BleValidationError (''Packet payload of {} bytes exceeds {}'',
                 [int (length (pk_payload p)), PACKET_PAYLOAD_MAX]))) (\<lambda>_.
     bindE (write_uint8 byte_writer_init (packet_type_value (pk_type p))) (\<lambda>w.
     bindE (write_uint8 w (int (length (pk_payload p)))) (\<lambda>w.
     bindE (write_uint8 w (pk_rfu p)) (\<lambda>w.
     bindE (write_uint8 w (pk_sequence p)) (\<lambda>w.
     write_bytes w (pk_payload p))))))"

definition packet_from_bytes :: "bytes \<Rightarrow> packet res" where
  "packet_from_bytes data =
     (let r = byte_reader_init data in
     bindE (raise_if (remaining r < PACKET_HEADER_SIZE)
              (BleProtocolError (''Packet of {} byte(s) is shorter than its {}-byte header'',
                 [int (length data), PACKET_HEADER_SIZE]))) (\<lambda>_.
     bindE (read_uint8 r) (\<lambda>(raw_type, r).
     case packet_type_of raw_type of
       None \<Rightarrow> Inl (BleProtocolError (''Unknown packet type 0x{}'', [raw_type]))
     | Some t \<Rightarrow>
         bindE (read_uint8 r) (\<lambda>(len, r).
         bindE (read_uint8 r) (\<lambda>(rfu, r).
         bindE (read_uint8 r) (\<lambda>(sequence, r).
         bindE (read_bytes r len) (\<lambda>(payload, r).
         Inr \<lparr>pk_type = t, pk_sequence = sequence, pk_payload = payload, pk_rfu = rfu\<rparr>)))))))"

definition packet_length :: "packet \<Rightarrow> int" where
  "packet_length p = PACKET_HEADER_SIZE + int (length (pk_payload p))"

text \<open>The packets the wire can carry: every field fits its byte.\<close>

definition packet_ok :: "packet \<Rightarrow> bool" where
  "packet_ok p \<longleftrightarrow> length (pk_payload p) \<le> 255 \<and> 0 \<le> pk_sequence p \<and> pk_sequence p < 256
     \<and> 0 \<le> pk_rfu p \<and> pk_rfu p < 256"

lemma packet_type_value_byte [simp]:
  "0 \<le> packet_type_value t" "packet_type_value t < 256"
  by (cases t; simp)+

lemma packet_to_bytes_ok:
  "packet_ok p \<Longrightarrow> packet_to_bytes p =
     Inr ([word_of_int (packet_type_value (pk_type p)), word_of_int (int (length (pk_payload p))),
           word_of_int (pk_rfu p), word_of_int (pk_sequence p)] @ pk_payload p)"
  by (simp add: packet_to_bytes_def packet_ok_def codec_simps)

lemma packet_to_bytes_Inr_iff: "(\<exists>bs. packet_to_bytes p = Inr bs) \<longleftrightarrow> packet_ok p"
proof
  assume "\<exists>bs. packet_to_bytes p = Inr bs"
  then show "packet_ok p"
    by (auto simp: packet_to_bytes_def packet_ok_def bindE_eq_Inr write_uint8_def write_uint_def
        split: if_splits)
qed (simp add: packet_to_bytes_ok)

lemma packet_from_to_bytes:
  assumes "packet_ok p" and "packet_to_bytes p = Inr bs"
  shows "packet_from_bytes (bs @ pad) = Inr p"
proof -
  have "packet_from_bytes
      ([word_of_int (packet_type_value (pk_type p)), word_of_int (int (length (pk_payload p))),
        word_of_int (pk_rfu p), word_of_int (pk_sequence p)] @ pk_payload p @ pad) = Inr p"
    using assms(1)
    by (simp add: packet_from_bytes_def packet_ok_def codec_simps uint_word_of_int_byte
        uint_word_of_nat_byte)
  with assms show ?thesis by (auto simp: packet_to_bytes_ok)
qed

interpretation packet_frame: padded_frame packet_to_bytes packet_from_bytes packet_ok
  by unfold_locales (auto simp: packet_to_bytes_ok intro: packet_from_to_bytes)

lemma packet_from_bytes_error: "packet_from_bytes data = Inl e \<Longrightarrow> is_protocol_error e"
  by (auto simp: packet_from_bytes_def Let_def bindE_eq_Inl split: prod.splits option.splits
      dest: read_errors read_uint8_nonneg)

section \<open>Cutting a payload into packets\<close>

definition packet_room :: "int \<Rightarrow> int res" where
  "packet_room mtu =
     (if mtu < MTU_MIN
      then Inl (BleValidationError (''MTU {} is too small; the protocol needs at least {}'',
             [mtu, MTU_MIN]))
      else Inr (min (mtu - ATT_OVERHEAD - PACKET_HEADER_SIZE) PACKET_PAYLOAD_MAX))"

text \<open>
  The loop of \<^verbatim>\<open>packetize\<close> after the BlobStart packet. The source's loop has no test of
  \<open>room\<close>; it stops because \<open>packet_room\<close> never returns less than 5 (\<open>packet_room_bounds\<close>),
  and the test here only makes that condition part of the recursion.
\<close>

function packetize_loop :: "bytes \<Rightarrow> nat \<Rightarrow> nat \<Rightarrow> int \<Rightarrow> packet list" where
  "packetize_loop payload room position sequence =
     (if position < length payload \<and> 0 < room
      then let sequence = (sequence + 1) AND 255;
               chunk = take room (drop position payload);
               position = position + length chunk;
               t = (if position = length payload then PT_BLOB_COMPLETE else PT_BLOB_STREAM)
           in mk_packet t sequence chunk # packetize_loop payload room position sequence
      else [])"
  by pat_completeness auto
termination
  by (relation "measure (\<lambda>(payload, room, position, sequence). length payload - position)") auto

declare packetize_loop.simps [simp del]

definition packetize :: "bytes \<Rightarrow> bool \<Rightarrow> int \<Rightarrow> packet list res" where
  "packetize payload encrypted mtu =
     bindE (raise_if (payload = []) (BleValidationError (''Cannot send an empty payload'', []))) (\<lambda>_.
     bindE (packet_room mtu) (\<lambda>room.
     (if int (length payload) + PACKET_HEADER_SIZE \<le> room
      then Inr [mk_packet (if encrypted then PT_SINGLE_ENCRYPTED else PT_SINGLE)
                  FIRST_SEQUENCE_NUMBER payload]
      else if int (length payload) > BLOB_LENGTH_MAX
      then Inl (BleValidationError (''Payload of {} bytes exceeds the blob limit of {}'',
             [int (length payload), BLOB_LENGTH_MAX]))
      else let first = nat (room - BLOB_HEADER_SIZE) in
        bindE (blob_header_to_bytes (blob_header_for_payload (int (length payload)) encrypted)) (\<lambda>hdr.
        Inr (mk_packet PT_BLOB_START FIRST_SEQUENCE_NUMBER (hdr @ take first payload)
             # packetize_loop payload (nat room) first FIRST_SEQUENCE_NUMBER)))))"

lemma packet_room_bounds: "packet_room mtu = Inr room \<Longrightarrow> 5 \<le> room \<and> room \<le> 255 \<and> room \<le> mtu - 7"
  by (auto simp: packet_room_def split: if_splits)

lemma packet_room_ok: "MTU_MIN \<le> mtu \<Longrightarrow> packet_room mtu = Inr (min (mtu - 7) 255)"
  by (simp add: packet_room_def)

text \<open>The same packets, by recursion on the bytes still to send.\<close>

function chunk_packets :: "nat \<Rightarrow> bytes \<Rightarrow> int \<Rightarrow> packet list" where
  "chunk_packets room rest sequence =
     (if rest = [] \<or> room = 0 then []
      else let sequence = (sequence + 1) AND 255
           in mk_packet (if length rest \<le> room then PT_BLOB_COMPLETE else PT_BLOB_STREAM)
                sequence (take room rest)
              # chunk_packets room (drop room rest) sequence)"
  by pat_completeness auto
termination
  by (relation "measure (\<lambda>(room, rest, sequence). length rest)") auto

declare chunk_packets.simps [simp del]

lemma packetize_loop_chunks:
  "packetize_loop payload room position sequence
     = chunk_packets room (drop position payload) sequence"
proof (induction payload room position sequence rule: packetize_loop.induct)
  case (1 payload room position sequence)
  show ?case
  proof (cases "position < length payload \<and> 0 < room")
    case False
    then show ?thesis
      by (auto simp: packetize_loop.simps [of payload room position sequence]
          chunk_packets.simps [of room "drop position payload" sequence])
  next
    case True
    define s' where "s' = (sequence + 1) AND 255"
    define p' where "p' = position + length (take room (drop position payload))"
    have eq: "drop p' payload = drop room (drop position payload)"
      by (cases "length payload - position \<le> room") (auto simp: p'_def min_def add.commute)
    have last: "p' = length payload \<longleftrightarrow> length (drop position payload) \<le> room"
      using True by (auto simp: p'_def min_def)
    have IH: "packetize_loop payload room p' s' = chunk_packets room (drop p' payload) s'"
      using "1.IH" True unfolding s'_def p'_def by simp
    have "packetize_loop payload room position sequence
        = mk_packet (if p' = length payload then PT_BLOB_COMPLETE else PT_BLOB_STREAM) s'
            (take room (drop position payload)) # packetize_loop payload room p' s'"
      using True by (subst packetize_loop.simps) (simp add: Let_def s'_def p'_def)
    also have "\<dots> = chunk_packets room (drop position payload) sequence"
      using True unfolding IH eq last
      by (subst (2) chunk_packets.simps) (simp add: Let_def s'_def)
    finally show ?thesis .
  qed
qed

lemma and_255: "(v :: int) AND 255 = v mod 256"
  using take_bit_eq_mask [of 8 v] by (simp add: take_bit_eq_mod mask_eq_exp_minus_1)

lemma and_255_bounds [simp]: "0 \<le> (v :: int) AND 255" "(v :: int) AND 255 < 256"
  by (simp_all add: and_255)

lemma chunk_packets_Cons:
  "rest \<noteq> [] \<Longrightarrow> 0 < room \<Longrightarrow>
    chunk_packets room rest sequence =
      mk_packet (if length rest \<le> room then PT_BLOB_COMPLETE else PT_BLOB_STREAM)
        ((sequence + 1) AND 255) (take room rest)
      # chunk_packets room (drop room rest) ((sequence + 1) AND 255)"
  by (subst chunk_packets.simps) (simp add: Let_def)

lemma chunk_packets_Nil [simp]: "chunk_packets room [] sequence = []"
  by (subst chunk_packets.simps) simp

lemma chunk_packets_ok:
  assumes "0 < room" "room \<le> 255"
  shows "\<forall>p \<in> set (chunk_packets room rest sequence).
           packet_ok p \<and> length (pk_payload p) \<le> room"
proof (induction "length rest" arbitrary: rest sequence rule: less_induct)
  case less
  show ?case
  proof (cases "rest = []")
    case False
    then have "length (drop room rest) < length rest" using assms by simp
    then have "\<forall>p \<in> set (chunk_packets room (drop room rest) ((sequence + 1) AND 255)).
        packet_ok p \<and> length (pk_payload p) \<le> room"
      by (rule less.hyps)
    moreover have "length (take room rest) \<le> room" by simp
    ultimately show ?thesis
      using False assms by (auto simp: chunk_packets_Cons packet_ok_def)
  qed simp
qed

end
