(* ===== verification/Packet_Stream.thy ===== *)
theory Packet_Stream
  imports Packet
begin

text \<open>
  \<^verbatim>\<open>PacketStream\<close> of \<^verbatim>\<open>ble/protocol/packet.py\<close>: framing an outgoing payload and reassembling
  incoming packets, over an optional cipher. The theorems say that what one end frames the
  other end reassembles, that no write outgrows the MTU, that a blob is delivered only at
  its declared length, and that a broken sequence drops the blob and starts clean.
\<close>

record payload_cipher =
  pc_encrypt :: "bytes \<Rightarrow> bytes res"
  pc_decrypt :: "bytes \<Rightarrow> bytes res"

record packet_stream =
  ps_mtu :: int
  ps_cipher :: "payload_cipher option"
  ps_blob :: "blob_assembler option"
  ps_last_sequence :: int

datatype received =
    RNothing
  | RPayload bytes bool
  | RPacket packet

definition packet_stream_init :: "int \<Rightarrow> payload_cipher option \<Rightarrow> packet_stream res" where
  "packet_stream_init mtu cipher =
     bindE (packet_room mtu) (\<lambda>_.
     Inr \<lparr>ps_mtu = mtu, ps_cipher = cipher, ps_blob = None, ps_last_sequence = 0\<rparr>)"

definition receiving_blob :: "packet_stream \<Rightarrow> bool" where
  "receiving_blob s = (ps_blob s \<noteq> None)"

definition stream_encrypt :: "packet_stream \<Rightarrow> bytes \<Rightarrow> bytes res" where
  "stream_encrypt s payload =
     (case ps_cipher s of None \<Rightarrow> Inr payload | Some c \<Rightarrow> pc_encrypt c payload)"

definition frame :: "packet_stream \<Rightarrow> bytes \<Rightarrow> bytes list res" where
  "frame s payload =
     bindE (stream_encrypt s payload) (\<lambda>payload.
     bindE (packetize payload (ps_cipher s \<noteq> None) (ps_mtu s)) (\<lambda>packets.
     mapE packet_to_bytes packets))"

definition stream_reset :: "packet_stream \<Rightarrow> packet_stream" where
  "stream_reset s = s\<lparr>ps_blob := None, ps_last_sequence := 0\<rparr>"

definition stream_decrypt :: "packet_stream \<Rightarrow> bytes \<Rightarrow> bytes res" where
  "stream_decrypt s data =
     (case ps_cipher s of None \<Rightarrow> Inr data | Some c \<Rightarrow> pc_decrypt c data)"

definition deliver :: "packet_stream \<Rightarrow> bytes \<Rightarrow> bool \<Rightarrow> received res" where
  "deliver s data encrypted = bindE (stream_decrypt s data) (\<lambda>data. Inr (RPayload data encrypted))"

definition expect_no_blob :: "packet_stream \<Rightarrow> packet \<Rightarrow> unit res" where
  "expect_no_blob s p =
     raise_if (ps_blob s \<noteq> None)
       (BleProtocolError (''packet type {} arrived in the middle of a blob'', [packet_type_value (pk_type p)]))"

definition next_in_blob :: "packet_stream \<Rightarrow> packet \<Rightarrow> (packet_stream \<times> blob_assembler) res" where
  "next_in_blob s p =
     (case ps_blob s of
        None \<Rightarrow> Inl (BleProtocolError (''packet type {} arrived with no blob started'',
                  [packet_type_value (pk_type p)]))
      | Some blob \<Rightarrow>
          (let expected = (ps_last_sequence s + 1) AND 255
           in if pk_sequence p \<noteq> expected
              then Inl (BleProtocolError (''Expected sequence number {}, got {}'',
                     [expected, pk_sequence p]))
              else Inr (s\<lparr>ps_last_sequence := pk_sequence p\<rparr>, blob)))"

definition receive_single :: "packet_stream \<Rightarrow> packet \<Rightarrow> packet_stream \<times> received res" where
  "receive_single s p =
     (s, bindE (expect_no_blob s p) (\<lambda>_.
         deliver s (pk_payload p) (pk_type p = PT_SINGLE_ENCRYPTED)))"

definition receive_blob_start :: "packet_stream \<Rightarrow> packet \<Rightarrow> packet_stream \<times> received res" where
  "receive_blob_start s p =
     (case bindE (expect_no_blob s p) (\<lambda>_. blob_assembler_init (pk_payload p)) of
        Inl e \<Rightarrow> (s, Inl e)
      | Inr blob \<Rightarrow> (s\<lparr>ps_blob := Some blob, ps_last_sequence := pk_sequence p\<rparr>, Inr RNothing))"

definition receive_blob_stream :: "packet_stream \<Rightarrow> packet \<Rightarrow> packet_stream \<times> received res" where
  "receive_blob_stream s p =
     (case next_in_blob s p of
        Inl e \<Rightarrow> (s, Inl e)
      | Inr (s, blob) \<Rightarrow>
          (case blob_add blob (pk_payload p) of
             Inl e \<Rightarrow> (s, Inl e)
           | Inr blob \<Rightarrow> (s\<lparr>ps_blob := Some blob\<rparr>, Inr RNothing)))"

definition receive_blob_complete :: "packet_stream \<Rightarrow> packet \<Rightarrow> packet_stream \<times> received res" where
  "receive_blob_complete s p =
     (case next_in_blob s p of
        Inl e \<Rightarrow> (s, Inl e)
      | Inr (s, blob) \<Rightarrow>
          (case blob_complete blob (pk_payload p) of
             (blob, Inl e) \<Rightarrow> (s\<lparr>ps_blob := Some blob\<rparr>, Inl e)
           | (blob, Inr data) \<Rightarrow>
               (let s = stream_reset s in (s, deliver s data (blob_encrypted blob)))))"

definition receive_packet :: "packet_stream \<Rightarrow> packet \<Rightarrow> packet_stream \<times> received res" where
  "receive_packet s p =
     (case pk_type p of
        PT_SINGLE \<Rightarrow> receive_single s p
      | PT_SINGLE_ENCRYPTED \<Rightarrow> receive_single s p
      | PT_BLOB_START \<Rightarrow> receive_blob_start s p
      | PT_BLOB_STREAM \<Rightarrow> receive_blob_stream s p
      | PT_BLOB_COMPLETE \<Rightarrow> receive_blob_complete s p
      | _ \<Rightarrow> (s, Inr (RPacket p)))"

text \<open>\<open>receive\<close> resets the stream on a protocol error only; anything else passes untouched.\<close>

definition receive :: "packet_stream \<Rightarrow> bytes \<Rightarrow> packet_stream \<times> received res" where
  "receive s data =
     (let (s', r) = (case packet_from_bytes data of
                       Inl e \<Rightarrow> (s, Inl e)
                     | Inr p \<Rightarrow> receive_packet s p)
      in case r of
           Inl e \<Rightarrow> (if is_protocol_error e then stream_reset s' else s', Inl e)
         | Inr x \<Rightarrow> (s', Inr x))"

text \<open>A run of notifications, one result for each.\<close>

fun receive_all :: "packet_stream \<Rightarrow> bytes list \<Rightarrow> packet_stream \<times> received res list" where
  "receive_all s [] = (s, [])"
| "receive_all s (d # ds) =
     (let (s, r) = receive s d; (s, rs) = receive_all s ds in (s, r # rs))"

lemma receive_all_append:
  "receive_all s (xs @ ys) =
     (let (s, rs) = receive_all s xs; (s, rs') = receive_all s ys in (s, rs @ rs'))"
  by (induction xs arbitrary: s) (auto simp: split_beta Let_def)

lemma stream_reset_simps [simp]:
  "ps_blob (stream_reset s) = None" "ps_cipher (stream_reset s) = ps_cipher s"
  "ps_mtu (stream_reset s) = ps_mtu s" "ps_last_sequence (stream_reset s) = 0"
  by (simp_all add: stream_reset_def)

section \<open>The stream's invariant\<close>

text \<open>
  A blob in progress is well formed and unfinished, and the sequence number kept is a
  byte. Every notification preserves this, whatever its bytes.
\<close>

definition stream_ok :: "packet_stream \<Rightarrow> bool" where
  "stream_ok s \<longleftrightarrow>
     (\<forall>b. ps_blob s = Some b \<longrightarrow> blob_ok b \<and> \<not> ba_complete b)
     \<and> 0 \<le> ps_last_sequence s \<and> ps_last_sequence s < 256"

lemma stream_ok_reset [simp]: "stream_ok (stream_reset s)"
  by (simp add: stream_ok_def)

lemma packet_from_bytes_sequence:
  "packet_from_bytes data = Inr p \<Longrightarrow> 0 \<le> pk_sequence p \<and> pk_sequence p < 256"
  by (auto simp: packet_from_bytes_def Let_def bindE_eq_Inr
      split: option.splits dest!: read_uint8_nonneg)

lemma blob_add_unfinished:
  "blob_add b c = Inr b' \<Longrightarrow> blob_ok b \<Longrightarrow> blob_ok b' \<and> \<not> ba_complete b'"
  using blob_append_ok [of b c b']
  by (auto simp: blob_add_def blob_append_def split: if_splits)

lemma next_in_blob_Inr:
  "next_in_blob s p = Inr (s', blob) \<longleftrightarrow>
     ps_blob s = Some blob \<and> pk_sequence p = (ps_last_sequence s + 1) AND 255
     \<and> s' = s\<lparr>ps_last_sequence := pk_sequence p\<rparr>"
  by (auto simp: next_in_blob_def Let_def split: option.splits)

lemma next_in_blob_error: "next_in_blob s p = Inl e \<Longrightarrow> is_protocol_error e"
  by (auto simp: next_in_blob_def Let_def split: option.splits if_splits)

lemma blob_complete_Inl: "blob_complete b c = (b', Inl e) \<Longrightarrow> is_protocol_error e"
  using blob_complete_error [of b c e] by simp

lemma receive_packet_ok:
  assumes "stream_ok s" "receive_packet s p = (s', r)" "0 \<le> pk_sequence p" "pk_sequence p < 256"
    and "\<And>e. r = Inl e \<Longrightarrow> \<not> is_protocol_error e"
  shows "stream_ok s'"
proof (cases "pk_type p")
  case PT_BLOB_START
  with assms show ?thesis
    by (auto simp: receive_packet_def receive_blob_start_def stream_ok_def bindE_eq_Inr
        split: sum.splits dest: blob_assembler_init_ok)
next
  case PT_BLOB_STREAM
  with assms show ?thesis
    by (auto simp: receive_packet_def receive_blob_stream_def stream_ok_def next_in_blob_Inr
        split: sum.splits dest!: blob_add_unfinished dest: next_in_blob_error)
next
  case PT_BLOB_COMPLETE
  with assms show ?thesis
    by (auto simp: receive_packet_def receive_blob_complete_def next_in_blob_Inr Let_def
        split: sum.splits prod.splits dest: blob_complete_Inl next_in_blob_error)
qed (use assms in \<open>auto simp: receive_packet_def receive_single_def\<close>)

lemma receive_ok:
  assumes "stream_ok s"
  shows "stream_ok (fst (receive s data))"
proof (cases "packet_from_bytes data")
  case (Inl e)
  with assms show ?thesis by (simp add: receive_def)
next
  case (Inr p)
  obtain s' r where rp: "receive_packet s p = (s', r)" by fastforce
  have "stream_ok s'" if "\<And>e. r = Inl e \<Longrightarrow> \<not> is_protocol_error e"
    using receive_packet_ok [OF assms rp] packet_from_bytes_sequence [OF Inr] that by blast
  with Inr rp show ?thesis by (auto simp: receive_def split: sum.splits)
qed

lemma receive_cipher [simp]:
  "ps_cipher (fst (receive s data)) = ps_cipher s" "ps_mtu (fst (receive s data)) = ps_mtu s"
  by (auto simp: receive_def receive_packet_def receive_single_def receive_blob_start_def
      receive_blob_stream_def receive_blob_complete_def next_in_blob_Inr Let_def split_beta
      split: sum.splits packet_type_id.splits prod.splits)

section \<open>What is framed is reassembled\<close>

lemma receive_frame:
  assumes "packet_ok p" "packet_to_bytes p = Inr bs"
  shows "receive s bs =
    (let (s', r) = receive_packet s p
     in case r of Inl e \<Rightarrow> (if is_protocol_error e then stream_reset s' else s', Inl e)
        | Inr x \<Rightarrow> (s', Inr x))"
  using packet_frame.from_to_exact [OF assms] by (simp add: receive_def)

lemma stream_reset_idem [simp]: "stream_reset (stream_reset s) = stream_reset s"
  by (simp add: stream_reset_def)

lemma stream_reset_upd [simp]:
  "stream_reset (s\<lparr>ps_last_sequence := n\<rparr>) = stream_reset s"
  "stream_reset (s\<lparr>ps_last_sequence := n, ps_blob := b\<rparr>) = stream_reset s"
  "stream_reset (s\<lparr>ps_blob := b, ps_last_sequence := n\<rparr>) = stream_reset s"
  by (simp_all add: stream_reset_def)

lemma deliver_cong: "ps_cipher s = ps_cipher s' \<Longrightarrow> deliver s data enc = deliver s' data enc"
  by (simp add: deliver_def stream_decrypt_def)

lemma receive_last_chunk:
  assumes blob: "ps_blob s = Some b" "\<not> ba_complete b"
    and len: "int (length (ba_buffer b) + length c) = bh_length (ba_header b)"
    and small: "length c \<le> 255"
    and bs: "packet_to_bytes (mk_packet PT_BLOB_COMPLETE ((ps_last_sequence s + 1) AND 255) c) = Inr bs"
  shows "receive s bs = (stream_reset s, deliver s (ba_buffer b @ c) (blob_encrypted b))"
proof -
  have ok: "packet_ok (mk_packet PT_BLOB_COMPLETE ((ps_last_sequence s + 1) AND 255) c)"
    using small by (simp add: packet_ok_def)
  have "blob_complete b c = (b\<lparr>ba_buffer := ba_buffer b @ c, ba_complete := True\<rparr>, Inr (ba_buffer b @ c))"
    using blob len by (simp add: blob_complete_def blob_append_def)
  then show ?thesis
    using blob(1) unfolding receive_frame [OF ok bs]
    by (auto simp: receive_packet_def receive_blob_complete_def next_in_blob_def blob_encrypted_def
        deliver_def stream_decrypt_def Let_def split: sum.splits)
qed

lemma receive_middle_chunk:
  assumes blob: "ps_blob s = Some b" "\<not> ba_complete b"
    and len: "int (length (ba_buffer b) + length c) \<le> bh_length (ba_header b)"
    and small: "length c \<le> 255"
    and bs: "packet_to_bytes (mk_packet PT_BLOB_STREAM ((ps_last_sequence s + 1) AND 255) c) = Inr bs"
  shows "receive s bs =
    (s\<lparr>ps_last_sequence := (ps_last_sequence s + 1) AND 255,
       ps_blob := Some (b\<lparr>ba_buffer := ba_buffer b @ c\<rparr>)\<rparr>, Inr RNothing)"
proof -
  have ok: "packet_ok (mk_packet PT_BLOB_STREAM ((ps_last_sequence s + 1) AND 255) c)"
    using small by (simp add: packet_ok_def)
  show ?thesis
    using blob len unfolding receive_frame [OF ok bs]
    by (simp add: receive_packet_def receive_blob_stream_def next_in_blob_def blob_add_def
        blob_append_def)
qed

lemma receive_chunks:
  assumes "ps_blob s = Some b" "\<not> ba_complete b" "rest \<noteq> []" "0 < room" "room \<le> 255"
    and "int (length (ba_buffer b) + length rest) = bh_length (ba_header b)"
    and "mapE packet_to_bytes (chunk_packets room rest (ps_last_sequence s)) = Inr frames"
  shows "receive_all s frames =
    (stream_reset s, replicate (length frames - 1) (Inr RNothing)
       @ [deliver s (ba_buffer b @ rest) (blob_encrypted b)])"
  using assms
proof (induction "length rest" arbitrary: rest s b frames rule: less_induct)
  case less
  let ?seq = "(ps_last_sequence s + 1) AND 255"
  show ?case
  proof (cases "length rest \<le> room")
    case True
    with less.prems obtain bs where bs: "packet_to_bytes (mk_packet PT_BLOB_COMPLETE ?seq rest) = Inr bs"
      and fr: "frames = [bs]"
      by (auto simp: chunk_packets_Cons bindE_eq_Inr)
    from True less.prems have "length rest \<le> 255" by simp
    from receive_last_chunk [OF less.prems(1,2,6) this bs] show ?thesis by (simp add: fr)
  next
    case False
    let ?c = "take room rest" and ?rest = "drop room rest"
    from less.prems False obtain bs fs
      where bs: "packet_to_bytes (mk_packet PT_BLOB_STREAM ?seq ?c) = Inr bs"
        and fs: "mapE packet_to_bytes (chunk_packets room ?rest ?seq) = Inr fs"
        and fr: "frames = bs # fs"
      by (auto simp: chunk_packets_Cons bindE_eq_Inr)
    define s1 where "s1 = s\<lparr>ps_last_sequence := ?seq, ps_blob := Some (b\<lparr>ba_buffer := ba_buffer b @ ?c\<rparr>)\<rparr>"
    have r1: "receive s bs = (s1, Inr RNothing)"
      using receive_middle_chunk [OF less.prems(1,2) _ _ bs] less.prems by (simp add: s1_def)
    have ne: "?rest \<noteq> []" using False by simp
    have "receive_all s1 fs = (stream_reset s1, replicate (length fs - 1) (Inr RNothing)
        @ [deliver s1 ((ba_buffer b @ ?c) @ ?rest) (blob_encrypted (b\<lparr>ba_buffer := ba_buffer b @ ?c\<rparr>))])"
      using less.hyps [of ?rest s1 "b\<lparr>ba_buffer := ba_buffer b @ ?c\<rparr>" fs] less.prems ne fs False
      by (simp add: s1_def)
    moreover have "fs \<noteq> []"
      using fs ne less.prems by (auto simp: chunk_packets_Cons bindE_eq_Inr)
    moreover have "deliver s1 d enc = deliver s d enc" for d enc
      by (rule deliver_cong) (simp add: s1_def)
    ultimately show ?thesis
      using r1 by (cases fs) (auto simp: fr s1_def blob_encrypted_def)
  qed
qed

text \<open>
  A framed payload is one Single packet, or a BlobStart that a stream with no blob in
  progress accepts, followed by the chunks of what is left.
\<close>

definition single_shape :: "bytes list \<Rightarrow> bytes \<Rightarrow> bool \<Rightarrow> packet_stream \<Rightarrow> bool" where
  "single_shape frames w enc r \<longleftrightarrow>
     (\<exists>bs r'. frames = [bs] \<and> receive r bs = (r', deliver r w enc) \<and> ps_blob r' = None)"

definition blob_shape :: "bytes list \<Rightarrow> bytes \<Rightarrow> bool \<Rightarrow> packet_stream \<Rightarrow> bool" where
  "blob_shape frames w enc r \<longleftrightarrow>
     (\<exists>bs fs r1 ba rest room. frames = bs # fs \<and> receive r bs = (r1, Inr RNothing)
        \<and> ps_blob r1 = Some ba \<and> \<not> ba_complete ba \<and> rest \<noteq> [] \<and> 0 < room \<and> room \<le> 255
        \<and> int (length (ba_buffer ba) + length rest) = bh_length (ba_header ba)
        \<and> mapE packet_to_bytes (chunk_packets room rest (ps_last_sequence r1)) = Inr fs
        \<and> ba_buffer ba @ rest = w \<and> blob_encrypted ba = enc
        \<and> ps_cipher r1 = ps_cipher r \<and> ps_mtu r1 = ps_mtu r)"

lemma packetized_single:
  assumes "packetize w enc mtu = Inr packets" "mapE packet_to_bytes packets = Inr frames"
    and "packet_room mtu = Inr room" "w \<noteq> []" "int (length w) + 4 \<le> room" "ps_blob r = None"
  shows "single_shape frames w enc r"
proof -
  from packet_room_bounds [OF assms(3)] have b: "5 \<le> room" "room \<le> 255" by auto
  define t where "t = (if enc then PT_SINGLE_ENCRYPTED else PT_SINGLE)"
  from assms have packets: "packets = [mk_packet t 1 w]" by (simp add: packetize_def t_def)
  have ok: "packet_ok (mk_packet t 1 w)" using assms b by (simp add: packet_ok_def)
  from assms(2) packets obtain bs where bs: "packet_to_bytes (mk_packet t 1 w) = Inr bs" "frames = [bs]"
    by (auto simp: bindE_eq_Inr)
  have rp: "receive_packet r (mk_packet t 1 w) = (r, deliver r w enc)"
    using assms(6) by (simp add: receive_packet_def receive_single_def expect_no_blob_def t_def)
  have "\<exists>r'. receive r bs = (r', deliver r w enc) \<and> ps_blob r' = None"
    using rp assms(6) unfolding receive_frame [OF ok bs(1)] by (auto split: sum.splits)
  with bs(2) show ?thesis by (auto simp: single_shape_def)
qed

lemma packetized_blob:
  assumes "packetize w enc mtu = Inr packets" "mapE packet_to_bytes packets = Inr frames"
    and "packet_room mtu = Inr room" "w \<noteq> []" "\<not> int (length w) + 4 \<le> room" "ps_blob r = None"
  shows "blob_shape frames w enc r"
proof -
  from packet_room_bounds [OF assms(3)] have b: "5 \<le> room" "room \<le> 255" by auto
  define first where "first = nat (room - 4)"
  define h where "h = blob_header_for_payload (int (length w)) enc"
  from assms have small: "int (length w) \<le> 65535" by (auto simp: packetize_def split: if_splits)
  define hdr :: bytes where
    "hdr = [if enc then 1 else 0, word_of_int (int (length w)), word_of_int (int (length w) div 256), 0]"
  have hdr: "blob_header_to_bytes h = Inr hdr"
    using blob_header_to_bytes_for_payload [of "int (length w)" enc] small by (simp add: h_def hdr_def)
  have packets: "packets = mk_packet PT_BLOB_START 1 (hdr @ take first w)
      # chunk_packets (nat room) (drop first w) 1"
    using assms small hdr by (simp add: packetize_def packetize_loop_chunks first_def h_def Let_def)
  from assms(2) obtain bs fs
    where bs: "packet_to_bytes (mk_packet PT_BLOB_START 1 (hdr @ take first w)) = Inr bs"
      and fs: "mapE packet_to_bytes (chunk_packets (nat room) (drop first w) 1) = Inr fs"
      and frames: "frames = bs # fs"
    by (auto simp: packets bindE_eq_Inr)
  have len1: "first < length w" using assms b by (simp add: first_def nat_less_iff)
  have ok: "packet_ok (mk_packet PT_BLOB_START 1 (hdr @ take first w))"
    using b by (simp add: packet_ok_def hdr_def first_def)
  define ba where "ba = \<lparr>ba_header = h, ba_buffer = take first w, ba_complete = False\<rparr>"
  have "blob_assembler_init (hdr @ take first w) = Inr ba"
    using blob_header_split_for_payload [of "int (length w)" enc "take first w"] small len1
    by (simp add: blob_assembler_init_def hdr_def blob_append_def ba_def h_def)
  then have "receive r bs = (r\<lparr>ps_blob := Some ba, ps_last_sequence := 1\<rparr>, Inr RNothing)"
    using assms(6) unfolding receive_frame [OF ok bs]
    by (simp add: receive_packet_def receive_blob_start_def expect_no_blob_def)
  then show ?thesis
    unfolding blob_shape_def frames
    by (intro exI [of _ bs] exI [of _ fs] exI [of _ ba] exI [of _ "drop first w"] exI [of _ "nat room"]
        exI [of _ "r\<lparr>ps_blob := Some ba, ps_last_sequence := 1\<rparr>"] conjI)
      (use len1 b fs in \<open>simp_all add: ba_def h_def blob_encrypted_def\<close>)
qed

lemma packetized_shape:
  assumes "packetize w enc mtu = Inr packets" "mapE packet_to_bytes packets = Inr frames"
    and "ps_blob r = None"
  shows "single_shape frames w enc r \<or> blob_shape frames w enc r"
proof -
  from assms(1) obtain room where "packet_room mtu = Inr room" "w \<noteq> []"
    by (auto simp: packetize_def bindE_eq_Inr)
  then show ?thesis
    using packetized_single [OF assms(1,2)] packetized_blob [OF assms(1,2)] assms(3) by blast
qed

text \<open>
  The whole run: packets of one payload fed to a stream with no blob in progress give
  nothing until the last, which delivers exactly that payload.
\<close>

lemma receive_packetized:
  assumes "packetize w enc mtu = Inr packets" "mapE packet_to_bytes packets = Inr frames"
    and "ps_blob r = None"
  shows "\<exists>r'. receive_all r frames =
      (r', replicate (length frames - 1) (Inr RNothing) @ [deliver r w enc])
    \<and> ps_blob r' = None"
  using packetized_shape [OF assms]
proof
  assume "single_shape frames w enc r"
  then show ?thesis by (auto simp: single_shape_def)
next
  assume "blob_shape frames w enc r"
  then obtain bs fs r1 ba rest room where sh: "frames = bs # fs" "receive r bs = (r1, Inr RNothing)"
    "ps_blob r1 = Some ba" "\<not> ba_complete ba" "rest \<noteq> []" "0 < room" "room \<le> 255"
    "int (length (ba_buffer ba) + length rest) = bh_length (ba_header ba)"
    "mapE packet_to_bytes (chunk_packets room rest (ps_last_sequence r1)) = Inr fs"
    "ba_buffer ba @ rest = w" "blob_encrypted ba = enc" "ps_cipher r1 = ps_cipher r"
    unfolding blob_shape_def by blast
  have "fs \<noteq> []" using sh(9) chunk_packets_Cons [OF sh(5,6)] by (auto simp: bindE_eq_Inr)
  then show ?thesis
    using receive_chunks [OF sh(3-9)] sh(1,2) deliver_cong [OF sh(12)]
    by (cases fs) (auto simp: sh(10,11))
qed

lemma receive_framed:
  assumes "frame s payload = Inr frames" and "stream_encrypt s payload = Inr w"
    and "ps_blob r = None"
  shows "\<exists>r'. receive_all r frames =
      (r', replicate (length frames - 1) (Inr RNothing) @ [deliver r w (ps_cipher s \<noteq> None)])
    \<and> ps_blob r' = None"
proof -
  from assms(1,2) obtain packets
    where "packetize w (ps_cipher s \<noteq> None) (ps_mtu s) = Inr packets"
      and "mapE packet_to_bytes packets = Inr frames"
    by (auto simp: frame_def bindE_eq_Inr)
  from receive_packetized [OF this assms(3)] show ?thesis .
qed

section \<open>Which payloads can be framed\<close>

lemma mapE_total: "\<forall>x \<in> set xs. \<exists>y. f x = Inr y \<Longrightarrow> \<exists>ys. mapE f xs = Inr ys"
  by (induction xs) fastforce+

lemma mapE_set: "mapE f xs = Inr ys \<Longrightarrow> y \<in> set ys \<Longrightarrow> \<exists>x \<in> set xs. f x = Inr y"
  by (induction xs arbitrary: ys) (auto simp: bindE_eq_Inr)

text \<open>Every packet of a payload fits its length byte and the room of the MTU.\<close>

lemma packetize_packets:
  assumes "packetize w enc mtu = Inr packets" and "p \<in> set packets"
  shows "packet_ok p \<and> packet_length p \<le> mtu - ATT_OVERHEAD"
proof -
  from assms(1) obtain room where room: "packet_room mtu = Inr room" and ne: "w \<noteq> []"
    by (auto simp: packetize_def bindE_eq_Inr)
  from packet_room_bounds [OF room] have b: "5 \<le> room" "room \<le> 255" "room \<le> mtu - 7" by auto
  show ?thesis
  proof (cases "int (length w) + 4 \<le> room")
    case True
    with assms room ne b show ?thesis by (auto simp: packetize_def packet_ok_def packet_length_def)
  next
    case False
    from assms(1) room ne False have small: "int (length w) \<le> 65535"
      by (auto simp: packetize_def split: if_splits)
    define ck where "ck = chunk_packets (nat room) (drop (nat (room - 4)) w) 1"
    have ck: "packet_ok q \<and> packet_length q \<le> mtu - 3" if "q \<in> set ck" for q
    proof -
      have "0 < nat room" "nat room \<le> 255" using b by auto
      from chunk_packets_ok [OF this] that
      have "packet_ok q" "length (pk_payload q) \<le> nat room" unfolding ck_def by blast+
      with b show ?thesis by (simp add: packet_length_def le_nat_iff)
    qed
    have "p \<in> set ck \<or> p = mk_packet PT_BLOB_START 1
        ([if enc then 1 else 0, word_of_int (int (length w)), word_of_int (int (length w) div 256), 0]
           @ take (nat (room - 4)) w)"
      using assms room ne False small blob_header_to_bytes_for_payload [of "int (length w)" enc]
      by (auto simp: packetize_def packetize_loop_chunks Let_def ck_def)
    then show ?thesis
      using ck [of p] b by (auto simp: packet_ok_def packet_length_def)
  qed
qed

lemma packetize_total:
  "packetize w enc mtu =
     (if w = [] then Inl (BleValidationError (''Cannot send an empty payload'', []))
      else if mtu < MTU_MIN
      then Inl (BleValidationError (''MTU {} is too small; the protocol needs at least {}'', [mtu, MTU_MIN]))
      else if 65535 < length w
      then Inl (BleValidationError (''Payload of {} bytes exceeds the blob limit of {}'',
             [int (length w), 65535]))
      else packetize w enc mtu)
   \<and> (w \<noteq> [] \<and> MTU_MIN \<le> mtu \<and> length w \<le> 65535 \<longrightarrow> (\<exists>ps. packetize w enc mtu = Inr ps))"
  using blob_header_to_bytes_for_payload [of "int (length w)" enc]
  by (auto simp: packetize_def packet_room_def Let_def)

lemma frame_Inr_iff:
  assumes "stream_encrypt s payload = Inr w" and "MTU_MIN \<le> ps_mtu s"
  shows "(\<exists>frames. frame s payload = Inr frames) \<longleftrightarrow> w \<noteq> [] \<and> length w \<le> 65535"
proof
  assume "\<exists>frames. frame s payload = Inr frames"
  then obtain ps where "packetize w (ps_cipher s \<noteq> None) (ps_mtu s) = Inr ps"
    using assms(1) by (auto simp: frame_def bindE_eq_Inr)
  then show "w \<noteq> [] \<and> length w \<le> 65535"
    using assms(2) packetize_total [of w "ps_cipher s \<noteq> None" "ps_mtu s"] by (auto split: if_splits)
next
  assume "w \<noteq> [] \<and> length w \<le> 65535"
  then obtain ps where ps: "packetize w (ps_cipher s \<noteq> None) (ps_mtu s) = Inr ps"
    using assms(2) packetize_total [of w "ps_cipher s \<noteq> None" "ps_mtu s"] by blast
  have "\<exists>frames. mapE packet_to_bytes ps = Inr frames"
    by (rule mapE_total) (use packetize_packets [OF ps] packet_to_bytes_Inr_iff in blast)
  then show "\<exists>frames. frame s payload = Inr frames"
    using assms(1) ps by (auto simp: frame_def)
qed

lemma frame_total:
  assumes "ps_cipher s = None" "MTU_MIN \<le> ps_mtu s" "payload \<noteq> []" "length payload \<le> 65535"
  shows "\<exists>frames. frame s payload = Inr frames"
  using frame_Inr_iff [of s payload payload] assms by (simp add: stream_encrypt_def)

lemma packetize_nonempty: "packetize w enc mtu = Inr ps \<Longrightarrow> ps \<noteq> []"
  by (auto simp: packetize_def bindE_eq_Inr Let_def split: if_splits)

lemma mapE_length: "mapE f xs = Inr ys \<Longrightarrow> length ys = length xs"
  by (induction xs arbitrary: ys) (auto simp: bindE_eq_Inr)

lemma frame_nonempty: "frame s payload = Inr frames \<Longrightarrow> frames \<noteq> []"
  by (auto simp: frame_def bindE_eq_Inr packetize_nonempty dest: mapE_length)

section \<open>Properties\<close>

text \<open>
  C8: the round trip of the transport layer. Whatever \<open>frame\<close> writes for a payload, a
  stream with no blob in progress answers with nothing until the last write, and then
  with the decryption of exactly the bytes that were encrypted, flagged as the sender's
  cipher says; it is then idle again. This holds for every payload length, MTU and cipher.
\<close>

theorem frame_receive_roundtrip:
  assumes "frame s payload = Inr frames" and "stream_encrypt s payload = Inr w"
    and "ps_blob r = None"
  shows "\<exists>r'. receive_all r frames =
      (r', replicate (length frames - 1) (Inr RNothing)
             @ [bindE (stream_decrypt r w) (\<lambda>data. Inr (RPayload data (ps_cipher s \<noteq> None)))])
    \<and> ps_blob r' = None"
  using receive_framed [OF assms] by (simp add: deliver_def)

definition example_stream :: packet_stream where
  "example_stream = \<lparr>ps_mtu = 23, ps_cipher = None, ps_blob = None, ps_last_sequence = 0\<rparr>"

theorem frame_receive_roundtrip_witness:
  "\<exists>frames r'. frame example_stream (replicate 30 7) = Inr frames
    \<and> receive_all example_stream frames =
        (r', replicate (length frames - 1) (Inr RNothing) @ [Inr (RPayload (replicate 30 7) False)])
    \<and> ps_blob r' = None"
proof -
  have enc: "stream_encrypt example_stream (replicate 30 7) = Inr (replicate 30 7)"
    by (simp add: stream_encrypt_def example_stream_def)
  obtain frames where fr: "frame example_stream (replicate 30 7) = Inr frames"
    using frame_total [of example_stream "replicate 30 7"] by (auto simp: example_stream_def)
  from frame_receive_roundtrip [OF fr enc, of example_stream] fr show ?thesis
    by (auto simp: example_stream_def stream_decrypt_def)
qed

text \<open>
  No write is longer than the link allows: at MTU \<open>m\<close> every packet \<open>frame\<close> produces is
  at most \<open>m - 3\<close> bytes, the MTU less the ATT header, and never over 259.
\<close>

theorem frame_fits_mtu:
  assumes "frame s payload = Inr frames" and "f \<in> set frames"
  shows "int (length f) \<le> ps_mtu s - ATT_OVERHEAD \<and> length f \<le> 259"
proof -
  from assms(1) obtain w packets
    where pk: "packetize w (ps_cipher s \<noteq> None) (ps_mtu s) = Inr packets"
      and fr: "mapE packet_to_bytes packets = Inr frames"
    by (auto simp: frame_def bindE_eq_Inr)
  from mapE_set [OF fr assms(2)] obtain p where p: "p \<in> set packets" "packet_to_bytes p = Inr f" by blast
  from packetize_packets [OF pk p(1)] p(2) show ?thesis
    by (auto simp: packet_to_bytes_ok packet_length_def packet_ok_def)
qed

theorem frame_fits_mtu_witness:
  "\<exists>f frames. frame example_stream (replicate 30 7) = Inr frames \<and> f \<in> set frames
    \<and> int (length f) \<le> 20"
proof -
  obtain frames where fr: "frame example_stream (replicate 30 7) = Inr frames"
    using frame_total [of example_stream "replicate 30 7"] by (auto simp: example_stream_def)
  from frame_nonempty [OF fr] obtain f where f: "f \<in> set frames" by (cases frames) auto
  from frame_fits_mtu [OF fr f] fr f show ?thesis by (auto simp: example_stream_def)
qed

section \<open>Loss and recovery\<close>

definition no_payload :: "received res list \<Rightarrow> bool" where
  "no_payload rs \<longleftrightarrow> (\<forall>d e. Inr (RPayload d e) \<notin> set rs)"

lemma no_payload_simps [simp]:
  "no_payload []"
  "no_payload (Inl x # rs) = no_payload rs"
  "no_payload (Inr RNothing # rs) = no_payload rs"
  by (simp_all add: no_payload_def)

text \<open>Chunks that reach a stream with no blob in progress are all refused.\<close>

lemma receive_orphan_chunk:
  assumes "ps_blob s = None" "pk_type p = PT_BLOB_STREAM \<or> pk_type p = PT_BLOB_COMPLETE"
    and "packet_ok p" "packet_to_bytes p = Inr bs"
  shows "\<exists>e. receive s bs = (stream_reset s, Inl e)"
  using assms(1,2) unfolding receive_frame [OF assms(3,4)]
  by (auto simp: receive_packet_def receive_blob_stream_def receive_blob_complete_def next_in_blob_def)

lemma chunk_packets_types:
  "0 < room \<Longrightarrow> p \<in> set (chunk_packets room rest q) \<Longrightarrow>
     pk_type p = PT_BLOB_STREAM \<or> pk_type p = PT_BLOB_COMPLETE"
proof (induction "length rest" arbitrary: rest q rule: less_induct)
  case less
  show ?case
  proof (cases "rest = []")
    case True
    with less.prems show ?thesis by simp
  next
    case False
    then have "length (drop room rest) < length rest" using less.prems by simp
    from less.hyps [OF this less.prems(1)] less.prems(2) show ?thesis
      unfolding chunk_packets_Cons [OF False less.prems(1)] by (auto split: if_splits)
  qed
qed

lemma receive_all_orphans:
  assumes "ps_blob s = None" "mapE packet_to_bytes ps = Inr frames"
    and "\<forall>p \<in> set ps. packet_ok p \<and> (pk_type p = PT_BLOB_STREAM \<or> pk_type p = PT_BLOB_COMPLETE)"
  shows "no_payload (snd (receive_all s frames))"
  using assms
proof (induction ps arbitrary: s frames)
  case (Cons p ps)
  then obtain bs fs where bs: "packet_to_bytes p = Inr bs" and fs: "mapE packet_to_bytes ps = Inr fs"
    and fr: "frames = bs # fs" by (auto simp: bindE_eq_Inr)
  from receive_orphan_chunk [OF Cons.prems(1) _ _ bs] Cons.prems(3)
  obtain e where "receive s bs = (stream_reset s, Inl e)" by auto
  moreover have "no_payload (snd (receive_all (stream_reset s) fs))"
    using Cons.IH [OF _ fs] Cons.prems by simp
  ultimately show ?case by (simp add: fr split_beta)
qed simp

lemma receive_chunks_orphaned:
  assumes "ps_blob s = None" "0 < room" "room \<le> 255"
    and "mapE packet_to_bytes (chunk_packets room rest q) = Inr frames"
  shows "no_payload (snd (receive_all s frames))"
proof (rule receive_all_orphans [OF assms(1,4)])
  show "\<forall>p \<in> set (chunk_packets room rest q).
      packet_ok p \<and> (pk_type p = PT_BLOB_STREAM \<or> pk_type p = PT_BLOB_COMPLETE)"
    using chunk_packets_ok [OF assms(2,3), of rest q] chunk_packets_types [OF assms(2)] by blast
qed

text \<open>A chunk out of sequence is refused, and with it the blob.\<close>

lemma receive_skipped:
  assumes "ps_blob s = Some b" "pk_type p = PT_BLOB_STREAM \<or> pk_type p = PT_BLOB_COMPLETE"
    and "packet_ok p" "packet_to_bytes p = Inr bs"
    and "pk_sequence p \<noteq> (ps_last_sequence s + 1) AND 255"
  shows "\<exists>e. receive s bs = (stream_reset s, Inl e)"
  using assms(1,2,5) unfolding receive_frame [OF assms(3,4)]
  by (auto simp: receive_packet_def receive_blob_stream_def receive_blob_complete_def
      next_in_blob_def Let_def)

lemma next_sequence_differs: "(((v :: int) + 1) AND 255) + 1 AND 255 \<noteq> (v + 1) AND 255"
proof -
  define x where "x = (v + 1) AND 255"
  have "0 \<le> x" "x < 256" by (simp_all add: x_def)
  then have "(x + 1) mod 256 \<noteq> x" by (cases "x = 255") auto
  then show ?thesis by (simp add: x_def and_255)
qed

lemma receive_lost_chunk:
  assumes "ps_blob s = Some b" "\<not> ba_complete b" "0 < room" "room \<le> 255"
    and "int (length (ba_buffer b) + length rest) = bh_length (ba_header b)"
    and "mapE packet_to_bytes (chunk_packets room rest (ps_last_sequence s)) = Inr (xs @ lost # ys)"
  shows "no_payload (snd (receive_all s (xs @ ys)))"
  using assms
proof (induction xs arbitrary: s b rest)
  case Nil
  let ?q = "(ps_last_sequence s + 1) AND 255" and ?rest = "drop room rest"
  have "rest \<noteq> []" using Nil.prems by auto
  with Nil.prems have ys: "mapE packet_to_bytes (chunk_packets room ?rest ?q) = Inr ys"
    by (auto simp: chunk_packets_Cons bindE_eq_Inr)
  show ?case
  proof (cases "?rest = []")
    case True
    with ys show ?thesis by simp
  next
    case False
    let ?q2 = "(?q + 1) AND 255"
    define p where "p = mk_packet (if length ?rest \<le> room then PT_BLOB_COMPLETE else PT_BLOB_STREAM)
        ?q2 (take room ?rest)"
    have ck: "chunk_packets room ?rest ?q = p # chunk_packets room (drop room ?rest) ?q2"
      using chunk_packets_Cons [OF False Nil.prems(3)] by (simp add: p_def)
    from ys obtain y ys' where y: "packet_to_bytes p = Inr y"
      and ys': "mapE packet_to_bytes (chunk_packets room (drop room ?rest) ?q2) = Inr ys'"
      and eq: "ys = y # ys'"
      unfolding ck by (auto simp: bindE_eq_Inr)
    have ok: "packet_ok p" using Nil.prems by (simp add: p_def packet_ok_def)
    have ty: "pk_type p = PT_BLOB_STREAM \<or> pk_type p = PT_BLOB_COMPLETE" by (simp add: p_def)
    have "pk_sequence p \<noteq> ?q" using next_sequence_differs by (simp add: p_def)
    from receive_skipped [OF Nil.prems(1) ty ok y this]
    obtain e where "receive s y = (stream_reset s, Inl e)" by auto
    moreover
    have "no_payload (snd (receive_all (stream_reset s) ys'))"
      by (rule receive_chunks_orphaned [OF _ Nil.prems(3,4) ys']) simp
    ultimately show ?thesis by (simp add: eq split_beta)
  qed
next
  case (Cons x xs)
  let ?q = "(ps_last_sequence s + 1) AND 255" and ?c = "take room rest" and ?rest = "drop room rest"
  have ne: "rest \<noteq> []" using Cons.prems by auto
  note ck = chunk_packets_Cons [OF ne Cons.prems(3), of "ps_last_sequence s"]
  from Cons.prems(6) obtain
    x: "packet_to_bytes (mk_packet (if length rest \<le> room then PT_BLOB_COMPLETE
          else PT_BLOB_STREAM) ?q ?c) = Inr x"
    and tl: "mapE packet_to_bytes (chunk_packets room ?rest ?q) = Inr (xs @ lost # ys)"
    unfolding ck by (auto simp: bindE_eq_Inr)
  have big: "\<not> length rest \<le> room" using tl by auto
  with x have x: "packet_to_bytes (mk_packet PT_BLOB_STREAM ?q ?c) = Inr x" by simp
  define s1 where "s1 = s\<lparr>ps_last_sequence := ?q, ps_blob := Some (b\<lparr>ba_buffer := ba_buffer b @ ?c\<rparr>)\<rparr>"
  have "receive s x = (s1, Inr RNothing)"
    using receive_middle_chunk [OF Cons.prems(1,2) _ _ x] Cons.prems by (simp add: s1_def)
  moreover have "no_payload (snd (receive_all s1 (xs @ ys)))"
    by (rule Cons.IH [where rest = ?rest and b = "b\<lparr>ba_buffer := ba_buffer b @ ?c\<rparr>"])
      (use Cons.prems tl big in \<open>simp_all add: s1_def\<close>)
  ultimately show ?case by (simp add: split_beta)
qed

lemma lost_packet_shape:
  assumes "single_shape (xs @ lost # ys) w enc r \<or> blob_shape (xs @ lost # ys) w enc r"
    and "ps_blob r = None"
  shows "no_payload (snd (receive_all r (xs @ ys)))"
  using assms(1)
proof
  assume "single_shape (xs @ lost # ys) w enc r"
  then have "xs = [] \<and> ys = []" by (auto simp: single_shape_def append_eq_Cons_conv)
  then show ?thesis by simp
next
  assume "blob_shape (xs @ lost # ys) w enc r"
  then obtain bs fs r1 ba rest room where fr: "xs @ lost # ys = bs # fs"
    and r1: "receive r bs = (r1, Inr RNothing)" and
    sh: "ps_blob r1 = Some ba" "\<not> ba_complete ba" "0 < room" "room \<le> 255"
      "int (length (ba_buffer ba) + length rest) = bh_length (ba_header ba)"
      "mapE packet_to_bytes (chunk_packets room rest (ps_last_sequence r1)) = Inr fs"
    unfolding blob_shape_def by blast
  show ?thesis
  proof (cases xs)
    case Nil
    with fr have "ys = fs" by simp
    with receive_chunks_orphaned [OF assms(2) sh(3,4,6)] Nil show ?thesis by simp
  next
    case (Cons x xs')
    with fr have x: "x = bs" and fs: "fs = xs' @ lost # ys" by auto
    from receive_lost_chunk [OF sh(1-5) sh(6) [unfolded fs]] r1 show ?thesis
      by (simp add: Cons x split_beta)
  qed
qed

text \<open>
  C12: a lost packet never yields a wrong payload: when any one write of a framed payload
  does not arrive, the receiving stream delivers nothing at all from the rest.
\<close>

theorem lost_packet_delivers_nothing:
  assumes "frame s payload = Inr (xs @ lost # ys)" and "ps_blob r = None"
  shows "no_payload (snd (receive_all r (xs @ ys)))"
proof -
  from assms(1) obtain w packets
    where "packetize w (ps_cipher s \<noteq> None) (ps_mtu s) = Inr packets"
      and "mapE packet_to_bytes packets = Inr (xs @ lost # ys)"
    by (auto simp: frame_def bindE_eq_Inr)
  from packetized_shape [OF this assms(2)] show ?thesis
    by (rule lost_packet_shape [OF _ assms(2)])
qed

theorem lost_packet_delivers_nothing_witness:
  "\<exists>lost ys. frame example_stream (replicate 30 7) = Inr (lost # ys)
    \<and> no_payload (snd (receive_all example_stream ys))"
proof -
  obtain frames where fr: "frame example_stream (replicate 30 7) = Inr frames"
    using frame_total [of example_stream "replicate 30 7"] by (auto simp: example_stream_def)
  with frame_nonempty [OF fr] obtain lost ys where "frame example_stream (replicate 30 7) = Inr ([] @ lost # ys)"
    by (cases frames) auto
  from lost_packet_delivers_nothing [OF this, of example_stream] this show ?thesis
    by (auto simp: example_stream_def)
qed

text \<open>
  C13: a malformed or out-of-sequence notification costs at most the blob in progress. From
  any state, once \<open>receive\<close> has raised BleProtocolError no blob is in progress, and the next
  payload the peer frames is delivered in full, whatever came before.
\<close>

theorem recovers_after_protocol_error:
  assumes "receive r bad = (r1, Inl e)" and "is_protocol_error e"
    and "frame s payload = Inr frames" and "stream_encrypt s payload = Inr w"
    and "stream_decrypt r w = Inr data"
  shows "last (snd (receive_all r (bad # frames))) = Inr (RPayload data (ps_cipher s \<noteq> None))
    \<and> \<not> receiving_blob (fst (receive_all r (bad # frames)))"
proof -
  have idle: "ps_blob r1 = None"
    using assms(1,2) by (auto simp: receive_def split_beta Let_def split: sum.splits if_splits)
  have cip: "ps_cipher r1 = ps_cipher r" using receive_cipher(1) [of r bad] assms(1) by simp
  from assms(3,4) obtain packets
    where pk: "packetize w (ps_cipher s \<noteq> None) (ps_mtu s) = Inr packets"
      and fr: "mapE packet_to_bytes packets = Inr frames"
    by (auto simp: frame_def bindE_eq_Inr)
  from receive_packetized [OF pk fr idle] assms(1,5) cip show ?thesis
    by (auto simp: deliver_def stream_decrypt_def receiving_blob_def)
qed

theorem recovers_after_protocol_error_witness:
  "\<exists>r1 e frames. receive example_stream [1, 2] = (r1, Inl e)
    \<and> frame example_stream (replicate 30 7) = Inr frames
    \<and> last (snd (receive_all example_stream ([1, 2] # frames))) = Inr (RPayload (replicate 30 7) False)"
proof -
  have enc: "stream_encrypt example_stream (replicate 30 7) = Inr (replicate 30 7)"
    "stream_decrypt example_stream (replicate 30 7) = Inr (replicate 30 7)"
    by (simp_all add: stream_encrypt_def stream_decrypt_def example_stream_def)
  obtain frames where fr: "frame example_stream (replicate 30 7) = Inr frames"
    using frame_total [of example_stream "replicate 30 7"] by (auto simp: example_stream_def)
  obtain m where bad: "receive example_stream [1, 2] = (stream_reset example_stream, Inl (BleProtocolError m))"
    by (simp add: receive_def packet_from_bytes_def codec_simps)
  from recovers_after_protocol_error [OF bad _ fr enc] bad fr show ?thesis
    by (auto simp: example_stream_def)
qed

end
