(* ===== verification/Command.thy ===== *)
theory Command
  imports Packet_Stream
begin

text \<open>
  \<^verbatim>\<open>ble/protocol/command.py\<close>: Layer 2 commands and the counter that hands out command
  refs. The counter's closed form shows that it stays clear of the event ref and that a ref
  comes back only after 127 commands.
\<close>

section \<open>Command\<close>

record command_payload =
  cp_id :: command_id
  cp_data :: bytes

record command =
  cm_id :: command_id
  cm_ref :: int
  cm_payload :: bytes
  cm_rfu :: int

definition mk_command_payload :: "command_id \<Rightarrow> bytes \<Rightarrow> command_payload" where
  "mk_command_payload i d = \<lparr>cp_id = i, cp_data = d\<rparr>"

lemma mk_command_payload_sel [simp]:
  "cp_id (mk_command_payload i d) = i" "cp_data (mk_command_payload i d) = d"
  by (simp_all add: mk_command_payload_def)

definition with_ref :: "command_payload \<Rightarrow> int \<Rightarrow> command" where
  "with_ref c ref = \<lparr>cm_id = cp_id c, cm_ref = ref, cm_payload = cp_data c, cm_rfu = 0\<rparr>"

definition command_to_bytes :: "command \<Rightarrow> bytes res" where
  "command_to_bytes c =
     bindE (raise_if (\<not> (COMMAND_REF_MIN \<le> cm_ref c \<and> cm_ref c \<le> COMMAND_REF_MAX))
              (BleValidationError (''CommandRef {} is outside {}-{}'',
                 [cm_ref c, COMMAND_REF_MIN, COMMAND_REF_MAX]))) (\<lambda>_.
     bindE (raise_if (int (length (cm_payload c)) > PACKET_PAYLOAD_MAX)
              (BleValidationError (''Command payload of {} bytes exceeds {}'',
                 [int (length (cm_payload c)), PACKET_PAYLOAD_MAX]))) (\<lambda>_.
     bindE (write_uint8 byte_writer_init (command_value (cm_id c))) (\<lambda>w.
     bindE (write_uint8 w (int (length (cm_payload c)))) (\<lambda>w.
     bindE (write_uint8 w (cm_ref c)) (\<lambda>w.
     bindE (write_uint8 w (cm_rfu c)) (\<lambda>w.
     write_bytes w (cm_payload c)))))))"

definition command_from_bytes :: "bytes \<Rightarrow> command res" where
  "command_from_bytes data =
     (let r = byte_reader_init data in
     bindE (raise_if (remaining r < COMMAND_HEADER_SIZE)
              (BleProtocolError (''Command of {} byte(s) is shorter than its {}-byte header'',
                 [int (length data), COMMAND_HEADER_SIZE]))) (\<lambda>_.
     bindE (read_uint8 r) (\<lambda>(raw_id, r).
     case command_of raw_id of
       None \<Rightarrow> Inl (BleProtocolError (''Unknown command id 0x{}'', [raw_id]))
     | Some i \<Rightarrow>
         bindE (read_uint8 r) (\<lambda>(len, r).
         bindE (read_uint8 r) (\<lambda>(ref, r).
         bindE (read_uint8 r) (\<lambda>(rfu, r).
         bindE (read_bytes r len) (\<lambda>(payload, r).
         Inr \<lparr>cm_id = i, cm_ref = ref, cm_payload = payload, cm_rfu = rfu\<rparr>)))))))"

definition command_ok :: "command \<Rightarrow> bool" where
  "command_ok c \<longleftrightarrow> 1 \<le> cm_ref c \<and> cm_ref c \<le> 254 \<and> length (cm_payload c) \<le> 255
     \<and> 0 \<le> cm_rfu c \<and> cm_rfu c < 256"

lemma command_value_byte [simp]: "0 \<le> command_value i" "command_value i < 256"
  by (cases i; simp)+

lemma command_to_bytes_ok:
  "command_ok c \<Longrightarrow> command_to_bytes c =
     Inr ([word_of_int (command_value (cm_id c)), word_of_int (int (length (cm_payload c))),
           word_of_int (cm_ref c), word_of_int (cm_rfu c)] @ cm_payload c)"
  by (simp add: command_to_bytes_def command_ok_def codec_simps)

lemma command_from_to_bytes:
  assumes "command_ok c" and "command_to_bytes c = Inr bs"
  shows "command_from_bytes (bs @ pad) = Inr c"
proof -
  have "command_from_bytes
      ([word_of_int (command_value (cm_id c)), word_of_int (int (length (cm_payload c))),
        word_of_int (cm_ref c), word_of_int (cm_rfu c)] @ cm_payload c @ pad) = Inr c"
    using assms(1)
    by (simp add: command_from_bytes_def command_ok_def codec_simps uint_word_of_int_byte
        uint_word_of_nat_byte)
  with assms show ?thesis by (auto simp: command_to_bytes_ok)
qed

interpretation command_frame: padded_frame command_to_bytes command_from_bytes command_ok
  by unfold_locales (auto simp: command_to_bytes_ok intro: command_from_to_bytes)

lemma command_from_bytes_error: "command_from_bytes data = Inl e \<Longrightarrow> is_protocol_error e"
  by (auto simp: command_from_bytes_def Let_def bindE_eq_Inl split: prod.splits option.splits
      dest: read_errors read_uint8_nonneg)

section \<open>CommandRefCounter\<close>

record command_ref_counter =
  rc_static :: bool
  rc_next :: int

definition ref_counter_init :: "bool \<Rightarrow> command_ref_counter" where
  "ref_counter_init static = \<lparr>rc_static = static, rc_next = COMMAND_REF_MIN\<rparr>"

definition ref_counter_for_firmware :: "firmware_version \<Rightarrow> command_ref_counter" where
  "ref_counter_for_firmware firmware = ref_counter_init (firmware < MIN_FIRMWARE_ADMIN)"

definition next_ref :: "command_ref_counter \<Rightarrow> int \<times> command_ref_counter" where
  "next_ref c =
     (if rc_static c then (COMMAND_REF_STATIC, c)
      else let ref = rc_next c
           in (ref, c\<lparr>rc_next := (if ref + 1 < COMMAND_REF_COUNTER_WRAP then ref + 1
                                  else COMMAND_REF_MIN)\<rparr>))"

text \<open>The counter as a machine: one step is one command.\<close>

inductive ref_step :: "command_ref_counter \<Rightarrow> command_ref_counter \<Rightarrow> bool" where
  hand_out: "next_ref c = (ref, c') \<Longrightarrow> ref_step c c'"

definition ref_counter_ok :: "command_ref_counter \<Rightarrow> bool" where
  "ref_counter_ok c \<longleftrightarrow> 1 \<le> rc_next c \<and> rc_next c < COMMAND_REF_COUNTER_WRAP"

lemma ref_step_ok: "ref_counter_ok c \<Longrightarrow> ref_step c c' \<Longrightarrow> ref_counter_ok c'"
  by (auto simp: ref_counter_ok_def next_ref_def Let_def elim!: ref_step.cases split: if_splits)

lemma ref_counter_init_ok: "ref_counter_ok (ref_counter_init static)"
  by (simp add: ref_counter_init_def ref_counter_ok_def)

interpretation ref_machine: state_machine "\<lambda>c. \<exists>st. c = ref_counter_init st" ref_step ref_counter_ok
  by unfold_locales (auto simp: ref_counter_init_ok intro: ref_step_ok)

lemma next_ref_static [simp]: "rc_static (snd (next_ref c)) = rc_static c"
  by (simp add: next_ref_def Let_def)

lemma next_ref_ok:
  "ref_counter_ok c \<Longrightarrow> ref_counter_ok (snd (next_ref c))"
  "ref_counter_ok c \<Longrightarrow> 1 \<le> fst (next_ref c) \<and> fst (next_ref c) < 128"
  by (auto simp: ref_counter_ok_def next_ref_def Let_def)

fun refs_after :: "nat \<Rightarrow> command_ref_counter \<Rightarrow> command_ref_counter" where
  "refs_after 0 c = c"
| "refs_after (Suc n) c = refs_after n (snd (next_ref c))"

definition nth_ref :: "command_ref_counter \<Rightarrow> nat \<Rightarrow> int" where
  "nth_ref c n = fst (next_ref (refs_after n c))"

lemma refs_after_static [simp]: "rc_static (refs_after n c) = rc_static c"
  by (induction n arbitrary: c) simp_all

lemma refs_after_closed:
  assumes "\<not> rc_static c" "rc_next c = 1 + int (k mod 127)"
  shows "rc_next (refs_after n c) = 1 + int ((k + n) mod 127)"
  using assms
proof (induction n arbitrary: c k)
  case 0
  then show ?case by simp
next
  case (Suc n)
  have "k mod 127 < 127" by simp
  then have "rc_next (snd (next_ref c)) = 1 + int (Suc k mod 127)"
    using Suc.prems by (auto simp: next_ref_def Let_def mod_Suc)
  moreover have "\<not> rc_static (snd (next_ref c))" using Suc.prems by simp
  ultimately show ?case using Suc.IH [of "snd (next_ref c)" "Suc k"] by simp
qed

lemma nth_ref_counter: "nth_ref (ref_counter_init False) n = 1 + int (n mod 127)"
  using refs_after_closed [of "ref_counter_init False" 0 n]
  by (simp add: nth_ref_def next_ref_def ref_counter_init_def Let_def
      refs_after_static [of n "\<lparr>rc_static = False, rc_next = 1\<rparr>", simplified])

lemma nth_ref_static: "nth_ref (ref_counter_init True) n = COMMAND_REF_STATIC"
  by (simp add: nth_ref_def next_ref_def ref_counter_init_def)

end
