(* ===== verification/Response.thy ===== *)
theory Response
  imports Command
begin

text \<open>
  \<^verbatim>\<open>ble/protocol/response.py\<close>: Layer 3 responses. Ids and statuses that are no known member
  stay raw ints. A parsed response serialises back to the bytes it came from, so the
  session can always trace an event it dropped.
\<close>

definition EVENT_COMMAND_REF :: int where [simp]: "EVENT_COMMAND_REF = 128"

definition expected_response_id :: "command_id \<Rightarrow> response_id option" where
  "expected_response_id c = response_of (command_value c)"

record response =
  rs_id :: "response_id raw_enum"
  rs_ref :: int
  rs_status :: "response_status_id raw_enum"
  rs_payload :: bytes

abbreviation rid_value :: "response \<Rightarrow> int" where
  "rid_value r \<equiv> raw_value response_value (rs_id r)"

abbreviation rstatus_value :: "response \<Rightarrow> int" where
  "rstatus_value r \<equiv> raw_value status_value (rs_status r)"

definition response_is_ok :: "response \<Rightarrow> bool" where
  "response_is_ok r = (rstatus_value r = status_value STATUS_SUCCESS)"

definition is_event :: "response \<Rightarrow> bool" where
  "is_event r = (rs_ref r = EVENT_COMMAND_REF)"

definition raise_for_status :: "response \<Rightarrow> unit res" where
  "raise_for_status r =
     (if \<not> response_is_ok r
      then bindE (error_for_status (rstatus_value r) (rid_value r)) (\<lambda>e. Inl e)
      else Inr ())"

definition response_to_bytes :: "response \<Rightarrow> bytes res" where
  "response_to_bytes r =
     bindE (write_uint8 byte_writer_init (rid_value r)) (\<lambda>w.
     bindE (write_uint8 w (int (length (rs_payload r)))) (\<lambda>w.
     bindE (write_uint8 w (rs_ref r)) (\<lambda>w.
     bindE (write_uint8 w (rstatus_value r)) (\<lambda>w.
     write_bytes w (rs_payload r)))))"

definition response_from_bytes :: "bytes \<Rightarrow> response res" where
  "response_from_bytes data =
     (let r = byte_reader_init data in
     bindE (raise_if (remaining r < RESPONSE_HEADER_SIZE)
              (BleProtocolError (''Response of {} byte(s) is shorter than its {}-byte header'',
                 [int (length data), RESPONSE_HEADER_SIZE]))) (\<lambda>_.
     bindE (read_uint8 r) (\<lambda>(raw_id, r).
     bindE (read_uint8 r) (\<lambda>(len, r).
     bindE (read_uint8 r) (\<lambda>(ref, r).
     bindE (read_uint8 r) (\<lambda>(raw_status, r).
     bindE (read_bytes r len) (\<lambda>(payload, r).
     Inr \<lparr>rs_id = known response_of raw_id, rs_ref = ref,
          rs_status = known status_of raw_status, rs_payload = payload\<rparr>)))))))"

section \<open>Round trips\<close>

text \<open>
  The responses \<open>response_from_bytes\<close> can return: byte-sized fields, and an id or status is
  raw only when it is no member.
\<close>

definition response_ok :: "response \<Rightarrow> bool" where
  "response_ok r \<longleftrightarrow> length (rs_payload r) \<le> 255
     \<and> 0 \<le> rs_ref r \<and> rs_ref r < 256
     \<and> 0 \<le> rid_value r \<and> rid_value r < 256 \<and> rs_id r = known response_of (rid_value r)
     \<and> 0 \<le> rstatus_value r \<and> rstatus_value r < 256
     \<and> rs_status r = known status_of (rstatus_value r)"

lemma response_to_bytes_ok:
  "response_ok r \<Longrightarrow> response_to_bytes r =
     Inr ([word_of_int (rid_value r), word_of_int (int (length (rs_payload r))),
           word_of_int (rs_ref r), word_of_int (rstatus_value r)] @ rs_payload r)"
  by (simp add: response_to_bytes_def response_ok_def codec_simps)

lemma response_from_to_bytes:
  assumes "response_ok r" and "response_to_bytes r = Inr bs"
  shows "response_from_bytes (bs @ pad) = Inr r"
proof -
  have "response_from_bytes
      ([word_of_int (rid_value r), word_of_int (int (length (rs_payload r))),
        word_of_int (rs_ref r), word_of_int (rstatus_value r)] @ rs_payload r @ pad)
    = Inr \<lparr>rs_id = known response_of (rid_value r), rs_ref = rs_ref r,
          rs_status = known status_of (rstatus_value r), rs_payload = rs_payload r\<rparr>"
    using assms(1)
    by (simp add: response_from_bytes_def response_ok_def codec_simps uint_word_of_int_byte
        uint_word_of_nat_byte del: known.simps)
  also have "\<dots> = Inr r" using assms(1) unfolding response_ok_def by (cases r) simp
  finally show ?thesis using assms by (auto simp: response_to_bytes_ok)
qed

interpretation response_frame: padded_frame response_to_bytes response_from_bytes response_ok
  by unfold_locales (auto simp: response_to_bytes_ok intro: response_from_to_bytes)

lemma raw_value_known_response [simp]: "raw_value response_value (known response_of v) = v"
  by (rule response_enum.raw_value_known)

lemma raw_value_known_status [simp]: "raw_value status_value (known status_of v) = v"
  by (rule status_enum.raw_value_known)

declare known.simps [simp del]

lemma response_from_bytes_parts:
  "response_from_bytes data = Inr r \<longleftrightarrow>
     (\<exists>i n f st rest. data = i # n # f # st # rest \<and> uint n \<le> int (length rest)
        \<and> r = \<lparr>rs_id = known response_of (uint i), rs_ref = uint f,
               rs_status = known status_of (uint st), rs_payload = take (nat (uint n)) rest\<rparr>)"
proof (cases "length data < 4")
  case True
  then show ?thesis by (auto simp: response_from_bytes_def codec_simps)
next
  case False
  then obtain i n f st rest where d: "data = i # n # f # st # rest"
    using four_bytes [of data] by auto
  show ?thesis
    unfolding d by (auto simp: response_from_bytes_def codec_simps read_bytes_def bindE_eq_Inr reader_take_Inr)
qed

lemma response_from_bytes_ok: "response_from_bytes data = Inr r \<Longrightarrow> response_ok r"
  unfolding response_from_bytes_parts
proof (elim exE conjE)
  fix i n f st :: byte and rest
  assume n: "uint n \<le> int (length rest)"
    and r: "r = \<lparr>rs_id = known response_of (uint i), rs_ref = uint f,
        rs_status = known status_of (uint st), rs_payload = take (nat (uint n)) rest\<rparr>"
  have "nat (uint n) \<le> 255" using uint_byte_le [of n] by linarith
  then show "response_ok r" unfolding r by (simp add: response_ok_def min_def)
qed

lemma response_from_bytes_error: "response_from_bytes data = Inl e \<Longrightarrow> is_protocol_error e"
  by (auto simp: response_from_bytes_def Let_def bindE_eq_Inl split: prod.splits
      dest: read_errors read_uint8_nonneg)

lemma raise_for_status_cases:
  "raise_for_status r = (if response_is_ok r then Inr ()
     else Inl (case error_for_status (rstatus_value r) (rid_value r) of Inl e \<Rightarrow> e | Inr e \<Rightarrow> e))"
  by (auto simp: raise_for_status_def split: sum.splits)

lemma raise_for_status_error:
  "raise_for_status r = Inl e \<Longrightarrow> \<exists>c. e = BleOperationError c (rstatus_value r) (rid_value r)"
  using error_for_status_total [of "rstatus_value r" "rid_value r"]
  by (auto simp: raise_for_status_cases response_is_ok_def split: if_splits)

lemma expected_response_id_total:
  "\<exists>r. expected_response_id c = Some r \<and> response_value r = command_value c"
  by (cases c) (simp_all add: expected_response_id_def response_of_def response_members_def)

section \<open>Properties\<close>

text \<open>
  Layer 3 parsing inverts printing both ways. Every response the parser accepts
  serialises to exactly the header and the declared payload at the front of its input,
  and parsing that again, with any padding behind it, gives the same response.
\<close>

theorem response_parse_print:
  assumes "response_from_bytes data = Inr r"
  shows "\<exists>rest. response_to_bytes r = Inr (take (4 + length (rs_payload r)) data)
    \<and> data = take (4 + length (rs_payload r)) data @ rest
    \<and> response_from_bytes (take (4 + length (rs_payload r)) data @ pad) = Inr r"
proof -
  obtain i n f st rest where d: "data = i # n # f # st # rest" and n: "uint n \<le> int (length rest)"
    and r: "r = \<lparr>rs_id = known response_of (uint i), rs_ref = uint f,
        rs_status = known status_of (uint st), rs_payload = take (nat (uint n)) rest\<rparr>"
    using assms unfolding response_from_bytes_parts by blast
  have ok: "response_ok r" by (rule response_from_bytes_ok [OF assms])
  have "nat (uint n) \<le> length rest" using n by linarith
  then have len: "length (take (nat (uint n)) rest) = nat (uint n)" by (simp only: length_take min.absorb2)
  have "response_to_bytes r = Inr (take (4 + length (rs_payload r)) data)"
    unfolding response_to_bytes_ok [OF ok] using len by (simp add: d r eval_nat_numeral)
  with response_from_to_bytes [OF ok this] show ?thesis by (metis append_take_drop_id)
qed

theorem response_parse_print_witness:
  "\<exists>r. response_from_bytes [96, 1, 128, 0, 5, 0, 0] = Inr r
    \<and> response_to_bytes r = Inr [96, 1, 128, 0, 5]
    \<and> response_from_bytes ([96, 1, 128, 0, 5] @ [9]) = Inr r"
proof -
  define r where "r = \<lparr>rs_id = known response_of 96, rs_ref = 128,
      rs_status = known status_of 0, rs_payload = [5 :: byte]\<rparr>"
  have p: "response_from_bytes [96, 1, 128, 0, 5, 0, 0] = Inr r"
    by (simp add: response_from_bytes_parts r_def)
  from response_parse_print [OF p, of "[9]"] p show ?thesis by (auto simp: r_def)
qed

text \<open>
  The refs handed to commands never meet the ref of the lock's own events: on old
  firmware every ref is the static 16, on firmware with the counter the \<open>n\<close>-th ref is
  \<open>1 + n mod 127\<close>, so two commands fewer than 127 apart never share one.
\<close>

theorem command_refs:
  "(fw < MIN_FIRMWARE_ADMIN \<longrightarrow> nth_ref (ref_counter_for_firmware fw) n = COMMAND_REF_STATIC)
   \<and> (MIN_FIRMWARE_ADMIN \<le> fw \<longrightarrow>
        nth_ref (ref_counter_for_firmware fw) n = 1 + int (n mod 127)
        \<and> (\<forall>m. n < m \<and> m < n + 127 \<longrightarrow>
             nth_ref (ref_counter_for_firmware fw) n \<noteq> nth_ref (ref_counter_for_firmware fw) m))
   \<and> 1 \<le> nth_ref (ref_counter_for_firmware fw) n
   \<and> nth_ref (ref_counter_for_firmware fw) n < EVENT_COMMAND_REF"
proof (cases "fw < MIN_FIRMWARE_ADMIN")
  case True
  then show ?thesis by (simp add: ref_counter_for_firmware_def nth_ref_static not_le)
next
  case False
  have "n mod 127 \<noteq> m mod 127" if m: "n < m" "m < n + 127" for m :: nat
  proof
    assume "n mod 127 = m mod 127"
    then have "127 dvd m - n" using m(1) by (metis mod_eq_dvd_iff_nat less_imp_le)
    with m show False by (auto dest!: dvd_imp_le)
  qed
  moreover have "n mod 127 < 127" by simp
  ultimately show ?thesis
    using False by (auto simp: ref_counter_for_firmware_def nth_ref_counter simp del: mod_less_divisor)
qed

theorem command_refs_witness:
  "nth_ref (ref_counter_for_firmware (4, 7, 89)) 5 = 16
   \<and> nth_ref (ref_counter_for_firmware (4, 7, 90)) 127 = 1"
  using command_refs [of "(4, 7, 89)" 5] command_refs [of "(4, 7, 90)" 127] by simp

end
