(* ===== verification/Commands.thy ===== *)
theory Commands
  imports Response
begin

text \<open>
  \<^verbatim>\<open>ble/protocol/commands.py\<close>: one builder per command, with the checks the source makes
  before anything reaches the lock, in the source's order. A PIN is a \<open>string\<close>; the theorems
  show which calls succeed, that the payload reads back to the arguments, that every payload
  frames, and that no error discloses more of a PIN than its length.
\<close>

section \<open>Shared checks\<close>

definition MASTER_PIN_SLOT :: int where [simp]: "MASTER_PIN_SLOT = 0"

definition UINT16_SLOTS :: slot_range where [simp]: "UINT16_SLOTS = (0, 65536)"

definition check_slot :: "int \<Rightarrow> slot_range \<Rightarrow> unit res" where
  "check_slot slot slots =
     raise_if (\<not> in_range slot slots)
       (BleValidationError
         (''Invalid SlotNumber, got value {}, but expected a value range of {} - {}'',
          [slot, fst slots, snd slots - 1]))"

definition check_length :: "bytes \<Rightarrow> string \<Rightarrow> int \<Rightarrow> unit res" where
  "check_length value name len =
     raise_if (int (length value) \<noteq> len)
       (BleValidationError
         (''Invalid '' @ name @ '', expected length {}, but got length {}'',
          [len, int (length value)]))"

definition slot_command :: "command_id \<Rightarrow> int \<Rightarrow> slot_range \<Rightarrow> command_payload res" where
  "slot_command i slot slots =
     bindE (check_slot slot slots) (\<lambda>_.
     bindE (write_uint16 byte_writer_init slot) (\<lambda>w.
     Inr (mk_command_payload i w)))"

definition flag_command :: "command_id \<Rightarrow> bool \<Rightarrow> command_payload res" where
  "flag_command i enabled =
     bindE (write_uint8 byte_writer_init (if enabled then 1 else 0)) (\<lambda>w.
     Inr (mk_command_payload i w))"

definition empty_command :: "command_id \<Rightarrow> command_payload res" where
  "empty_command i = Inr (mk_command_payload i [])"

definition member_of :: "(int \<Rightarrow> 'e option) \<Rightarrow> string \<Rightarrow> int \<Rightarrow> 'e res" where
  "member_of of_val name v =
     (case of_val v of
        Some m \<Rightarrow> Inr m
      | None \<Rightarrow> Inl (BleValidationError (''{} is not a '' @ name, [v])))"

section \<open>Link and owner authentication\<close>

definition exchange_key_pub_m :: "bytes \<Rightarrow> command_payload res" where
  "exchange_key_pub_m pk =
     bindE (check_length pk ''PubM'' PUBLIC_KEY_LENGTH) (\<lambda>_.
     Inr (mk_command_payload CMD_EXCHANGE_KEY_PUB_M pk))"

definition user_auth_begin :: "int \<Rightarrow> bytes \<Rightarrow> command_payload res" where
  "user_auth_begin user_id device_id =
     bindE (check_length device_id ''DeviceId'' DEVICE_ID_LENGTH) (\<lambda>_.
     bindE (write_uint8 byte_writer_init user_id) (\<lambda>w.
     bindE (write_bytes w device_id) (\<lambda>w.
     Inr (mk_command_payload CMD_USER_AUTH_BEGIN w))))"

definition user_auth_finalize :: "bytes \<Rightarrow> command_payload res" where
  "user_auth_finalize challenge =
     bindE (check_length challenge ''Challenge'' CHALLENGE_LENGTH) (\<lambda>_.
     Inr (mk_command_payload CMD_USER_AUTH_FINALIZE challenge))"

definition user_auth_update :: "int \<Rightarrow> int \<Rightarrow> bytes \<Rightarrow> command_payload res" where
  "user_auth_update user_id credentials pk =
     bindE (check_length pk ''PublicKey'' PUBLIC_KEY_LENGTH) (\<lambda>_.
     bindE (write_uint8 byte_writer_init user_id) (\<lambda>w.
     bindE (write_uint8 w credentials) (\<lambda>w.
     bindE (write_bytes w pk) (\<lambda>w.
     Inr (mk_command_payload CMD_USER_AUTH_UPDATE w)))))"

definition device_id_set :: "bytes \<Rightarrow> command_payload res" where
  "device_id_set device_id =
     bindE (check_length device_id ''DeviceId'' DEVICE_ID_LENGTH) (\<lambda>_.
     Inr (mk_command_payload CMD_DEVICE_ID_SET device_id))"

definition device_id_get :: "command_payload res" where
  "device_id_get = empty_command CMD_DEVICE_ID_GET"

definition device_name_set :: "string \<Rightarrow> command_payload res" where
  "device_name_set name =
     bindE (write_string byte_writer_init name DEVICE_NAME_MAX_LENGTH) (\<lambda>w.
     Inr (mk_command_payload CMD_DEVICE_NAME_SET w))"

definition device_name_get :: "command_payload res" where
  "device_name_get = empty_command CMD_DEVICE_NAME_GET"

definition server_key_update :: "bytes \<Rightarrow> command_payload res" where
  "server_key_update pk =
     bindE (check_length pk ''ServerPublicKey'' PUBLIC_KEY_LENGTH) (\<lambda>_.
     Inr (mk_command_payload CMD_SERVER_KEY_UPDATE pk))"

section \<open>Credentials in slots\<close>

definition pin_digit :: "char \<Rightarrow> bool" where
  "pin_digit c = (48 \<le> (of_char c :: int) \<and> (of_char c :: int) \<le> 57)"

definition pin_code_set :: "int \<Rightarrow> string \<Rightarrow> bool \<Rightarrow> command_payload res" where
  "pin_code_set slot pin ignore_slot_check =
     bindE (raise_if (\<not> (PIN_LENGTH_MIN \<le> int (length pin) \<and> int (length pin) \<le> PIN_LENGTH_MAX))
              (BleValidationError
                (''Invalid Pincode, expected a length of {} - {}, but got length {}'',
                 [PIN_LENGTH_MIN, PIN_LENGTH_MAX, int (length pin)]))) (\<lambda>_.
     bindE (raise_if (\<not> list_all pin_digit pin)
              (BleValidationError
                (''Invalid Pincode, only the characters 0-9 are permitted'', []))) (\<lambda>_.
     bindE (check_slot slot (if ignore_slot_check then UINT16_SLOTS else PIN_SLOTS)) (\<lambda>_.
     bindE (write_uint16 byte_writer_init slot) (\<lambda>w.
     bindE (write_uint8 w (int (length pin))) (\<lambda>w.
     bindE (write_raw_string w pin) (\<lambda>w.
     Inr (mk_command_payload CMD_PIN_CODE_SET w)))))))"

definition master_pin_code_set :: "string \<Rightarrow> command_payload res" where
  "master_pin_code_set pin = pin_code_set MASTER_PIN_SLOT pin True"

definition pin_code_clear :: "int \<Rightarrow> command_payload res" where
  "pin_code_clear slot = slot_command CMD_PIN_CODE_CLEAR slot PIN_SLOTS"

definition rfid_code_clear :: "int \<Rightarrow> command_payload res" where
  "rfid_code_clear slot = slot_command CMD_RFID_CODE_CLEAR slot RFID_SLOTS"

definition scan_rfid_code :: "int \<Rightarrow> command_payload res" where
  "scan_rfid_code slot = slot_command CMD_SCAN_RFID_CODE slot RFID_SLOTS"

definition fingerprint_scan :: "int \<Rightarrow> command_payload res" where
  "fingerprint_scan slot = slot_command CMD_FINGERPRINT_SCAN slot FINGERPRINT_SLOTS"

definition fingerprint_clear :: "int \<Rightarrow> command_payload res" where
  "fingerprint_clear slot = slot_command CMD_FINGERPRINT_CLEAR slot FINGERPRINT_SLOTS"

section \<open>Lock operation and settings\<close>

definition ekey_operate :: "int \<Rightarrow> command_payload res" where
  "ekey_operate operation =
     bindE (member_of ekey_op_of ''EkeyOperationId'' operation) (\<lambda>m.
     bindE (write_uint8 byte_writer_init (ekey_op_value m)) (\<lambda>w.
     Inr (mk_command_payload CMD_EKEY_OPERATE w)))"

definition volume_set :: "int \<Rightarrow> command_payload res" where
  "volume_set volume =
     bindE (member_of volume_of ''LockVolumeId'' volume) (\<lambda>m.
     bindE (write_uint8 byte_writer_init (volume_value m)) (\<lambda>w.
     Inr (mk_command_payload CMD_VOLUME_SET w)))"

definition auto_lock_set :: "bool \<Rightarrow> command_payload res" where
  "auto_lock_set enabled = flag_command CMD_AUTO_LOCK_SET enabled"

definition keypad_enable_set :: "bool \<Rightarrow> command_payload res" where
  "keypad_enable_set enabled = flag_command CMD_KEYPAD_ENABLE_SET enabled"

definition current_time_get :: "command_payload res" where
  "current_time_get = empty_command CMD_CURRENT_TIME_GET"

definition current_time_set :: "int \<Rightarrow> command_payload res" where
  "current_time_set time =
     bindE (write_uint32 byte_writer_init time) (\<lambda>w.
     Inr (mk_command_payload CMD_CURRENT_TIME_SET w))"

definition batt_info_get :: "command_payload res" where
  "batt_info_get = empty_command CMD_BATT_INFO_GET"

definition device_log_get :: "command_payload res" where
  "device_log_get = empty_command CMD_DEVICE_LOG_GET"

definition device_model_get :: "command_payload res" where
  "device_model_get = empty_command CMD_DEVICE_MODEL_GET"

subsection \<open>Lock time\<close>

text \<open>
  A \<^verbatim>\<open>datetime\<close> is naive or aware; an aware one is the number of microseconds from
  LOCK_TIME_EPOCH (2023-01-01 UTC) to it, a naive one the same count without the zone.
  Python's datetime ends with the last microsecond of the year 9999 and starts with the
  year 1; arithmetic outside raises OverflowError.
\<close>

datatype moment = Naive int | Aware int

definition MICROS_PER_MINUTE :: int where [simp]: "MICROS_PER_MINUTE = 60000000"
definition DATETIME_MIN_MICROS :: int where [simp]: "DATETIME_MIN_MICROS = -63808128000000000"
definition DATETIME_MAX_MICROS :: int where [simp]: "DATETIME_MAX_MICROS = 251729769599999999"

definition to_lock_time :: "moment \<Rightarrow> int res" where
  "to_lock_time m =
     (case m of
        Naive us \<Rightarrow> Inl (BleValidationError (''Lock time needs a timezone-aware datetime'', []))
      | Aware us \<Rightarrow>
          bindE (raise_if (us < 0)
                   (BleValidationError (''Lock time cannot be earlier than 2023-01-01 00:00 UTC'', []))) (\<lambda>_.
          Inr (us div MICROS_PER_MINUTE)))"

definition from_lock_time :: "int \<Rightarrow> moment res" where
  "from_lock_time minutes =
     (let us = minutes * MICROS_PER_MINUTE in
      if DATETIME_MIN_MICROS \<le> us \<and> us \<le> DATETIME_MAX_MICROS then Inr (Aware us)
      else Inl (PyException ''OverflowError''))"

section \<open>Which calls succeed\<close>

lemmas command_builder_defs =
  exchange_key_pub_m_def user_auth_begin_def user_auth_finalize_def user_auth_update_def
  device_id_set_def device_id_get_def device_name_set_def device_name_get_def
  server_key_update_def pin_code_clear_def rfid_code_clear_def scan_rfid_code_def
  fingerprint_scan_def fingerprint_clear_def ekey_operate_def volume_set_def
  auto_lock_set_def keypad_enable_set_def current_time_get_def current_time_set_def
  batt_info_get_def device_log_get_def device_model_get_def
  slot_command_def flag_command_def empty_command_def check_slot_def check_length_def

lemma pin_digit_iff: "pin_digit c \<longleftrightarrow> c \<in> set ''0123456789''"
proof
  assume d: "pin_digit c"
  define n where "n = (of_char c :: nat)"
  have c: "c = char_of n" by (simp add: n_def)
  have "(of_char c :: int) = int n" by (simp add: n_def of_nat_of_char)
  with d have "48 \<le> n" "n \<le> 57" by (auto simp: pin_digit_def)
  then have "n = 48 \<or> n = 49 \<or> n = 50 \<or> n = 51 \<or> n = 52 \<or> n = 53 \<or> n = 54 \<or> n = 55 \<or> n = 56 \<or> n = 57"
    by presburger
  then show "c \<in> set ''0123456789''" unfolding c by (elim disjE) (simp_all add: char_of_def bit_Suc_0_iff)
qed (auto simp: pin_digit_def)

lemma pin_digit_ascii: "list_all pin_digit pin \<Longrightarrow> isascii pin"
  by (auto simp: isascii_def pin_digit_def list_all_iff)

lemma pin_digit_nonzero: "list_all pin_digit pin \<Longrightarrow> \<forall>c \<in> set pin. (of_char c :: int) \<noteq> 0"
  by (auto simp: pin_digit_def list_all_iff)

definition pin_slots_for :: "bool \<Rightarrow> slot_range" where
  "pin_slots_for ignore = (if ignore then UINT16_SLOTS else PIN_SLOTS)"

definition pin_ok :: "string \<Rightarrow> bool" where
  "pin_ok pin \<longleftrightarrow> 4 \<le> length pin \<and> length pin \<le> 8 \<and> list_all pin_digit pin"

lemma pin_code_set_ok:
  assumes "pin_ok pin" and "in_range slot (pin_slots_for ig)"
  shows "pin_code_set slot pin ig
    = Inr (mk_command_payload CMD_PIN_CODE_SET
             (int_to_le 2 slot @ [word_of_nat (length pin)] @ ascii_encode pin))"
proof -
  have "0 \<le> slot" "slot < 65536"
    using assms(2) by (auto simp: pin_slots_for_def split: if_splits)
  then show ?thesis
    using assms pin_digit_ascii [of pin]
    by (simp add: pin_code_set_def pin_ok_def pin_slots_for_def check_slot_def codec_simps
        write_raw_string_def)
qed

lemma pin_code_set_Inr:
  "pin_code_set slot pin ig = Inr p \<longleftrightarrow>
     pin_ok pin \<and> in_range slot (pin_slots_for ig)
     \<and> p = mk_command_payload CMD_PIN_CODE_SET
             (int_to_le 2 slot @ [word_of_nat (length pin)] @ ascii_encode pin)"
proof (cases "pin_ok pin \<and> in_range slot (pin_slots_for ig)")
  case True
  then show ?thesis by (auto simp: pin_code_set_ok)
next
  case False
  then have "\<exists>e. pin_code_set slot pin ig = Inl e"
    by (auto simp: pin_code_set_def pin_ok_def pin_slots_for_def check_slot_def bindE_raise_if)
  with False show ?thesis by auto
qed

lemma read_uint16_le:
  "0 \<le> v \<Longrightarrow> v < 65536 \<Longrightarrow>
    read_uint16 (reader_at pre (int_to_le 2 v @ rest))
      = Inr (v, reader_at (pre @ int_to_le 2 v) rest)"
  by (simp add: int_to_le_2 codec_simps int_from_le_2 del: int_from_le.simps)

section \<open>Every payload frames\<close>

text \<open>The public builders as one type, so that a fact about all of them is one statement.\<close>

datatype builder_call =
    ExchangeKeyPubM bytes | UserAuthBeginCall int bytes | UserAuthFinalizeCall bytes
  | UserAuthUpdateCall int int bytes | DeviceIdSet bytes | DeviceIdGet | DeviceNameSet string
  | DeviceNameGet | ServerKeyUpdateCall bytes | PinCodeSet int string bool
  | MasterPinCodeSet string | PinCodeClear int | RfidCodeClear int | ScanRfidCode int
  | FingerprintScan int | FingerprintClear int | EkeyOperate int | VolumeSet int
  | AutoLockSet bool | KeypadEnableSet bool | CurrentTimeGet | CurrentTimeSet int
  | BattInfoGet | DeviceLogGet | DeviceModelGet

fun build :: "builder_call \<Rightarrow> command_payload res" where
  "build (ExchangeKeyPubM k) = exchange_key_pub_m k"
| "build (UserAuthBeginCall u d) = user_auth_begin u d"
| "build (UserAuthFinalizeCall c) = user_auth_finalize c"
| "build (UserAuthUpdateCall u c k) = user_auth_update u c k"
| "build (DeviceIdSet d) = device_id_set d"
| "build DeviceIdGet = device_id_get"
| "build (DeviceNameSet n) = device_name_set n"
| "build DeviceNameGet = device_name_get"
| "build (ServerKeyUpdateCall k) = server_key_update k"
| "build (PinCodeSet s p i) = pin_code_set s p i"
| "build (MasterPinCodeSet p) = master_pin_code_set p"
| "build (PinCodeClear s) = pin_code_clear s"
| "build (RfidCodeClear s) = rfid_code_clear s"
| "build (ScanRfidCode s) = scan_rfid_code s"
| "build (FingerprintScan s) = fingerprint_scan s"
| "build (FingerprintClear s) = fingerprint_clear s"
| "build (EkeyOperate o') = ekey_operate o'"
| "build (VolumeSet v) = volume_set v"
| "build (AutoLockSet b) = auto_lock_set b"
| "build (KeypadEnableSet b) = keypad_enable_set b"
| "build CurrentTimeGet = current_time_get"
| "build (CurrentTimeSet t) = current_time_set t"
| "build BattInfoGet = batt_info_get"
| "build DeviceLogGet = device_log_get"
| "build DeviceModelGet = device_model_get"

lemma write_uint_Inr:
  "write_uint w v k = Inr w' \<longleftrightarrow> 0 \<le> v \<and> v < 2 ^ (8 * k) \<and> w' = w @ int_to_le k v"
  by (auto simp: write_uint_def)

lemma write_string_length:
  "write_string w t width = Inr w' \<Longrightarrow> int (length w') = int (length w) + width"
  by (auto simp: write_string_def bindE_raise_if write_bytes_def split: if_splits)

lemmas builder_lengths =
  bindE_eq_Inr write_uint8_def write_uint16_def write_uint32_def write_uint_Inr write_bytes_def
  byte_writer_init_def master_pin_code_set_def pin_code_set_Inr pin_ok_def

lemma build_length: "build b = Inr p \<Longrightarrow> length (cp_data p) \<le> 66"
  by (cases b) (auto simp: command_builder_defs builder_lengths dest!: write_string_length)

lemma member_of_validation:
  "member_of f n v = Inl e \<Longrightarrow> \<exists>m. e = BleValidationError m"
  by (auto simp: member_of_def split: option.splits)

lemma write_uint_validation:
  "write_uint w v k = Inl e \<Longrightarrow> \<exists>m. e = BleValidationError m"
  by (auto simp: write_uint_def split: if_splits)

lemma write_string_validation:
  "write_string w t k = Inl e \<Longrightarrow> \<exists>m. e = BleValidationError m"
  by (auto simp: write_string_def ascii_error_def bindE_raise_if write_bytes_def split: if_splits)

lemma pin_code_set_validation:
  "pin_code_set slot pin ig = Inl e \<Longrightarrow> \<exists>m. e = BleValidationError m"
  by (auto simp: pin_code_set_def check_slot_def write_uint8_def write_uint16_def
      write_raw_string_def write_bytes_def ascii_error_def bindE_raise_if bindE_eq_Inl
      split: if_splits dest: write_uint_validation)

lemma build_error: "build b = Inl e \<Longrightarrow> \<exists>m. e = BleValidationError m"
  by (cases b) (auto simp: command_builder_defs bindE_eq_Inl write_uint8_def write_uint16_def
      write_uint32_def write_bytes_def master_pin_code_set_def
      dest: member_of_validation write_uint_validation write_string_validation
        pin_code_set_validation)

lemma build_command_ok:
  "build b = Inr p \<Longrightarrow> 1 \<le> ref \<Longrightarrow> ref \<le> 254 \<Longrightarrow> command_ok (with_ref p ref)"
  using build_length [of b p] by (simp add: with_ref_def command_ok_def)

section \<open>Properties\<close>

text \<open>
  PinCodeSet succeeds exactly for 4 to 8 of the characters 0-9 and a slot of its range
  (800-899, or any u16 when the slot check is skipped); the payload then reads back, field by
  field, as the slot, the number of digits and the digits.
\<close>

theorem pin_code_set_correct:
  "(\<exists>p. pin_code_set slot pin ig = Inr p)
     = (4 \<le> length pin \<and> length pin \<le> 8 \<and> (\<forall>c \<in> set pin. c \<in> set ''0123456789'')
        \<and> (if ig then 0 \<le> slot \<and> slot \<le> 65535 else 800 \<le> slot \<and> slot \<le> 899))
   \<and> (pin_code_set slot pin ig = Inr p \<longrightarrow>
        cp_id p = CMD_PIN_CODE_SET
        \<and> bindE (read_uint16 (byte_reader_init (cp_data p))) (\<lambda>(s, r).
           bindE (read_uint8 r) (\<lambda>(n, r).
           bindE (read_bytes r n) (\<lambda>(ds, r).
           Inr (s, ascii_replace ds, remaining r))))
          = Inr (slot, map of_char pin, 0))"
proof (intro conjI impI)
  have slots: "in_range slot (pin_slots_for ig)
      = (if ig then 0 \<le> slot \<and> slot \<le> 65535 else 800 \<le> slot \<and> slot \<le> 899)"
    by (auto simp: pin_slots_for_def)
  have "(\<exists>p. pin_code_set slot pin ig = Inr p) \<longleftrightarrow> pin_ok pin \<and> in_range slot (pin_slots_for ig)"
    by (auto simp: pin_code_set_Inr)
  also have "\<dots> \<longleftrightarrow> 4 \<le> length pin \<and> length pin \<le> 8 \<and> (\<forall>c \<in> set pin. c \<in> set ''0123456789'')
        \<and> (if ig then 0 \<le> slot \<and> slot \<le> 65535 else 800 \<le> slot \<and> slot \<le> 899)"
    unfolding pin_ok_def list_all_iff pin_digit_iff slots by (simp only: conj_assoc)
  finally show "(\<exists>p. pin_code_set slot pin ig = Inr p)
     = (4 \<le> length pin \<and> length pin \<le> 8 \<and> (\<forall>c \<in> set pin. c \<in> set ''0123456789'')
        \<and> (if ig then 0 \<le> slot \<and> slot \<le> 65535 else 800 \<le> slot \<and> slot \<le> 899))" .
next
  assume "pin_code_set slot pin ig = Inr p"
  then have ok: "pin_ok pin" and r: "in_range slot (pin_slots_for ig)"
    and p: "p = mk_command_payload CMD_PIN_CODE_SET
             (int_to_le 2 slot @ word_of_nat (length pin) # ascii_encode pin)"
    by (simp_all add: pin_code_set_Inr)
  then show "cp_id p = CMD_PIN_CODE_SET" by simp
  have s: "0 \<le> slot" "slot < 65536" using r by (auto simp: pin_slots_for_def split: if_splits)
  have n: "uint (word_of_nat (length pin) :: byte) = int (length pin)"
    using ok by (simp add: uint_word_of_nat_byte pin_ok_def)
  show "bindE (read_uint16 (byte_reader_init (cp_data p))) (\<lambda>(s, r).
           bindE (read_uint8 r) (\<lambda>(n, r).
           bindE (read_bytes r n) (\<lambda>(ds, r).
           Inr (s, ascii_replace ds, remaining r))))
          = Inr (slot, map of_char pin, 0)"
    using read_bytes_at [of "ascii_encode pin" "int (length pin)" _ "[]"] s n ok
    by (simp add: p codec_simps read_uint16_le ascii_replace_encode pin_ok_def pin_digit_ascii)
qed

theorem pin_code_set_correct_witness:
  "\<exists>p. pin_code_set 803 ''4711'' False = Inr p \<and> cp_id p = CMD_PIN_CODE_SET"
proof -
  from pin_code_set_correct [of 803 "''4711''" False] obtain p
    where p: "pin_code_set 803 ''4711'' False = Inr p" by auto
  with pin_code_set_correct [of 803 "''4711''" False p] show ?thesis by blast
qed

text \<open>
  An error of PinCodeSet discloses nothing of the PIN but its length and whether it is
  all digits: any other PIN with the same length, digits or not alike, gives the same error,
  and the only numbers in its message are the bounds, the length and the slot.
\<close>

theorem pin_error_discloses_no_digit:
  assumes "pin_code_set slot pin ig = Inl e"
    and "length pin' = length pin" and "list_all pin_digit pin' = list_all pin_digit pin"
  shows "pin_code_set slot pin' ig = Inl e
    \<and> (\<exists>t ns. e = BleValidationError (t, ns)
         \<and> set ns \<subseteq> {4, 8, int (length pin), slot, 0, 65535, 800, 899})"
proof
  show "pin_code_set slot pin' ig = Inl e"
    using assms pin_digit_ascii [of pin] pin_digit_ascii [of pin']
    by (auto simp: pin_code_set_def write_raw_string_def bindE_raise_if bindE_eq_Inl write_bytes_def
        split: if_splits)
  show "\<exists>t ns. e = BleValidationError (t, ns)
         \<and> set ns \<subseteq> {4, 8, int (length pin), slot, 0, 65535, 800, 899}"
  proof (cases "pin_ok pin \<and> in_range slot (pin_slots_for ig)")
    case True
    with assms(1) show ?thesis by (simp add: pin_code_set_ok)
  next
    case False
    with assms(1) show ?thesis
      by (auto simp: pin_code_set_def pin_ok_def pin_slots_for_def check_slot_def bindE_raise_if
          split: if_splits)
  qed
qed

theorem pin_error_discloses_no_digit_witness:
  "pin_code_set 700 ''9876'' False = pin_code_set 700 ''1234'' False
   \<and> pin_code_set 700 ''1234'' False
     = Inl (BleValidationError
         (''Invalid SlotNumber, got value {}, but expected a value range of {} - {}'',
          [700, 800, 899]))"
proof -
  have e: "pin_code_set 700 ''1234'' False
     = Inl (BleValidationError
         (''Invalid SlotNumber, got value {}, but expected a value range of {} - {}'',
          [700, 800, 899]))"
    by (simp add: pin_code_set_def pin_digit_def check_slot_def)
  from pin_error_discloses_no_digit [OF e, of "''9876''"] e show ?thesis
    by (simp add: pin_digit_def)
qed

text \<open>
  Whatever a builder returns goes out: with any legal ref the command serialises, and the
  lock's parser reads back the same id, ref and payload behind any padding. What a builder
  refuses it refuses with a validation error and no other.
\<close>

theorem built_commands_frame:
  "(build b = Inr p \<longrightarrow> 1 \<le> ref \<longrightarrow> ref \<le> 254 \<longrightarrow>
      (\<exists>bs. command_to_bytes (with_ref p ref) = Inr bs \<and> length bs \<le> 70
         \<and> command_from_bytes (bs @ pad) = Inr (with_ref p ref)))
   \<and> (build b = Inl e \<longrightarrow> (\<exists>m. e = BleValidationError m))"
proof (intro conjI impI)
  assume b: "build b = Inr p" and r: "1 \<le> ref" "ref \<le> 254"
  have ok: "command_ok (with_ref p ref)" by (rule build_command_ok [OF b r])
  then obtain bs where bs: "command_to_bytes (with_ref p ref) = Inr bs"
    using command_frame.to_b_ok by blast
  have "cm_payload (with_ref p ref) = cp_data p" by (simp add: with_ref_def)
  then have "length bs \<le> 70"
    using bs build_length [OF b] by (auto simp: command_to_bytes_ok [OF ok])
  with bs command_frame.from_to_b [OF ok bs]
  show "\<exists>bs. command_to_bytes (with_ref p ref) = Inr bs \<and> length bs \<le> 70
         \<and> command_from_bytes (bs @ pad) = Inr (with_ref p ref)" by blast
qed (rule build_error)

theorem built_commands_frame_witness:
  "\<exists>bs. command_to_bytes (with_ref (mk_command_payload CMD_PIN_CODE_CLEAR (int_to_le 2 803)) 16)
          = Inr bs
     \<and> command_from_bytes (bs @ [0])
          = Inr (with_ref (mk_command_payload CMD_PIN_CODE_CLEAR (int_to_le 2 803)) 16)"
proof -
  have "build (PinCodeClear 803) = Inr (mk_command_payload CMD_PIN_CODE_CLEAR (int_to_le 2 803))"
    by (simp add: pin_code_clear_def slot_command_def check_slot_def codec_simps)
  with built_commands_frame [of "PinCodeClear 803"
      "mk_command_payload CMD_PIN_CODE_CLEAR (int_to_le 2 803)" 16 "[0]"]
  show ?thesis by auto
qed

text \<open>
  The lock clock. A moment that converts reads back as itself cut to the whole minute;
  a u32 of minutes names a moment exactly up to the year 9999, and beyond it the conversion
  raises OverflowError, which is no error of the library.
\<close>

theorem lock_time_roundtrip:
  "(to_lock_time m = Inr t \<and> us \<le> DATETIME_MAX_MICROS \<and> m = Aware us \<longrightarrow>
      0 \<le> t \<and> from_lock_time t = Inr (Aware (us - us mod MICROS_PER_MINUTE)))
   \<and> (0 \<le> t \<and> from_lock_time t = Inr m \<longrightarrow> to_lock_time m = Inr t)
   \<and> (0 \<le> t \<and> t < 4294967296 \<longrightarrow>
        (\<exists>m. from_lock_time t = Inr m) = (t \<le> 4195496159)
        \<and> (4195496159 < t \<longrightarrow> from_lock_time t = Inl (PyException ''OverflowError'')))"
proof (intro conjI impI)
  assume a: "to_lock_time m = Inr t \<and> us \<le> DATETIME_MAX_MICROS \<and> m = Aware us"
  then have us: "0 \<le> us" and t: "t = us div 60000000"
    by (auto simp: to_lock_time_def bindE_raise_if split: if_splits)
  have eq: "t * 60000000 = us - us mod 60000000" unfolding t by (simp add: minus_mod_eq_div_mult)
  have "0 \<le> us - us mod 60000000" "us - us mod 60000000 \<le> us"
    using us by (simp_all add: zmod_le_nonneg_dividend)
  moreover have "0 \<le> us mod 60000000" by simp
  moreover have "us \<le> 251729769599999999" using a by simp
  ultimately show "from_lock_time t = Inr (Aware (us - us mod MICROS_PER_MINUTE))"
    using a by (simp add: from_lock_time_def eq Let_def)
  show "0 \<le> t" using us t by (simp add: pos_imp_zdiv_nonneg_iff)
qed (auto simp: from_lock_time_def to_lock_time_def Let_def split: if_splits)

theorem lock_time_roundtrip_witness:
  "from_lock_time 2 = Inr (Aware 120000000)
   \<and> from_lock_time 4294967295 = Inl (PyException ''OverflowError'')"
  using lock_time_roundtrip [of "Aware 125000000" 2 125000000]
    lock_time_roundtrip [of "Aware 0" 4294967295 0]
  by (simp add: to_lock_time_def)

end
