(* ===== verification/Responses.thy ===== *)
theory Responses
  imports Commands
begin

text \<open>
  \<^verbatim>\<open>ble/protocol/responses.py\<close>: the typed readings of response payloads, one parser per
  response class. A parser checks the id, then the status (events skip that), then reads its
  fields; bytes after the fields are ignored. An error names the expected and the received
  response by their wire values.
\<close>

section \<open>Shared checks\<close>

definition STATUS_ONLY_RESPONSES :: "response_id list" where
  "STATUS_ONLY_RESPONSES =
     [RSP_EKEY_OPERATE, RSP_DEVICE_ID_SET, RSP_DEVICE_NAME_SET, RSP_CURRENT_TIME_SET,
      RSP_PIN_CODE_SET, RSP_PIN_CODE_CLEAR, RSP_RFID_CODE_CLEAR, RSP_FINGERPRINT_CLEAR,
      RSP_VOLUME_SET, RSP_AUTO_LOCK_SET, RSP_KEYPAD_ENABLE_SET, RSP_FACTORY_RESET_MODULE]"

definition expect_response :: "response \<Rightarrow> response_id \<Rightarrow> bool \<Rightarrow> byte_reader res" where
  "expect_response r expected check_status =
     bindE (raise_if (rid_value r \<noteq> response_value expected)
              (BleProtocolError (''Expected a {} response, got {}'',
                 [response_value expected, rid_value r]))) (\<lambda>_.
     bindE (if check_status then raise_for_status r else Inr ()) (\<lambda>_.
     Inr (byte_reader_init (rs_payload r))))"

definition required :: "(int \<Rightarrow> 'e option) \<Rightarrow> string \<Rightarrow> int \<Rightarrow> 'e res" where
  "required of_val name v =
     (case of_val v of
        Some m \<Rightarrow> Inr m
      | None \<Rightarrow> Inl (BleProtocolError (''Unknown '' @ name @ '' value {}'', [v])))"

definition check_status_only :: "response \<Rightarrow> response_id \<Rightarrow> unit res" where
  "check_status_only r expected =
     (if expected \<notin> set STATUS_ONLY_RESPONSES
      then Inl (BleValidationError (''{} carries a payload; use its parser'', [response_value expected]))
      else bindE (expect_response r expected True) (\<lambda>_. Inr ()))"

section \<open>Parsers\<close>

subsection \<open>Link and owner authentication\<close>

record exchange_key_pub_l = xk_public_key :: bytes

definition parse_exchange_key_pub_l :: "response \<Rightarrow> exchange_key_pub_l res" where
  "parse_exchange_key_pub_l r =
     bindE (expect_response r RSP_EXCHANGE_KEY_PUB_L True) (\<lambda>rd.
     bindE (read_bytes rd PUBLIC_KEY_LENGTH) (\<lambda>(k, _).
     Inr \<lparr>xk_public_key = k\<rparr>))"

record user_auth_begin_answer = ub_challenge :: bytes

definition parse_user_auth_begin :: "response \<Rightarrow> user_auth_begin_answer res" where
  "parse_user_auth_begin r =
     bindE (expect_response r RSP_USER_AUTH_BEGIN True) (\<lambda>rd.
     bindE (read_bytes rd CHALLENGE_LENGTH) (\<lambda>(c, _).
     Inr \<lparr>ub_challenge = c\<rparr>))"

record user_auth_finalize_answer = uf_credentials :: int

definition parse_user_auth_finalize :: "response \<Rightarrow> user_auth_finalize_answer res" where
  "parse_user_auth_finalize r =
     bindE (expect_response r RSP_USER_AUTH_FINALIZE True) (\<lambda>rd.
     bindE (read_uint8 rd) (\<lambda>(c, _).
     Inr \<lparr>uf_credentials = c\<rparr>))"

record user_auth_update_answer = uu_public_key :: bytes

definition parse_user_auth_update :: "response \<Rightarrow> user_auth_update_answer res" where
  "parse_user_auth_update r =
     bindE (expect_response r RSP_USER_AUTH_UPDATE True) (\<lambda>rd.
     bindE (read_bytes rd PUBLIC_KEY_LENGTH) (\<lambda>(k, _).
     Inr \<lparr>uu_public_key = k\<rparr>))"

record server_key_update_answer = su_lock_public_key :: bytes

definition parse_server_key_update :: "response \<Rightarrow> server_key_update_answer res" where
  "parse_server_key_update r =
     bindE (expect_response r RSP_SERVER_KEY_UPDATE True) (\<lambda>rd.
     bindE (read_bytes rd PUBLIC_KEY_LENGTH) (\<lambda>(k, _).
     Inr \<lparr>su_lock_public_key = k\<rparr>))"

record device_id_answer = di_device_id :: bytes

definition parse_device_id_get :: "response \<Rightarrow> device_id_answer res" where
  "parse_device_id_get r =
     bindE (expect_response r RSP_DEVICE_ID_GET True) (\<lambda>rd.
     bindE (read_bytes rd DEVICE_ID_LENGTH) (\<lambda>(d, _).
     Inr \<lparr>di_device_id = d\<rparr>))"

record device_name_answer = dn_name :: code_points

definition parse_device_name_get :: "response \<Rightarrow> device_name_answer res" where
  "parse_device_name_get r =
     bindE (expect_response r RSP_DEVICE_NAME_GET True) (\<lambda>rd.
     bindE (read_string rd DEVICE_NAME_MAX_LENGTH) (\<lambda>(n, _).
     Inr \<lparr>dn_name = n\<rparr>))"

subsection \<open>Readouts\<close>

record batt_info =
  bi_level :: int
  bi_low_battery :: bool
  bi_percent :: int

definition parse_batt_info :: "response \<Rightarrow> batt_info res" where
  "parse_batt_info r =
     bindE (expect_response r RSP_BATT_INFO_GET True) (\<lambda>rd.
     bindE (read_uint16 rd) (\<lambda>(level, rd).
     bindE (read_uint8 rd) (\<lambda>(low, rd).
     bindE (read_uint8 rd) (\<lambda>(percent, _).
     Inr \<lparr>bi_level = level, bi_low_battery = (low = 1), bi_percent = percent\<rparr>))))"

record device_model =
  dm_model :: lock_model_id
  dm_raw :: int

definition parse_device_model :: "response \<Rightarrow> device_model res" where
  "parse_device_model r =
     bindE (expect_response r RSP_DEVICE_MODEL_GET True) (\<lambda>rd.
     bindE (read_uint8 rd) (\<lambda>(raw, _).
     Inr \<lparr>dm_model = (case model_of raw of Some m \<Rightarrow> m | None \<Rightarrow> MODEL_UNKNOWN), dm_raw = raw\<rparr>))"

record device_log = dl_log :: bytes

definition parse_device_log :: "response \<Rightarrow> device_log res" where
  "parse_device_log r =
     bindE (expect_response r RSP_DEVICE_LOG_GET True) (\<lambda>rd.
     bindE (read_uint8 rd) (\<lambda>(n, rd).
     bindE (read_bytes rd n) (\<lambda>(l, _).
     Inr \<lparr>dl_log = l\<rparr>)))"

record current_time = ct_minutes :: int

definition current_time_moment :: "current_time \<Rightarrow> moment res" where
  "current_time_moment t = from_lock_time (ct_minutes t)"

definition parse_current_time :: "response \<Rightarrow> current_time res" where
  "parse_current_time r =
     bindE (expect_response r RSP_CURRENT_TIME_GET True) (\<lambda>rd.
     bindE (read_uint32 rd) (\<lambda>(t, _).
     Inr \<lparr>ct_minutes = t\<rparr>))"

record scan_result =
  sr_slot :: int
  sr_status :: "lock_status_id raw_enum"

definition parse_scan :: "response \<Rightarrow> response_id \<Rightarrow> scan_result res" where
  "parse_scan r expected =
     bindE (expect_response r expected True) (\<lambda>rd.
     bindE (read_uint16 rd) (\<lambda>(slot, rd).
     bindE (read_uint8 rd) (\<lambda>(raw, _).
     Inr \<lparr>sr_slot = slot, sr_status = known scan_status_of raw\<rparr>)))"

definition parse_fingerprint_scan :: "response \<Rightarrow> scan_result res" where
  "parse_fingerprint_scan r = parse_scan r RSP_FINGERPRINT_SCAN"

definition parse_scan_rfid_code :: "response \<Rightarrow> scan_result res" where
  "parse_scan_rfid_code r = parse_scan r RSP_SCAN_RFID_CODE"

subsection \<open>Events\<close>

record lock_status =
  ls_slot :: int
  ls_state :: lock_state_id
  ls_method :: doorlock_method_id

definition parse_lock_status :: "response \<Rightarrow> lock_status res" where
  "parse_lock_status r =
     bindE (expect_response r RSP_LOCK_STATUS False) (\<lambda>rd.
     bindE (read_uint16 rd) (\<lambda>(slot, rd).
     bindE (read_uint8 rd) (\<lambda>(s, rd).
     bindE (required bolt_state_of ''LockStateId'' s) (\<lambda>st.
     bindE (read_uint8 rd) (\<lambda>(m, rd).
     bindE (required method_of ''DoorlockMethodId'' m) (\<lambda>me.
     Inr \<lparr>ls_slot = slot, ls_state = st, ls_method = me\<rparr>))))))"

record user_added =
  ua_slot :: int
  ua_status :: user_added_status_id

definition parse_user_added :: "response \<Rightarrow> user_added res" where
  "parse_user_added r =
     bindE (expect_response r RSP_USER_ADDED False) (\<lambda>rd.
     bindE (read_uint16 rd) (\<lambda>(slot, rd).
     bindE (read_uint8 rd) (\<lambda>(s, rd).
     bindE (required added_status_of ''UserAddedStatusId'' s) (\<lambda>st.
     Inr \<lparr>ua_slot = slot, ua_status = st\<rparr>))))"

datatype lock_event = LockStatus lock_status | UserAdded user_added

definition parse_event :: "response \<Rightarrow> lock_event option res" where
  "parse_event r =
     (if \<not> is_event r then Inr None
      else if rid_value r = response_value RSP_LOCK_STATUS
      then bindE (parse_lock_status r) (\<lambda>e. Inr (Some (LockStatus e)))
      else if rid_value r = response_value RSP_USER_ADDED
      then bindE (parse_user_added r) (\<lambda>e. Inr (Some (UserAdded e)))
      else Inr None)"

section \<open>What a parser can raise\<close>

text \<open>
  The errors of a parser: a protocol error, or, once the id is right, the mapped operation
  error of the response's status.
\<close>

definition parser_error :: "response \<Rightarrow> ble_error \<Rightarrow> bool" where
  "parser_error r e \<longleftrightarrow>
     is_protocol_error e \<or> (\<exists>c. e = BleOperationError c (rstatus_value r) (rid_value r))"

lemma required_error: "required f n v = Inl e \<Longrightarrow> is_protocol_error e"
  by (auto simp: required_def split: option.splits)

lemma expect_response_error: "expect_response r i c = Inl e \<Longrightarrow> parser_error r e"
  by (auto simp: expect_response_def parser_error_def bindE_raise_if bindE_eq_Inl
      split: if_splits dest: raise_for_status_error)

lemma expect_event_error: "expect_response r i False = Inl e \<Longrightarrow> is_protocol_error e"
  by (auto simp: expect_response_def bindE_raise_if split: if_splits)

lemma protocol_parser_error: "is_protocol_error e \<Longrightarrow> parser_error r e"
  by (simp add: parser_error_def)

lemmas parser_errors =
  expect_response_error protocol_parser_error [OF read_uint8_error]
  protocol_parser_error [OF read_uint16_error] protocol_parser_error [OF read_uint32_error]
  protocol_parser_error [OF read_bytes_error] protocol_parser_error [OF read_string_error]

lemmas parser_defs [py_defs] =
  parse_exchange_key_pub_l_def parse_user_auth_begin_def parse_user_auth_finalize_def
  parse_user_auth_update_def parse_server_key_update_def parse_device_id_get_def
  parse_device_name_get_def parse_batt_info_def parse_device_model_def parse_device_log_def
  parse_current_time_def parse_scan_def

lemma expect_response_Inr:
  "expect_response r i c = Inr rd \<longleftrightarrow>
     rid_value r = response_value i \<and> (c \<longrightarrow> response_is_ok r) \<and> rd = reader_at [] (rs_payload r)"
  by (auto simp: expect_response_def raise_for_status_cases byte_reader_init_at bindE_raise_if
      split: if_splits)

lemma parse_event_error: "parse_event r = Inl e \<Longrightarrow> is_protocol_error e"
  by (auto simp: parse_event_def parse_lock_status_def parse_user_added_def bindE_eq_Inl
      split: if_splits prod.splits dest: expect_event_error read_errors required_error)

section \<open>What a parser returns\<close>

lemma required_Inr:
  assumes "wire_enum val ms f"
  shows "required f n v = Inr m \<longleftrightarrow> val m = v"
  using wire_enum.of_val_eq_Some [OF assms, of v m] by (auto simp: required_def split: option.splits)

lemma read_uint8_Inr:
  "read_uint8 (reader_at pre rest) = Inr (v, r') \<longleftrightarrow>
     (\<exists>b xs. rest = b # xs \<and> v = uint b \<and> r' = reader_at (pre @ [b]) xs)"
  by (cases rest) (auto simp: codec_simps, auto simp: read_uint8_def bindE_eq_Inr reader_take_Inr)

lemma read_uint16_Inr:
  "read_uint16 (reader_at pre rest) = Inr (v, r') \<longleftrightarrow>
     (\<exists>a b xs. rest = a # b # xs \<and> v = int_from_le [a, b] \<and> r' = reader_at (pre @ [a, b]) xs)"
proof -
  consider "rest = []" | a where "rest = [a]" | a b xs where "rest = a # b # xs"
    by (metis neq_Nil_conv)
  then show ?thesis
    by cases (auto simp: codec_simps, auto simp: read_uint16_def bindE_eq_Inr reader_take_Inr)
qed

lemma read_fixed_Inr:
  "0 \<le> n \<Longrightarrow> read_bytes (reader_at pre rest) n = Inr (xs, r') \<longleftrightarrow>
     nat n \<le> length rest \<and> xs = take (nat n) rest
     \<and> r' = reader_at (pre @ take (nat n) rest) (drop (nat n) rest)"
  by (auto simp: read_bytes_def reader_take_Inr)

lemma parse_lock_status_Inr:
  "parse_lock_status r = Inr e \<longleftrightarrow>
     rid_value r = 96 \<and> (\<exists>a b s m rest. rs_payload r = a # b # s # m # rest
        \<and> ls_slot e = int_from_le [a, b] \<and> bolt_state_value (ls_state e) = uint s
        \<and> method_value (ls_method e) = uint m)"
  by (cases e) (auto simp: parse_lock_status_def bindE_eq_Inr expect_response_Inr read_uint16_Inr
      read_uint8_Inr required_Inr [OF bolt_state_enum.wire_enum_axioms]
      required_Inr [OF method_enum.wire_enum_axioms])

lemma parse_user_added_Inr:
  "parse_user_added r = Inr e \<longleftrightarrow>
     rid_value r = 20 \<and> (\<exists>a b s rest. rs_payload r = a # b # s # rest
        \<and> ua_slot e = int_from_le [a, b] \<and> added_status_value (ua_status e) = uint s)"
  by (cases e) (auto simp: parse_user_added_def bindE_eq_Inr expect_response_Inr read_uint16_Inr
      read_uint8_Inr required_Inr [OF added_status_enum.wire_enum_axioms])

lemma parse_exchange_key_pub_l_Inr:
  "parse_exchange_key_pub_l r = Inr k \<longleftrightarrow>
     rid_value r = 1 \<and> response_is_ok r \<and> 64 \<le> length (rs_payload r)
     \<and> k = \<lparr>xk_public_key = take 64 (rs_payload r)\<rparr>"
  by (auto simp: parse_exchange_key_pub_l_def bindE_eq_Inr expect_response_Inr read_fixed_Inr)

lemma parse_user_auth_begin_Inr:
  "parse_user_auth_begin r = Inr k \<longleftrightarrow>
     rid_value r = 34 \<and> response_is_ok r \<and> 16 \<le> length (rs_payload r)
     \<and> k = \<lparr>ub_challenge = take 16 (rs_payload r)\<rparr>"
  by (auto simp: parse_user_auth_begin_def bindE_eq_Inr expect_response_Inr read_fixed_Inr)

lemma parse_user_auth_update_Inr:
  "parse_user_auth_update r = Inr k \<longleftrightarrow>
     rid_value r = 36 \<and> response_is_ok r \<and> 64 \<le> length (rs_payload r)
     \<and> k = \<lparr>uu_public_key = take 64 (rs_payload r)\<rparr>"
  by (auto simp: parse_user_auth_update_def bindE_eq_Inr expect_response_Inr read_fixed_Inr)

lemma parse_server_key_update_Inr:
  "parse_server_key_update r = Inr k \<longleftrightarrow>
     rid_value r = 66 \<and> response_is_ok r \<and> 64 \<le> length (rs_payload r)
     \<and> k = \<lparr>su_lock_public_key = take 64 (rs_payload r)\<rparr>"
  by (auto simp: parse_server_key_update_def bindE_eq_Inr expect_response_Inr read_fixed_Inr)

lemma parse_device_model_Inr:
  "parse_device_model r = Inr d \<longleftrightarrow>
     rid_value r = 98 \<and> response_is_ok r \<and> (\<exists>b rest. rs_payload r = b # rest
        \<and> d = \<lparr>dm_model = (case model_of (uint b) of Some m \<Rightarrow> m | None \<Rightarrow> MODEL_UNKNOWN),
               dm_raw = uint b\<rparr>)"
  by (auto simp: parse_device_model_def bindE_eq_Inr expect_response_Inr read_uint8_Inr)

lemma parse_exchange_key_pub_l_error:
  "parse_exchange_key_pub_l r = Inl e \<Longrightarrow> parser_error r e"
  by (auto simp: parse_exchange_key_pub_l_def bindE_eq_Inl dest: parser_errors split: prod.splits)

lemma parse_device_model_error: "parse_device_model r = Inl e \<Longrightarrow> parser_error r e"
  by (auto simp: parse_device_model_def bindE_eq_Inl dest: parser_errors split: prod.splits)

lemma parse_user_auth_begin_error: "parse_user_auth_begin r = Inl e \<Longrightarrow> parser_error r e"
  by (auto simp: parse_user_auth_begin_def bindE_eq_Inl dest: parser_errors split: prod.splits)

lemma parse_user_auth_update_error: "parse_user_auth_update r = Inl e \<Longrightarrow> parser_error r e"
  by (auto simp: parse_user_auth_update_def bindE_eq_Inl dest: parser_errors split: prod.splits)

lemma parse_server_key_update_error: "parse_server_key_update r = Inl e \<Longrightarrow> parser_error r e"
  by (auto simp: parse_server_key_update_def bindE_eq_Inl dest: parser_errors split: prod.splits)

section \<open>Properties\<close>

text \<open>
  Reading an event. A LockStatus or UserAdded comes out exactly for a response under the
  event ref with that id, whose payload starts with the slot (u16) and the known bytes that
  follow; the status byte plays no part; anything else is None or a protocol error, never the
  operation error of a command.
\<close>

theorem event_parse_correct:
  "(parse_event r = Inr (Some (LockStatus l)) \<longleftrightarrow>
      rs_ref r = 128 \<and> rid_value r = 96 \<and> (\<exists>a b s m rest. rs_payload r = a # b # s # m # rest
        \<and> ls_slot l = int_from_le [a, b] \<and> bolt_state_value (ls_state l) = uint s
        \<and> method_value (ls_method l) = uint m))
   \<and> (parse_event r = Inr (Some (UserAdded u)) \<longleftrightarrow>
      rs_ref r = 128 \<and> rid_value r = 20 \<and> (\<exists>a b s rest. rs_payload r = a # b # s # rest
        \<and> ua_slot u = int_from_le [a, b] \<and> added_status_value (ua_status u) = uint s))
   \<and> (parse_event r = Inr None \<longleftrightarrow> rs_ref r \<noteq> 128 \<or> (rid_value r \<noteq> 96 \<and> rid_value r \<noteq> 20))
   \<and> parse_event (r\<lparr>rs_status := st\<rparr>) = parse_event r
   \<and> (\<forall>e. parse_event r = Inl e \<longrightarrow> is_protocol_error e)"
proof (intro conjI allI impI)
  show "parse_event (r\<lparr>rs_status := st\<rparr>) = parse_event r"
    by (simp add: parse_event_def is_event_def parse_lock_status_def parse_user_added_def
        expect_response_def)
qed (auto simp: parse_event_def is_event_def bindE_eq_Inr parse_lock_status_Inr
    parse_user_added_Inr parse_event_error)

theorem event_parse_correct_witness:
  "parse_event \<lparr>rs_id = Known RSP_LOCK_STATUS, rs_ref = 128, rs_status = Raw 77,
      rs_payload = [3, 1, 2, 2]\<rparr>
    = Inr (Some (LockStatus \<lparr>ls_slot = 259, ls_state = BOLT_UNLOCKED, ls_method = METHOD_PANEL\<rparr>))"
  using event_parse_correct [of
      "\<lparr>rs_id = Known RSP_LOCK_STATUS, rs_ref = 128, rs_status = Raw 77, rs_payload = [3, 1, 2, 2]\<rparr>"
      "\<lparr>ls_slot = 259, ls_state = BOLT_UNLOCKED, ls_method = METHOD_PANEL\<rparr>"]
  by simp

end
