(* ===== verification/Features.thy ===== *)
theory Features
  imports Responses
begin

text \<open>
  \<^verbatim>\<open>ble/protocol/features.py\<close>: which commands go to which lock. \<open>gate_of\<close> is the rule book of
  the module's documentation, stated over the builders; the theorem shows that the decision
  taken on the built bytes follows it.
\<close>

definition FIRMWARE_GATED :: "command_id list" where
  "FIRMWARE_GATED =
     [CMD_PIN_CODE_SET, CMD_PIN_CODE_CLEAR, CMD_AUTO_LOCK_SET, CMD_RFID_CODE_CLEAR,
      CMD_SCAN_RFID_CODE, CMD_VOLUME_SET, CMD_BATT_INFO_GET, CMD_DEVICE_MODEL_GET]"

definition is_master_pin :: "command_payload \<Rightarrow> bool" where
  "is_master_pin c = (cp_id c = CMD_PIN_CODE_SET \<and> take 2 (cp_data c) = [0, 0])"

definition model_gated ::
  "bool \<Rightarrow> lock_model_id option \<Rightarrow> (model_features \<Rightarrow> bool) \<Rightarrow> device_feature \<Rightarrow> device_feature" where
  "model_gated admin_firmware model has below_firmware =
     (if \<not> admin_firmware then below_firmware
      else let features = model_features_of (case model of None \<Rightarrow> MODEL_UNKNOWN | Some m \<Rightarrow> m)
           in if has features then AVAILABLE else UNAVAILABLE)"

definition availability ::
  "command_payload \<Rightarrow> firmware_version \<Rightarrow> lock_model_id option \<Rightarrow> device_feature" where
  "availability c firmware model =
     (let admin_firmware = firmware \<ge> MIN_FIRMWARE_ADMIN in
      if cp_id c = CMD_FINGERPRINT_SCAN \<or> cp_id c = CMD_FINGERPRINT_CLEAR
      then model_gated admin_firmware model mf_fingerprint UNAVAILABLE_UNKNOWN
      else if cp_id c = CMD_KEYPAD_ENABLE_SET
      then model_gated admin_firmware model mf_keypad_enable UNAVAILABLE_UNKNOWN
      else if is_master_pin c
      then model_gated admin_firmware model mf_master_pin UNAVAILABLE_VERSION
      else if cp_id c \<in> set FIRMWARE_GATED
      then if admin_firmware then AVAILABLE else UNAVAILABLE_VERSION
      else AVAILABLE_ALWAYS)"

section \<open>The rule book\<close>

datatype gate = Always | Firmware | Model "model_features \<Rightarrow> bool" device_feature

fun gate_of :: "builder_call \<Rightarrow> gate" where
  "gate_of (PinCodeSet slot pin ig) =
     (if slot = 0 then Model mf_master_pin UNAVAILABLE_VERSION else Firmware)"
| "gate_of (MasterPinCodeSet pin) = Model mf_master_pin UNAVAILABLE_VERSION"
| "gate_of (PinCodeClear slot) = Firmware"
| "gate_of (RfidCodeClear slot) = Firmware"
| "gate_of (ScanRfidCode slot) = Firmware"
| "gate_of (FingerprintScan slot) = Model mf_fingerprint UNAVAILABLE_UNKNOWN"
| "gate_of (FingerprintClear slot) = Model mf_fingerprint UNAVAILABLE_UNKNOWN"
| "gate_of (VolumeSet v) = Firmware"
| "gate_of (AutoLockSet b) = Firmware"
| "gate_of (KeypadEnableSet b) = Model mf_keypad_enable UNAVAILABLE_UNKNOWN"
| "gate_of BattInfoGet = Firmware"
| "gate_of DeviceModelGet = Firmware"
| "gate_of other = Always"

fun gate_answer :: "gate \<Rightarrow> bool \<Rightarrow> lock_model_id \<Rightarrow> device_feature" where
  "gate_answer Always admin m = AVAILABLE_ALWAYS"
| "gate_answer Firmware admin m = (if admin then AVAILABLE else UNAVAILABLE_VERSION)"
| "gate_answer (Model has below) admin m =
     (if \<not> admin then below else if has (model_features_of m) then AVAILABLE else UNAVAILABLE)"

lemma slot_bytes_zero:
  "0 \<le> slot \<Longrightarrow> slot < 65536 \<Longrightarrow> (int_to_le 2 slot = [0, 0]) = (slot = 0)"
  using int_from_le_2 [of slot] by (auto simp: int_to_le_2)

lemma pin_code_set_master:
  assumes "pin_code_set slot pin ig = Inr p"
  shows "cp_id p = CMD_PIN_CODE_SET \<and> is_master_pin p = (slot = 0)"
proof -
  from assms have p: "p = mk_command_payload CMD_PIN_CODE_SET
      (int_to_le 2 slot @ [word_of_nat (length pin)] @ ascii_encode pin)"
    and "in_range slot (pin_slots_for ig)" by (simp_all add: pin_code_set_Inr)
  then have "0 \<le> slot" "slot < 65536" by (auto simp: pin_slots_for_def split: if_splits)
  with p show ?thesis by (simp add: is_master_pin_def slot_bytes_zero)
qed

lemma availability_simps:
  "availability c fw m = gate_answer
     (if cp_id c = CMD_FINGERPRINT_SCAN \<or> cp_id c = CMD_FINGERPRINT_CLEAR
      then Model mf_fingerprint UNAVAILABLE_UNKNOWN
      else if cp_id c = CMD_KEYPAD_ENABLE_SET then Model mf_keypad_enable UNAVAILABLE_UNKNOWN
      else if is_master_pin c then Model mf_master_pin UNAVAILABLE_VERSION
      else if cp_id c \<in> set FIRMWARE_GATED then Firmware else Always)
     (fw \<ge> MIN_FIRMWARE_ADMIN) (case m of None \<Rightarrow> MODEL_UNKNOWN | Some m \<Rightarrow> m)"
  by (simp add: availability_def model_gated_def Let_def)

lemma build_gate:
  "build b = Inr p \<Longrightarrow>
   (if cp_id p = CMD_FINGERPRINT_SCAN \<or> cp_id p = CMD_FINGERPRINT_CLEAR
      then Model mf_fingerprint UNAVAILABLE_UNKNOWN
      else if cp_id p = CMD_KEYPAD_ENABLE_SET then Model mf_keypad_enable UNAVAILABLE_UNKNOWN
      else if is_master_pin p then Model mf_master_pin UNAVAILABLE_VERSION
      else if cp_id p \<in> set FIRMWARE_GATED then Firmware else Always) = gate_of b"
  by (cases b) (auto simp: command_builder_defs bindE_eq_Inr is_master_pin_def FIRMWARE_GATED_def
      master_pin_code_set_def dest: pin_code_set_master)

section \<open>Properties\<close>

text \<open>
  The gate decides from the built bytes exactly as the rule book decides from the call:
  a PinCodeSet is the master PIN just when its slot is 0, and below firmware 4.7.90 no gated
  command is available on any model.
\<close>

theorem availability_follows_rules:
  assumes "build b = Inr p"
  shows "availability p fw m =
      gate_answer (gate_of b) (fw \<ge> MIN_FIRMWARE_ADMIN) (case m of None \<Rightarrow> MODEL_UNKNOWN | Some m \<Rightarrow> m)
    \<and> (fw < MIN_FIRMWARE_ADMIN \<longrightarrow> feature_available (availability p fw m) = (gate_of b = Always))"
proof
  show eq: "availability p fw m =
      gate_answer (gate_of b) (fw \<ge> MIN_FIRMWARE_ADMIN) (case m of None \<Rightarrow> MODEL_UNKNOWN | Some m \<Rightarrow> m)"
    unfolding availability_simps build_gate [OF assms] ..
  show "fw < MIN_FIRMWARE_ADMIN \<longrightarrow> feature_available (availability p fw m) = (gate_of b = Always)"
    unfolding eq by (cases b) (auto simp: feature_available_def)
qed

theorem availability_follows_rules_witness:
  "availability (mk_command_payload CMD_PIN_CODE_SET [0, 0, 4, 49, 50, 51, 52]) (4, 7, 91)
      (Some MODEL_NIMLY_TOUCH) = UNAVAILABLE"
proof -
  have "build (MasterPinCodeSet ''1234'')
      = Inr (mk_command_payload CMD_PIN_CODE_SET [0, 0, 4, 49, 50, 51, 52])"
    by (simp add: master_pin_code_set_def pin_code_set_ok pin_ok_def pin_slots_for_def pin_digit_def
        int_to_le_2 ascii_encode_def)
  from availability_follows_rules [OF this, of "(4, 7, 91)" "Some MODEL_NIMLY_TOUCH"]
  show ?thesis by simp
qed

end
