(* ===== verification/Advertisement.thy ===== *)
theory Advertisement
  imports Features
begin

text \<open>
  \<^verbatim>\<open>ble/protocol/advertisement.py\<close>: the lock's service data and how an enrolled lock is
  recognised. SHA-1 is the standard library's; it is the parameter \<open>sha1\<close>.
\<close>

record advertisement =
  ad_seed :: bytes
  ad_identifier :: bytes

definition enrolled :: "advertisement \<Rightarrow> bool" where
  "enrolled a = (ad_seed a \<noteq> DEFAULT_DEVICE_ID_SEED)"

definition factory_id :: "advertisement \<Rightarrow> bytes option" where
  "factory_id a = (if enrolled a then None else Some (rev (ad_identifier a)))"

definition ad_matches :: "(bytes \<Rightarrow> bytes) \<Rightarrow> advertisement \<Rightarrow> bytes \<Rightarrow> bool res" where
  "ad_matches sha1 a device_id =
     (if int (length device_id) \<noteq> DEVICE_ID_LENGTH
      then Inl (BleValidationError (''Device id must be {} bytes, got {}'',
             [DEVICE_ID_LENGTH, int (length device_id)]))
      else if \<not> enrolled a then Inr False
      else Inr (take (nat DEVICE_ID_LENGTH) (sha1 (ad_seed a @ device_id)) = ad_identifier a))"

definition parse_advertisement :: "bytes \<Rightarrow> advertisement res" where
  "parse_advertisement service_data =
     (let needed = DEVICE_ID_SEED_LENGTH + DEVICE_ID_LENGTH in
     bindE (raise_if (int (length service_data) < needed)
              (BleProtocolError (''Advertisement service data is {} byte(s), needs {}'',
                 [int (length service_data), needed]))) (\<lambda>_.
     let r = byte_reader_init service_data in
     bindE (read_bytes r DEVICE_ID_SEED_LENGTH) (\<lambda>(seed, r).
     bindE (read_bytes r DEVICE_ID_LENGTH) (\<lambda>(identifier, r).
     Inr \<lparr>ad_seed = seed, ad_identifier = identifier\<rparr>))))"

lemma parse_advertisement_Inr:
  "parse_advertisement d = Inr a \<longleftrightarrow>
     8 \<le> length d \<and> a = \<lparr>ad_seed = take 2 d, ad_identifier = take 6 (drop 2 d)\<rparr>"
  by (auto simp: parse_advertisement_def Let_def bindE_eq_Inr byte_reader_init_at read_fixed_Inr)

lemma parse_advertisement_eq:
  "parse_advertisement d =
     (if 8 \<le> length d then Inr \<lparr>ad_seed = take 2 d, ad_identifier = take 6 (drop 2 d)\<rparr>
      else Inl (BleProtocolError (''Advertisement service data is {} byte(s), needs {}'',
                 [int (length d), 8])))"
proof (cases "8 \<le> length d")
  case True
  then show ?thesis using parse_advertisement_Inr by auto
next
  case False
  then show ?thesis by (simp add: parse_advertisement_def Let_def)
qed

section \<open>Properties\<close>

text \<open>
  Recognising a lock. A lock that advertises a seed and the hash of seed and device id is
  matched by that device id whatever follows the eight bytes; a match always means an
  enrolled lock whose identifier is that hash; a lock nobody has enrolled matches no one and
  shows its own id reversed.
\<close>

theorem advertisement_recognises:
  assumes "length seed = 2" and "length device_id = 6" and "\<And>x. length (sha1 x) = 20"
  shows "\<exists>a. parse_advertisement (seed @ take 6 (sha1 (seed @ device_id)) @ tail) = Inr a
      \<and> ad_matches sha1 a device_id = Inr (seed \<noteq> [0, 0])
      \<and> (\<forall>d. ad_matches sha1 a d = Inr True \<longrightarrow> enrolled a
            \<and> take 6 (sha1 (seed @ d)) = take 6 (sha1 (seed @ device_id)))
      \<and> factory_id a = (if seed = [0, 0] then Some (rev (take 6 (sha1 (seed @ device_id)))) else None)"
proof -
  have "parse_advertisement (seed @ take 6 (sha1 (seed @ device_id)) @ tail)
      = Inr \<lparr>ad_seed = seed, ad_identifier = take 6 (sha1 (seed @ device_id))\<rparr>"
    using assms by (simp add: parse_advertisement_eq)
  then show ?thesis
    using assms by (auto simp: ad_matches_def enrolled_def factory_id_def split: if_splits)
qed

theorem advertisement_recognises_witness:
  "\<exists>a. parse_advertisement ([1, 2] @ take 6 ((\<lambda>x :: bytes. replicate 20 (hd x))
        ([1, 2] @ [3, 4, 5, 6, 7, 8])) @ []) = Inr a
     \<and> ad_matches (\<lambda>x. replicate 20 (hd x)) a [3, 4, 5, 6, 7, 8] = Inr True"
  using advertisement_recognises [of "[1, 2]" "[3, 4, 5, 6, 7, 8]" "\<lambda>x. replicate 20 (hd x)" "[]"]
  by auto

end
