(* ===== verification/Crypto.thy ===== *)
theory Crypto
  imports Advertisement
begin

text \<open>
  \<^verbatim>\<open>ble/crypto.py\<close>: what the program adds around the \<^verbatim>\<open>cryptography\<close> package: the wire
  encoding of keys, the reversed secret and how it is split, the padding, the two cipher modes
  and the answer to the owner challenge. The package itself is a parameter: one record of
  functions, for the curve and for AES-128-CBC without padding.
\<close>

definition AES_BLOCK_SIZE :: int where [simp]: "AES_BLOCK_SIZE = 16"
definition AES_KEY_LENGTH :: int where [simp]: "AES_KEY_LENGTH = 16"
definition PRIVATE_KEY_LENGTH :: int where [simp]: "PRIVATE_KEY_LENGTH = 32"
definition SHARED_SECRET_LENGTH :: int where [simp]: "SHARED_SECRET_LENGTH = 32"
definition COORDINATE_LENGTH :: int where [simp]: "COORDINATE_LENGTH = 32"

text \<open>
  The package: the public point of a private scalar (None where \<^verbatim>\<open>derive_private_key\<close> raises
  ValueError), whether a point is on the curve, the ECDH secret of a scalar and a point (big
  endian), and one CBC run under a key and an IV.
\<close>

record crypto_lib =
  lib_public :: "int \<Rightarrow> (int \<times> int) option"
  lib_on_curve :: "int \<times> int \<Rightarrow> bool"
  lib_exchange :: "int \<Rightarrow> int \<times> int \<Rightarrow> bytes"
  lib_cbc_encrypt :: "bytes \<Rightarrow> bytes \<Rightarrow> bytes \<Rightarrow> bytes"
  lib_cbc_decrypt :: "bytes \<Rightarrow> bytes \<Rightarrow> bytes \<Rightarrow> bytes"

section \<open>Byte helpers\<close>

definition bit_invert :: "bytes \<Rightarrow> bytes" where
  "bit_invert data = map (\<lambda>b. xor b 255) data"

definition zero_pad :: "bytes \<Rightarrow> bytes" where
  "zero_pad data = data @ replicate (nat ((- int (length data)) mod AES_BLOCK_SIZE)) 0"

section \<open>Key exchange\<close>

record key_pair =
  kp_private_key :: bytes
  kp_public_key :: bytes

definition encode_public_key :: "int \<times> int \<Rightarrow> bytes" where
  "encode_public_key p =
     int_to_le (nat COORDINATE_LENGTH) (fst p) @ int_to_le (nat COORDINATE_LENGTH) (snd p)"

definition load_private_key :: "crypto_lib \<Rightarrow> bytes \<Rightarrow> (int \<times> (int \<times> int)) res" where
  "load_private_key lib private_key =
     bindE (raise_if (int (length private_key) \<noteq> PRIVATE_KEY_LENGTH)
              (BleValidationError (''Private key must be {} bytes, got {}'',
                 [PRIVATE_KEY_LENGTH, int (length private_key)]))) (\<lambda>_.
     let scalar = int_from_le private_key in
     case lib_public lib scalar of
       None \<Rightarrow> Inl (BleValidationError (''Private key is not a valid secp256r1 scalar'', []))
     | Some p \<Rightarrow> Inr (scalar, p))"

definition load_public_key :: "crypto_lib \<Rightarrow> bytes \<Rightarrow> (int \<times> int) res" where
  "load_public_key lib public_key =
     bindE (raise_if (int (length public_key) \<noteq> PUBLIC_KEY_LENGTH)
              (BleProtocolError (''Public key must be {} bytes, got {}'',
                 [PUBLIC_KEY_LENGTH, int (length public_key)]))) (\<lambda>_.
     let x = int_from_le (take (nat COORDINATE_LENGTH) public_key);
         y = int_from_le (drop (nat COORDINATE_LENGTH) public_key)
     in if lib_on_curve lib (x, y) then Inr (x, y)
        else Inl (BleProtocolError (''Public key is not a point on secp256r1'', [])))"

definition key_pair_of :: "int \<times> (int \<times> int) \<Rightarrow> key_pair" where
  "key_pair_of private =
     \<lparr>kp_private_key = int_to_le (nat PRIVATE_KEY_LENGTH) (fst private),
      kp_public_key = encode_public_key (snd private)\<rparr>"

definition key_pair_from_private_key :: "crypto_lib \<Rightarrow> bytes \<Rightarrow> key_pair res" where
  "key_pair_from_private_key lib private_key =
     bindE (load_private_key lib private_key) (\<lambda>p. Inr (key_pair_of p))"

definition compute_shared_secret :: "crypto_lib \<Rightarrow> bytes \<Rightarrow> bytes \<Rightarrow> bytes res" where
  "compute_shared_secret lib private_key peer_public_key =
     bindE (load_private_key lib private_key) (\<lambda>(scalar, _).
     bindE (load_public_key lib peer_public_key) (\<lambda>peer.
     Inr (rev (lib_exchange lib scalar peer))))"

section \<open>AES\<close>

record aes128_cbc =
  ac_key :: bytes
  ac_iv :: bytes
  ac_iv_reset :: bool

definition aes128_cbc_init :: "bytes \<Rightarrow> bytes \<Rightarrow> bool \<Rightarrow> aes128_cbc res" where
  "aes128_cbc_init key iv iv_reset =
     bindE (raise_if (int (length key) \<noteq> AES_KEY_LENGTH)
              (BleValidationError (''AES key must be {} bytes, got {}'',
                 [AES_KEY_LENGTH, int (length key)]))) (\<lambda>_.
     bindE (raise_if (int (length iv) \<noteq> AES_BLOCK_SIZE)
              (BleValidationError (''AES IV must be {} bytes, got {}'',
                 [AES_BLOCK_SIZE, int (length iv)]))) (\<lambda>_.
     Inr \<lparr>ac_key = key, ac_iv = iv, ac_iv_reset = iv_reset\<rparr>))"

definition cbc_once :: "crypto_lib \<Rightarrow> aes128_cbc \<Rightarrow> bytes \<Rightarrow> bool \<Rightarrow> bytes" where
  "cbc_once lib c data decrypt =
     (if decrypt then lib_cbc_decrypt lib (ac_key c) (ac_iv c) data
      else lib_cbc_encrypt lib (ac_key c) (ac_iv c) data)"

text \<open>The blocks of \<^verbatim>\<open>range(0, len(data), 16)\<close>.\<close>

function blocks_of :: "bytes \<Rightarrow> bytes list" where
  "blocks_of data = (if data = [] then [] else take 16 data # blocks_of (drop 16 data))"
  by auto
termination by (relation "measure length") auto

declare blocks_of.simps [simp del]

definition aes_run :: "crypto_lib \<Rightarrow> aes128_cbc \<Rightarrow> bytes \<Rightarrow> bool \<Rightarrow> bytes" where
  "aes_run lib c data decrypt =
     (if \<not> ac_iv_reset c then cbc_once lib c data decrypt
      else concat (map (\<lambda>b. cbc_once lib c b decrypt) (blocks_of data)))"

definition aes_encrypt :: "crypto_lib \<Rightarrow> aes128_cbc \<Rightarrow> bytes \<Rightarrow> bytes" where
  "aes_encrypt lib c plaintext = aes_run lib c (zero_pad plaintext) False"

definition aes_decrypt :: "crypto_lib \<Rightarrow> aes128_cbc \<Rightarrow> bytes \<Rightarrow> bytes res" where
  "aes_decrypt lib c ciphertext =
     (if int (length ciphertext) mod AES_BLOCK_SIZE \<noteq> 0
      then Inl (BleProtocolError
             (''Cannot decrypt {} bytes, not a whole number of {}-byte blocks'',
              [int (length ciphertext), AES_BLOCK_SIZE]))
      else Inr (aes_run lib c ciphertext True))"

section \<open>Link and owner keys\<close>

record link_keys =
  lk_key :: bytes
  lk_iv :: bytes

definition from_shared_secret :: "bytes \<Rightarrow> link_keys res" where
  "from_shared_secret shared_secret =
     (if int (length shared_secret) \<noteq> SHARED_SECRET_LENGTH
      then Inl (BleValidationError (''Shared secret must be {} bytes, got {}'',
             [SHARED_SECRET_LENGTH, int (length shared_secret)]))
      else Inr \<lparr>lk_key = take (nat AES_KEY_LENGTH) shared_secret,
                lk_iv = drop (nat AES_KEY_LENGTH) shared_secret\<rparr>)"

definition link_cipher :: "link_keys \<Rightarrow> aes128_cbc res" where
  "link_cipher k = aes128_cbc_init (lk_key k) (lk_iv k) False"

text \<open>The cipher as the packet stream uses it.\<close>

definition payload_cipher_of :: "crypto_lib \<Rightarrow> aes128_cbc \<Rightarrow> payload_cipher" where
  "payload_cipher_of lib c =
     \<lparr>pc_encrypt = (\<lambda>p. Inr (aes_encrypt lib c p)), pc_decrypt = aes_decrypt lib c\<rparr>"

definition derive_link_keys :: "crypto_lib \<Rightarrow> bytes \<Rightarrow> bytes \<Rightarrow> link_keys res" where
  "derive_link_keys lib private_key lock_public_key =
     bindE (compute_shared_secret lib private_key lock_public_key) from_shared_secret"

definition derive_owner_key :: "crypto_lib \<Rightarrow> bytes \<Rightarrow> bytes \<Rightarrow> bytes res" where
  "derive_owner_key lib private_key lock_public_key =
     bindE (compute_shared_secret lib private_key lock_public_key) (\<lambda>secret.
     Inr (take (nat AES_KEY_LENGTH) secret))"

definition answer_owner_challenge :: "crypto_lib \<Rightarrow> bytes \<Rightarrow> bytes \<Rightarrow> bytes \<Rightarrow> bytes res" where
  "answer_owner_challenge lib challenge owner_key link_iv =
     bindE (raise_if (int (length challenge) \<noteq> CHALLENGE_LENGTH)
              (BleProtocolError (''Challenge must be {} bytes, got {}'',
                 [CHALLENGE_LENGTH, int (length challenge)]))) (\<lambda>_.
     bindE (aes128_cbc_init owner_key link_iv False) (\<lambda>cipher.
     bindE (aes_decrypt lib cipher challenge) (\<lambda>plain.
     Inr (aes_encrypt lib cipher (bit_invert plain)))))"

section \<open>What the package is relied on for\<close>

text \<open>
  The documented behaviour of the package: without padding, a CBC run keeps the length of
  whole blocks and decryption inverts encryption under the same key and IV; a public key is a
  point of the curve with 32-byte coordinates; an ECDH secret is 32 bytes and the same from
  either side.
\<close>

definition cbc_ok :: "crypto_lib \<Rightarrow> bool" where
  "cbc_ok lib \<longleftrightarrow> (\<forall>k iv d. length k = 16 \<longrightarrow> length iv = 16 \<longrightarrow> 16 dvd length d \<longrightarrow>
     length (lib_cbc_encrypt lib k iv d) = length d
     \<and> length (lib_cbc_decrypt lib k iv d) = length d
     \<and> lib_cbc_decrypt lib k iv (lib_cbc_encrypt lib k iv d) = d
     \<and> lib_cbc_encrypt lib k iv (lib_cbc_decrypt lib k iv d) = d)"

definition curve_ok :: "crypto_lib \<Rightarrow> bool" where
  "curve_ok lib \<longleftrightarrow>
     (\<forall>s p. lib_public lib s = Some p \<longrightarrow> lib_on_curve lib p)
     \<and> (\<forall>p. lib_on_curve lib p \<longrightarrow> 0 \<le> fst p \<and> fst p < 256 ^ 32 \<and> 0 \<le> snd p \<and> snd p < 256 ^ 32)
     \<and> (\<forall>s p. lib_on_curve lib p \<longrightarrow> length (lib_exchange lib s p) = 32)
     \<and> (\<forall>s t p q. lib_public lib s = Some p \<longrightarrow> lib_public lib t = Some q \<longrightarrow>
          lib_exchange lib s q = lib_exchange lib t p)"

text \<open>A small package with these laws: one coordinate, multiplication for the exchange, and
  the key's first byte added to every byte for the cipher.\<close>

definition small_lib :: crypto_lib where
  "small_lib = \<lparr>
     lib_public = (\<lambda>s. if 0 < s \<and> s < 256 ^ 32 then Some (s, 0) else None),
     lib_on_curve = (\<lambda>(x, y). 0 \<le> x \<and> x < 256 ^ 32 \<and> y = 0),
     lib_exchange = (\<lambda>s (x, y). int_to_le 32 (s * x)),
     lib_cbc_encrypt = (\<lambda>k iv d. map (\<lambda>b. b + hd k) d),
     lib_cbc_decrypt = (\<lambda>k iv d. map (\<lambda>b. b - hd k) d)\<rparr>"

lemma small_lib_ok: "cbc_ok small_lib" "curve_ok small_lib"
  by (auto simp: cbc_ok_def curve_ok_def small_lib_def mult.commute o_def split: if_splits)

section \<open>Lengths\<close>

definition whole_blocks :: "bytes \<Rightarrow> bool" where
  "whole_blocks d \<longleftrightarrow> 16 dvd length d"

lemma zero_pad_whole [simp]: "whole_blocks (zero_pad d)"
proof -
  have "int (length (zero_pad d)) = int (length d) + (- int (length d)) mod 16"
    by (simp add: zero_pad_def)
  then have "int (length (zero_pad d)) mod 16 = 0"
    by (simp add: mod_add_right_eq)
  then show ?thesis
    unfolding whole_blocks_def by presburger
qed

lemma zero_pad_prefix: "zero_pad d = d @ replicate (length (zero_pad d) - length d) 0"
  by (simp add: zero_pad_def)

lemma zero_pad_id: "whole_blocks d \<Longrightarrow> zero_pad d = d"
proof -
  assume "whole_blocks d"
  then have "(- int (length d)) mod 16 = 0" unfolding whole_blocks_def by presburger
  then show ?thesis by (simp add: zero_pad_def)
qed

lemma zero_pad_less: "length (zero_pad d) < length d + 16"
proof -
  have "(- int (length d)) mod 16 < 16" by simp
  then have "nat ((- int (length d)) mod 16) < 16" by linarith
  then show ?thesis by (simp add: zero_pad_def)
qed

lemma bit_invert_length [simp]: "length (bit_invert d) = length d"
  by (simp add: bit_invert_def)

lemma bit_invert_twice [simp]: "bit_invert (bit_invert d) = d"
  by (simp add: bit_invert_def o_def xor.assoc)

section \<open>Blocks\<close>

lemma concat_blocks_of: "concat (blocks_of d) = d"
proof (induction d rule: blocks_of.induct)
  case (1 d)
  then show ?case by (subst blocks_of.simps) simp
qed

lemma blocks_of_length: "whole_blocks d \<Longrightarrow> b \<in> set (blocks_of d) \<Longrightarrow> length b = 16"
proof (induction d rule: blocks_of.induct)
  case (1 d)
  show ?case
  proof (cases "d = []")
    case False
    with 1(2) have l: "16 \<le> length d" "whole_blocks (drop 16 d)"
      by (auto simp: whole_blocks_def dvd_imp_le intro: dvd_diff_nat)
    from 1(3) False have "b = take 16 d \<or> b \<in> set (blocks_of (drop 16 d))"
      by (subst (asm) blocks_of.simps) simp
    with l 1(1) [OF False] show ?thesis by auto
  qed (use 1(3) in \<open>simp add: blocks_of.simps\<close>)
qed

lemma blocks_of_concat:
  "\<forall>b \<in> set bs. length b = 16 \<Longrightarrow> blocks_of (concat bs) = bs"
proof (induction bs)
  case Nil
  then show ?case by (simp add: blocks_of.simps)
next
  case (Cons b bs)
  then show ?case by (subst blocks_of.simps) (auto simp: drop_append)
qed

definition aes_ok :: "aes128_cbc \<Rightarrow> bool" where
  "aes_ok c \<longleftrightarrow> length (ac_key c) = 16 \<and> length (ac_iv c) = 16"

lemma aes128_cbc_init_Inr:
  "aes128_cbc_init k iv m = Inr c \<longleftrightarrow>
     length k = 16 \<and> length iv = 16 \<and> c = \<lparr>ac_key = k, ac_iv = iv, ac_iv_reset = m\<rparr>"
  by (auto simp: aes128_cbc_init_def bindE_raise_if)

lemma cbc_once_inverse:
  "cbc_ok lib \<Longrightarrow> aes_ok c \<Longrightarrow> whole_blocks d \<Longrightarrow>
     cbc_once lib c (cbc_once lib c d e) (\<not> e) = d \<and> length (cbc_once lib c d e) = length d"
  by (cases e) (auto simp: cbc_ok_def aes_ok_def whole_blocks_def cbc_once_def)

lemma map_inverse_blocks:
  assumes "\<forall>b \<in> set bs. f (g b) = b \<and> length (g b) = 16"
  shows "concat (map f (blocks_of (concat (map g bs)))) = concat bs
     \<and> length (concat (map g bs)) = 16 * length bs"
proof -
  have "blocks_of (concat (map g bs)) = map g bs"
    by (rule blocks_of_concat) (use assms in auto)
  moreover have "map f (map g bs) = bs" using assms by (simp add: map_idI)
  moreover have "length (concat (map g bs)) = 16 * length bs"
    using assms by (induction bs) auto
  ultimately show ?thesis by simp
qed

lemma length_blocks: "whole_blocks d \<Longrightarrow> 16 * length (blocks_of d) = length d"
  using map_inverse_blocks [of "blocks_of d" id id] blocks_of_length [of d] concat_blocks_of [of d]
  by simp

text \<open>Both modes: a run keeps the length of whole blocks, and the other direction inverts it.\<close>

lemma aes_run_inverse:
  assumes "cbc_ok lib" "aes_ok c" "whole_blocks d"
  shows "aes_run lib c (aes_run lib c d e) (\<not> e) = d \<and> length (aes_run lib c d e) = length d"
proof (cases "ac_iv_reset c")
  case False
  then show ?thesis using cbc_once_inverse [OF assms] by (simp add: aes_run_def)
next
  case True
  have "\<forall>b \<in> set (blocks_of d). cbc_once lib c (cbc_once lib c b e) (\<not> e) = b
      \<and> length (cbc_once lib c b e) = 16"
    using cbc_once_inverse [OF assms(1,2)] blocks_of_length [OF assms(3)]
    by (auto simp: whole_blocks_def)
  from map_inverse_blocks [OF this] show ?thesis
    using True length_blocks [OF assms(3)] by (simp add: aes_run_def concat_blocks_of)
qed

lemma aes_encrypt_whole:
  "cbc_ok lib \<Longrightarrow> aes_ok c \<Longrightarrow> length (aes_encrypt lib c p) = length (zero_pad p)"
  using aes_run_inverse [of lib c "zero_pad p" False] by (simp add: aes_encrypt_def)

lemma aes_decrypt_encrypt:
  assumes "cbc_ok lib" "aes_ok c"
  shows "aes_decrypt lib c (aes_encrypt lib c p) = Inr (zero_pad p)"
proof -
  have "whole_blocks (aes_encrypt lib c p)"
    using aes_encrypt_whole [OF assms] zero_pad_whole [of p] by (simp add: whole_blocks_def)
  then have "int (length (aes_encrypt lib c p)) mod 16 = 0"
    unfolding whole_blocks_def by presburger
  then show ?thesis
    using aes_run_inverse [OF assms zero_pad_whole [of p], of False]
    by (simp add: aes_decrypt_def aes_encrypt_def)
qed

lemma aes_encrypt_decrypt:
  assumes "cbc_ok lib" "aes_ok c" "whole_blocks d"
  shows "\<exists>p. aes_decrypt lib c d = Inr p \<and> length p = length d \<and> aes_encrypt lib c p = d"
proof -
  have m: "int (length d) mod 16 = 0" using assms(3) unfolding whole_blocks_def by presburger
  have l: "length (aes_run lib c d True) = length d"
    using aes_run_inverse [OF assms, of True] by simp
  then have "zero_pad (aes_run lib c d True) = aes_run lib c d True"
    using assms(3) by (intro zero_pad_id) (simp add: whole_blocks_def)
  then show ?thesis
    using aes_run_inverse [OF assms, of True] m l by (simp add: aes_decrypt_def aes_encrypt_def)
qed

section \<open>Keys on the wire\<close>

lemma load_encode_public_key:
  assumes "curve_ok lib" "lib_on_curve lib p"
  shows "load_public_key lib (encode_public_key p) = Inr p"
proof -
  have "0 \<le> fst p" "fst p < 256 ^ 32" "0 \<le> snd p" "snd p < 256 ^ 32"
    using assms unfolding curve_ok_def by blast+
  then have "int_from_le (int_to_le 32 (fst p)) = fst p" "int_from_le (int_to_le 32 (snd p)) = snd p"
    by (simp_all only: int_from_to_le)
  with assms(2) show ?thesis
    by (simp add: load_public_key_def encode_public_key_def Let_def)
qed

lemma key_pair_from_private_key_Inr:
  "key_pair_from_private_key lib k = Inr kp \<longleftrightarrow>
     length k = 32 \<and> (\<exists>p. lib_public lib (int_from_le k) = Some p
        \<and> kp = \<lparr>kp_private_key = k, kp_public_key = encode_public_key p\<rparr>)"
  using int_to_from_le [of k]
  by (auto simp: key_pair_from_private_key_def load_private_key_def key_pair_of_def Let_def
      bindE_eq_Inr split: option.splits)

lemma encode_public_key_length [simp]: "length (encode_public_key p) = 64"
  by (simp add: encode_public_key_def)

lemma compute_shared_secret_Inr:
  assumes "curve_ok lib" "key_pair_from_private_key lib a = Inr ka" "lib_on_curve lib q"
  shows "compute_shared_secret lib a (encode_public_key q)
    = Inr (rev (lib_exchange lib (int_from_le a) q))"
  using assms(2) load_encode_public_key [OF assms(1,3)]
  by (auto simp: key_pair_from_private_key_Inr compute_shared_secret_def load_private_key_def)

lemma shared_secret_agrees:
  assumes "curve_ok lib"
    and "key_pair_from_private_key lib a = Inr ka" "key_pair_from_private_key lib b = Inr kb"
  shows "compute_shared_secret lib a (kp_public_key kb) = compute_shared_secret lib b (kp_public_key ka)
    \<and> (\<exists>s. compute_shared_secret lib a (kp_public_key kb) = Inr s \<and> length s = 32)"
proof -
  from assms(2,3) obtain p q where pq: "lib_public lib (int_from_le a) = Some p"
      "lib_public lib (int_from_le b) = Some q"
    and k: "kp_public_key ka = encode_public_key p" "kp_public_key kb = encode_public_key q"
    by (auto simp: key_pair_from_private_key_Inr)
  have on: "lib_on_curve lib p" "lib_on_curve lib q"
    using assms(1) pq unfolding curve_ok_def by blast+
  have "lib_exchange lib (int_from_le a) q = lib_exchange lib (int_from_le b) p"
    and "length (lib_exchange lib (int_from_le a) q) = 32"
    using assms(1) pq on unfolding curve_ok_def by blast+
  with compute_shared_secret_Inr [OF assms(1,2) on(2)] compute_shared_secret_Inr [OF assms(1,3) on(1)]
  show ?thesis by (simp add: k)
qed

lemma compute_shared_secret_error:
  "compute_shared_secret lib a k = Inl e \<Longrightarrow>
     is_protocol_error e \<or> (\<exists>m. e = BleValidationError m)"
  by (auto simp: compute_shared_secret_def load_private_key_def load_public_key_def Let_def
      bindE_eq_Inl split: option.splits if_splits prod.splits)

lemma derive_link_keys_Inr:
  "derive_link_keys lib a k = Inr lk \<Longrightarrow> length (lk_key lk) = 16 \<and> length (lk_iv lk) = 16"
  by (auto simp: derive_link_keys_def bindE_eq_Inr from_shared_secret_def split: if_splits)

lemma link_cipher_ok:
  "length (lk_key lk) = 16 \<Longrightarrow> length (lk_iv lk) = 16 \<Longrightarrow>
     \<exists>c. link_cipher lk = Inr c \<and> aes_ok c \<and> \<not> ac_iv_reset c"
  by (simp add: link_cipher_def aes128_cbc_init_def aes_ok_def)

lemma derive_owner_key_length:
  "curve_ok lib \<Longrightarrow> derive_owner_key lib a k = Inr ok \<Longrightarrow> length ok = 16"
  by (auto simp: derive_owner_key_def bindE_eq_Inr compute_shared_secret_def load_public_key_def
      Let_def curve_ok_def split: if_splits)

section \<open>Properties\<close>

text \<open>
  The cipher, in both of its modes: what was encrypted decrypts to the message and the
  zero bytes that fill its last block, fewer than sixteen; the ciphertext is as long as that;
  nothing in gives nothing out; and exactly the inputs that are not whole blocks are refused.
\<close>

theorem cipher_roundtrip:
  assumes "cbc_ok lib" and "aes128_cbc_init key iv mode = Inr c"
  shows "(\<exists>n < 16. aes_decrypt lib c (aes_encrypt lib c p) = Inr (p @ replicate n 0)
            \<and> length (aes_encrypt lib c p) = length p + n \<and> 16 dvd length p + n)
    \<and> aes_encrypt lib c [] = []
    \<and> ((\<exists>e. aes_decrypt lib c d = Inl e) = (\<not> 16 dvd length d))"
proof (intro conjI)
  from assms(2) have c: "aes_ok c" by (auto simp: aes128_cbc_init_Inr aes_ok_def)
  define n where "n = length (zero_pad p) - length p"
  have l: "length (zero_pad p) = length p + n" by (simp add: n_def zero_pad_def)
  with zero_pad_less [of p] have "n < 16" by linarith
  moreover have "zero_pad p = p @ replicate n 0" unfolding n_def by (rule zero_pad_prefix)
  ultimately show "\<exists>n < 16. aes_decrypt lib c (aes_encrypt lib c p) = Inr (p @ replicate n 0)
            \<and> length (aes_encrypt lib c p) = length p + n \<and> 16 dvd length p + n"
    using aes_decrypt_encrypt [OF assms(1) c, of p] aes_encrypt_whole [OF assms(1) c, of p] l
      zero_pad_whole [of p] by (auto simp: whole_blocks_def)
  have "length (aes_encrypt lib c []) = 0"
    using aes_encrypt_whole [OF assms(1) c, of "[]"] by (simp add: zero_pad_def)
  then show "aes_encrypt lib c [] = []" by simp
  have "(int (length d) mod 16 = 0) = (16 dvd length d)" by presburger
  then show "(\<exists>e. aes_decrypt lib c d = Inl e) = (\<not> 16 dvd length d)"
    by (simp add: aes_decrypt_def)
qed

theorem cipher_roundtrip_witness:
  "\<exists>c. aes128_cbc_init (replicate 16 3) (replicate 16 4) True = Inr c
     \<and> (\<exists>n < 16. aes_decrypt small_lib c (aes_encrypt small_lib c (replicate 20 7))
          = Inr (replicate 20 7 @ replicate n 0))"
proof -
  obtain c where c: "aes128_cbc_init (replicate 16 3) (replicate 16 4) True = Inr c"
    by (simp add: aes128_cbc_init_def)
  from cipher_roundtrip [OF small_lib_ok(1) c, of "replicate 20 7" "[]"] c show ?thesis by blast
qed

lemma same_link_keys:
  assumes "curve_ok lib"
    and "key_pair_from_private_key lib a = Inr ka" "key_pair_from_private_key lib b = Inr kb"
  obtains lk where "derive_link_keys lib a (kp_public_key kb) = Inr lk"
    "derive_link_keys lib b (kp_public_key ka) = Inr lk" "length (lk_key lk) = 16" "length (lk_iv lk) = 16"
    "derive_owner_key lib a (kp_public_key kb) = Inr (lk_key lk)"
    "derive_owner_key lib b (kp_public_key ka) = Inr (lk_key lk)"
proof -
  from shared_secret_agrees [OF assms] obtain s
    where s: "compute_shared_secret lib a (kp_public_key kb) = Inr s"
      "compute_shared_secret lib b (kp_public_key ka) = Inr s" "length s = 32" by metis
  then show ?thesis
    using that [of "\<lparr>lk_key = take 16 s, lk_iv = drop 16 s\<rparr>"]
    by (simp add: derive_link_keys_def derive_owner_key_def from_shared_secret_def)
qed

lemma small_pairs:
  "\<exists>ka kb. key_pair_from_private_key small_lib (1 # replicate 31 0) = Inr ka
     \<and> key_pair_from_private_key small_lib (5 # replicate 31 0) = Inr kb"
proof -
  have z: "int_from_le (replicate n 0) = 0" for n by (induction n) auto
  have a: "key_pair_from_private_key small_lib (1 # replicate 31 0)
      = Inr \<lparr>kp_private_key = 1 # replicate 31 0, kp_public_key = encode_public_key (1, 0)\<rparr>"
    unfolding key_pair_from_private_key_Inr by (simp add: small_lib_def z)
  have b: "key_pair_from_private_key small_lib (5 # replicate 31 0)
      = Inr \<lparr>kp_private_key = 5 # replicate 31 0, kp_public_key = encode_public_key (5, 0)\<rparr>"
    unfolding key_pair_from_private_key_Inr by (simp add: small_lib_def z)
  from a b show ?thesis by blast
qed

text \<open>
  Both ends of a key exchange agree. Two private keys whose public halves went over the
  wire give the same link key and IV, 16 bytes each, and the same owner key, which is that
  link key's derivation on its own exchange.
\<close>

theorem key_agreement:
  assumes "curve_ok lib"
    and "key_pair_from_private_key lib a = Inr ka" and "key_pair_from_private_key lib b = Inr kb"
  shows "\<exists>lk. derive_link_keys lib a (kp_public_key kb) = Inr lk
      \<and> derive_link_keys lib b (kp_public_key ka) = Inr lk
      \<and> length (lk_key lk) = 16 \<and> length (lk_iv lk) = 16
      \<and> derive_owner_key lib a (kp_public_key kb) = Inr (lk_key lk)
      \<and> derive_owner_key lib b (kp_public_key ka) = Inr (lk_key lk)"
  using same_link_keys [OF assms] by metis

theorem key_agreement_witness:
  "\<exists>ka kb lk. key_pair_from_private_key small_lib (1 # replicate 31 0) = Inr ka
     \<and> key_pair_from_private_key small_lib (5 # replicate 31 0) = Inr kb
     \<and> derive_link_keys small_lib (1 # replicate 31 0) (kp_public_key kb) = Inr lk
     \<and> derive_link_keys small_lib (5 # replicate 31 0) (kp_public_key ka) = Inr lk"
  using small_pairs key_agreement [OF small_lib_ok(2)] by metis

text \<open>
  The answer to the owner challenge. For a 16-byte challenge, key and IV it is the one
  16-byte value that decrypts to the complement of the decrypted challenge, so a lock that
  checks it that way takes it and no other; a challenge of another length is a protocol error.
\<close>

theorem owner_challenge_answer:
  assumes "cbc_ok lib" and "length key = 16" and "length iv = 16"
    and "c = \<lparr>ac_key = key, ac_iv = iv, ac_iv_reset = False\<rparr>"
  shows "(length challenge = 16 \<longrightarrow>
      (\<exists>a plain. answer_owner_challenge lib challenge key iv = Inr a \<and> length a = 16
        \<and> aes_decrypt lib c challenge = Inr plain
        \<and> (\<forall>x. length x = 16 \<longrightarrow> (aes_decrypt lib c x = Inr (bit_invert plain)) = (x = a))))
    \<and> (length challenge \<noteq> 16 \<longrightarrow>
        (\<exists>m. answer_owner_challenge lib challenge key iv = Inl (BleProtocolError m)))"
proof (intro conjI impI)
  assume len: "length challenge = 16"
  have c: "aes_ok c" "aes128_cbc_init key iv False = Inr c"
    using assms(2-4) by (simp_all add: aes_ok_def aes128_cbc_init_def)
  from aes_encrypt_decrypt [OF assms(1) c(1), of challenge] len obtain plain
    where plain: "aes_decrypt lib c challenge = Inr plain" "length plain = 16"
    by (auto simp: whole_blocks_def)
  define a where "a = aes_encrypt lib c (bit_invert plain)"
  have pad: "zero_pad (bit_invert plain) = bit_invert plain"
    using plain(2) by (intro zero_pad_id) (simp add: whole_blocks_def)
  have la: "length a = 16"
    using aes_encrypt_whole [OF assms(1) c(1), of "bit_invert plain"] plain(2) by (simp add: a_def pad)
  have "(aes_decrypt lib c x = Inr (bit_invert plain)) = (x = a)" if "length x = 16" for x
  proof
    assume "aes_decrypt lib c x = Inr (bit_invert plain)"
    with aes_encrypt_decrypt [OF assms(1) c(1), of x] that show "x = a"
      by (auto simp: whole_blocks_def a_def)
  next
    assume "x = a"
    then show "aes_decrypt lib c x = Inr (bit_invert plain)"
      using aes_decrypt_encrypt [OF assms(1) c(1), of "bit_invert plain"] by (simp add: a_def pad)
  qed
  moreover have "answer_owner_challenge lib challenge key iv = Inr a"
    using len plain(1) c(2) by (simp add: answer_owner_challenge_def a_def)
  ultimately show "\<exists>a plain. answer_owner_challenge lib challenge key iv = Inr a \<and> length a = 16
        \<and> aes_decrypt lib c challenge = Inr plain
        \<and> (\<forall>x. length x = 16 \<longrightarrow> (aes_decrypt lib c x = Inr (bit_invert plain)) = (x = a))"
    using la plain(1) by blast
qed (simp add: answer_owner_challenge_def)

theorem owner_challenge_answer_witness:
  "\<exists>a. answer_owner_challenge small_lib (replicate 16 9) (replicate 16 3) (replicate 16 4) = Inr a
     \<and> length a = 16"
  using owner_challenge_answer [OF small_lib_ok(1), of "replicate 16 3" "replicate 16 4"
      "\<lparr>ac_key = replicate 16 3, ac_iv = replicate 16 4, ac_iv_reset = False\<rparr>" "replicate 16 9"]
  by auto

end
