(* ===== verification/Session.thy ===== *)
theory Session
  imports Crypto
begin

text \<open>
  \<^verbatim>\<open>ble/client/session.py\<close>: one connection to a lock. The handlers are functions on the
  session's fields; the coroutines (connect, and the one exchange that holds the command
  lock) are program counters in a world around it, and one rule of \<open>session_step\<close> is one
  stretch of code between two awaits, or one callback of the transport. Time is in
  milliseconds. What went to the transport, what each caller got and what listeners saw is
  recorded beside the fields, for the properties to speak about. The tracer and the log lines
  have no effect on any field (the tracer is guarded, \<^verbatim>\<open>client/tracing.py\<close>) and are left out.
\<close>

definition MIN_FIRMWARE_CONNECT :: firmware_version where
  [simp]: "MIN_FIRMWARE_CONNECT = (4, 6, 0)"
definition DEFAULT_RESPONSE_TIMEOUT_MS :: int where [simp]: "DEFAULT_RESPONSE_TIMEOUT_MS = 20000"
definition COMMAND_RESPONSE_DELAY_MS :: int where [simp]: "COMMAND_RESPONSE_DELAY_MS = 320"
definition LATE_ANSWER_GRACE_MS :: int where
  [simp]: "LATE_ANSWER_GRACE_MS = DEFAULT_RESPONSE_TIMEOUT_MS"

section \<open>The software revision\<close>

text \<open>Trailing NUL, blank, tab, CR and LF are dropped, then the text is split at the dots.\<close>

definition revision_blank :: "byte \<Rightarrow> bool" where
  "revision_blank b \<longleftrightarrow> b = 0 \<or> b = 32 \<or> b = 9 \<or> b = 13 \<or> b = 10"

definition revision_rstrip :: "bytes \<Rightarrow> bytes" where
  "revision_rstrip t = rev (dropWhile revision_blank (rev t))"

fun split_dots :: "bytes \<Rightarrow> bytes list" where
  "split_dots [] = [[]]"
| "split_dots (b # bs) =
     (if b = 46 then [] # split_dots bs
      else case split_dots bs of [] \<Rightarrow> [[b]] | p # ps \<Rightarrow> (b # p) # ps)"

definition decimal_part :: "bytes \<Rightarrow> bool" where
  "decimal_part p \<longleftrightarrow> p \<noteq> [] \<and> (\<forall>b \<in> set p. 48 \<le> uint b \<and> uint b \<le> 57)"

definition decimal_value :: "bytes \<Rightarrow> int" where
  "decimal_value p = foldl (\<lambda>n b. 10 * n + (uint b - 48)) 0 p"

definition parse_software_revision :: "bytes \<Rightarrow> firmware_version res" where
  "parse_software_revision raw =
     bindE (raise_if (\<exists>b \<in> set raw. 128 \<le> uint b)
              (BleProtocolError (''Software revision is not ASCII'', []))) (\<lambda>_.
     let parts = split_dots (revision_rstrip raw) in
     bindE (raise_if (length parts \<noteq> 3 \<or> \<not> list_all decimal_part parts)
              (BleProtocolError (''Software revision {!r} is not major.minor.bugfix'', map uint raw))) (\<lambda>_.
     Inr (decimal_value (parts ! 0), decimal_value (parts ! 1), decimal_value (parts ! 2))))"

section \<open>The session's fields\<close>

datatype session_state = NEW | CONNECTING | CONNECTED | CLOSED

text \<open>An \<^verbatim>\<open>asyncio.Future\<close>: not done, or done with a result or an exception.\<close>

datatype answer_future = FWaiting | FResult response | FException ble_error

record pending =
  pd_command_id :: command_id
  pd_command_ref :: int
  pd_static_ref :: bool
  pd_future :: answer_future

definition future_done :: "answer_future \<Rightarrow> bool" where
  "future_done f = (f \<noteq> FWaiting)"

record session_config =
  cfg_lib :: crypto_lib
  cfg_response_timeout :: int
  cfg_command_delay :: int
  cfg_late_answer_grace :: int
  cfg_mtu :: int
  cfg_key_pair :: key_pair

record session =
  se_state :: session_state
  se_stream :: packet_stream
  se_refs :: "command_ref_counter option"
  se_firmware :: "firmware_version option"
  se_model :: "lock_model_id option"
  se_link_keys :: "link_keys option"
  se_pending :: "pending option"
  se_dropped :: "ble_error option"
  se_listeners :: "nat list"
  se_ready_at :: int

definition session_init :: "session_config \<Rightarrow> session res" where
  "session_init cfg =
     bindE (packet_stream_init (cfg_mtu cfg) None) (\<lambda>stream.
     Inr \<lparr>se_state = NEW, se_stream = stream, se_refs = None, se_firmware = None, se_model = None,
          se_link_keys = None, se_pending = None, se_dropped = None, se_listeners = [],
          se_ready_at = 0\<rparr>)"

definition session_firmware :: "session \<Rightarrow> firmware_version res" where
  "session_firmware s =
     (case se_firmware s of
        None \<Rightarrow> Inl (BleSessionStateError (''The firmware is read by connect()'', []))
      | Some f \<Rightarrow> Inr f)"

definition session_link_keys :: "session \<Rightarrow> link_keys res" where
  "session_link_keys s =
     (case se_link_keys s of
        None \<Rightarrow> Inl (BleSessionStateError
               (''The link keys exist once connect() has exchanged keys'', []))
      | Some k \<Rightarrow> Inr k)"

definition not_connected :: "session \<Rightarrow> ble_error" where
  "not_connected s =
     (if se_state s = NEW
      then BleSessionStateError (''Call connect() before sending commands'', [])
      else if se_state s = CONNECTING
      then BleSessionStateError (''The session is still connecting'', [])
      else BleDisconnectedError (''The session is closed'', []))"

definition session_availability :: "session \<Rightarrow> command_payload \<Rightarrow> device_feature res" where
  "session_availability s c =
     (if se_state s \<noteq> CONNECTED then Inl (not_connected s)
      else bindE (session_firmware s) (\<lambda>fw. Inr (availability c fw (se_model s))))"

text \<open>What \<^verbatim>\<open>send\<close> decides before it hands the command to the exchange.\<close>

definition send_gate :: "session \<Rightarrow> command_payload \<Rightarrow> bool \<Rightarrow> unit res" where
  "send_gate s c skip_app_gates =
     bindE (session_availability s c) (\<lambda>feature.
     if \<not> feature_available feature \<and> \<not> skip_app_gates
     then bindE (session_firmware s) (\<lambda>fw.
            Inl (BleFeatureUnavailableError (cp_id c) feature fw (se_model s)))
     else Inr ())"

section \<open>Incoming\<close>

definition session_drop :: "session \<Rightarrow> ble_error \<Rightarrow> session" where
  "session_drop s err = s\<lparr>se_dropped := Some err\<rparr>"

definition fail_pending :: "session \<Rightarrow> msg \<Rightarrow> session" where
  "fail_pending s m =
     (case se_pending s of
        Some p \<Rightarrow> (if \<not> future_done (pd_future p)
                   then s\<lparr>se_pending := Some (p\<lparr>pd_future := FException (BleDisconnectedError m)\<rparr>)\<rparr>
                   else s)
      | None \<Rightarrow> s)"

text \<open>
  The events handed to each listener; a listener that raises changes nothing here. An error of
  \<open>receive\<close> that is no protocol error goes up to the transport and changes nothing more.
\<close>

type_synonym event_delivery = "nat \<times> lock_event"

definition dispatch_event :: "session \<Rightarrow> response \<Rightarrow> session \<times> event_delivery list" where
  "dispatch_event s r =
     (case parse_event r of
        Inl err \<Rightarrow> (session_drop s err, [])
      | Inr None \<Rightarrow> (s, [])
      | Inr (Some e) \<Rightarrow> (s, map (\<lambda>l. (l, e)) (se_listeners s)))"

definition late_answer :: "response \<Rightarrow> pending \<Rightarrow> ble_error" where
  "late_answer r p =
     BleProtocolError
       (''{} arrived under the static CommandRef while {} waited, and was taken as a late answer to an earlier command'',
        [rid_value r, command_value (pd_command_id p)])"

definition expected_id :: "command_id \<Rightarrow> int" where
  "expected_id c = (case expected_response_id c of Some r \<Rightarrow> response_value r | None \<Rightarrow> -1)"

definition match_answer :: "session \<Rightarrow> response \<Rightarrow> session" where
  "match_answer s r =
     (case se_pending s of
        None \<Rightarrow> s
      | Some p \<Rightarrow>
          (if future_done (pd_future p) \<or> rs_ref r \<noteq> pd_command_ref p then s
           else if pd_static_ref p \<and> rid_value r \<noteq> expected_id (pd_command_id p)
           then s\<lparr>se_dropped := Some (late_answer r p)\<rparr>
           else s\<lparr>se_pending := Some (p\<lparr>pd_future := FResult r\<rparr>)\<rparr>))"

definition on_notification :: "session \<Rightarrow> bytes \<Rightarrow> session \<times> event_delivery list" where
  "on_notification s data =
     (let (stream, received) = receive (se_stream s) data; s = s\<lparr>se_stream := stream\<rparr> in
      case received of
        Inl err \<Rightarrow> (if is_protocol_error err then session_drop s err else s, [])
      | Inr RNothing \<Rightarrow> (s, [])
      | Inr (RPacket p) \<Rightarrow> (s, [])
      | Inr (RPayload payload encrypted) \<Rightarrow>
          (case response_from_bytes payload of
             Inl err \<Rightarrow> (session_drop s err, [])
           | Inr r \<Rightarrow> if is_event r then dispatch_event s r else (match_answer s r, [])))"

definition on_disconnect :: "session \<Rightarrow> session" where
  "on_disconnect s =
     (if se_state s = CLOSED then s
      else fail_pending (s\<lparr>se_state := CLOSED, se_stream := stream_reset (se_stream s)\<rparr>)
             (''The lock disconnected before it answered'', []))"

definition session_close :: "session \<Rightarrow> session" where
  "session_close s =
     fail_pending (s\<lparr>se_state := CLOSED\<rparr>)
       (''The session was closed before the lock answered'', [])"

definition add_event_listener :: "session \<Rightarrow> nat \<Rightarrow> session" where
  "add_event_listener s l = s\<lparr>se_listeners := se_listeners s @ [l]\<rparr>"

definition remove_event_listener :: "session \<Rightarrow> nat \<Rightarrow> session" where
  "remove_event_listener s l = s\<lparr>se_listeners := remove1 l (se_listeners s)\<rparr>"

section \<open>One exchange\<close>

definition live :: "session \<Rightarrow> bool" where
  "live s \<longleftrightarrow> se_state s = CONNECTING \<or> se_state s = CONNECTED"

text \<open>
  Framing a command: refused without a cipher unless it is the key exchange; the ref is taken
  even when framing fails; the pending answer is registered before the first write.
\<close>

definition exchange_frame ::
  "session \<Rightarrow> command_payload \<Rightarrow> session \<times> (command \<times> bytes list) res" where
  "exchange_frame s c =
     (if ps_cipher (se_stream s) = None \<and> cp_id c \<noteq> CMD_EXCHANGE_KEY_PUB_M
      then (s, Inl (BleSessionStateError
             (''{} cannot be sent before the key exchange has set the link cipher'',
              [command_value (cp_id c)])))
      else case se_refs s of
             None \<Rightarrow> (s, Inl (PyException ''AssertionError''))
           | Some refs \<Rightarrow>
               (let (ref, refs') = next_ref refs;
                    s = s\<lparr>se_refs := Some refs'\<rparr>;
                    outgoing = with_ref c ref
                in case bindE (command_to_bytes outgoing) (frame (se_stream s)) of
                     Inl e \<Rightarrow> (s, Inl e)
                   | Inr frames \<Rightarrow>
                       (s\<lparr>se_pending := Some \<lparr>pd_command_id = cp_id c, pd_command_ref = ref,
                                             pd_static_ref = rc_static refs', pd_future = FWaiting\<rparr>,
                          se_dropped := None\<rparr>,
                        Inr (outgoing, frames))))"

definition exchange_end :: "session \<Rightarrow> session" where
  "exchange_end s = s\<lparr>se_pending := None\<rparr>"

definition exchange_answered :: "session_config \<Rightarrow> int \<Rightarrow> session \<Rightarrow> session" where
  "exchange_answered cfg now s = (exchange_end s)\<lparr>se_ready_at := now + cfg_command_delay cfg\<rparr>"

text \<open>The error of a timeout, with the dropped frame that may be its cause.\<close>

definition exchange_timed_out ::
  "session_config \<Rightarrow> int \<Rightarrow> pending \<Rightarrow> session \<Rightarrow> session \<times> ble_error \<times> ble_error option" where
  "exchange_timed_out cfg now p s =
     (exchange_end (if pd_static_ref p
                    then s\<lparr>se_ready_at := now + cfg_late_answer_grace cfg\<rparr> else s),
      BleTimeoutError (''{} got no answer within {} s'',
        [command_value (pd_command_id p), cfg_response_timeout cfg]),
      se_dropped s)"

definition check_answer :: "command_payload \<Rightarrow> response \<Rightarrow> response res" where
  "check_answer c r =
     bindE (raise_for_status r) (\<lambda>_.
     if rid_value r \<noteq> expected_id (cp_id c)
     then Inl (BleProtocolError (''{} was answered by {} instead of {}'',
            [command_value (cp_id c), rid_value r, expected_id (cp_id c)]))
     else Inr r)"

section \<open>The world around a session\<close>

text \<open>
  \<open>connect_pc\<close> is where \<^verbatim>\<open>connect()\<close> stands, \<open>task_pc\<close> where the exchange that holds the
  command lock stands; commands whose \<^verbatim>\<open>send()\<close> passed the gate and who wait for the lock are
  queued in \<open>w_waiting\<close> with their \<^verbatim>\<open>skip_app_gates\<close> (an \<^verbatim>\<open>asyncio.Lock\<close> is fair). The other fields record time and what
  happened.
\<close>

datatype connect_pc =
    NotStarted | ReadRevision | StartNotify | KeyExchange | ModelRead | Connected | Failed ble_error

datatype task_pc = Pausing int | Writing "bytes list" | Awaiting

datatype caller = ByConnect | ByUser bool

record exchange_task =
  tk_caller :: caller
  tk_command :: command_payload
  tk_pc :: task_pc
  tk_deadline :: int

record sent_command =
  sn_command :: command
  sn_stream :: packet_stream
  sn_frames :: "bytes list"
  sn_time :: int
  sn_caller :: caller

type_synonym outcome = "command_payload \<times> response res \<times> ble_error option"

record world =
  w_session :: session
  w_now :: int
  w_connect :: connect_pc
  w_task :: "exchange_task option"
  w_waiting :: "(command_payload \<times> bool) list"
  w_sent :: "sent_command list"
  w_written :: "bytes list"
  w_delivered :: "event_delivery list"
  w_results :: "outcome list"

definition world_init :: "session \<Rightarrow> int \<Rightarrow> world" where
  "world_init s now =
     \<lparr>w_session = s, w_now = now, w_connect = NotStarted, w_task = None, w_waiting = [],
      w_sent = [], w_written = [], w_delivered = [], w_results = []\<rparr>"

subsection \<open>connect()\<close>

definition connect_fail :: "world \<Rightarrow> ble_error \<Rightarrow> world" where
  "connect_fail w e = w\<lparr>w_session := session_close (w_session w), w_connect := Failed e\<rparr>"

definition connect_begin :: "session \<Rightarrow> session res" where
  "connect_begin s =
     (if se_state s \<noteq> NEW
      then Inl (BleSessionStateError
             (''A Session connects once; build a new one to reconnect'', []))
      else Inr (s\<lparr>se_state := CONNECTING\<rparr>))"

definition connect_revision :: "session \<Rightarrow> bytes \<Rightarrow> session res" where
  "connect_revision s raw =
     bindE (parse_software_revision raw) (\<lambda>firmware.
     bindE (raise_if (firmware < MIN_FIRMWARE_CONNECT)
              (BleFirmwareTooOldError firmware MIN_FIRMWARE_CONNECT)) (\<lambda>_.
     Inr (s\<lparr>se_firmware := Some firmware, se_refs := Some (ref_counter_for_firmware firmware)\<rparr>)))"

text \<open>After the key exchange was answered: only now does the stream get its cipher.\<close>

definition connect_key :: "session_config \<Rightarrow> session \<Rightarrow> response \<Rightarrow> session res" where
  "connect_key cfg s answer =
     bindE (parse_exchange_key_pub_l answer) (\<lambda>a.
     bindE (derive_link_keys (cfg_lib cfg) (kp_private_key (cfg_key_pair cfg)) (xk_public_key a)) (\<lambda>keys.
     bindE (link_cipher keys) (\<lambda>cipher.
     Inr (s\<lparr>se_link_keys := Some keys,
            se_stream := (se_stream s)\<lparr>ps_cipher := Some (payload_cipher_of (cfg_lib cfg) cipher)\<rparr>\<rparr>))))"

definition connect_model :: "session \<Rightarrow> response \<Rightarrow> session res" where
  "connect_model s answer =
     bindE (parse_device_model answer) (\<lambda>m. Inr (s\<lparr>se_model := Some (dm_model m)\<rparr>))"

text \<open>\<^verbatim>\<open>self._state = _State.CONNECTED\<close>, the last line, with no test of the state before it.\<close>

definition connect_done :: "world \<Rightarrow> world" where
  "connect_done w = w\<lparr>w_session := (w_session w)\<lparr>se_state := CONNECTED\<rparr>, w_connect := Connected\<rparr>"

definition connect_continue :: "session_config \<Rightarrow> world \<Rightarrow> response res \<Rightarrow> world" where
  "connect_continue cfg w result =
     (if w_connect w = KeyExchange
      then (case bindE result (connect_key cfg (w_session w)) of
              Inl e \<Rightarrow> connect_fail w e
            | Inr s \<Rightarrow>
                (case se_firmware s of
                   Some fw \<Rightarrow> if fw \<ge> MIN_FIRMWARE_ADMIN
                     then w\<lparr>w_session := s, w_connect := ModelRead\<rparr>
                     else connect_done (w\<lparr>w_session := s\<rparr>)
                 | None \<Rightarrow> connect_done (w\<lparr>w_session := s\<rparr>)))
      else (case bindE result (connect_model (w_session w)) of
              Inl e \<Rightarrow> connect_fail w e
            | Inr s \<Rightarrow> connect_done (w\<lparr>w_session := s\<rparr>)))"

subsection \<open>The exchange\<close>

text \<open>The exchange returns or raises: the lock is free and its caller goes on.\<close>

definition exchange_return ::
  "session_config \<Rightarrow> world \<Rightarrow> caller \<Rightarrow> command_payload \<Rightarrow> response res \<Rightarrow> ble_error option \<Rightarrow> world" where
  "exchange_return cfg w caller c result cause =
     (case caller of
        ByUser skip \<Rightarrow> w\<lparr>w_task := None, w_results := w_results w @ [(c, result, cause)]\<rparr>
      | ByConnect \<Rightarrow> connect_continue cfg (w\<lparr>w_task := None\<rparr>) result)"

definition exchange_send :: "session_config \<Rightarrow> world \<Rightarrow> caller \<Rightarrow> command_payload \<Rightarrow> world" where
  "exchange_send cfg w caller c =
     (case exchange_frame (w_session w) c of
        (s, Inl e) \<Rightarrow> exchange_return cfg (w\<lparr>w_session := s\<rparr>) caller c (Inl e) None
      | (s, Inr (outgoing, frames)) \<Rightarrow>
          w\<lparr>w_session := s,
            w_task := Some \<lparr>tk_caller = caller, tk_command = c, tk_pc = Writing frames,
                            tk_deadline = w_now w + cfg_response_timeout cfg\<rparr>,
            w_sent := w_sent w @ [\<lparr>sn_command = outgoing, sn_stream = se_stream s,
               sn_frames = frames, sn_time = w_now w, sn_caller = caller\<rparr>]\<rparr>)"

definition exchange_start :: "session_config \<Rightarrow> world \<Rightarrow> caller \<Rightarrow> command_payload \<Rightarrow> world" where
  "exchange_start cfg w caller c =
     (if \<not> live (w_session w)
      then exchange_return cfg w caller c (Inl (not_connected (w_session w))) None
      else if se_ready_at (w_session w) - w_now w > 0
      then w\<lparr>w_task := Some \<lparr>tk_caller = caller, tk_command = c,
                             tk_pc = Pausing (se_ready_at (w_session w)), tk_deadline = 0\<rparr>\<rparr>
      else exchange_send cfg w caller c)"

definition exchange_after_pause :: "session_config \<Rightarrow> world \<Rightarrow> caller \<Rightarrow> command_payload \<Rightarrow> world" where
  "exchange_after_pause cfg w caller c =
     (if \<not> live (w_session w)
      then exchange_return cfg w caller c (Inl (not_connected (w_session w))) None
      else exchange_send cfg w caller c)"

section \<open>Steps\<close>

definition pending_future :: "session \<Rightarrow> answer_future" where
  "pending_future s = (case se_pending s of None \<Rightarrow> FWaiting | Some p \<Rightarrow> pd_future p)"

text \<open>
  One rule per stretch of code between two awaits, and per callback. A timeout or a
  cancellation can strike while packets are still being written and after the answer has
  arrived but before its waiter ran; a \<^verbatim>\<open>CancelledError\<close> stands for any BaseException thrown
  in from outside.
\<close>

inductive session_step :: "session_config \<Rightarrow> world \<Rightarrow> world \<Rightarrow> bool"
  for cfg :: session_config where
  tick: "now \<ge> w_now w \<Longrightarrow> session_step cfg w (w\<lparr>w_now := now\<rparr>)"
| connect_call:
    "w_connect w = NotStarted \<Longrightarrow> connect_begin (w_session w) = Inr s \<Longrightarrow>
     session_step cfg w (w\<lparr>w_session := s, w_connect := ReadRevision\<rparr>)"
| revision_read:
    "w_connect w = ReadRevision \<Longrightarrow> connect_revision (w_session w) raw = Inr s \<Longrightarrow>
     session_step cfg w (w\<lparr>w_session := s, w_connect := StartNotify\<rparr>)"
| revision_bad:
    "w_connect w = ReadRevision \<Longrightarrow> connect_revision (w_session w) raw = Inl e \<Longrightarrow>
     session_step cfg w (connect_fail w e)"
| connect_raises:
    "w_connect w = ReadRevision \<or> w_connect w = StartNotify \<Longrightarrow>
     session_step cfg w (connect_fail w e)"
| notify_started:
    "w_connect w = StartNotify \<Longrightarrow>
     exchange_key_pub_m (kp_public_key (cfg_key_pair cfg)) = Inr c \<Longrightarrow>
     session_step cfg w (exchange_start cfg (w\<lparr>w_connect := KeyExchange\<rparr>) ByConnect c)"
| notify_started_bad:
    "w_connect w = StartNotify \<Longrightarrow>
     exchange_key_pub_m (kp_public_key (cfg_key_pair cfg)) = Inl e \<Longrightarrow>
     session_step cfg w (connect_fail w e)"
| model_read:
    "w_connect w = ModelRead \<Longrightarrow> w_task w = None \<Longrightarrow> device_model_get = Inr c \<Longrightarrow>
     session_step cfg w (exchange_start cfg w ByConnect c)"
| send_call:
    "send_gate (w_session w) c skip = Inr u \<Longrightarrow>
     session_step cfg w (w\<lparr>w_waiting := w_waiting w @ [(c, skip)]\<rparr>)"
| send_refused:
    "send_gate (w_session w) c skip = Inl e \<Longrightarrow>
     session_step cfg w (w\<lparr>w_results := w_results w @ [(c, Inl e, None)]\<rparr>)"
| lock_acquired:
    "w_task w = None \<Longrightarrow> w_waiting w = (c, skip) # rest \<Longrightarrow>
     session_step cfg w (exchange_start cfg (w\<lparr>w_waiting := rest\<rparr>) (ByUser skip) c)"
| waiter_cancelled:
    "w_waiting w = xs @ (c, skip) # ys \<Longrightarrow>
     session_step cfg w (w\<lparr>w_waiting := xs @ ys,
       w_results := w_results w @ [(c, Inl (PyException ''CancelledError''), None)]\<rparr>)"
| pause_over:
    "w_task w = Some t \<Longrightarrow> tk_pc t = Pausing until \<Longrightarrow> until \<le> w_now w \<Longrightarrow>
     session_step cfg w (exchange_after_pause cfg w (tk_caller t) (tk_command t))"
| packet_written:
    "w_task w = Some t \<Longrightarrow> tk_pc t = Writing (f # fs) \<Longrightarrow>
     session_step cfg w (w\<lparr>w_task := Some (t\<lparr>tk_pc := Writing fs\<rparr>), w_written := w_written w @ [f]\<rparr>)"
| all_written:
    "w_task w = Some t \<Longrightarrow> tk_pc t = Writing [] \<Longrightarrow>
     session_step cfg w (w\<lparr>w_task := Some (t\<lparr>tk_pc := Awaiting\<rparr>)\<rparr>)"
| write_raises:
    "w_task w = Some t \<Longrightarrow> tk_pc t = Writing (f # fs) \<Longrightarrow>
     session_step cfg w (exchange_return cfg (w\<lparr>w_session := exchange_end (w_session w)\<rparr>)
       (tk_caller t) (tk_command t) (Inl e) None)"
| answer_taken:
    "w_task w = Some t \<Longrightarrow> tk_pc t = Awaiting \<Longrightarrow> pending_future (w_session w) = FResult r \<Longrightarrow>
     session_step cfg w (exchange_return cfg
       (w\<lparr>w_session := exchange_answered cfg (w_now w) (w_session w)\<rparr>)
       (tk_caller t) (tk_command t) (check_answer (tk_command t) r) None)"
| answer_failed:
    "w_task w = Some t \<Longrightarrow> tk_pc t = Awaiting \<Longrightarrow> pending_future (w_session w) = FException e \<Longrightarrow>
     session_step cfg w (exchange_return cfg (w\<lparr>w_session := exchange_end (w_session w)\<rparr>)
       (tk_caller t) (tk_command t) (Inl e) None)"
| timed_out:
    "w_task w = Some t \<Longrightarrow> tk_pc t = Awaiting \<or> (\<exists>fs. tk_pc t = Writing fs) \<Longrightarrow>
     tk_deadline t \<le> w_now w \<Longrightarrow> se_pending (w_session w) = Some p \<Longrightarrow>
     exchange_timed_out cfg (w_now w) p (w_session w) = (s, e, cause) \<Longrightarrow>
     session_step cfg w (exchange_return cfg (w\<lparr>w_session := s\<rparr>)
       (tk_caller t) (tk_command t) (Inl e) cause)"
| cancelled:
    "w_task w = Some t \<Longrightarrow>
     session_step cfg w (exchange_return cfg (w\<lparr>w_session := exchange_end (w_session w)\<rparr>)
       (tk_caller t) (tk_command t) (Inl (PyException ''CancelledError'')) None)"
| notification:
    "on_notification (w_session w) data = (s, ds) \<Longrightarrow>
     session_step cfg w (w\<lparr>w_session := s, w_delivered := w_delivered w @ ds\<rparr>)"
| disconnected: "session_step cfg w (w\<lparr>w_session := on_disconnect (w_session w)\<rparr>)"
| close_call: "session_step cfg w (w\<lparr>w_session := session_close (w_session w)\<rparr>)"
| listener_added: "session_step cfg w (w\<lparr>w_session := add_event_listener (w_session w) l\<rparr>)"
| listener_removed: "session_step cfg w (w\<lparr>w_session := remove_event_listener (w_session w) l\<rparr>)"

inductive_cases session_stepE: "session_step cfg w w'"

definition session_start :: "session_config \<Rightarrow> world \<Rightarrow> bool" where
  "session_start cfg w \<longleftrightarrow> (\<exists>s now. 0 \<le> now \<and> session_init cfg = Inr s \<and> w = world_init s now)"

section \<open>The invariant\<close>

definition firmware_known :: "session \<Rightarrow> bool" where
  "firmware_known s \<longleftrightarrow> (\<exists>fw refs. se_firmware s = Some fw \<and> MIN_FIRMWARE_CONNECT \<le> fw
     \<and> se_refs s = Some refs \<and> ref_counter_ok refs \<and> rc_static refs = (fw < MIN_FIRMWARE_ADMIN))"

definition secured :: "session_config \<Rightarrow> session \<Rightarrow> bool" where
  "secured cfg s \<longleftrightarrow> (\<exists>keys c. se_link_keys s = Some keys \<and> link_cipher keys = Inr c
     \<and> ps_cipher (se_stream s) = Some (payload_cipher_of (cfg_lib cfg) c))"

fun phase_ok :: "session_config \<Rightarrow> connect_pc \<Rightarrow> session \<Rightarrow> bool" where
  "phase_ok cfg NotStarted s \<longleftrightarrow> se_state s = NEW \<or> se_state s = CLOSED"
| "phase_ok cfg ReadRevision s \<longleftrightarrow> se_state s = CONNECTING \<or> se_state s = CLOSED"
| "phase_ok cfg StartNotify s \<longleftrightarrow> (se_state s = CONNECTING \<or> se_state s = CLOSED) \<and> firmware_known s"
| "phase_ok cfg KeyExchange s \<longleftrightarrow> (se_state s = CONNECTING \<or> se_state s = CLOSED) \<and> firmware_known s"
| "phase_ok cfg ModelRead s \<longleftrightarrow>
     (se_state s = CONNECTING \<or> se_state s = CLOSED) \<and> firmware_known s \<and> secured cfg s"
| "phase_ok cfg Connected s \<longleftrightarrow>
     (se_state s = CONNECTED \<or> se_state s = CLOSED) \<and> firmware_known s \<and> secured cfg s"
| "phase_ok cfg (Failed e) s \<longleftrightarrow> se_state s = CLOSED"

definition gate_open :: "session \<Rightarrow> command_payload \<Rightarrow> bool" where
  "gate_open s c \<longleftrightarrow>
     (\<exists>fw. se_firmware s = Some fw \<and> feature_available (availability c fw (se_model s)))"

definition caller_ok :: "world \<Rightarrow> caller \<Rightarrow> command_payload \<Rightarrow> bool" where
  "caller_ok w cl c \<longleftrightarrow> (case cl of
     ByConnect \<Rightarrow> w_connect w = KeyExchange \<or> w_connect w = ModelRead
   | ByUser skip \<Rightarrow> w_connect w = Connected \<and> (skip \<or> gate_open (w_session w) c))"

definition future_ok :: "pending \<Rightarrow> bool" where
  "future_ok p \<longleftrightarrow> (\<forall>r. pd_future p = FResult r \<longrightarrow>
     \<not> is_event r \<and> rs_ref r = pd_command_ref p
     \<and> (pd_static_ref p \<longrightarrow> rid_value r = expected_id (pd_command_id p)))"

definition payload_of :: "command \<Rightarrow> command_payload" where
  "payload_of c = mk_command_payload (cm_id c) (cm_payload c)"

definition sent_ok :: "world \<Rightarrow> sent_command \<Rightarrow> bool" where
  "sent_ok w e \<longleftrightarrow>
     (\<exists>bs. command_to_bytes (sn_command e) = Inr bs \<and> frame (sn_stream e) bs = Inr (sn_frames e))
     \<and> (ps_cipher (sn_stream e) = None \<longrightarrow> cm_id (sn_command e) = CMD_EXCHANGE_KEY_PUB_M)
     \<and> (sn_caller e = ByUser False \<longrightarrow> gate_open (w_session w) (payload_of (sn_command e)))
     \<and> (w_connect w \<noteq> Connected \<longrightarrow> sn_caller e = ByConnect)"

definition frames_sent :: "world \<Rightarrow> bytes set" where
  "frames_sent w = (\<Union>e \<in> set (w_sent w). set (sn_frames e))"

definition task_ok :: "world \<Rightarrow> bool" where
  "task_ok w \<longleftrightarrow> (case w_task w of
     None \<Rightarrow> se_pending (w_session w) = None
   | Some t \<Rightarrow> caller_ok w (tk_caller t) (tk_command t)
       \<and> (case tk_pc t of
            Pausing u \<Rightarrow> se_pending (w_session w) = None \<and> u = se_ready_at (w_session w)
          | Writing fs \<Rightarrow> se_pending (w_session w) \<noteq> None \<and> set fs \<subseteq> frames_sent w
          | Awaiting \<Rightarrow> se_pending (w_session w) \<noteq> None)
       \<and> (\<forall>p. se_pending (w_session w) = Some p \<longrightarrow>
            pd_command_id p = cp_id (tk_command t) \<and> future_ok p))"

definition outcome_ok :: "outcome \<Rightarrow> bool" where
  "outcome_ok out \<longleftrightarrow> (\<forall>c r cause. out = (c, Inr r, cause) \<longrightarrow>
     response_is_ok r \<and> rid_value r = expected_id (cp_id c))"

definition session_inv :: "session_config \<Rightarrow> world \<Rightarrow> bool" where
  "session_inv cfg w \<longleftrightarrow>
     phase_ok cfg (w_connect w) (w_session w)
     \<and> task_ok w
     \<and> (\<forall>(c, skip) \<in> set (w_waiting w). caller_ok w (ByUser skip) c)
     \<and> (\<forall>e \<in> set (w_sent w). sent_ok w e)
     \<and> set (w_written w) \<subseteq> frames_sent w
     \<and> (\<forall>out \<in> set (w_results w). outcome_ok out)"

subsection \<open>What callbacks leave alone\<close>

text \<open>
  A callback changes the stream's reassembly, the dropped frame, the listeners, the state only
  to CLOSED, and of the pending answer only a future that was not done.
\<close>

definition pending_step :: "pending option \<Rightarrow> pending option \<Rightarrow> bool" where
  "pending_step a b \<longleftrightarrow> a = b \<or> (\<exists>p f. a = Some p \<and> \<not> future_done (pd_future p)
     \<and> b = Some (p\<lparr>pd_future := f\<rparr>) \<and> future_ok (p\<lparr>pd_future := f\<rparr>))"

definition callback_only :: "session \<Rightarrow> session \<Rightarrow> bool" where
  "callback_only s s' \<longleftrightarrow>
     se_firmware s' = se_firmware s \<and> se_model s' = se_model s \<and> se_refs s' = se_refs s
     \<and> se_link_keys s' = se_link_keys s \<and> se_ready_at s' = se_ready_at s
     \<and> ps_cipher (se_stream s') = ps_cipher (se_stream s)
     \<and> (se_state s' = se_state s \<or> se_state s' = CLOSED)
     \<and> pending_step (se_pending s) (se_pending s')"

lemma callback_only_fields:
  assumes "se_firmware s' = se_firmware s" "se_model s' = se_model s" "se_refs s' = se_refs s"
    "se_link_keys s' = se_link_keys s" "se_ready_at s' = se_ready_at s"
    "ps_cipher (se_stream s') = ps_cipher (se_stream s)" "se_pending s' = se_pending s"
    "se_state s' = se_state s \<or> se_state s' = CLOSED"
  shows "callback_only s s'"
  using assms by (simp add: callback_only_def pending_step_def)

lemma callback_only_fail_pending:
  assumes "callback_only s s'" "se_pending s' = se_pending s"
  shows "callback_only s (fail_pending s' m)"
proof (cases "se_pending s")
  case None
  with assms show ?thesis by (simp add: fail_pending_def)
next
  case (Some p)
  have "future_ok (p\<lparr>pd_future := FException e\<rparr>)" for e by (simp add: future_ok_def)
  then show ?thesis
    using assms Some by (auto simp: callback_only_def fail_pending_def pending_step_def)
qed

lemma match_answer_pending:
  assumes "\<not> is_event r"
  shows "pending_step (se_pending s) (se_pending (match_answer s r))"
proof (cases "se_pending s")
  case None
  then show ?thesis by (simp add: match_answer_def pending_step_def)
next
  case (Some p)
  then show ?thesis using assms
    by (auto simp: match_answer_def pending_step_def future_ok_def)
qed

lemma match_answer_fields [simp]:
  "se_firmware (match_answer s r) = se_firmware s" "se_model (match_answer s r) = se_model s"
  "se_refs (match_answer s r) = se_refs s" "se_link_keys (match_answer s r) = se_link_keys s"
  "se_ready_at (match_answer s r) = se_ready_at s" "se_stream (match_answer s r) = se_stream s"
  "se_state (match_answer s r) = se_state s" "se_listeners (match_answer s r) = se_listeners s"
  by (simp_all add: match_answer_def split: option.splits)

lemma callback_only_notification:
  assumes "on_notification s data = (s', ds)"
  shows "callback_only s s'"
proof -
  obtain st rc where r: "receive (se_stream s) data = (st, rc)" by (cases "receive (se_stream s) data")
  then have st: "ps_cipher st = ps_cipher (se_stream s)"
    by (metis fst_conv receive_cipher(1))
  have "callback_only s (match_answer (s\<lparr>se_stream := st\<rparr>) x)" if "\<not> is_event x" for x
    using match_answer_pending [OF that, of "s\<lparr>se_stream := st\<rparr>"] st
    by (simp add: callback_only_def)
  then show ?thesis
    using assms st
    by (auto simp: on_notification_def r dispatch_event_def session_drop_def Let_def
        intro: callback_only_fields split: sum.splits received.splits option.splits if_splits)
qed

lemma callback_only_disconnect: "callback_only s (on_disconnect s)"
  by (auto simp: on_disconnect_def intro!: callback_only_fail_pending callback_only_fields)

lemma callback_only_close: "callback_only s (session_close s)"
  by (auto simp: session_close_def intro!: callback_only_fail_pending callback_only_fields)

lemma callback_only_listeners:
  "callback_only s (add_event_listener s l)" "callback_only s (remove_event_listener s l)"
  by (auto simp: add_event_listener_def remove_event_listener_def intro!: callback_only_fields)

lemmas callbacks =
  callback_only_notification callback_only_disconnect callback_only_close callback_only_listeners

end
