(* ===== verification/Session_Safety.thy ===== *)
theory Session_Safety
  imports Session
begin

text \<open>
  What holds in every reachable state of a session: nothing but the key exchange goes out in
  the clear, an answer a caller gets is the successful answer to its command, gated commands
  stay here, and commands keep their distance. The invariant is carried through the handlers
  one by one, then through the steps.
\<close>

section \<open>The invariant through callbacks\<close>

lemma phase_ok_callback:
  "phase_ok cfg pc s \<Longrightarrow> callback_only s s' \<Longrightarrow> phase_ok cfg pc s'"
  by (cases pc) (auto simp: callback_only_def firmware_known_def secured_def)

lemma gate_open_cong:
  "se_firmware s' = se_firmware s \<Longrightarrow> se_model s' = se_model s \<Longrightarrow> gate_open s' c = gate_open s c"
  by (simp add: gate_open_def)

lemma caller_ok_cong:
  "w_connect w' = w_connect w \<Longrightarrow> se_firmware (w_session w') = se_firmware (w_session w) \<Longrightarrow>
   se_model (w_session w') = se_model (w_session w) \<Longrightarrow> caller_ok w' cl c = caller_ok w cl c"
  by (simp add: caller_ok_def gate_open_def split: caller.splits)

lemma sent_ok_cong:
  "w_connect w' = w_connect w \<Longrightarrow> se_firmware (w_session w') = se_firmware (w_session w) \<Longrightarrow>
   se_model (w_session w') = se_model (w_session w) \<Longrightarrow> sent_ok w' e = sent_ok w e"
  by (simp add: sent_ok_def gate_open_def)

lemma task_ok_callback:
  assumes "task_ok w" "callback_only (w_session w) s'"
  shows "task_ok (w\<lparr>w_session := s', w_delivered := d\<rparr>)"
proof (cases "w_task w")
  case None
  with assms show ?thesis by (auto simp: task_ok_def callback_only_def pending_step_def)
next
  case (Some t)
  have "caller_ok (w\<lparr>w_session := s', w_delivered := d\<rparr>) (tk_caller t) (tk_command t)
      = caller_ok w (tk_caller t) (tk_command t)"
    using assms(2) by (intro caller_ok_cong) (simp_all add: callback_only_def)
  with assms Some show ?thesis
    by (auto simp: task_ok_def callback_only_def pending_step_def frames_sent_def
        split: task_pc.splits)
qed

lemma callback_inv:
  assumes "session_inv cfg w" "callback_only (w_session w) s'"
  shows "session_inv cfg (w\<lparr>w_session := s', w_delivered := d\<rparr>)"
proof -
  have c: "caller_ok (w\<lparr>w_session := s', w_delivered := d\<rparr>) cl c = caller_ok w cl c" for cl c
    using assms(2) by (intro caller_ok_cong) (simp_all add: callback_only_def)
  have e: "sent_ok (w\<lparr>w_session := s', w_delivered := d\<rparr>) x = sent_ok w x" for x
    using assms(2) by (intro sent_ok_cong) (simp_all add: callback_only_def)
  show ?thesis
    using assms task_ok_callback [OF _ assms(2), of d] phase_ok_callback [OF _ assms(2)]
    unfolding session_inv_def c e by (simp add: frames_sent_def)
qed

lemma callback_inv_session:
  "session_inv cfg w \<Longrightarrow> callback_only (w_session w) s' \<Longrightarrow> session_inv cfg (w\<lparr>w_session := s'\<rparr>)"
  using callback_inv [of cfg w s' "w_delivered w"] by simp

section \<open>The invariant through connect()\<close>

text \<open>Between exchanges no task runs and nothing is pending.\<close>

definition idle :: "world \<Rightarrow> bool" where
  "idle w \<longleftrightarrow> w_task w = None \<and> se_pending (w_session w) = None"

lemma fail_pending_none [simp]: "se_pending s = None \<Longrightarrow> fail_pending s m = s"
  by (simp add: fail_pending_def)

lemma waiting_only_connected:
  assumes "session_inv cfg w" "w_connect w \<noteq> Connected"
  shows "w_waiting w = []"
proof (cases "w_waiting w")
  case (Cons x xs)
  with assms show ?thesis by (cases x) (auto simp: session_inv_def caller_ok_def)
qed simp

lemma sent_by_connect:
  assumes "session_inv cfg w" "w_connect w \<noteq> Connected" "e \<in> set (w_sent w)"
  shows "sn_caller e = ByConnect"
  using assms by (auto simp: session_inv_def sent_ok_def)

text \<open>
  While connecting nobody waits and only connect() has sent, so a change of phase or of the
  session's keys, firmware or model leaves the rest of the invariant standing.
\<close>

lemma phase_change_inv:
  assumes "session_inv cfg w" "w_connect w \<noteq> Connected" "idle w"
    and "phase_ok cfg pc s" "se_pending s = None"
  shows "session_inv cfg (w\<lparr>w_session := s, w_connect := pc\<rparr>)"
proof -
  have "sent_ok (w\<lparr>w_session := s, w_connect := pc\<rparr>) e" if "e \<in> set (w_sent w)" for e
    using assms(1) that sent_by_connect [OF assms(1,2) that] by (auto simp: session_inv_def sent_ok_def)
  then show ?thesis
    using assms waiting_only_connected [OF assms(1,2)]
    by (auto simp: session_inv_def idle_def task_ok_def frames_sent_def)
qed

lemma connect_fail_inv:
  "session_inv cfg w \<Longrightarrow> w_connect w \<noteq> Connected \<Longrightarrow> idle w \<Longrightarrow> session_inv cfg (connect_fail w e)"
  unfolding connect_fail_def
  by (rule phase_change_inv) (simp_all add: session_close_def idle_def)

lemma connect_key_Inr:
  assumes "connect_key cfg s r = Inr s'"
  shows "secured cfg s' \<and> se_state s' = se_state s \<and> se_firmware s' = se_firmware s
    \<and> se_refs s' = se_refs s \<and> se_pending s' = se_pending s \<and> se_ready_at s' = se_ready_at s"
  using assms by (auto simp: connect_key_def bindE_eq_Inr secured_def)

lemma connect_model_Inr:
  "connect_model s r = Inr s' \<Longrightarrow> \<exists>m. s' = s\<lparr>se_model := Some m\<rparr>"
  by (auto simp: connect_model_def bindE_eq_Inr)

lemma connect_continue_inv:
  assumes "session_inv cfg w" "idle w" "w_connect w = KeyExchange \<or> w_connect w = ModelRead"
  shows "session_inv cfg (connect_continue cfg w result)"
proof (cases "w_connect w = KeyExchange")
  case True
  have fw: "firmware_known (w_session w)"
    using assms(1) True by (simp add: session_inv_def)
  show ?thesis
  proof (cases "bindE result (connect_key cfg (w_session w))")
    case (Inl e)
    then show ?thesis
      using connect_fail_inv [OF assms(1) _ assms(2)] True by (simp add: connect_continue_def)
  next
    case (Inr s)
    then obtain r where "connect_key cfg (w_session w) r = Inr s" by (auto simp: bindE_eq_Inr)
    note k = connect_key_Inr [OF this]
    have "firmware_known s" using fw k by (simp add: firmware_known_def)
    moreover have "secured cfg (s\<lparr>se_state := CONNECTED\<rparr>)" "firmware_known (s\<lparr>se_state := CONNECTED\<rparr>)"
      using k fw by (simp_all add: secured_def firmware_known_def)
    moreover have "se_state s = CONNECTING \<or> se_state s = CLOSED"
      using assms(1) True k by (simp add: session_inv_def)
    ultimately show ?thesis
      using Inr True k assms(2) phase_change_inv [OF assms(1) _ assms(2), of ModelRead s]
        phase_change_inv [OF assms(1) _ assms(2), of Connected "s\<lparr>se_state := CONNECTED\<rparr>"]
      by (auto simp: connect_continue_def connect_done_def idle_def split: option.splits)
  qed
next
  case False
  with assms(3) have m: "w_connect w = ModelRead" by simp
  then have fw: "firmware_known (w_session w)" "secured cfg (w_session w)"
    using assms(1) by (simp_all add: session_inv_def)
  show ?thesis
  proof (cases "bindE result (connect_model (w_session w))")
    case (Inl e)
    then show ?thesis
      using connect_fail_inv [OF assms(1) _ assms(2)] m by (simp add: connect_continue_def)
  next
    case (Inr s)
    then obtain d where s: "s = (w_session w)\<lparr>se_model := Some d\<rparr>"
      by (auto simp: bindE_eq_Inr dest: connect_model_Inr)
    then have "phase_ok cfg Connected (s\<lparr>se_state := CONNECTED\<rparr>)"
      using fw by (simp add: secured_def firmware_known_def)
    then show ?thesis
      using Inr m s assms(2) phase_change_inv [OF assms(1) _ assms(2), of Connected "s\<lparr>se_state := CONNECTED\<rparr>"]
      by (simp add: connect_continue_def connect_done_def idle_def)
  qed
qed

section \<open>The invariant through the exchange\<close>

lemma results_inv:
  assumes "session_inv cfg w" "outcome_ok out"
  shows "session_inv cfg (w\<lparr>w_results := w_results w @ [out]\<rparr>)"
proof -
  have c: "caller_ok (w\<lparr>w_results := rs\<rparr>) cl c = caller_ok w cl c" for rs cl c
    by (rule caller_ok_cong) simp_all
  have e: "sent_ok (w\<lparr>w_results := rs\<rparr>) x = sent_ok w x" for rs x
    by (rule sent_ok_cong) simp_all
  have t: "task_ok (w\<lparr>w_results := rs\<rparr>) = task_ok w" for rs
    by (simp add: task_ok_def c frames_sent_def cong: option.case_cong task_pc.case_cong)
  show ?thesis
    using assms unfolding session_inv_def c e t by (simp add: frames_sent_def)
qed

lemma exchange_return_inv:
  assumes "session_inv cfg (w\<lparr>w_task := None\<rparr>)" "se_pending (w_session w) = None"
    and "caller_ok w cl c" "outcome_ok (c, result, cause)"
  shows "session_inv cfg (exchange_return cfg w cl c result cause)"
proof (cases cl)
  case ByConnect
  then show ?thesis
    using connect_continue_inv [OF assms(1), of result] assms(2,3)
    by (simp add: exchange_return_def idle_def caller_ok_def)
next
  case (ByUser skip)
  with results_inv [OF assms(1) assms(4)] show ?thesis by (simp add: exchange_return_def)
qed

lemma outcome_ok_Inl [simp]: "outcome_ok (c, Inl e, cause)"
  by (simp add: outcome_ok_def)

lemma check_answer_Inr:
  "check_answer c r = Inr r' \<longleftrightarrow> r' = r \<and> response_is_ok r \<and> rid_value r = expected_id (cp_id c)"
  by (auto simp: check_answer_def raise_for_status_cases bindE_eq_Inr split: if_splits)

lemma outcome_ok_check [simp]: "outcome_ok (c, check_answer c r, cause)"
  by (auto simp: outcome_ok_def check_answer_Inr)

lemma exchange_frame_fields:
  assumes "exchange_frame s c = (s', result)"
  shows "se_state s' = se_state s \<and> se_firmware s' = se_firmware s \<and> se_model s' = se_model s
    \<and> se_link_keys s' = se_link_keys s \<and> se_stream s' = se_stream s \<and> se_ready_at s' = se_ready_at s
    \<and> (firmware_known s \<longrightarrow> firmware_known s')"
proof -
  have "firmware_known (s\<lparr>se_refs := Some (snd (next_ref refs))\<rparr>)"
    if "firmware_known s" "se_refs s = Some refs" for refs
    using that next_ref_ok(1) [of refs] by (auto simp: firmware_known_def)
  moreover have "firmware_known (s\<lparr>se_refs := r, se_pending := p, se_dropped := d\<rparr>)
      = firmware_known (s\<lparr>se_refs := r\<rparr>)" for r p d
    by (simp add: firmware_known_def)
  ultimately show ?thesis
    using assms by (auto simp: exchange_frame_def Let_def split: if_splits option.splits
        prod.splits sum.splits)
qed

lemma exchange_frame_Inl: "exchange_frame s c = (s', Inl e) \<Longrightarrow> se_pending s' = se_pending s"
  by (auto simp: exchange_frame_def Let_def split: if_splits option.splits prod.splits sum.splits)

lemma exchange_frame_Inr:
  assumes "exchange_frame s c = (s', Inr (out, frames))"
  shows "(\<exists>bs. command_to_bytes out = Inr bs \<and> frame (se_stream s) bs = Inr frames)
    \<and> (ps_cipher (se_stream s) = None \<longrightarrow> cp_id c = CMD_EXCHANGE_KEY_PUB_M)
    \<and> payload_of out = c
    \<and> (\<exists>p. se_pending s' = Some p \<and> pd_command_id p = cp_id c \<and> pd_command_ref p = cm_ref out
          \<and> pd_future p = FWaiting)"
  using assms
  by (auto simp: exchange_frame_def Let_def bindE_eq_Inr payload_of_def with_ref_def
      mk_command_payload_def split: if_splits option.splits prod.splits sum.splits)

text \<open>Starting a task and sending a command, over an idle world.\<close>

lemma session_fields_inv:
  assumes "session_inv cfg w" "idle w" "se_pending s = None"
    and "se_state s = se_state (w_session w)" "se_firmware s = se_firmware (w_session w)"
    "se_model s = se_model (w_session w)" "se_link_keys s = se_link_keys (w_session w)"
    "se_stream s = se_stream (w_session w)" "firmware_known (w_session w) \<longrightarrow> firmware_known s"
  shows "session_inv cfg (w\<lparr>w_session := s\<rparr>)"
proof -
  have c: "caller_ok (w\<lparr>w_session := s\<rparr>) cl c = caller_ok w cl c" for cl c
    using assms by (intro caller_ok_cong) simp_all
  have e: "sent_ok (w\<lparr>w_session := s\<rparr>) x = sent_ok w x" for x
    using assms by (intro sent_ok_cong) simp_all
  have "phase_ok cfg (w_connect w) s"
    using assms by (cases "w_connect w") (auto simp: session_inv_def secured_def)
  then show ?thesis
    using assms unfolding session_inv_def c e by (simp add: task_ok_def idle_def frames_sent_def)
qed

lemma start_task_inv:
  assumes "session_inv cfg w" "idle w" "caller_ok w (tk_caller t) (tk_command t)"
    and "tk_pc t = Pausing (se_ready_at (w_session w))"
  shows "session_inv cfg (w\<lparr>w_task := Some t\<rparr>)"
proof -
  have c: "caller_ok (w\<lparr>w_task := Some t\<rparr>) cl c = caller_ok w cl c" for cl c
    by (rule caller_ok_cong) simp_all
  have e: "sent_ok (w\<lparr>w_task := Some t\<rparr>) x = sent_ok w x" for x
    by (rule sent_ok_cong) simp_all
  show ?thesis
    using assms unfolding session_inv_def task_ok_def c e by (simp add: idle_def frames_sent_def)
qed

lemma sent_task_inv:
  assumes "session_inv cfg w" "w_task w = None" "caller_ok w cl c"
    and "sent_ok w e" "sn_frames e = fs"
    and "se_pending s = Some p" "pd_command_id p = cp_id c" "future_ok p"
    and "w_session w = s\<lparr>se_pending := None\<rparr>"
  shows "session_inv cfg (w\<lparr>w_session := s, w_task := Some \<lparr>tk_caller = cl, tk_command = c,
      tk_pc = Writing fs, tk_deadline = d\<rparr>, w_sent := w_sent w @ [e]\<rparr>)"
    (is "session_inv cfg ?w")
proof -
  have c: "caller_ok ?w x y = caller_ok w x y" for x y
    using assms by (intro caller_ok_cong) simp_all
  have e: "sent_ok ?w x = sent_ok w x" for x
    using assms by (intro sent_ok_cong) simp_all
  have "phase_ok cfg (w_connect w) s"
    using assms by (cases "w_connect w") (auto simp: session_inv_def secured_def firmware_known_def)
  moreover have "frames_sent w \<subseteq> frames_sent ?w" "set fs \<subseteq> frames_sent ?w"
    using assms(5) by (auto simp: frames_sent_def)
  ultimately show ?thesis
    using assms unfolding session_inv_def task_ok_def c e by auto
qed

lemma exchange_send_inv:
  assumes "session_inv cfg (w\<lparr>w_task := None\<rparr>)" "se_pending (w_session w) = None" "caller_ok w cl c"
  shows "session_inv cfg (exchange_send cfg w cl c)"
proof -
  obtain s result where f: "exchange_frame (w_session w) c = (s, result)"
    by (cases "exchange_frame (w_session w) c")
  note fields = exchange_frame_fields [OF f]
  let ?w = "w\<lparr>w_task := None, w_session := s\<lparr>se_pending := None\<rparr>\<rparr>"
  have fk: "firmware_known s \<Longrightarrow> firmware_known (s\<lparr>se_pending := None\<rparr>)"
    by (simp add: firmware_known_def)
  have inv: "session_inv cfg ?w"
    using session_fields_inv [OF assms(1), of "s\<lparr>se_pending := None\<rparr>"] assms(2) fields fk
    by (simp add: idle_def)
  have "caller_ok ?w cl c = caller_ok w cl c" "caller_ok (w\<lparr>w_session := s\<rparr>) cl c = caller_ok w cl c"
    by (rule caller_ok_cong; use fields in simp)+
  then have cl: "caller_ok ?w cl c" "caller_ok (w\<lparr>w_session := s\<rparr>) cl c"
    using assms(3) by blast+
  show ?thesis
  proof (cases result)
    case (Inl e)
    then have "se_pending s = None" using f assms(2) exchange_frame_Inl by metis
    then have "s\<lparr>se_pending := None\<rparr> = s" by (cases s) simp
    then have "?w = w\<lparr>w_session := s, w_task := None\<rparr>" by (cases w) simp
    with inv have "session_inv cfg ((w\<lparr>w_session := s\<rparr>)\<lparr>w_task := None\<rparr>)" by simp
    from exchange_return_inv [OF this _ cl(2)] \<open>se_pending s = None\<close> show ?thesis
      by (simp add: exchange_send_def f Inl)
  next
    case (Inr r)
    obtain out frames where r: "r = (out, frames)" by (cases r)
    from exchange_frame_Inr [of "w_session w" c s out frames] f Inr r obtain p bs
      where fr: "command_to_bytes out = Inr bs" "frame (se_stream (w_session w)) bs = Inr frames"
        "ps_cipher (se_stream (w_session w)) = None \<longrightarrow> cp_id c = CMD_EXCHANGE_KEY_PUB_M"
        "payload_of out = c" "se_pending s = Some p" "pd_command_id p = cp_id c"
        "pd_future p = FWaiting" by auto
    let ?e = "\<lparr>sn_command = out, sn_stream = se_stream s, sn_frames = frames, sn_time = w_now w,
        sn_caller = cl\<rparr>"
    have "cm_id out = cp_id c" using fr(4) by (auto simp: payload_of_def)
    moreover have "future_ok p" using fr(7) by (simp add: future_ok_def)
    moreover have "sent_ok ?w ?e"
      using fr fields assms(3) calculation(1)
      by (auto simp: sent_ok_def caller_ok_def gate_open_def split: caller.splits)
    ultimately show ?thesis
      using sent_task_inv [OF inv _ cl(1), of ?e frames s p] fr
      by (simp add: exchange_send_def f Inr r)
  qed
qed

lemma exchange_start_inv:
  assumes "session_inv cfg w" "idle w" "caller_ok w cl c"
  shows "session_inv cfg (exchange_start cfg w cl c)"
proof -
  have w: "w\<lparr>w_task := None\<rparr> = w" using assms(2) by (simp add: idle_def)
  show ?thesis
    using exchange_return_inv [of cfg w cl c "Inl (not_connected (w_session w))" None]
      exchange_send_inv [of cfg w cl c] assms w start_task_inv [OF assms(1,2)]
    by (simp add: exchange_start_def idle_def)
qed

section \<open>The invariant through the steps\<close>

lemma idle_outside_exchange:
  assumes "session_inv cfg w"
    and "w_connect w \<noteq> KeyExchange" "w_connect w \<noteq> ModelRead" "w_connect w \<noteq> Connected"
  shows "idle w"
  using assms by (auto simp: session_inv_def task_ok_def caller_ok_def idle_def
      split: option.splits caller.splits)

lemma no_task_idle: "session_inv cfg w \<Longrightarrow> w_task w = None \<Longrightarrow> idle w"
  by (simp add: session_inv_def task_ok_def idle_def)

lemma task_caller:
  "session_inv cfg w \<Longrightarrow> w_task w = Some t \<Longrightarrow> caller_ok w (tk_caller t) (tk_command t)"
  by (simp add: session_inv_def task_ok_def)

lemma end_task_inv:
  assumes "session_inv cfg w" "se_pending s = None"
    and "se_state s = se_state (w_session w)" "se_firmware s = se_firmware (w_session w)"
    "se_model s = se_model (w_session w)" "se_link_keys s = se_link_keys (w_session w)"
    "se_stream s = se_stream (w_session w)" "se_refs s = se_refs (w_session w)"
  shows "session_inv cfg (w\<lparr>w_session := s, w_task := None\<rparr>)"
proof -
  let ?w = "w\<lparr>w_session := s, w_task := None\<rparr>"
  have c: "caller_ok ?w cl c = caller_ok w cl c" for cl c
    using assms by (intro caller_ok_cong) simp_all
  have e: "sent_ok ?w x = sent_ok w x" for x
    using assms by (intro sent_ok_cong) simp_all
  have "phase_ok cfg (w_connect w) s"
    using assms by (cases "w_connect w") (auto simp: session_inv_def secured_def firmware_known_def)
  then show ?thesis
    using assms unfolding session_inv_def c e by (simp add: task_ok_def frames_sent_def)
qed

text \<open>A task that ends, for whatever reason, and what its caller gets.\<close>

lemma end_exchange_inv:
  assumes "session_inv cfg w" "w_task w = Some t" "se_pending s = None"
    and "se_state s = se_state (w_session w)" "se_firmware s = se_firmware (w_session w)"
    "se_model s = se_model (w_session w)" "se_link_keys s = se_link_keys (w_session w)"
    "se_stream s = se_stream (w_session w)" "se_refs s = se_refs (w_session w)"
    and "outcome_ok (tk_command t, result, cause)"
  shows "session_inv cfg
    (exchange_return cfg (w\<lparr>w_session := s\<rparr>) (tk_caller t) (tk_command t) result cause)"
proof (rule exchange_return_inv)
  show "session_inv cfg ((w\<lparr>w_session := s\<rparr>)\<lparr>w_task := None\<rparr>)"
    using end_task_inv [of cfg w s] assms by simp
  have "caller_ok (w\<lparr>w_session := s\<rparr>) (tk_caller t) (tk_command t)
      = caller_ok w (tk_caller t) (tk_command t)"
    using assms by (intro caller_ok_cong) simp_all
  then show "caller_ok (w\<lparr>w_session := s\<rparr>) (tk_caller t) (tk_command t)"
    using task_caller [OF assms(1,2)] by simp
qed (use assms in simp_all)

lemma task_pc_inv:
  assumes "session_inv cfg w" "w_task w = Some t"
    and "se_pending (w_session w) \<noteq> None"
    and "pc = Awaiting \<or> (\<exists>fs. pc = Writing fs \<and> set fs \<subseteq> frames_sent w)" "set ws \<subseteq> frames_sent w"
  shows "session_inv cfg (w\<lparr>w_task := Some (t\<lparr>tk_pc := pc\<rparr>), w_written := w_written w @ ws\<rparr>)"
proof -
  let ?w = "w\<lparr>w_task := Some (t\<lparr>tk_pc := pc\<rparr>), w_written := w_written w @ ws\<rparr>"
  have c: "caller_ok ?w cl c = caller_ok w cl c" for cl c by (rule caller_ok_cong) simp_all
  have e: "sent_ok ?w x = sent_ok w x" for x by (rule sent_ok_cong) simp_all
  have f: "frames_sent ?w = frames_sent w" by (simp add: frames_sent_def)
  show ?thesis
    using assms unfolding session_inv_def task_ok_def c e f by auto
qed

lemma waiting_inv:
  assumes "session_inv cfg w" "\<forall>(c, skip) \<in> set ws. caller_ok w (ByUser skip) c"
  shows "session_inv cfg (w\<lparr>w_waiting := ws\<rparr>)"
proof -
  have c: "caller_ok (w\<lparr>w_waiting := ws\<rparr>) cl c = caller_ok w cl c" for cl c
    by (rule caller_ok_cong) simp_all
  have e: "sent_ok (w\<lparr>w_waiting := ws\<rparr>) x = sent_ok w x" for x by (rule sent_ok_cong) simp_all
  have f: "frames_sent (w\<lparr>w_waiting := ws\<rparr>) = frames_sent w" by (simp add: frames_sent_def)
  show ?thesis
    using assms unfolding session_inv_def task_ok_def c e f by (simp cong: option.case_cong task_pc.case_cong)
qed

lemma now_inv: "session_inv cfg w \<Longrightarrow> session_inv cfg (w\<lparr>w_now := n\<rparr>)"
proof -
  assume inv: "session_inv cfg w"
  have c: "caller_ok (w\<lparr>w_now := n\<rparr>) cl c = caller_ok w cl c" for cl c by (rule caller_ok_cong) simp_all
  have e: "sent_ok (w\<lparr>w_now := n\<rparr>) x = sent_ok w x" for x by (rule sent_ok_cong) simp_all
  have f: "frames_sent (w\<lparr>w_now := n\<rparr>) = frames_sent w" by (simp add: frames_sent_def)
  show ?thesis
    using inv unfolding session_inv_def task_ok_def c e f by (simp cong: option.case_cong task_pc.case_cong)
qed

lemma send_gate_Inr:
  assumes "session_inv cfg w" "send_gate (w_session w) c skip = Inr u"
  shows "caller_ok w (ByUser skip) c"
proof -
  have "se_state (w_session w) = CONNECTED"
    using assms(2) by (auto simp: send_gate_def session_availability_def split: if_splits)
  moreover from this assms(1) have "w_connect w = Connected"
    by (cases "w_connect w") (auto simp: session_inv_def)
  ultimately show ?thesis
    using assms by (auto simp: caller_ok_def send_gate_def session_availability_def gate_open_def
        session_firmware_def bindE_eq_Inr split: option.splits if_splits)
qed

lemma connect_revision_Inr:
  assumes "connect_revision s raw = Inr s'"
  shows "firmware_known s' \<and> se_state s' = se_state s \<and> se_pending s' = se_pending s"
  using assms ref_counter_init_ok
  by (auto simp: connect_revision_def bindE_eq_Inr firmware_known_def ref_counter_for_firmware_def
      ref_counter_init_def)

lemma session_inv_start: "session_start cfg w \<Longrightarrow> session_inv cfg w"
  by (auto simp: session_start_def session_init_def bindE_eq_Inr world_init_def session_inv_def
      task_ok_def frames_sent_def)

lemma session_inv_step:
  assumes "session_inv cfg w" "session_step cfg w w'"
  shows "session_inv cfg w'"
  using assms(2,1)
proof (induction rule: session_step.induct)
  case (tick now w)
  then show ?case by (simp add: now_inv)
next
  case (connect_call w s)
  have "se_pending s = None" "phase_ok cfg ReadRevision s"
    using connect_call idle_outside_exchange [OF connect_call(3)]
    by (auto simp: connect_begin_def idle_def split: if_splits)
  with phase_change_inv [OF connect_call(3) _ idle_outside_exchange [OF connect_call(3)]] connect_call(1)
  show ?case by simp
next
  case (revision_read w raw s)
  have i: "idle w" using idle_outside_exchange [OF revision_read(3)] revision_read(1) by simp
  have "phase_ok cfg StartNotify s" "se_pending s = None"
    using revision_read i connect_revision_Inr [OF revision_read(2)]
    by (auto simp: session_inv_def idle_def)
  with phase_change_inv [OF revision_read(3) _ i] revision_read(1) show ?case by simp
next
  case (revision_bad w raw e)
  then show ?case using idle_outside_exchange [OF revision_bad(3)] by (simp add: connect_fail_inv)
next
  case (connect_raises w e)
  then show ?case using idle_outside_exchange [OF connect_raises(2)] by (auto intro: connect_fail_inv)
next
  case (notify_started w c)
  have i: "idle w" using idle_outside_exchange [OF notify_started(3)] notify_started(1) by simp
  have "phase_ok cfg KeyExchange (w_session w)"
    using notify_started(1,3) by (simp add: session_inv_def)
  with phase_change_inv [OF notify_started(3) _ i, of KeyExchange "w_session w"] notify_started(1) i
  have "session_inv cfg (w\<lparr>w_connect := KeyExchange\<rparr>)" by (simp add: idle_def)
  then show ?case using i by (intro exchange_start_inv) (simp_all add: idle_def caller_ok_def)
next
  case (notify_started_bad w e)
  then show ?case using idle_outside_exchange [OF notify_started_bad(3)] by (simp add: connect_fail_inv)
next
  case (model_read w c)
  then show ?case using no_task_idle [OF model_read(4)]
    by (intro exchange_start_inv) (simp_all add: caller_ok_def)
next
  case (send_call w c skip u)
  then show ?case using send_gate_Inr [OF send_call(2,1)]
    by (intro waiting_inv) (auto simp: session_inv_def)
next
  case (send_refused w c skip e)
  then show ?case by (intro results_inv) simp_all
next
  case (lock_acquired w c skip rest)
  let ?w = "w\<lparr>w_waiting := rest\<rparr>"
  have "session_inv cfg ?w"
    using lock_acquired by (intro waiting_inv) (auto simp: session_inv_def)
  moreover have "caller_ok ?w (ByUser skip) c = caller_ok w (ByUser skip) c"
    by (rule caller_ok_cong) simp_all
  moreover have "caller_ok w (ByUser skip) c"
    using lock_acquired(2,3) by (auto simp: session_inv_def)
  ultimately show ?case
    using no_task_idle [OF lock_acquired(3,1)] by (intro exchange_start_inv) (simp_all add: idle_def)
next
  case (waiter_cancelled w xs c skip ys)
  have "session_inv cfg (w\<lparr>w_waiting := xs @ ys\<rparr>)"
    using waiter_cancelled by (intro waiting_inv) (auto simp: session_inv_def)
  from results_inv [OF this] show ?case by simp
next
  case (pause_over w t until)
  have p: "se_pending (w_session w) = None"
    using pause_over by (simp add: session_inv_def task_ok_def)
  have i: "session_inv cfg (w\<lparr>w_task := None\<rparr>)"
    using end_task_inv [OF pause_over(4) p] by simp
  show ?case
    using exchange_return_inv [OF i p task_caller [OF pause_over(4,1)] outcome_ok_Inl]
      exchange_send_inv [OF i p task_caller [OF pause_over(4,1)]]
    by (simp add: exchange_after_pause_def)
next
  case (packet_written w t f fs)
  have "se_pending (w_session w) \<noteq> None" "set (f # fs) \<subseteq> frames_sent w"
    using packet_written by (simp_all add: session_inv_def task_ok_def)
  with task_pc_inv [OF packet_written(3,1), of "Writing fs" "[f]"] show ?case by simp
next
  case (all_written w t)
  have "se_pending (w_session w) \<noteq> None" using all_written by (simp add: session_inv_def task_ok_def)
  with task_pc_inv [OF all_written(3,1), of Awaiting "[]"] show ?case by simp
next
  case (write_raises w t f fs e)
  then show ?case by (intro end_exchange_inv) (simp_all add: exchange_end_def)
next
  case (answer_taken w t r)
  then show ?case by (intro end_exchange_inv) (simp_all add: exchange_end_def exchange_answered_def)
next
  case (answer_failed w t e)
  then show ?case by (intro end_exchange_inv) (simp_all add: exchange_end_def)
next
  case (timed_out w t p s e cause)
  then show ?case
    by (intro end_exchange_inv) (auto simp: exchange_end_def exchange_timed_out_def split: if_splits)
next
  case (cancelled w t)
  then show ?case by (intro end_exchange_inv) (simp_all add: exchange_end_def)
next
  case (notification w data s ds)
  then show ?case by (intro callback_inv callbacks)
next
  case (disconnected w)
  then show ?case by (intro callback_inv_session callbacks)
next
  case (close_call w)
  then show ?case by (intro callback_inv_session callbacks)
next
  case (listener_added w l)
  then show ?case by (intro callback_inv_session callbacks)
next
  case (listener_removed w l)
  then show ?case by (intro callback_inv_session callbacks)
qed

interpretation session_machine: state_machine "session_start cfg" "session_step cfg" "session_inv cfg"
  by unfold_locales (auto intro: session_inv_start session_inv_step)

end
