(* ===== verification/Session_Runs.thy ===== *)
theory Session_Runs
  imports Session_Safety
begin

text \<open>
  Runs of a session: one concrete connection (firmware 4.6.0, the key exchange in a single
  packet each way), how commands get out on a connected session, and the pace at which they
  do.
\<close>

section \<open>One connection\<close>

definition example_cfg :: session_config where
  "example_cfg = \<lparr>cfg_lib = small_lib, cfg_response_timeout = DEFAULT_RESPONSE_TIMEOUT_MS,
     cfg_command_delay = COMMAND_RESPONSE_DELAY_MS, cfg_late_answer_grace = LATE_ANSWER_GRACE_MS,
     cfg_mtu = 200,
     cfg_key_pair = \<lparr>kp_private_key = 1 # replicate 31 0, kp_public_key = 1 # replicate 63 0\<rparr>\<rparr>"

definition example_stream200 :: packet_stream where
  "example_stream200 = \<lparr>ps_mtu = 200, ps_cipher = None, ps_blob = None, ps_last_sequence = 0\<rparr>"

definition example_session :: session where
  "example_session = \<lparr>se_state = NEW, se_stream = example_stream200, se_refs = None,
     se_firmware = None, se_model = None, se_link_keys = None, se_pending = None, se_dropped = None,
     se_listeners = [], se_ready_at = 0\<rparr>"

lemma example_start: "session_start example_cfg (world_init example_session 0)"
  by (simp add: session_start_def session_init_def packet_stream_init_def packet_room_def
      example_cfg_def example_session_def example_stream200_def exI [of _ 0])

definition key_command :: command_payload where
  "key_command = mk_command_payload CMD_EXCHANGE_KEY_PUB_M (1 # replicate 63 0)"

definition key_bytes :: bytes where
  "key_bytes = [1, 64, 16, 0] @ 1 # replicate 63 0"

lemma key_command_bytes: "command_to_bytes (with_ref key_command 16) = Inr key_bytes"
  by (simp add: key_command_def key_bytes_def with_ref_def command_to_bytes_ok command_ok_def)

lemma key_frame: "\<exists>f. frame example_stream200 key_bytes = Inr [f]"
  by (simp add: frame_def stream_encrypt_def example_stream200_def packetize_def packet_room_def
      key_bytes_def packet_to_bytes_def codec_simps)

lemma revision_460: "parse_software_revision [52, 46, 54, 46, 48] = Inr (4, 6, 0)"
  by (simp add: parse_software_revision_def revision_rstrip_def revision_blank_def decimal_part_def
      decimal_value_def)

definition connecting_session :: session where
  "connecting_session = example_session\<lparr>se_state := CONNECTING, se_firmware := Some (4, 6, 0),
     se_refs := Some (ref_counter_init True)\<rparr>"

definition waiting_session :: "answer_future \<Rightarrow> session" where
  "waiting_session f = connecting_session\<lparr>se_pending := Some
     \<lparr>pd_command_id = CMD_EXCHANGE_KEY_PUB_M, pd_command_ref = 16, pd_static_ref = True,
      pd_future = f\<rparr>\<rparr>"

lemma frame_key_command:
  assumes "frame example_stream200 key_bytes = Inr fs"
  shows "exchange_frame connecting_session key_command
    = (waiting_session FWaiting, Inr (with_ref key_command 16, fs))"
  using assms
  by (simp add: exchange_frame_def connecting_session_def example_session_def key_command_bytes
      next_ref_def ref_counter_init_def waiting_session_def)
     (simp add: key_command_def)

text \<open>The connection up to the point where the key exchange waits for its answer.\<close>

lemma example_waiting:
  "\<exists>w t. reach (session_start example_cfg) (session_step example_cfg) w
     \<and> w_connect w = KeyExchange \<and> w_session w = waiting_session FWaiting \<and> w_now w = 0
     \<and> w_waiting w = [] \<and> w_results w = []
     \<and> w_task w = Some t \<and> tk_pc t = Awaiting \<and> tk_command t = key_command
     \<and> tk_caller t = ByConnect \<and> (\<exists>e f. w_sent w = [e] \<and> sn_frames e = [f] \<and> w_written w = [f])"
proof -
  let ?R = "reach (session_start example_cfg) (session_step example_cfg)"
  let ?w0 = "world_init example_session 0"
  let ?s1 = "example_session\<lparr>se_state := CONNECTING\<rparr>"
  let ?w1 = "?w0\<lparr>w_session := ?s1, w_connect := ReadRevision\<rparr>"
  let ?w2 = "?w1\<lparr>w_session := connecting_session, w_connect := StartNotify\<rparr>"
  let ?w3 = "exchange_start example_cfg (?w2\<lparr>w_connect := KeyExchange\<rparr>) ByConnect key_command"
  obtain f where f: "frame example_stream200 key_bytes = Inr [f]" using key_frame by blast
  have "?R ?w0" by (rule reach_start) (rule example_start)
  moreover have "session_step example_cfg ?w0 ?w1"
    by (rule connect_call) (simp_all add: world_init_def connect_begin_def example_session_def)
  moreover have "session_step example_cfg ?w1 ?w2"
    by (rule revision_read [where raw = "[52, 46, 54, 46, 48]"])
       (simp_all add: connect_revision_def revision_460 connecting_session_def
         ref_counter_for_firmware_def)
  moreover have "session_step example_cfg ?w2
      ?w3"
    by (rule notify_started)
       (simp_all add: exchange_key_pub_m_def check_length_def key_command_def example_cfg_def)
  ultimately have r3: "?R ?w3" by (blast intro: reach_step)
  have w3: "w_task ?w3 = Some \<lparr>tk_caller = ByConnect, tk_command = key_command, tk_pc = Writing [f],
        tk_deadline = 20000\<rparr>" "w_session ?w3 = waiting_session FWaiting" "w_connect ?w3 = KeyExchange"
      "w_now ?w3 = 0" "w_waiting ?w3 = []" "w_results ?w3 = []" "w_written ?w3 = []"
      "\<exists>e. w_sent ?w3 = [e] \<and> sn_frames e = [f]"
    by (simp_all add: exchange_start_def live_def exchange_send_def frame_key_command [OF f]
        world_init_def) (simp_all add: connecting_session_def example_session_def
        exchange_send_def example_cfg_def)
  let ?t = "\<lparr>tk_caller = ByConnect, tk_command = key_command, tk_pc = Writing [], tk_deadline = 20000\<rparr>"
  let ?w4 = "?w3\<lparr>w_task := Some ?t, w_written := [f]\<rparr>"
  have "session_step example_cfg ?w3 ?w4"
    using packet_written [OF w3(1), of f "[]"] w3(7) by simp
  moreover have "session_step example_cfg ?w4 (?w4\<lparr>w_task := Some (?t\<lparr>tk_pc := Awaiting\<rparr>)\<rparr>)"
    by (rule all_written) simp_all
  ultimately have "?R (?w4\<lparr>w_task := Some (?t\<lparr>tk_pc := Awaiting\<rparr>)\<rparr>)"
    using r3 by (blast intro: reach_step)
  then show ?thesis
    using w3 by (intro exI [of _ "?w4\<lparr>w_task := Some (?t\<lparr>tk_pc := Awaiting\<rparr>)\<rparr>"]
        exI [of _ "?t\<lparr>tk_pc := Awaiting\<rparr>"]) simp
qed

definition key_response :: response where
  "key_response = \<lparr>rs_id = Known RSP_EXCHANGE_KEY_PUB_L, rs_ref = 16,
     rs_status = Known STATUS_SUCCESS, rs_payload = 5 # replicate 63 0\<rparr>"

lemma key_response_bytes: "response_from_bytes ([1, 64, 16, 0] @ 5 # replicate 63 0) = Inr key_response"
proof -
  have k: "known response_of 1 = Known RSP_EXCHANGE_KEY_PUB_L" "known status_of 0 = Known STATUS_SUCCESS"
    using response_enum.known_val [of RSP_EXCHANGE_KEY_PUB_L] status_enum.known_val [of STATUS_SUCCESS]
    by simp_all
  show ?thesis unfolding response_from_bytes_parts by (simp add: key_response_def k)
qed

lemma key_answer_received:
  "\<exists>bs. on_notification (waiting_session FWaiting) bs = (waiting_session (FResult key_response), [])"
proof -
  let ?p = "mk_packet PT_SINGLE 1 ([1, 64, 16, 0] @ 5 # replicate 63 0)"
  have ok: "packet_ok ?p" by (simp add: packet_ok_def)
  obtain bs where bs: "packet_to_bytes ?p = Inr bs" using packet_frame.to_b_ok [OF ok] by blast
  have r: "receive example_stream200 bs
      = (example_stream200, Inr (RPayload ([1, 64, 16, 0] @ 5 # replicate 63 0) False))"
    using receive_frame [OF ok bs, of example_stream200]
    by (simp add: receive_packet_def receive_single_def expect_no_blob_def deliver_def
        stream_decrypt_def example_stream200_def)
  have st: "se_stream (waiting_session FWaiting) = example_stream200"
    by (simp add: waiting_session_def connecting_session_def example_session_def)
  have e: "\<not> is_event key_response" by (simp add: key_response_def is_event_def)
  have m: "match_answer (waiting_session FWaiting) key_response = waiting_session (FResult key_response)"
    by (simp add: match_answer_def waiting_session_def connecting_session_def key_response_def
        future_done_def expected_id_def expected_response_id_def response_of_def response_members_def)
  have i: "(waiting_session FWaiting)\<lparr>se_stream := example_stream200\<rparr> = waiting_session FWaiting"
    by (simp add: waiting_session_def connecting_session_def example_session_def)
  show ?thesis
    by (intro exI [of _ bs]) (simp add: on_notification_def st r key_response_bytes [simplified] i e m)
qed

lemma example_keys: "\<exists>s'. connect_key example_cfg s key_response = Inr s'"
proof -
  have z: "int_from_le (replicate n 0) = 0" for n by (induction n) auto
  have zz: "int_to_le n 0 = replicate n 0" for n by (induction n) auto
  have int32: "int_to_le 32 5 = 5 # replicate 31 0"
    using int_to_le.simps(2) [of 31 5] by (simp add: zz del: int_to_le.simps)
  have e: "encode_public_key (5, 0) = 5 # replicate 63 0"
    using int32 zz [of 32] replicate_add [of 31 32 "0 :: byte"] by (simp add: encode_public_key_def)
  have a: "key_pair_from_private_key small_lib (1 # replicate 31 0)
      = Inr \<lparr>kp_private_key = 1 # replicate 31 0, kp_public_key = encode_public_key (1, 0)\<rparr>"
    unfolding key_pair_from_private_key_Inr by (simp add: small_lib_def z)
  have on: "lib_on_curve small_lib (5, 0)" by (simp add: small_lib_def)
  from compute_shared_secret_Inr [OF small_lib_ok(2) a on] obtain sec
    where sec: "compute_shared_secret small_lib (1 # replicate 31 0) (5 # replicate 63 0) = Inr sec"
      "length sec = 32" by (simp add: e small_lib_def)
  obtain keys where keys: "derive_link_keys small_lib (1 # replicate 31 0) (5 # replicate 63 0) = Inr keys"
    using sec by (simp add: derive_link_keys_def from_shared_secret_def)
  obtain c where "link_cipher keys = Inr c"
    using link_cipher_ok derive_link_keys_Inr [OF keys] by blast
  moreover have "parse_exchange_key_pub_l key_response = Inr \<lparr>xk_public_key = 5 # replicate 63 0\<rparr>"
    unfolding parse_exchange_key_pub_l_Inr by (simp add: key_response_def response_is_ok_def)
  ultimately show ?thesis using keys by (simp add: connect_key_def example_cfg_def)
qed

lemma key_answer_checked: "check_answer key_command key_response = Inr key_response"
  unfolding check_answer_Inr
  by (simp add: key_response_def key_command_def response_is_ok_def expected_id_def
      expected_response_id_def response_of_def response_members_def)

text \<open>
  The answer has arrived and its waiter has not run yet. Then the link may drop before the
  waiter runs; either way connect() ends CONNECTED.
\<close>

lemma example_answered:
  "\<exists>w t. reach (session_start example_cfg) (session_step example_cfg) w
     \<and> w_connect w = KeyExchange \<and> w_session w = waiting_session (FResult key_response) \<and> w_now w = 0
     \<and> w_waiting w = [] \<and> w_results w = [] \<and> w_task w = Some t \<and> tk_pc t = Awaiting
     \<and> tk_command t = key_command \<and> tk_caller t = ByConnect
     \<and> (\<exists>e f. w_sent w = [e] \<and> sn_frames e = [f] \<and> w_written w = [f])"
proof -
  obtain w t where w: "reach (session_start example_cfg) (session_step example_cfg) w"
      "w_connect w = KeyExchange" "w_session w = waiting_session FWaiting" "w_now w = 0"
      "w_waiting w = []" "w_results w = []" "w_task w = Some t" "tk_pc t = Awaiting"
      "tk_command t = key_command" "tk_caller t = ByConnect"
      "\<exists>e f. w_sent w = [e] \<and> sn_frames e = [f] \<and> w_written w = [f]"
    using example_waiting by blast
  obtain bs where "on_notification (w_session w) bs = (waiting_session (FResult key_response), [])"
    using key_answer_received w(3) by auto
  from reach_step [OF w(1) notification [OF this]] show ?thesis
    using w by (intro exI [of _ "w\<lparr>w_session := waiting_session (FResult key_response),
        w_delivered := w_delivered w @ []\<rparr>"] exI [of _ t]) simp
qed

lemma answer_connects:
  assumes "w_connect w = KeyExchange" "w_task w = Some t" "tk_pc t = Awaiting"
    and "tk_command t = key_command" "tk_caller t = ByConnect"
    and "pending_future (w_session w) = FResult key_response"
    and "se_firmware (w_session w) = Some (4, 6, 0)" "w_waiting w = []"
  shows "\<exists>w'. session_step example_cfg w w' \<and> w_connect w' = Connected \<and> idle w'
     \<and> se_state (w_session w') = CONNECTED \<and> se_firmware (w_session w') = Some (4, 6, 0)
     \<and> secured example_cfg (w_session w')
     \<and> ps_mtu (se_stream (w_session w')) = ps_mtu (se_stream (w_session w))
     \<and> ps_blob (se_stream (w_session w')) = ps_blob (se_stream (w_session w))
     \<and> w_waiting w' = [] \<and> w_now w' = w_now w \<and> se_ready_at (w_session w') = w_now w + 320
     \<and> w_sent w' = w_sent w \<and> w_results w' = w_results w \<and> w_written w' = w_written w"
proof -
  let ?s = "exchange_answered example_cfg (w_now w) (w_session w)"
  obtain s' where s': "connect_key example_cfg ?s key_response = Inr s'" using example_keys by blast
  note k = connect_key_Inr [OF s']
  have mtu: "ps_mtu (se_stream s') = ps_mtu (se_stream (w_session w))"
    "ps_blob (se_stream s') = ps_blob (se_stream (w_session w))"
    using s' by (auto simp: connect_key_def bindE_eq_Inr exchange_answered_def exchange_end_def)
  have fw: "se_firmware s' = Some (4, 6, 0)" "se_pending s' = None"
    "se_ready_at s' = w_now w + 320"
    using k assms(7) by (simp_all add: exchange_answered_def exchange_end_def example_cfg_def)
  have sec: "secured example_cfg (s'\<lparr>se_state := CONNECTED\<rparr>)" using k by (simp add: secured_def)
  have step: "session_step example_cfg w (exchange_return example_cfg (w\<lparr>w_session := ?s\<rparr>)
      ByConnect key_command (check_answer key_command key_response) None)"
    using answer_taken [OF assms(2,3,6), of example_cfg] assms(4,5) by simp
  have "exchange_return example_cfg (w\<lparr>w_session := ?s\<rparr>)
      ByConnect key_command (check_answer key_command key_response) None
    = connect_done (w\<lparr>w_task := None, w_session := s'\<rparr>)"
    using s' fw(1) assms(1)
    by (simp add: exchange_return_def connect_continue_def key_answer_checked)
  with step show ?thesis
    using fw sec assms(8) mtu
    by (intro exI [of _ "connect_done (w\<lparr>w_task := None, w_session := s'\<rparr>)"])
       (simp add: connect_done_def idle_def)
qed

lemma example_connected:
  "\<exists>w. reach (session_start example_cfg) (session_step example_cfg) w \<and> w_connect w = Connected
     \<and> idle w \<and> se_state (w_session w) = CONNECTED \<and> se_firmware (w_session w) = Some (4, 6, 0)
     \<and> secured example_cfg (w_session w) \<and> w_waiting w = [] \<and> w_results w = []
     \<and> se_ready_at (w_session w) = 320 \<and> ps_mtu (se_stream (w_session w)) = 200
     \<and> ps_blob (se_stream (w_session w)) = None
     \<and> (\<exists>e f. w_sent w = [e] \<and> sn_frames e = [f] \<and> w_written w = [f])"
proof -
  obtain w t where w: "reach (session_start example_cfg) (session_step example_cfg) w"
      "w_connect w = KeyExchange" "w_session w = waiting_session (FResult key_response)" "w_now w = 0"
      "w_waiting w = []" "w_results w = []" "w_task w = Some t" "tk_pc t = Awaiting"
      "tk_command t = key_command" "tk_caller t = ByConnect"
      "\<exists>e f. w_sent w = [e] \<and> sn_frames e = [f] \<and> w_written w = [f]"
    using example_answered by blast
  have "pending_future (w_session w) = FResult key_response" "se_firmware (w_session w) = Some (4, 6, 0)"
    using w(3) by (simp_all add: waiting_session_def pending_future_def connecting_session_def)
  moreover have "ps_mtu (se_stream (w_session w)) = 200" "ps_blob (se_stream (w_session w)) = None"
    using w(3)
    by (simp_all add: waiting_session_def connecting_session_def example_session_def example_stream200_def)
  ultimately show ?thesis
    using answer_connects [OF w(2,7-10) _ _ w(5)] w(4,6,11) reach_step [OF w(1)] by fastforce
qed

section \<open>Sending on a connected session\<close>

lemma aes_encrypt_nonempty:
  assumes "cbc_ok lib" "aes_ok c" "p \<noteq> []"
  shows "aes_encrypt lib c p \<noteq> [] \<and> length (aes_encrypt lib c p) < length p + 16"
proof -
  have "length p \<le> length (zero_pad p)" by (simp add: zero_pad_def)
  moreover have "0 < length p" using assms(3) by simp
  ultimately have "0 < length (aes_encrypt lib c p)"
    unfolding aes_encrypt_whole [OF assms(1,2)] by linarith
  moreover have "length (aes_encrypt lib c p) < length p + 16"
    unfolding aes_encrypt_whole [OF assms(1,2)] by (rule zero_pad_less)
  ultimately show ?thesis by auto
qed

lemma link_cipher_aes_ok: "link_cipher keys = Inr c \<Longrightarrow> aes_ok c"
  by (auto simp: link_cipher_def aes128_cbc_init_Inr aes_ok_def)

lemma ref_in_range:
  "ref_counter_ok refs \<Longrightarrow> 1 \<le> fst (next_ref refs) \<and> fst (next_ref refs) \<le> 254"
  using next_ref_ok(2) [of refs] by linarith

lemma exchange_frame_total:
  assumes "secured cfg s" "cbc_ok (cfg_lib cfg)" "firmware_known s" "MTU_MIN \<le> ps_mtu (se_stream s)"
    and "build b = Inr c"
  shows "\<exists>s' out frames. exchange_frame s c = (s', Inr (out, frames))"
proof -
  from assms(1) obtain keys ci where ci: "link_cipher keys = Inr ci"
    "ps_cipher (se_stream s) = Some (payload_cipher_of (cfg_lib cfg) ci)"
    by (auto simp: secured_def)
  from assms(3) obtain refs where refs: "se_refs s = Some refs" "ref_counter_ok refs"
    by (auto simp: firmware_known_def)
  let ?cmd = "with_ref c (fst (next_ref refs))"
  have ok: "command_ok ?cmd" using build_command_ok [OF assms(5)] ref_in_range [OF refs(2)] by blast
  have len: "length (cp_data c) \<le> 66" using build_length [OF assms(5)] .
  obtain bs where bs: "command_to_bytes ?cmd = Inr bs" "bs \<noteq> []" "length bs \<le> 70"
    using command_to_bytes_ok [OF ok] len by (auto simp: with_ref_def)
  have enc: "stream_encrypt (se_stream s) bs = Inr (aes_encrypt (cfg_lib cfg) ci bs)"
    by (simp add: stream_encrypt_def ci(2) payload_cipher_of_def)
  have "aes_encrypt (cfg_lib cfg) ci bs \<noteq> [] \<and> length (aes_encrypt (cfg_lib cfg) ci bs) \<le> 65535"
    using aes_encrypt_nonempty [OF assms(2) link_cipher_aes_ok [OF ci(1)] bs(2)] bs(3) by linarith
  then obtain frames where "frame (se_stream s) bs = Inr frames"
    using frame_Inr_iff [OF enc assms(4)] by blast
  then show ?thesis
    using ci(2) refs(1) bs(1) by (simp add: exchange_frame_def Let_def split_beta)
qed

lemma exchange_frame_static:
  assumes "exchange_frame s c = (s', Inr (out, frames))" "firmware_known s"
    and "se_firmware s = Some fw" "fw < MIN_FIRMWARE_ADMIN"
  shows "\<exists>p. se_pending s' = Some p \<and> pd_command_id p = cp_id c \<and> pd_command_ref p = COMMAND_REF_STATIC
    \<and> pd_static_ref p \<and> pd_future p = FWaiting"
  using assms
  by (auto simp: exchange_frame_def firmware_known_def Let_def next_ref_def
      split: if_splits option.splits sum.splits)

text \<open>What a lock under the same keys answers, in one packet, completes the command that waits.\<close>

lemma encrypted_answer:
  assumes "secured cfg s" "cbc_ok (cfg_lib cfg)" "ps_blob (se_stream s) = None"
    and "se_pending s = Some p" "pd_future p = FWaiting"
    and "response_to_bytes r = Inr bs" "response_ok r" "length bs < 240"
    and "\<not> is_event r" "rs_ref r = pd_command_ref p" "rid_value r = expected_id (pd_command_id p)"
  shows "\<exists>data. on_notification s data = (s\<lparr>se_pending := Some (p\<lparr>pd_future := FResult r\<rparr>)\<rparr>, [])"
proof -
  from assms(1) obtain keys ci where ci: "link_cipher keys = Inr ci"
    "ps_cipher (se_stream s) = Some (payload_cipher_of (cfg_lib cfg) ci)"
    by (auto simp: secured_def)
  note aes = link_cipher_aes_ok [OF ci(1)]
  let ?e = "aes_encrypt (cfg_lib cfg) ci bs"
  have "length ?e < 256"
    using aes_encrypt_whole [OF assms(2) aes] zero_pad_less [of bs] assms(8) by simp
  then have ok: "packet_ok (mk_packet PT_SINGLE_ENCRYPTED 1 ?e)" by (simp add: packet_ok_def)
  obtain data where data: "packet_to_bytes (mk_packet PT_SINGLE_ENCRYPTED 1 ?e) = Inr data"
    using packet_frame.to_b_ok [OF ok] by blast
  have rc: "receive (se_stream s) data = (se_stream s, Inr (RPayload (zero_pad bs) True))"
    using receive_frame [OF ok data, of "se_stream s"] ci(2) assms(3) aes_decrypt_encrypt [OF assms(2) aes]
    by (simp add: receive_packet_def receive_single_def expect_no_blob_def deliver_def
        stream_decrypt_def payload_cipher_of_def)
  have "response_from_bytes (zero_pad bs) = Inr r"
    using response_frame.from_to_b [OF assms(7,6)] zero_pad_prefix [of bs] by metis
  moreover have "s\<lparr>se_stream := se_stream s\<rparr> = s" by simp
  ultimately show ?thesis
    using assms(4,5,9-11)
    by (intro exI [of _ data]) (simp add: on_notification_def rc match_answer_def future_done_def)
qed

text \<open>Acquiring the lock when no pause is due: the command is framed and its writes begin.\<close>

lemma lock_sends:
  assumes "w_task w = None" "w_waiting w = (c, skip) # rest" "live (w_session w)"
    and "se_ready_at (w_session w) \<le> w_now w"
    and "exchange_frame (w_session w) c = (s, Inr (out, frames))"
  shows "session_step cfg w (w\<lparr>w_waiting := rest, w_session := s,
      w_task := Some \<lparr>tk_caller = ByUser skip, tk_command = c, tk_pc = Writing frames,
                      tk_deadline = w_now w + cfg_response_timeout cfg\<rparr>,
      w_sent := w_sent w @ [\<lparr>sn_command = out, sn_stream = se_stream s, sn_frames = frames,
                            sn_time = w_now w, sn_caller = ByUser skip\<rparr>]\<rparr>)"
  using lock_acquired [OF assms(1,2), of cfg] assms(3-5)
  by (simp add: exchange_start_def exchange_send_def)

lemma write_all:
  assumes "w_task w = Some t" "tk_pc t = Writing fs"
  shows "(session_step cfg)\<^sup>*\<^sup>* w
    (w\<lparr>w_task := Some (t\<lparr>tk_pc := Awaiting\<rparr>), w_written := w_written w @ fs\<rparr>)"
  using assms
proof (induction fs arbitrary: w t)
  case Nil
  have "w\<lparr>w_task := Some (t\<lparr>tk_pc := Awaiting\<rparr>), w_written := w_written w @ []\<rparr>
      = w\<lparr>w_task := Some (t\<lparr>tk_pc := Awaiting\<rparr>)\<rparr>" by simp
  with all_written [OF Nil, of cfg] show ?case by (metis r_into_rtranclp)
next
  case (Cons f fs)
  let ?w = "w\<lparr>w_task := Some (t\<lparr>tk_pc := Writing fs\<rparr>), w_written := w_written w @ [f]\<rparr>"
  have "session_step cfg w ?w" by (rule packet_written [OF Cons.prems])
  moreover have "(session_step cfg)\<^sup>*\<^sup>* ?w
      (?w\<lparr>w_task := Some (t\<lparr>tk_pc := Writing fs\<rparr>\<lparr>tk_pc := Awaiting\<rparr>),
          w_written := w_written ?w @ fs\<rparr>)"
    by (rule Cons.IH) simp_all
  ultimately show ?case by (simp add: converse_rtranclp_into_rtranclp)
qed

lemma reach_rtranclp:
  assumes "reach start stp w"
  shows "stp\<^sup>*\<^sup>* w w' \<Longrightarrow> reach start stp w'"
  by (induction rule: rtranclp_induct) (auto intro: assms reach_step)

section \<open>Pace\<close>

text \<open>A command that is out was not sent before its time.\<close>

definition paced :: "world \<Rightarrow> bool" where
  "paced w \<longleftrightarrow> (\<forall>t. w_task w = Some t \<longrightarrow> (\<forall>u. tk_pc t \<noteq> Pausing u) \<longrightarrow>
     se_ready_at (w_session w) \<le> w_now w)"

definition same_pace :: "world \<Rightarrow> world \<Rightarrow> bool" where
  "same_pace w w' \<longleftrightarrow> se_ready_at (w_session w') = se_ready_at (w_session w)
     \<and> w_sent w' = w_sent w \<and> (w_task w' = w_task w \<or> w_task w' = None) \<and> w_now w' = w_now w"

lemma callback_ready: "callback_only s s' \<Longrightarrow> se_ready_at s' = se_ready_at s"
  by (simp add: callback_only_def)

lemma connect_continue_pace:
  "se_ready_at (w_session (connect_continue cfg w result)) = se_ready_at (w_session w)
   \<and> w_sent (connect_continue cfg w result) = w_sent w
   \<and> w_task (connect_continue cfg w result) = w_task w
   \<and> w_now (connect_continue cfg w result) = w_now w"
proof -
  have f: "se_ready_at (w_session (connect_fail w e)) = se_ready_at (w_session w)" for e
    using callback_ready [OF callback_only_close] by (simp add: connect_fail_def)
  have k: "se_ready_at s = se_ready_at (w_session w)"
    if "bindE result (connect_key cfg (w_session w)) = Inr s" for s
    using that connect_key_Inr by (auto simp: bindE_eq_Inr)
  have m: "se_ready_at s = se_ready_at (w_session w)"
    if "bindE result (connect_model (w_session w)) = Inr s" for s
    using that by (auto simp: bindE_eq_Inr dest: connect_model_Inr)
  show ?thesis
    by (cases "w_connect w = KeyExchange")
       (auto simp: connect_continue_def connect_done_def f k m split: sum.splits option.splits,
        simp_all add: connect_fail_def)
qed

lemma exchange_return_pace:
  "se_ready_at (w_session (exchange_return cfg w cl c result cause)) = se_ready_at (w_session w)
   \<and> w_sent (exchange_return cfg w cl c result cause) = w_sent w
   \<and> w_task (exchange_return cfg w cl c result cause) = None
   \<and> w_now (exchange_return cfg w cl c result cause) = w_now w"
  using connect_continue_pace [of cfg "w\<lparr>w_task := None\<rparr>" result]
  by (simp add: exchange_return_def split: caller.splits)

lemma exchange_send_pace:
  "se_ready_at (w_session (exchange_send cfg w cl c)) = se_ready_at (w_session w)
   \<and> w_now (exchange_send cfg w cl c) = w_now w
   \<and> (w_sent (exchange_send cfg w cl c) = w_sent w
      \<or> (\<exists>e. w_sent (exchange_send cfg w cl c) = w_sent w @ [e] \<and> sn_time e = w_now w))"
proof -
  obtain s result where f: "exchange_frame (w_session w) c = (s, result)"
    by (cases "exchange_frame (w_session w) c")
  then show ?thesis
    using exchange_frame_fields [OF f] exchange_return_pace [of cfg "w\<lparr>w_session := s\<rparr>" cl c _ None]
    by (auto simp: exchange_send_def split: sum.splits)
qed

text \<open>What a step may do to the pace.\<close>

definition keeps_pace :: "world \<Rightarrow> world \<Rightarrow> bool" where
  "keeps_pace w w' \<longleftrightarrow> se_ready_at (w_session w) \<le> se_ready_at (w_session w') \<and> paced w'
     \<and> (w_sent w' = w_sent w \<or> (se_ready_at (w_session w) \<le> w_now w
          \<and> (\<exists>e. w_sent w' = w_sent w @ [e] \<and> sn_time e = w_now w)))"

lemma keeps_pace_return:
  "se_ready_at (w_session w) \<le> se_ready_at s \<Longrightarrow>
    keeps_pace w (exchange_return cfg (w\<lparr>w_session := s\<rparr>) cl c result cause)"
  using exchange_return_pace [of cfg "w\<lparr>w_session := s\<rparr>" cl c result cause]
  by (simp add: keeps_pace_def paced_def)

lemma keeps_pace_send:
  "se_ready_at (w_session w) \<le> w_now w \<Longrightarrow> se_ready_at (w_session v) = se_ready_at (w_session w) \<Longrightarrow>
   w_now v = w_now w \<Longrightarrow> w_sent v = w_sent w \<Longrightarrow> keeps_pace w (exchange_send cfg v cl c)"
  using exchange_send_pace [of cfg v cl c] by (auto simp: keeps_pace_def paced_def)

lemma keeps_pace_start:
  assumes "se_ready_at (w_session v) = se_ready_at (w_session w)" "w_now v = w_now w"
    "w_sent v = w_sent w"
  shows "keeps_pace w (exchange_start cfg v cl c)"
  using assms exchange_return_pace [of cfg v cl c _ None] keeps_pace_send [of w v cfg cl c]
  by (auto simp: exchange_start_def keeps_pace_def paced_def)

lemma keeps_pace_same:
  assumes "paced w" "se_ready_at (w_session w') = se_ready_at (w_session w)" "w_sent w' = w_sent w"
    "w_task w' = w_task w" "w_now w \<le> w_now w'"
  shows "keeps_pace w w'"
  using assms by (auto simp: keeps_pace_def paced_def intro: order_trans)

lemma step_keeps_pace:
  assumes "session_inv cfg w" "paced w" "session_step cfg w w'"
    and "0 \<le> cfg_command_delay cfg" "0 \<le> cfg_late_answer_grace cfg"
  shows "keeps_pace w w'"
  using assms(3,1,2)
proof (induction rule: session_step.induct)
  case (pause_over w t until)
  then have "se_ready_at (w_session w) \<le> w_now w" by (simp add: session_inv_def task_ok_def)
  then show ?case
    using keeps_pace_send [of w w] keeps_pace_return [of w "w_session w"]
    by (simp add: exchange_after_pause_def)
next
  case (answer_taken w t r)
  then have "se_ready_at (w_session w) \<le> w_now w" by (simp add: paced_def)
  then show ?case using assms(4) by (intro keeps_pace_return) (simp add: exchange_answered_def)
next
  case (timed_out w t p s e cause)
  then have "se_ready_at (w_session w) \<le> w_now w" by (auto simp: paced_def)
  then show ?case using timed_out(5) assms(5)
    by (intro keeps_pace_return) (auto simp: exchange_timed_out_def exchange_end_def split: if_splits)
next
  case (notification w data s ds)
  then show ?case using callback_ready [OF callback_only_notification]
    by (intro keeps_pace_same) (simp_all add: )
next
  case (packet_written w t f fs)
  then show ?case by (simp add: keeps_pace_def paced_def)
next
  case (all_written w t)
  then show ?case by (simp add: keeps_pace_def paced_def)
qed (auto intro!: keeps_pace_return keeps_pace_start keeps_pace_same
    simp: connect_begin_def connect_revision_def bindE_eq_Inr exchange_end_def
      connect_fail_def session_close_def fail_pending_def callback_ready [OF callback_only_disconnect]
      add_event_listener_def remove_event_listener_def split: if_splits option.splits)

lemma reach_paced:
  assumes "0 \<le> cfg_command_delay cfg" "0 \<le> cfg_late_answer_grace cfg"
  shows "reach (session_start cfg) (session_step cfg) w \<Longrightarrow> session_inv cfg w \<and> paced w"
proof (induction rule: reach.induct)
  case (reach_start w)
  then show ?case
    by (auto simp: session_inv_start session_start_def world_init_def paced_def)
next
  case (reach_step w w')
  then show ?case
    using step_keeps_pace [of cfg w w'] assms session_inv_step by (auto simp: keeps_pace_def)
qed

lemma run_ready_mono:
  assumes "0 \<le> cfg_command_delay cfg" "0 \<le> cfg_late_answer_grace cfg"
    and "reach (session_start cfg) (session_step cfg) w"
  shows "(session_step cfg)\<^sup>*\<^sup>* w w' \<Longrightarrow> se_ready_at (w_session w) \<le> se_ready_at (w_session w')"
proof (induction rule: rtranclp_induct)
  case (step y z)
  have "reach (session_start cfg) (session_step cfg) y" by (rule reach_rtranclp [OF assms(3) step(1)])
  with step step_keeps_pace [of cfg y z] reach_paced [OF assms(1,2)] assms(1,2) show ?case
    by (fastforce simp: keeps_pace_def)
qed simp

end
