(* ===== verification/Session_Link.thy ===== *)
theory Session_Link
  imports Session_Runs
begin

text \<open>
  What stands between a command and the air, in every reachable state: before the lock has
  answered the key exchange the session has neither keys nor a cipher; from then on its keys
  are the two halves of the secret shared with the lock, its cipher is AES-CBC under them, and
  every command framed so far went out under no cipher or under that one.
\<close>

section \<open>The invariant\<close>

definition shared_keys :: "session_config \<Rightarrow> link_keys \<Rightarrow> bool" where
  "shared_keys cfg keys \<longleftrightarrow> (\<exists>lock_public secret.
     compute_shared_secret (cfg_lib cfg) (kp_private_key (cfg_key_pair cfg)) lock_public = Inr secret
     \<and> keys = \<lparr>lk_key = take 16 secret, lk_iv = drop 16 secret\<rparr>)"

definition link_ok :: "session_config \<Rightarrow> session \<Rightarrow> bool" where
  "link_ok cfg s \<longleftrightarrow> ps_mtu (se_stream s) = cfg_mtu cfg \<and> (case se_link_keys s of
     None \<Rightarrow> ps_cipher (se_stream s) = None
   | Some keys \<Rightarrow> shared_keys cfg keys \<and> (\<exists>c. link_cipher keys = Inr c
       \<and> ps_cipher (se_stream s) = Some (payload_cipher_of (cfg_lib cfg) c)))"

definition sent_under :: "session_config \<Rightarrow> session \<Rightarrow> sent_command \<Rightarrow> bool" where
  "sent_under cfg s e \<longleftrightarrow> ps_mtu (sn_stream e) = cfg_mtu cfg
     \<and> (ps_cipher (sn_stream e) = None \<or> (se_link_keys s \<noteq> None
          \<and> ps_cipher (sn_stream e) = ps_cipher (se_stream s)))"

fun before_keys :: "connect_pc \<Rightarrow> bool" where
  "before_keys NotStarted = True"
| "before_keys ReadRevision = True"
| "before_keys StartNotify = True"
| "before_keys KeyExchange = True"
| "before_keys _ = False"

definition cipher_inv :: "session_config \<Rightarrow> world \<Rightarrow> bool" where
  "cipher_inv cfg w \<longleftrightarrow> link_ok cfg (w_session w)
     \<and> (\<forall>e \<in> set (w_sent w). sent_under cfg (w_session w) e)
     \<and> (before_keys (w_connect w) \<longrightarrow> se_link_keys (w_session w) = None)"

definition same_link :: "session \<Rightarrow> session \<Rightarrow> bool" where
  "same_link s s' \<longleftrightarrow> se_link_keys s' = se_link_keys s
     \<and> ps_cipher (se_stream s') = ps_cipher (se_stream s) \<and> ps_mtu (se_stream s') = ps_mtu (se_stream s)"

lemma cipher_inv_same:
  assumes "cipher_inv cfg w" "same_link (w_session w) (w_session w')" "w_sent w' = w_sent w"
    and "before_keys (w_connect w') \<longrightarrow> before_keys (w_connect w)"
  shows "cipher_inv cfg w'"
  using assms by (auto simp: cipher_inv_def link_ok_def sent_under_def same_link_def split: option.splits)

section \<open>Through connect()\<close>

lemma same_link_close [simp]: "same_link s (session_close s)"
  by (auto simp: same_link_def session_close_def fail_pending_def split: option.splits)

lemma same_link_disconnect [simp]: "same_link s (on_disconnect s)"
  by (auto simp: same_link_def on_disconnect_def fail_pending_def stream_reset_def split: option.splits)

lemma same_link_notification:
  assumes "on_notification s data = (s', ds)"
  shows "same_link s s'"
proof -
  obtain st rc where r: "receive (se_stream s) data = (st, rc)" by (cases "receive (se_stream s) data")
  then have "ps_cipher st = ps_cipher (se_stream s)" "ps_mtu st = ps_mtu (se_stream s)"
    by (metis fst_conv receive_cipher(1)) (metis r fst_conv receive_cipher(2))
  then show ?thesis
    using assms by (auto simp: same_link_def on_notification_def r dispatch_event_def session_drop_def
        Let_def split: sum.splits received.splits option.splits if_splits)
qed

lemma cipher_inv_fail: "cipher_inv cfg w \<Longrightarrow> cipher_inv cfg (connect_fail w e)"
  by (erule cipher_inv_same) (simp_all add: connect_fail_def)

lemma cipher_inv_done:
  "cipher_inv cfg (w\<lparr>w_session := s, w_connect := pc\<rparr>) \<Longrightarrow> cipher_inv cfg (connect_done (w\<lparr>w_session := s\<rparr>))"
  by (erule cipher_inv_same) (simp_all add: connect_done_def same_link_def)

text \<open>The answer to the key exchange gives the session its keys and its cipher at once.\<close>

lemma connect_key_link:
  assumes "connect_key cfg s answer = Inr s'" "ps_mtu (se_stream s) = cfg_mtu cfg"
  shows "link_ok cfg s' \<and> se_link_keys s' \<noteq> None"
proof -
  have "shared_keys cfg keys"
    if "derive_link_keys (cfg_lib cfg) (kp_private_key (cfg_key_pair cfg)) k = Inr keys" for k keys
    using that unfolding shared_keys_def derive_link_keys_def from_shared_secret_def
    by (fastforce simp: bindE_eq_Inr split: if_splits)
  then show ?thesis using assms by (auto simp: connect_key_def bindE_eq_Inr link_ok_def)
qed

lemma cipher_inv_continue:
  assumes "cipher_inv cfg w"
  shows "cipher_inv cfg (connect_continue cfg w result)"
proof (cases "w_connect w = KeyExchange")
  case False
  then show ?thesis
  proof (cases "bindE result (connect_model (w_session w))")
    case (Inr s)
    then have "same_link (w_session w) s"
      by (auto simp: bindE_eq_Inr same_link_def dest: connect_model_Inr)
    with assms False Inr show ?thesis
      by (auto simp: connect_continue_def connect_done_def same_link_def intro: cipher_inv_same)
  qed (simp add: connect_continue_def assms cipher_inv_fail)
next
  case True
  then show ?thesis
  proof (cases "bindE result (connect_key cfg (w_session w))")
    case (Inr s)
    then obtain r where "connect_key cfg (w_session w) r = Inr s" by (auto simp: bindE_eq_Inr)
    then have s: "link_ok cfg s" "se_link_keys s \<noteq> None"
      using connect_key_link assms by (auto simp: cipher_inv_def link_ok_def)
    have "cipher_inv cfg (w\<lparr>w_session := s, w_connect := ModelRead\<rparr>)"
      using assms s True by (auto simp: cipher_inv_def sent_under_def)
    then show ?thesis using Inr True cipher_inv_done
      by (auto simp: connect_continue_def split: option.splits)
  qed (simp add: connect_continue_def assms cipher_inv_fail)
qed

section \<open>Through the exchange\<close>

lemma cipher_inv_return:
  assumes "cipher_inv cfg w"
  shows "cipher_inv cfg (exchange_return cfg w cl c result cause)"
proof -
  have "cipher_inv cfg (w\<lparr>w_task := None\<rparr>)"
    using assms by (rule cipher_inv_same) (simp_all add: same_link_def)
  then show ?thesis
    using assms by (auto simp: exchange_return_def same_link_def cipher_inv_continue
        intro: cipher_inv_same split: caller.splits)
qed

lemma cipher_inv_session:
  "cipher_inv cfg w \<Longrightarrow> same_link (w_session w) s \<Longrightarrow> cipher_inv cfg (w\<lparr>w_session := s\<rparr>)"
  by (erule cipher_inv_same) simp_all

lemma cipher_inv_send:
  assumes "cipher_inv cfg w"
  shows "cipher_inv cfg (exchange_send cfg w cl c)"
proof -
  obtain s result where f: "exchange_frame (w_session w) c = (s, result)"
    by (cases "exchange_frame (w_session w) c")
  have same: "same_link (w_session w) s" "se_stream s = se_stream (w_session w)"
    using exchange_frame_fields [OF f] by (simp_all add: same_link_def)
  have inv: "cipher_inv cfg (w\<lparr>w_session := s\<rparr>)" using assms same(1) by (rule cipher_inv_session)
  then have "sent_under cfg s \<lparr>sn_command = out, sn_stream = se_stream s, sn_frames = frames,
      sn_time = now, sn_caller = cl\<rparr>" for out frames now
    by (auto simp: cipher_inv_def link_ok_def sent_under_def split: option.splits)
  then show ?thesis
    using inv cipher_inv_return [OF inv]
    by (auto simp: exchange_send_def f cipher_inv_def split: sum.splits)
qed

lemma cipher_inv_start: "cipher_inv cfg w \<Longrightarrow> cipher_inv cfg (exchange_start cfg w cl c)"
  using cipher_inv_return cipher_inv_send
  by (auto simp: exchange_start_def same_link_def intro: cipher_inv_same)

lemma cipher_inv_step:
  assumes "session_step cfg w w'" "cipher_inv cfg w"
  shows "cipher_inv cfg w'"
  using assms
proof (induction rule: session_step.induct)
  case (pause_over w t until)
  then show ?case by (simp add: exchange_after_pause_def cipher_inv_return cipher_inv_send)
next
  case (notification w data s ds)
  then have "same_link (w_session w) s" by (auto intro: same_link_notification)
  with notification(2) show ?case by (elim cipher_inv_same) simp_all
next
  case (timed_out w t p s e cause)
  then show ?case
    by (intro cipher_inv_return cipher_inv_session)
       (auto simp: exchange_timed_out_def exchange_end_def same_link_def split: if_splits)
next
  case (revision_read w raw s)
  then show ?case
    by (elim cipher_inv_same) (auto simp: connect_revision_def bindE_eq_Inr same_link_def split: if_splits)
next
  case (connect_call w s)
  then show ?case
    by (elim cipher_inv_same) (auto simp: connect_begin_def same_link_def split: if_splits)
next
  case (notify_started w c)
  then have "cipher_inv cfg (w\<lparr>w_connect := KeyExchange\<rparr>)"
    by (elim cipher_inv_same) (simp_all add: same_link_def)
  then show ?case by (rule cipher_inv_start)
next
  case (lock_acquired w c skip rest)
  then have "cipher_inv cfg (w\<lparr>w_waiting := rest\<rparr>)"
    by (elim cipher_inv_same) (simp_all add: same_link_def)
  then show ?case by (rule cipher_inv_start)
next
  case (disconnected w)
  then show ?case by (simp add: cipher_inv_session)
next
  case (close_call w)
  then show ?case by (simp add: cipher_inv_session)
qed (auto simp: cipher_inv_fail cipher_inv_start exchange_answered_def exchange_end_def same_link_def
    add_event_listener_def remove_event_listener_def
    intro!: cipher_inv_return cipher_inv_session intro: cipher_inv_same)

lemma reach_link: "reach (session_start cfg) (session_step cfg) w \<Longrightarrow> cipher_inv cfg w"
proof (induction rule: reach.induct)
  case (reach_start w)
  then show ?case
    by (auto simp: session_start_def session_init_def packet_stream_init_def bindE_eq_Inr world_init_def
        cipher_inv_def link_ok_def split: if_splits)
next
  case (reach_step w w')
  then show ?case using cipher_inv_step by blast
qed

section \<open>What a frame is made of\<close>

text \<open>The packets of a payload, in the clear or as the ciphertext of the padded payload.\<close>

definition clear_frames :: "session_config \<Rightarrow> bytes \<Rightarrow> bytes list \<Rightarrow> bool" where
  "clear_frames cfg bs frames \<longleftrightarrow>
     (\<exists>packets. packetize bs False (cfg_mtu cfg) = Inr packets \<and> mapE packet_to_bytes packets = Inr frames)"

definition cipher_frames :: "session_config \<Rightarrow> bytes \<Rightarrow> bytes \<Rightarrow> bytes list \<Rightarrow> bool" where
  "cipher_frames cfg secret bs frames \<longleftrightarrow>
     (\<exists>packets. packetize (lib_cbc_encrypt (cfg_lib cfg) (take 16 secret) (drop 16 secret) (zero_pad bs))
          True (cfg_mtu cfg) = Inr packets
        \<and> mapE packet_to_bytes packets = Inr frames)"

lemma frame_clear:
  "ps_cipher s = None \<Longrightarrow> ps_mtu s = cfg_mtu cfg \<Longrightarrow> frame s bs = Inr frames \<Longrightarrow> clear_frames cfg bs frames"
  by (auto simp: frame_def stream_encrypt_def bindE_eq_Inr clear_frames_def)

lemma frame_under_keys:
  assumes "link_cipher \<lparr>lk_key = take 16 secret, lk_iv = drop 16 secret\<rparr> = Inr c"
    and "ps_cipher s = Some (payload_cipher_of (cfg_lib cfg) c)" "ps_mtu s = cfg_mtu cfg"
    and "frame s bs = Inr frames"
  shows "cipher_frames cfg secret bs frames"
  using assms by (auto simp: frame_def stream_encrypt_def bindE_eq_Inr cipher_frames_def link_cipher_def
      aes128_cbc_init_Inr payload_cipher_of_def aes_encrypt_def aes_run_def cbc_once_def)

lemma sent_frames:
  assumes "cipher_inv cfg w" "e \<in> set (w_sent w)" "sent_ok w e"
  obtains bs where "command_to_bytes (sn_command e) = Inr bs"
    "cm_id (sn_command e) = CMD_EXCHANGE_KEY_PUB_M \<and> clear_frames cfg bs (sn_frames e)
     \<or> (\<exists>lock_public secret.
          compute_shared_secret (cfg_lib cfg) (kp_private_key (cfg_key_pair cfg)) lock_public = Inr secret
          \<and> se_link_keys (w_session w) = Some \<lparr>lk_key = take 16 secret, lk_iv = drop 16 secret\<rparr>
          \<and> cipher_frames cfg secret bs (sn_frames e))"
proof -
  from assms(3) obtain bs where bs: "command_to_bytes (sn_command e) = Inr bs"
    "frame (sn_stream e) bs = Inr (sn_frames e)" by (auto simp: sent_ok_def)
  have u: "sent_under cfg (w_session w) e" and l: "link_ok cfg (w_session w)"
    using assms(1,2) by (auto simp: cipher_inv_def)
  show ?thesis
  proof (cases "ps_cipher (sn_stream e)")
    case None
    with u assms(3) frame_clear [OF None _ bs(2)] bs(1) that show ?thesis
      by (simp add: sent_ok_def sent_under_def)
  next
    case (Some pc)
    with u have "se_link_keys (w_session w) \<noteq> None" by (simp add: sent_under_def)
    with l obtain pub secret c where
      "compute_shared_secret (cfg_lib cfg) (kp_private_key (cfg_key_pair cfg)) pub = Inr secret"
      "se_link_keys (w_session w) = Some \<lparr>lk_key = take 16 secret, lk_iv = drop 16 secret\<rparr>"
      "link_cipher \<lparr>lk_key = take 16 secret, lk_iv = drop 16 secret\<rparr> = Inr c"
      "ps_cipher (se_stream (w_session w)) = Some (payload_cipher_of (cfg_lib cfg) c)"
      by (fastforce simp: link_ok_def shared_keys_def)
    with Some u frame_under_keys [of secret c "sn_stream e"] bs that show ?thesis
      by (fastforce simp: sent_under_def)
  qed
qed

end
