(* ===== verification/Session_Props.thy ===== *)
theory Session_Props
  imports Session_Link
begin

text \<open>
  The properties of a session: over every reachable state of \<open>session_step\<close>, with witnesses
  on the concrete connection of \<open>Session_Runs\<close>.
\<close>

section \<open>Runs for the witnesses\<close>

definition id_command :: command_payload where
  "id_command = mk_command_payload CMD_DEVICE_ID_GET []"

lemma id_command_built: "build DeviceIdGet = Inr id_command"
  by (simp add: device_id_get_def empty_command_def id_command_def)

definition id_response :: response where
  "id_response = \<lparr>rs_id = Known RSP_DEVICE_ID_GET, rs_ref = 16, rs_status = Known STATUS_SUCCESS,
     rs_payload = [1, 2, 3, 4, 5, 6]\<rparr>"

lemma id_response_bytes: "response_from_bytes ([49, 6, 16, 0, 1, 2, 3, 4, 5, 6] @ pad) = Inr id_response"
proof -
  have k: "known response_of 49 = Known RSP_DEVICE_ID_GET" "known status_of 0 = Known STATUS_SUCCESS"
    using response_enum.known_val [of RSP_DEVICE_ID_GET] status_enum.known_val [of STATUS_SUCCESS]
    by simp_all
  show ?thesis unfolding response_from_bytes_parts by (simp add: id_response_def k)
qed

lemma id_gate: "se_state s = CONNECTED \<Longrightarrow> se_firmware s = Some fw \<Longrightarrow> send_gate s id_command False = Inr ()"
  by (simp add: send_gate_def session_availability_def session_firmware_def id_command_def
      availability_def feature_available_def is_master_pin_def FIRMWARE_GATED_def)

text \<open>From the connected state: a command is handed over, the pause passes, it goes out.\<close>

lemma example_sending:
  "\<exists>w s out frames. reach (session_start example_cfg) (session_step example_cfg) w
     \<and> w_task w = None \<and> w_waiting w = [(id_command, False)] \<and> live (w_session w)
     \<and> se_ready_at (w_session w) \<le> w_now w \<and> w_results w = [] \<and> w_connect w = Connected
     \<and> secured example_cfg (w_session w) \<and> firmware_known (w_session w)
     \<and> se_firmware (w_session w) = Some (4, 6, 0) \<and> ps_blob (se_stream (w_session w)) = None
     \<and> exchange_frame (w_session w) id_command = (s, Inr (out, frames))"
proof -
  obtain w where w: "reach (session_start example_cfg) (session_step example_cfg) w"
      "w_connect w = Connected" "idle w" "se_state (w_session w) = CONNECTED"
      "se_firmware (w_session w) = Some (4, 6, 0)" "secured example_cfg (w_session w)"
      "w_waiting w = []" "w_results w = []" "se_ready_at (w_session w) = 320"
      "ps_mtu (se_stream (w_session w)) = 200" "ps_blob (se_stream (w_session w)) = None"
    using example_connected by blast
  let ?w1 = "w\<lparr>w_waiting := w_waiting w @ [(id_command, False)]\<rparr>"
  let ?w2 = "?w1\<lparr>w_now := max (w_now w) 320\<rparr>"
  have "session_step example_cfg w ?w1"
    using id_gate [OF w(4,5)] by (rule send_call)
  moreover have "session_step example_cfg ?w1 ?w2" by (rule tick) simp
  ultimately have r: "reach (session_start example_cfg) (session_step example_cfg) ?w2"
    using w(1) by (blast intro: reach_step)
  have fk: "firmware_known (w_session w)"
    using session_machine.reach_inv [OF w(1)] w(2) by (simp add: session_inv_def)
  have "cbc_ok (cfg_lib example_cfg)" by (simp add: example_cfg_def small_lib_ok)
  then have "\<exists>s out frames. exchange_frame (w_session w) id_command = (s, Inr (out, frames))"
    using exchange_frame_total [OF w(6) _ fk _ id_command_built] w(10) by simp
  then show ?thesis
    using r w fk by (intro exI [of _ ?w2]) (auto simp: idle_def live_def)
qed

text \<open>The lock answers, and the caller gets the answer.\<close>

lemma id_response_fits:
  "response_ok id_response \<and> (\<exists>bs. response_to_bytes id_response = Inr bs \<and> length bs < 240)
   \<and> \<not> is_event id_response \<and> rid_value id_response = expected_id CMD_DEVICE_ID_GET
   \<and> check_answer id_command id_response = Inr id_response"
proof -
  have ok: "response_ok id_response"
    using response_from_bytes_ok [OF id_response_bytes] .
  have e: "rid_value id_response = expected_id CMD_DEVICE_ID_GET"
    by (simp add: id_response_def expected_id_def expected_response_id_def response_of_def
        response_members_def)
  then have "check_answer id_command id_response = Inr id_response"
    unfolding check_answer_Inr by (simp add: id_command_def) (simp add: id_response_def response_is_ok_def)
  with ok e show ?thesis
    by (simp add: response_to_bytes_ok [OF ok]) (simp add: id_response_def is_event_def)
qed

lemma example_answer:
  "\<exists>w. reach (session_start example_cfg) (session_step example_cfg) w
     \<and> (id_command, Inr id_response, None) \<in> set (w_results w)"
proof -
  let ?R = "reach (session_start example_cfg) (session_step example_cfg)"
  obtain w s out frames where w: "?R w" "w_task w = None" "w_waiting w = [(id_command, False)]"
      "live (w_session w)" "se_ready_at (w_session w) \<le> w_now w" "secured example_cfg (w_session w)"
      "firmware_known (w_session w)" "se_firmware (w_session w) = Some (4, 6, 0)"
      "ps_blob (se_stream (w_session w)) = None"
    and f: "exchange_frame (w_session w) id_command = (s, Inr (out, frames))"
    using example_sending by blast
  note fields = exchange_frame_fields [OF f]
  obtain p where p: "se_pending s = Some p" "pd_command_id p = CMD_DEVICE_ID_GET"
      "pd_command_ref p = 16" "pd_static_ref p" "pd_future p = FWaiting"
    using exchange_frame_static [OF f w(7,8)] by (auto simp: id_command_def)
  let ?t = "\<lparr>tk_caller = ByUser False, tk_command = id_command, tk_pc = Awaiting,
      tk_deadline = w_now w + cfg_response_timeout example_cfg\<rparr>"
  let ?w1 = "w\<lparr>w_waiting := [], w_session := s, w_task := Some (?t\<lparr>tk_pc := Writing frames\<rparr>),
      w_sent := w_sent w @ [\<lparr>sn_command = out, sn_stream = se_stream s, sn_frames = frames,
                            sn_time = w_now w, sn_caller = ByUser False\<rparr>]\<rparr>"
  have "session_step example_cfg w ?w1" using lock_sends [OF w(2,3,4,5) f] by simp
  then have "?R ?w1" by (rule reach_step [OF w(1)])
  moreover have "(session_step example_cfg)\<^sup>*\<^sup>* ?w1
      (?w1\<lparr>w_task := Some (?t\<lparr>tk_pc := Writing frames\<rparr>\<lparr>tk_pc := Awaiting\<rparr>),
           w_written := w_written ?w1 @ frames\<rparr>)"
    by (rule write_all) simp_all
  ultimately have "?R (?w1\<lparr>w_task := Some (?t\<lparr>tk_pc := Writing frames\<rparr>\<lparr>tk_pc := Awaiting\<rparr>),
           w_written := w_written ?w1 @ frames\<rparr>)" by (rule reach_rtranclp)
  then obtain w2 where w2: "?R w2" "w_task w2 = Some ?t" "w_session w2 = s" by fastforce
  have "secured example_cfg s" "ps_blob (se_stream s) = None" "cbc_ok (cfg_lib example_cfg)"
    using fields w(6,9) by (simp_all add: secured_def example_cfg_def small_lib_ok)
  then obtain data where
    d: "on_notification s data = (s\<lparr>se_pending := Some (p\<lparr>pd_future := FResult id_response\<rparr>)\<rparr>, [])"
    using encrypted_answer [of example_cfg s p id_response] p id_response_fits
    by (auto simp: id_response_def)
  let ?w3 = "w2\<lparr>w_session := s\<lparr>se_pending := Some (p\<lparr>pd_future := FResult id_response\<rparr>)\<rparr>,
      w_delivered := w_delivered w2 @ []\<rparr>"
  have "session_step example_cfg w2 ?w3" by (rule notification [where data = data]) (simp add: w2(3) d)
  moreover have "session_step example_cfg ?w3 (exchange_return example_cfg
       (?w3\<lparr>w_session := exchange_answered example_cfg (w_now ?w3) (w_session ?w3)\<rparr>)
       (tk_caller ?t) (tk_command ?t) (check_answer (tk_command ?t) id_response) None)"
    by (rule answer_taken) (simp_all add: w2(2) pending_future_def)
  ultimately have "?R (exchange_return example_cfg
       (?w3\<lparr>w_session := exchange_answered example_cfg (w_now ?w3) (w_session ?w3)\<rparr>)
       (tk_caller ?t) (tk_command ?t) (check_answer (tk_command ?t) id_response) None)"
    using w2(1) by (blast intro: reach_step)
  then show ?thesis
    using id_response_fits by (auto simp: exchange_return_def intro!: exI)
qed

section \<open>Closing\<close>

lemma closed_step:
  assumes "session_step cfg w w'" "session_inv cfg w"
    and "w_connect w = Connected" "se_state (w_session w) = CLOSED"
  shows "w_connect w' = Connected \<and> se_state (w_session w') = CLOSED \<and> w_sent w' = w_sent w"
proof -
  have ret: "w_connect (exchange_return cfg v cl c result cause) = w_connect v
      \<and> w_session (exchange_return cfg v cl c result cause) = w_session v
      \<and> w_sent (exchange_return cfg v cl c result cause) = w_sent v"
    if "cl \<noteq> ByConnect" for v cl c result cause
    using that by (cases cl) (auto simp: exchange_return_def)
  have user: "tk_caller t \<noteq> ByConnect" if "w_task w = Some t" for t
    using task_caller [OF assms(2) that] assms(3) by (auto simp: caller_ok_def)
  have cb: "se_state s' = CLOSED" if "callback_only (w_session w) s'" for s'
    using that assms(4) by (auto simp: callback_only_def)
  show ?thesis
    using assms(1)
  proof (cases rule: session_step.cases)
    case (lock_acquired c skip rest)
    then show ?thesis using assms(3,4) ret [of "ByUser skip"] by (simp add: exchange_start_def live_def)
  next
    case (pause_over t until)
    then show ?thesis using assms(3,4) ret user by (simp add: exchange_after_pause_def live_def)
  next
    case (timed_out t p s e cause)
    then show ?thesis using assms(3,4) ret user
      by (auto simp: exchange_timed_out_def exchange_end_def split: if_splits)
  next
    case (notification data s ds)
    then show ?thesis using assms(3) cb callback_only_notification by auto
  qed (use assms(3,4) ret user cb callbacks in
      \<open>auto simp: exchange_end_def exchange_answered_def\<close>)
qed

lemma closed_run:
  assumes "reach (session_start cfg) (session_step cfg) w" "(session_step cfg)\<^sup>*\<^sup>* w w'"
    and "w_connect w = Connected" "se_state (w_session w) = CLOSED"
  shows "w_connect w' = Connected \<and> se_state (w_session w') = CLOSED \<and> w_sent w' = w_sent w"
  using assms(2)
proof (induction rule: rtranclp_induct)
  case (step y z)
  have "session_inv cfg y" using reach_rtranclp [OF assms(1) step(1)] by (rule session_machine.reach_inv)
  with closed_step [OF step(2)] step(3) show ?case by simp
qed (use assms(3,4) in simp)

section \<open>Ending an exchange\<close>

text \<open>
  The steps the session takes by itself as time passes: the clock moves on, the pause before a
  command is over, the response timeout strikes. Nobody cancels, closes, answers or writes.
\<close>

definition timer_step :: "session_config \<Rightarrow> world \<Rightarrow> world \<Rightarrow> bool" where
  "timer_step cfg w v \<longleftrightarrow> session_step cfg w v
     \<and> ((\<exists>now \<ge> w_now w. v = w\<lparr>w_now := now\<rparr>)
      \<or> (\<exists>t until. w_task w = Some t \<and> tk_pc t = Pausing until \<and> until \<le> w_now w
          \<and> v = exchange_after_pause cfg w (tk_caller t) (tk_command t))
      \<or> (\<exists>t p s e cause. w_task w = Some t \<and> (\<forall>u. tk_pc t \<noteq> Pausing u) \<and> tk_deadline t \<le> w_now w
          \<and> se_pending (w_session w) = Some p
          \<and> exchange_timed_out cfg (w_now w) p (w_session w) = (s, e, cause)
          \<and> v = exchange_return cfg (w\<lparr>w_session := s\<rparr>) (tk_caller t) (tk_command t) (Inl e) cause))"

text \<open>The error an exchange ended with, as its caller has it: connect() fails with it, send() raises it.\<close>

definition told :: "world \<Rightarrow> caller \<Rightarrow> command_payload \<Rightarrow> ble_error \<Rightarrow> world \<Rightarrow> bool" where
  "told w cl c e v \<longleftrightarrow> (case cl of
     ByConnect \<Rightarrow> w_connect v = Failed e
   | ByUser skip \<Rightarrow> (\<exists>cause. w_results v = w_results w @ [(c, Inl e, cause)]))"

definition no_answer :: "session_config \<Rightarrow> command_payload \<Rightarrow> ble_error" where
  "no_answer cfg c = BleTimeoutError (''{} got no answer within {} s'',
     [command_value (cp_id c), cfg_response_timeout cfg])"

lemma return_told: "told w cl c e (exchange_return cfg (w\<lparr>w_session := s\<rparr>) cl c (Inl e) cause)"
  by (simp add: told_def exchange_return_def connect_continue_def connect_fail_def split: caller.splits)

lemma told_later [simp]: "told (w\<lparr>w_now := n\<rparr>) = told w"
  by (simp add: told_def fun_eq_iff cong: caller.case_cong)

lemma timer_run:
  assumes "timer_step cfg w x" "timer_step cfg x y"
  shows "(timer_step cfg)\<^sup>*\<^sup>* w y"
  using assms by (meson converse_rtranclp_into_rtranclp r_into_rtranclp)

lemma timer_tick: "w_now w \<le> now \<Longrightarrow> timer_step cfg w (w\<lparr>w_now := now\<rparr>)"
  unfolding timer_step_def using tick [of w now cfg] by blast

lemma timeout_ends:
  assumes "session_inv cfg w" "w_task w = Some t" "\<forall>u. tk_pc t \<noteq> Pausing u"
  shows "\<exists>v. (timer_step cfg)\<^sup>*\<^sup>* w v \<and> w_task v = None \<and> w_now v = max (w_now w) (tk_deadline t)
    \<and> told w (tk_caller t) (tk_command t) (no_answer cfg (tk_command t)) v"
proof -
  let ?w = "w\<lparr>w_now := max (w_now w) (tk_deadline t)\<rparr>"
  from assms obtain p where p: "se_pending (w_session w) = Some p" "pd_command_id p = cp_id (tk_command t)"
    by (cases "tk_pc t") (auto simp: session_inv_def task_ok_def)
  obtain s cause where e: "exchange_timed_out cfg (w_now ?w) p (w_session ?w)
      = (s, no_answer cfg (tk_command t), cause)"
    using p(2) by (simp add: exchange_timed_out_def no_answer_def)
  let ?v = "exchange_return cfg (?w\<lparr>w_session := s\<rparr>) (tk_caller t) (tk_command t)
    (Inl (no_answer cfg (tk_command t))) cause"
  have "tk_pc t = Awaiting \<or> (\<exists>fs. tk_pc t = Writing fs)" using assms(3) by (cases "tk_pc t") auto
  then have "session_step cfg ?w ?v"
    using assms(2) p e by (intro timed_out) simp_all
  then have "timer_step cfg ?w ?v"
    unfolding timer_step_def using assms(2,3) p(1) e by (auto intro!: disjI2)
  then have "(timer_step cfg)\<^sup>*\<^sup>* w ?v" using timer_tick [of w] by (blast intro: timer_run max.cobounded1)
  moreover have "told w (tk_caller t) (tk_command t) (no_answer cfg (tk_command t)) ?v"
    using return_told [of ?w] by simp
  ultimately show ?thesis
    using exchange_return_pace [of cfg "?w\<lparr>w_session := s\<rparr>" "tk_caller t" "tk_command t" _ cause]
    by (intro exI [of _ ?v]) simp
qed

text \<open>Sending after the pause: refused at once, or a task with its own deadline.\<close>

lemma after_pause_cases:
  obtains e where "w_task (exchange_after_pause cfg w cl c) = None" "told w cl c e (exchange_after_pause cfg w cl c)"
  | t where "w_task (exchange_after_pause cfg w cl c) = Some t" "\<forall>u. tk_pc t \<noteq> Pausing u"
    "tk_deadline t = w_now w + cfg_response_timeout cfg" "tk_caller t = cl" "tk_command t = c"
    "w_results (exchange_after_pause cfg w cl c) = w_results w"
proof -
  obtain s result where f: "exchange_frame (w_session w) c = (s, result)"
    by (cases "exchange_frame (w_session w) c")
  have r: "w_task (exchange_return cfg (w\<lparr>w_session := x\<rparr>) cl c (Inl e) None) = None" for x e
    using exchange_return_pace by blast
  have l: "exchange_return cfg w cl c (Inl e) None
      = exchange_return cfg (w\<lparr>w_session := w_session w\<rparr>) cl c (Inl e) None" for e by simp
  show thesis
    using that f r [of s] r [of "w_session w"] return_told [of w cl c _ cfg s] return_told [of w cl c _ cfg "w_session w"]
    by (cases result) (fastforce simp: exchange_after_pause_def exchange_send_def split: if_splits)+
qed

text \<open>The latest instant: the pause, if one still runs, and the response timeout after it.\<close>

definition task_bound :: "session_config \<Rightarrow> world \<Rightarrow> exchange_task \<Rightarrow> int" where
  "task_bound cfg w t = (case tk_pc t of
     Pausing u \<Rightarrow> max (w_now w) u + cfg_response_timeout cfg
   | _ \<Rightarrow> max (w_now w) (tk_deadline t))"

lemma pause_ends:
  assumes "session_inv cfg w" "w_task w = Some t" "tk_pc t = Pausing u" "0 \<le> cfg_response_timeout cfg"
  shows "\<exists>v e. (timer_step cfg)\<^sup>*\<^sup>* w v \<and> w_task v = None \<and> w_now v \<le> task_bound cfg w t
    \<and> told w (tk_caller t) (tk_command t) e v"
proof -
  let ?w = "w\<lparr>w_now := max (w_now w) u\<rparr>"
  let ?v = "exchange_after_pause cfg ?w (tk_caller t) (tk_command t)"
  have "session_step cfg ?w ?v"
    by (rule pause_over [where until = u and t = t]) (use assms(2,3) in simp_all)
  then have s: "timer_step cfg w ?w" "timer_step cfg ?w ?v"
    using assms(2,3) timer_tick [of w] by (auto simp: timer_step_def)
  then have inv: "session_inv cfg ?v"
    using assms(1) session_inv_step unfolding timer_step_def by blast
  have now: "w_now ?v = max (w_now w) u"
    using exchange_send_pace [of cfg ?w] exchange_return_pace [of cfg ?w]
    by (simp add: exchange_after_pause_def)
  show ?thesis
  proof (rule after_pause_cases [of cfg ?w "tk_caller t" "tk_command t"])
    fix e assume "w_task ?v = None" "told ?w (tk_caller t) (tk_command t) e ?v"
    then show ?thesis using timer_run [OF s] now assms(3,4)
      by (intro exI [of _ ?v] exI [of _ e]) (simp add: task_bound_def told_def split: caller.splits)
  next
    fix t' assume t': "w_task ?v = Some t'" "\<forall>u. tk_pc t' \<noteq> Pausing u"
      "tk_deadline t' = w_now ?w + cfg_response_timeout cfg" "tk_caller t' = tk_caller t"
      "tk_command t' = tk_command t" "w_results ?v = w_results ?w"
    from timeout_ends [OF inv t'(1,2)] obtain v where v: "(timer_step cfg)\<^sup>*\<^sup>* ?v v"
      "w_task v = None" "w_now v = max (w_now ?v) (tk_deadline t')"
      "told ?v (tk_caller t) (tk_command t) (no_answer cfg (tk_command t)) v"
      unfolding t'(4,5) by blast
    have "w_now v \<le> task_bound cfg w t"
      unfolding v(3) now t'(3) using assms(3,4) by (simp add: task_bound_def)
    moreover have "told w (tk_caller t) (tk_command t) (no_answer cfg (tk_command t)) v"
      using v(4) t'(6) by (simp add: told_def split: caller.splits)
    ultimately show ?thesis using rtranclp_trans [OF timer_run [OF s] v(1)] v(2) by blast
  qed
qed

section \<open>Properties\<close>



text \<open>
  C6: what a caller of send() gets back is the answer to its command: in every reachable
  state each returned response has the status SUCCESS and the response id of its command,
  whatever else the lock sent.
\<close>

theorem answers_match:
  assumes "reach (session_start cfg) (session_step cfg) w" and "(c, Inr r, cause) \<in> set (w_results w)"
  shows "rstatus_value r = status_value STATUS_SUCCESS \<and> rid_value r = command_value (cp_id c)"
proof -
  have "session_inv cfg w" using assms(1) by (rule session_machine.reach_inv)
  with assms(2) have "outcome_ok (c, Inr r, cause)" by (auto simp: session_inv_def)
  then have "response_is_ok r" "rid_value r = expected_id (cp_id c)" by (simp_all add: outcome_ok_def)
  then show ?thesis
    using expected_response_id_total [of "cp_id c"]
    by (auto simp: response_is_ok_def expected_id_def)
qed

theorem answers_match_witness:
  "\<exists>w. reach (session_start example_cfg) (session_step example_cfg) w
     \<and> (id_command, Inr id_response, None) \<in> set (w_results w)
     \<and> rid_value id_response = command_value (cp_id id_command)"
  using example_answer answers_match by blast

text \<open>
  What a notification does. A malformed frame is only recorded; an event reaches every
  listener and leaves the waiting command alone; an answer completes the waiting command
  exactly when that command still waits, carries its ref and, under the static ref, is of its
  kind, and otherwise changes nothing of it.
\<close>

theorem notification_effect:
  assumes "receive (se_stream s) data = (st, received)" and "on_notification s data = (s', ds)"
  shows "(\<forall>e. received = Inl e \<longrightarrow> is_protocol_error e \<longrightarrow>
        se_dropped s' = Some e \<and> se_pending s' = se_pending s \<and> ds = [])
    \<and> (\<forall>p enc r. received = Inr (RPayload p enc) \<longrightarrow> response_from_bytes p = Inr r \<longrightarrow> is_event r \<longrightarrow>
        se_pending s' = se_pending s
        \<and> (\<forall>e. parse_event r = Inr (Some e) \<longrightarrow> ds = map (\<lambda>l. (l, e)) (se_listeners s)))
    \<and> (\<forall>p enc r. received = Inr (RPayload p enc) \<longrightarrow> response_from_bytes p = Inr r \<longrightarrow> \<not> is_event r \<longrightarrow>
        ds = [] \<and> se_pending s' = (case se_pending s of
            None \<Rightarrow> None
          | Some q \<Rightarrow> Some (if pd_future q = FWaiting \<and> rs_ref r = pd_command_ref q
                \<and> (pd_static_ref q \<longrightarrow> rid_value r = expected_id (pd_command_id q))
              then q\<lparr>pd_future := FResult r\<rparr> else q)))
    \<and> se_state s' = se_state s \<and> se_ready_at s' = se_ready_at s"
proof (intro conjI allI impI)
  show "se_state s' = se_state s"
    using assms by (auto simp: on_notification_def dispatch_event_def session_drop_def Let_def
        split: sum.splits received.splits option.splits if_splits)
  show "se_ready_at s' = se_ready_at s"
    using callback_only_notification [OF assms(2)] by (rule callback_ready)
qed (use assms in \<open>auto simp: on_notification_def dispatch_event_def session_drop_def match_answer_def
    future_done_def Let_def split: option.splits sum.splits if_splits\<close>)

theorem notification_effect_witness:
  "\<exists>bs. on_notification (waiting_session FWaiting) bs = (waiting_session (FResult key_response), [])
     \<and> se_state (waiting_session (FResult key_response)) = se_state (waiting_session FWaiting)"
proof -
  obtain bs where bs: "on_notification (waiting_session FWaiting) bs
      = (waiting_session (FResult key_response), [])" using key_answer_received by blast
  obtain st rc where "receive (se_stream (waiting_session FWaiting)) bs = (st, rc)"
    by (cases "receive (se_stream (waiting_session FWaiting)) bs")
  from notification_effect [OF this bs] bs show ?thesis by blast
qed

text \<open>
  C7: the app's gates hold on the wire. In every reachable state a command a caller sent
  without skip_app_gates, and which was framed, is one the app would send to a lock of this
  firmware and model.
\<close>

theorem gates_hold:
  assumes "reach (session_start cfg) (session_step cfg) w"
    and "e \<in> set (w_sent w)" and "sn_caller e = ByUser False"
  shows "\<exists>fw. se_firmware (w_session w) = Some fw \<and> MIN_FIRMWARE_CONNECT \<le> fw
    \<and> feature_available (availability (payload_of (sn_command e)) fw (se_model (w_session w)))"
proof -
  have inv: "session_inv cfg w" using assms(1) by (rule session_machine.reach_inv)
  with assms(2,3) have "sent_ok w e" by (simp add: session_inv_def)
  with assms(3) have "gate_open (w_session w) (payload_of (sn_command e))" "w_connect w = Connected"
    by (auto simp: sent_ok_def)
  with inv show ?thesis by (auto simp: gate_open_def session_inv_def firmware_known_def)
qed

theorem gates_hold_witness:
  "\<exists>w e fw. reach (session_start example_cfg) (session_step example_cfg) w \<and> e \<in> set (w_sent w)
     \<and> sn_caller e = ByUser False \<and> se_firmware (w_session w) = Some fw
     \<and> feature_available (availability (payload_of (sn_command e)) fw (se_model (w_session w)))"
proof -
  obtain w s out frames where w: "reach (session_start example_cfg) (session_step example_cfg) w"
      "w_task w = None" "w_waiting w = [(id_command, False)]" "live (w_session w)"
      "se_ready_at (w_session w) \<le> w_now w"
      "exchange_frame (w_session w) id_command = (s, Inr (out, frames))"
    using example_sending by blast
  from reach_step [OF w(1) lock_sends [OF w(2-6)]] obtain v e
    where v: "reach (session_start example_cfg) (session_step example_cfg) v"
      "e \<in> set (w_sent v)" "sn_caller e = ByUser False" by fastforce
  from gates_hold [OF this] v show ?thesis by blast
qed

text \<open>
  C16: commands keep their distance. From any reachable state on, a command is framed no
  earlier than the time the session had set for it; that time is the command delay after an
  answer, and under the static ref the grace for late answers after a timeout, so an answer
  that comes within the grace meets no waiting command.
\<close>

theorem commands_keep_distance:
  assumes "reach (session_start cfg) (session_step cfg) w" and "(session_step cfg)\<^sup>*\<^sup>* w v"
    and "session_step cfg v v'" and "w_sent v' \<noteq> w_sent v"
    and "0 \<le> cfg_command_delay cfg" and "0 \<le> cfg_late_answer_grace cfg"
  shows "(\<exists>e. w_sent v' = w_sent v @ [e] \<and> se_ready_at (w_session w) \<le> sn_time e)
    \<and> se_ready_at (exchange_answered cfg now s) = now + cfg_command_delay cfg
    \<and> (pd_static_ref p \<longrightarrow>
        se_ready_at (fst (exchange_timed_out cfg now p s)) = now + cfg_late_answer_grace cfg)"
proof (intro conjI)
  have "reach (session_start cfg) (session_step cfg) v" by (rule reach_rtranclp [OF assms(1,2)])
  with reach_paced [OF assms(5,6)] have "session_inv cfg v \<and> paced v" by blast
  then have "keeps_pace v v'" using step_keeps_pace assms(3,5,6) by blast
  moreover have "se_ready_at (w_session w) \<le> se_ready_at (w_session v)"
    by (rule run_ready_mono [OF assms(5,6,1,2)])
  ultimately show "\<exists>e. w_sent v' = w_sent v @ [e] \<and> se_ready_at (w_session w) \<le> sn_time e"
    using assms(4) by (auto simp: keeps_pace_def)
qed (simp_all add: exchange_answered_def exchange_timed_out_def exchange_end_def)

theorem commands_keep_distance_witness:
  "\<exists>w v' e. reach (session_start example_cfg) (session_step example_cfg) w
     \<and> session_step example_cfg w v' \<and> w_sent v' = w_sent w @ [e]
     \<and> se_ready_at (w_session w) \<le> sn_time e"
proof -
  obtain w s out frames where w: "reach (session_start example_cfg) (session_step example_cfg) w"
      "w_task w = None" "w_waiting w = [(id_command, False)]" "live (w_session w)"
      "se_ready_at (w_session w) \<le> w_now w"
      "exchange_frame (w_session w) id_command = (s, Inr (out, frames))"
    using example_sending by blast
  from lock_sends [OF w(2-6)] obtain v where v: "session_step example_cfg w v" "w_sent v \<noteq> w_sent w"
    by fastforce
  from commands_keep_distance [OF w(1) _ v] w(1) v(1) show ?thesis
    by (fastforce simp: example_cfg_def)
qed

text \<open>
  C15: no exchange holds the command lock for ever. From any reachable state in which one
  runs, the steps the session takes by itself as time passes (the end of the pause, the
  response timeout), with nobody answering, cancelling or closing, free the lock no later than
  the end of the pause plus the response timeout, and the caller gets an error: the timeout's,
  with the command and the seconds waited, wherever the command was already framed.
\<close>

theorem exchange_ends:
  assumes "reach (session_start cfg) (session_step cfg) w" and "w_task w = Some t"
    and "0 \<le> cfg_response_timeout cfg"
  shows "\<exists>v e. (timer_step cfg)\<^sup>*\<^sup>* w v \<and> w_task v = None \<and> w_now v \<le> task_bound cfg w t
    \<and> told w (tk_caller t) (tk_command t) e v
    \<and> (e = no_answer cfg (tk_command t) \<or> (\<exists>u. tk_pc t = Pausing u))"
proof (cases "\<exists>u. tk_pc t = Pausing u")
  case True
  then show ?thesis using pause_ends [OF session_machine.reach_inv [OF assms(1)] assms(2) _ assms(3)] by blast
next
  case False
  then have "max (w_now w) (tk_deadline t) \<le> task_bound cfg w t"
    by (cases "tk_pc t") (simp_all add: task_bound_def)
  with False timeout_ends [OF session_machine.reach_inv [OF assms(1)] assms(2)] show ?thesis by metis
qed

theorem exchange_ends_witness:
  "\<exists>w t v e. reach (session_start example_cfg) (session_step example_cfg) w \<and> w_task w = Some t
     \<and> (timer_step example_cfg)\<^sup>*\<^sup>* w v \<and> w_task v = None \<and> told w (tk_caller t) (tk_command t) e v"
proof -
  obtain w t where w: "reach (session_start example_cfg) (session_step example_cfg) w" "w_task w = Some t"
    using example_waiting by blast
  from exchange_ends [OF this] w show ?thesis by (fastforce simp: example_cfg_def)
qed

text \<open>
  C17: once connect() has returned, closing is final: in no run from a closed session is
  another command framed, and it stays closed.
\<close>

theorem closing_is_final:
  assumes "reach (session_start cfg) (session_step cfg) w" and "w_connect w = Connected"
    and "(session_step cfg)\<^sup>*\<^sup>* (w\<lparr>w_session := session_close (w_session w)\<rparr>) v"
  shows "se_state (w_session v) = CLOSED \<and> w_sent v = w_sent w"
proof -
  let ?w = "w\<lparr>w_session := session_close (w_session w)\<rparr>"
  have "reach (session_start cfg) (session_step cfg) ?w"
    by (rule reach_step [OF assms(1) close_call])
  from closed_run [OF this assms(3)] assms(2) show ?thesis
    by (simp add: session_close_def fail_pending_def split: option.splits)
qed

theorem closing_is_final_witness:
  "\<exists>w v. reach (session_start example_cfg) (session_step example_cfg) w \<and> w_connect w = Connected
     \<and> (session_step example_cfg)\<^sup>*\<^sup>* (w\<lparr>w_session := session_close (w_session w)\<rparr>) v
     \<and> se_state (w_session v) = CLOSED"
proof -
  obtain w where w: "reach (session_start example_cfg) (session_step example_cfg) w" "w_connect w = Connected"
    using example_connected by blast
  from closing_is_final [OF this rtranclp.rtrancl_refl] w show ?thesis by blast
qed

text \<open>
  C18: While connect() runs, closing is not final. There is a reachable state in which the
  session was closed, the lock's last answer already there but its waiter not yet run, from
  which connect() ends with the session CONNECTED.
\<close>

theorem connect_overwrites_closed:
  "\<exists>w v. reach (session_start example_cfg) (session_step example_cfg) w
     \<and> se_state (w_session w) = CLOSED \<and> session_step example_cfg w v
     \<and> se_state (w_session v) = CONNECTED"
proof -
  obtain w t where w: "reach (session_start example_cfg) (session_step example_cfg) w"
      "w_connect w = KeyExchange" "w_session w = waiting_session (FResult key_response)"
      "w_waiting w = []" "w_task w = Some t" "tk_pc t = Awaiting"
      "tk_command t = key_command" "tk_caller t = ByConnect"
    using example_answered by blast
  let ?w = "w\<lparr>w_session := session_close (w_session w)\<rparr>"
  have r: "reach (session_start example_cfg) (session_step example_cfg) ?w"
    by (rule reach_step [OF w(1) close_call])
  have s: "session_close (w_session w) = (waiting_session (FResult key_response))\<lparr>se_state := CLOSED\<rparr>"
    by (simp add: w(3) session_close_def fail_pending_def waiting_session_def future_done_def)
  have "pending_future (session_close (w_session w)) = FResult key_response"
    "se_firmware (session_close (w_session w)) = Some (4, 6, 0)"
    unfolding s by (simp_all add: pending_future_def waiting_session_def connecting_session_def)
  then have "\<exists>v. session_step example_cfg ?w v \<and> se_state (w_session v) = CONNECTED"
    using answer_connects [of ?w t] w(2,4-8) by auto
  moreover have "se_state (w_session ?w) = CLOSED" by (simp add: s)
  ultimately show ?thesis using r by blast
qed

end
