(* ===== verification/Effects.thy ===== *)
theory Effects
  imports Prelude
begin

text \<open>
  Code that acts on a world and may raise: a function from the world to the world after it
  and an exception or a value. \<open>bindS\<close> is sequencing, \<open>liftE\<close> runs pure code that may raise,
  \<open>tryS\<close> is \<^verbatim>\<open>try: m except: h\<close> with the handler choosing what it catches.
\<close>

type_synonym ('w, 'e, 'a) effect = "'w \<Rightarrow> 'w \<times> ('e + 'a)"

definition returnS :: "'a \<Rightarrow> ('w, 'e, 'a) effect" where
  "returnS x = (\<lambda>w. (w, Inr x))"

definition raiseS :: "'e \<Rightarrow> ('w, 'e, 'a) effect" where
  "raiseS e = (\<lambda>w. (w, Inl e))"

definition bindS :: "('w, 'e, 'a) effect \<Rightarrow> ('a \<Rightarrow> ('w, 'e, 'b) effect) \<Rightarrow> ('w, 'e, 'b) effect" where
  "bindS m f = (\<lambda>w. case m w of (w', Inl e) \<Rightarrow> (w', Inl e) | (w', Inr x) \<Rightarrow> f x w')"

definition liftE :: "'e + 'a \<Rightarrow> ('w, 'e, 'a) effect" where
  "liftE r = (\<lambda>w. (w, r))"

definition tryS :: "('w, 'e, 'a) effect \<Rightarrow> ('e \<Rightarrow> ('w, 'e, 'a) effect) \<Rightarrow> ('w, 'e, 'a) effect" where
  "tryS m h = (\<lambda>w. case m w of (w', Inl e) \<Rightarrow> h e w' | (w', Inr x) \<Rightarrow> (w', Inr x))"

definition mapErr :: "('e \<Rightarrow> 'f) \<Rightarrow> ('w, 'e, 'a) effect \<Rightarrow> ('w, 'f, 'a) effect" where
  "mapErr f m = (\<lambda>w. case m w of (w', Inl e) \<Rightarrow> (w', Inl (f e)) | (w', Inr x) \<Rightarrow> (w', Inr x))"

named_theorems effect_simps \<open>one-step evaluation of effects\<close>

lemma effect_evals [effect_simps]:
  "returnS x w = (w, Inr x)"
  "raiseS e w = (w, Inl e)"
  "liftE r w = (w, r)"
  "m w = (w', Inl e) \<Longrightarrow> bindS m f w = (w', Inl e)"
  "m w = (w', Inr x) \<Longrightarrow> bindS m f w = f x w'"
  "m w = (w', Inl e) \<Longrightarrow> tryS m h w = h e w'"
  "m w = (w', Inr x) \<Longrightarrow> tryS m h w = (w', Inr x)"
  "m w = (w', Inl e) \<Longrightarrow> mapErr g m w = (w', Inl (g e))"
  "m w = (w', Inr x) \<Longrightarrow> mapErr g m w = (w', Inr x)"
  by (simp_all add: returnS_def raiseS_def liftE_def bindS_def tryS_def mapErr_def)

lemma bind_mapErr:
  "m w = (w', Inl e) \<Longrightarrow> bindS (mapErr g m) f w = (w', Inl (g e))"
  "m w = (w', Inr x) \<Longrightarrow> bindS (mapErr g m) f w = f x w'"
  by (simp_all add: bindS_def mapErr_def)

lemma bind_liftE:
  "r = Inl e \<Longrightarrow> bindS (mapErr g (liftE r)) f w = (w, Inl (g e))"
  "r = Inr x \<Longrightarrow> bindS (mapErr g (liftE r)) f w = f x w"
  by (simp_all add: bindS_def mapErr_def liftE_def)

lemma bindS_eq_Inr:
  "bindS m f w = (w', Inr y) \<longleftrightarrow> (\<exists>v x. m w = (v, Inr x) \<and> f x v = (w', Inr y))"
  by (auto simp: bindS_def split: prod.splits sum.splits)

lemma bindS_eq_Inl:
  "bindS m f w = (w', Inl e) \<longleftrightarrow>
     m w = (w', Inl e) \<or> (\<exists>v x. m w = (v, Inr x) \<and> f x v = (w', Inl e))"
  by (auto simp: bindS_def split: prod.splits sum.splits)

lemma mapErr_eq_Inr: "mapErr g m w = (w', Inr x) \<longleftrightarrow> m w = (w', Inr x)"
  by (auto simp: mapErr_def split: prod.splits sum.splits)

lemma mapErr_eq_Inl: "mapErr g m w = (w', Inl e) \<longleftrightarrow> (\<exists>d. m w = (w', Inl d) \<and> e = g d)"
  by (auto simp: mapErr_def split: prod.splits sum.splits)

lemma tryS_eq_Inr:
  "tryS m h w = (w', Inr x) \<longleftrightarrow>
     m w = (w', Inr x) \<or> (\<exists>v e. m w = (v, Inl e) \<and> h e v = (w', Inr x))"
  by (auto simp: tryS_def split: prod.splits sum.splits)

lemma tryS_eq_Inl:
  "tryS m h w = (w', Inl d) \<longleftrightarrow> (\<exists>v e. m w = (v, Inl e) \<and> h e v = (w', Inl d))"
  by (auto simp: tryS_def split: prod.splits sum.splits)

lemmas effect_eqs =
  bindS_eq_Inr bindS_eq_Inl mapErr_eq_Inr mapErr_eq_Inl tryS_eq_Inr tryS_eq_Inl

end
