(* ===== verification/Enrollment.thy ===== *)
theory Enrollment
  imports Session Effects
begin

text \<open>
  \<^verbatim>\<open>ble/client/auth.py\<close> and \<^verbatim>\<open>ble/client/enrollment.py\<close>: the owner login and the steps that
  take over a factory-reset lock. The session is an interface here, the locale
  \<open>command_channel\<close>: a function that sends a command and gives its answer, and the link IV.
  The world holds the channel's state and a trace of the commands handed to it and of the
  calls of \<^verbatim>\<open>save\<close>, so that their order is part of every statement.
\<close>

section \<open>auth.py\<close>

definition DEFAULT_ADMIN_USER_ID :: int where [simp]: "DEFAULT_ADMIN_USER_ID = 0"
definition DEFAULT_ENCRYPTION_KEY :: bytes where "DEFAULT_ENCRYPTION_KEY = replicate 16 17"
definition DEFAULT_DEVICE_ID :: bytes where "DEFAULT_DEVICE_ID = replicate 6 0"

record owner_credential =
  oc_user_id :: int
  oc_device_id :: bytes
  oc_key :: bytes

definition mk_owner_credential :: "int \<Rightarrow> bytes \<Rightarrow> bytes \<Rightarrow> owner_credential res" where
  "mk_owner_credential user_id device_id key =
     bindE (raise_if (\<not> (0 \<le> user_id \<and> user_id \<le> 255))
              (BleValidationError (''User id must be 0-255, got {}'', [user_id]))) (\<lambda>_.
     bindE (raise_if (int (length device_id) \<noteq> DEVICE_ID_LENGTH)
              (BleValidationError (''Device id must be {} bytes, got {}'',
                 [DEVICE_ID_LENGTH, int (length device_id)]))) (\<lambda>_.
     bindE (raise_if (int (length key) \<noteq> AES_KEY_LENGTH)
              (BleValidationError (''Owner key must be {} bytes, got {}'',
                 [AES_KEY_LENGTH, int (length key)]))) (\<lambda>_.
     Inr \<lparr>oc_user_id = user_id, oc_device_id = device_id, oc_key = key\<rparr>)))"

definition DEFAULT_OWNER_CREDENTIAL :: owner_credential where
  "DEFAULT_OWNER_CREDENTIAL = \<lparr>oc_user_id = DEFAULT_ADMIN_USER_ID,
     oc_device_id = DEFAULT_DEVICE_ID, oc_key = DEFAULT_ENCRYPTION_KEY\<rparr>"

section \<open>Enrollment\<close>

definition OWNER_CREDENTIALS :: int where [simp]: "OWNER_CREDENTIALS = 0"

datatype enrollment_step = OWNER_KEY | DEVICE_ID | CLOCK | SERVER_KEY | NAME

definition enrollment_steps :: "enrollment_step list" where
  "enrollment_steps = [OWNER_KEY, DEVICE_ID, CLOCK, SERVER_KEY, NAME]"

text \<open>The order of the steps is the order they run in.\<close>

primrec step_index :: "enrollment_step \<Rightarrow> nat" where
  "step_index OWNER_KEY = 0"
| "step_index DEVICE_ID = 1"
| "step_index CLOCK = 2"
| "step_index SERVER_KEY = 3"
| "step_index NAME = 4"

instantiation enrollment_step :: linorder
begin
definition less_eq_enrollment_step :: "enrollment_step \<Rightarrow> enrollment_step \<Rightarrow> bool" where
  "less_eq_enrollment_step a b \<longleftrightarrow> step_index a \<le> step_index b"
definition less_enrollment_step :: "enrollment_step \<Rightarrow> enrollment_step \<Rightarrow> bool" where
  "less_enrollment_step a b \<longleftrightarrow> step_index a < step_index b"
instance
proof
  fix x y z :: enrollment_step
  show "(x < y) = (x \<le> y \<and> \<not> y \<le> x)" "x \<le> x" "x \<le> y \<or> y \<le> x"
    by (auto simp: less_eq_enrollment_step_def less_enrollment_step_def)
  show "x \<le> y \<Longrightarrow> y \<le> z \<Longrightarrow> x \<le> z" by (auto simp: less_eq_enrollment_step_def)
  show "x \<le> y \<Longrightarrow> y \<le> x \<Longrightarrow> x = y"
    by (cases x; cases y) (simp_all add: less_eq_enrollment_step_def)
qed
end

record enrollment =
  en_device_id :: bytes
  en_owner_key :: bytes
  en_server_private_key :: bytes
  en_name :: string
  en_lock_server_public_key :: "bytes option"
  en_update_private_key :: "bytes option"
  en_lock_update_public_key :: "bytes option"
  en_completed :: "enrollment_step set"
  en_user_id :: int

definition check_device_id :: "bytes \<Rightarrow> unit res" where
  "check_device_id device_id =
     bindE (raise_if (int (length device_id) \<noteq> DEVICE_ID_LENGTH)
              (BleValidationError (''Device id must be {} bytes, got {}'',
                 [DEVICE_ID_LENGTH, int (length device_id)]))) (\<lambda>_.
     raise_if (device_id = DEFAULT_DEVICE_ID)
       (BleValidationError (''Device id must not be all zero, the id of a factory-reset lock'', [])))"

definition check_optional_key :: "bytes option \<Rightarrow> string \<Rightarrow> unit res" where
  "check_optional_key k what =
     (case k of None \<Rightarrow> Inr ()
      | Some k \<Rightarrow> raise_if (int (length k) \<noteq> PUBLIC_KEY_LENGTH)
          (BleValidationError (what @ '' must be {} bytes, got {}'',
             [PUBLIC_KEY_LENGTH, int (length k)])))"

text \<open>\<^verbatim>\<open>Enrollment.__post_init__\<close>, check by check.\<close>

definition enrollment_check :: "crypto_lib \<Rightarrow> enrollment \<Rightarrow> unit res" where
  "enrollment_check lib e =
     bindE (check_device_id (en_device_id e)) (\<lambda>_.
     bindE (raise_if (int (length (en_owner_key e)) \<noteq> AES_KEY_LENGTH)
              (BleValidationError (''Owner key must be {} bytes, got {}'',
                 [AES_KEY_LENGTH, int (length (en_owner_key e))]))) (\<lambda>_.
     bindE (key_pair_from_private_key lib (en_server_private_key e)) (\<lambda>_.
     bindE (device_name_set (en_name e)) (\<lambda>_.
     bindE (raise_if (OWNER_KEY \<notin> en_completed e)
              (BleValidationError (''An enrollment always has its owner key step completed'', []))) (\<lambda>_.
     bindE (raise_if ((SERVER_KEY \<in> en_completed e) \<noteq> (en_lock_server_public_key e \<noteq> None))
              (BleValidationError
                (''The lock's server public key is there exactly when the server key step is done'', []))) (\<lambda>_.
     bindE (check_optional_key (en_lock_server_public_key e) ''Lock server public key'') (\<lambda>_.
     bindE (raise_if ((en_update_private_key e = None) \<noteq> (en_lock_update_public_key e = None))
              (BleValidationError (''The owner key material is both halves or neither'', []))) (\<lambda>_.
     bindE (case en_update_private_key e of None \<Rightarrow> Inr ()
            | Some k \<Rightarrow> bindE (key_pair_from_private_key lib k) (\<lambda>_. Inr ())) (\<lambda>_.
     bindE (check_optional_key (en_lock_update_public_key e) ''Lock update public key'') (\<lambda>_.
     bindE (mk_owner_credential (en_user_id e) (en_device_id e) (en_owner_key e)) (\<lambda>_.
     Inr ())))))))))))"

definition mk_enrollment :: "crypto_lib \<Rightarrow> enrollment \<Rightarrow> enrollment res" where
  "mk_enrollment lib e = bindE (enrollment_check lib e) (\<lambda>_. Inr e)"

definition enrollment_complete :: "enrollment \<Rightarrow> bool" where
  "enrollment_complete e = (\<forall>s \<in> set enrollment_steps. s \<in> en_completed e)"

definition enrollment_remaining :: "enrollment \<Rightarrow> enrollment_step list" where
  "enrollment_remaining e = filter (\<lambda>s. s \<notin> en_completed e) enrollment_steps"

definition enrollment_credential :: "enrollment \<Rightarrow> owner_credential res" where
  "enrollment_credential e =
     mk_owner_credential (en_user_id e)
       (if DEVICE_ID \<in> en_completed e then en_device_id e else DEFAULT_DEVICE_ID) (en_owner_key e)"

definition server_public_key :: "crypto_lib \<Rightarrow> enrollment \<Rightarrow> bytes res" where
  "server_public_key lib e =
     bindE (key_pair_from_private_key lib (en_server_private_key e)) (\<lambda>kp. Inr (kp_public_key kp))"

section \<open>The world of an enrollment\<close>

datatype enroll_error =
    Raised ble_error
  | EnrollmentStopped enrollment_step "enrollment option" ble_error
  | EnrollmentNotSaved enrollment_step enrollment

datatype enroll_event = Sent command_payload | Saved enrollment bool

record 's enroll_world =
  ew_channel :: 's
  ew_trace :: "enroll_event list"

type_synonym ('s, 'a) enroll_m = "('s enroll_world, ble_error, 'a) effect"
type_synonym ('s, 'a) enroll_mm = "('s enroll_world, enroll_error, 'a) effect"

text \<open>The channel an enrollment runs on: what it sends and gets, and the link IV.\<close>

record 's channel =
  ch_send :: "'s \<Rightarrow> command_payload \<Rightarrow> 's \<times> response res"
  ch_iv :: "'s \<Rightarrow> bytes res"

definition channel_send :: "'s channel \<Rightarrow> command_payload \<Rightarrow> ('s, response) enroll_m" where
  "channel_send ch c = (\<lambda>w.
     let (s, r) = ch_send ch (ew_channel w) c
     in (w\<lparr>ew_channel := s, ew_trace := ew_trace w @ [Sent c]\<rparr>, r))"

definition authenticate_owner ::
  "crypto_lib \<Rightarrow> 's channel \<Rightarrow> owner_credential \<Rightarrow> ('s, unit) enroll_m" where
  "authenticate_owner lib ch cred =
     bindS (liftE (user_auth_begin (oc_user_id cred) (oc_device_id cred))) (\<lambda>c.
     bindS (channel_send ch c) (\<lambda>r.
     bindS (liftE (parse_user_auth_begin r)) (\<lambda>begin_answer.
     bindS (\<lambda>w. (w, ch_iv ch (ew_channel w))) (\<lambda>iv.
     bindS (liftE (answer_owner_challenge lib (ub_challenge begin_answer) (oc_key cred) iv)) (\<lambda>answer.
     bindS (liftE (user_auth_finalize answer)) (\<lambda>c.
     bindS (channel_send ch c) (\<lambda>_. returnS ())))))))"

text \<open>\<^verbatim>\<open>_run_step\<close>; \<open>NAME\<close> is the else branch, OWNER_KEY is never remaining.\<close>

definition run_step ::
  "crypto_lib \<Rightarrow> 's channel \<Rightarrow> moment \<Rightarrow> enrollment \<Rightarrow> enrollment_step \<Rightarrow> ('s, enrollment) enroll_m" where
  "run_step lib ch now e step =
     (let completed = insert step (en_completed e) in
      if step = SERVER_KEY
      then bindS (liftE (server_public_key lib e)) (\<lambda>pk.
           bindS (liftE (server_key_update pk)) (\<lambda>c.
           bindS (channel_send ch c) (\<lambda>r.
           bindS (liftE (parse_server_key_update r)) (\<lambda>a.
           liftE (mk_enrollment lib (e\<lparr>en_lock_server_public_key := Some (su_lock_public_key a),
                                       en_completed := completed\<rparr>))))))
      else bindS (liftE (if step = DEVICE_ID then device_id_set (en_device_id e)
                         else if step = CLOCK then bindE (to_lock_time now) current_time_set
                         else device_name_set (en_name e))) (\<lambda>c.
           bindS (channel_send ch c) (\<lambda>_.
           liftE (mk_enrollment lib (e\<lparr>en_completed := completed\<rparr>)))))"

text \<open>\<^verbatim>\<open>_save\<close>: the caller's function either returns or raises.\<close>

definition save_enrollment ::
  "(enrollment \<Rightarrow> bool) \<Rightarrow> enrollment_step \<Rightarrow> enrollment \<Rightarrow> ('s, unit) enroll_mm" where
  "save_enrollment save step e = (\<lambda>w.
     (w\<lparr>ew_trace := ew_trace w @ [Saved e (save e)]\<rparr>,
      if save e then Inr () else Inl (EnrollmentNotSaved step e)))"

fun run_steps ::
  "crypto_lib \<Rightarrow> 's channel \<Rightarrow> moment \<Rightarrow> (enrollment \<Rightarrow> bool) \<Rightarrow> enrollment \<Rightarrow> enrollment_step list
     \<Rightarrow> ('s, enrollment) enroll_mm" where
  "run_steps lib ch now save e [] = returnS e"
| "run_steps lib ch now save e (step # steps) =
     bindS (mapErr (\<lambda>err. if is_ble_error err then EnrollmentStopped step (Some e) err else Raised err)
              (run_step lib ch now e step)) (\<lambda>e'.
     bindS (save_enrollment save step e') (\<lambda>_.
     run_steps lib ch now save e' steps))"

definition run_remaining ::
  "crypto_lib \<Rightarrow> 's channel \<Rightarrow> moment \<Rightarrow> (enrollment \<Rightarrow> bool) \<Rightarrow> enrollment \<Rightarrow> ('s, enrollment) enroll_mm" where
  "run_remaining lib ch now save e = run_steps lib ch now save e (enrollment_remaining e)"

text \<open>
  \<^verbatim>\<open>enroll()\<close> with the device id, the server's private key and the UserAuthUpdate key pair it
  was given or drew.
\<close>

definition enroll_owner_key ::
  "crypto_lib \<Rightarrow> 's channel \<Rightarrow> key_pair \<Rightarrow> ('s, bytes \<times> bytes) enroll_m" where
  "enroll_owner_key lib ch update_key =
     bindS (liftE (user_auth_update DEFAULT_ADMIN_USER_ID OWNER_CREDENTIALS (kp_public_key update_key))) (\<lambda>c.
     bindS (channel_send ch c) (\<lambda>r.
     bindS (liftE (parse_user_auth_update r)) (\<lambda>answer.
     bindS (liftE (derive_owner_key lib (kp_private_key update_key) (uu_public_key answer))) (\<lambda>owner_key.
     returnS (owner_key, uu_public_key answer)))))"

definition enroll ::
  "crypto_lib \<Rightarrow> 's channel \<Rightarrow> string \<Rightarrow> (enrollment \<Rightarrow> bool) \<Rightarrow> bytes \<Rightarrow> bytes \<Rightarrow> moment \<Rightarrow> key_pair
     \<Rightarrow> ('s, enrollment) enroll_mm" where
  "enroll lib ch name save device_id server_private_key now update_key =
     bindS (mapErr Raised (liftE (
       bindE (device_name_set name) (\<lambda>_.
       bindE (check_device_id device_id) (\<lambda>_.
       bindE (key_pair_from_private_key lib server_private_key) (\<lambda>_. Inr ())))))) (\<lambda>_.
     bindS (mapErr Raised (authenticate_owner lib ch DEFAULT_OWNER_CREDENTIAL)) (\<lambda>_.
     bindS (mapErr (\<lambda>err. if is_ble_error err then EnrollmentStopped OWNER_KEY None err else Raised err)
              (enroll_owner_key lib ch update_key)) (\<lambda>(owner_key, lock_key).
     bindS (mapErr Raised (liftE (mk_enrollment lib
        \<lparr>en_device_id = device_id, en_owner_key = owner_key, en_server_private_key = server_private_key,
         en_name = name, en_lock_server_public_key = None,
         en_update_private_key = Some (kp_private_key update_key),
         en_lock_update_public_key = Some lock_key, en_completed = {OWNER_KEY},
         en_user_id = DEFAULT_ADMIN_USER_ID\<rparr>))) (\<lambda>e.
     bindS (save_enrollment save OWNER_KEY e) (\<lambda>_.
     run_remaining lib ch now save e)))))"

definition log_in_to_resume ::
  "crypto_lib \<Rightarrow> 's channel \<Rightarrow> enrollment \<Rightarrow> ('s, enrollment) enroll_m" where
  "log_in_to_resume lib ch e =
     bindS (liftE (enrollment_credential e)) (\<lambda>cred.
     tryS (bindS (authenticate_owner lib ch cred) (\<lambda>_. returnS e))
       (\<lambda>err. if \<not> is_security_error err \<or> DEVICE_ID \<in> en_completed e then raiseS err
              else bindS (liftE (mk_owner_credential (en_user_id e) (en_device_id e) (en_owner_key e))) (\<lambda>cred.
                   bindS (authenticate_owner lib ch cred) (\<lambda>_.
                   liftE (mk_enrollment lib (e\<lparr>en_completed := insert DEVICE_ID (en_completed e)\<rparr>))))))"

definition resume_enrollment ::
  "crypto_lib \<Rightarrow> 's channel \<Rightarrow> enrollment \<Rightarrow> (enrollment \<Rightarrow> bool) \<Rightarrow> moment \<Rightarrow> ('s, enrollment) enroll_mm" where
  "resume_enrollment lib ch e save now =
     (if enrollment_complete e then returnS e
      else bindS (mapErr Raised (log_in_to_resume lib ch e)) (\<lambda>logged_in.
           bindS (if logged_in \<noteq> e then save_enrollment save DEVICE_ID logged_in else returnS ()) (\<lambda>_.
           run_remaining lib ch now save logged_in)))"

text \<open>\<^verbatim>\<open>new_device_id\<close> draws until a candidate is not the factory id.\<close>

fun new_device_id :: "bytes list \<Rightarrow> bytes option" where
  "new_device_id [] = None"
| "new_device_id (candidate # rest) =
     (if candidate \<noteq> DEFAULT_DEVICE_ID then Some candidate else new_device_id rest)"

section \<open>The session as the channel\<close>

text \<open>
  What an enrollment relies on: an answer that comes back is a success of its command's kind.
\<close>

locale command_channel =
  fixes ch :: "'s channel"
  assumes answer_ok: "ch_send ch s c = (s', Inr r) \<Longrightarrow> response_is_ok r"
    and answer_kind: "ch_send ch s c = (s', Inr r) \<Longrightarrow> rid_value r = command_value (cp_id c)"

text \<open>
  \<^verbatim>\<open>Session.send\<close> run to its end with nothing else going on, over a script of what the lock
  answers to each command in turn; None is no answer in time. The gate, the framing, the
  matching of the answer and the checks after it are the session's own.
\<close>

definition session_send ::
  "session_config \<Rightarrow> session \<times> response option list \<Rightarrow> command_payload
     \<Rightarrow> (session \<times> response option list) \<times> response res" where
  "session_send cfg st c =
     (let (s, script) = st in
      case send_gate s c False of
        Inl e \<Rightarrow> (st, Inl e)
      | Inr _ \<Rightarrow>
          (case exchange_frame s c of
             (s, Inl e) \<Rightarrow> ((s, script), Inl e)
           | (s, Inr (out, frames)) \<Rightarrow>
               (let answered = (case script of Some r # _ \<Rightarrow> match_answer s r | _ \<Rightarrow> s)
                in case (se_pending answered, pending_future answered) of
                     (Some p, FResult r) \<Rightarrow>
                       ((exchange_answered cfg (se_ready_at s) answered, tl script), check_answer c r)
                   | (Some p, _) \<Rightarrow>
                       (let (s, e, cause) = exchange_timed_out cfg (se_ready_at s) p answered
                        in ((s, tl script), Inl e))
                   | (None, _) \<Rightarrow> ((answered, tl script), Inl (not_connected answered)))))"

definition session_channel :: "session_config \<Rightarrow> (session \<times> response option list) channel" where
  "session_channel cfg =
     \<lparr>ch_send = session_send cfg,
      ch_iv = (\<lambda>(s, _). bindE (session_link_keys s) (\<lambda>k. Inr (lk_iv k)))\<rparr>"

lemma check_answer_Inr_id:
  "check_answer c r = Inr r' \<Longrightarrow> response_is_ok r' \<and> rid_value r' = command_value (cp_id c)"
  using expected_response_id_total [of "cp_id c"]
  by (auto simp: check_answer_def bindE_eq_Inr raise_for_status_cases expected_id_def split: if_splits)

lemma session_send_answer:
  "session_send cfg st c = (st', Inr r) \<Longrightarrow> response_is_ok r \<and> rid_value r = command_value (cp_id c)"
  by (auto simp: session_send_def Let_def dest: check_answer_Inr_id
      split: prod.splits sum.splits option.splits answer_future.splits)

interpretation session_link: command_channel "session_channel cfg"
  by unfold_locales (auto simp: session_channel_def dest: session_send_answer)

context command_channel
begin

text \<open>
  Over such a channel the challenge step fails only with the session's own error or with a
  payload too short for a challenge; the id and status checks of the parser never do.
\<close>

lemma challenge_parse:
  assumes "user_auth_begin u d = Inr c" "ch_send ch s c = (s', Inr r)"
  shows "(\<exists>m. parse_user_auth_begin r = Inl (BleProtocolError m)) \<and> length (rs_payload r) < 16
    \<or> parse_user_auth_begin r = Inr \<lparr>ub_challenge = take 16 (rs_payload r)\<rparr>"
proof -
  have "cp_id c = CMD_USER_AUTH_BEGIN"
    using assms(1) by (auto simp: user_auth_begin_def bindE_eq_Inr)
  then have r: "response_is_ok r" "rid_value r = response_value RSP_USER_AUTH_BEGIN"
    using answer_ok [OF assms(2)] answer_kind [OF assms(2)] by simp_all
  show ?thesis
  proof (cases "length (rs_payload r) < 16")
    case True
    have "expect_response r RSP_USER_AUTH_BEGIN True = Inr (reader_at [] (rs_payload r))"
      using r by (simp add: expect_response_Inr)
    with True show ?thesis
      using reader_take_short [of 16 "rs_payload r" "[]"]
      by (auto simp: parse_user_auth_begin_def read_bytes_def)
  next
    case False
    then show ?thesis using r by (simp add: parse_user_auth_begin_Inr)
  qed
qed

end

end
