(* ===== verification/Enrollment_Props.thy ===== *)
theory Enrollment_Props
  imports Enrollment "HOL-Library.Sublist"
begin

text \<open>
  What an enrollment guarantees about the order of commands and saves, what its errors carry,
  and what a resumed enrollment sends again.
\<close>

section \<open>Traces\<close>

text \<open>The last enrollment that was stored.\<close>

fun last_saved :: "enrollment option \<Rightarrow> enroll_event list \<Rightarrow> enrollment option" where
  "last_saved d [] = d"
| "last_saved d (Saved e True # tr) = last_saved (Some e) tr"
| "last_saved d (_ # tr) = last_saved d tr"

text \<open>The commands of a login, which change nothing on the lock.\<close>

definition login_ids :: "command_id list" where
  [simp]: "login_ids = [CMD_USER_AUTH_BEGIN, CMD_USER_AUTH_FINALIZE]"

text \<open>
  \<open>saved_first saved tr\<close>: before the owner key nothing goes out but a login, then UserAuthUpdate;
  after it every command is sent directly after a save that went through, so the first event after
  UserAuthUpdate is a save if there is one. \<open>saved\<close> is None before UserAuthUpdate, and else whether
  the event before was a save that went through.
\<close>

fun saved_first :: "bool option \<Rightarrow> enroll_event list \<Rightarrow> bool" where
  "saved_first st [] = True"
| "saved_first None (Saved e ok # tr) = False"
| "saved_first None (Sent c # tr) =
     (if cp_id c = CMD_USER_AUTH_UPDATE then saved_first (Some False) tr
      else cp_id c \<in> set login_ids \<and> saved_first None tr)"
| "saved_first (Some fresh) (Saved e ok # tr) = saved_first (Some ok) tr"
| "saved_first (Some fresh) (Sent c # tr) = (fresh \<and> saved_first (Some False) tr)"

definition sent_ids :: "enroll_event list \<Rightarrow> command_id list" where
  "sent_ids tr = concat (map (\<lambda>x. case x of Sent c \<Rightarrow> [cp_id c] | _ \<Rightarrow> []) tr)"

lemma sent_ids_simps [simp]:
  "sent_ids [] = []" "sent_ids (Sent c # tr) = cp_id c # sent_ids tr"
  "sent_ids (Saved e ok # tr) = sent_ids tr" "sent_ids (xs @ ys) = sent_ids xs @ sent_ids ys"
  by (simp_all add: sent_ids_def)

lemma last_saved_sent: "\<forall>x \<in> set tr. \<exists>c. x = Sent c \<Longrightarrow> last_saved d (tr @ ys) = last_saved d ys"
  by (induction tr) auto

lemma saved_first_login:
  "\<forall>x \<in> set tr. \<exists>c. x = Sent c \<Longrightarrow> set (sent_ids tr) \<subseteq> set login_ids \<Longrightarrow>
     saved_first None (tr @ ys) = saved_first None ys"
  by (induction tr) auto

text \<open>After a login that went through and the key update, the next event has to be a save.\<close>

lemma saved_first_key:
  "\<forall>x \<in> set tr. \<exists>c. x = Sent c \<Longrightarrow> set (sent_ids tr) \<subseteq> set login_ids \<Longrightarrow>
     cp_id c = CMD_USER_AUTH_UPDATE \<Longrightarrow> saved_first None (tr @ Sent c # ys) = saved_first (Some False) ys"
  by (simp only: saved_first_login) simp

section \<open>Sending, logging in\<close>

lemma channel_send_trace:
  "channel_send ch c w = (w', r) \<Longrightarrow> ew_trace w' = ew_trace w @ [Sent c]"
  by (auto simp: channel_send_def split: prod.splits)

lemma login_begin_refused: "user_auth_begin u d = Inl err \<Longrightarrow> \<not> is_security_error err"
  by (auto simp: user_auth_begin_def bindE_eq_Inl check_length_def raise_if_def write_uint8_def write_uint_def
      write_bytes_def is_security_error_def split: if_splits)

lemma login_trace:
  assumes "authenticate_owner lib ch cred w = (w', r)"
  shows "\<exists>tr. ew_trace w' = ew_trace w @ tr \<and> (\<forall>x \<in> set tr. \<exists>c. x = Sent c)
    \<and> set (sent_ids tr) \<subseteq> {CMD_USER_AUTH_BEGIN, CMD_USER_AUTH_FINALIZE}
    \<and> (r = Inr () \<longrightarrow> sent_ids tr = [CMD_USER_AUTH_BEGIN, CMD_USER_AUTH_FINALIZE])
    \<and> prefix (sent_ids tr) login_ids \<and> (\<forall>d. r = Inl d \<longrightarrow> is_security_error d \<longrightarrow> sent_ids tr \<noteq> [])"
proof (cases r)
  case (Inl e)
  then show ?thesis
    using assms by (auto simp: authenticate_owner_def effect_eqs liftE_def returnS_def
        user_auth_begin_def user_auth_finalize_def bindE_eq_Inr
        dest!: channel_send_trace dest: login_begin_refused [unfolded user_auth_begin_def DEVICE_ID_LENGTH_def])
next
  case (Inr u)
  then show ?thesis
    using assms by (auto simp: authenticate_owner_def effect_eqs liftE_def returnS_def
        user_auth_begin_def user_auth_finalize_def bindE_eq_Inr dest!: channel_send_trace)
qed

section \<open>Steps\<close>

definition step_command :: "enrollment_step \<Rightarrow> command_id" where
  "step_command step = (case step of
     OWNER_KEY \<Rightarrow> CMD_USER_AUTH_UPDATE | DEVICE_ID \<Rightarrow> CMD_DEVICE_ID_SET
   | CLOCK \<Rightarrow> CMD_CURRENT_TIME_SET | SERVER_KEY \<Rightarrow> CMD_SERVER_KEY_UPDATE
   | NAME \<Rightarrow> CMD_DEVICE_NAME_SET)"

lemma mk_enrollment_Inr: "mk_enrollment lib e = Inr e' \<longleftrightarrow> e' = e \<and> enrollment_check lib e = Inr ()"
  by (auto simp: mk_enrollment_def bindE_eq_Inr)

lemma run_step_trace:
  assumes "run_step lib ch now e step w = (w', r)" "step \<noteq> OWNER_KEY"
  shows "(ew_trace w' = ew_trace w \<and> (\<exists>d. r = Inl d))
    \<or> (\<exists>c. ew_trace w' = ew_trace w @ [Sent c] \<and> cp_id c = step_command step)"
  using assms
  by (cases r) (auto simp: run_step_def Let_def effect_eqs liftE_def step_command_def
      server_key_update_def device_id_set_def current_time_set_def device_name_set_def bindE_eq_Inr
      split: if_splits enrollment_step.splits dest!: channel_send_trace)

lemma run_step_Inr:
  assumes "run_step lib ch now e step w = (w', Inr e')" "step \<noteq> OWNER_KEY"
  shows "en_completed e' = insert step (en_completed e)
    \<and> (\<exists>c. ew_trace w' = ew_trace w @ [Sent c] \<and> cp_id c = step_command step)
    \<and> enrollment_check lib e' = Inr ()
    \<and> en_owner_key e' = en_owner_key e \<and> en_device_id e' = en_device_id e
    \<and> en_user_id e' = en_user_id e"
  using assms run_step_trace [OF assms]
  by (auto simp: run_step_def Let_def effect_eqs liftE_def mk_enrollment_Inr split: if_splits)

text \<open>What one run of the remaining steps leaves behind.\<close>

definition stop_consistent :: "enrollment \<Rightarrow> enroll_event list \<Rightarrow> enroll_error + enrollment \<Rightarrow> bool" where
  "stop_consistent e tr r \<longleftrightarrow> (case r of
     Inr e' \<Rightarrow> last_saved (Some e) tr = Some e'
   | Inl (EnrollmentStopped step (Some e') err) \<Rightarrow>
       last_saved (Some e) tr = Some e' \<and> step \<notin> en_completed e'
   | Inl (EnrollmentStopped step None err) \<Rightarrow> False
   | Inl (EnrollmentNotSaved step e') \<Rightarrow>
       (\<exists>tr'. tr = tr' @ [Saved e' False]) \<and> step \<in> en_completed e'
   | Inl (Raised err) \<Rightarrow> \<not> is_ble_error err)"

text \<open>What a run that returns has sent, and what it returns.\<close>

definition ran_all :: "enrollment \<Rightarrow> enrollment_step list \<Rightarrow> enroll_event list \<Rightarrow> enrollment \<Rightarrow> bool" where
  "ran_all e steps tr e' \<longleftrightarrow> sent_ids tr = map step_command steps
     \<and> en_completed e' = en_completed e \<union> set steps
     \<and> en_owner_key e' = en_owner_key e \<and> en_device_id e' = en_device_id e
     \<and> en_user_id e' = en_user_id e"

lemma run_steps_trace:
  assumes "run_steps lib ch now save e steps w = (w', r)"
    and "OWNER_KEY \<notin> set steps" "distinct steps" "set steps \<inter> en_completed e = {}"
  shows "\<exists>tr. ew_trace w' = ew_trace w @ tr \<and> saved_first (Some True) tr \<and> stop_consistent e tr r
    \<and> prefix (sent_ids tr) (map step_command steps) \<and> (\<forall>e'. r = Inr e' \<longrightarrow> ran_all e steps tr e')"
  using assms
proof (induction steps arbitrary: e w)
  case Nil
  then show ?case by (auto simp: returnS_def stop_consistent_def ran_all_def)
next
  case (Cons step steps)
  have ne: "step \<noteq> OWNER_KEY" using Cons.prems(2) by auto
  obtain w1 r1 where s: "run_step lib ch now e step w = (w1, r1)"
    by (cases "run_step lib ch now e step w")
  show ?case
  proof (cases r1)
    case (Inl d)
    have "\<exists>tr. ew_trace w1 = ew_trace w @ tr \<and> saved_first (Some True) tr
        \<and> last_saved (Some e) tr = Some e \<and> prefix (sent_ids tr) (map step_command (step # steps))"
      using run_step_trace [OF s ne] by (auto intro: exI [of _ "[]"] exI [of _ "[Sent _]"])
    then show ?thesis
      using Cons.prems s Inl by (auto simp: effect_evals stop_consistent_def split: if_splits)
  next
    case (Inr e1)
    note i = run_step_Inr [OF s [unfolded Inr] ne]
    then obtain c where c: "ew_trace w1 = ew_trace w @ [Sent c]" "cp_id c = step_command step" by blast
    let ?w2 = "w1\<lparr>ew_trace := ew_trace w1 @ [Saved e1 (save e1)]\<rparr>"
    show ?thesis
    proof (cases "save e1")
      case False
      then have "w' = ?w2" "r = Inl (EnrollmentNotSaved step e1)"
        using Cons.prems(1) s Inr by (simp_all add: effect_evals save_enrollment_def)
      then show ?thesis
        using c i False by (intro exI [of _ "[Sent c, Saved e1 False]"]) (auto simp: stop_consistent_def)
    next
      case True
      then have run: "run_steps lib ch now save e1 steps ?w2 = (w', r)"
        using Cons.prems(1) s Inr by (simp add: effect_evals save_enrollment_def)
      have "set steps \<inter> en_completed e1 = {}" using Cons.prems(3,4) i by auto
      from Cons.IH [OF run _ _ this] Cons.prems(2,3) obtain tr where
        tr: "ew_trace w' = ew_trace ?w2 @ tr" "saved_first (Some True) tr" "stop_consistent e1 tr r"
          "prefix (sent_ids tr) (map step_command steps)" "\<forall>e'. r = Inr e' \<longrightarrow> ran_all e1 steps tr e'" by auto
      let ?tr = "Sent c # Saved e1 True # tr"
      have "stop_consistent e ?tr r"
        using tr(3) by (auto simp: stop_consistent_def split: sum.splits enroll_error.splits option.splits)
      moreover have "ran_all e1 steps tr e' \<Longrightarrow> ran_all e (step # steps) ?tr e'" for e'
        using c(2) i by (simp add: ran_all_def)
      then have "\<forall>e'. r = Inr e' \<longrightarrow> ran_all e (step # steps) ?tr e'" using tr(5) by blast
      moreover have "prefix (sent_ids ?tr) (map step_command (step # steps))" using tr(4) c(2) by simp
      moreover have "ew_trace w' = ew_trace w @ ?tr" using tr(1) c(1) True by simp
      moreover have "saved_first (Some True) ?tr" using tr(2) by simp
      ultimately show ?thesis by (intro exI [of _ ?tr] conjI)
    qed
  qed
qed

section \<open>A whole enrollment\<close>

lemma enrollment_check_owner: "enrollment_check lib e = Inr () \<Longrightarrow> OWNER_KEY \<in> en_completed e"
  by (auto simp: enrollment_check_def bindE_eq_Inr)

lemma remaining_props:
  "OWNER_KEY \<in> en_completed e \<Longrightarrow> OWNER_KEY \<notin> set (enrollment_remaining e)"
  "distinct (enrollment_remaining e)" "set (enrollment_remaining e) \<inter> en_completed e = {}"
  "set (enrollment_remaining e) \<union> en_completed e = UNIV"
  "enrollment_complete e = (enrollment_remaining e = [])"
proof -
  have "x \<in> set enrollment_steps" for x
    by (cases x) (simp_all add: enrollment_steps_def)
  then show "set (enrollment_remaining e) \<union> en_completed e = UNIV"
    by (auto simp: enrollment_remaining_def)
  show "enrollment_complete e = (enrollment_remaining e = [])"
    by (auto simp: enrollment_complete_def enrollment_remaining_def filter_empty_conv)
  have "distinct enrollment_steps" by (simp add: enrollment_steps_def)
  then show "distinct (enrollment_remaining e)" by (simp add: enrollment_remaining_def)
qed (auto simp: enrollment_remaining_def)

lemma complete_of_steps:
  "en_completed e' = en_completed e \<union> set (enrollment_remaining e) \<Longrightarrow> enrollment_complete e'"
  using remaining_props(4) [of e] by (auto simp: enrollment_complete_def)

lemma run_remaining_trace:
  assumes "run_remaining lib ch now save e w = (w', r)" "OWNER_KEY \<in> en_completed e"
  shows "\<exists>tr. ew_trace w' = ew_trace w @ tr \<and> saved_first (Some True) tr \<and> stop_consistent e tr r
    \<and> prefix (sent_ids tr) (map step_command (enrollment_remaining e))
    \<and> (\<forall>e'. r = Inr e' \<longrightarrow> ran_all e (enrollment_remaining e) tr e')"
  by (rule run_steps_trace [OF assms(1) [unfolded run_remaining_def]
      remaining_props(1) [OF assms(2)] remaining_props(2,3)])

lemma ran_all_complete: "ran_all e (enrollment_remaining e) tr e' \<Longrightarrow> enrollment_complete e'"
  by (rule complete_of_steps) (simp add: ran_all_def)

lemma owner_key_trace:
  assumes "enroll_owner_key lib ch uk w = (w', r)"
  shows "(ew_trace w' = ew_trace w \<and> (\<exists>d. r = Inl d))
    \<or> (\<exists>c. ew_trace w' = ew_trace w @ [Sent c] \<and> cp_id c = CMD_USER_AUTH_UPDATE)"
  using assms
  by (cases r) (auto simp: enroll_owner_key_def effect_eqs liftE_def returnS_def user_auth_update_def
      bindE_eq_Inr dest!: channel_send_trace)

text \<open>How an enrollment or a resumed one ends, read off the whole trace.\<close>

definition ends_consistent :: "enrollment option \<Rightarrow> enroll_event list \<Rightarrow> enroll_error + enrollment \<Rightarrow> bool" where
  "ends_consistent e0 tr r \<longleftrightarrow> (case r of
     Inr e \<Rightarrow> last_saved e0 tr = Some e \<and> enrollment_complete e
   | Inl (EnrollmentStopped step e err) \<Rightarrow>
       last_saved e0 tr = e \<and> (\<forall>e'. e = Some e' \<longrightarrow> step \<notin> en_completed e')
   | Inl (EnrollmentNotSaved step e) \<Rightarrow> (\<exists>tr'. tr = tr' @ [Saved e False]) \<and> step \<in> en_completed e
   | Inl (Raised err) \<Rightarrow> is_ble_error err \<longrightarrow> last_saved e0 tr = e0)"

lemma ends_after_save:
  assumes "stop_consistent e tr r" "\<forall>x \<in> set pre. \<exists>c. x = Sent c"
    and "\<forall>e'. r = Inr e' \<longrightarrow> enrollment_complete e'"
  shows "ends_consistent e0 (pre @ Saved e True # tr) r"
proof -
  have "last_saved e0 (pre @ Saved e True # tr) = last_saved (Some e) tr"
    using last_saved_sent [OF assms(2)] by simp
  then show ?thesis
    using assms(1,3) by (auto simp: stop_consistent_def ends_consistent_def
        split: sum.splits enroll_error.splits option.splits)
qed

lemma only_sent_ends: "\<forall>x \<in> set tr. \<exists>c. x = Sent c \<Longrightarrow> last_saved d tr = d"
  using last_saved_sent [of tr d "[]"] by simp

text \<open>An enrollment falls into its phases, each ending in one of these ways.\<close>

lemma enroll_phases:
  assumes "enroll lib ch name save device_id server_key now update_key w0 = (w, r)"
  shows "(\<exists>d. r = Inl (Raised d) \<and> w = w0)
    \<or> (\<exists>d. r = Inl (Raised d) \<and> authenticate_owner lib ch DEFAULT_OWNER_CREDENTIAL w0 = (w, Inl d))
    \<or> (\<exists>w1 d. authenticate_owner lib ch DEFAULT_OWNER_CREDENTIAL w0 = (w1, Inr ())
        \<and> enroll_owner_key lib ch update_key w1 = (w, Inl d)
        \<and> r = Inl (if is_ble_error d then EnrollmentStopped OWNER_KEY None d else Raised d))
    \<or> (\<exists>w1 w2 ok lk. authenticate_owner lib ch DEFAULT_OWNER_CREDENTIAL w0 = (w1, Inr ())
        \<and> enroll_owner_key lib ch update_key w1 = (w2, Inr (ok, lk))
        \<and> ((\<exists>d. r = Inl (Raised d) \<and> w = w2)
           \<or> (\<exists>e. enrollment_check lib e = Inr () \<and> en_completed e = {OWNER_KEY}
                \<and> en_device_id e = device_id \<and> en_owner_key e = ok \<and> en_user_id e = 0
                \<and> bindS (save_enrollment save OWNER_KEY e) (\<lambda>_. run_remaining lib ch now save e) w2
                    = (w, r))))"
proof -
  let ?pure = "bindE (device_name_set name) (\<lambda>_. bindE (check_device_id device_id) (\<lambda>_.
    bindE (key_pair_from_private_key lib server_key) (\<lambda>_. Inr ())))"
  let ?e = "\<lambda>ok lk. \<lparr>en_device_id = device_id, en_owner_key = ok, en_server_private_key = server_key,
     en_name = name, en_lock_server_public_key = None,
     en_update_private_key = Some (kp_private_key update_key),
     en_lock_update_public_key = Some lk, en_completed = {OWNER_KEY},
     en_user_id = DEFAULT_ADMIN_USER_ID\<rparr>"
  let ?rest = "\<lambda>e. bindS (save_enrollment save OWNER_KEY e) (\<lambda>_. run_remaining lib ch now save e)"
  let ?stop = "\<lambda>d. if is_ble_error d then EnrollmentStopped OWNER_KEY None d else Raised d"
  let ?login = "authenticate_owner lib ch DEFAULT_OWNER_CREDENTIAL"
  let ?key = "enroll_owner_key lib ch update_key"
  obtain w1 r1 where login: "authenticate_owner lib ch DEFAULT_OWNER_CREDENTIAL w0 = (w1, r1)"
    by (cases "authenticate_owner lib ch DEFAULT_OWNER_CREDENTIAL w0")
  obtain w2 r2 where key: "enroll_owner_key lib ch update_key w1 = (w2, r2)"
    by (cases "enroll_owner_key lib ch update_key w1")
  have run: "bindS (mapErr Raised (liftE ?pure)) (\<lambda>_.
      bindS (mapErr Raised (authenticate_owner lib ch DEFAULT_OWNER_CREDENTIAL)) (\<lambda>_.
      bindS (mapErr ?stop (enroll_owner_key lib ch update_key)) (\<lambda>(ok, lk).
      bindS (mapErr Raised (liftE (mk_enrollment lib (?e ok lk)))) ?rest))) w0 = (w, r)"
    using assms unfolding enroll_def by simp
  consider d where "?pure = Inl d"
    | d where "?pure = Inr ()" "r1 = Inl d"
    | d where "?pure = Inr ()" "r1 = Inr ()" "r2 = Inl d"
    | ok lk where "?pure = Inr ()" "r1 = Inr ()" "r2 = Inr (ok, lk)"
    by (cases ?pure; cases r1; cases r2) auto
  then show ?thesis
  proof cases
    case 1
    note run [unfolded bind_liftE(1) [OF 1]]
    then show ?thesis by blast
  next
    case 2
    note run [unfolded bind_liftE(2) [OF 2(1)] bind_mapErr(1) [where m = ?login and w = w0, OF login [unfolded 2]]]
    then show ?thesis using login 2 by auto
  next
    case 3
    note run [unfolded bind_liftE(2) [OF 3(1)] bind_mapErr(2) [where m = ?login and w = w0, OF login [unfolded 3]]
        bind_mapErr(1) [where m = ?key and w = w1, OF key [unfolded 3]]]
    then show ?thesis using login key 3 by blast
  next
    case 4
    note after = run [unfolded bind_liftE(2) [OF 4(1)] bind_mapErr(2) [where m = ?login and w = w0, OF login [unfolded 4]]
        bind_mapErr(2) [where m = ?key and w = w1, OF key [unfolded 4]] prod.case]
    show ?thesis
    proof (cases "enrollment_check lib (?e ok lk)")
      case (Inl d)
      then have "mk_enrollment lib (?e ok lk) = Inl d"
        by (simp only: mk_enrollment_def bindE.simps)
      note after [unfolded bind_liftE(1) [OF this]]
      then show ?thesis using login key 4 by blast
    next
      case (Inr u)
      then have "mk_enrollment lib (?e ok lk) = Inr (?e ok lk)"
        by (simp only: mk_enrollment_def bindE.simps)
      note fin = after [unfolded bind_liftE(2) [OF this]]
      have "enrollment_check lib (?e ok lk) = Inr ()" using Inr by simp
      moreover have "en_completed (?e ok lk) = {OWNER_KEY} \<and> en_device_id (?e ok lk) = device_id
          \<and> en_owner_key (?e ok lk) = ok \<and> en_user_id (?e ok lk) = 0" by simp
      ultimately show ?thesis using login key 4 fin by blast
    qed
  qed
qed

text \<open>
  After a save of \<open>e\<close> for a step, and the remaining steps: \<open>tr\<close> is what happens from that save on.
\<close>

lemma saved_then_runs:
  assumes run: "bindS (save_enrollment save step e) (\<lambda>_. run_remaining lib ch now save e) w2 = (w, r)"
    and owner: "OWNER_KEY \<in> en_completed e" and step: "step \<in> en_completed e"
    and sent: "\<forall>x \<in> set (ew_trace w2). \<exists>c. x = Sent c"
  shows "\<exists>tr. ew_trace w = ew_trace w2 @ Saved e (save e) # tr \<and> saved_first (Some (save e)) tr
    \<and> ends_consistent e0 (ew_trace w) r \<and> prefix (sent_ids tr) (map step_command (enrollment_remaining e))
    \<and> (\<forall>e'. r = Inr e' \<longrightarrow> save e \<and> enrollment_complete e' \<and> ran_all e (enrollment_remaining e) tr e')"
proof (cases "save e")
  case False
  then have "w = w2\<lparr>ew_trace := ew_trace w2 @ [Saved e False]\<rparr>" "r = Inl (EnrollmentNotSaved step e)"
    using run by (auto simp: bindS_def save_enrollment_def)
  then show ?thesis using step False by (simp add: ends_consistent_def)
next
  case True
  then have "run_remaining lib ch now save e (w2\<lparr>ew_trace := ew_trace w2 @ [Saved e True]\<rparr>) = (w, r)"
    using run by (auto simp: bindS_def save_enrollment_def)
  from run_remaining_trace [OF this owner] obtain tr where
    tr: "ew_trace w = ew_trace w2 @ Saved e True # tr" "saved_first (Some True) tr"
      "stop_consistent e tr r" "prefix (sent_ids tr) (map step_command (enrollment_remaining e))"
      "\<forall>e'. r = Inr e' \<longrightarrow> ran_all e (enrollment_remaining e) tr e'" by auto
  then have "\<forall>e'. r = Inr e' \<longrightarrow> enrollment_complete e'" using ran_all_complete by blast
  from ends_after_save [OF tr(3) sent this]
  have "ends_consistent e0 (ew_trace w) r" using tr(1) by simp
  then show ?thesis using tr True \<open>\<forall>e'. r = Inr e' \<longrightarrow> enrollment_complete e'\<close> by (intro exI [of _ tr]) simp
qed

section \<open>Resuming\<close>

text \<open>
  How a resume logs in: with the enrollment's own credential, and when the lock refuses that for
  security and the device id step is not marked done, once more with the enrolled device id, which
  settles that step.
\<close>

definition resume_logged_in ::
  "crypto_lib \<Rightarrow> 's channel \<Rightarrow> enrollment \<Rightarrow> 's enroll_world \<Rightarrow> 's enroll_world \<Rightarrow> enrollment \<Rightarrow> bool" where
  "resume_logged_in lib ch e w0 w1 e1 \<longleftrightarrow>
     (\<exists>cred. enrollment_credential e = Inr cred \<and>
       (authenticate_owner lib ch cred w0 = (w1, Inr ()) \<and> e1 = e
        \<or> (\<exists>w err cred2. authenticate_owner lib ch cred w0 = (w, Inl err) \<and> is_security_error err
             \<and> DEVICE_ID \<notin> en_completed e
             \<and> mk_owner_credential (en_user_id e) (en_device_id e) (en_owner_key e) = Inr cred2
             \<and> authenticate_owner lib ch cred2 w = (w1, Inr ())
             \<and> e1 = e\<lparr>en_completed := insert DEVICE_ID (en_completed e)\<rparr>)))"

lemma resume_login_cases:
  assumes "log_in_to_resume lib ch e w = (w', r)"
  shows "(\<forall>e1. r = Inr e1 \<longrightarrow> resume_logged_in lib ch e w w' e1)
    \<and> (\<exists>tr. ew_trace w' = ew_trace w @ tr \<and> (\<forall>x \<in> set tr. \<exists>c. x = Sent c) \<and> set (sent_ids tr) \<subseteq> set login_ids)"
proof (cases "enrollment_credential e")
  case (Inl d)
  then show ?thesis
    using assms by (auto simp: log_in_to_resume_def bindS_def liftE_def)
next
  case (Inr cred)
  let ?e1 = "e\<lparr>en_completed := insert DEVICE_ID (en_completed e)\<rparr>"
  let ?again = "bindS (liftE (mk_owner_credential (en_user_id e) (en_device_id e) (en_owner_key e)))
    (\<lambda>cred. bindS (authenticate_owner lib ch cred) (\<lambda>_. liftE (mk_enrollment lib ?e1)))"
  obtain w1 r1 where login: "authenticate_owner lib ch cred w = (w1, r1)"
    by (cases "authenticate_owner lib ch cred w")
  from login_trace [OF login] obtain tr1 where
    tr1: "ew_trace w1 = ew_trace w @ tr1" "\<forall>x \<in> set tr1. \<exists>c. x = Sent c" "set (sent_ids tr1) \<subseteq> set login_ids"
    by auto
  consider "r1 = Inr ()" | d where "r1 = Inl d" "\<not> is_security_error d \<or> DEVICE_ID \<in> en_completed e"
    | d where "r1 = Inl d" "is_security_error d" "DEVICE_ID \<notin> en_completed e"
    by (cases r1) auto
  then show ?thesis
  proof cases
    case 1
    then show ?thesis
      using assms login Inr tr1
      by (auto simp: log_in_to_resume_def bindS_def tryS_def liftE_def returnS_def resume_logged_in_def)
  next
    case 2
    then show ?thesis
      using assms login Inr tr1
      by (auto simp: log_in_to_resume_def bindS_def tryS_def liftE_def raiseS_def)
  next
    case 3
    then have again: "?again w1 = (w', r)"
      using assms login Inr by (simp add: log_in_to_resume_def bindS_def tryS_def liftE_def)
    show ?thesis
    proof (cases "mk_owner_credential (en_user_id e) (en_device_id e) (en_owner_key e)")
      case (Inl d)
      then show ?thesis using again tr1 by (auto simp: bindS_def liftE_def)
    next
      case cred2: (Inr cred2)
      obtain w2 r2 where login2: "authenticate_owner lib ch cred2 w1 = (w2, r2)"
        by (cases "authenticate_owner lib ch cred2 w1")
      from login_trace [OF login2] obtain tr2 where
        tr2: "ew_trace w2 = ew_trace w1 @ tr2" "\<forall>x \<in> set tr2. \<exists>c. x = Sent c" "set (sent_ids tr2) \<subseteq> set login_ids"
        by auto
      have end2: "w' = w2 \<and> (\<forall>e1. r = Inr e1 \<longrightarrow> r2 = Inr () \<and> e1 = ?e1)"
        using again cred2 login2
        by (cases r2) (auto simp: bindS_def liftE_def mk_enrollment_Inr)
      have "resume_logged_in lib ch e w w' e1" if "r = Inr e1" for e1
        using that end2 Inr login 3 cred2 login2 by (auto simp: resume_logged_in_def)
      moreover have "ew_trace w' = ew_trace w @ tr1 @ tr2" using end2 tr1(1) tr2(1) by simp
      ultimately show ?thesis
        using tr1(2,3) tr2(2,3) by (intro conjI exI [of _ "tr1 @ tr2"]) auto
    qed
  qed
qed

lemma resume_login_trace:
  assumes "log_in_to_resume lib ch e w = (w', r)"
  shows "\<exists>tr. ew_trace w' = ew_trace w @ tr \<and> (\<forall>x \<in> set tr. \<exists>c. x = Sent c)
    \<and> set (sent_ids tr) \<subseteq> {CMD_USER_AUTH_BEGIN, CMD_USER_AUTH_FINALIZE}
    \<and> (\<forall>e1. r = Inr e1 \<longrightarrow> e1 = e
          \<or> DEVICE_ID \<notin> en_completed e \<and> e1 = e\<lparr>en_completed := insert DEVICE_ID (en_completed e)\<rparr>)"
  using resume_login_cases [OF assms] by (auto simp: resume_logged_in_def)

text \<open>The commands of that login.\<close>

lemma resume_login_ids:
  assumes "resume_logged_in lib ch e w0 w1 e1"
  shows "\<exists>tr. ew_trace w1 = ew_trace w0 @ tr \<and> (e1 = e \<and> sent_ids tr = login_ids
    \<or> e1 \<noteq> e \<and> sent_ids tr \<in> {CMD_USER_AUTH_BEGIN # login_ids, login_ids @ login_ids})"
proof -
  from assms obtain cred where cases: "authenticate_owner lib ch cred w0 = (w1, Inr ()) \<and> e1 = e
        \<or> (\<exists>w err cred2. authenticate_owner lib ch cred w0 = (w, Inl err) \<and> is_security_error err
             \<and> DEVICE_ID \<notin> en_completed e \<and> authenticate_owner lib ch cred2 w = (w1, Inr ())
             \<and> e1 = e\<lparr>en_completed := insert DEVICE_ID (en_completed e)\<rparr>)"
    unfolding resume_logged_in_def by blast
  then show ?thesis
  proof (elim disjE exE conjE)
    assume "authenticate_owner lib ch cred w0 = (w1, Inr ())" "e1 = e"
    with login_trace [OF this(1)] show ?thesis by auto
  next
    fix w err cred2
    assume a: "authenticate_owner lib ch cred w0 = (w, Inl err)" "is_security_error err"
      "DEVICE_ID \<notin> en_completed e" "authenticate_owner lib ch cred2 w = (w1, Inr ())"
      "e1 = e\<lparr>en_completed := insert DEVICE_ID (en_completed e)\<rparr>"
    from login_trace [OF a(1)] a(2) obtain tr1 where tr1: "ew_trace w = ew_trace w0 @ tr1"
      "prefix (sent_ids tr1) login_ids" "sent_ids tr1 \<noteq> []" by blast
    from login_trace [OF a(4)] obtain tr2 where tr2: "ew_trace w1 = ew_trace w @ tr2" "sent_ids tr2 = login_ids"
      by auto
    have "sent_ids tr1 = [CMD_USER_AUTH_BEGIN] \<or> sent_ids tr1 = login_ids"
      using tr1(2,3) by (auto simp: prefix_Cons)
    moreover have "e1 \<noteq> e"
      using a(3,5) by (metis enrollment.select_convs(8) enrollment.surjective enrollment.update_convs(8) insertI1)
    ultimately show ?thesis using tr1(1) tr2 by (intro exI [of _ "tr1 @ tr2"]) auto
  qed
qed

text \<open>What follows the login of a resume.\<close>

lemma resumed_rest:
  assumes run: "bindS (if e1 \<noteq> e then save_enrollment save DEVICE_ID e1 else returnS ())
        (\<lambda>_. run_remaining lib ch now save e1) w1 = (w, r)"
    and sent: "\<forall>x \<in> set (ew_trace w1). \<exists>c. x = Sent c" and owner: "OWNER_KEY \<in> en_completed e"
    and log: "resume_logged_in lib ch e w0 w1 e1"
  shows "\<exists>rest. ew_trace w = ew_trace w1 @ rest \<and> saved_first (Some True) rest
    \<and> ends_consistent (Some e) (ew_trace w) r
    \<and> (\<forall>e'. r = Inr e' \<longrightarrow> enrollment_complete e' \<and> sent_ids rest = map step_command (enrollment_remaining e1)
        \<and> (e1 \<noteq> e \<longrightarrow> (\<exists>tr. rest = Saved e1 True # tr)))"
proof (cases "e1 = e")
  case True
  then have "run_remaining lib ch now save e w1 = (w, r)" using run by (simp add: bindS_def returnS_def)
  from run_remaining_trace [OF this owner] obtain tr where
    tr: "ew_trace w = ew_trace w1 @ tr" "saved_first (Some True) tr" "stop_consistent e tr r"
      "\<forall>e'. r = Inr e' \<longrightarrow> ran_all e (enrollment_remaining e) tr e'" by blast
  have "ends_consistent (Some e) (ew_trace w) r"
    using tr(1,3,4) last_saved_sent [OF sent] ran_all_complete
    by (auto simp: stop_consistent_def ends_consistent_def split: sum.splits enroll_error.splits option.splits)
  moreover have "enrollment_complete e' \<and> sent_ids tr = map step_command (enrollment_remaining e)" if "r = Inr e'" for e'
    using tr(4) that ran_all_complete by (auto simp: ran_all_def)
  ultimately show ?thesis using tr(1,2) True by (intro exI [of _ tr]) simp
next
  case False
  then have e1: "DEVICE_ID \<in> en_completed e1" "OWNER_KEY \<in> en_completed e1"
    using log owner by (auto simp: resume_logged_in_def)
  from run False have "bindS (save_enrollment save DEVICE_ID e1) (\<lambda>_. run_remaining lib ch now save e1) w1 = (w, r)"
    by simp
  from saved_then_runs [OF this e1(2,1) sent, of "Some e"] obtain tr where
    tr: "ew_trace w = ew_trace w1 @ Saved e1 (save e1) # tr" "saved_first (Some (save e1)) tr"
      "ends_consistent (Some e) (ew_trace w) r"
      "\<forall>e'. r = Inr e' \<longrightarrow> save e1 \<and> enrollment_complete e' \<and> ran_all e1 (enrollment_remaining e1) tr e'" by blast
  have "save e1 \<and> enrollment_complete e' \<and> sent_ids tr = map step_command (enrollment_remaining e1)" if "r = Inr e'" for e'
    using tr(4) that by (auto simp: ran_all_def)
  then show ?thesis
    using tr(1-3) by (intro exI [of _ "Saved e1 (save e1) # tr"]) auto
qed

section \<open>A lock that answers every command\<close>

definition friendly_channel :: "unit channel" where
  "friendly_channel = \<lparr>
     ch_send = (\<lambda>_ c. ((), Inr \<lparr>rs_id = Raw (command_value (cp_id c)), rs_ref = 0,
       rs_status = Known STATUS_SUCCESS, rs_payload = 5 # replicate 63 0\<rparr>)),
     ch_iv = (\<lambda>_. Inr (replicate 16 0))\<rparr>"

interpretation friendly: command_channel friendly_channel
  by unfold_locales (auto simp: friendly_channel_def response_is_ok_def)

abbreviation fresh_world :: "unit enroll_world" where
  "fresh_world \<equiv> \<lparr>ew_channel = (), ew_trace = []\<rparr>"

definition example_enrollment :: "enrollment_step set \<Rightarrow> enrollment" where
  "example_enrollment completed = \<lparr>en_device_id = replicate 6 1, en_owner_key = replicate 16 3,
     en_server_private_key = 1 # replicate 31 0, en_name = ''lock'', en_lock_server_public_key = None,
     en_update_private_key = None, en_lock_update_public_key = None, en_completed = completed,
     en_user_id = 0\<rparr>"

lemma example_enrolls:
  "case snd (enroll small_lib friendly_channel ''lock'' (\<lambda>_. True) (replicate 6 1) (1 # replicate 31 0)
       (Aware 1000000000000000)
       \<lparr>kp_private_key = 1 # replicate 31 0, kp_public_key = encode_public_key (1, 0)\<rparr> fresh_world)
   of Inr e \<Rightarrow> True | Inl e \<Rightarrow> False"
  by code_simp

lemma example_resumes:
  "enrollment_check small_lib (example_enrollment {OWNER_KEY, CLOCK}) = Inr ()"
  "case snd (resume_enrollment small_lib friendly_channel (example_enrollment {OWNER_KEY, CLOCK})
       (\<lambda>_. True) (Aware 1000000000000000) fresh_world)
   of Inr e \<Rightarrow> True | Inl e \<Rightarrow> False"
  by code_simp+

definition enroll_ids :: "command_id list" where
  "enroll_ids = [CMD_USER_AUTH_BEGIN, CMD_USER_AUTH_FINALIZE, CMD_USER_AUTH_UPDATE,
     CMD_DEVICE_ID_SET, CMD_CURRENT_TIME_SET, CMD_SERVER_KEY_UPDATE, CMD_DEVICE_NAME_SET]"

lemma enroll_run:
  assumes "enroll lib ch name save device_id server_key now update_key
      \<lparr>ew_channel = s, ew_trace = []\<rparr> = (w, r)"
  shows "saved_first None (ew_trace w) \<and> ends_consistent None (ew_trace w) r
    \<and> prefix (sent_ids (ew_trace w)) enroll_ids
    \<and> (\<forall>e. r = Inr e \<longrightarrow> en_device_id e = device_id \<and> sent_ids (ew_trace w) = enroll_ids)"
  using enroll_phases [OF assms]
proof (elim disjE exE conjE, goal_cases)
  case (1 d)
  then show ?case by (simp add: ends_consistent_def)
next
  case (2 d)
  from login_trace [OF 2(2)] have "\<forall>x \<in> set (ew_trace w). \<exists>c. x = Sent c"
    "set (sent_ids (ew_trace w)) \<subseteq> set login_ids" "prefix (sent_ids (ew_trace w)) login_ids" by auto
  then show ?case
    using 2 only_sent_ends saved_first_login [of "ew_trace w" "[]"]
    by (auto simp: ends_consistent_def enroll_ids_def prefix_Cons)
next
  case (3 w1 d)
  from login_trace [OF 3(1)] have t1: "\<forall>x \<in> set (ew_trace w1). \<exists>c. x = Sent c"
    "sent_ids (ew_trace w1) = login_ids" by auto
  note login = saved_first_login [OF t1(1), of "[]"] saved_first_key [OF t1(1), of _ "[]"]
  from owner_key_trace [OF 3(2)] show ?case
    using 3(3) t1 login only_sent_ends [of "ew_trace w"] by (auto simp: ends_consistent_def enroll_ids_def)
next
  case (4 w1 w2 ok lk d)
  from login_trace [OF 4(1)] have t1: "\<forall>x \<in> set (ew_trace w1). \<exists>c. x = Sent c"
    "sent_ids (ew_trace w1) = login_ids" by auto
  note login = saved_first_key [OF t1(1), of _ "[]"]
  from owner_key_trace [OF 4(2)] show ?case
    using 4 t1 login only_sent_ends [of "ew_trace w"] by (auto simp: ends_consistent_def enroll_ids_def)
next
  case (5 w1 w2 ok lk e)
  from login_trace [OF 5(1)] have t1: "\<forall>x \<in> set (ew_trace w1). \<exists>c. x = Sent c"
    "sent_ids (ew_trace w1) = login_ids" by auto
  from owner_key_trace [OF 5(2)] obtain c where
    t2: "ew_trace w2 = ew_trace w1 @ [Sent c]" "cp_id c = CMD_USER_AUTH_UPDATE" by auto
  have owner: "OWNER_KEY \<in> en_completed e" using 5(4) by simp
  have sent: "\<forall>x \<in> set (ew_trace w2). \<exists>c. x = Sent c" using t1(1) t2(1) by auto
  from saved_then_runs [OF 5(8) owner owner sent, of None] obtain tr where
    tr: "ew_trace w = ew_trace w2 @ Saved e (save e) # tr" "saved_first (Some (save e)) tr"
      "ends_consistent None (ew_trace w) r" "prefix (sent_ids tr) (map step_command (enrollment_remaining e))"
      "\<forall>e'. r = Inr e' \<longrightarrow> ran_all e (enrollment_remaining e) tr e'" by auto
  have "saved_first None (ew_trace w)"
    using saved_first_key [OF t1(1) _ t2(2), of "Saved e (save e) # tr"] t1(2) tr(1,2) t2(1) by simp
  moreover have "enrollment_remaining e = [DEVICE_ID, CLOCK, SERVER_KEY, NAME]"
    using 5(4) by (simp add: enrollment_remaining_def enrollment_steps_def)
  ultimately show ?case
    using tr t2 t1(2) 5(5) by (auto simp: ran_all_def step_command_def enroll_ids_def)
qed

section \<open>Properties\<close>



text \<open>
  C32: resuming sends only what is missing. A complete enrollment sends nothing. Else there is
  first the login, exactly as \<open>resume_logged_in\<close> has it: with the enrollment's own credential,
  and only when the lock refused that for security and the device id step is not marked done,
  again with the enrolled id, whose success settles the step and is saved before anything else
  is sent. Then comes each step that is left, once and in order, each after a save of the one
  before; the error of a failed step carries what was saved last.
\<close>

theorem resume_sends_the_rest:
  assumes "resume_enrollment lib ch e save now \<lparr>ew_channel = s, ew_trace = []\<rparr> = (w, r)"
    and "enrollment_check lib e = Inr ()"
  shows "(enrollment_complete e \<longrightarrow> r = Inr e \<and> ew_trace w = [])
    \<and> (\<not> enrollment_complete e \<longrightarrow> ends_consistent (Some e) (ew_trace w) r
      \<and> (\<exists>login rest. ew_trace w = login @ rest \<and> saved_first (Some True) rest
          \<and> (\<forall>x \<in> set login. \<exists>c. x = Sent c \<and> cp_id c \<in> set login_ids)
          \<and> (\<forall>e'. r = Inr e' \<longrightarrow> enrollment_complete e' \<and>
              (\<exists>w1 e1. resume_logged_in lib ch e \<lparr>ew_channel = s, ew_trace = []\<rparr> w1 e1 \<and> ew_trace w1 = login
                \<and> (e1 = e \<and> sent_ids login = login_ids
                   \<or> e1 \<noteq> e \<and> sent_ids login \<in> {CMD_USER_AUTH_BEGIN # login_ids, login_ids @ login_ids}
                      \<and> (\<exists>tr. rest = Saved e1 True # tr))
                \<and> sent_ids rest = map step_command (enrollment_remaining e1)))))"
proof (cases "enrollment_complete e")
  case True
  then show ?thesis
    using assms by (auto simp: resume_enrollment_def returnS_def)
next
  case False
  let ?w0 = "\<lparr>ew_channel = s, ew_trace = []\<rparr>"
  obtain w1 r1 where login: "log_in_to_resume lib ch e ?w0 = (w1, r1)"
    by (cases "log_in_to_resume lib ch e ?w0")
  from resume_login_cases [OF login] have sent: "\<forall>x \<in> set (ew_trace w1). \<exists>c. x = Sent c"
    "set (sent_ids (ew_trace w1)) \<subseteq> set login_ids" and logged: "\<And>e1. r1 = Inr e1 \<Longrightarrow> resume_logged_in lib ch e ?w0 w1 e1"
    by auto
  have pre: "\<forall>x \<in> set (ew_trace w1). \<exists>c. x = Sent c \<and> cp_id c \<in> set login_ids"
  proof
    fix x assume x: "x \<in> set (ew_trace w1)"
    with sent(1) obtain c where "x = Sent c" by blast
    moreover from this x have "cp_id c \<in> set (sent_ids (ew_trace w1))" by (force simp: sent_ids_def)
    ultimately show "\<exists>c. x = Sent c \<and> cp_id c \<in> set login_ids" using sent(2) by blast
  qed
  have owner: "OWNER_KEY \<in> en_completed e" using enrollment_check_owner [OF assms(2)] .
  show ?thesis
  proof (cases r1)
    case (Inl d)
    then have "w = w1" "r = Inl (Raised d)"
      using assms(1) False login by (auto simp: resume_enrollment_def bindS_def mapErr_def)
    then have "ends_consistent (Some e) (ew_trace w) r" "ew_trace w = ew_trace w1 @ []" "saved_first (Some True) []"
      using only_sent_ends [OF sent(1)] by (simp_all add: ends_consistent_def)
    then show ?thesis using False pre \<open>r = Inl (Raised d)\<close> by blast
  next
    case (Inr e1)
    note log = logged [OF Inr]
    have run: "bindS (if e1 \<noteq> e then save_enrollment save DEVICE_ID e1 else returnS ())
        (\<lambda>_. run_remaining lib ch now save e1) w1 = (w, r)"
      using assms(1) False login Inr by (simp add: resume_enrollment_def bind_mapErr)
    obtain rest where rest: "ew_trace w = ew_trace w1 @ rest" "saved_first (Some True) rest"
        "ends_consistent (Some e) (ew_trace w) r"
        "\<forall>e'. r = Inr e' \<longrightarrow> enrollment_complete e' \<and> sent_ids rest = map step_command (enrollment_remaining e1)
            \<and> (e1 \<noteq> e \<longrightarrow> (\<exists>tr. rest = Saved e1 True # tr))"
      using resumed_rest [OF run sent(1) owner log] that by (elim exE conjE)
    from resume_login_ids [OF log] have ids: "e1 = e \<and> sent_ids (ew_trace w1) = login_ids
        \<or> e1 \<noteq> e \<and> sent_ids (ew_trace w1) \<in> {CMD_USER_AUTH_BEGIN # login_ids, login_ids @ login_ids}" by auto
    have last: "\<forall>e'. r = Inr e' \<longrightarrow> enrollment_complete e' \<and>
        (\<exists>w2 e2. resume_logged_in lib ch e ?w0 w2 e2 \<and> ew_trace w2 = ew_trace w1
          \<and> (e2 = e \<and> sent_ids (ew_trace w1) = login_ids
             \<or> e2 \<noteq> e \<and> sent_ids (ew_trace w1) \<in> {CMD_USER_AUTH_BEGIN # login_ids, login_ids @ login_ids}
                \<and> (\<exists>tr. rest = Saved e2 True # tr))
          \<and> sent_ids rest = map step_command (enrollment_remaining e2))"
      using rest(4) log ids by blast
    show ?thesis using False rest(1,2,3) pre last by blast
  qed
qed

theorem resume_sends_the_rest_witness:
  "\<exists>w e. resume_enrollment small_lib friendly_channel (example_enrollment {OWNER_KEY, CLOCK})
       (\<lambda>_. True) (Aware 1000000000000000) fresh_world = (w, Inr e)
     \<and> enrollment_complete e
     \<and> (\<exists>login rest. ew_trace w = login @ rest \<and> set login \<noteq> {} \<and> saved_first (Some True) rest)"
proof -
  let ?run = "resume_enrollment small_lib friendly_channel (example_enrollment {OWNER_KEY, CLOCK})
       (\<lambda>_. True) (Aware 1000000000000000) fresh_world"
  obtain w e where run: "?run = (w, Inr e)"
    using example_resumes(2) by (cases ?run) (auto split: sum.splits)
  have "\<not> enrollment_complete (example_enrollment {OWNER_KEY, CLOCK})"
    by (simp add: enrollment_complete_def example_enrollment_def enrollment_steps_def)
  with resume_sends_the_rest [OF run example_resumes(1)] obtain login rest where
    l: "ew_trace w = login @ rest" "saved_first (Some True) rest" "enrollment_complete e" "sent_ids login \<noteq> []"
    by fastforce
  then have "login \<noteq> []" by auto
  then show ?thesis using run l by fastforce
qed

end
