(* ===== verification/Py_Values.thy ===== *)
theory Py_Values
  imports Prelude
begin

text \<open>
  Python values of unknown type, as they come out of stored options and out of another
  library: \<open>py\<close> is the sum of the types the code tests for with \<^verbatim>\<open>isinstance\<close>. A float is
  represented by the integer it equals, None for every other float; a dict keeps its
  insertion order. Then the decimal and hexadecimal text the code formats and parses.
\<close>

datatype py =
    PNone
  | PBool bool
  | PInt int
  | PFloat "int option"
  | PStr string
  | PList "py list"
  | PDict "(string \<times> py) list"

type_synonym py_map = "string \<rightharpoonup> py"

text \<open>\<^verbatim>\<open>m.get(k)\<close>: None for a missing key.\<close>

definition py_get :: "py_map \<Rightarrow> string \<Rightarrow> py" where
  "py_get m k = (case m k of None \<Rightarrow> PNone | Some v \<Rightarrow> v)"

text \<open>\<^verbatim>\<open>bool(v)\<close>; a float that is not an integer is not zero.\<close>

fun py_truth :: "py \<Rightarrow> bool" where
  "py_truth PNone = False"
| "py_truth (PBool b) = b"
| "py_truth (PInt n) = (n \<noteq> 0)"
| "py_truth (PFloat f) = (f \<noteq> Some 0)"
| "py_truth (PStr s) = (s \<noteq> [])"
| "py_truth (PList l) = (l \<noteq> [])"
| "py_truth (PDict d) = (d \<noteq> [])"

text \<open>The number a value compares as: a bool is an int, an integral float equals its int.\<close>

fun py_number :: "py \<Rightarrow> int option" where
  "py_number (PBool b) = Some (if b then 1 else 0)"
| "py_number (PInt n) = Some n"
| "py_number (PFloat f) = f"
| "py_number _ = None"

text \<open>\<^verbatim>\<open>isinstance(v, int)\<close> and the int it is; a bool is one.\<close>

fun py_int :: "py \<Rightarrow> int option" where
  "py_int (PBool b) = Some (if b then 1 else 0)"
| "py_int (PInt n) = Some n"
| "py_int _ = None"

lemma py_get_simps [simp]:
  "m k = Some v \<Longrightarrow> py_get m k = v"
  "m k = None \<Longrightarrow> py_get m k = PNone"
  by (simp_all add: py_get_def)

section \<open>Characters\<close>

abbreviation code_point :: "char \<Rightarrow> nat" where
  "code_point c \<equiv> of_char c"

text \<open>\<^verbatim>\<open>str.isascii\<close>, \<^verbatim>\<open>str.isdigit\<close> and the \<^verbatim>\<open>\d\<close> of a regular expression, for code points below
  256: \<^verbatim>\<open>isdigit\<close> also holds for the three superscripts.\<close>

definition is_ascii :: "char \<Rightarrow> bool" where
  "is_ascii c \<longleftrightarrow> code_point c < 128"

definition is_decimal :: "char \<Rightarrow> bool" where
  "is_decimal c \<longleftrightarrow> 48 \<le> code_point c \<and> code_point c \<le> 57"

definition is_digit :: "char \<Rightarrow> bool" where
  "is_digit c \<longleftrightarrow> is_decimal c \<or> code_point c \<in> {178, 179, 185}"

definition str_isascii :: "string \<Rightarrow> bool" where
  "str_isascii s = list_all is_ascii s"

definition str_isdigit :: "string \<Rightarrow> bool" where
  "str_isdigit s = (s \<noteq> [] \<and> list_all is_digit s)"

text \<open>\<^verbatim>\<open>str.lower\<close>, for code points below 256.\<close>

definition lower_char :: "char \<Rightarrow> char" where
  "lower_char c = (let n = code_point c in
     if 65 \<le> n \<and> n \<le> 90 \<or> 192 \<le> n \<and> n \<le> 222 \<and> n \<noteq> 215 then char_of (n + 32) else c)"

definition str_lower :: "string \<Rightarrow> string" where
  "str_lower s = map lower_char s"

lemma lower_char_idem [simp]: "lower_char (lower_char c) = lower_char c"
proof -
  have "code_point c < 256" by simp
  then show ?thesis by (auto simp: lower_char_def Let_def)
qed

lemma str_lower_idem [simp]: "str_lower (str_lower s) = str_lower s"
  by (simp add: str_lower_def o_def)

lemma ascii_digit: "is_ascii c \<Longrightarrow> is_digit c \<longleftrightarrow> is_decimal c"
  by (auto simp: is_ascii_def is_digit_def)

lemma decimal_ascii: "is_decimal c \<Longrightarrow> is_ascii c"
  by (simp add: is_ascii_def is_decimal_def)

lemma ascii_digits:
  "str_isascii s \<and> str_isdigit s \<longleftrightarrow> s \<noteq> [] \<and> list_all is_decimal s"
  using ascii_digit decimal_ascii by (auto simp: str_isascii_def str_isdigit_def list_all_iff)

section \<open>Decimal text\<close>

definition digit_char :: "nat \<Rightarrow> char" where
  "digit_char n = char_of (48 + n)"

fun str_nat :: "nat \<Rightarrow> string" where
  "str_nat n = (if n < 10 then [digit_char n] else str_nat (n div 10) @ [digit_char (n mod 10)])"

declare str_nat.simps [simp del]

definition str_int :: "int \<Rightarrow> string" where
  "str_int i = (if i < 0 then CHR ''-'' # str_nat (nat (- i)) else str_nat (nat i))"

definition digit_value :: "char \<Rightarrow> nat" where
  "digit_value c = code_point c - 48"

definition nat_of_str :: "string \<Rightarrow> nat" where
  "nat_of_str s = foldl (\<lambda>n c. 10 * n + digit_value c) 0 s"

lemma digit_char_simps [simp]:
  assumes "n < 10"
  shows "code_point (digit_char n) = 48 + n" "digit_value (digit_char n) = n" "is_decimal (digit_char n)"
  using assms by (simp_all add: digit_char_def digit_value_def is_decimal_def)

lemma nat_of_str_snoc [simp]: "nat_of_str (s @ [c]) = 10 * nat_of_str s + digit_value c"
  by (simp add: nat_of_str_def)

lemma nat_of_str_str [simp]: "nat_of_str (str_nat n) = n"
proof (induction n rule: str_nat.induct)
  case (1 n)
  then show ?case
  proof (cases "n < 10")
    case True
    then show ?thesis using nat_of_str_snoc [of "[]" "digit_char n"]
      by (simp add: str_nat.simps [of n]) (simp add: nat_of_str_def)
  qed (simp add: str_nat.simps [of n])
qed

lemma str_nat_decimal: "list_all is_decimal (str_nat n) \<and> str_nat n \<noteq> []"
proof (induction n rule: str_nat.induct)
  case (1 n)
  then show ?case by (cases "n < 10") (simp_all add: str_nat.simps [of n])
qed

lemma str_nat_inj [simp]: "str_nat m = str_nat n \<longleftrightarrow> m = n"
  using nat_of_str_str by metis

lemma str_int_inj [simp]: "str_int i = str_int j \<longleftrightarrow> i = j"
proof
  have minus: "\<not> is_decimal (CHR ''-'')" by (simp add: is_decimal_def)
  have ne: "CHR ''-'' # s \<noteq> str_nat n" for s n
    using str_nat_decimal [of n] minus by (metis list.pred_inject(2))
  assume "str_int i = str_int j"
  then show "i = j"
    using ne ne [symmetric] by (auto simp: str_int_def split: if_splits)
qed simp

section \<open>Templates\<close>

text \<open>
  \<^verbatim>\<open>str.format(**fields)\<close> for templates of plain named fields, which is what translations hold:
  one pass, so a value is never read as a template again. None is the KeyError of an unknown
  field or the ValueError of a brace that stands alone.
\<close>

function str_format :: "(string \<rightharpoonup> string) \<Rightarrow> string \<Rightarrow> string option" where
  "str_format fields [] = Some []"
| "str_format fields (c # cs) =
     (if c = CHR ''{''
      then if cs \<noteq> [] \<and> hd cs = CHR ''{''
           then map_option ((#) (CHR ''{'')) (str_format fields (tl cs))
           else let field = takeWhile (\<lambda>x. x \<noteq> CHR ''}'') cs;
                    rest = dropWhile (\<lambda>x. x \<noteq> CHR ''}'') cs
                in if rest = [] then None
                   else (case fields field of
                       None \<Rightarrow> None
                     | Some v \<Rightarrow> map_option ((@) v) (str_format fields (tl rest)))
      else if c = CHR ''}''
      then if cs \<noteq> [] \<and> hd cs = CHR ''}''
           then map_option ((#) (CHR ''}'')) (str_format fields (tl cs))
           else None
      else map_option ((#) c) (str_format fields cs))"
  by pat_completeness auto
termination
proof (relation "measure (\<lambda>(_, s). length s)", goal_cases)
  case (3 fields c cs field rest v)
  have "length (tl rest) \<le> length cs"
    unfolding 3 using length_dropWhile_le [of _ cs] by (simp add: le_diff_conv le_SucI)
  then show ?case by simp
qed (auto simp: le_imp_less_Suc)

section \<open>Hexadecimal text\<close>

definition hex_digit :: "nat \<Rightarrow> char" where
  "hex_digit n = char_of (if n < 10 then 48 + n else 87 + n)"

text \<open>\<^verbatim>\<open>bytes.hex()\<close>\<close>

fun bytes_hex :: "bytes \<Rightarrow> string" where
  "bytes_hex [] = []"
| "bytes_hex (b # bs) = hex_digit (unat b div 16) # hex_digit (unat b mod 16) # bytes_hex bs"

definition hex_value :: "char \<Rightarrow> nat option" where
  "hex_value c = (let n = code_point c in
     if 48 \<le> n \<and> n \<le> 57 then Some (n - 48)
     else if 97 \<le> n \<and> n \<le> 102 then Some (n - 87)
     else if 65 \<le> n \<and> n \<le> 70 then Some (n - 55) else None)"

text \<open>The ASCII white space \<^verbatim>\<open>bytes.fromhex\<close> skips between bytes.\<close>

definition hex_space :: "char \<Rightarrow> bool" where
  "hex_space c \<longleftrightarrow> code_point c \<in> {9, 10, 11, 12, 13, 32}"

fun fromhex :: "string \<Rightarrow> bytes option" where
  "fromhex [] = Some []"
| "fromhex (c # cs) =
     (if hex_space c then fromhex cs
      else case cs of
        [] \<Rightarrow> None
      | d # ds \<Rightarrow>
          (case (hex_value c, hex_value d) of
             (Some h, Some l) \<Rightarrow> map_option ((#) (of_nat (16 * h + l))) (fromhex ds)
           | _ \<Rightarrow> None))"

lemma hex_digit_simps [simp]:
  assumes "n < 16"
  shows "hex_value (hex_digit n) = Some n" "\<not> hex_space (hex_digit n)"
proof -
  have "n < 10 \<or> 10 \<le> n \<and> n < 16" using assms by linarith
  then show "hex_value (hex_digit n) = Some n" "\<not> hex_space (hex_digit n)"
    by (auto simp: hex_value_def hex_digit_def hex_space_def Let_def)
qed

lemma unat_byte_less [simp]: "unat (b :: byte) < 256"
  using unsigned_less [of b] by simp

lemma fromhex_hex [simp]: "fromhex (bytes_hex bs) = Some bs"
proof (induction bs)
  case (Cons b bs)
  have "unat b div 16 < 16"
    using unat_byte_less [of b] by (simp add: div_less_iff_less_mult)
  moreover have "16 * (unat b div 16) + unat b mod 16 = unat b" by simp
  ultimately show ?case using Cons by simp
qed simp

end
