(* ===== verification/Enrollment_Store.thy ===== *)
theory Enrollment_Store
  imports Enrollment Py_Values
begin

text \<open>
  \<^verbatim>\<open>Enrollment.to_dict\<close> and \<^verbatim>\<open>Enrollment.from_dict\<close>: the stored form of an enrollment. A stored
  dict is a map from its keys to values of unknown type, since the file may have been edited.
\<close>

definition ENROLLMENT_FORMAT :: int where "ENROLLMENT_FORMAT = 2"
definition READABLE_ENROLLMENT_FORMATS :: "int list" where
  "READABLE_ENROLLMENT_FORMATS = [1, ENROLLMENT_FORMAT]"

primrec step_value :: "enrollment_step \<Rightarrow> string" where
  "step_value OWNER_KEY = ''owner_key''"
| "step_value DEVICE_ID = ''device_id''"
| "step_value CLOCK = ''clock''"
| "step_value SERVER_KEY = ''server_key''"
| "step_value NAME = ''name''"

definition hex_or_none :: "bytes option \<Rightarrow> py" where
  "hex_or_none k = (case k of None \<Rightarrow> PNone | Some b \<Rightarrow> PStr (bytes_hex b))"

definition enrollment_fields :: "enrollment \<Rightarrow> (string \<times> py) list" where
  "enrollment_fields e = [
     (''format'', PInt ENROLLMENT_FORMAT),
     (''user_id'', PInt (en_user_id e)),
     (''device_id'', PStr (bytes_hex (en_device_id e))),
     (''owner_key'', PStr (bytes_hex (en_owner_key e))),
     (''server_private_key'', PStr (bytes_hex (en_server_private_key e))),
     (''lock_server_public_key'', hex_or_none (en_lock_server_public_key e)),
     (''update_private_key'', hex_or_none (en_update_private_key e)),
     (''lock_update_public_key'', hex_or_none (en_lock_update_public_key e)),
     (''name'', PStr (en_name e)),
     (''completed'', PList (map (PStr \<circ> step_value) (filter (\<lambda>s. s \<in> en_completed e) enrollment_steps)))]"

definition enrollment_to_dict :: "enrollment \<Rightarrow> py_map" where
  "enrollment_to_dict e = map_of (enrollment_fields e)"

text \<open>\<^verbatim>\<open>x not in READABLE_ENROLLMENT_FORMATS\<close> hashes x first, which a list or a dict refuses.\<close>

definition check_format :: "py \<Rightarrow> unit res" where
  "check_format v =
     (case v of
        PList l \<Rightarrow> Inl (PyException ''TypeError'')
      | PDict d \<Rightarrow> Inl (PyException ''TypeError'')
      | _ \<Rightarrow> raise_if (\<forall>n \<in> set READABLE_ENROLLMENT_FORMATS. py_number v \<noteq> Some n)
               (BleValidationError (''Unsupported enrollment format, expected one of {}'', [1, 2])))"

definition step_of :: "py \<Rightarrow> enrollment_step option" where
  "step_of v = (case v of PStr s \<Rightarrow> find (\<lambda>x. step_value x = s) enrollment_steps | _ \<Rightarrow> None)"

definition steps_of :: "py \<Rightarrow> enrollment_step set res" where
  "steps_of v =
     (case v of
        PList l \<Rightarrow>
          bindE (raise_if (\<exists>x \<in> set l. step_of x = None)
                   (BleValidationError (''Enrollment field completed names an unknown step'', []))) (\<lambda>_.
          Inr (set (List.map_filter step_of l)))
      | _ \<Rightarrow> Inl (BleValidationError (''Enrollment field completed is not a list'', [])))"

definition hex_field :: "py_map \<Rightarrow> string \<Rightarrow> bytes res" where
  "hex_field d key =
     (let bad = BleValidationError (''Enrollment field '' @ key @ '' is not a hex string'', []) in
      case py_get d key of
        PStr s \<Rightarrow> (case fromhex s of Some b \<Rightarrow> Inr b | None \<Rightarrow> Inl bad)
      | _ \<Rightarrow> Inl bad)"

definition optional_hex_field :: "py_map \<Rightarrow> string \<Rightarrow> bytes option res" where
  "optional_hex_field d key =
     (if py_get d key = PNone then Inr None else bindE (hex_field d key) (\<lambda>b. Inr (Some b)))"

definition enrollment_from_dict :: "crypto_lib \<Rightarrow> py_map \<Rightarrow> enrollment res" where
  "enrollment_from_dict lib d =
     bindE (check_format (py_get d ''format'')) (\<lambda>_.
     bindE (steps_of (py_get d ''completed'')) (\<lambda>steps.
     bindE (case py_get d ''name'' of PStr s \<Rightarrow> Inr s
            | _ \<Rightarrow> Inl (BleValidationError (''Enrollment field name is not a string'', []))) (\<lambda>name.
     bindE (case py_int (py_get d ''user_id'') of Some n \<Rightarrow> Inr n
            | None \<Rightarrow> Inl (BleValidationError (''Enrollment field user_id is not an integer'', []))) (\<lambda>user_id.
     bindE (hex_field d ''device_id'') (\<lambda>device_id.
     bindE (hex_field d ''owner_key'') (\<lambda>owner_key.
     bindE (hex_field d ''server_private_key'') (\<lambda>server_private_key.
     bindE (optional_hex_field d ''lock_server_public_key'') (\<lambda>lock_key.
     bindE (optional_hex_field d ''update_private_key'') (\<lambda>update_key.
     bindE (optional_hex_field d ''lock_update_public_key'') (\<lambda>lock_update_key.
     mk_enrollment lib
       \<lparr>en_device_id = device_id, en_owner_key = owner_key, en_server_private_key = server_private_key,
        en_name = name, en_lock_server_public_key = lock_key, en_update_private_key = update_key,
        en_lock_update_public_key = lock_update_key, en_completed = steps, en_user_id = user_id\<rparr>))))))))))"

section \<open>Reading back\<close>

lemma step_of_value [simp]: "step_of (PStr (step_value s)) = Some s"
  by (cases s) (simp_all add: step_of_def enrollment_steps_def)

lemma step_in_steps [simp]: "s \<in> set enrollment_steps"
  by (cases s) (simp_all add: enrollment_steps_def)

lemma steps_of_written:
  "steps_of (PList (map (PStr \<circ> step_value) (filter (\<lambda>s. s \<in> c) enrollment_steps))) = Inr c"
proof -
  have "List.map_filter step_of (map (PStr \<circ> step_value) xs) = xs" for xs
    by (induction xs) (simp_all add: List.map_filter_def)
  then show ?thesis by (auto simp: steps_of_def)
qed

lemma hex_field_written: "d key = Some (PStr (bytes_hex b)) \<Longrightarrow> hex_field d key = Inr b"
  by (simp add: hex_field_def)

lemma optional_hex_field_written:
  "d key = Some (hex_or_none k) \<Longrightarrow> optional_hex_field d key = Inr k"
  by (cases k) (simp_all add: optional_hex_field_def hex_or_none_def hex_field_written)

lemma optional_hex_field_missing: "d key = None \<Longrightarrow> optional_hex_field d key = Inr None"
  by (simp add: optional_hex_field_def)

lemma from_dict_fields:
  assumes "d ''format'' = Some (PInt f)" "f = 1 \<or> f = 2"
    "d ''completed'' = Some (PList (map (PStr \<circ> step_value) (filter (\<lambda>s. s \<in> en_completed e) enrollment_steps)))"
    "d ''name'' = Some (PStr (en_name e))" "d ''user_id'' = Some (PInt (en_user_id e))"
    "d ''device_id'' = Some (PStr (bytes_hex (en_device_id e)))"
    "d ''owner_key'' = Some (PStr (bytes_hex (en_owner_key e)))"
    "d ''server_private_key'' = Some (PStr (bytes_hex (en_server_private_key e)))"
    "optional_hex_field d ''lock_server_public_key'' = Inr (en_lock_server_public_key e)"
    "optional_hex_field d ''update_private_key'' = Inr (en_update_private_key e)"
    "optional_hex_field d ''lock_update_public_key'' = Inr (en_lock_update_public_key e)"
  shows "enrollment_from_dict lib d = mk_enrollment lib e"
proof -
  have "check_format (PInt f) = Inr ()"
    using assms(2) by (auto simp: check_format_def READABLE_ENROLLMENT_FORMATS_def ENROLLMENT_FORMAT_def)
  then show ?thesis
    using assms(1,3-11) by (cases e) (simp add: enrollment_from_dict_def steps_of_written [unfolded o_def]
        hex_field_written o_def)
qed

lemma enrollment_store_ok:
  assumes "enrollment_check lib e = Inr ()"
  shows "enrollment_from_dict lib (enrollment_to_dict e) = Inr e"
proof -
  have "enrollment_from_dict lib (enrollment_to_dict e) = mk_enrollment lib e"
    by (rule from_dict_fields [where f = 2])
      (simp_all add: enrollment_to_dict_def enrollment_fields_def ENROLLMENT_FORMAT_def optional_hex_field_written)
  then show ?thesis using assms by (simp add: mk_enrollment_def)
qed

section \<open>Properties\<close>

text \<open>
  C33: what \<^verbatim>\<open>to_dict\<close> stores reads back as the same enrollment, secrets and completed steps
  included; and so does a file of format 1, whose owner key material is missing.
\<close>

theorem enrollment_store_roundtrip:
  assumes "enrollment_check lib e = Inr ()"
  shows "enrollment_from_dict lib (enrollment_to_dict e) = Inr e
    \<and> enrollment_from_dict lib ((enrollment_to_dict e)
           (''format'' \<mapsto> PInt 1, ''update_private_key'' := None, ''lock_update_public_key'' := None))
         = Inr (e\<lparr>en_update_private_key := None, en_lock_update_public_key := None\<rparr>)"
proof
  show "enrollment_from_dict lib (enrollment_to_dict e) = Inr e" by (rule enrollment_store_ok [OF assms])
  let ?e = "e\<lparr>en_update_private_key := None, en_lock_update_public_key := None\<rparr>"
  have "enrollment_check lib ?e = Inr ()"
    using assms by (auto simp: enrollment_check_def bindE_eq_Inr check_optional_key_def)
  moreover have "enrollment_from_dict lib ((enrollment_to_dict e)
      (''format'' \<mapsto> PInt 1, ''update_private_key'' := None, ''lock_update_public_key'' := None))
      = mk_enrollment lib ?e"
    by (rule from_dict_fields [where f = 1])
      (simp_all add: enrollment_to_dict_def enrollment_fields_def optional_hex_field_written optional_hex_field_missing)
  ultimately show "enrollment_from_dict lib ((enrollment_to_dict e)
      (''format'' \<mapsto> PInt 1, ''update_private_key'' := None, ''lock_update_public_key'' := None)) = Inr ?e"
    by (simp add: mk_enrollment_def)
qed

lemma stored_example_ok:
  "enrollment_check small_lib \<lparr>en_device_id = replicate 6 1, en_owner_key = replicate 16 3,
     en_server_private_key = 1 # replicate 31 0, en_name = ''lock'', en_lock_server_public_key = None,
     en_update_private_key = None, en_lock_update_public_key = None,
     en_completed = {OWNER_KEY, CLOCK}, en_user_id = 0\<rparr> = Inr ()"
  by code_simp

theorem enrollment_store_roundtrip_witness:
  "\<exists>e. en_completed e = {OWNER_KEY, CLOCK} \<and> enrollment_check small_lib e = Inr ()
     \<and> enrollment_from_dict small_lib (enrollment_to_dict e) = Inr e"
  using stored_example_ok enrollment_store_roundtrip [OF stored_example_ok] by force

end
