(* ===== verification/Pin_Rules.thy ===== *)
theory Pin_Rules
  imports Py_Values
begin

text \<open>
  \<^verbatim>\<open>pin_rules.py\<close> and \<^verbatim>\<open>redact.py\<close>: which slots and which PIN codes a lock takes, read from
  stored options and from capabilities the lock reported, and the mask that keeps a code out
  of the log. A mapping that may be None is a map, empty for None.
\<close>

section \<open>const.py\<close>

definition CONF_RESERVED_SLOTS :: string where "CONF_RESERVED_SLOTS = ''reserved_slots''"
definition RESERVED_SLOTS_MIN :: int where [simp]: "RESERVED_SLOTS_MIN = 1"
definition RESERVED_SLOTS_MAX :: int where [simp]: "RESERVED_SLOTS_MAX = 3"
definition MAX_SLOTS :: int where [simp]: "MAX_SLOTS = 1000"
definition SLOT_FIRST_USER :: int where [simp]: "SLOT_FIRST_USER = 3"

section \<open>pin\_rules.py\<close>

definition PIN_LENGTH_FALLBACK :: "int \<times> int" where [simp]: "PIN_LENGTH_FALLBACK = (4, 8)"
definition PIN_LENGTH_SANE_MIN :: int where [simp]: "PIN_LENGTH_SANE_MIN = 4"
definition PIN_LENGTH_SANE_MAX :: int where [simp]: "PIN_LENGTH_SANE_MAX = 20"

definition clamp_reserved :: "int \<Rightarrow> int" where
  "clamp_reserved v = max RESERVED_SLOTS_MIN (min RESERVED_SLOTS_MAX v)"

definition first_user_slot :: "py_map \<Rightarrow> int" where
  "first_user_slot options =
     (case py_get options CONF_RESERVED_SLOTS of
        PBool b \<Rightarrow> SLOT_FIRST_USER
      | PFloat (Some v) \<Rightarrow> clamp_reserved v
      | PInt v \<Rightarrow> clamp_reserved v
      | _ \<Rightarrow> SLOT_FIRST_USER)"

definition max_user_slot :: "py_map \<Rightarrow> int" where
  "max_user_slot caps =
     (case py_int (py_get caps ''num_pin_users'') of
        Some num \<Rightarrow> if SLOT_FIRST_USER < num \<and> num \<le> MAX_SLOTS then num - 1 else MAX_SLOTS - 1
      | None \<Rightarrow> MAX_SLOTS - 1)"

definition reported_length :: "py \<Rightarrow> int option" where
  "reported_length v =
     (case v of
        PInt n \<Rightarrow> if PIN_LENGTH_SANE_MIN \<le> n \<and> n \<le> PIN_LENGTH_SANE_MAX then Some n else None
      | _ \<Rightarrow> None)"

definition pin_length_range :: "py_map \<Rightarrow> int \<times> int" where
  "pin_length_range caps =
     (let low = (case reported_length (py_get caps ''min_pin_length'') of
                   None \<Rightarrow> fst PIN_LENGTH_FALLBACK | Some n \<Rightarrow> n);
          high = (case reported_length (py_get caps ''max_pin_length'') of
                   None \<Rightarrow> snd PIN_LENGTH_FALLBACK | Some n \<Rightarrow> n)
      in if low > high then PIN_LENGTH_FALLBACK else (low, high))"

definition is_valid_pin :: "string \<Rightarrow> py_map \<Rightarrow> bool" where
  "is_valid_pin code caps =
     (let (low, high) = pin_length_range caps in
      str_isascii code \<and> str_isdigit code \<and> low \<le> int (length code) \<and> int (length code) \<le> high)"

section \<open>redact.py\<close>

definition MASK :: string where "MASK = ''****''"

text \<open>
  \<^verbatim>\<open>_DIGIT_RUN.sub\<close>: the pattern is greedy and scanned from the left, so each maximal run of
  digits is one match when it is long enough and none when it is not.
\<close>

function redact_digits :: "string \<Rightarrow> string" where
  "redact_digits [] = []"
| "redact_digits (c # cs) =
     (if is_decimal c
      then let run = takeWhile is_decimal (c # cs); rest = dropWhile is_decimal (c # cs)
           in (if int (length run) \<ge> PIN_LENGTH_SANE_MIN then MASK else run) @ redact_digits rest
      else c # redact_digits cs)"
  by pat_completeness auto
termination
  by (relation "measure length") (auto simp: le_imp_less_Suc length_dropWhile_le)

section \<open>Ranges\<close>

lemma clamp_reserved_bounds: "1 \<le> clamp_reserved v \<and> clamp_reserved v \<le> 3"
  by (simp add: clamp_reserved_def)

lemma first_user_slot_bounds: "1 \<le> first_user_slot o' \<and> first_user_slot o' \<le> 3"
  using clamp_reserved_bounds
  by (auto simp: first_user_slot_def split: py.splits option.splits)

lemma max_user_slot_bounds: "3 \<le> max_user_slot caps \<and> max_user_slot caps \<le> 999"
  by (auto simp: max_user_slot_def split: option.splits)

lemma reported_length_bounds: "reported_length v = Some n \<Longrightarrow> 4 \<le> n \<and> n \<le> 20"
  by (auto simp: reported_length_def split: py.splits if_splits)

lemma pin_length_range_bounds:
  "pin_length_range caps = (low, high) \<Longrightarrow> 4 \<le> low \<and> low \<le> high \<and> high \<le> 20"
  using reported_length_bounds
  by (fastforce simp: pin_length_range_def Let_def split: option.splits if_splits)

lemma valid_pin_shape:
  assumes "is_valid_pin code caps"
  shows "4 \<le> length code" "list_all is_decimal code"
  using assms pin_length_range_bounds [of caps "fst (pin_length_range caps)" "snd (pin_length_range caps)"]
    ascii_digits [of code]
  by (auto simp: is_valid_pin_def split: prod.splits)

section \<open>Digit runs\<close>

text \<open>\<open>digit_run n s\<close>: n digits stand next to each other somewhere in s.\<close>

definition digit_run :: "nat \<Rightarrow> string \<Rightarrow> bool" where
  "digit_run n s \<longleftrightarrow> (\<exists>a run b. s = a @ run @ b \<and> length run = n \<and> list_all is_decimal run)"

lemma digit_runI:
  "s = a @ run @ b \<Longrightarrow> length run = n \<Longrightarrow> list_all is_decimal run \<Longrightarrow> digit_run n s"
  unfolding digit_run_def by blast

lemma digit_run_Nil [simp]: "digit_run (Suc n) [] = False"
  by (auto simp: digit_run_def)

text \<open>A run cannot reach over a character that is no digit.\<close>

lemma digit_run_split:
  assumes "digit_run n (a @ c # b)" "\<not> is_decimal c"
  shows "digit_run n a \<or> digit_run n b"
proof -
  obtain p run q where s: "a @ c # b = p @ run @ q" "length run = n" "list_all is_decimal run"
    using assms(1) by (auto simp: digit_run_def)
  have c: "c \<notin> set run" using s(3) assms(2) by (auto simp: list_all_iff)
  from s(1) consider us where "a = p @ us" "us @ c # b = run @ q" | us where "p = a @ us" "c # b = us @ run @ q"
    by (auto simp: append_eq_append_conv2)
  then show ?thesis
  proof cases
    case 1
    then consider vs where "run = us @ vs" "c # b = vs @ q" | vs where "us = run @ vs"
      by (auto simp: append_eq_append_conv2)
    then show ?thesis
    proof cases
      case a: 1
      then have "vs = []" using c by (auto simp: Cons_eq_append_conv)
      then show ?thesis using 1 a s by (intro disjI1 digit_runI [of _ p run "[]"]) auto
    next
      case 2
      then show ?thesis using 1 s by (auto simp: digit_run_def)
    qed
  next
    case 2
    show ?thesis
    proof (cases us)
      case Nil
      then have "run = []" using 2 c by (auto simp: Cons_eq_append_conv)
      then show ?thesis using s(2) by (auto simp: digit_run_def)
    next
      case (Cons d us')
      then show ?thesis using 2 s by (intro disjI2 digit_runI [of _ us' run q]) auto
    qed
  qed
qed

lemma digit_run_length: "digit_run n s \<Longrightarrow> n \<le> length s"
  by (auto simp: digit_run_def)

lemma digit_run_sub: "digit_run n s \<Longrightarrow> digit_run n (a @ s @ b)"
  unfolding digit_run_def by (metis append.assoc)

lemma digit_run_Cons: "digit_run n s \<Longrightarrow> digit_run n (c # s)"
  using digit_run_sub [of n s "[c]" "[]"] by simp

lemma digit_run_skip: "digit_run n (c # s) \<Longrightarrow> \<not> is_decimal c \<Longrightarrow> 0 < n \<Longrightarrow> digit_run n s"
  using digit_run_split [of n "[]" c s] digit_run_length [of n "[]"] by auto

lemma digit_run_short:
  assumes "digit_run n (run @ t)" "length run < n" "t = [] \<or> \<not> is_decimal (hd t)"
  shows "digit_run n t"
proof (cases t)
  case Nil
  then show ?thesis using assms digit_run_length by fastforce
next
  case (Cons c t')
  then show ?thesis
    using assms digit_run_split [of n run c t'] digit_run_length [of n run] digit_run_Cons by auto
qed

lemma redact_head: "s = [] \<or> \<not> is_decimal (hd s) \<Longrightarrow> redact_digits s = [] \<or> \<not> is_decimal (hd (redact_digits s))"
  by (cases s) auto

lemma drop_head: "dropWhile P s = [] \<or> \<not> P (hd (dropWhile P s))"
  using hd_dropWhile by blast

lemma redact_no_run: "\<not> digit_run 4 (redact_digits s)"
proof (induction s rule: redact_digits.induct)
  case 1
  then show ?case using digit_run_length by force
next
  case (2 c cs)
  show ?case
  proof (cases "is_decimal c")
    case False
    then show ?thesis using 2(2) digit_run_skip by auto
  next
    case True
    let ?run = "takeWhile is_decimal (c # cs)" and ?rest = "dropWhile is_decimal (c # cs)"
    have rest: "\<not> digit_run 4 (redact_digits ?rest)" using 2(1) [OF True] by blast
    show ?thesis
    proof (cases "int (length ?run) \<ge> 4")
      case long: True
      have "digit_run 4 (MASK @ redact_digits ?rest) \<Longrightarrow> digit_run 4 (redact_digits ?rest)"
        unfolding MASK_def append.simps by (drule digit_run_skip, simp add: is_decimal_def, simp)+
      then have "\<not> digit_run 4 (MASK @ redact_digits ?rest)" using rest by blast
      then show ?thesis using True long by (simp add: Let_def del: takeWhile.simps dropWhile.simps)
    next
      case short: False
      then have "length ?run < 4" by linarith
      note digit_run_short [OF _ this redact_head [OF drop_head]]
      then have "\<not> digit_run 4 (?run @ redact_digits ?rest)" using rest by blast
      then show ?thesis using True \<open>length ?run < 4\<close> by (simp add: Let_def del: takeWhile.simps dropWhile.simps)
    qed
  qed
qed

lemma redact_keeps: "\<not> digit_run 4 s \<Longrightarrow> redact_digits s = s"
proof (induction s rule: redact_digits.induct)
  case (2 c cs)
  show ?case
  proof (cases "is_decimal c")
    case False
    then show ?thesis using 2 digit_run_Cons by auto
  next
    case True
    let ?run = "takeWhile is_decimal (c # cs)" and ?rest = "dropWhile is_decimal (c # cs)"
    have split: "?run @ ?rest = c # cs" by (rule takeWhile_dropWhile_id)
    have "\<not> digit_run 4 ?rest" using 2(3) digit_run_sub [of 4 ?rest ?run "[]"] split by auto
    then have rest: "redact_digits ?rest = ?rest" using 2(1) [OF True] by blast
    have "length ?run < 4"
    proof (rule ccontr)
      assume "\<not> ?thesis"
      moreover have "c # cs = [] @ take 4 ?run @ (drop 4 ?run @ ?rest)"
        using split by (metis append.assoc append_Nil append_take_drop_id)
      moreover have "list_all is_decimal (take 4 ?run)"
        by (auto simp: list_all_iff dest: in_set_takeD set_takeWhileD simp del: takeWhile.simps)
      ultimately show False
        using 2(3) digit_runI [of "c # cs" "[]" "take 4 ?run" _ 4] by (simp del: takeWhile.simps dropWhile.simps)
    qed
    then show ?thesis using True rest split by (simp add: Let_def del: takeWhile.simps dropWhile.simps)
  qed
qed simp

section \<open>Properties\<close>

text \<open>
  C31: the writable window. Whatever is stored or reported, slot 0 is never a user slot, at
  most slots 0 to 2 are reserved, the window of user slots is not empty and stays inside the
  keypad's 0 to 999; and a stored count that makes sense is the first user slot.
\<close>

theorem writable_window:
  "1 \<le> first_user_slot options \<and> first_user_slot options \<le> 3 \<and> 3 \<le> max_user_slot caps
    \<and> max_user_slot caps \<le> 999
    \<and> (\<forall>n. options CONF_RESERVED_SLOTS = Some (PInt n) \<longrightarrow> 1 \<le> n \<longrightarrow> n \<le> 3 \<longrightarrow> first_user_slot options = n)
    \<and> (\<forall>n. caps ''num_pin_users'' = Some (PInt n) \<longrightarrow> 4 \<le> n \<longrightarrow> n \<le> 1000 \<longrightarrow> max_user_slot caps = n - 1)"
  using first_user_slot_bounds max_user_slot_bounds
  by (auto simp: first_user_slot_def max_user_slot_def clamp_reserved_def)

theorem writable_window_witness:
  "first_user_slot [CONF_RESERVED_SLOTS \<mapsto> PInt 1] = 1
    \<and> max_user_slot [''num_pin_users'' \<mapsto> PInt 50] = 49"
  using writable_window [of "[CONF_RESERVED_SLOTS \<mapsto> PInt 1]" "[''num_pin_users'' \<mapsto> PInt 50]"] by simp

text \<open>
  C29: what the log masks covers what the keypad takes. A code that is valid under any
  capabilities a lock can report appears nowhere in a masked text, and a text with no run of
  four digits is left as it is, so masking twice changes nothing.
\<close>

theorem masking_hides_valid_codes:
  assumes "is_valid_pin code caps"
  shows "(\<nexists>a b. redact_digits text = a @ code @ b)
    \<and> ((\<nexists>a run b. text = a @ run @ b \<and> length run = 4 \<and> list_all is_decimal run)
      \<longrightarrow> redact_digits text = text)
    \<and> redact_digits (redact_digits text) = redact_digits text"
proof (intro conjI)
  note code = valid_pin_shape [OF assms]
  have "digit_run 4 code"
    using code by (intro digit_runI [of _ "[]" "take 4 code" "drop 4 code"])
      (auto simp: list_all_iff dest: in_set_takeD)
  then show "\<nexists>a b. redact_digits text = a @ code @ b"
    using redact_no_run digit_run_sub by metis
qed (use redact_no_run redact_keeps in \<open>auto simp: digit_run_def\<close>)

theorem masking_hides_valid_codes_witness:
  "is_valid_pin ''1234'' Map.empty \<and> (\<nexists>a b. redact_digits ''pin 123456 bad'' = a @ ''1234'' @ b)
    \<and> redact_digits ''pin 123456 bad'' = ''pin **** bad'' \<and> redact_digits ''slot 999'' = ''slot 999''"
proof -
  have v: "is_valid_pin ''1234'' Map.empty" by code_simp
  have e: "redact_digits ''pin 123456 bad'' = ''pin **** bad''" by code_simp
  have f: "redact_digits ''slot 999'' = ''slot 999''" by code_simp
  show ?thesis using v e f masking_hides_valid_codes [OF v, of "''pin 123456 bad''"] by simp
qed

end
