(* ===== verification/Zha.thy ===== *)
theory Zha
  imports Pin_Rules
begin

text \<open>
  \<^verbatim>\<open>zha.py\<close>: the one file that knows ZHA. What ZHA, zigpy and Home Assistant do is a
  parameter: the record \<open>zha_io\<close> over an outer state of any type. The transport's own state is
  the time of its last wake; the trace keeps the commands it sent, the times it moved the bolt
  and the texts of others that it logged.
\<close>

section \<open>Outcomes\<close>

definition SET_PIN_COMMAND :: int where [simp]: "SET_PIN_COMMAND = 5"
definition SET_PIN_STATUS_MEMORY_FULL :: int where [simp]: "SET_PIN_STATUS_MEMORY_FULL = 2"
definition SET_PIN_STATUS_DUPLICATE_CODE :: int where [simp]: "SET_PIN_STATUS_DUPLICATE_CODE = 3"
definition WAKE_ECHO_WINDOW_MS :: int where [simp]: "WAKE_ECHO_WINDOW_MS = 30000"

datatype delivery = DELIVERED | REJECTED | UNREACHED
datatype rejection = DUPLICATE_CODE | MEMORY_FULL | OTHER_REASON

primrec rejection_value :: "rejection \<Rightarrow> string" where
  "rejection_value DUPLICATE_CODE = ''duplicate_code''"
| "rejection_value MEMORY_FULL = ''memory_full''"
| "rejection_value OTHER_REASON = ''other''"

record send_outcome =
  so_delivery :: delivery
  so_status :: "int option"
  so_rejection :: "rejection option"

definition SEND_DELIVERED :: send_outcome where
  "SEND_DELIVERED = \<lparr>so_delivery = DELIVERED, so_status = None, so_rejection = None\<rparr>"
definition SEND_UNREACHED :: send_outcome where
  "SEND_UNREACHED = \<lparr>so_delivery = UNREACHED, so_status = None, so_rejection = None\<rparr>"

definition delivered :: "send_outcome \<Rightarrow> bool" where
  "delivered o' \<longleftrightarrow> so_delivery o' = DELIVERED"

definition lock_answered :: "send_outcome \<Rightarrow> bool" where
  "lock_answered o' \<longleftrightarrow> so_delivery o' \<noteq> UNREACHED"

definition error_key :: "send_outcome \<Rightarrow> string option" where
  "error_key o' =
     (if so_delivery o' = DELIVERED then None
      else if so_delivery o' = UNREACHED then Some ''lock_unreachable''
      else if so_rejection o' = Some DUPLICATE_CODE then Some ''lock_rejected_duplicate''
      else if so_rejection o' = Some MEMORY_FULL then Some ''lock_rejected_memory_full''
      else Some ''lock_rejected'')"

definition status_text :: "send_outcome \<Rightarrow> string" where
  "status_text o' = (case so_status o' of None \<Rightarrow> ''?'' | Some n \<Rightarrow> str_int n)"

section \<open>What zigpy hands back\<close>

text \<open>
  A status field: a number with the text it is logged as, or something else with what \<^verbatim>\<open>int()\<close>
  makes of it, if anything. An answer: nothing to read, an exception handed back as the result,
  or an object with a status field or none, and with a \<^verbatim>\<open>command_id\<close> or not. An exception is its
  text where the text is logged.
\<close>

datatype zcl_status = NumberStatus int string | OddStatus "int option" string

datatype zcl_answer = NothingToRead | ExceptionAnswer string | Answer "zcl_status option" bool

datatype command_result =
    Answered zcl_answer
  | RaisesIndexError
  | RaisesTimeout string
  | RaisesDeliveryError string
  | RaisesZigbeeError string
  | RaisesOther string

primrec status_number :: "zcl_status \<Rightarrow> int option" where
  "status_number (NumberStatus n t) = Some n"
| "status_number (OddStatus p t) = p"

primrec status_name :: "zcl_status \<Rightarrow> string" where
  "status_name (NumberStatus n t) = t"
| "status_name (OddStatus p t) = t"

definition is_success :: "zcl_status \<Rightarrow> bool" where
  "is_success s = (case s of NumberStatus n t \<Rightarrow> n = 0 | OddStatus p t \<Rightarrow> False)"

definition rejected :: "int \<Rightarrow> bool \<Rightarrow> zcl_status \<Rightarrow> send_outcome" where
  "rejected command has_command_id status =
     (let code = status_number status;
          rejection =
            (if command = SET_PIN_COMMAND \<and> \<not> has_command_id
             then if code = Some SET_PIN_STATUS_DUPLICATE_CODE then DUPLICATE_CODE
                  else if code = Some SET_PIN_STATUS_MEMORY_FULL then MEMORY_FULL
                  else OTHER_REASON
             else OTHER_REASON)
      in \<lparr>so_delivery = REJECTED, so_status = code, so_rejection = Some rejection\<rparr>)"

section \<open>The world\<close>

type_synonym zcl_params = "(string \<times> py) list"

text \<open>
  What the transport calls: the cluster lookup, a command, the lookup of ZHA's lock entity
  (which may raise), the blocking lock service call with the second of sleep after it (whether
  it returned), and \<^verbatim>\<open>time.monotonic()\<close> in milliseconds.
\<close>

record 's zha_io =
  io_cluster :: "'s \<Rightarrow> bool"
  io_command :: "'s \<Rightarrow> int \<Rightarrow> zcl_params \<Rightarrow> 's \<times> command_result"
  io_entity :: "'s \<Rightarrow> unit + string option"
  io_lock :: "'s \<Rightarrow> string \<Rightarrow> 's \<times> bool"
  io_now :: "'s \<Rightarrow> int"

datatype zha_event = CommandSent int zcl_params | BoltDriven string | LogText string

record 's transport =
  zt_outer :: 's
  zt_last_wake :: "int option"
  zt_trace :: "zha_event list"

definition emit :: "zha_event \<Rightarrow> 's transport \<Rightarrow> 's transport" where
  "emit e st = st\<lparr>zt_trace := zt_trace st @ [e]\<rparr>"

definition wake_echo_pending :: "'s zha_io \<Rightarrow> 's transport \<Rightarrow> bool" where
  "wake_echo_pending io st =
     (case zt_last_wake st of None \<Rightarrow> False
      | Some t \<Rightarrow> io_now io (zt_outer st) - t < WAKE_ECHO_WINDOW_MS)"

definition wake :: "'s zha_io \<Rightarrow> 's transport \<Rightarrow> 's transport" where
  "wake io st =
     (let previous_wake = zt_last_wake st in
      case io_entity io (zt_outer st) of
        Inl _ \<Rightarrow> st\<lparr>zt_last_wake := previous_wake\<rparr>
      | Inr None \<Rightarrow> st
      | Inr (Some entity_id) \<Rightarrow>
          (let st = st\<lparr>zt_last_wake := Some (io_now io (zt_outer st))\<rparr>;
               st = emit (BoltDriven entity_id) st;
               (outer, ok) = io_lock io (zt_outer st) entity_id;
               st = st\<lparr>zt_outer := outer\<rparr>
           in if ok then st else st\<lparr>zt_last_wake := previous_wake\<rparr>))"

definition outcome_of :: "int \<Rightarrow> zcl_answer \<Rightarrow> 's transport \<Rightarrow> 's transport \<times> send_outcome" where
  "outcome_of command response st =
     (case response of
        NothingToRead \<Rightarrow> (st, SEND_DELIVERED)
      | ExceptionAnswer text \<Rightarrow> (emit (LogText (redact_digits text)) st, SEND_UNREACHED)
      | Answer None has_command_id \<Rightarrow> (st, SEND_DELIVERED)
      | Answer (Some status) has_command_id \<Rightarrow>
          if is_success status then (st, SEND_DELIVERED)
          else (emit (LogText (redact_digits (status_name status))) st,
                rejected command has_command_id status))"

text \<open>The loop of \<^verbatim>\<open>send\<close> over its attempts.\<close>

fun send_attempts ::
  "'s zha_io \<Rightarrow> int \<Rightarrow> zcl_params \<Rightarrow> nat list \<Rightarrow> 's transport \<Rightarrow> 's transport \<times> send_outcome" where
  "send_attempts io command params [] st = (st, SEND_UNREACHED)"
| "send_attempts io command params (attempt # attempts) st =
     (let st = emit (CommandSent command params) st;
          (outer, result) = io_command io (zt_outer st) command params;
          st = st\<lparr>zt_outer := outer\<rparr>
      in case result of
        RaisesIndexError \<Rightarrow> (st, SEND_DELIVERED)
      | RaisesTimeout text \<Rightarrow>
          if attempt = 1 then send_attempts io command params attempts (wake io st)
          else (emit (LogText (redact_digits text)) st, SEND_UNREACHED)
      | RaisesDeliveryError text \<Rightarrow>
          if attempt = 1 then send_attempts io command params attempts (wake io st)
          else (emit (LogText (redact_digits text)) st, SEND_UNREACHED)
      | RaisesZigbeeError text \<Rightarrow> (emit (LogText (redact_digits text)) st, SEND_UNREACHED)
      | RaisesOther text \<Rightarrow> (emit (LogText (redact_digits text)) st, SEND_UNREACHED)
      | Answered response \<Rightarrow> outcome_of command response st)"

definition zha_send ::
  "'s zha_io \<Rightarrow> int \<Rightarrow> zcl_params \<Rightarrow> 's transport \<Rightarrow> 's transport \<times> send_outcome" where
  "zha_send io command params st =
     (if \<not> io_cluster io (zt_outer st) then (st, SEND_UNREACHED)
      else send_attempts io command params [1, 2] st)"

section \<open>Capabilities\<close>

text \<open>
  A key of the attribute read, and a value: an attribute without one, a number, or something
  \<^verbatim>\<open>int()\<close> refuses. The read raises, or its result is a tuple of dicts, or something else.
\<close>

datatype cap_key = KeyId int | KeyName string
datatype cap_value = NoValue | CapNumber int | BadValue
datatype read_result = ReadRaises | ReadTuple "(cap_key \<times> cap_value) list list" | ReadOdd

definition CAPABILITY_ATTR_IDS :: "int list" where
  "CAPABILITY_ATTR_IDS = [18, 23, 24]"

definition CAPABILITY_NAMES :: "cap_key \<rightharpoonup> string" where
  "CAPABILITY_NAMES = map_of [
     (KeyId 18, ''num_pin_users''), (KeyName ''num_of_pin_users_supported'', ''num_pin_users''),
     (KeyId 23, ''max_pin_length''), (KeyName ''max_pin_len'', ''max_pin_length''),
     (KeyId 24, ''min_pin_length''), (KeyName ''min_pin_len'', ''min_pin_length'')]"

fun collect_capabilities ::
  "(cap_key \<times> cap_value) list \<Rightarrow> (string \<rightharpoonup> int) \<Rightarrow> unit + (string \<rightharpoonup> int)" where
  "collect_capabilities [] caps = Inr caps"
| "collect_capabilities ((key, value) # rest) caps =
     (case CAPABILITY_NAMES key of
        None \<Rightarrow> collect_capabilities rest caps
      | Some name \<Rightarrow>
          (case value of
             NoValue \<Rightarrow> collect_capabilities rest caps
           | CapNumber n \<Rightarrow> collect_capabilities rest (caps(name \<mapsto> n))
           | BadValue \<Rightarrow> Inl ()))"

text \<open>\<open>Inl ()\<close> is an exception that leaves the function: \<^verbatim>\<open>int(value)\<close> stands outside its try.\<close>

definition read_capabilities :: "bool \<Rightarrow> read_result \<Rightarrow> unit + (string \<rightharpoonup> int) option" where
  "read_capabilities cluster_found result =
     (if \<not> cluster_found then Inr None
      else case result of
        ReadRaises \<Rightarrow> Inr None
      | ReadOdd \<Rightarrow> Inr (Some Map.empty)
      | ReadTuple dicts \<Rightarrow>
          (let success = (case dicts of [] \<Rightarrow> [] | d # _ \<Rightarrow> d)
           in case collect_capabilities success Map.empty of
                Inl e \<Rightarrow> Inl e | Inr caps \<Rightarrow> Inr (Some caps)))"

section \<open>ZHA's objects\<close>

definition CHAIN_DEPTH :: nat where "CHAIN_DEPTH = 4"
definition DOORLOCK_CLUSTER_ID :: int where [simp]: "DOORLOCK_CLUSTER_ID = 257"
definition MANUFACTURER :: string where "MANUFACTURER = ''Onesti Products AS''"

text \<open>
  An object of ZHA's chain: its endpoints, if it has that attribute, each with its clusters by
  id; the object its \<^verbatim>\<open>device\<close> attribute holds; its manufacturer and model.
\<close>

datatype 'c zha_object =
  ZObj (zo_endpoints: "(int \<times> (int \<rightharpoonup> 'c)) list option") (zo_device: "'c zha_object option")
    (zo_manufacturer: string) (zo_model: string)

fun endpoint_cluster :: "(int \<times> (int \<rightharpoonup> 'c)) list \<Rightarrow> 'c option" where
  "endpoint_cluster [] = None"
| "endpoint_cluster ((ep_id, clusters) # rest) =
     (if ep_id = 0 then endpoint_cluster rest
      else case clusters DOORLOCK_CLUSTER_ID of
        Some c \<Rightarrow> Some c | None \<Rightarrow> endpoint_cluster rest)"

definition object_cluster :: "'c zha_object \<Rightarrow> 'c option" where
  "object_cluster obj = (case zo_endpoints obj of None \<Rightarrow> None | Some eps \<Rightarrow> endpoint_cluster eps)"

fun walk_to_door_lock_cluster :: "nat \<Rightarrow> 'c zha_object \<Rightarrow> 'c option" where
  "walk_to_door_lock_cluster 0 obj = None"
| "walk_to_door_lock_cluster (Suc n) obj =
     (case object_cluster obj of
        Some c \<Rightarrow> Some c
      | None \<Rightarrow>
          (case zo_device obj of None \<Rightarrow> None | Some d \<Rightarrow> walk_to_door_lock_cluster n d))"

definition has_door_lock_cluster :: "'c zha_object \<Rightarrow> bool" where
  "has_door_lock_cluster obj = (walk_to_door_lock_cluster CHAIN_DEPTH obj \<noteq> None)"

definition device_metadata :: "'c zha_object \<Rightarrow> string \<times> string" where
  "device_metadata proxy =
     (let device = (case zo_device proxy of Some d \<Rightarrow> d | None \<Rightarrow> proxy)
      in (zo_manufacturer device, zo_model device))"

text \<open>The gateway's devices by address, None without a running gateway.\<close>

type_synonym 'c gateway = "(string \<times> 'c zha_object) list option"

definition is_zha_loaded :: "'c gateway \<Rightarrow> bool" where
  "is_zha_loaded gw = (gw \<noteq> None)"

definition iter_device_proxies :: "'c gateway \<Rightarrow> (string \<times> 'c zha_object) list" where
  "iter_device_proxies gw = (case gw of None \<Rightarrow> [] | Some ds \<Rightarrow> ds)"

definition iter_onesti_locks :: "'c gateway \<Rightarrow> (string \<times> string) list" where
  "iter_onesti_locks gw =
     map (\<lambda>(ieee, proxy). (ieee, snd (device_metadata proxy)))
       (filter (\<lambda>(ieee, proxy). fst (device_metadata proxy) = MANUFACTURER \<and> has_door_lock_cluster proxy)
          (iter_device_proxies gw))"

fun first_cluster :: "string \<Rightarrow> (string \<times> 'c zha_object) list \<Rightarrow> 'c option" where
  "first_cluster ieee [] = None"
| "first_cluster ieee ((dev_ieee, proxy) # rest) =
     (if str_lower dev_ieee \<noteq> str_lower ieee then first_cluster ieee rest
      else case walk_to_door_lock_cluster CHAIN_DEPTH proxy of
        Some c \<Rightarrow> Some c | None \<Rightarrow> first_cluster ieee rest)"

definition find_door_lock_cluster :: "'c gateway \<Rightarrow> string \<Rightarrow> 'c option" where
  "find_door_lock_cluster gw ieee =
     (if \<not> is_zha_loaded gw then None else first_cluster ieee (iter_device_proxies gw))"

definition model_in_zha :: "'c gateway \<Rightarrow> string \<Rightarrow> string" where
  "model_in_zha gw ieee =
     (case find (\<lambda>(dev_ieee, _). str_lower dev_ieee = str_lower ieee) (iter_device_proxies gw) of
        Some (_, proxy) \<Rightarrow> snd (device_metadata proxy) | None \<Rightarrow> '''')"

section \<open>The registries\<close>

text \<open>
  A device registry entry: its id and its connections; ZHA's config entries with the devices of
  each. \<open>by_connection\<close> is \<^verbatim>\<open>async_get_device_by_connection\<close> where the release has it.
\<close>

record registry_device =
  rd_id :: string
  rd_connections :: "(string \<times> string) list"

definition zigbee_connection :: "string \<Rightarrow> string \<times> string" where
  "zigbee_connection ieee = (''zigbee'', str_lower ieee)"

fun find_zha_device ::
  "(string \<times> string \<Rightarrow> string \<Rightarrow> registry_device option) option
     \<Rightarrow> (string \<times> registry_device list) list \<Rightarrow> string \<Rightarrow> registry_device option" where
  "find_zha_device by_connection [] ieee = None"
| "find_zha_device by_connection ((entry_id, devices) # zha_entries) ieee =
     (case by_connection of
        Some lookup \<Rightarrow>
          (case lookup (zigbee_connection ieee) entry_id of
             Some d \<Rightarrow> Some d
           | None \<Rightarrow> find_zha_device by_connection zha_entries ieee)
      | None \<Rightarrow>
          (case find (\<lambda>d. zigbee_connection ieee \<in> set (rd_connections d)) devices of
             Some d \<Rightarrow> Some d
           | None \<Rightarrow> find_zha_device by_connection zha_entries ieee))"

record registry_entity =
  re_entity_id :: string
  re_domain :: string
  re_platform :: string

definition find_lock_entity_id ::
  "registry_device option \<Rightarrow> (string \<Rightarrow> registry_entity list) \<Rightarrow> string option" where
  "find_lock_entity_id device entities_of =
     (case device of
        None \<Rightarrow> None
      | Some d \<Rightarrow> map_option re_entity_id
          (find (\<lambda>e. re_domain e = ''lock'' \<and> re_platform e = ''zha'') (entities_of (rd_id d))))"

end
