(* ===== verification/Zha_Props.thy ===== *)
theory Zha_Props
  imports Zha
begin

text \<open>
  What a send through ZHA does: how often it sends, when it drives the bolt, what it returns
  and what it logs; the echo window; capabilities; and the walk to the cluster.
\<close>

section \<open>Readings\<close>

text \<open>What one result of a command says, without the attempts around it.\<close>

definition asleep :: "command_result \<Rightarrow> bool" where
  "asleep r \<longleftrightarrow> (case r of RaisesTimeout t \<Rightarrow> True | RaisesDeliveryError t \<Rightarrow> True | _ \<Rightarrow> False)"

definition answer_outcome :: "int \<Rightarrow> command_result \<Rightarrow> send_outcome" where
  "answer_outcome command r = (case r of
     RaisesIndexError \<Rightarrow> SEND_DELIVERED
   | Answered NothingToRead \<Rightarrow> SEND_DELIVERED
   | Answered (Answer None own) \<Rightarrow> SEND_DELIVERED
   | Answered (Answer (Some s) d) \<Rightarrow> if is_success s then SEND_DELIVERED else rejected command d s
   | _ \<Rightarrow> SEND_UNREACHED)"

text \<open>No code a keypad takes stands in any text that was logged.\<close>

definition code_free :: "zha_event \<Rightarrow> bool" where
  "code_free e \<longleftrightarrow> (case e of
     LogText t \<Rightarrow> \<forall>code caps. is_valid_pin code caps \<longrightarrow> (\<nexists>a b. t = a @ code @ b) | _ \<Rightarrow> True)"

definition no_code_logged :: "zha_event list \<Rightarrow> bool" where
  "no_code_logged evs = list_all code_free evs"

lemma no_code_simps [simp]:
  "no_code_logged []"
  "no_code_logged (CommandSent c p # evs) = no_code_logged evs"
  "no_code_logged (BoltDriven e # evs) = no_code_logged evs"
  "no_code_logged (xs @ ys) \<longleftrightarrow> no_code_logged xs \<and> no_code_logged ys"
  by (simp_all add: no_code_logged_def code_free_def)

lemma bolts_no_code: "\<forall>e \<in> set bolt. \<exists>i. e = BoltDriven i \<Longrightarrow> no_code_logged bolt"
  by (auto simp: no_code_logged_def code_free_def list_all_iff)

lemma masked_has_no_code:
  assumes "is_valid_pin code caps"
  shows "redact_digits text \<noteq> a @ code @ b"
proof
  assume "redact_digits text = a @ code @ b"
  moreover have "digit_run 4 code"
    using valid_pin_shape [OF assms] by (intro digit_runI [of _ "[]" "take 4 code" "drop 4 code"])
      (auto simp: list_all_iff dest: in_set_takeD)
  ultimately show False using redact_no_run [of "text"] digit_run_sub [of 4 code a b] by simp
qed

lemma no_code_masked [simp]:
  "no_code_logged (LogText (redact_digits t) # evs) = no_code_logged evs"
  using masked_has_no_code by (auto simp: no_code_logged_def code_free_def)

lemma wake_trace:
  "\<exists>bolt. zt_trace (wake io st) = zt_trace st @ bolt \<and> length bolt \<le> 1 \<and> (\<forall>e \<in> set bolt. \<exists>i. e = BoltDriven i)"
  by (auto simp: wake_def emit_def Let_def split: sum.splits option.splits prod.splits)

lemma wake_stamp:
  "zt_last_wake (wake io st) \<noteq> zt_last_wake st \<Longrightarrow>
     \<exists>e o'. io_entity io (zt_outer st) = Inr (Some e) \<and> io_lock io (zt_outer st) e = (o', True)
       \<and> zt_last_wake (wake io st) = Some (io_now io (zt_outer st))"
  by (auto simp: wake_def emit_def Let_def split: sum.splits option.splits prod.splits if_splits)

lemma outcome_of_reading:
  "outcome_of command response st = (st', out) \<Longrightarrow>
     \<exists>logs. st' = st\<lparr>zt_trace := zt_trace st @ logs\<rparr> \<and> no_code_logged logs
       \<and> (\<forall>e \<in> set logs. \<exists>t. e = LogText t)
       \<and> out = answer_outcome command (Answered response)"
  by (auto simp: outcome_of_def answer_outcome_def emit_def intro: exI [of _ "[]"]
      split: zcl_answer.splits option.splits if_splits)

text \<open>The last attempt, and the first one.\<close>

lemma last_attempt:
  assumes "send_attempts io command params [2] st = (st', out)"
  shows "\<exists>o' r logs. io_command io (zt_outer st) command params = (o', r)
    \<and> out = answer_outcome command r
    \<and> zt_trace st' = zt_trace st @ CommandSent command params # logs
    \<and> zt_last_wake st' = zt_last_wake st
    \<and> (\<forall>e \<in> set logs. \<exists>t. e = LogText t) \<and> no_code_logged logs"
proof -
  obtain o' r where r: "io_command io (zt_outer st) command params = (o', r)"
    by (cases "io_command io (zt_outer st) command params")
  then show ?thesis
    using assms by (cases r) (auto simp: emit_def Let_def answer_outcome_def dest!: outcome_of_reading)
qed

lemma first_attempt:
  assumes "send_attempts io command params [1, 2] st = (st', out)"
    and "io_command io (zt_outer st) command params = (o1, r1)"
  shows "asleep r1 \<and> send_attempts io command params [2]
      (wake io (st\<lparr>zt_trace := zt_trace st @ [CommandSent command params], zt_outer := o1\<rparr>)) = (st', out)
    \<or> \<not> asleep r1 \<and> out = answer_outcome command r1 \<and> zt_last_wake st' = zt_last_wake st
      \<and> (\<exists>logs. zt_trace st' = zt_trace st @ CommandSent command params # logs
           \<and> (\<forall>e \<in> set logs. \<exists>t. e = LogText t) \<and> no_code_logged logs)"
  using assms
  by (cases r1) (auto simp: emit_def Let_def asleep_def answer_outcome_def dest!: outcome_of_reading)

lemma zha_send_cases:
  assumes "zha_send io command params st = (st', out)"
  shows "\<not> io_cluster io (zt_outer st) \<and> st' = st \<and> out = SEND_UNREACHED
    \<or> (\<exists>o1 r1 logs. io_command io (zt_outer st) command params = (o1, r1) \<and> \<not> asleep r1
        \<and> out = answer_outcome command r1 \<and> zt_last_wake st' = zt_last_wake st
        \<and> zt_trace st' = zt_trace st @ CommandSent command params # logs
        \<and> (\<forall>e \<in> set logs. \<exists>t. e = LogText t) \<and> no_code_logged logs)
    \<or> (\<exists>o1 r1 bolt o2 o3 r2 logs. io_command io (zt_outer st) command params = (o1, r1) \<and> asleep r1
        \<and> io_command io o2 command params = (o3, r2) \<and> out = answer_outcome command r2
        \<and> zt_trace st' = zt_trace st @ CommandSent command params # bolt @ CommandSent command params # logs
        \<and> length bolt \<le> 1 \<and> (\<forall>e \<in> set bolt. \<exists>i. e = BoltDriven i)
        \<and> (\<forall>e \<in> set logs. \<exists>t. e = LogText t) \<and> no_code_logged logs
        \<and> zt_last_wake st' = zt_last_wake (wake io
            (st\<lparr>zt_trace := zt_trace st @ [CommandSent command params], zt_outer := o1\<rparr>)))"
proof (cases "io_cluster io (zt_outer st)")
  case False
  then show ?thesis using assms by (simp add: zha_send_def)
next
  case True
  then have run: "send_attempts io command params [1, 2] st = (st', out)"
    using assms by (simp add: zha_send_def)
  obtain o1 r1 where r1: "io_command io (zt_outer st) command params = (o1, r1)"
    by (cases "io_command io (zt_outer st) command params")
  let ?st1 = "st\<lparr>zt_trace := zt_trace st @ [CommandSent command params], zt_outer := o1\<rparr>"
  from first_attempt [OF run r1] consider
    "asleep r1" "send_attempts io command params [2] (wake io ?st1) = (st', out)"
    | logs where "\<not> asleep r1" "out = answer_outcome command r1" "zt_last_wake st' = zt_last_wake st"
      "zt_trace st' = zt_trace st @ CommandSent command params # logs"
      "\<forall>e \<in> set logs. \<exists>t. e = LogText t" "no_code_logged logs" by blast
  then show ?thesis
  proof cases
    case 1
    obtain bolt where b: "zt_trace (wake io ?st1) = zt_trace ?st1 @ bolt" "length bolt \<le> 1"
      "\<forall>e \<in> set bolt. \<exists>i. e = BoltDriven i" using wake_trace by blast
    from last_attempt [OF 1(2)] obtain o3 r2 logs where
      l: "io_command io (zt_outer (wake io ?st1)) command params = (o3, r2)"
        "out = answer_outcome command r2"
        "zt_trace st' = zt_trace (wake io ?st1) @ CommandSent command params # logs"
        "zt_last_wake st' = zt_last_wake (wake io ?st1)"
        "\<forall>e \<in> set logs. \<exists>t. e = LogText t" "no_code_logged logs" by blast
    have "zt_trace st' = zt_trace st @ CommandSent command params # bolt @ CommandSent command params # logs"
      using b(1) l(3) by simp
    then show ?thesis using r1 1(1) b(2,3) l by blast
  next
    case 2
    then show ?thesis using r1 by blast
  qed
qed

section \<open>A small world\<close>

text \<open>Results are taken from a script; the lock entity is there and the lock call returns.\<close>

definition script_io :: "command_result list zha_io" where
  "script_io = \<lparr>io_cluster = (\<lambda>_. True),
     io_command = (\<lambda>s c p. case s of [] \<Rightarrow> ([], RaisesTimeout '''') | r # rs \<Rightarrow> (rs, r)),
     io_entity = (\<lambda>_. Inr (Some ''lock.door'')), io_lock = (\<lambda>s e. (s, True)), io_now = (\<lambda>_. 5000)\<rparr>"

definition script_transport :: "command_result list \<Rightarrow> command_result list transport" where
  "script_transport s = \<lparr>zt_outer = s, zt_last_wake = None, zt_trace = []\<rparr>"

section \<open>Properties\<close>

text \<open>
  C20: a send sends its command once, or twice with a wake between them, and never drives the
  bolt unless the first attempt found the lock asleep; what it returns is what the last result
  says, and nothing it logs holds a code a keypad takes.
\<close>

theorem send_drives_bolt_only_asleep:
  assumes "zha_send io command params st = (st', out)"
  shows "\<exists>new. zt_trace st' = zt_trace st @ new \<and> no_code_logged new
    \<and> (new = [] \<and> out = SEND_UNREACHED \<and> \<not> io_cluster io (zt_outer st)
      \<or> (\<exists>o1 r1 logs. io_command io (zt_outer st) command params = (o1, r1)
          \<and> (\<forall>e \<in> set logs. \<exists>t. e = LogText t)
          \<and> (if asleep r1
             then \<exists>bolt o2 o3 r2. new = CommandSent command params # bolt @ CommandSent command params # logs
               \<and> length bolt \<le> 1 \<and> (\<forall>e \<in> set bolt. \<exists>i. e = BoltDriven i)
               \<and> io_command io o2 command params = (o3, r2) \<and> out = answer_outcome command r2
             else new = CommandSent command params # logs \<and> out = answer_outcome command r1)))"
  using zha_send_cases [OF assms]
proof (elim disjE exE conjE, goal_cases)
  case 1
  then show ?case by simp
next
  case (2 o1 r1 logs)
  then show ?case by (intro exI [of _ "CommandSent command params # logs"]) auto
next
  case (3 o1 r1 bolt o2 o3 r2 logs)
  let ?new = "CommandSent command params # bolt @ CommandSent command params # logs"
  have "no_code_logged ?new" using 3 bolts_no_code by simp
  moreover have "\<exists>bolt o2 o3 r2. ?new = CommandSent command params # bolt @ CommandSent command params # logs
      \<and> length bolt \<le> 1 \<and> (\<forall>e \<in> set bolt. \<exists>i. e = BoltDriven i)
      \<and> io_command io o2 command params = (o3, r2) \<and> out = answer_outcome command r2"
    using 3 by blast
  moreover note 3(1,2,5,8)
  ultimately show ?case
    by (intro exI [of _ ?new] conjI disjI2 exI [of _ o1] exI [of _ r1] exI [of _ logs]) simp_all
qed

lemma script_retry:
  "zha_send script_io 5 [(''pin_code'', PStr ''123456'')]
     (script_transport [RaisesTimeout ''asleep'', RaisesOther ''bad pin_code 123456''])
   = (\<lparr>zt_outer = [], zt_last_wake = Some 5000,
       zt_trace = [CommandSent 5 [(''pin_code'', PStr ''123456'')], BoltDriven ''lock.door'',
         CommandSent 5 [(''pin_code'', PStr ''123456'')], LogText ''bad pin_code ****'']\<rparr>, SEND_UNREACHED)"
  by (simp add: zha_send_def script_io_def script_transport_def emit_def wake_def MASK_def is_decimal_def)

theorem send_drives_bolt_only_asleep_witness:
  "\<exists>st' out. zha_send script_io 5 [(''pin_code'', PStr ''123456'')]
       (script_transport [RaisesTimeout ''asleep'', RaisesOther ''bad pin_code 123456'']) = (st', out)
     \<and> no_code_logged (zt_trace st') \<and> LogText ''bad pin_code ****'' \<in> set (zt_trace st')"
  using send_drives_bolt_only_asleep [OF script_retry] script_retry by (auto simp: script_transport_def)

text \<open>
  The echo window opens only for a wake that went out: after a send the stamp is what it
  was, or the time before a lock call that returned, made because the first attempt found the
  lock asleep. A wake that raised gives the window of an earlier one back.
\<close>

theorem wake_stamp_needs_wake:
  assumes "zha_send io command params st = (st', out)"
    and "zt_last_wake st' \<noteq> zt_last_wake st"
  shows "\<exists>o1 r1 e o2. io_command io (zt_outer st) command params = (o1, r1) \<and> asleep r1
    \<and> io_entity io o1 = Inr (Some e) \<and> io_lock io o1 e = (o2, True)
    \<and> zt_last_wake st' = Some (io_now io o1)"
  using zha_send_cases [OF assms(1)]
proof (elim disjE exE conjE, goal_cases)
  case (3 o1 r1 bolt o2 o3 r2 logs)
  let ?st1 = "st\<lparr>zt_trace := zt_trace st @ [CommandSent command params], zt_outer := o1\<rparr>"
  have "zt_last_wake (wake io ?st1) \<noteq> zt_last_wake ?st1" using 3 assms(2) by simp
  from wake_stamp [OF this] 3 show ?case by auto
qed (use assms(2) in auto)

theorem wake_stamp_needs_wake_witness:
  "\<exists>st' out. zha_send script_io 5 [(''pin_code'', PStr ''123456'')]
       (script_transport [RaisesTimeout ''asleep'', RaisesOther ''bad pin_code 123456'']) = (st', out)
     \<and> wake_echo_pending script_io st'"
  using wake_stamp_needs_wake [OF script_retry] script_retry
  by (auto simp: wake_echo_pending_def script_io_def script_transport_def)

text \<open>
  Why a lock refused. A refusal is a status other than success in an answer; it is a
  duplicate code or a full memory exactly when Set PIN Code's own response says 3 or 2, and
  any other status, a Default Response or another command leaves the reason open. The error
  key tells the four outcomes apart and is there exactly when nothing was delivered.
\<close>

theorem refusal_reasons:
  "delivered (answer_outcome command (Answered (Answer (Some s) default_response)))
     = is_success s
   \<and> (\<not> is_success s \<longrightarrow>
     error_key (answer_outcome command (Answered (Answer (Some s) default_response)))
     = Some (if command = 5 \<and> \<not> default_response \<and> status_number s = Some 3 then ''lock_rejected_duplicate''
             else if command = 5 \<and> \<not> default_response \<and> status_number s = Some 2
               then ''lock_rejected_memory_full''
             else ''lock_rejected''))
   \<and> (so_delivery (answer_outcome command r) = UNREACHED \<longleftrightarrow>
     error_key (answer_outcome command r) = Some ''lock_unreachable'')
   \<and> (error_key out = None \<longleftrightarrow> delivered out)"
  by (auto simp: answer_outcome_def rejected_def error_key_def delivered_def SEND_DELIVERED_def
      SEND_UNREACHED_def Let_def split: command_result.splits zcl_answer.splits option.splits if_splits)

theorem refusal_reasons_witness:
  "error_key (answer_outcome 5 (Answered (Answer (Some (NumberStatus 3 ''DUPLICATE'')) False)))
     = Some ''lock_rejected_duplicate''"
  using refusal_reasons [of 5 "NumberStatus 3 ''DUPLICATE''" False] by (simp add: is_success_def)

section \<open>Capabilities\<close>

definition renamed :: "(cap_key \<times> cap_value) list \<Rightarrow> (cap_key \<times> cap_value) list" where
  "renamed d = map (\<lambda>(k, v). (case k of
     KeyId i \<Rightarrow> if i = 18 then KeyName ''num_of_pin_users_supported''
               else if i = 23 then KeyName ''max_pin_len''
               else if i = 24 then KeyName ''min_pin_len'' else KeyId i
   | KeyName n \<Rightarrow> KeyName n, v)) d"

lemma renamed_name: "CAPABILITY_NAMES (fst (hd (renamed [(k, v)]))) = CAPABILITY_NAMES k"
  by (cases k) (auto simp: renamed_def CAPABILITY_NAMES_def)

lemma collect_renamed: "collect_capabilities (renamed d) caps = collect_capabilities d caps"
proof (induction d arbitrary: caps)
  case (Cons kv d)
  obtain k v where kv: "kv = (k, v)" by (cases kv)
  obtain k' where k': "renamed [(k, v)] = [(k', v)]" "CAPABILITY_NAMES k' = CAPABILITY_NAMES k"
    using renamed_name [of k v] by (simp add: renamed_def)
  have "renamed (kv # d) = (k', v) # renamed d" using k'(1) kv by (simp add: renamed_def)
  then show ?case using Cons k'(2) kv by (simp add: fun_upd_def split: option.splits cap_value.splits)
qed (simp add: renamed_def)

lemma capability_names_range:
  "CAPABILITY_NAMES k = Some n \<Longrightarrow> n \<in> {''num_pin_users'', ''max_pin_length'', ''min_pin_length''}"
  by (auto simp: CAPABILITY_NAMES_def split: if_splits)

lemma collect_dom:
  "collect_capabilities d caps = Inr caps' \<Longrightarrow>
     dom caps' \<subseteq> dom caps \<union> {''num_pin_users'', ''max_pin_length'', ''min_pin_length''}"
proof (induction d arbitrary: caps)
  case (Cons kv d)
  obtain k v where kv: "kv = (k, v)" by (cases kv)
  show ?case
  proof (cases "CAPABILITY_NAMES k")
    case None
    then show ?thesis using Cons kv by simp
  next
    case (Some n)
    note n = capability_names_range [OF Some]
    show ?thesis
    proof (cases v)
      case (CapNumber i)
      then have "collect_capabilities d (caps(n \<mapsto> i)) = Inr caps'" using Cons.prems Some kv by simp
      from Cons.IH [OF this] show ?thesis using n by auto
    qed (use Cons.prems Cons.IH [of caps] Some kv in auto)
  qed
qed auto

text \<open>The last number read for a capability is the one kept.\<close>

lemma collect_last:
  "collect_capabilities d caps = Inr caps' \<Longrightarrow> caps' n = (case find (\<lambda>(k, v).
      CAPABILITY_NAMES k = Some n \<and> (\<exists>i. v = CapNumber i)) (rev d) of
    Some (k, CapNumber i) \<Rightarrow> Some i | _ \<Rightarrow> caps n)"
proof (induction d arbitrary: caps)
  case (Cons kv d)
  have find_snoc: "find P (xs @ [x]) = (case find P xs of Some y \<Rightarrow> Some y
      | None \<Rightarrow> if P x then Some x else None)" for P xs and x :: "cap_key \<times> cap_value"
    by (induction xs) auto
  obtain k v where kv: "kv = (k, v)" by (cases kv)
  have found: "find (\<lambda>(k, v). CAPABILITY_NAMES k = Some n \<and> (\<exists>i. v = CapNumber i)) xs = Some y
      \<Longrightarrow> \<exists>k i. y = (k, CapNumber i)" for xs y
    by (auto simp: find_Some_iff)
  show ?case
    using Cons.prems Cons.IH kv
    by (auto simp: find_snoc split: option.splits cap_value.splits if_splits dest: found)
qed simp

text \<open>
  What the lock reports about itself. None means it was not reached and only that; an
  answer keeps the last number of each of the three capabilities and nothing else; and it is
  the same whether zigpy names the attributes or numbers them.
\<close>

theorem capabilities_read:
  assumes "read_capabilities found r = Inr answer"
  shows "answer = None \<longleftrightarrow> \<not> found \<or> r = ReadRaises"
    and "answer = Some caps \<Longrightarrow>
      dom caps \<subseteq> {''num_pin_users'', ''max_pin_length'', ''min_pin_length''}"
    and "answer = Some caps \<Longrightarrow> r = ReadTuple (d # ds) \<Longrightarrow>
      caps n = (case find (\<lambda>(k, v). CAPABILITY_NAMES k = Some n \<and> (\<exists>i. v = CapNumber i)) (rev d) of
        Some (k, CapNumber i) \<Rightarrow> Some i | _ \<Rightarrow> None)
      \<and> read_capabilities found (ReadTuple (renamed d # ds)) = Inr (Some caps)"
proof -
  show "answer = None \<longleftrightarrow> \<not> found \<or> r = ReadRaises"
    using assms by (auto simp: read_capabilities_def Let_def split: if_splits read_result.splits sum.splits)
  show "dom caps \<subseteq> {''num_pin_users'', ''max_pin_length'', ''min_pin_length''}" if "answer = Some caps"
  proof -
    have "r = ReadOdd \<and> caps = Map.empty
        \<or> (\<exists>d. collect_capabilities d Map.empty = Inr caps)"
      using assms that
      by (auto simp: read_capabilities_def Let_def split: if_splits read_result.splits sum.splits)
    then show ?thesis using collect_dom [of _ Map.empty caps] by auto
  qed
  assume a: "answer = Some caps" "r = ReadTuple (d # ds)"
  then have c: "found" "collect_capabilities d Map.empty = Inr caps"
    using assms by (auto simp: read_capabilities_def Let_def split: if_splits sum.splits)
  then show "caps n = (case find (\<lambda>(k, v). CAPABILITY_NAMES k = Some n \<and> (\<exists>i. v = CapNumber i)) (rev d) of
        Some (k, CapNumber i) \<Rightarrow> Some i | _ \<Rightarrow> None)
      \<and> read_capabilities found (ReadTuple (renamed d # ds)) = Inr (Some caps)"
    using collect_last [OF c(2), of n] by (simp add: read_capabilities_def collect_renamed)
qed

theorem capabilities_read_witness:
  "\<exists>caps. read_capabilities True (ReadTuple [[(KeyId 18, CapNumber 50), (KeyId 23, CapNumber 8)], []])
       = Inr (Some caps)
     \<and> read_capabilities True (ReadTuple [renamed [(KeyId 18, CapNumber 50), (KeyId 23, CapNumber 8)], []])
       = Inr (Some caps) \<and> caps ''num_pin_users'' = Some 50"
proof -
  obtain caps where c: "read_capabilities True
      (ReadTuple [[(KeyId 18, CapNumber 50), (KeyId 23, CapNumber 8)], []]) = Inr (Some caps)"
    "caps ''num_pin_users'' = Some 50"
    by (simp add: read_capabilities_def CAPABILITY_NAMES_def)
  from capabilities_read(3) [OF c(1) refl refl] c show ?thesis by blast
qed

section \<open>The walk\<close>

text \<open>The chain of objects below one of ZHA's, and its clusters in order.\<close>

fun zha_chain :: "nat \<Rightarrow> 'c zha_object \<Rightarrow> 'c zha_object list" where
  "zha_chain 0 obj = []"
| "zha_chain (Suc n) obj = obj # (case zo_device obj of None \<Rightarrow> [] | Some d \<Rightarrow> zha_chain n d)"

lemma walk_chain:
  "walk_to_door_lock_cluster n obj = (case List.map_filter object_cluster (zha_chain n obj) of
     [] \<Rightarrow> None | c # _ \<Rightarrow> Some c)"
  by (induction n arbitrary: obj) (auto simp: List.map_filter_simps split: option.splits)

lemma endpoint_cluster_reference:
  "endpoint_cluster eps = (case List.map_filter (\<lambda>(i, cs). if i = 0 then None else cs 257) eps
     of [] \<Rightarrow> None | c # _ \<Rightarrow> Some c)"
  by (induction eps) (auto simp: List.map_filter_simps split: option.splits if_splits)

lemma object_cluster_reference:
  "object_cluster = (\<lambda>x. case zo_endpoints x of None \<Rightarrow> None | Some eps \<Rightarrow>
      (case List.map_filter (\<lambda>(i, cs). if i = 0 then None else cs 257) eps of
         [] \<Rightarrow> None | c # _ \<Rightarrow> Some c))"
  by (rule ext) (simp add: object_cluster_def endpoint_cluster_reference split: option.splits)

lemma first_cluster_lower: "first_cluster (str_lower ieee) ds = first_cluster ieee ds"
  by (induction ds) (auto split: option.splits)

text \<open>
  The walk to the Door Lock cluster is the first one found down to the fourth object,
  endpoint 0 left out; every lock offered has one and is Onesti's, and a lock is found by its
  address however its letters are cased.
\<close>

theorem cluster_walk_reference:
  "walk_to_door_lock_cluster CHAIN_DEPTH obj
     = (case List.map_filter (\<lambda>x. case zo_endpoints x of None \<Rightarrow> None | Some eps \<Rightarrow>
            (case List.map_filter (\<lambda>(i, cs). if i = 0 then None else cs 257) eps of
               [] \<Rightarrow> None | c # _ \<Rightarrow> Some c)) (zha_chain 4 obj)
        of [] \<Rightarrow> None | c # _ \<Rightarrow> Some c)"
  "(ieee, model) \<in> set (iter_onesti_locks gw) \<longleftrightarrow>
     (\<exists>proxy. (ieee, proxy) \<in> set (iter_device_proxies gw) \<and> device_metadata proxy = (MANUFACTURER, model)
        \<and> walk_to_door_lock_cluster CHAIN_DEPTH proxy \<noteq> None)"
  "find_door_lock_cluster gw (str_lower ieee) = find_door_lock_cluster gw ieee"
proof -
  show "walk_to_door_lock_cluster CHAIN_DEPTH obj
     = (case List.map_filter (\<lambda>x. case zo_endpoints x of None \<Rightarrow> None | Some eps \<Rightarrow>
            (case List.map_filter (\<lambda>(i, cs). if i = 0 then None else cs 257) eps of
               [] \<Rightarrow> None | c # _ \<Rightarrow> Some c)) (zha_chain 4 obj)
        of [] \<Rightarrow> None | c # _ \<Rightarrow> Some c)"
    using walk_chain [of CHAIN_DEPTH obj] by (simp only: CHAIN_DEPTH_def object_cluster_reference)
  show "(ieee, model) \<in> set (iter_onesti_locks gw) \<longleftrightarrow>
     (\<exists>proxy. (ieee, proxy) \<in> set (iter_device_proxies gw) \<and> device_metadata proxy = (MANUFACTURER, model)
        \<and> walk_to_door_lock_cluster CHAIN_DEPTH proxy \<noteq> None)"
    by (auto simp: iter_onesti_locks_def has_door_lock_cluster_def image_iff intro!: bexI)
      (metis prod.collapse)
  show "find_door_lock_cluster gw (str_lower ieee) = find_door_lock_cluster gw ieee"
    by (simp add: find_door_lock_cluster_def first_cluster_lower)
qed

section \<open>The device registry\<close>

text \<open>
  ZHA's device is found the same way on every release: where the registry can be asked by
  connection, and answers with the entry's device that has it, as it is documented to, the
  result is the one the walk over the devices gives; and it is a device with the connection.
\<close>

theorem zha_device_same_on_all_releases:
  assumes "\<And>entry_id devices conn. (entry_id, devices) \<in> set zha_entries \<Longrightarrow>
      lookup conn entry_id = find (\<lambda>d. conn \<in> set (rd_connections d)) devices"
  shows "find_zha_device (Some lookup) zha_entries ieee = find_zha_device None zha_entries ieee"
    and "find_zha_device None zha_entries ieee = Some d \<Longrightarrow>
      (''zigbee'', str_lower ieee) \<in> set (rd_connections d)
      \<and> (\<exists>entry_id devices. (entry_id, devices) \<in> set zha_entries \<and> d \<in> set devices)"
proof -
  show "find_zha_device (Some lookup) zha_entries ieee = find_zha_device None zha_entries ieee"
    using assms
  proof (induction zha_entries)
    case (Cons e es)
    obtain i ds where e: "e = (i, ds)" by (cases e)
    have "lookup (zigbee_connection ieee) i = find (\<lambda>d. zigbee_connection ieee \<in> set (rd_connections d)) ds"
      using Cons.prems [of i ds] e by simp
    moreover have "find_zha_device (Some lookup) es ieee = find_zha_device None es ieee"
      using Cons.prems by (intro Cons.IH) simp
    ultimately show ?case using e by (simp split: option.split)
  qed simp
  show "find_zha_device None zha_entries ieee = Some d \<Longrightarrow>
      (''zigbee'', str_lower ieee) \<in> set (rd_connections d)
      \<and> (\<exists>entry_id devices. (entry_id, devices) \<in> set zha_entries \<and> d \<in> set devices)"
  proof (induction zha_entries)
    case (Cons e es)
    obtain i ds where e: "e = (i, ds)" by (cases e)
    show ?case
    proof (cases "find (\<lambda>d. zigbee_connection ieee \<in> set (rd_connections d)) ds")
      case None
      then show ?thesis using Cons e by auto
    next
      case (Some d')
      then have "d' \<in> set ds" "zigbee_connection ieee \<in> set (rd_connections d')"
        by (auto simp: find_Some_iff)
      then show ?thesis using Cons.prems Some e by (auto simp: zigbee_connection_def)
    qed
  qed simp
qed

theorem zha_device_same_on_all_releases_witness:
  "find_zha_device (Some (\<lambda>conn e. if conn = (''zigbee'', ''f4:ce'') \<and> e = ''zha1''
       then Some \<lparr>rd_id = ''d1'', rd_connections = [(''zigbee'', ''f4:ce'')]\<rparr> else None))
     [(''zha1'', [\<lparr>rd_id = ''d1'', rd_connections = [(''zigbee'', ''f4:ce'')]\<rparr>])] ''F4:CE''
   = find_zha_device None [(''zha1'', [\<lparr>rd_id = ''d1'', rd_connections = [(''zigbee'', ''f4:ce'')]\<rparr>])] ''F4:CE''"
  by (rule zha_device_same_on_all_releases) auto

end
