(* ===== verification/Coordinator.thy ===== *)
theory Coordinator
  imports Zha
begin

text \<open>
  \<^verbatim>\<open>coordinator.py\<close>: slot data and PIN operations of one lock. The config entry's options
  outlive a coordinator, and a write can go on through a reload, so two coordinators on one
  entry are part of the world: \<open>entry_world\<close> holds the options, every coordinator made so far
  and which of them is \<^verbatim>\<open>entry.runtime_data\<close>.
\<close>

section \<open>Slots and options\<close>

record slot =
  sl_name :: py
  sl_has_pin :: py

definition DEFAULT_SLOT :: slot where
  "DEFAULT_SLOT = \<lparr>sl_name = PStr '''', sl_has_pin = PBool False\<rparr>"

type_synonym slots = "string \<rightharpoonup> slot"

text \<open>
  The options of the entry: the stored slots, each a dict of any fields, if the key is there;
  the stored capabilities, if they are a mapping; everything else.
\<close>

record entry_options =
  eo_slots :: "(string \<rightharpoonup> py_map) option"
  eo_capabilities :: "py_map option"
  eo_rest :: py_map

text \<open>\<^verbatim>\<open>{**DEFAULT_SLOT, **{f: v[f] for f in DEFAULT_SLOT if f in v}}\<close>\<close>

definition read_slot :: "py_map \<Rightarrow> slot" where
  "read_slot v =
     \<lparr>sl_name = (case v ''name'' of None \<Rightarrow> sl_name DEFAULT_SLOT | Some x \<Rightarrow> x),
      sl_has_pin = (case v ''has_pin'' of None \<Rightarrow> sl_has_pin DEFAULT_SLOT | Some x \<Rightarrow> x)\<rparr>"

definition write_slot :: "slot \<Rightarrow> py_map" where
  "write_slot s = [''name'' \<mapsto> sl_name s, ''has_pin'' \<mapsto> sl_has_pin s]"

definition stored_slots :: "entry_options \<Rightarrow> slots" where
  "stored_slots opts = (\<lambda>k. case eo_slots opts of None \<Rightarrow> None | Some m \<Rightarrow> map_option read_slot (m k))"

definition reserved_option :: "entry_options \<Rightarrow> py_map" where
  "reserved_option opts = eo_rest opts"

section \<open>The world\<close>

record coordinator =
  co_slots :: slots
  co_capabilities :: py_map
  co_capabilities_final :: bool
  co_available :: bool
  co_listened :: "nat option"
  co_setup_first :: int
  co_notified :: nat

datatype availability_line = EventsStopped | EventsArriving

record entry_world =
  ew_options :: entry_options
  ew_coordinators :: "coordinator list"
  ew_current :: "nat option"
  ew_loss_logged :: bool
  ew_lines :: "availability_line list"

definition coord :: "entry_world \<Rightarrow> nat \<Rightarrow> coordinator" where
  "coord w i = ew_coordinators w ! i"

definition update_coord :: "nat \<Rightarrow> (coordinator \<Rightarrow> coordinator) \<Rightarrow> entry_world \<Rightarrow> entry_world" where
  "update_coord i f w = w\<lparr>ew_coordinators := (ew_coordinators w)[i := f (coord w i)]\<rparr>"

definition load_slots :: "entry_options \<Rightarrow> coordinator \<Rightarrow> coordinator" where
  "load_slots opts c = c\<lparr>co_slots := stored_slots opts\<rparr>"

definition notify_listeners :: "coordinator \<Rightarrow> coordinator" where
  "notify_listeners c = c\<lparr>co_notified := Suc (co_notified c)\<rparr>"

definition first_slot_of :: "entry_options \<Rightarrow> int" where
  "first_slot_of opts = first_user_slot (reserved_option opts)"

definition coordinator_init :: "bool \<Rightarrow> entry_options \<Rightarrow> coordinator" where
  "coordinator_init zha_loaded opts =
     load_slots opts
       \<lparr>co_slots = Map.empty,
        co_capabilities = (case eo_capabilities opts of None \<Rightarrow> Map.empty | Some m \<Rightarrow> m),
        co_capabilities_final = (eo_capabilities opts \<noteq> None),
        co_available = zha_loaded, co_listened = None,
        co_setup_first = first_slot_of opts, co_notified = 0\<rparr>"

definition adopt_stored_slots :: "entry_options \<Rightarrow> coordinator \<Rightarrow> coordinator" where
  "adopt_stored_slots opts c = notify_listeners (load_slots opts c)"

text \<open>\<^verbatim>\<open>_save_slots\<close>: the options take the slots, and another current coordinator takes them over.\<close>

definition save_slots :: "nat \<Rightarrow> entry_world \<Rightarrow> entry_world" where
  "save_slots i w =
     (let w = w\<lparr>ew_options := (ew_options w)
                  \<lparr>eo_slots := Some (\<lambda>k. map_option write_slot (co_slots (coord w i) k))\<rparr>\<rparr>
      in case ew_current w of
           None \<Rightarrow> w
         | Some j \<Rightarrow> if j \<noteq> i then update_coord j (adopt_stored_slots (ew_options w)) w else w)"

text \<open>Load, change, save, notify: one step on the event loop, since nothing in it suspends.\<close>

definition change_slots :: "nat \<Rightarrow> (slots \<Rightarrow> slots) \<Rightarrow> entry_world \<Rightarrow> entry_world" where
  "change_slots i f w =
     (let w = update_coord i (load_slots (ew_options w)) w;
          w = update_coord i (\<lambda>c. c\<lparr>co_slots := f (co_slots c)\<rparr>) w;
          w = save_slots i w
      in update_coord i notify_listeners w)"

section \<open>Reading slots\<close>

definition get_slot :: "coordinator \<Rightarrow> int \<Rightarrow> slot" where
  "get_slot c n = (case co_slots c (str_int n) of None \<Rightarrow> DEFAULT_SLOT | Some s \<Rightarrow> s)"

type_synonym strings = "string \<rightharpoonup> string"

definition string_or :: "strings \<Rightarrow> string \<Rightarrow> string \<Rightarrow> string" where
  "string_or strings key d = (case strings key of None \<Rightarrow> d | Some s \<Rightarrow> s)"

text \<open>None is the exception of a template with an unknown field.\<close>

definition get_slot_name :: "strings \<Rightarrow> coordinator \<Rightarrow> int \<Rightarrow> py option" where
  "get_slot_name strings c n =
     (let name = (case co_slots c (str_int n) of None \<Rightarrow> PStr '''' | Some s \<Rightarrow> sl_name s) in
      if py_truth name then Some name
      else if n = 0 then Some (PStr (string_or strings ''slot_fallback_master'' ''Master''))
      else map_option PStr (str_format [''slot'' \<mapsto> str_int n]
             (string_or strings ''slot_fallback_name'' ''Slot {slot}'')))"

section \<open>Changing slots\<close>

definition slot_or_default :: "slots \<Rightarrow> int \<Rightarrow> slot" where
  "slot_or_default m n = (case m (str_int n) of None \<Rightarrow> DEFAULT_SLOT | Some s \<Rightarrow> s)"

datatype slot_op = SetPin int string | ClearPin int | ClearSlot int | SetName int string

text \<open>What each operation does to \<^verbatim>\<open>_slots\<close> between the load and the save.\<close>

definition pin_set :: "int \<Rightarrow> string \<Rightarrow> slots \<Rightarrow> slots" where
  "pin_set n name m =
     m(str_int n \<mapsto> (slot_or_default m n)\<lparr>sl_name := PStr name, sl_has_pin := PBool True\<rparr>)"

definition pin_cleared :: "int \<Rightarrow> slots \<Rightarrow> slots" where
  "pin_cleared n m = m(str_int n \<mapsto> (slot_or_default m n)\<lparr>sl_has_pin := PBool False\<rparr>)"

definition slot_cleared :: "int \<Rightarrow> slots \<Rightarrow> slots" where
  "slot_cleared n m = m(str_int n \<mapsto> DEFAULT_SLOT)"

text \<open>A Python dict equals another whose values compare equal: a has\_pin of 0 equals False.\<close>

definition slot_is_default :: "slot \<Rightarrow> bool" where
  "slot_is_default s \<longleftrightarrow> sl_name s = PStr '''' \<and> py_number (sl_has_pin s) = Some 0"

definition name_set :: "int \<Rightarrow> string \<Rightarrow> slots \<Rightarrow> slots" where
  "name_set n name m =
     (if name \<noteq> [] then m(str_int n \<mapsto> (slot_or_default m n)\<lparr>sl_name := PStr name\<rparr>)
      else case m (str_int n) of
        None \<Rightarrow> m
      | Some s \<Rightarrow>
          (let s = s\<lparr>sl_name := PStr ''''\<rparr> in
           if slot_is_default s then m(str_int n := None) else m(str_int n \<mapsto> s)))"

text \<open>\<^verbatim>\<open>set_slot_name\<close> returns early, with the slots freshly loaded, when there is nothing to unname.\<close>

definition set_slot_name :: "nat \<Rightarrow> int \<Rightarrow> string \<Rightarrow> entry_world \<Rightarrow> entry_world" where
  "set_slot_name i n name w =
     (if name = [] \<and> stored_slots (ew_options w) (str_int n) = None
      then update_coord i (load_slots (ew_options w)) w
      else change_slots i (name_set n name) w)"

text \<open>\<^verbatim>\<open>_check_writable\<close>: Some is the first user slot its ValueError names.\<close>

definition check_writable :: "entry_world \<Rightarrow> int \<Rightarrow> int option" where
  "check_writable w n =
     (let first = first_slot_of (ew_options w) in if n < first then Some first else None)"

definition set_pin_params :: "int \<Rightarrow> string \<Rightarrow> zcl_params" where
  "set_pin_params n code =
     [(''user_id'', PInt n), (''user_status'', PInt 1), (''user_type'', PInt 0), (''pin_code'', PStr code)]"

definition clear_pin_params :: "int \<Rightarrow> zcl_params" where
  "clear_pin_params n = [(''user_id'', PInt n)]"

text \<open>What follows the send, by its outcome.\<close>

definition set_pin_finish :: "nat \<Rightarrow> int \<Rightarrow> string \<Rightarrow> send_outcome \<Rightarrow> entry_world \<Rightarrow> entry_world" where
  "set_pin_finish i n name out w = (if delivered out then change_slots i (pin_set n name) w else w)"

definition clear_pin_finish :: "nat \<Rightarrow> int \<Rightarrow> send_outcome \<Rightarrow> entry_world \<Rightarrow> entry_world" where
  "clear_pin_finish i n out w = (if delivered out then change_slots i (pin_cleared n) w else w)"

definition clear_slot_finish :: "nat \<Rightarrow> int \<Rightarrow> send_outcome \<Rightarrow> entry_world \<Rightarrow> entry_world" where
  "clear_slot_finish i n out w = (if delivered out then change_slots i (slot_cleared n) w else w)"

text \<open>
  The whole operations over a transport. By its contract a transport's send gives an outcome
  and never raises; the callers do not rely on it, so the operations are defined over a send
  that may raise, an exception being its type's name and its text, and \<open>never_raises\<close> makes
  one of a send that keeps the contract. The operations fail on a reserved slot, with the slot
  and the first user slot in the ValueError, or with what the send raised; the last part of a
  result is whether a capability refresh was asked for.
\<close>

type_synonym 's sender = "int \<Rightarrow> zcl_params \<Rightarrow> 's \<Rightarrow> 's \<times> send_outcome"

type_synonym 's raising_sender = "int \<Rightarrow> zcl_params \<Rightarrow> 's \<Rightarrow> 's \<times> (string \<times> string + send_outcome)"

definition never_raises :: "'s sender \<Rightarrow> 's raising_sender" where
  "never_raises send command params s = (let (s, out) = send command params s in (s, Inr out))"

datatype write_fault = ReservedSlot int int | SendRaised string string

definition coordinator_send ::
  "'s raising_sender \<Rightarrow> nat \<Rightarrow> int \<Rightarrow> zcl_params \<Rightarrow> entry_world \<Rightarrow> 's
     \<Rightarrow> 's \<times> (string \<times> string + send_outcome \<times> bool)" where
  "coordinator_send send i command params w s =
     (case send command params s of
        (s, Inl err) \<Rightarrow> (s, Inl err)
      | (s, Inr out) \<Rightarrow> (s, Inr (out, lock_answered out \<and> \<not> co_capabilities_final (coord w i))))"

definition set_pin ::
  "'s raising_sender \<Rightarrow> nat \<Rightarrow> int \<Rightarrow> string \<Rightarrow> string \<Rightarrow> entry_world \<Rightarrow> 's
     \<Rightarrow> entry_world \<times> 's \<times> (write_fault + send_outcome \<times> bool)" where
  "set_pin send i n name code w s =
     (case check_writable w n of
        Some first \<Rightarrow> (w, s, Inl (ReservedSlot n first))
      | None \<Rightarrow>
          (case coordinator_send send i 5 (set_pin_params n code) w s of
             (s, Inl (kind, text)) \<Rightarrow> (w, s, Inl (SendRaised kind text))
           | (s, Inr (out, refresh)) \<Rightarrow> (set_pin_finish i n name out w, s, Inr (out, refresh))))"

definition clear_pin ::
  "'s raising_sender \<Rightarrow> nat \<Rightarrow> int \<Rightarrow> entry_world \<Rightarrow> 's
     \<Rightarrow> entry_world \<times> 's \<times> (write_fault + send_outcome \<times> bool)" where
  "clear_pin send i n w s =
     (case check_writable w n of
        Some first \<Rightarrow> (w, s, Inl (ReservedSlot n first))
      | None \<Rightarrow>
          (case coordinator_send send i 7 (clear_pin_params n) w s of
             (s, Inl (kind, text)) \<Rightarrow> (w, s, Inl (SendRaised kind text))
           | (s, Inr (out, refresh)) \<Rightarrow> (clear_pin_finish i n out w, s, Inr (out, refresh))))"

definition clear_slot ::
  "'s raising_sender \<Rightarrow> nat \<Rightarrow> int \<Rightarrow> entry_world \<Rightarrow> 's
     \<Rightarrow> entry_world \<times> 's \<times> (write_fault + send_outcome \<times> bool)" where
  "clear_slot send i n w s =
     (case check_writable w n of
        Some first \<Rightarrow> (w, s, Inl (ReservedSlot n first))
      | None \<Rightarrow>
          (case coordinator_send send i 7 (clear_pin_params n) w s of
             (s, Inl (kind, text)) \<Rightarrow> (w, s, Inl (SendRaised kind text))
           | (s, Inr (out, refresh)) \<Rightarrow> (clear_slot_finish i n out w, s, Inr (out, refresh))))"

section \<open>Availability and capabilities\<close>

definition log_availability :: "bool \<Rightarrow> entry_world \<Rightarrow> entry_world" where
  "log_availability available w =
     (if available
      then if ew_loss_logged w
           then w\<lparr>ew_loss_logged := False, ew_lines := ew_lines w @ [EventsArriving]\<rparr> else w
      else if \<not> ew_loss_logged w
           then w\<lparr>ew_loss_logged := True, ew_lines := ew_lines w @ [EventsStopped]\<rparr> else w)"

definition set_available :: "nat \<Rightarrow> bool \<Rightarrow> bool \<Rightarrow> entry_world \<Rightarrow> entry_world" where
  "set_available i available quiet w =
     (let changed = (available \<noteq> co_available (coord w i));
          w = update_coord i (\<lambda>c. c\<lparr>co_available := available\<rparr>) w;
          w = (if quiet then w else log_availability available w)
      in if changed then update_coord i notify_listeners w else w)"

definition set_listened_cluster :: "nat \<Rightarrow> nat option \<Rightarrow> entry_world \<Rightarrow> entry_world" where
  "set_listened_cluster i cluster w =
     set_available i (cluster \<noteq> None) False (update_coord i (\<lambda>c. c\<lparr>co_listened := cluster\<rparr>) w)"

text \<open>\<^verbatim>\<open>async_refresh_capabilities\<close> with what the transport read, if it asked.\<close>

definition refresh_capabilities :: "nat \<Rightarrow> py_map option \<Rightarrow> entry_world \<Rightarrow> entry_world" where
  "refresh_capabilities i answer w =
     (if co_capabilities_final (coord w i) then w
      else case answer of
        None \<Rightarrow> w
      | Some caps \<Rightarrow>
          (let w = update_coord i (\<lambda>c. c\<lparr>co_capabilities := caps, co_capabilities_final := True\<rparr>) w;
               w = w\<lparr>ew_options := (ew_options w)\<lparr>eo_capabilities := Some caps\<rparr>\<rparr>
           in update_coord i notify_listeners w))"

definition max_slot_of :: "coordinator \<Rightarrow> int" where
  "max_slot_of c = max_user_slot (co_capabilities c)"

end
