(* ===== verification/Coordinator_Runs.thy ===== *)
theory Coordinator_Runs
  imports Coordinator
begin

text \<open>
  Slot data under every interleaving: PIN writes in flight on any coordinator of the entry,
  reloads under them, names, settings and capability reads in between. A setup is two steps,
  since it waits for the translations between making the coordinator and putting it into
  \<^verbatim>\<open>entry.runtime_data\<close>. The stored slots are one register: what was stored first, changed by
  every operation that saved, in its order.
\<close>

section \<open>The machine\<close>

datatype task_phase = Waiting | Sending

record write_task =
  wt_coord :: nat
  wt_op :: slot_op
  wt_phase :: task_phase

record store_world =
  sw_entry :: entry_world
  sw_tasks :: "write_task list"
  sw_sent :: "slot_op list"
  sw_done :: "slot_op list"
  sw_setup :: "(nat \<times> nat) option"
  sw_shown :: "nat \<times> nat"

text \<open>
  \<open>sw_setup\<close> is the coordinator a setup has made and not yet published, with the number of
  saved operations by then; \<open>sw_shown\<close> are the numbers of saved operations when the current
  coordinator was made and when it was published. Nobody else holds a coordinator under setup.
\<close>

definition in_use :: "store_world \<Rightarrow> nat \<Rightarrow> bool" where
  "in_use w i \<longleftrightarrow> i < length (ew_coordinators (sw_entry w)) \<and> map_option fst (sw_setup w) \<noteq> Some i"

primrec op_slot :: "slot_op \<Rightarrow> int" where
  "op_slot (SetPin n name) = n"
| "op_slot (ClearPin n) = n"
| "op_slot (ClearSlot n) = n"
| "op_slot (SetName n name) = n"

definition is_pin_op :: "slot_op \<Rightarrow> bool" where
  "is_pin_op op \<longleftrightarrow> (case op of SetName n name \<Rightarrow> False | _ \<Rightarrow> True)"

primrec finish_op :: "nat \<Rightarrow> slot_op \<Rightarrow> send_outcome \<Rightarrow> entry_world \<Rightarrow> entry_world" where
  "finish_op i (SetPin n name) out w = set_pin_finish i n name out w"
| "finish_op i (ClearPin n) out w = clear_pin_finish i n out w"
| "finish_op i (ClearSlot n) out w = clear_slot_finish i n out w"
| "finish_op i (SetName n name) out w = set_slot_name i n name w"

definition construct_coordinator :: "bool \<Rightarrow> entry_world \<Rightarrow> entry_world" where
  "construct_coordinator zha_loaded w =
     w\<lparr>ew_coordinators := ew_coordinators w @ [coordinator_init zha_loaded (ew_options w)]\<rparr>"

definition publish_coordinator :: "nat \<Rightarrow> entry_world \<Rightarrow> entry_world" where
  "publish_coordinator i w = w\<lparr>ew_current := Some i\<rparr>"

text \<open>A name that changes nothing, an empty one for a slot without an entry, saves nothing.\<close>

definition name_saves :: "entry_world \<Rightarrow> int \<Rightarrow> string \<Rightarrow> bool" where
  "name_saves w n name \<longleftrightarrow> name \<noteq> [] \<or> stored_slots (ew_options w) (str_int n) \<noteq> None"

inductive store_step :: "store_world \<Rightarrow> store_world \<Rightarrow> bool" where
  begin_write: "in_use w i \<Longrightarrow> is_pin_op op \<Longrightarrow>
    check_writable (sw_entry w) (op_slot op) = None \<Longrightarrow>
    store_step w (w\<lparr>sw_tasks := sw_tasks w @ [\<lparr>wt_coord = i, wt_op = op, wt_phase = Waiting\<rparr>]\<rparr>)"
| acquire_lock: "sw_tasks w = before @ t # after \<Longrightarrow> wt_phase t = Waiting \<Longrightarrow>
    \<forall>u \<in> set (before @ after). wt_coord u = wt_coord t \<longrightarrow> wt_phase u = Waiting \<Longrightarrow>
    store_step w (w\<lparr>sw_tasks := before @ t\<lparr>wt_phase := Sending\<rparr> # after, sw_sent := sw_sent w @ [wt_op t]\<rparr>)"
| finish_write: "sw_tasks w = before @ t # after \<Longrightarrow> wt_phase t = Sending \<Longrightarrow>
    store_step w (w\<lparr>sw_tasks := before @ after,
      sw_entry := finish_op (wt_coord t) (wt_op t) out (sw_entry w),
      sw_done := (if delivered out then sw_done w @ [wt_op t] else sw_done w)\<rparr>)"
| name_slot: "in_use w i \<Longrightarrow>
    store_step w (w\<lparr>sw_entry := set_slot_name i n name (sw_entry w),
      sw_done := (if name_saves (sw_entry w) n name then sw_done w @ [SetName n name] else sw_done w)\<rparr>)"
| make_coordinator: "sw_setup w = None \<Longrightarrow>
    store_step w (w\<lparr>sw_entry := construct_coordinator zha_loaded (sw_entry w),
      sw_setup := Some (length (ew_coordinators (sw_entry w)), length (sw_done w))\<rparr>)"
| publish: "sw_setup w = Some (i, k) \<Longrightarrow>
    store_step w (w\<lparr>sw_entry := publish_coordinator i (sw_entry w),
      sw_setup := None, sw_shown := (k, length (sw_done w))\<rparr>)"
| setup_fails: "sw_setup w = Some (i, k) \<Longrightarrow> store_step w (w\<lparr>sw_setup := None\<rparr>)"
| unload_entry: "store_step w (w\<lparr>sw_entry := (sw_entry w)\<lparr>ew_current := None\<rparr>\<rparr>)"
| change_settings: "store_step w (w\<lparr>sw_entry := (sw_entry w)
      \<lparr>ew_options := (ew_options (sw_entry w))\<lparr>eo_rest := rest\<rparr>\<rparr>\<rparr>)"
| capabilities_answer: "i < length (ew_coordinators (sw_entry w)) \<Longrightarrow>
    store_step w (w\<lparr>sw_entry := refresh_capabilities i answer (sw_entry w)\<rparr>)"
| availability: "i < length (ew_coordinators (sw_entry w)) \<Longrightarrow>
    store_step w (w\<lparr>sw_entry := set_available i available quiet (sw_entry w)\<rparr>)"

inductive_cases store_stepE: "store_step w w'"

lemmas store_step_cases = store_stepE [consumes 1, case_names begin_write acquire_lock finish_write
    name_slot make_coordinator publish setup_fails unload_entry change_settings capabilities_answer availability]

definition store_start :: "entry_options \<Rightarrow> store_world \<Rightarrow> bool" where
  "store_start opts w \<longleftrightarrow> w = \<lparr>sw_entry = \<lparr>ew_options = opts, ew_coordinators = [], ew_current = None,
     ew_loss_logged = False, ew_lines = []\<rparr>, sw_tasks = [], sw_sent = [], sw_done = [],
     sw_setup = None, sw_shown = (0, 0)\<rparr>"

section \<open>The specification: one register\<close>

primrec spec_op :: "slot_op \<Rightarrow> slots \<Rightarrow> slots" where
  "spec_op (SetPin n name) = pin_set n name"
| "spec_op (ClearPin n) = pin_cleared n"
| "spec_op (ClearSlot n) = slot_cleared n"
| "spec_op (SetName n name) = name_set n name"

type_synonym register = "slots \<times> slot_op list"

definition register_start :: "slots \<Rightarrow> register \<Rightarrow> bool" where
  "register_start m0 r \<longleftrightarrow> r = (m0, [])"

inductive register_step :: "register \<Rightarrow> register \<Rightarrow> bool" where
  "register_step (m, ops) (spec_op op m, ops @ [op])"

lemma register_fold:
  "reach (register_start m0) register_step r \<Longrightarrow> fst r = fold spec_op (snd r) m0"
  by (induction rule: reach.induct) (auto simp: register_start_def elim!: register_step.cases)

section \<open>One change\<close>

lemma read_write_slot [simp]: "read_slot (write_slot s) = s"
  by (cases s) (simp add: read_slot_def write_slot_def)

lemma coord_update [simp]:
  "i < length (ew_coordinators w) \<Longrightarrow> coord (update_coord i f w) j = (if i = j then f (coord w i) else coord w j)"
  by (simp add: coord_def update_coord_def)

lemma coord_update_any:
  "coord (update_coord i f w) j = (if i = j \<and> i < length (ew_coordinators w) then f (coord w i) else coord w j)"
  by (cases "i < length (ew_coordinators w)") (auto simp: coord_def update_coord_def list_update_beyond)

lemma update_coord_frame [simp]:
  "ew_options (update_coord i f w) = ew_options w"
  "ew_current (update_coord i f w) = ew_current w"
  "ew_loss_logged (update_coord i f w) = ew_loss_logged w"
  "ew_lines (update_coord i f w) = ew_lines w"
  "length (ew_coordinators (update_coord i f w)) = length (ew_coordinators w)"
  by (simp_all add: update_coord_def)

lemma coord_options_update [simp]: "coord (w\<lparr>ew_options := o'\<rparr>) i = coord w i"
  by (simp add: coord_def)

lemma slots_views [simp]:
  "co_slots (load_slots opts c) = stored_slots opts"
  "co_slots (notify_listeners c) = co_slots c"
  "co_slots (adopt_stored_slots opts c) = stored_slots opts"
  "co_slots (coordinator_init z opts) = stored_slots opts"
  by (simp_all add: load_slots_def notify_listeners_def adopt_stored_slots_def coordinator_init_def)

lemma stored_slots_written [simp]:
  "stored_slots (opts\<lparr>eo_slots := Some (\<lambda>k. map_option write_slot (m k))\<rparr>) = m"
  by (rule ext) (simp add: stored_slots_def map_option.compositionality o_def map_option.id [unfolded id_def])

lemma stored_slots_frame [simp]:
  "stored_slots (opts\<lparr>eo_rest := r\<rparr>) = stored_slots opts"
  "stored_slots (opts\<lparr>eo_capabilities := c\<rparr>) = stored_slots opts"
  by (rule ext, simp add: stored_slots_def)+

text \<open>What stays while slots change: everything but the slots themselves.\<close>

definition same_frame :: "entry_world \<Rightarrow> entry_world \<Rightarrow> bool" where
  "same_frame w w' \<longleftrightarrow> length (ew_coordinators w') = length (ew_coordinators w)
     \<and> ew_current w' = ew_current w \<and> ew_loss_logged w' = ew_loss_logged w \<and> ew_lines w' = ew_lines w
     \<and> eo_rest (ew_options w') = eo_rest (ew_options w)"

lemma change_slots_effect:
  assumes "i < length (ew_coordinators w)"
  shows "stored_slots (ew_options (change_slots i f w)) = f (stored_slots (ew_options w))"
    and "same_frame w (change_slots i f w)"
  using assms
  by (simp_all add: change_slots_def save_slots_def Let_def same_frame_def split: option.splits)

lemma change_slots_view:
  assumes "i < length (ew_coordinators w)" "j < length (ew_coordinators w)"
  shows "co_slots (coord (change_slots i f w) j)
    = (if j = i \<or> ew_current w = Some j then f (stored_slots (ew_options w)) else co_slots (coord w j))"
  using assms by (auto simp: change_slots_def save_slots_def Let_def coord_update_any simp del: coord_update
      split: option.splits)

lemma load_slots_view:
  assumes "i < length (ew_coordinators w)"
  shows "co_slots (coord (update_coord i (load_slots (ew_options w)) w) j)
    = (if j = i then stored_slots (ew_options w) else co_slots (coord w j))"
  using assms by auto

lemma set_slot_name_saves:
  "set_slot_name i n name w =
     (if name_saves w n name then change_slots i (name_set n name) w
      else update_coord i (load_slots (ew_options w)) w)"
  by (simp add: set_slot_name_def name_saves_def)

lemma finish_op_delivered:
  "is_pin_op op \<Longrightarrow> delivered out \<Longrightarrow> finish_op i op out w = change_slots i (spec_op op) w"
  by (cases op) (auto simp: is_pin_op_def set_pin_finish_def clear_pin_finish_def clear_slot_finish_def)

lemma finish_op_undelivered: "is_pin_op op \<Longrightarrow> \<not> delivered out \<Longrightarrow> finish_op i op out w = w"
  by (cases op) (auto simp: is_pin_op_def set_pin_finish_def clear_pin_finish_def clear_slot_finish_def)

section \<open>The invariant\<close>

fun alternating :: "availability_line list \<Rightarrow> bool" where
  "alternating [] = True"
| "alternating [l] = (l = EventsStopped)"
| "alternating (a # b # ls) = (a = EventsStopped \<and> b = EventsArriving \<and> alternating ls)"

definition last_line_stopped :: "availability_line list \<Rightarrow> bool" where
  "last_line_stopped ls \<longleftrightarrow> ls \<noteq> [] \<and> last ls = EventsStopped"

lemma alternating_snoc:
  "alternating ls \<Longrightarrow> alternating (ls @ [if last_line_stopped ls then EventsArriving else EventsStopped])"
  by (induction ls rule: alternating.induct) (auto simp: last_line_stopped_def)

definition lines_ok :: "entry_world \<Rightarrow> bool" where
  "lines_ok w \<longleftrightarrow> alternating (ew_lines w) \<and> ew_loss_logged w = last_line_stopped (ew_lines w)"

definition write_task_ok :: "store_world \<Rightarrow> write_task \<Rightarrow> bool" where
  "write_task_ok w t \<longleftrightarrow> in_use w (wt_coord t) \<and> is_pin_op (wt_op t) \<and> 1 \<le> op_slot (wt_op t)"

definition one_sending :: "write_task list \<Rightarrow> bool" where
  "one_sending ts \<longleftrightarrow> distinct (map wt_coord (filter (\<lambda>t. wt_phase t = Sending) ts))"

text \<open>The slots after the first \<open>k\<close> saved operations.\<close>

definition slots_after :: "slots \<Rightarrow> store_world \<Rightarrow> nat \<Rightarrow> slots" where
  "slots_after m0 w k = fold spec_op (take k (sw_done w)) m0"

definition entry_slots :: "store_world \<Rightarrow> slots" where
  "entry_slots w = stored_slots (ew_options (sw_entry w))"

definition shows_slots :: "store_world \<Rightarrow> nat \<Rightarrow> slots" where
  "shows_slots w j = co_slots (coord (sw_entry w) j)"

text \<open>
  What coordinator \<open>j\<close> shows as the current one: the stored slots, unless operations saved while its
  setup waited and none since its publication.
\<close>

definition shown_ok :: "slots \<Rightarrow> store_world \<Rightarrow> nat \<Rightarrow> bool" where
  "shown_ok m0 w j \<longleftrightarrow> shows_slots w j = entry_slots w
     \<or> fst (sw_shown w) < length (sw_done w) \<and> snd (sw_shown w) = length (sw_done w)
       \<and> shows_slots w j = slots_after m0 w (fst (sw_shown w))"

definition views_ok :: "slots \<Rightarrow> store_world \<Rightarrow> bool" where
  "views_ok m0 w \<longleftrightarrow> entry_slots w = slots_after m0 w (length (sw_done w))
     \<and> (\<forall>j. ew_current (sw_entry w) = Some j \<longrightarrow> in_use w j \<and> shown_ok m0 w j)
     \<and> (\<forall>j k. sw_setup w = Some (j, k) \<longrightarrow> j < length (ew_coordinators (sw_entry w))
          \<and> k \<le> length (sw_done w) \<and> shows_slots w j = slots_after m0 w k)"

definition tasks_ok :: "store_world \<Rightarrow> bool" where
  "tasks_ok w \<longleftrightarrow> (\<forall>t \<in> set (sw_tasks w). write_task_ok w t) \<and> one_sending (sw_tasks w)
     \<and> (\<forall>op \<in> set (sw_sent w). 1 \<le> op_slot op)"

definition store_inv :: "slots \<Rightarrow> store_world \<Rightarrow> bool" where
  "store_inv m0 w \<longleftrightarrow> views_ok m0 w \<and> lines_ok (sw_entry w) \<and> tasks_ok w"

lemmas view_defs = views_ok_def shown_ok_def slots_after_def entry_slots_def shows_slots_def in_use_def

text \<open>A saved operation brings the current coordinator up to date, and leaves one under setup alone.\<close>

lemma views_saved:
  assumes "views_ok m0 w" "in_use w i"
    "sw_entry w' = change_slots i (spec_op op) (sw_entry w)" "sw_done w' = sw_done w @ [op]"
    "sw_setup w' = sw_setup w" "sw_shown w' = sw_shown w"
  shows "views_ok m0 w'"
proof -
  have i: "i < length (ew_coordinators (sw_entry w))" using assms(2) by (simp add: in_use_def)
  note eff = change_slots_effect [OF i, of "spec_op op", unfolded same_frame_def]
  note view = change_slots_view [OF i, of _ "spec_op op"]
  show ?thesis using assms eff view by (auto simp: view_defs)
qed

lemma views_loaded:
  assumes "views_ok m0 w" "in_use w i"
    "sw_entry w' = update_coord i (load_slots (ew_options (sw_entry w))) (sw_entry w)"
    "sw_done w' = sw_done w" "sw_setup w' = sw_setup w" "sw_shown w' = sw_shown w"
  shows "views_ok m0 w'"
  using assms load_slots_view [of i "sw_entry w"] by (auto simp: view_defs)

text \<open>A step that changes no slot, no coordinator's view and nothing of the setup.\<close>

lemma views_same:
  assumes "views_ok m0 w" "stored_slots (ew_options (sw_entry w')) = stored_slots (ew_options (sw_entry w))"
    "\<And>j. co_slots (coord (sw_entry w') j) = co_slots (coord (sw_entry w) j)"
    "length (ew_coordinators (sw_entry w')) = length (ew_coordinators (sw_entry w))"
    "\<And>j. ew_current (sw_entry w') = Some j \<Longrightarrow> ew_current (sw_entry w) = Some j"
    "sw_done w' = sw_done w" "\<And>p. sw_setup w' = Some p \<Longrightarrow> sw_setup w = Some p" "sw_shown w' = sw_shown w"
  shows "views_ok m0 w'"
proof -
  have "map_option fst (sw_setup w') = Some i \<Longrightarrow> map_option fst (sw_setup w) = Some i" for i
    using assms(7) by fastforce
  then have use: "in_use w i \<Longrightarrow> in_use w' i" for i using assms(4) by (auto simp: in_use_def)
  have shown: "shown_ok m0 w j \<Longrightarrow> shown_ok m0 w' j" for j
    using assms(2,3,6,8) by (simp add: shown_ok_def shows_slots_def entry_slots_def slots_after_def)
  show ?thesis
    using assms(1,5,7) use shown assms(2,3,4,6)
    by (auto simp: views_ok_def entry_slots_def slots_after_def shows_slots_def)
qed

lemma finish_op_frame:
  assumes "i < length (ew_coordinators w)"
  shows "same_frame w (finish_op i op out w)"
proof (cases op)
  case (SetName n name)
  then show ?thesis
    using set_slot_name_saves [of i n name w] change_slots_effect(2) [OF assms] by (simp add: same_frame_def)
qed (use change_slots_effect(2) [OF assms] in
    \<open>auto simp: set_pin_finish_def clear_pin_finish_def clear_slot_finish_def same_frame_def\<close>)

text \<open>The steps that touch no slot.\<close>

lemma refresh_frame:
  "same_frame w (refresh_capabilities i a w)"
  "stored_slots (ew_options (refresh_capabilities i a w)) = stored_slots (ew_options w)"
  "i < length (ew_coordinators w) \<Longrightarrow> co_slots (coord (refresh_capabilities i a w) j) = co_slots (coord w j)"
  by (auto simp: refresh_capabilities_def Let_def same_frame_def split: option.splits)

lemma available_frame:
  "length (ew_coordinators (set_available i a q w)) = length (ew_coordinators w)"
  "ew_current (set_available i a q w) = ew_current w"
  "ew_options (set_available i a q w) = ew_options w"
  "i < length (ew_coordinators w) \<Longrightarrow> co_slots (coord (set_available i a q w) j) = co_slots (coord w j)"
proof -
  have f: "coord (log_availability a w) j = coord w j"
    "ew_coordinators (log_availability a w) = ew_coordinators w"
    "ew_current (log_availability a w) = ew_current w" "ew_options (log_availability a w) = ew_options w"
    for a j and w
    by (simp_all add: log_availability_def coord_def)
  show "length (ew_coordinators (set_available i a q w)) = length (ew_coordinators w)"
    "ew_current (set_available i a q w) = ew_current w"
    "ew_options (set_available i a q w) = ew_options w"
    by (auto simp: set_available_def Let_def f)
  show "i < length (ew_coordinators w) \<Longrightarrow> co_slots (coord (set_available i a q w) j) = co_slots (coord w j)"
    by (auto simp: set_available_def Let_def f)
qed

lemma available_lines: "lines_ok w \<Longrightarrow> lines_ok (set_available i a q w)"
proof -
  assume ok: "lines_ok w"
  have snoc: "last_line_stopped (ls @ [l]) = (l = EventsStopped)" for ls l
    by (simp add: last_line_stopped_def)
  have log: "lines_ok (log_availability a v)" if "lines_ok v" for v
    using that alternating_snoc [of "ew_lines v"]
    by (auto simp: lines_ok_def log_availability_def snoc)
  have upd: "lines_ok (update_coord j f v) = lines_ok v" for j f v by (simp add: lines_ok_def)
  show ?thesis using ok log by (auto simp: set_available_def Let_def upd)
qed

lemma same_frame_lines: "same_frame w w' \<Longrightarrow> lines_ok w \<Longrightarrow> lines_ok w'"
  by (simp add: same_frame_def lines_ok_def)

lemma tasks_ok_keep:
  assumes "tasks_ok w" "\<And>i. in_use w i \<Longrightarrow> in_use w' i" "set (sw_tasks w') \<subseteq> set (sw_tasks w)"
    "one_sending (sw_tasks w')" "sw_sent w' = sw_sent w"
  shows "tasks_ok w'"
  using assms by (auto simp: tasks_ok_def write_task_ok_def)

lemma one_sending_drop: "one_sending (a @ t # b) \<Longrightarrow> one_sending (a @ b)"
  by (auto simp: one_sending_def split: if_splits)

lemma one_sending_waiting:
  "one_sending ts \<Longrightarrow> one_sending (ts @ [\<lparr>wt_coord = i, wt_op = op, wt_phase = Waiting\<rparr>])"
  by (simp add: one_sending_def)

lemma one_sending_acquire:
  assumes "one_sending (a @ t # b)" "wt_phase t = Waiting"
    "\<forall>u \<in> set (a @ b). wt_coord u = wt_coord t \<longrightarrow> wt_phase u = Waiting"
  shows "one_sending (a @ t\<lparr>wt_phase := Sending\<rparr> # b)"
  using assms by (auto simp: one_sending_def)

lemma store_inv_step:
  assumes inv: "store_inv m0 w" and step: "store_step w w'"
  shows "store_inv m0 w'"
proof -
  let ?e = "sw_entry w"
  have v: "views_ok m0 w" and l: "lines_ok ?e" and t: "tasks_ok w" using inv by (simp_all add: store_inv_def)
  have os: "one_sending (sw_tasks w)" using t by (simp add: tasks_ok_def)
  note keep = tasks_ok_keep [OF t, of w'] and same = views_same [OF v, of w']
  from step show ?thesis
  proof (cases rule: store_step_cases)
    case (begin_write i op)
    have "1 \<le> op_slot op"
      using begin_write(4) first_user_slot_bounds [of "eo_rest (ew_options ?e)"]
      by (simp add: check_writable_def first_slot_of_def reserved_option_def Let_def split: if_splits)
    then have "tasks_ok w'"
      using t begin_write os by (auto simp: tasks_ok_def write_task_ok_def in_use_def one_sending_waiting)
    moreover have "views_ok m0 w'" using begin_write(1) by (intro same) simp_all
    ultimately show ?thesis using l begin_write(1) by (simp add: store_inv_def)
  next
    case (acquire_lock before t' after)
    then have "write_task_ok w t'" using t by (auto simp: tasks_ok_def)
    then have "tasks_ok w'"
      using t acquire_lock one_sending_acquire [of before t' after]
      by (auto simp: tasks_ok_def write_task_ok_def in_use_def)
    moreover have "views_ok m0 w'" using acquire_lock(1) by (intro same) simp_all
    ultimately show ?thesis using l acquire_lock(1) by (simp add: store_inv_def)
  next
    case (finish_write before t' after out)
    then have t': "in_use w (wt_coord t')" "is_pin_op (wt_op t')"
      using t by (auto simp: tasks_ok_def write_task_ok_def)
    then have f: "same_frame ?e (sw_entry w')"
      using finish_op_frame finish_write(1) by (simp add: in_use_def)
    have "views_ok m0 w'"
    proof (cases "delivered out")
      case True
      then show ?thesis
        using views_saved [OF v t'(1)] finish_op_delivered [OF t'(2) True] finish_write(1) by simp
    next
      case False
      then show ?thesis using same finish_op_undelivered [OF t'(2) False] finish_write(1) by simp
    qed
    moreover have "tasks_ok w'"
    proof (rule keep)
      show "one_sending (sw_tasks w')" using os finish_write(1,2) one_sending_drop by simp
    qed (use f finish_write(1,2) in \<open>auto simp: in_use_def same_frame_def\<close>)
    ultimately show ?thesis using same_frame_lines [OF f l] by (simp add: store_inv_def)
  next
    case (name_slot i n name)
    then have f: "same_frame ?e (sw_entry w')"
      using finish_op_frame [of i ?e "SetName n name"] by (simp add: in_use_def)
    have "views_ok m0 w'"
      using views_saved [OF v name_slot(2), of w' "SetName n name"] views_loaded [OF v name_slot(2), of w']
        name_slot(1) set_slot_name_saves [of i n name ?e]
      by (cases "name_saves ?e n name") simp_all
    moreover have "tasks_ok w'"
      using f name_slot(1) os by (intro keep) (auto simp: in_use_def same_frame_def)
    ultimately show ?thesis using same_frame_lines [OF f l] by (simp add: store_inv_def)
  next
    case (make_coordinator z)
    let ?e' = "construct_coordinator z ?e"
    have c: "coord ?e' j = coord ?e j" if "j < length (ew_coordinators ?e)" for j
      using that by (simp add: construct_coordinator_def coord_def nth_append)
    have new: "co_slots (coord ?e' (length (ew_coordinators ?e))) = stored_slots (ew_options ?e)"
      by (simp add: construct_coordinator_def coord_def)
    have frame: "ew_current ?e' = ew_current ?e" "ew_options ?e' = ew_options ?e"
      "length (ew_coordinators ?e') = Suc (length (ew_coordinators ?e))" "lines_ok ?e' = lines_ok ?e"
      by (simp_all add: construct_coordinator_def lines_ok_def)
    have "views_ok m0 w'"
      using v make_coordinator c new frame by (auto simp: view_defs)
    moreover have "tasks_ok w'"
      using make_coordinator frame os by (intro keep) (auto simp: in_use_def)
    ultimately show ?thesis using l frame make_coordinator(1) by (simp add: store_inv_def)
  next
    case (publish i k)
    let ?e' = "publish_coordinator i ?e"
    have frame: "ew_current ?e' = Some i" "ew_options ?e' = ew_options ?e" "coord ?e' j = coord ?e j"
      "ew_coordinators ?e' = ew_coordinators ?e" "lines_ok ?e' = lines_ok ?e" for j
      by (simp_all add: publish_coordinator_def lines_ok_def coord_def)
    have "views_ok m0 w'" using v publish frame by (auto simp: view_defs)
    moreover have "tasks_ok w'" using publish frame os by (intro keep) (auto simp: in_use_def)
    ultimately show ?thesis using l frame publish(1) by (simp add: store_inv_def)
  next
    case (setup_fails i k)
    have "views_ok m0 w'" using setup_fails(1) by (intro same) simp_all
    moreover have "tasks_ok w'" using setup_fails(1) os by (intro keep) (auto simp: in_use_def)
    ultimately show ?thesis using l setup_fails(1) by (simp add: store_inv_def)
  next
    case unload_entry
    have "views_ok m0 w'" using unload_entry by (intro same) (simp_all add: coord_def)
    moreover have "tasks_ok w'" using unload_entry os by (intro keep) (auto simp: in_use_def)
    moreover have "lines_ok (sw_entry w')" using l unload_entry by (simp add: lines_ok_def)
    ultimately show ?thesis by (simp add: store_inv_def)
  next
    case (change_settings rest)
    have "views_ok m0 w'" using change_settings by (intro same) simp_all
    moreover have "tasks_ok w'" using change_settings os by (intro keep) (auto simp: in_use_def)
    moreover have "lines_ok (sw_entry w')" using l change_settings by (simp add: lines_ok_def)
    ultimately show ?thesis by (simp add: store_inv_def)
  next
    case (capabilities_answer i answer)
    note r = refresh_frame(1,2) [where w = ?e and i = i and a = answer] refresh_frame(3) [OF capabilities_answer(2), of answer]
    have "views_ok m0 w'" using capabilities_answer(1) r by (intro same) (simp_all add: same_frame_def)
    moreover have "tasks_ok w'"
      using capabilities_answer(1) r os by (intro keep) (auto simp: in_use_def same_frame_def)
    ultimately show ?thesis
      using same_frame_lines [OF r(1) l] capabilities_answer(1) by (simp add: store_inv_def)
  next
    case (availability i a q)
    note r = available_frame(1-3) [of i a q ?e] available_frame(4) [OF availability(2), of a q]
    have "views_ok m0 w'" using availability(1) r by (intro same) simp_all
    moreover have "tasks_ok w'" using availability(1) r os by (intro keep) (auto simp: in_use_def)
    ultimately show ?thesis using available_lines [OF l] availability(1) by (simp add: store_inv_def)
  qed
qed

interpretation store_machine: simulation "store_start opts" store_step "store_inv (stored_slots opts)"
  "\<lambda>w. (stored_slots (ew_options (sw_entry w)), sw_done w)" "register_start (stored_slots opts)" register_step
proof
  show "store_start opts s \<Longrightarrow> store_inv (stored_slots opts) s" for s
    by (auto simp: store_start_def store_inv_def view_defs tasks_ok_def lines_ok_def last_line_stopped_def
        one_sending_def)
  show "store_inv (stored_slots opts) s \<Longrightarrow> store_step s t \<Longrightarrow> store_inv (stored_slots opts) t" for s t
    by (rule store_inv_step)
  show "store_start opts s \<Longrightarrow>
      register_start (stored_slots opts) (stored_slots (ew_options (sw_entry s)), sw_done s)" for s
    by (auto simp: store_start_def register_start_def)
next
  fix w w'
  assume inv: "store_inv (stored_slots opts) w" and step: "store_step w w'"
  let ?m = "stored_slots (ew_options (sw_entry w))"
  have op: "register_step (?m, sw_done w) (spec_op op ?m, sw_done w @ [op])" for op
    by (rule register_step.intros)
  from step show "(stored_slots (ew_options (sw_entry w')), sw_done w') = (?m, sw_done w)
      \<or> register_step (?m, sw_done w) (stored_slots (ew_options (sw_entry w')), sw_done w')"
  proof (cases rule: store_step_cases)
    case (finish_write before t after out)
    then have t: "wt_coord t < length (ew_coordinators (sw_entry w))" "is_pin_op (wt_op t)"
      using inv by (auto simp: store_inv_def tasks_ok_def write_task_ok_def in_use_def)
    show ?thesis
      using finish_op_delivered [OF t(2)] change_slots_effect(1) [OF t(1)] finish_op_undelivered [OF t(2)]
        finish_write(1) op [of "wt_op t"]
      by (cases "delivered out") simp_all
  next
    case (name_slot i n name)
    then show ?thesis
      using set_slot_name_saves [of i n name "sw_entry w"] change_slots_effect(1) [of i "sw_entry w"]
        op [of "SetName n name"]
      by (cases "name_saves (sw_entry w) n name") (simp_all add: in_use_def)
  qed (simp_all add: refresh_frame(2) available_frame(3) construct_coordinator_def publish_coordinator_def)
qed

end
