(* ===== verification/Coordinator_Props.thy ===== *)
theory Coordinator_Props
  imports Coordinator_Runs Zha_Props
begin

text \<open>
  What the coordinator promises: no lost update, no write to a master slot, one command at a
  time, local state that follows only what the lock took, log lines in turn.
\<close>

section \<open>The transport as an interface\<close>

text \<open>
  What the coordinator and the services rely on in a transport: a refusal, and only a refusal,
  carries a reason, and a status comes only with a refusal.
\<close>

locale lock_transport =
  fixes send :: "'s sender"
  assumes reason: "send command params s = (s', out) \<Longrightarrow> so_delivery out = REJECTED \<longleftrightarrow> so_rejection out \<noteq> None"
    and status: "send command params s = (s', out) \<Longrightarrow> so_status out \<noteq> None \<Longrightarrow> so_delivery out = REJECTED"
begin

lemma delivered_plain: "send command params s = (s', out) \<Longrightarrow> delivered out \<Longrightarrow> out = SEND_DELIVERED"
  using reason [of command params s s' out] status [of command params s s' out]
  by (cases out; cases "so_status out") (auto simp: delivered_def SEND_DELIVERED_def)

lemma unreached_plain:
  "send command params s = (s', out) \<Longrightarrow> \<not> lock_answered out \<Longrightarrow> out = SEND_UNREACHED"
  using reason [of command params s s' out] status [of command params s s' out]
  by (cases out; cases "so_status out") (auto simp: lock_answered_def SEND_UNREACHED_def)

lemma pin_write:
  assumes "set_pin (never_raises send) i n name code w s = (w', s', r)"
  shows "check_writable w n = Some first \<Longrightarrow> w' = w \<and> s' = s \<and> r = Inl (ReservedSlot n first)"
    and "check_writable w n = None \<Longrightarrow> \<exists>out refresh. r = Inr (out, refresh)
      \<and> send 5 (set_pin_params n code) s = (s', out)
      \<and> (refresh \<longrightarrow> lock_answered out \<and> \<not> co_capabilities_final (coord w i))
      \<and> w' = set_pin_finish i n name out w
      \<and> (out = SEND_DELIVERED \<or> out = SEND_UNREACHED \<and> w' = w \<or> so_rejection out \<noteq> None \<and> w' = w)"
proof -
  show "check_writable w n = Some first \<Longrightarrow> w' = w \<and> s' = s \<and> r = Inl (ReservedSlot n first)"
    using assms by (simp add: set_pin_def)
  assume c: "check_writable w n = None"
  obtain s1 out where o': "send 5 (set_pin_params n code) s = (s1, out)"
    by (cases "send 5 (set_pin_params n code) s")
  consider "delivered out" | "\<not> lock_answered out" | "so_delivery out = REJECTED"
    by (cases "so_delivery out") (auto simp: delivered_def lock_answered_def)
  then show "\<exists>out refresh. r = Inr (out, refresh)
      \<and> send 5 (set_pin_params n code) s = (s', out)
      \<and> (refresh \<longrightarrow> lock_answered out \<and> \<not> co_capabilities_final (coord w i))
      \<and> w' = set_pin_finish i n name out w
      \<and> (out = SEND_DELIVERED \<or> out = SEND_UNREACHED \<and> w' = w \<or> so_rejection out \<noteq> None \<and> w' = w)"
    using assms c o' delivered_plain [OF o'] unreached_plain [OF o'] reason [OF o']
    by cases (auto simp: set_pin_def coordinator_send_def never_raises_def set_pin_finish_def delivered_def
        lock_answered_def)
qed

end

lemma zha_answer_shape:
  "so_delivery (answer_outcome command r) = REJECTED \<longleftrightarrow> so_rejection (answer_outcome command r) \<noteq> None"
  "so_status (answer_outcome command r) \<noteq> None \<Longrightarrow> so_delivery (answer_outcome command r) = REJECTED"
  by (auto simp: answer_outcome_def rejected_def SEND_DELIVERED_def SEND_UNREACHED_def Let_def
      split: command_result.splits zcl_answer.splits option.splits if_splits)

lemma zha_send_answers:
  "zha_send io command params st = (st', out) \<Longrightarrow> out = SEND_UNREACHED \<or> (\<exists>r. out = answer_outcome command r)"
  using zha_send_cases by blast

interpretation zha_link: lock_transport "zha_send io"
proof
  fix command params st st' out
  assume send: "zha_send io command params st = (st', out)"
  show "so_delivery out = REJECTED \<longleftrightarrow> so_rejection out \<noteq> None"
    using zha_send_answers [OF send] zha_answer_shape(1) by (auto simp: SEND_UNREACHED_def)
  show "so_status out \<noteq> None \<Longrightarrow> so_delivery out = REJECTED"
    using zha_send_answers [OF send] zha_answer_shape(2) by (auto simp: SEND_UNREACHED_def)
qed

section \<open>A run over a reload\<close>

text \<open>
  A PIN write starts, the entry is unloaded and set up again, and the write ends on the old
  coordinator while the setup waits for the translations.
\<close>

definition kari_task :: "task_phase \<Rightarrow> write_task" where
  "kari_task phase = \<lparr>wt_coord = 0, wt_op = SetPin 3 ''Kari'', wt_phase = phase\<rparr>"

definition reload_world :: "entry_options \<Rightarrow> nat \<Rightarrow> store_world" where
  "reload_world opts k =
     (let w0 = \<lparr>sw_entry = \<lparr>ew_options = opts, ew_coordinators = [], ew_current = None,
                 ew_loss_logged = False, ew_lines = []\<rparr>, sw_tasks = [], sw_sent = [], sw_done = [],
                 sw_setup = None, sw_shown = (0, 0)\<rparr>;
          w1 = w0\<lparr>sw_entry := construct_coordinator True (sw_entry w0), sw_setup := Some (0, 0)\<rparr>;
          w2 = w1\<lparr>sw_entry := publish_coordinator 0 (sw_entry w1), sw_setup := None\<rparr>;
          w3 = w2\<lparr>sw_tasks := [kari_task Waiting]\<rparr>;
          w4 = w3\<lparr>sw_tasks := [kari_task Sending], sw_sent := [SetPin 3 ''Kari'']\<rparr>;
          w5 = w4\<lparr>sw_entry := (sw_entry w4)\<lparr>ew_current := None\<rparr>\<rparr>;
          w6 = w5\<lparr>sw_entry := construct_coordinator True (sw_entry w5), sw_setup := Some (1, 0)\<rparr>;
          w7 = w6\<lparr>sw_tasks := [], sw_entry := finish_op 0 (SetPin 3 ''Kari'') SEND_DELIVERED (sw_entry w6),
                  sw_done := [SetPin 3 ''Kari'']\<rparr>;
          w8 = w7\<lparr>sw_entry := publish_coordinator 1 (sw_entry w7), sw_setup := None, sw_shown := (0, 1)\<rparr>;
          w9 = w8\<lparr>sw_entry := set_available 1 False False (sw_entry w8)\<rparr>
      in [w0, w1, w2, w3, w4, w5, w6, w7, w8, w9] ! k)"

definition no_options :: entry_options where
  "no_options = \<lparr>eo_slots = None, eo_capabilities = None, eo_rest = Map.empty\<rparr>"

lemmas reload_world_simps = reload_world_def Let_def eval_nat_numeral

lemma reload_run_loaded: "reach (store_start no_options) store_step (reload_world no_options 2)"
proof -
  note simps = reload_world_simps
  let ?w = "reload_world no_options"
  have 0: "reach (store_start no_options) store_step (?w 0)"
    by (rule reach.reach_start) (simp add: reload_world_def Let_def store_start_def)
  have "store_step (?w 0) (?w 1)"
    using store_step.make_coordinator [of "?w 0" True] by (simp add: simps)
  with 0 have 1: "reach (store_start no_options) store_step (?w 1)" by (rule reach.reach_step)
  have "store_step (?w 1) (?w 2)"
    using store_step.publish [of "?w 1" 0 0] by (simp add: simps)
  with 1 show ?thesis by (rule reach.reach_step)
qed

lemma reload_run_reloading: "reach (store_start no_options) store_step (reload_world no_options 6)"
proof -
  note simps = reload_world_simps
  let ?w = "reload_world no_options"
  note 2 = reload_run_loaded
  have "check_writable (sw_entry (?w 2)) 3 = None"
    by (simp add: simps check_writable_def first_slot_of_def reserved_option_def no_options_def
        first_user_slot_def construct_coordinator_def publish_coordinator_def)
  then have "store_step (?w 2) (?w 3)"
    using store_step.begin_write [of "?w 2" 0 "SetPin 3 ''Kari''"]
    by (simp add: simps is_pin_op_def in_use_def construct_coordinator_def publish_coordinator_def kari_task_def)
  with 2 have 3: "reach (store_start no_options) store_step (?w 3)" by (rule reach.reach_step)
  have "store_step (?w 3) (?w 4)"
    using store_step.acquire_lock [of "?w 3" "[]" "kari_task Waiting" "[]"]
    by (simp add: simps kari_task_def)
  with 3 have 4: "reach (store_start no_options) store_step (?w 4)" by (rule reach.reach_step)
  have "store_step (?w 4) (?w 5)"
    using store_step.unload_entry [of "?w 4"] by (simp add: simps)
  with 4 have 5: "reach (store_start no_options) store_step (?w 5)" by (rule reach.reach_step)
  have "store_step (?w 5) (?w 6)"
    using store_step.make_coordinator [of "?w 5" True]
    by (simp add: simps construct_coordinator_def publish_coordinator_def)
  with 5 show ?thesis by (rule reach.reach_step)
qed

lemma reload_run: "reach (store_start no_options) store_step (reload_world no_options 9)"
proof -
  note simps = reload_world_simps
  let ?w = "reload_world no_options"
  note 6 = reload_run_reloading
  have "store_step (?w 6) (?w 7)"
    using store_step.finish_write [of "?w 6" "[]" "kari_task Sending" "[]" SEND_DELIVERED]
    by (simp add: simps delivered_def SEND_DELIVERED_def kari_task_def)
  with 6 have 7: "reach (store_start no_options) store_step (?w 7)" by (rule reach.reach_step)
  have "store_step (?w 7) (?w 8)"
    using store_step.publish [of "?w 7" 1 0] by (simp add: simps)
  with 7 have 8: "reach (store_start no_options) store_step (?w 8)" by (rule reach.reach_step)
  have len: "length (ew_coordinators (sw_entry (?w 8))) = 2"
    by (simp add: simps construct_coordinator_def publish_coordinator_def set_pin_finish_def change_slots_def
        save_slots_def delivered_def SEND_DELIVERED_def)
  have "store_step (?w 8) (?w 9)"
    using store_step.availability [of 1 "?w 8" False False] len by (simp add: simps)
  with 8 show ?thesis by (rule reach.reach_step)
qed

lemma reload_run_done:
  "sw_done (reload_world no_options 9) = [SetPin 3 ''Kari'']" "sw_shown (reload_world no_options 9) = (0, 1)"
  by (simp_all add: reload_world_simps)

text \<open>The new coordinator shows the slots as they were when it was made.\<close>

lemma reload_run_view:
  "ew_current (sw_entry (reload_world no_options 9)) = Some 1"
  "shows_slots (reload_world no_options 9) 1 = Map.empty"
proof -
  let ?w = "reload_world no_options"
  have len: "length (ew_coordinators (sw_entry (?w 8))) = 2"
    by (simp add: reload_world_simps construct_coordinator_def publish_coordinator_def set_pin_finish_def
        change_slots_def save_slots_def delivered_def SEND_DELIVERED_def)
  have 9: "sw_entry (?w 9) = set_available 1 False False (sw_entry (?w 8))" by (simp add: reload_world_simps)
  have 8: "sw_entry (?w 8) = publish_coordinator 1 (sw_entry (?w 7))" by (simp add: reload_world_simps)
  show "ew_current (sw_entry (?w 9)) = Some 1"
    unfolding 9 available_frame(2) by (simp add: 8 publish_coordinator_def)
  have 7: "sw_entry (?w 7) = change_slots 0 (pin_set 3 ''Kari'') (sw_entry (?w 6))"
    by (simp add: reload_world_simps set_pin_finish_def delivered_def SEND_DELIVERED_def)
  have c6: "length (ew_coordinators (sw_entry (?w 6))) = 2" "ew_current (sw_entry (?w 6)) = None"
    "co_slots (coord (sw_entry (?w 6)) 1) = Map.empty"
    by (simp_all add: reload_world_simps construct_coordinator_def publish_coordinator_def coord_def
        coordinator_init_def load_slots_def stored_slots_def no_options_def)
  have "co_slots (coord (sw_entry (?w 9)) 1) = co_slots (coord (sw_entry (?w 8)) 1)"
    unfolding 9 using len by (intro available_frame(4)) simp
  also have "\<dots> = co_slots (coord (sw_entry (?w 7)) 1)" by (simp add: 8 publish_coordinator_def coord_def)
  also have "\<dots> = Map.empty"
    unfolding 7 using c6 change_slots_view [of 0 "sw_entry (?w 6)" 1 "pin_set 3 ''Kari''"] by simp
  finally show "shows_slots (?w 9) 1 = Map.empty" by (simp add: shows_slots_def)
qed

section \<open>Properties\<close>

text \<open>
  C1: no lost update. However writes, reloads, names, settings and capability reads
  interleave, the stored slots are what was stored first changed by every operation that
  saved, in its order. The coordinator the sensors read shows exactly the stored slots, but for
  one window: when operations of an older coordinator saved between its making and its
  publication, it shows the slots as they were at its making until the next save.
\<close>

theorem slots_are_one_register:
  assumes "reach (store_start opts) store_step w"
  shows "stored_slots (ew_options (sw_entry w)) = fold spec_op (sw_done w) (stored_slots opts)
    \<and> (ew_current (sw_entry w) = Some j \<longrightarrow>
      co_slots (coord (sw_entry w) j) = stored_slots (ew_options (sw_entry w))
      \<or> fst (sw_shown w) < length (sw_done w) \<and> snd (sw_shown w) = length (sw_done w)
        \<and> co_slots (coord (sw_entry w) j) = fold spec_op (take (fst (sw_shown w)) (sw_done w)) (stored_slots opts))"
  using register_fold [OF store_machine.reach_abs [OF assms]] store_machine.reach_inv [OF assms]
  by (auto simp: store_inv_def view_defs)

theorem slots_are_one_register_witness:
  "entry_slots (reload_world no_options 9) = fold spec_op [SetPin 3 ''Kari''] (stored_slots no_options)
   \<and> ew_current (sw_entry (reload_world no_options 9)) = Some 1
   \<and> shows_slots (reload_world no_options 9) 1 = stored_slots no_options
   \<and> shows_slots (reload_world no_options 9) 1 \<noteq> entry_slots (reload_world no_options 9)"
proof -
  have stored: "entry_slots (reload_world no_options 9) = fold spec_op [SetPin 3 ''Kari''] (stored_slots no_options)"
    using slots_are_one_register [OF reload_run] by (simp add: reload_run_done entry_slots_def)
  then have "entry_slots (reload_world no_options 9) \<noteq> Map.empty" by (simp add: pin_set_def)
  moreover have "stored_slots no_options = Map.empty" by (simp add: stored_slots_def no_options_def)
  ultimately show ?thesis using stored reload_run_view by simp
qed

text \<open>
  C26: the master code in slot 0 is never written or cleared, whatever the reserved-slots
  option says or becomes while a write waits; and each coordinator has at most one command
  in flight.
\<close>

theorem master_slot_untouched:
  assumes "reach (store_start opts) store_step w"
  shows "(op \<in> set (sw_sent w) \<longrightarrow> 1 \<le> op_slot op)
    \<and> (sw_tasks w = before @ t # between @ u # after \<longrightarrow> wt_phase t = Sending \<longrightarrow>
      wt_phase u = Sending \<longrightarrow> wt_coord t \<noteq> wt_coord u)"
  using store_machine.reach_inv [OF assms] by (auto simp: store_inv_def tasks_ok_def one_sending_def)

theorem master_slot_untouched_witness:
  "1 \<le> op_slot (SetPin 3 ''Kari'') \<and> SetPin 3 ''Kari'' \<in> set (sw_sent (reload_world no_options 9))"
proof -
  have "SetPin 3 ''Kari'' \<in> set (sw_sent (reload_world no_options 9))"
    by (simp add: reload_world_simps)
  then show ?thesis using master_slot_untouched [OF reload_run] by blast
qed

lemma alternating_head: "alternating (x # xs) \<Longrightarrow> x = EventsStopped"
  by (cases xs) auto

lemma alternating_differs: "alternating (ls @ a # b # ls') \<Longrightarrow> a \<noteq> b"
proof (induction ls rule: alternating.induct)
  case (2 l)
  then have "a = EventsArriving" "alternating (b # ls')" by auto
  then show ?case using alternating_head by fastforce
qed auto

text \<open>
  The two log lines about lock events take turns, the loss first: never the same line
  twice in a row, however often ZHA's state is reported and whichever coordinator reports it.
\<close>

theorem availability_lines_alternate:
  assumes "reach (store_start opts) store_step w"
  shows "alternating (ew_lines (sw_entry w)) \<and> (ew_lines (sw_entry w) = ls @ [a, b] @ ls' \<longrightarrow> a \<noteq> b)"
proof
  show alt: "alternating (ew_lines (sw_entry w))"
    using store_machine.reach_inv [OF assms] by (simp add: store_inv_def lines_ok_def)
  show "ew_lines (sw_entry w) = ls @ [a, b] @ ls' \<longrightarrow> a \<noteq> b"
    using alt by (auto dest: alternating_differs)
qed

theorem availability_lines_alternate_witness:
  "alternating (ew_lines (sw_entry (reload_world no_options 9)))"
  using availability_lines_alternate [OF reload_run] by blast

text \<open>
  C2: a PIN write over ZHA. On a reserved slot nothing is sent and the error names the first
  user slot. Else the transport is asked once to send the code, and local state follows the lock: a delivered write stores the name and the code's presence in that slot and no other, a
  refused or unreached one changes nothing and has an error key.
\<close>

theorem pin_write_follows_lock:
  assumes "set_pin (never_raises (zha_send io)) i n name code w st = (w', st', r)" "i < length (ew_coordinators w)"
  shows "(n < first_slot_of (ew_options w) \<longrightarrow> w' = w \<and> st' = st \<and> r = Inl (ReservedSlot n (first_slot_of (ew_options w))))
    \<and> (first_slot_of (ew_options w) \<le> n \<longrightarrow> (\<exists>out refresh. r = Inr (out, refresh)
      \<and> zha_send io 5 (set_pin_params n code) st = (st', out)
      \<and> (if delivered out
         then stored_slots (ew_options w') = (stored_slots (ew_options w))
             (str_int n \<mapsto> \<lparr>sl_name = PStr name, sl_has_pin = PBool True\<rparr>)
         else w' = w \<and> error_key out \<noteq> None)))"
proof (rule conjI; rule impI)
  show "n < first_slot_of (ew_options w) \<Longrightarrow> w' = w \<and> st' = st \<and> r = Inl (ReservedSlot n (first_slot_of (ew_options w)))"
    using zha_link.pin_write(1) [OF assms(1)] by (simp add: check_writable_def Let_def)
next
  assume "first_slot_of (ew_options w) \<le> n"
  then have "check_writable w n = None" by (simp add: check_writable_def Let_def)
  from zha_link.pin_write(2) [OF assms(1) this] obtain out refresh where
    r: "r = Inr (out, refresh)" "zha_send io 5 (set_pin_params n code) st = (st', out)"
      "w' = set_pin_finish i n name out w" by blast
  have "error_key out \<noteq> None" if "\<not> delivered out"
    using that by (simp add: error_key_def delivered_def)
  moreover have "(slot_or_default m n)\<lparr>sl_name := PStr name, sl_has_pin := PBool True\<rparr>
      = \<lparr>sl_name = PStr name, sl_has_pin = PBool True\<rparr>" for m
    by (cases "slot_or_default m n") simp
  ultimately show "\<exists>out refresh. r = Inr (out, refresh)
      \<and> zha_send io 5 (set_pin_params n code) st = (st', out)
      \<and> (if delivered out
         then stored_slots (ew_options w') = (stored_slots (ew_options w))
             (str_int n \<mapsto> \<lparr>sl_name = PStr name, sl_has_pin = PBool True\<rparr>)
         else w' = w \<and> error_key out \<noteq> None)"
    using r change_slots_effect(1) [OF assms(2), of "pin_set n name"]
    by (auto simp: set_pin_finish_def pin_set_def)
qed

theorem pin_write_follows_lock_witness:
  "\<exists>w' st' out refresh. set_pin (never_raises (zha_send script_io)) 0 3 ''Kari'' ''1234''
       (construct_coordinator True (sw_entry (reload_world no_options 0)))
       (script_transport [Answered NothingToRead]) = (w', st', Inr (out, refresh))
     \<and> delivered out \<and> stored_slots (ew_options w') ''3'' = Some \<lparr>sl_name = PStr ''Kari'', sl_has_pin = PBool True\<rparr>"
proof -
  let ?w = "construct_coordinator True (sw_entry (reload_world no_options 0))"
  let ?run = "set_pin (never_raises (zha_send script_io)) 0 3 ''Kari'' ''1234'' ?w (script_transport [Answered NothingToRead])"
  obtain w' st' r where run: "?run = (w', st', r)" by (cases ?run)
  have len: "0 < length (ew_coordinators ?w)" by (simp add: construct_coordinator_def)
  have first: "first_slot_of (ew_options ?w) \<le> 3"
    using first_user_slot_bounds by (simp add: first_slot_of_def)
  from pin_write_follows_lock [OF run len] first obtain out refresh where
    o': "r = Inr (out, refresh)"
      "zha_send script_io 5 (set_pin_params 3 ''1234'') (script_transport [Answered NothingToRead]) = (st', out)"
      "if delivered out then stored_slots (ew_options w') = (stored_slots (ew_options ?w))
             (str_int 3 \<mapsto> \<lparr>sl_name = PStr ''Kari'', sl_has_pin = PBool True\<rparr>)
         else w' = ?w \<and> error_key out \<noteq> None" by blast
  have "delivered out"
    using o'(2) by (auto simp: zha_send_def script_io_def script_transport_def emit_def outcome_of_def
        delivered_def SEND_DELIVERED_def)
  moreover have "str_int 3 = ''3''" by code_simp
  ultimately show ?thesis using run o' by auto
qed

end
