(* ===== verification/Services.thy ===== *)
theory Services
  imports Coordinator_Props "HOL-Library.List_Lexorder" "HOL-Library.Char_ord"
begin

text \<open>
  \<^verbatim>\<open>services.py\<close>: the four services, from the choice of the lock over the validation to the
  error the caller sees. Home Assistant is the list of loaded entries, each with its
  coordinator and transport, the device registry, and the error lines in the log.
\<close>

definition DOMAIN :: string where "DOMAIN = ''onesti_lock''"

record 's lock_entry =
  le_entry_id :: string
  le_ieee :: string
  le_world :: entry_world
  le_index :: nat
  le_transport :: 's

record 's hass =
  ha_locks :: "'s lock_entry list"
  ha_log :: "string list"
  ha_devices :: "string \<rightharpoonup> (string \<times> string) list"

datatype service_error =
    LockNotFound
  | LockNotFoundIeee string
  | MultipleLocks "string list"
  | InvalidSlot int int
  | InvalidPin int int
  | LockUnreachable
  | LockRefused "string option" string
  | WriteFailed int

text \<open>Whether it is a ServiceValidationError, the caller's own mistake.\<close>

definition is_validation_error :: "service_error \<Rightarrow> bool" where
  "is_validation_error e = (case e of
     LockNotFound \<Rightarrow> True | LockNotFoundIeee i \<Rightarrow> True | MultipleLocks l \<Rightarrow> True
   | InvalidSlot a b \<Rightarrow> True | InvalidPin a b \<Rightarrow> True | _ \<Rightarrow> False)"

definition not_delivered :: "send_outcome \<Rightarrow> service_error" where
  "not_delivered out =
     (if so_delivery out = UNREACHED then LockUnreachable
      else LockRefused (error_key out) (status_text out))"

text \<open>The type and text of the exception a failed write raised.\<close>

definition fault_exception :: "write_fault \<Rightarrow> string \<times> string" where
  "fault_exception f =
     (case f of
        ReservedSlot slot first \<Rightarrow>
          (''ValueError'', ''Slot '' @ str_int slot @ '' is a reserved master slot on this lock; ''
             @ ''PIN writes and clears start at slot '' @ str_int first)
      | SendRaised kind text \<Rightarrow> (kind, text))"

text \<open>
  \<^verbatim>\<open>_write\<close> on what the coordinator's operation gave: whatever was raised is replaced by an
  error that names the slot alone, and logged with its digits masked; an outcome is the lock's
  answer.
\<close>

definition write_result :: "int \<Rightarrow> write_fault + send_outcome \<times> bool \<Rightarrow> service_error + unit" where
  "write_result slot r =
     (case r of
        Inl fault \<Rightarrow> Inl (WriteFailed slot)
      | Inr (out, refresh) \<Rightarrow> if \<not> delivered out then Inl (not_delivered out) else Inr ())"

definition unexpected_line :: "string \<Rightarrow> int \<Rightarrow> string \<times> string \<Rightarrow> string" where
  "unexpected_line action slot err =
     (let (kind, text) = err in
      ''Unexpected error '' @ action @ '' on slot '' @ str_int slot @ '': '' @ kind @ '': '' @ redact_digits text)"

definition write_log :: "string \<Rightarrow> int \<Rightarrow> write_fault + send_outcome \<times> bool \<Rightarrow> string list" where
  "write_log action slot r =
     (case r of Inl fault \<Rightarrow> [unexpected_line action slot (fault_exception fault)] | Inr _ \<Rightarrow> [])"

section \<open>Choosing the lock\<close>

definition find_by_ieee :: "'s lock_entry list \<Rightarrow> string \<Rightarrow> 's lock_entry option" where
  "find_by_ieee locks ieee = find (\<lambda>l. str_lower (le_ieee l) = str_lower ieee) locks"

definition entry_id_for_device :: "'s hass \<Rightarrow> string \<Rightarrow> service_error + string" where
  "entry_id_for_device h device_id =
     (case ha_devices h device_id of
        None \<Rightarrow> Inl LockNotFound
      | Some identifiers \<Rightarrow>
          (case find (\<lambda>(domain, identifier). domain = DOMAIN) identifiers of
             Some (_, identifier) \<Rightarrow> Inr identifier | None \<Rightarrow> Inl LockNotFound))"

record lock_call =
  lc_device_id :: "string option"
  lc_ieee :: "string option"

definition given :: "string option \<Rightarrow> string option" where
  "given s = (case s of Some [] \<Rightarrow> None | _ \<Rightarrow> s)"

definition get_coordinator :: "'s hass \<Rightarrow> lock_call \<Rightarrow> service_error + 's lock_entry" where
  "get_coordinator h call =
     (case given (lc_device_id call) of
        Some device_id \<Rightarrow>
          bindE (entry_id_for_device h device_id) (\<lambda>entry_id.
            (case find (\<lambda>l. le_entry_id l = entry_id) (ha_locks h) of
               None \<Rightarrow> Inl LockNotFound | Some l \<Rightarrow> Inr l))
      | None \<Rightarrow>
          (case given (lc_ieee call) of
             Some ieee \<Rightarrow>
               (case find_by_ieee (ha_locks h) ieee of
                  None \<Rightarrow> Inl (LockNotFoundIeee ieee) | Some l \<Rightarrow> Inr l)
           | None \<Rightarrow>
               (case ha_locks h of
                  [] \<Rightarrow> Inl LockNotFound
                | [l] \<Rightarrow> Inr l
                | _ \<Rightarrow> Inl (MultipleLocks (sort (map le_ieee (ha_locks h)))))))"

text \<open>The lock's entry after a call on it, in its place.\<close>

definition put_lock :: "'s hass \<Rightarrow> 's lock_entry \<Rightarrow> 's hass" where
  "put_lock h l = h\<lparr>ha_locks := map (\<lambda>x. if le_entry_id x = le_entry_id l then l else x) (ha_locks h)\<rparr>"

section \<open>The handlers\<close>

definition lock_first_slot :: "'s lock_entry \<Rightarrow> int" where
  "lock_first_slot l = first_slot_of (ew_options (le_world l))"

definition lock_capabilities :: "'s lock_entry \<Rightarrow> py_map" where
  "lock_capabilities l = co_capabilities (coord (le_world l) (le_index l))"

type_synonym 's service = "'s hass \<times> (service_error + unit)"

text \<open>A handler's end: the lock's entry put back, the log line if there is one, and the verdict.\<close>

definition write_ends ::
  "string \<Rightarrow> int \<Rightarrow> 's hass \<Rightarrow> 's lock_entry \<Rightarrow> entry_world \<times> 's \<times> (write_fault + send_outcome \<times> bool)
     \<Rightarrow> 's service" where
  "write_ends action slot h l run =
     (let (w, s, r) = run; h = put_lock h (l\<lparr>le_world := w, le_transport := s\<rparr>)
      in (h\<lparr>ha_log := ha_log h @ write_log action slot r\<rparr>, write_result slot r))"

definition handle_set_pin ::
  "'s raising_sender \<Rightarrow> 's hass \<Rightarrow> lock_call \<Rightarrow> int \<Rightarrow> string \<Rightarrow> string \<Rightarrow> 's service" where
  "handle_set_pin send h call slot name code =
     (case get_coordinator h call of
        Inl e \<Rightarrow> (h, Inl e)
      | Inr l \<Rightarrow>
          (let first = lock_first_slot l; max_slot = max_user_slot (lock_capabilities l) in
           if \<not> (first \<le> slot \<and> slot \<le> max_slot) then (h, Inl (InvalidSlot first max_slot))
           else if \<not> is_valid_pin code (lock_capabilities l)
           then (let (low, high) = pin_length_range (lock_capabilities l) in (h, Inl (InvalidPin low high)))
           else write_ends ''setting PIN'' slot h l
                  (set_pin send (le_index l) slot name code (le_world l) (le_transport l))))"

definition handle_clear_pin :: "'s raising_sender \<Rightarrow> 's hass \<Rightarrow> lock_call \<Rightarrow> int \<Rightarrow> 's service" where
  "handle_clear_pin send h call slot =
     (case get_coordinator h call of
        Inl e \<Rightarrow> (h, Inl e)
      | Inr l \<Rightarrow>
          (let first = lock_first_slot l in
           if \<not> (first \<le> slot \<and> slot < MAX_SLOTS) then (h, Inl (InvalidSlot first (MAX_SLOTS - 1)))
           else write_ends ''clearing PIN'' slot h l
                  (clear_pin send (le_index l) slot (le_world l) (le_transport l))))"

definition handle_set_name :: "'s hass \<Rightarrow> lock_call \<Rightarrow> int \<Rightarrow> string \<Rightarrow> 's service" where
  "handle_set_name h call slot name =
     (if \<not> (0 \<le> slot \<and> slot < MAX_SLOTS) then (h, Inl (InvalidSlot 0 (MAX_SLOTS - 1)))
      else case get_coordinator h call of
        Inl e \<Rightarrow> (h, Inl e)
      | Inr l \<Rightarrow>
          (put_lock h (l\<lparr>le_world := set_slot_name (le_index l) slot name (le_world l)\<rparr>), Inr ()))"

definition handle_clear_slot :: "'s raising_sender \<Rightarrow> 's hass \<Rightarrow> lock_call \<Rightarrow> int \<Rightarrow> 's service" where
  "handle_clear_slot send h call slot =
     (case get_coordinator h call of
        Inl e \<Rightarrow> (h, Inl e)
      | Inr l \<Rightarrow>
          (let first = lock_first_slot l in
           if \<not> (first \<le> slot \<and> slot < MAX_SLOTS) then (h, Inl (InvalidSlot first (MAX_SLOTS - 1)))
           else write_ends ''clearing slot'' slot h l
                  (clear_slot send (le_index l) slot (le_world l) (le_transport l))))"

section \<open>Lemmas\<close>

lemma lock_writable:
  "lock_first_slot l \<le> slot \<Longrightarrow> check_writable (le_world l) slot = None"
  by (simp add: lock_first_slot_def check_writable_def Let_def)

lemma get_coordinator_loaded: "get_coordinator h call = Inr l \<Longrightarrow> l \<in> set (ha_locks h)"
  by (auto simp: get_coordinator_def bindE_eq_Inr find_by_ieee_def dest: find_SomeD
      split: option.splits list.splits)

lemma get_coordinator_error:
  "get_coordinator h call = Inl e \<Longrightarrow>
     e = LockNotFound \<or> (\<exists>i. e = LockNotFoundIeee i) \<or> (\<exists>is. e = MultipleLocks is)"
  by (auto simp: get_coordinator_def bindE_eq_Inl entry_id_for_device_def
      split: option.splits list.splits prod.splits)

lemma put_lock_others:
  "x \<in> set (ha_locks h) \<Longrightarrow> le_entry_id x \<noteq> le_entry_id l \<Longrightarrow> x \<in> set (ha_locks (put_lock h l))"
  by (force simp: put_lock_def)

lemma write_result_error: "write_result n r = Inl e \<Longrightarrow> \<not> is_validation_error e"
  by (auto simp: write_result_def not_delivered_def is_validation_error_def split: sum.splits if_splits)

text \<open>A handler of a write leaves everything but its lock's entry and the log, and raises no validation error.\<close>

lemma write_ends_cases:
  assumes "(h', result) = write_ends action slot h l run"
  obtains w s lines where "h' = (put_lock h (l\<lparr>le_world := w, le_transport := s\<rparr>))\<lparr>ha_log := lines\<rparr>"
    "\<And>e. result = Inl e \<Longrightarrow> \<not> is_validation_error e"
proof -
  obtain w s r where run: "run = (w, s, r)" by (cases run)
  show ?thesis
  proof (rule that)
    show "h' = (put_lock h (l\<lparr>le_world := w, le_transport := s\<rparr>))
        \<lparr>ha_log := ha_log (put_lock h (l\<lparr>le_world := w, le_transport := s\<rparr>)) @ write_log action slot r\<rparr>"
      using assms by (simp add: write_ends_def run Let_def)
    show "\<not> is_validation_error e" if "result = Inl e" for e
      using assms that write_result_error by (simp add: write_ends_def run Let_def)
  qed
qed

section \<open>Properties\<close>

text \<open>
  Which door. A call reaches a loaded lock or none: the one its device belongs to, else
  the one with its address in any letter case, else the only one there is. With two locks and
  nothing to tell them apart it fails and names both.
\<close>

theorem service_picks_one_lock:
  "(get_coordinator h call = Inr l \<longrightarrow> l \<in> set (ha_locks h)
     \<and> (case given (lc_device_id call) of
          Some d \<Rightarrow> (\<exists>ids. ha_devices h d = Some ids \<and> (DOMAIN, le_entry_id l) \<in> set ids)
        | None \<Rightarrow> (case given (lc_ieee call) of
            Some i \<Rightarrow> str_lower (le_ieee l) = str_lower i
          | None \<Rightarrow> ha_locks h = [l])))
   \<and> (given (lc_device_id call) = None \<and> given (lc_ieee call) = None \<and> 2 \<le> length (ha_locks h) \<longrightarrow>
     get_coordinator h call = Inl (MultipleLocks (sort (map le_ieee (ha_locks h)))))"
proof (rule conjI; rule impI)
  assume l: "get_coordinator h call = Inr l"
  show "l \<in> set (ha_locks h)
     \<and> (case given (lc_device_id call) of
          Some d \<Rightarrow> (\<exists>ids. ha_devices h d = Some ids \<and> (DOMAIN, le_entry_id l) \<in> set ids)
        | None \<Rightarrow> (case given (lc_ieee call) of
            Some i \<Rightarrow> str_lower (le_ieee l) = str_lower i
          | None \<Rightarrow> ha_locks h = [l]))"
  proof (cases "given (lc_device_id call)")
    case None
    then show ?thesis
      using l get_coordinator_loaded [OF l]
      by (auto simp: get_coordinator_def find_by_ieee_def dest: find_SomeD split: option.splits list.splits)
  next
    case (Some d)
    then obtain e where e: "entry_id_for_device h d = Inr e"
      "find (\<lambda>l. le_entry_id l = e) (ha_locks h) = Some l"
      using l by (auto simp: get_coordinator_def bindE_eq_Inr split: option.splits)
    from e(1) obtain ids where ids: "ha_devices h d = Some ids" "(DOMAIN, e) \<in> set ids"
      by (auto simp: entry_id_for_device_def dest!: find_SomeD split: option.splits)
    have "le_entry_id l = e" using e(2) by (auto dest: find_SomeD)
    then show ?thesis using Some ids get_coordinator_loaded [OF l] by auto
  qed
next
  assume "given (lc_device_id call) = None \<and> given (lc_ieee call) = None \<and> 2 \<le> length (ha_locks h)"
  then show "get_coordinator h call = Inl (MultipleLocks (sort (map le_ieee (ha_locks h))))"
    by (auto simp: get_coordinator_def split: list.splits)
qed

definition two_locks :: "unit hass" where
  "two_locks = \<lparr>ha_locks =
      [\<lparr>le_entry_id = ''e2'', le_ieee = ''bb'', le_world = sw_entry (reload_world no_options 2), le_index = 0, le_transport = ()\<rparr>,
       \<lparr>le_entry_id = ''e1'', le_ieee = ''aa'', le_world = sw_entry (reload_world no_options 2), le_index = 0, le_transport = ()\<rparr>],
     ha_log = [], ha_devices = [''dev1'' \<mapsto> [(''zha'', ''aa''), (DOMAIN, ''e1'')]]\<rparr>"

lemma two_locks_pick:
  "get_coordinator two_locks \<lparr>lc_device_id = Some ''dev1'', lc_ieee = None\<rparr> = Inr (ha_locks two_locks ! 1)"
  by (simp add: get_coordinator_def two_locks_def given_def entry_id_for_device_def DOMAIN_def)

theorem service_picks_one_lock_witness:
  "get_coordinator two_locks \<lparr>lc_device_id = None, lc_ieee = None\<rparr> = Inl (MultipleLocks [''aa'', ''bb''])
   \<and> ha_locks two_locks ! 1 \<in> set (ha_locks two_locks)"
proof -
  have "sort [''bb'', ''aa''] = [''aa'', ''bb'']" by code_simp
  moreover have "get_coordinator two_locks \<lparr>lc_device_id = None, lc_ieee = None\<rparr>
      = Inl (MultipleLocks (sort (map le_ieee (ha_locks two_locks))))"
    by (rule service_picks_one_lock [THEN conjunct2, THEN mp]) (simp add: given_def two_locks_def)
  ultimately show ?thesis
    using service_picks_one_lock [THEN conjunct1, THEN mp, OF two_locks_pick] by (simp add: two_locks_def)
qed

text \<open>
  C24: what the set\_pin service lets through. The command goes to the lock exactly when the
  slot lies in the lock's own window and the code is one its keypad takes; else the error
  gives the bounds, never the code, and nothing has changed. The coordinator's guard never
  fires behind it, so the caller sees success, a refusal with its status, an unreached lock, or,
  when the transport raised, an error that names the slot and nothing of the exception: the slots
  are as they were, and one line in the log has the exception with its digits masked.
\<close>

theorem set_pin_service_validates:
  assumes "get_coordinator h call = Inr l"
    and "handle_set_pin send h call slot name code = (h', result)"
  shows "if \<not> (lock_first_slot l \<le> slot \<and> slot \<le> max_user_slot (lock_capabilities l))
      then h' = h \<and> result = Inl (InvalidSlot (lock_first_slot l) (max_user_slot (lock_capabilities l)))
      else if \<not> is_valid_pin code (lock_capabilities l)
      then h' = h \<and> result = Inl (InvalidPin (fst (pin_length_range (lock_capabilities l)))
                                  (snd (pin_length_range (lock_capabilities l))))
      else case send 5 (set_pin_params slot code) (le_transport l) of
        (s, Inr out) \<Rightarrow>
          h' = put_lock h (l\<lparr>le_world := set_pin_finish (le_index l) slot name out (le_world l), le_transport := s\<rparr>)
          \<and> result = (if delivered out then Inr ()
               else if so_delivery out = UNREACHED then Inl LockUnreachable
               else Inl (LockRefused (error_key out) (status_text out)))
      | (s, Inl (kind, text)) \<Rightarrow>
          h' = (put_lock h (l\<lparr>le_transport := s\<rparr>))\<lparr>ha_log := ha_log h @
              [''Unexpected error setting PIN on slot '' @ str_int slot @ '': '' @ kind @ '': '' @ redact_digits text]\<rparr>
          \<and> result = Inl (WriteFailed slot)"
proof -
  note run = assms(2) [unfolded handle_set_pin_def assms(1) sum.case Let_def]
  have log: "ha_log (put_lock h l) = ha_log h" for l :: "'a lock_entry" by (simp add: put_lock_def)
  have same: "(put_lock h l)\<lparr>ha_log := ha_log h\<rparr> = put_lock h l" for l :: "'a lock_entry"
    by (simp add: put_lock_def)
  show ?thesis
    using run lock_writable [of l slot]
    by (auto simp: write_ends_def set_pin_def coordinator_send_def write_result_def not_delivered_def write_log_def
        unexpected_line_def fault_exception_def log same Let_def split: prod.splits sum.splits if_splits)
qed

definition raising_send :: "unit raising_sender" where
  "raising_send command params s = (s, Inl (''ValueError'', ''bad value 1234''))"

theorem set_pin_service_validates_witness:
  "\<exists>h' result. handle_set_pin raising_send two_locks
       \<lparr>lc_device_id = Some ''dev1'', lc_ieee = None\<rparr> 3 ''Kari'' ''1234'' = (h', result)
     \<and> result = Inl (WriteFailed 3)
     \<and> ha_log h' = [''Unexpected error setting PIN on slot 3: ValueError: bad value '' @ MASK]"
proof -
  let ?l = "ha_locks two_locks ! 1"
  obtain h' result where run: "handle_set_pin raising_send two_locks
       \<lparr>lc_device_id = Some ''dev1'', lc_ieee = None\<rparr> 3 ''Kari'' ''1234'' = (h', result)" by fastforce
  have caps: "lock_capabilities ?l = Map.empty"
    by (simp add: two_locks_def lock_capabilities_def reload_world_simps construct_coordinator_def
        publish_coordinator_def coord_def coordinator_init_def load_slots_def no_options_def)
  have first: "lock_first_slot ?l \<le> 3"
    using first_user_slot_bounds by (simp add: lock_first_slot_def first_slot_of_def)
  have low: "3 \<le> max_user_slot Map.empty" "is_valid_pin ''1234'' Map.empty" by code_simp+
  have str: "str_int 3 = ''3''" "redact_digits ''bad value 1234'' = ''bad value '' @ MASK" by code_simp+
  from set_pin_service_validates [OF two_locks_pick run] caps first low
  have "result = Inl (WriteFailed 3) \<and> ha_log h' = ha_log two_locks @
      [''Unexpected error setting PIN on slot '' @ str_int 3 @ '': '' @ ''ValueError'' @ '': ''
         @ redact_digits ''bad value 1234'']"
    by (simp add: raising_send_def)
  then show ?thesis using run str by (simp add: two_locks_def)
qed

text \<open>
  C25: one call, one lock: whatever a write service is asked and however it ends, every other
  lock's data, transport and place are as they were, and a call that ends with a validation
  error changed nothing at all.
\<close>

theorem services_touch_one_lock:
  assumes "(h', result) \<in> {handle_set_pin send h call slot name code, handle_clear_pin send h call slot,
      handle_clear_slot send h call slot, handle_set_name h call slot name}"
  shows "(\<exists>entry_id. map le_entry_id (ha_locks h') = map le_entry_id (ha_locks h)
      \<and> (\<forall>x \<in> set (ha_locks h). le_entry_id x \<noteq> entry_id \<longrightarrow> x \<in> set (ha_locks h'))
      \<and> ha_devices h' = ha_devices h)
    \<and> (result = Inl e \<longrightarrow> is_validation_error e \<longrightarrow> h' = h)"
proof (rule conjI; (intro impI)?)
  have ids: "map le_entry_id (ha_locks (put_lock h (l\<lparr>le_world := w, le_transport := s\<rparr>))) = map le_entry_id (ha_locks h)"
    "map le_entry_id (ha_locks (put_lock h (l\<lparr>le_world := w\<rparr>))) = map le_entry_id (ha_locks h)"
    for l :: "'a lock_entry" and w s
    by (simp_all add: put_lock_def)
  have others: "x \<in> set (ha_locks h) \<Longrightarrow> le_entry_id x \<noteq> le_entry_id l \<Longrightarrow>
      x \<in> set (ha_locks (put_lock h (l\<lparr>le_world := w, le_transport := s\<rparr>)))
      \<and> x \<in> set (ha_locks (put_lock h (l\<lparr>le_world := w\<rparr>)))"
    for x l :: "'a lock_entry" and w s
    by (simp add: put_lock_others)
  have dev: "ha_devices (put_lock h l) = ha_devices h" for l :: "'a lock_entry"
    by (simp add: put_lock_def)
  consider "h' = h" | l w s lines where "h' = (put_lock h (l\<lparr>le_world := w, le_transport := s\<rparr>))\<lparr>ha_log := lines\<rparr>"
    | l w where "h' = put_lock h (l\<lparr>le_world := w\<rparr>)" "result = Inr ()"
    using assms
    by (auto simp: handle_set_pin_def handle_clear_pin_def handle_clear_slot_def handle_set_name_def Let_def
        elim: write_ends_cases split: sum.splits if_splits prod.splits)
  then show "\<exists>entry_id. map le_entry_id (ha_locks h') = map le_entry_id (ha_locks h)
      \<and> (\<forall>x \<in> set (ha_locks h). le_entry_id x \<noteq> entry_id \<longrightarrow> x \<in> set (ha_locks h'))
      \<and> ha_devices h' = ha_devices h"
  proof cases
    case (2 l w s lines)
    show ?thesis unfolding 2(1) using ids(1) dev others by (intro exI [of _ "le_entry_id l"]) auto
  next
    case (3 l w)
    show ?thesis unfolding 3(1) using ids(2) dev others by (intro exI [of _ "le_entry_id l"]) blast
  qed auto
next
  assume "result = Inl e" "is_validation_error e"
  then show "h' = h"
    using assms
    by (auto simp: handle_set_pin_def handle_clear_pin_def handle_clear_slot_def handle_set_name_def Let_def
        elim: write_ends_cases split: sum.splits if_splits prod.splits)
qed

theorem services_touch_one_lock_witness:
  "\<exists>h' result. (h', result) = handle_set_name two_locks \<lparr>lc_device_id = Some ''dev1'', lc_ieee = None\<rparr> 0 ''Master''
     \<and> map le_entry_id (ha_locks h') = [''e2'', ''e1'']"
proof -
  obtain h' result where run: "(h', result)
      = handle_set_name two_locks \<lparr>lc_device_id = Some ''dev1'', lc_ieee = None\<rparr> 0 ''Master''"
    by (metis surj_pair)
  from services_touch_one_lock [of h' result raising_send two_locks
      "\<lparr>lc_device_id = Some ''dev1'', lc_ieee = None\<rparr>" 0 "''Master''"] run
  show ?thesis by (auto simp: two_locks_def)
qed

end
