(* ===== verification/Localize.thy ===== *)
theory Localize
  imports Coordinator
begin

text \<open>
  \<^verbatim>\<open>localize.py\<close>: the runtime strings. A translation file is a parameter, None when it is
  missing or malformed; a template that does not format is the exception \<^verbatim>\<open>str.format\<close> raises,
  None here.
\<close>

definition DEFAULT_LANGUAGE :: string where "DEFAULT_LANGUAGE = ''en''"

definition LANGUAGE_ALIASES :: strings where
  "LANGUAGE_ALIASES = [''no'' \<mapsto> ''nb'', ''nn'' \<mapsto> ''nb'']"

text \<open>\<^verbatim>\<open>.replace("_", "-").split("-")[0]\<close> is the text before the first of either sign.\<close>

definition normalize_language :: "string option \<Rightarrow> string" where
  "normalize_language language =
     (case language of
        None \<Rightarrow> DEFAULT_LANGUAGE
      | Some [] \<Rightarrow> DEFAULT_LANGUAGE
      | Some l \<Rightarrow>
          (let lang = takeWhile (\<lambda>c. c \<noteq> CHR ''-'')
                        (map (\<lambda>c. if c = CHR ''_'' then CHR ''-'' else c) (str_lower l))
           in string_or LANGUAGE_ALIASES lang lang))"

definition read_section :: "(string \<rightharpoonup> strings) \<Rightarrow> string \<Rightarrow> strings" where
  "read_section files language = (case files language of None \<Rightarrow> Map.empty | Some s \<Rightarrow> s)"

definition load_strings :: "(string \<rightharpoonup> strings) \<Rightarrow> string option \<Rightarrow> strings" where
  "load_strings files language =
     (let merged = read_section files DEFAULT_LANGUAGE; lang = normalize_language language in
      if lang \<noteq> DEFAULT_LANGUAGE then merged ++ read_section files lang else merged)"

text \<open>\<^verbatim>\<open>async_get_strings\<close> with its cache, one entry per language.\<close>

definition get_strings ::
  "(string \<rightharpoonup> strings) \<Rightarrow> string option \<Rightarrow> (string \<rightharpoonup> strings) \<Rightarrow> (string \<rightharpoonup> strings) \<times> strings" where
  "get_strings files language cache =
     (let lang = normalize_language language in
      case cache lang of
        Some s \<Rightarrow> (cache, s)
      | None \<Rightarrow> (let s = load_strings files (Some lang) in (cache(lang \<mapsto> s), s)))"

definition format_activity :: "strings \<Rightarrow> string \<Rightarrow> string \<Rightarrow> string \<Rightarrow> string option" where
  "format_activity strings action source user_name =
     (case strings (action @ ''_'' @ source) of
        None \<Rightarrow> Some (string_or strings ''activity_unknown'' ''Unknown activity'')
      | Some template \<Rightarrow> str_format [''name'' \<mapsto> user_name] template)"

definition format_slot_label :: "strings \<Rightarrow> int \<Rightarrow> string \<Rightarrow> string option" where
  "format_slot_label strings slot name =
     str_format [''slot'' \<mapsto> str_int slot, ''name'' \<mapsto> name]
       (string_or strings ''slot_label'' ''Slot {slot}: {name}'')"

definition format_reserved_slot_row :: "strings \<Rightarrow> int \<Rightarrow> string \<Rightarrow> string option" where
  "format_reserved_slot_row strings slot name =
     (if name = []
      then format_slot_label strings slot (string_or strings ''slot_fallback_master'' ''Master'')
      else map_option (\<lambda>label. label @ '' '' @ string_or strings ''slot_status_master'' ''(master)'')
             (format_slot_label strings slot name))"

section \<open>Languages\<close>

lemma lower_sep [simp]:
  "lower_char c = CHR ''-'' \<longleftrightarrow> c = CHR ''-''" "lower_char c = CHR ''_'' \<longleftrightarrow> c = CHR ''_''"
proof -
  have inj: "lower_char c = d \<longleftrightarrow> c = d" if "code_point d < 97" "code_point d < 65 \<or> code_point d > 90" for d
  proof
    assume l: "lower_char c = d"
    show "c = d"
    proof (rule ccontr)
      assume "c \<noteq> d"
      then have n: "65 \<le> code_point c \<and> code_point c \<le> 90 \<or> 192 \<le> code_point c \<and> code_point c \<le> 222"
        "lower_char c = char_of (code_point c + 32)"
        using l by (auto simp: lower_char_def Let_def split: if_splits)
      then have "code_point c + 32 < 256" by auto
      then have "code_point d = code_point c + 32" using n(2) l by auto
      then show False using n(1) that by auto
    qed
  next
    assume c: "c = d"
    then show "lower_char c = d" using that by (auto simp: lower_char_def Let_def)
  qed
  show "lower_char c = CHR ''-'' \<longleftrightarrow> c = CHR ''-''" "lower_char c = CHR ''_'' \<longleftrightarrow> c = CHR ''_''"
    using inj [of "CHR ''-''"] inj [of "CHR ''_''"] by simp_all
qed

definition language_stem :: "string \<Rightarrow> string" where
  "language_stem l = takeWhile (\<lambda>c. c \<noteq> CHR ''-'') (map (\<lambda>c. if c = CHR ''_'' then CHR ''-'' else c) (str_lower l))"

lemma normalize_Some:
  "l \<noteq> [] \<Longrightarrow> normalize_language (Some l) = string_or LANGUAGE_ALIASES (language_stem l) (language_stem l)"
  by (cases l) (simp_all add: normalize_language_def language_stem_def Let_def)

lemma stem_idem: "language_stem (language_stem l) = language_stem l"
proof -
  let ?m = "map (\<lambda>c. if c = CHR ''_'' then CHR ''-'' else c) (str_lower l)"
  have s: "c \<noteq> CHR ''-'' \<and> c \<noteq> CHR ''_'' \<and> lower_char c = c" if "c \<in> set (language_stem l)" for c
  proof -
    have "c \<in> set ?m" "c \<noteq> CHR ''-''"
      using that by (auto simp: language_stem_def dest: set_takeWhileD)
    then show ?thesis by (auto simp: str_lower_def split: if_splits)
  qed
  have "map (\<lambda>c. if c = CHR ''_'' then CHR ''-'' else c) (str_lower (language_stem l)) = language_stem l"
    using s by (auto simp: str_lower_def intro!: map_idI)
  then show ?thesis unfolding language_stem_def [of "language_stem l"]
    using s by (simp add: takeWhile_eq_all_conv)
qed

section \<open>Properties\<close>

lemma normalize_idem:
  assumes "normalize_language language \<noteq> []"
  shows "normalize_language (Some (normalize_language language)) = normalize_language language"
proof -
  have fixed: "normalize_language (Some ''en'') = ''en''" "normalize_language (Some ''nb'') = ''nb''"
    by code_simp+
  consider "normalize_language language = ''en''"
    | l where "language = Some l" "l \<noteq> []" 
  proof (cases "language = None \<or> language = Some []")
    case True
    then have "normalize_language language = ''en''"
      by (auto simp: normalize_language_def DEFAULT_LANGUAGE_def)
    then show ?thesis using that(1) by blast
  next
    case False
    then show ?thesis using that(2) by (cases language) auto
  qed
  then show ?thesis
  proof cases
    case (2 l)
    show ?thesis
    proof (cases "language_stem l \<in> {''no'', ''nn''}")
      case True
      then have "normalize_language language = ''nb''"
        using 2 by (auto simp: normalize_Some string_or_def LANGUAGE_ALIASES_def)
      then show ?thesis using fixed by simp
    next
      case False
      then have "normalize_language language = language_stem l"
        using 2 by (simp add: normalize_Some string_or_def LANGUAGE_ALIASES_def)
      then show ?thesis
        using assms False by (simp add: normalize_Some stem_idem string_or_def LANGUAGE_ALIASES_def)
    qed
  qed (simp add: fixed)
qed

text \<open>
  Localization degrades, and never to nothing. Every key English has is there in every
  language, taken from the language where it has it; a language is looked up the same however
  its region is written; and the cache, one entry per language, changes no answer.
\<close>

theorem strings_cover_english:
  assumes "normalize_language language \<noteq> []"
    and "\<forall>l s. cache l = Some s \<longrightarrow> s = load_strings files (Some l)"
  shows "dom (read_section files ''en'') \<subseteq> dom (load_strings files language)"
    and "read_section files (normalize_language language) key = Some t \<Longrightarrow>
      load_strings files language key = Some t"
    and "snd (get_strings files language cache) = load_strings files language"
    and "fst (get_strings files language cache) l = Some s \<Longrightarrow> s = load_strings files (Some l)"
proof -
  show "dom (read_section files ''en'') \<subseteq> dom (load_strings files language)"
    by (auto simp: load_strings_def DEFAULT_LANGUAGE_def Let_def)
  show "read_section files (normalize_language language) key = Some t \<Longrightarrow> load_strings files language key = Some t"
    by (auto simp: load_strings_def DEFAULT_LANGUAGE_def Let_def)
  have "load_strings files (Some (normalize_language language)) = load_strings files language"
    using normalize_idem [OF assms(1)] by (simp add: load_strings_def)
  then show "snd (get_strings files language cache) = load_strings files language"
    using assms(2) by (auto simp: get_strings_def Let_def split: option.splits)
  show "fst (get_strings files language cache) l = Some s \<Longrightarrow> s = load_strings files (Some l)"
    using assms(2) by (auto simp: get_strings_def Let_def split: option.splits if_splits)
qed

theorem strings_cover_english_witness:
  "load_strings [''en'' \<mapsto> [''slot_vacant'' \<mapsto> ''Vacant''], ''nb'' \<mapsto> Map.empty] (Some ''nn-NO'') ''slot_vacant'' \<noteq> None
   \<and> snd (get_strings [''en'' \<mapsto> [''slot_vacant'' \<mapsto> ''Vacant'']] (Some ''nn-NO'') Map.empty)
       = load_strings [''en'' \<mapsto> [''slot_vacant'' \<mapsto> ''Vacant'']] (Some ''nn-NO'')"
proof -
  have n: "normalize_language (Some ''nn-NO'') \<noteq> []" by code_simp
  have c: "\<forall>l s. (Map.empty :: string \<rightharpoonup> strings) l = Some s \<longrightarrow> s = load_strings f (Some l)" for f by simp
  show ?thesis
    using strings_cover_english(1) [OF n c, of "[''en'' \<mapsto> [''slot_vacant'' \<mapsto> ''Vacant''], ''nb'' \<mapsto> Map.empty]"]
      strings_cover_english(3) [OF n c, of "[''en'' \<mapsto> [''slot_vacant'' \<mapsto> ''Vacant'']]"]
    by (auto simp: read_section_def)
qed

end
