(* ===== verification/Py_Text.thy ===== *)
theory Py_Text
  imports Py_Values
begin

text \<open>
  Python's string methods and the pieces of regular expressions the scripts use, for
  characters below 256. A regular expression of the source is modelled by a function that
  gives the groups of its match, or the text left after it.
\<close>

section \<open>White space and lines\<close>

text \<open>\<^verbatim>\<open>str.isspace\<close>, which is also \<^verbatim>\<open>\s\<close>; the characters \<^verbatim>\<open>str.splitlines\<close> breaks a line at.\<close>

definition is_space :: "char \<Rightarrow> bool" where
  "is_space c \<longleftrightarrow> (let n = code_point c in 9 \<le> n \<and> n \<le> 13 \<or> 28 \<le> n \<and> n \<le> 32 \<or> n = 133 \<or> n = 160)"

definition is_line_break :: "char \<Rightarrow> bool" where
  "is_line_break c \<longleftrightarrow> (let n = code_point c in 10 \<le> n \<and> n \<le> 13 \<or> 28 \<le> n \<and> n \<le> 30 \<or> n = 133)"

abbreviation newline :: char where
  "newline \<equiv> CHR 0x0A"

definition lstrip_by :: "('a \<Rightarrow> bool) \<Rightarrow> 'a list \<Rightarrow> 'a list" where
  "lstrip_by p s = dropWhile p s"

definition rstrip_by :: "('a \<Rightarrow> bool) \<Rightarrow> 'a list \<Rightarrow> 'a list" where
  "rstrip_by p s = rev (dropWhile p (rev s))"

definition strip_by :: "('a \<Rightarrow> bool) \<Rightarrow> 'a list \<Rightarrow> 'a list" where
  "strip_by p s = rstrip_by p (lstrip_by p s)"

definition str_strip :: "string \<Rightarrow> string" where
  "str_strip s = strip_by is_space s"

text \<open>\<^verbatim>\<open>not s.strip()\<close>\<close>

definition is_blank :: "string \<Rightarrow> bool" where
  "is_blank s = list_all is_space s"

fun str_splitlines :: "string \<Rightarrow> string list" where
  "str_splitlines [] = []"
| "str_splitlines (c # cs) =
     (if is_line_break c
      then [] # (case cs of
                   [] \<Rightarrow> []
                 | d # ds \<Rightarrow> if c = CHR 0x0D \<and> d = newline then str_splitlines ds else str_splitlines cs)
      else case str_splitlines cs of [] \<Rightarrow> [[c]] | l # ls \<Rightarrow> (c # l) # ls)"

text \<open>\<^verbatim>\<open>sep.join(parts)\<close> and \<^verbatim>\<open>s.split(c)\<close> for one character.\<close>

fun str_join :: "string \<Rightarrow> string list \<Rightarrow> string" where
  "str_join sep [] = []"
| "str_join sep [s] = s"
| "str_join sep (s # t # ts) = s @ sep @ str_join sep (t # ts)"

abbreviation join_lines :: "string list \<Rightarrow> string" where
  "join_lines ls \<equiv> str_join [newline] ls"

fun str_split :: "char \<Rightarrow> string \<Rightarrow> string list" where
  "str_split sep [] = [[]]"
| "str_split sep (c # cs) =
     (if c = sep then [] # str_split sep cs
      else case str_split sep cs of [] \<Rightarrow> [[c]] | l # ls \<Rightarrow> (c # l) # ls)"

text \<open>\<^verbatim>\<open>s.removeprefix(p)\<close>; the rest after a literal of a regular expression.\<close>

definition after_prefix :: "string \<Rightarrow> string \<Rightarrow> string option" where
  "after_prefix p s = (if take (length p) s = p then Some (drop (length p) s) else None)"

definition remove_prefix :: "string \<Rightarrow> string \<Rightarrow> string" where
  "remove_prefix p s = (case after_prefix p s of None \<Rightarrow> s | Some r \<Rightarrow> r)"

lemma after_prefix_length:
  assumes "after_prefix p s = Some r"
  shows "length r + length p = length s"
proof -
  have t: "take (length p) s = p" "r = drop (length p) s" using assms by (auto simp: after_prefix_def split: if_splits)
  have "length p \<le> length s" using arg_cong [OF t(1), of length] by simp
  with t(2) show ?thesis by simp
qed

text \<open>\<^verbatim>\<open>s.partition(c)\<close>: the text before the first \<^verbatim>\<open>c\<close> and the text after it.\<close>

definition str_partition :: "char \<Rightarrow> string \<Rightarrow> string \<times> string" where
  "str_partition c s = (takeWhile (\<lambda>x. x \<noteq> c) s, tl (dropWhile (\<lambda>x. x \<noteq> c) s))"

text \<open>\<^verbatim>\<open>str.casefold\<close>: the sharp s becomes two letters. The micro sign, which becomes a letter
  above 255, is left as it is.\<close>

definition str_casefold :: "string \<Rightarrow> string" where
  "str_casefold s = concat (map (\<lambda>c. if code_point c = 223 then ''ss'' else [lower_char c]) s)"

section \<open>Their laws\<close>

lemma dropWhile_rev_idem [simp]: "rstrip_by p (rstrip_by p s) = rstrip_by p s"
  by (simp add: rstrip_by_def)

lemma rstrip_by_snoc [simp]: "rstrip_by p (s @ [x]) = (if p x then rstrip_by p s else s @ [x])"
  by (simp add: rstrip_by_def)

lemma rstrip_by_Nil [simp]: "rstrip_by p [] = []"
  by (simp add: rstrip_by_def)

lemma rstrip_by_prefix: "\<exists>t. s = rstrip_by p s @ t \<and> list_all p t"
proof (induction s rule: rev_induct)
  case (snoc x s)
  then obtain t where "s = rstrip_by p s @ t" "list_all p t" by blast
  then show ?case
    by (cases "p x") (auto intro: exI [of _ "t @ [x]"])
qed simp

lemma set_rstrip_by: "set (rstrip_by p s) \<subseteq> set s"
  by (auto simp: rstrip_by_def dest: set_dropWhileD)

lemma list_all_rstrip_by: "list_all q s \<Longrightarrow> list_all q (rstrip_by p s)"
  using set_rstrip_by [of p s] by (auto simp: list_all_iff)

lemma rstrip_by_Nil_iff: "rstrip_by p s = [] \<longleftrightarrow> list_all p s"
  by (auto simp: rstrip_by_def list_all_iff dropWhile_eq_Nil_conv)

lemma rstrip_by_hd: "\<not> p x \<Longrightarrow> rstrip_by p (x # s) = x # rstrip_by p s"
  by (simp add: rstrip_by_def dropWhile_append3 dropWhile_append)

text \<open>Lines without breaks come back from their text, unless the last line is empty.\<close>

definition plain_line :: "string \<Rightarrow> bool" where
  "plain_line l = list_all (\<lambda>c. \<not> is_line_break c) l"

lemma newline_breaks [simp]: "is_line_break newline" "newline \<noteq> CHR 0x0D"
  by (simp_all add: is_line_break_def Let_def)

lemma splitlines_plain: "plain_line l \<Longrightarrow> l \<noteq> [] \<Longrightarrow> str_splitlines l = [l]"
proof (induction l)
  case (Cons c l)
  then show ?case by (cases "l = []") (simp_all add: plain_line_def)
qed simp

lemma splitlines_line: "plain_line l \<Longrightarrow> str_splitlines (l @ newline # s) = l # str_splitlines s"
proof (induction l)
  case Nil
  then show ?case by (cases s) simp_all
qed (simp add: plain_line_def)

lemma splitlines_join:
  assumes "list_all plain_line ls" "ls = [] \<or> last ls \<noteq> []"
  shows "str_splitlines (join_lines ls) = ls"
  using assms
proof (induction ls rule: induct_list012)
  case (3 x y zs)
  then show ?case by (simp add: splitlines_line)
qed (simp_all add: splitlines_plain)

lemma splitlines_are_plain: "list_all plain_line (str_splitlines s)"
proof (induction s rule: str_splitlines.induct)
  case (2 c cs)
  show ?case
  proof (cases "is_line_break c")
    case True
    have "list_all plain_line (case cs of [] \<Rightarrow> []
        | d # ds \<Rightarrow> if c = CHR 0x0D \<and> d = newline then str_splitlines ds else str_splitlines cs)"
      using 2(1,2) [OF True] by (cases cs) simp_all
    with True show ?thesis by (simp add: plain_line_def [of "[]"])
  next
    case False
    have "plain_line [c]" using False by (simp add: plain_line_def)
    with 2(3) [OF False] False show ?thesis
      by (cases "str_splitlines cs") (simp_all add: plain_line_def)
  qed
qed simp

end
