(* ===== verification/Options_Flow.thy ===== *)
theory Options_Flow
  imports Services Localize Py_Text
begin

text \<open>
  \<^verbatim>\<open>config_flow.py\<close>: adding a lock, pointing an entry at another module, and the options
  dialog. Home Assistant runs the steps; what it answers (whether a flow for an address is in
  progress, whether a unique id is taken) is part of the environment. A step returns the
  dialog's state, what is shown, and the writes it started. A stored slot name is a string,
  as every writer stores it.
\<close>

definition NUM_USER_SLOTS :: int where "NUM_USER_SLOTS = 10"

section \<open>The locks on offer\<close>

record config_entry =
  ce_id :: string
  ce_ignored :: bool
  ce_unique_id :: "string option"
  ce_ieee :: "string option"

definition taken_addresses :: "config_entry list \<Rightarrow> string option \<Rightarrow> bool \<Rightarrow> string option list" where
  "taken_addresses entries skip offer_ignored =
     concat (map (\<lambda>e.
       if Some (ce_id e) = skip then []
       else if ce_ignored e then (if \<not> offer_ignored then [ce_unique_id e] else [])
       else [ce_ieee e]) entries)"

definition locks_on_offer ::
  "config_entry list \<Rightarrow> (string \<times> string) list \<Rightarrow> string option \<Rightarrow> bool \<Rightarrow> (string \<times> string) list" where
  "locks_on_offer entries zha_locks skip offer_ignored =
     filter (\<lambda>(ieee, model). Some ieee \<notin> set (taken_addresses entries skip offer_ignored)) zha_locks"

definition entry_title :: "string \<Rightarrow> string" where
  "entry_title ieee = ''Onesti Lock ('' @ drop (length ieee - 8) ieee @ '')''"

datatype config_result =
    ConfigAbort string
  | ConfigForm string "(string \<times> string) list" "(string \<times> string) list"
  | CreateLock string string string
  | UpdateReload string string string string

record flow_env =
  fe_zha_loaded :: bool
  fe_entries :: "config_entry list"
  fe_zha_locks :: "(string \<times> string) list"
  fe_in_progress :: "string \<Rightarrow> bool"
  fe_configured :: "string \<Rightarrow> bool"

definition device_labels :: "(string \<times> string) list \<Rightarrow> (string \<times> string) list" where
  "device_labels locks = map (\<lambda>(ieee, model). (ieee, model @ '' ('' @ ieee @ '')'')) locks"

definition step_user :: "flow_env \<Rightarrow> string option \<Rightarrow> config_result" where
  "step_user env user_input =
     (if \<not> fe_zha_loaded env then ConfigAbort ''zha_not_found''
      else let locks = locks_on_offer (fe_entries env) (fe_zha_locks env) None False in
        if locks = [] then ConfigAbort ''no_devices_found''
        else case user_input of
          None \<Rightarrow> ConfigForm ''user'' (device_labels locks) []
        | Some ieee \<Rightarrow>
            if fe_in_progress env ieee then ConfigAbort ''already_in_progress''
            else if fe_configured env ieee then ConfigAbort ''already_configured''
            else case map_of locks ieee of
              None \<Rightarrow> ConfigForm ''user'' (device_labels locks) [(''device'', ''device_gone'')]
            | Some model \<Rightarrow> CreateLock (entry_title ieee) ieee model)"

text \<open>Reconfigure, of the entry given.\<close>

definition step_reconfigure :: "flow_env \<Rightarrow> config_entry \<Rightarrow> string option \<Rightarrow> config_result" where
  "step_reconfigure env entry user_input =
     (if \<not> fe_zha_loaded env then ConfigAbort ''zha_not_found''
      else let locks = locks_on_offer (fe_entries env) (fe_zha_locks env) (Some (ce_id entry)) True in
        if locks = [] then ConfigAbort ''no_devices_found''
        else case user_input of
          None \<Rightarrow> ConfigForm ''reconfigure'' (device_labels locks) []
        | Some ieee \<Rightarrow>
            if \<exists>other \<in> set (fe_entries env). ce_id other \<noteq> ce_id entry \<and> ce_ieee other = Some ieee
            then ConfigAbort ''already_configured''
            else case map_of locks ieee of
              None \<Rightarrow> ConfigForm ''reconfigure'' (device_labels locks) [(''device'', ''device_gone'')]
            | Some model \<Rightarrow> UpdateReload (ce_id entry) (entry_title ieee) ieee model)"

text \<open>\<^verbatim>\<open>_clear_the_way_for\<close>: the ignored entries on the address go.\<close>

definition clear_the_way :: "string \<Rightarrow> config_entry list \<Rightarrow> config_entry list" where
  "clear_the_way ieee entries = filter (\<lambda>e. \<not> (ce_ignored e \<and> ce_unique_id e = Some ieee)) entries"

text \<open>\<^verbatim>\<open>_drop_replaced_address\<close> on one device: the entries it belongs to and its connections.\<close>

definition drop_replaced_address ::
  "string \<Rightarrow> string \<Rightarrow> string list \<Rightarrow> (string \<times> string) list \<Rightarrow> (string \<times> string) list" where
  "drop_replaced_address entry_id ieee owners connections =
     (if set owners \<noteq> {entry_id} then connections
      else filter (\<lambda>(kind, address). kind \<noteq> ''zigbee'' \<or> address = str_lower ieee) connections)"

definition step_integration_discovery :: "flow_env \<Rightarrow> string \<Rightarrow> string \<Rightarrow> config_result" where
  "step_integration_discovery env ieee model =
     (if fe_in_progress env ieee then ConfigAbort ''already_in_progress''
      else if fe_configured env ieee then ConfigAbort ''already_configured''
      else ConfigForm ''discovery_confirm'' [(''model'', model), (''ieee'', ieee)] [])"

definition step_discovery_confirm :: "string \<Rightarrow> string \<Rightarrow> config_result" where
  "step_discovery_confirm ieee model = CreateLock (entry_title ieee) ieee model"

section \<open>The options dialog\<close>

record form_error =
  fo_key :: string
  fo_status :: "string option"

text \<open>How the write ended: with an outcome, a TimeoutError, or any other exception.\<close>

datatype write_end = Outcome send_outcome | RaisedTimeout | RaisedError

definition flow_write :: "write_end \<Rightarrow> form_error option" where
  "flow_write e =
     (case e of
        RaisedTimeout \<Rightarrow> Some \<lparr>fo_key = ''lock_unreachable'', fo_status = None\<rparr>
      | RaisedError \<Rightarrow> Some \<lparr>fo_key = ''unknown'', fo_status = None\<rparr>
      | Outcome out \<Rightarrow>
          (case error_key out of
             None \<Rightarrow> None
           | Some key \<Rightarrow>
               if so_delivery out = UNREACHED then Some \<lparr>fo_key = key, fo_status = None\<rparr>
               else Some \<lparr>fo_key = key, fo_status = Some (status_text out)\<rparr>))"

text \<open>A write's task: running, cancelled, or done with what the write left.\<close>

datatype write_task_state = Running | Cancelled | Finished "form_error option"

definition task_error :: "write_task_state \<Rightarrow> form_error option" where
  "task_error t = (case t of
     Cancelled \<Rightarrow> Some \<lparr>fo_key = ''unknown'', fo_status = None\<rparr> | Finished e \<Rightarrow> e | Running \<Rightarrow> None)"

record set_pin_input =
  si_slot :: int
  si_name :: string
  si_code :: string

record options_flow =
  of_set_input :: "set_pin_input option"
  of_set_task :: "write_task_state option"
  of_set_error :: "form_error option"
  of_clear_input :: "int option"
  of_clear_task :: "write_task_state option"
  of_clear_error :: "form_error option"

definition options_flow_init :: options_flow where
  "options_flow_init = \<lparr>of_set_input = None, of_set_task = None, of_set_error = None,
     of_clear_input = None, of_clear_task = None, of_clear_error = None\<rparr>"

text \<open>What the dialog reads: the entry's state and options, the lock's capabilities, the strings.\<close>

record dialog_env =
  di_loaded :: bool
  di_options :: entry_options
  di_capabilities :: py_map
  di_strings :: strings

datatype flow_write_start = StartSetPin int string string | StartClearPin int

datatype options_result =
    OptionsAbort string
  | OptionsMenu "string list"
  | SetPinForm "(int \<times> string option) list" "(string \<times> string) list" "set_pin_input option" "string option" "int \<times> int"
  | ClearPinForm "(int \<times> string option) list" "(string \<times> string) list" "int option" "string option"
  | NameSlotForm "(string \<times> string) list"
  | ViewSlotsForm "string option list"
  | SettingsForm int
  | Progress string
  | ProgressDone string
  | SaveOptions entry_options

definition raw_slot :: "entry_options \<Rightarrow> int \<Rightarrow> py_map" where
  "raw_slot opts n = (case eo_slots opts of None \<Rightarrow> Map.empty
     | Some m \<Rightarrow> (case m (str_int n) of None \<Rightarrow> Map.empty | Some s \<Rightarrow> s))"

definition raw_name :: "entry_options \<Rightarrow> int \<Rightarrow> string" where
  "raw_name opts n = (case raw_slot opts n ''name'' of Some (PStr s) \<Rightarrow> s | _ \<Rightarrow> '''')"

definition raw_has_pin :: "entry_options \<Rightarrow> int \<Rightarrow> bool" where
  "raw_has_pin opts n = (case raw_slot opts n ''has_pin'' of Some v \<Rightarrow> py_truth v | None \<Rightarrow> False)"

definition slot_row :: "int \<Rightarrow> int list" where
  "slot_row first = [first..first + NUM_USER_SLOTS - 1]"

definition set_pin_choices :: "dialog_env \<Rightarrow> (int \<times> string option) list" where
  "set_pin_choices env =
     (let vacant = string_or (di_strings env) ''slot_vacant'' ''Vacant'' in
      map (\<lambda>n. let name = raw_name (di_options env) n in
                (n, format_slot_label (di_strings env) n (if name \<noteq> [] then name else vacant)))
        (slot_row (first_slot_of (di_options env))))"

definition clear_pin_choices :: "dialog_env \<Rightarrow> (int \<times> string option) list" where
  "clear_pin_choices env =
     (let fallback = string_or (di_strings env) ''slot_fallback_name'' ''Slot {slot}'' in
      map (\<lambda>n. let name = raw_name (di_options env) n in
                (n, if name \<noteq> [] then format_slot_label (di_strings env) n name
                    else str_format [''slot'' \<mapsto> str_int n] fallback))
        (filter (raw_has_pin (di_options env)) [first_slot_of (di_options env)..MAX_SLOTS - 1]))"

definition step_init :: "dialog_env \<Rightarrow> options_result" where
  "step_init env =
     (if \<not> di_loaded env then OptionsAbort ''lock_not_loaded''
      else OptionsMenu [''set_pin'', ''clear_pin'', ''name_slot'', ''view_slots'', ''settings''])"

type_synonym flow_step = "options_flow \<times> options_result \<times> flow_write_start list"

definition set_pin_progress :: "options_flow \<Rightarrow> flow_step" where
  "set_pin_progress f =
     (let (f, started) =
        (case of_set_task f of
           Some t \<Rightarrow> (f, [])
         | None \<Rightarrow> (f\<lparr>of_set_task := Some Running\<rparr>,
             (case of_set_input f of
                Some inp \<Rightarrow> [StartSetPin (si_slot inp) (si_name inp) (si_code inp)] | None \<Rightarrow> [])))
      in case of_set_task f of
        Some Running \<Rightarrow> (f, Progress ''set_pin_progress'', started)
      | Some t \<Rightarrow>
          (let f = f\<lparr>of_set_task := None, of_set_error := task_error t\<rparr> in
           (f, ProgressDone (if of_set_error f \<noteq> None then ''set_pin'' else ''set_pin_done''), started))
      | None \<Rightarrow> (f, Progress ''set_pin_progress'', started))"

definition step_set_pin :: "dialog_env \<Rightarrow> options_flow \<Rightarrow> set_pin_input option \<Rightarrow> flow_step" where
  "step_set_pin env f user_input =
     (case of_set_error f of
        Some e \<Rightarrow>
          (f\<lparr>of_set_error := None\<rparr>,
           SetPinForm (set_pin_choices env) [(''base'', fo_key e)] (of_set_input f) (fo_status e)
             (pin_length_range (di_capabilities env)), [])
      | None \<Rightarrow>
          (case user_input of
             None \<Rightarrow> (f, SetPinForm (set_pin_choices env) [] None None (pin_length_range (di_capabilities env)), [])
           | Some inp \<Rightarrow>
               if \<not> is_valid_pin (si_code inp) (di_capabilities env)
               then (f, SetPinForm (set_pin_choices env) [(''code'', ''invalid_pin'')] (Some inp) None
                         (pin_length_range (di_capabilities env)), [])
               else set_pin_progress (f\<lparr>of_set_input := Some inp\<rparr>)))"

definition set_pin_done :: "dialog_env \<Rightarrow> options_flow \<Rightarrow> flow_step" where
  "set_pin_done env f = (f\<lparr>of_set_input := None\<rparr>, SaveOptions (di_options env), [])"

definition clear_pin_progress :: "options_flow \<Rightarrow> flow_step" where
  "clear_pin_progress f =
     (let (f, started) =
        (case of_clear_task f of
           Some t \<Rightarrow> (f, [])
         | None \<Rightarrow> (f\<lparr>of_clear_task := Some Running\<rparr>,
             (case of_clear_input f of Some n \<Rightarrow> [StartClearPin n] | None \<Rightarrow> [])))
      in case of_clear_task f of
        Some Running \<Rightarrow> (f, Progress ''clear_pin_progress'', started)
      | Some t \<Rightarrow>
          (let f = f\<lparr>of_clear_task := None, of_clear_error := task_error t\<rparr> in
           (f, ProgressDone (if of_clear_error f \<noteq> None then ''clear_pin'' else ''clear_pin_done''), started))
      | None \<Rightarrow> (f, Progress ''clear_pin_progress'', started))"

definition step_clear_pin :: "dialog_env \<Rightarrow> options_flow \<Rightarrow> int option \<Rightarrow> flow_step" where
  "step_clear_pin env f user_input =
     (if clear_pin_choices env = [] then (f, OptionsAbort ''no_active_slots'', [])
      else case of_clear_error f of
        Some e \<Rightarrow>
          (f\<lparr>of_clear_error := None\<rparr>,
           ClearPinForm (clear_pin_choices env) [(''base'', fo_key e)] (of_clear_input f) (fo_status e), [])
      | None \<Rightarrow>
          (case user_input of
             None \<Rightarrow> (f, ClearPinForm (clear_pin_choices env) [] None None, [])
           | Some n \<Rightarrow> clear_pin_progress (f\<lparr>of_clear_input := Some n\<rparr>)))"

definition clear_pin_done :: "dialog_env \<Rightarrow> options_flow \<Rightarrow> flow_step" where
  "clear_pin_done env f = (f\<lparr>of_clear_input := None\<rparr>, SaveOptions (di_options env), [])"

text \<open>Naming a slot: Some is the slot and the name \<^verbatim>\<open>set_slot_name\<close> is called with.\<close>

definition step_name_slot :: "(int \<times> string) option \<Rightarrow> (string \<times> string) list + int \<times> string" where
  "step_name_slot user_input =
     (case user_input of
        None \<Rightarrow> Inl []
      | Some (slot, name) \<Rightarrow>
          if \<not> (0 \<le> slot \<and> slot < MAX_SLOTS) then Inl [(''slot'', ''invalid_slot'')]
          else Inr (slot, str_strip name))"

definition view_line :: "dialog_env \<Rightarrow> int \<Rightarrow> string option" where
  "view_line env n =
     (let strings = di_strings env; name = raw_name (di_options env) n; has_pin = raw_has_pin (di_options env) n in
      if name \<noteq> [] \<and> has_pin
      then map_option (\<lambda>l. l @ '' '' @ string_or strings ''slot_status_pin_active'' ''(PIN active)'')
             (format_slot_label strings n (''**'' @ name @ ''**''))
      else if name \<noteq> []
      then map_option (\<lambda>l. l @ '' '' @ string_or strings ''slot_status_no_pin'' ''(no PIN)'')
             (format_slot_label strings n name)
      else format_slot_label strings n (string_or strings ''slot_vacant'' ''Vacant''))"

definition step_view_slots :: "dialog_env \<Rightarrow> bool \<Rightarrow> options_result" where
  "step_view_slots env submitted =
     (let first = first_slot_of (di_options env);
          lines = map (\<lambda>n. format_reserved_slot_row (di_strings env) n (raw_name (di_options env) n)) [0..first - 1]
                  @ map (view_line env) (slot_row first)
      in if submitted then step_init env else ViewSlotsForm lines)"

definition step_settings :: "dialog_env \<Rightarrow> int option \<Rightarrow> options_result" where
  "step_settings env user_input =
     (case user_input of
        None \<Rightarrow> SettingsForm (first_slot_of (di_options env))
      | Some n \<Rightarrow> SaveOptions ((di_options env)
          \<lparr>eo_rest := (eo_rest (di_options env))(CONF_RESERVED_SLOTS \<mapsto> PInt n)\<rparr>))"

end
