(* ===== verification/Options_Props.thy ===== *)
theory Options_Props
  imports Options_Flow
begin

text \<open>
  What the flows promise: a write per submission and its error shown once, the same verdict as
  the services, no address in two entries; and what two of the forms do not look at.
\<close>

section \<open>Addresses\<close>

lemma in_taken_addresses:
  "x \<in> set (taken_addresses entries skip offer_ignored) \<longleftrightarrow>
     (\<exists>e \<in> set entries. Some (ce_id e) \<noteq> skip \<and>
        (if ce_ignored e then \<not> offer_ignored \<and> ce_unique_id e = x else ce_ieee e = x))"
  by (induction entries) (auto simp: taken_addresses_def)

lemma offered_not_taken:
  "(ieee, model) \<in> set (locks_on_offer entries zha skip offer_ignored) \<longleftrightarrow>
     (ieee, model) \<in> set zha \<and> (\<forall>e \<in> set entries. Some (ce_id e) \<noteq> skip \<longrightarrow>
        (if ce_ignored e then offer_ignored \<or> ce_unique_id e \<noteq> Some ieee else ce_ieee e \<noteq> Some ieee))"
  unfolding locks_on_offer_def by (auto simp: in_taken_addresses split: if_splits)

text \<open>
  No address in two entries. A lock is created only if ZHA lists it now and no other
  entry has its address or, through Ignore, its unique id; a reconfigured entry takes only an
  address no other entry holds, and the ignored ones on it are gone by then.
\<close>

theorem one_entry_per_address:
  "(step_user env (Some ieee) = CreateLock title ieee' model \<longrightarrow> ieee' = ieee
     \<and> (ieee, model) \<in> set (fe_zha_locks env)
     \<and> (\<forall>e \<in> set (fe_entries env). if ce_ignored e then ce_unique_id e \<noteq> Some ieee else ce_ieee e \<noteq> Some ieee))
   \<and> (step_reconfigure env entry (Some ieee) = UpdateReload entry_id title ieee' model \<longrightarrow> ieee' = ieee
     \<and> entry_id = ce_id entry \<and> (ieee, model) \<in> set (fe_zha_locks env)
     \<and> (\<forall>e \<in> set (clear_the_way ieee (fe_entries env)). ce_id e \<noteq> ce_id entry \<longrightarrow>
          ce_ieee e \<noteq> Some ieee \<and> (ce_ignored e \<longrightarrow> ce_unique_id e \<noteq> Some ieee)))"
proof (rule conjI; rule impI)
  assume "step_user env (Some ieee) = CreateLock title ieee' model"
  then have m: "ieee' = ieee" "map_of (locks_on_offer (fe_entries env) (fe_zha_locks env) None False) ieee = Some model"
    by (auto simp: step_user_def Let_def split: if_splits option.splits)
  from map_of_SomeD [OF m(2)] m(1) show "ieee' = ieee \<and> (ieee, model) \<in> set (fe_zha_locks env)
     \<and> (\<forall>e \<in> set (fe_entries env). if ce_ignored e then ce_unique_id e \<noteq> Some ieee else ce_ieee e \<noteq> Some ieee)"
    by (auto simp: offered_not_taken split: if_splits)
next
  assume "step_reconfigure env entry (Some ieee) = UpdateReload entry_id title ieee' model"
  then have m: "ieee' = ieee" "entry_id = ce_id entry"
    "map_of (locks_on_offer (fe_entries env) (fe_zha_locks env) (Some (ce_id entry)) True) ieee = Some model"
    "\<forall>other \<in> set (fe_entries env). ce_id other \<noteq> ce_id entry \<longrightarrow> ce_ieee other \<noteq> Some ieee"
    by (auto simp: step_reconfigure_def Let_def split: if_splits option.splits)
  from map_of_SomeD [OF m(3)] m(1,2,4) show "ieee' = ieee \<and> entry_id = ce_id entry
     \<and> (ieee, model) \<in> set (fe_zha_locks env)
     \<and> (\<forall>e \<in> set (clear_the_way ieee (fe_entries env)). ce_id e \<noteq> ce_id entry \<longrightarrow>
          ce_ieee e \<noteq> Some ieee \<and> (ce_ignored e \<longrightarrow> ce_unique_id e \<noteq> Some ieee))"
    by (auto simp: offered_not_taken clear_the_way_def split: if_splits)
qed

definition example_env :: flow_env where
  "example_env = \<lparr>fe_zha_loaded = True,
     fe_entries = [\<lparr>ce_id = ''e1'', ce_ignored = False, ce_unique_id = Some ''aa'', ce_ieee = Some ''aa''\<rparr>,
                   \<lparr>ce_id = ''e2'', ce_ignored = True, ce_unique_id = Some ''cc'', ce_ieee = None\<rparr>],
     fe_zha_locks = [(''aa'', ''NimlyPRO''), (''bb'', ''NimlyTouch''), (''cc'', ''NimlyIn'')],
     fe_in_progress = (\<lambda>_. False), fe_configured = (\<lambda>i. i = ''aa'')\<rparr>"

lemma example_create: "step_user example_env (Some ''bb'') = CreateLock (entry_title ''bb'') ''bb'' ''NimlyTouch''"
  by (simp add: step_user_def example_env_def locks_on_offer_def taken_addresses_def)

theorem one_entry_per_address_witness:
  "step_user example_env (Some ''bb'') = CreateLock (entry_title ''bb'') ''bb'' ''NimlyTouch''
   \<and> (''bb'', ''NimlyTouch'') \<in> set (fe_zha_locks example_env)"
  using one_entry_per_address [THEN conjunct1, THEN mp, OF example_create] example_create by blast

section \<open>Writes from the dialog\<close>

text \<open>
  One write per submission. A submitted code that the keypad takes starts one write with
  exactly what was entered; asking again while it runs starts none; when it has failed, the
  next call of the form step, with the old input still attached or not, shows that error once
  over the kept input and starts nothing; when it has not, the dialog ends.
\<close>

theorem one_write_per_submission:
  assumes "of_set_task f = None" "of_set_error f = None" "is_valid_pin (si_code inp) (di_capabilities env)"
  shows "\<exists>f1. step_set_pin env f (Some inp)
        = (f1, Progress ''set_pin_progress'', [StartSetPin (si_slot inp) (si_name inp) (si_code inp)])
      \<and> set_pin_progress f1 = (f1, Progress ''set_pin_progress'', [])
      \<and> (\<forall>t. t \<noteq> Running \<longrightarrow> (\<exists>f2. set_pin_progress (f1\<lparr>of_set_task := Some t\<rparr>)
            = (f2, ProgressDone (if task_error t = None then ''set_pin_done'' else ''set_pin''), [])
          \<and> of_set_task f2 = None
          \<and> (\<forall>e u. task_error t = Some e \<longrightarrow> (\<exists>f3. step_set_pin env f2 u
              = (f3, SetPinForm (set_pin_choices env) [(''base'', fo_key e)] (Some inp) (fo_status e)
                       (pin_length_range (di_capabilities env)), [])
              \<and> of_set_error f3 = None \<and> of_set_task f3 = None))))"
  using assms
  by (auto simp: step_set_pin_def set_pin_progress_def Let_def split: write_task_state.splits)

definition example_dialog :: dialog_env where
  "example_dialog = \<lparr>di_loaded = True, di_options = no_options, di_capabilities = Map.empty, di_strings = Map.empty\<rparr>"

theorem one_write_per_submission_witness:
  "\<exists>f1. step_set_pin example_dialog options_flow_init
       (Some \<lparr>si_slot = 3, si_name = ''Kari'', si_code = ''1234''\<rparr>)
     = (f1, Progress ''set_pin_progress'', [StartSetPin 3 ''Kari'' ''1234''])"
proof -
  have v: "is_valid_pin ''1234'' Map.empty" by code_simp
  have "is_valid_pin (si_code \<lparr>si_slot = 3, si_name = ''Kari'', si_code = ''1234''\<rparr>) (di_capabilities example_dialog)"
    using v by (simp add: example_dialog_def)
  from one_write_per_submission [OF _ _ this, of options_flow_init] show ?thesis
    by (auto simp: options_flow_init_def)
qed

text \<open>
  C28: both front ends give one verdict. For every outcome of a write the dialog shows an
  error exactly when the service raises one, under the same key, and with the lock's status
  exactly when the lock refused; and the clear form offers exactly the writable slots that
  hold a code.
\<close>

theorem front_ends_agree:
  "(flow_write (Outcome out) = None \<longleftrightarrow> write_result slot (Inr (out, refresh)) = Inr ())
   \<and> (flow_write (Outcome out) = Some e \<longrightarrow>
     (so_delivery out = UNREACHED \<and> not_delivered out = LockUnreachable
        \<and> fo_key e = ''lock_unreachable'' \<and> fo_status e = None)
     \<or> (so_delivery out = REJECTED \<and> not_delivered out = LockRefused (Some (fo_key e)) (status_text out)
        \<and> fo_status e = Some (status_text out)))
   \<and> map fst (clear_pin_choices env)
     = filter (raw_has_pin (di_options env)) [first_slot_of (di_options env)..999]"
proof (intro conjI impI)
  show "flow_write (Outcome out) = None \<longleftrightarrow> write_result slot (Inr (out, refresh)) = Inr ()"
    by (simp add: flow_write_def write_result_def error_key_def delivered_def)
  show "flow_write (Outcome out) = Some e \<Longrightarrow>
     (so_delivery out = UNREACHED \<and> not_delivered out = LockUnreachable
        \<and> fo_key e = ''lock_unreachable'' \<and> fo_status e = None)
     \<or> (so_delivery out = REJECTED \<and> not_delivered out = LockRefused (Some (fo_key e)) (status_text out)
        \<and> fo_status e = Some (status_text out))"
    by (cases "so_delivery out")
      (auto simp: flow_write_def not_delivered_def error_key_def split: if_splits)
  show "map fst (clear_pin_choices env)
     = filter (raw_has_pin (di_options env)) [first_slot_of (di_options env)..999]"
    by (simp add: clear_pin_choices_def Let_def o_def)
qed

theorem front_ends_agree_witness:
  "\<exists>e. flow_write (Outcome SEND_UNREACHED) = Some e \<and> fo_key e = ''lock_unreachable''"
proof -
  have f: "flow_write (Outcome SEND_UNREACHED) = Some \<lparr>fo_key = ''lock_unreachable'', fo_status = None\<rparr>"
    by (simp add: flow_write_def SEND_UNREACHED_def error_key_def)
  from front_ends_agree [of SEND_UNREACHED 0 False "\<lparr>fo_key = ''lock_unreachable'', fo_status = None\<rparr>" example_dialog] f
  show ?thesis by auto
qed

section \<open>What two forms do not look at\<close>

text \<open>
  The set PIN form offers ten slots whatever the lock reports it can hold, and starts a
  write for each: with five PIN users reported, slot 5 and up are offered and written, which
  the service refuses for the same lock.
\<close>

theorem set_pin_form_ignores_capacity:
  "map fst (set_pin_choices env)
     = [first_slot_of (di_options env)..first_slot_of (di_options env) + 9]
   \<and> (\<exists>n \<in> set (map fst (set_pin_choices (env\<lparr>di_capabilities := [''num_pin_users'' \<mapsto> PInt 5]\<rparr>))).
     max_user_slot [''num_pin_users'' \<mapsto> PInt 5] < n
     \<and> (\<exists>f1. step_set_pin (env\<lparr>di_capabilities := [''num_pin_users'' \<mapsto> PInt 5]\<rparr>) options_flow_init
            (Some \<lparr>si_slot = n, si_name = ''Kari'', si_code = ''1234''\<rparr>)
          = (f1, Progress ''set_pin_progress'', [StartSetPin n ''Kari'' ''1234''])))"
proof
  have choices: "map fst (set_pin_choices env)
      = [first_slot_of (di_options env)..first_slot_of (di_options env) + 9]" for env
    by (simp add: set_pin_choices_def slot_row_def NUM_USER_SLOTS_def Let_def o_def add.commute)
  then show "map fst (set_pin_choices env)
     = [first_slot_of (di_options env)..first_slot_of (di_options env) + 9]" .
  let ?env = "env\<lparr>di_capabilities := [''num_pin_users'' \<mapsto> PInt 5]\<rparr>"
  let ?n = "first_slot_of (di_options env) + 9"
  have "?n \<in> set (map fst (set_pin_choices ?env))" unfolding choices by simp
  moreover have "max_user_slot [''num_pin_users'' \<mapsto> PInt 5] < ?n"
    using first_user_slot_bounds [of "eo_rest (di_options env)"]
    by (simp add: max_user_slot_def first_slot_of_def reserved_option_def)
  moreover have "is_valid_pin ''1234'' [''num_pin_users'' \<mapsto> PInt 5]" by code_simp
  then have "\<exists>f1. step_set_pin ?env options_flow_init (Some \<lparr>si_slot = ?n, si_name = ''Kari'', si_code = ''1234''\<rparr>)
      = (f1, Progress ''set_pin_progress'', [StartSetPin ?n ''Kari'' ''1234''])"
    by (simp add: step_set_pin_def set_pin_progress_def options_flow_init_def Let_def)
  ultimately show "\<exists>n \<in> set (map fst (set_pin_choices ?env)).
     max_user_slot [''num_pin_users'' \<mapsto> PInt 5] < n
     \<and> (\<exists>f1. step_set_pin ?env options_flow_init
            (Some \<lparr>si_slot = n, si_name = ''Kari'', si_code = ''1234''\<rparr>)
          = (f1, Progress ''set_pin_progress'', [StartSetPin n ''Kari'' ''1234'']))" by blast
qed

text \<open>
  The slot list shows an unnamed slot as vacant even when it holds a code: unnaming a
  slot whose PIN is set, which is what naming it with an empty name does, keeps the code
  stored and makes its row read the same as a row of a slot with nothing in it.
\<close>

theorem unnamed_code_shown_vacant:
  assumes "raw_slot (di_options env) n = write_slot \<lparr>sl_name = PStr '''', sl_has_pin = PBool True\<rparr>"
    and "raw_slot (di_options blank) n = Map.empty" "di_strings env = di_strings blank"
  shows "view_line env n = view_line blank n
    \<and> raw_has_pin (di_options env) n \<and> \<not> raw_has_pin (di_options blank) n
    \<and> (slot_or_default m n = \<lparr>sl_name = PStr s, sl_has_pin = PBool True\<rparr> \<longrightarrow> m (str_int n) \<noteq> None \<longrightarrow>
      name_set n '''' m (str_int n) = Some \<lparr>sl_name = PStr '''', sl_has_pin = PBool True\<rparr>)"
  using assms
  by (auto simp: view_line_def raw_name_def raw_has_pin_def write_slot_def name_set_def slot_is_default_def
      slot_or_default_def Let_def)

theorem unnamed_code_shown_vacant_witness:
  "view_line (example_dialog\<lparr>di_options := no_options\<lparr>eo_slots :=
      Some [''5'' \<mapsto> write_slot \<lparr>sl_name = PStr '''', sl_has_pin = PBool True\<rparr>]\<rparr>\<rparr>) 5
   = view_line example_dialog 5"
proof (rule unnamed_code_shown_vacant [THEN conjunct1])
  have "str_int 5 = ''5''" by code_simp
  then show "raw_slot (di_options (example_dialog\<lparr>di_options := no_options\<lparr>eo_slots :=
      Some [''5'' \<mapsto> write_slot \<lparr>sl_name = PStr '''', sl_has_pin = PBool True\<rparr>]\<rparr>\<rparr>)) 5
      = write_slot \<lparr>sl_name = PStr '''', sl_has_pin = PBool True\<rparr>"
    by (simp add: raw_slot_def)
qed (simp_all add: raw_slot_def example_dialog_def no_options_def)

end
