(* ===== verification/Events.thy ===== *)
theory Events
  imports Localize
begin

text \<open>
  \<^verbatim>\<open>events.py\<close>: the operation event, which of them name a person, and the listener on the
  Door Lock cluster.
\<close>

unbundle bit_operations_syntax

definition ATTR_OPERATION_EVENT :: int where [simp]: "ATTR_OPERATION_EVENT = 256"

datatype lock_action = ACTION_LOCK | ACTION_UNLOCK | ACTION_UNKNOWN

datatype lock_source =
    SOURCE_ZIGBEE | SOURCE_KEYPAD | SOURCE_FINGERPRINT | SOURCE_RFID | SOURCE_AUTO
  | SOURCE_UNATTRIBUTED | SOURCE_UNKNOWN

primrec action_value :: "lock_action \<Rightarrow> string" where
  "action_value ACTION_LOCK = ''lock''"
| "action_value ACTION_UNLOCK = ''unlock''"
| "action_value ACTION_UNKNOWN = ''unknown''"

primrec source_value :: "lock_source \<Rightarrow> string" where
  "source_value SOURCE_ZIGBEE = ''zigbee''"
| "source_value SOURCE_KEYPAD = ''keypad''"
| "source_value SOURCE_FINGERPRINT = ''fingerprint''"
| "source_value SOURCE_RFID = ''rfid''"
| "source_value SOURCE_AUTO = ''auto''"
| "source_value SOURCE_UNATTRIBUTED = ''unattributed''"
| "source_value SOURCE_UNKNOWN = ''unknown''"

definition SOURCE_MAP :: "int \<rightharpoonup> lock_source" where
  "SOURCE_MAP = [0 \<mapsto> SOURCE_ZIGBEE, 2 \<mapsto> SOURCE_KEYPAD, 3 \<mapsto> SOURCE_FINGERPRINT, 4 \<mapsto> SOURCE_RFID,
     5 \<mapsto> SOURCE_UNATTRIBUTED, 10 \<mapsto> SOURCE_AUTO]"

definition CREDENTIAL_SOURCES :: "lock_source list" where
  "CREDENTIAL_SOURCES = [SOURCE_KEYPAD, SOURCE_FINGERPRINT, SOURCE_RFID]"

definition ACTION_MAP :: "int \<rightharpoonup> lock_action" where
  "ACTION_MAP = [1 \<mapsto> ACTION_LOCK, 2 \<mapsto> ACTION_UNLOCK]"

definition map_get :: "('k \<rightharpoonup> 'v) \<Rightarrow> 'k \<Rightarrow> 'v \<Rightarrow> 'v" where
  "map_get m k d = (case m k of Some v \<Rightarrow> v | None \<Rightarrow> d)"

record decoded_event =
  de_user_slot :: "int option"
  de_user_name :: "py option"
  de_action :: lock_action
  de_source :: lock_source

definition decode_operation_event :: "(int \<Rightarrow> py) \<Rightarrow> int \<Rightarrow> decoded_event option" where
  "decode_operation_event name_of val =
     (if \<not> (0 \<le> val \<and> val \<le> 4294967295) then None
      else let user_slot = val AND 65535;
               action = map_get ACTION_MAP (drop_bit 16 val AND 255) ACTION_UNKNOWN;
               source = map_get SOURCE_MAP (drop_bit 24 val AND 255) SOURCE_UNKNOWN;
               no_user = (user_slot = 0 \<and> source \<notin> set CREDENTIAL_SOURCES);
               user_slot_or_none = (if no_user then None else Some user_slot)
           in Some \<lparr>de_user_slot = user_slot_or_none,
                    de_user_name = map_option name_of user_slot_or_none,
                    de_action = action, de_source = source\<rparr>)"

definition is_system_lock :: "decoded_event \<Rightarrow> bool \<Rightarrow> bool" where
  "is_system_lock decoded echo =
     (let source = de_source decoded;
          anonymous_lock = (de_action decoded = ACTION_LOCK \<and> de_user_slot decoded = None)
      in if source = SOURCE_AUTO then True
         else if source = SOURCE_UNATTRIBUTED then anonymous_lock
         else if source = SOURCE_ZIGBEE then anonymous_lock \<and> echo
         else False)"

section \<open>Reports\<close>

text \<open>A reported value: what \<^verbatim>\<open>int(raw)\<close> gives, or what \<^verbatim>\<open>int(raw.value)\<close> gives when that fails.\<close>

datatype report_value = PlainNumber int | WrappedNumber int | NoNumber

definition report_number :: "report_value \<Rightarrow> int option" where
  "report_number raw = (case raw of PlainNumber n \<Rightarrow> Some n | WrappedNumber n \<Rightarrow> Some n | NoNumber \<Rightarrow> None)"

text \<open>What handling one report does, in the order it does it.\<close>

datatype report_effect =
    AskCapabilities
  | WarnUnreadable
  | UpdateActivity "int option" lock_action lock_source
  | FireEvent string decoded_event

definition handle_report ::
  "string \<Rightarrow> (int \<Rightarrow> py) \<Rightarrow> bool \<Rightarrow> int \<Rightarrow> report_value \<Rightarrow> report_effect list" where
  "handle_report ieee name_of echo attribute_id raw =
     AskCapabilities #
     (if attribute_id \<noteq> ATTR_OPERATION_EVENT then []
      else case report_number raw of
        None \<Rightarrow> [WarnUnreadable]
      | Some val \<Rightarrow>
          (case decode_operation_event name_of val of
             None \<Rightarrow> []
           | Some decoded \<Rightarrow>
               (if \<not> is_system_lock decoded echo
                then [UpdateActivity (de_user_slot decoded) (de_action decoded) (de_source decoded)]
                else [])
               @ [FireEvent ieee decoded]))"

section \<open>The listener\<close>

text \<open>What a zigpy cluster offers; \<open>cl_key\<close> stands for the object's identity.\<close>

record zigpy_cluster =
  cl_key :: nat
  cl_type :: string
  cl_on_event :: bool
  cl_add_listener :: bool
  cl_remove_listener :: bool

datatype hook = OnEvent | AddListener

definition subscribe :: "zigpy_cluster \<Rightarrow> string + hook" where
  "subscribe cluster =
     (if cl_on_event cluster then Inr OnEvent
      else if \<not> cl_add_listener cluster \<or> \<not> cl_remove_listener cluster
      then Inl (cl_type cluster @ ''.on_event, and no add_listener/remove_listener either'')
      else Inr AddListener)"

text \<open>\<open>Inl\<close> is ZhaInternalsMissing with its detail.\<close>

definition register_event_listener ::
  "zigpy_cluster option \<Rightarrow> string \<Rightarrow> nat \<Rightarrow> entry_world \<Rightarrow> string + entry_world \<times> hook" where
  "register_event_listener cluster ieee i w =
     (case cluster of
        None \<Rightarrow> Inl (''Door Lock cluster for '' @ ieee)
      | Some c \<Rightarrow>
          (case subscribe c of
             Inl detail \<Rightarrow> Inl detail
           | Inr how \<Rightarrow> Inr (set_listened_cluster i (Some (cl_key c)) w, how)))"

section \<open>Properties\<close>

lemma event_fields:
  fixes slot action source :: int
  assumes "0 \<le> slot" "slot < 65536" "0 \<le> action" "action < 256" "0 \<le> source" "source < 256"
  defines "val \<equiv> slot + 65536 * action + 16777216 * source"
  shows "0 \<le> val" "val \<le> 4294967295" "val AND 65535 = slot" "drop_bit 16 val AND 255 = action"
    "drop_bit 24 val AND 255 = source"
proof -
  show "0 \<le> val" "val \<le> 4294967295" using assms by simp_all
  have mask: "x AND 65535 = x mod 65536" "x AND 255 = x mod 256" for x :: int
    using take_bit_eq_mask [of 16 x] take_bit_eq_mask [of 8 x]
    by (simp_all add: take_bit_eq_mod mask_eq_exp_minus_1)
  have shift: "drop_bit 16 x = x div 65536" "drop_bit 24 x = x div 16777216" for x :: int
    by (simp_all add: drop_bit_eq_div)
  show "val AND 65535 = slot" "drop_bit 16 val AND 255 = action" "drop_bit 24 val AND 255 = source"
  proof -
    have v: "val = slot + 65536 * (action + 256 * source)" by (simp add: val_def)
    have low: "val mod 65536 = slot"
      unfolding v mod_mult_self2 using assms(1,2) by simp
    have high: "val div 65536 = action + 256 * source"
      unfolding v using assms(1,2) div_mult_self2 [of 65536 slot "action + 256 * source"] by simp
    have top: "val div 16777216 = source"
      using assms(3,4) zdiv_zmult2_eq [of 256 val 65536] by (simp add: high)
    show "val AND 65535 = slot" using low by (simp add: mask)
    show "drop_bit 16 val AND 255 = action" using assms(3,4) by (simp add: mask shift high)
    show "drop_bit 24 val AND 255 = source" using assms(5,6) by (simp add: mask shift top)
  qed
qed

text \<open>
  Every operation event decodes to the fields it was built from, on all 32 bits; outside
  them nothing is decoded. No user is named exactly for slot 0 from a source at which nobody
  presents a credential.
\<close>

theorem operation_event_roundtrip:
  assumes "0 \<le> slot" "slot < 65536" "0 \<le> action" "action < 256" "0 \<le> source" "source < 256"
  shows "(\<exists>e. decode_operation_event f (slot + 65536 * action + 16777216 * source) = Some e
      \<and> de_action e = (if action = 1 then ACTION_LOCK else if action = 2 then ACTION_UNLOCK else ACTION_UNKNOWN)
      \<and> de_source e = (case SOURCE_MAP source of Some s \<Rightarrow> s | None \<Rightarrow> SOURCE_UNKNOWN)
      \<and> de_user_slot e = (if slot = 0 \<and> source \<notin> {2, 3, 4} then None else Some slot)
      \<and> de_user_name e = map_option f (de_user_slot e))
    \<and> (val < 0 \<or> 4294967296 \<le> val \<longrightarrow> decode_operation_event f val = None)"
  using event_fields [OF assms]
  by (auto simp: decode_operation_event_def Let_def ACTION_MAP_def map_get_def SOURCE_MAP_def
      CREDENTIAL_SOURCES_def split: if_splits)

theorem operation_event_roundtrip_witness:
  "\<exists>e. decode_operation_event (\<lambda>n. PStr ''Kari'') 33685804 = Some e \<and> de_user_slot e = Some 300
     \<and> de_action e = ACTION_UNLOCK \<and> de_source e = SOURCE_KEYPAD"
  using operation_event_roundtrip [of 300 2 2 "\<lambda>n. PStr ''Kari''"] by (auto simp: SOURCE_MAP_def)

text \<open>
  What a report can do. Any report asks for the capabilities; only attribute 0x0100 does
  anything else, so the attribute that carries PIN digits reaches neither the event bus nor
  the activity. An event that names a user is always shown unless the lock locked itself, an
  unlock unless the lock itself did it, and a remote lock unless it may be the echo of a wake;
  and every decoded event is fired, shown or not.
\<close>

theorem reports_show_people:
  "(attribute_id \<noteq> 256 \<longrightarrow> handle_report ieee f echo attribute_id raw = [AskCapabilities])
   \<and> handle_report ieee f echo 256 raw = AskCapabilities #
     (case report_number raw of None \<Rightarrow> [WarnUnreadable] | Some val \<Rightarrow>
       (case decode_operation_event f val of None \<Rightarrow> []
        | Some e \<Rightarrow> (if is_system_lock e echo then [] else
            [UpdateActivity (de_user_slot e) (de_action e) (de_source e)]) @ [FireEvent ieee e]))
   \<and> (de_source e \<noteq> SOURCE_AUTO \<longrightarrow> (de_user_slot e \<noteq> None \<or> de_action e \<noteq> ACTION_LOCK
     \<or> de_source e \<notin> {SOURCE_UNATTRIBUTED, SOURCE_ZIGBEE} \<or> de_source e = SOURCE_ZIGBEE \<and> \<not> echo
     \<longleftrightarrow> \<not> is_system_lock e echo))
   \<and> (de_source e = SOURCE_AUTO \<longrightarrow> is_system_lock e echo)"
  by (auto simp: handle_report_def is_system_lock_def Let_def split: option.splits)

theorem reports_show_people_witness:
  "handle_report ''f4:ce'' (\<lambda>n. PStr ''Kari'') False 257 (PlainNumber 18) = [AskCapabilities]"
  using reports_show_people [of 257 "''f4:ce''" "\<lambda>n. PStr ''Kari''" False "PlainNumber 18"] by simp

end
