(* ===== verification/Setup.thy ===== *)
theory Setup
  imports Options_Flow Events
begin

text \<open>
  \<^verbatim>\<open>__init__.py\<close>: what runs when an entry is loaded. The stored entry is brought up to the
  current version, the registries move to keys on the entry id, the lock is looked for in ZHA,
  a coordinator is made and its listener registered; afterwards ZHA's entries are watched.
\<close>

section \<open>Entry versions\<close>

record stored_entry =
  st_version :: int
  st_minor :: int
  st_options :: entry_options
  st_ieee :: string
  st_model :: string

text \<open>\<^verbatim>\<open>{f: slot[f] for f in DEFAULT_SLOT if f in slot}\<close>\<close>

definition keep_slot_fields :: "py_map \<Rightarrow> py_map" where
  "keep_slot_fields s = (\<lambda>f. if f = ''name'' \<or> f = ''has_pin'' then s f else None)"

definition migrate_slots :: "stored_entry \<Rightarrow> stored_entry" where
  "migrate_slots e =
     (let slots = (case eo_slots (st_options e) of None \<Rightarrow> Map.empty | Some m \<Rightarrow> m)
      in e\<lparr>st_options := (st_options e)\<lparr>eo_slots := Some (\<lambda>k. map_option keep_slot_fields (slots k))\<rparr>,
           st_version := 2, st_minor := 2\<rparr>)"

definition migrate_model :: "'c gateway \<Rightarrow> stored_entry \<Rightarrow> stored_entry" where
  "migrate_model gw e =
     e\<lparr>st_model := (if st_model e \<noteq> [] then st_model e else model_in_zha gw (st_ieee e)),
       st_version := 2, st_minor := 3\<rparr>"

text \<open>None is the refusal of an entry a newer release wrote.\<close>

definition migrate_entry :: "'c gateway \<Rightarrow> stored_entry \<Rightarrow> stored_entry option" where
  "migrate_entry gw e =
     (if st_version e > 2 then None
      else let e = (if st_minor e < 2 then migrate_slots e else e);
               e = (if st_minor e < 3 then migrate_model gw e else e)
           in Some e)"

section \<open>Registry keys\<close>

record reg_device =
  dv_id :: string
  dv_identifiers :: "(string \<times> string) list"
  dv_entries :: "string list"

record reg_entity =
  er_entity_id :: string
  er_domain :: string
  er_platform :: string
  er_unique_id :: string
  er_entry :: string

definition stale_identifier :: "string \<Rightarrow> string \<times> string \<Rightarrow> bool" where
  "stale_identifier ieee i \<longleftrightarrow> fst i = DOMAIN \<and> str_lower (snd i) = str_lower ieee"

text \<open>
  The loop over the entry's devices; \<open>owner\<close> is the device that has the entry-id key. A device
  that no entry is left on goes from the registry.
\<close>

fun migrate_devices :: "string \<Rightarrow> string \<Rightarrow> string option \<Rightarrow> reg_device list \<Rightarrow> reg_device list" where
  "migrate_devices entry_id ieee owner [] = []"
| "migrate_devices entry_id ieee owner (d # ds) =
     (if entry_id \<notin> set (dv_entries d) \<or> filter (stale_identifier ieee) (dv_identifiers d) = []
      then d # migrate_devices entry_id ieee owner ds
      else if owner \<noteq> None \<and> owner \<noteq> Some (dv_id d)
      then (let d = d\<lparr>dv_entries := removeAll entry_id (dv_entries d)\<rparr>
            in (if dv_entries d = [] then [] else [d]) @ migrate_devices entry_id ieee owner ds)
      else d\<lparr>dv_identifiers := List.insert (DOMAIN, entry_id)
                (filter (\<lambda>i. \<not> stale_identifier ieee i) (dv_identifiers d))\<rparr>
           # migrate_devices entry_id ieee (if owner = None then Some (dv_id d) else owner) ds)"

definition entry_id_owner :: "string \<Rightarrow> reg_device list \<Rightarrow> string option" where
  "entry_id_owner entry_id ds =
     map_option dv_id (find (\<lambda>d. entry_id \<in> set (dv_entries d) \<and> (DOMAIN, entry_id) \<in> set (dv_identifiers d)) ds)"

definition stale_prefix :: "string \<Rightarrow> string" where
  "stale_prefix ieee = str_lower ieee @ ''-''"

definition has_stale_key :: "string \<Rightarrow> reg_entity \<Rightarrow> bool" where
  "has_stale_key ieee e \<longleftrightarrow>
     take (length (stale_prefix ieee)) (str_lower (er_unique_id e)) = stale_prefix ieee"

definition entry_key :: "string \<Rightarrow> string \<Rightarrow> reg_entity \<Rightarrow> string" where
  "entry_key entry_id ieee e = entry_id @ ''-'' @ drop (length (stale_prefix ieee)) (er_unique_id e)"

definition entity_key :: "reg_entity \<Rightarrow> string \<times> string \<times> string" where
  "entity_key e = (er_domain e, er_platform e, er_unique_id e)"

text \<open>One turn of the loop over the entry's entities, on the registry as it is by then.\<close>

definition move_key :: "string \<Rightarrow> string \<Rightarrow> reg_entity \<Rightarrow> reg_entity list \<Rightarrow> reg_entity list" where
  "move_key entry_id ieee e reg =
     (if \<not> has_stale_key ieee e then reg
      else let unique_id = entry_key entry_id ieee e in
        if (er_domain e, er_platform e, unique_id) \<in> set (map entity_key reg)
        then filter (\<lambda>x. er_entity_id x \<noteq> er_entity_id e) reg
        else map (\<lambda>x. if er_entity_id x = er_entity_id e then x\<lparr>er_unique_id := unique_id\<rparr> else x) reg)"

definition migrate_entities :: "string \<Rightarrow> string \<Rightarrow> reg_entity list \<Rightarrow> reg_entity list" where
  "migrate_entities entry_id ieee reg =
     fold (move_key entry_id ieee) (filter (\<lambda>e. er_entry e = entry_id) reg) reg"

section \<open>Setup\<close>

text \<open>ZHA's cluster objects are zigpy's; \<open>su_issue\<close> is the repair issue with its detail.\<close>

record setup_world =
  su_entry_id :: string
  su_ieee :: string
  su_model :: string
  su_world :: entry_world
  su_issue :: "string option"
  su_devices :: "reg_device list"
  su_entities :: "reg_entity list"

definition migrate_to_entry_id_keys :: "setup_world \<Rightarrow> setup_world" where
  "migrate_to_entry_id_keys s =
     s\<lparr>su_devices := migrate_devices (su_entry_id s) (su_ieee s)
                      (entry_id_owner (su_entry_id s) (su_devices s)) (su_devices s),
       su_entities := migrate_entities (su_entry_id s) (su_ieee s) (su_entities s)\<rparr>"

definition lock_in_zha :: "'c gateway \<Rightarrow> string \<Rightarrow> bool" where
  "lock_in_zha gw ieee \<longleftrightarrow>
     (\<exists>(dev_ieee, proxy) \<in> set (iter_device_proxies gw). str_lower dev_ieee = str_lower ieee)"

definition start_event_listener ::
  "zigpy_cluster gateway \<Rightarrow> nat \<Rightarrow> setup_world \<Rightarrow> setup_world \<times> hook option" where
  "start_event_listener gw i s =
     (case register_event_listener (find_door_lock_cluster gw (su_ieee s)) (su_ieee s) i (su_world s) of
        Inl missing \<Rightarrow>
          (let detail = (if is_zha_loaded gw then missing else ''ZHA gateway (get_zha_gateway_proxy)'')
           in (s\<lparr>su_issue := Some detail, su_world := set_available i False True (su_world s)\<rparr>, None))
      | Inr (w, how) \<Rightarrow> (s\<lparr>su_world := w, su_issue := None\<rparr>, Some how))"

datatype setup_result = NotReady string | SetUp "hook option"

text \<open>
  Between making the coordinator and publishing it as \<^verbatim>\<open>entry.runtime_data\<close> the setup waits for the
  translations. \<open>meanwhile\<close> are the writes of older coordinators that end in that time, each with
  its coordinator and outcome; no coordinator is current then.
\<close>

definition finish_writes :: "(nat \<times> slot_op \<times> send_outcome) list \<Rightarrow> entry_world \<Rightarrow> entry_world" where
  "finish_writes = fold (\<lambda>(i, op, out). finish_op i op out)"

text \<open>\<open>zha_entry_loaded\<close>: some config entry of ZHA is loaded, which it can be without a gateway.\<close>

definition setup_entry ::
  "zigpy_cluster gateway \<Rightarrow> bool \<Rightarrow> (nat \<times> slot_op \<times> send_outcome) list \<Rightarrow> setup_world
     \<Rightarrow> setup_world \<times> setup_result" where
  "setup_entry gw zha_entry_loaded meanwhile s =
     (let s = migrate_to_entry_id_keys s in
      if is_zha_loaded gw \<and> \<not> lock_in_zha gw (su_ieee s) then (s, NotReady (su_ieee s))
      else
        let s = (if su_model s = [] then s\<lparr>su_model := model_in_zha gw (su_ieee s)\<rparr> else s);
            i = length (ew_coordinators (su_world s));
            s = s\<lparr>su_world := construct_coordinator (is_zha_loaded gw) (su_world s)\<rparr>;
            s = s\<lparr>su_world := finish_writes meanwhile (su_world s)\<rparr>;
            s = s\<lparr>su_world := publish_coordinator i (su_world s)\<rparr>
        in if \<not> is_zha_loaded gw \<and> \<not> zha_entry_loaded
           then (s\<lparr>su_world := set_available i False False (su_world s)\<rparr>, SetUp None)
           else let (s, how) = start_event_listener gw i s in (s, SetUp how))"

section \<open>After setup\<close>

text \<open>
  The watch on one of ZHA's entries: the entry of the lock is loaded or not, the ZHA entry is,
  any ZHA entry is. The second part of the result is whether a reload was scheduled.
\<close>

definition on_zha_state_change ::
  "bool \<Rightarrow> bool \<Rightarrow> bool \<Rightarrow> zigpy_cluster gateway \<Rightarrow> string \<Rightarrow> nat \<Rightarrow> entry_world \<Rightarrow> entry_world \<times> bool" where
  "on_zha_state_change entry_loaded zha_loaded any_loaded gw ieee i w =
     (if \<not> entry_loaded then (w, False)
      else if \<not> zha_loaded then (if \<not> any_loaded then set_available i False False w else w, False)
      else case co_listened (coord w i) of
        Some key \<Rightarrow>
          if map_option cl_key (find_door_lock_cluster gw ieee) = Some key
          then (set_available i True False w, False) else (w, True)
      | None \<Rightarrow> (w, True))"

text \<open>The update listener: whether the new options reload the entry.\<close>

definition options_updated :: "nat \<Rightarrow> entry_world \<Rightarrow> bool" where
  "options_updated i w = (first_slot_of (ew_options w) \<noteq> co_setup_first (coord w i))"

section \<open>Locks without an entry\<close>

definition known_addresses :: "config_entry list \<Rightarrow> string list" where
  "known_addresses entries =
     map str_lower (filter (\<lambda>a. a \<noteq> []) (concat (map (\<lambda>e.
       [case ce_ieee e of None \<Rightarrow> '''' | Some a \<Rightarrow> a, case ce_unique_id e of None \<Rightarrow> '''' | Some a \<Rightarrow> a]) entries)))"

text \<open>The locks a discovery flow is started for, each with its model.\<close>

definition discover_locks :: "config_entry list \<Rightarrow> 'c gateway \<Rightarrow> (string \<times> string) list" where
  "discover_locks entries gw =
     filter (\<lambda>(ieee, model). str_lower ieee \<notin> set (known_addresses entries)) (iter_onesti_locks gw)"

text \<open>
  Which registry events start a look: the action, the device as far as it is one with
  connections of its own, and ZHA's entry ids.
\<close>

definition registry_event_looks ::
  "string \<Rightarrow> (registry_device \<times> string list) option \<Rightarrow> string list \<Rightarrow> bool" where
  "registry_event_looks action device zha_entry_ids =
     (if action \<notin> {''create'', ''update''} then False
      else case device of
        None \<Rightarrow> False
      | Some (d, entries) \<Rightarrow>
          (\<exists>c \<in> set (rd_connections d). fst c = ''zigbee'') \<and> set entries \<inter> set zha_entry_ids \<noteq> {})"

end
