(* ===== verification/Setup_Props.thy ===== *)
theory Setup_Props
  imports Setup Coordinator_Props
begin

text \<open>
  What loading an entry promises: stored slots and entity ids survive it, the entities say
  truthfully whether lock events arrive, and events resume whenever ZHA comes back.
\<close>

section \<open>Migration\<close>

lemma keep_slot_fields_read [simp]: "read_slot (keep_slot_fields s) = read_slot s"
  by (simp add: read_slot_def keep_slot_fields_def)

lemma migrate_slots_stored: "stored_slots (st_options (migrate_slots e)) = stored_slots (st_options e)"
  by (auto simp: migrate_slots_def Let_def stored_slots_def map_option.compositionality o_def
      split: option.splits)

text \<open>
  An upgrade loses nothing. An entry of any version up to the current one is brought to
  2.3 with the same slots, capabilities, settings and address and with a model it had kept;
  fields outside the slot schema are gone from it; a second run changes nothing; an entry of a
  newer release is left alone.
\<close>

theorem migration_keeps_slots:
  "(st_version e > 2 \<longleftrightarrow> migrate_entry gw e = None)
   \<and> (migrate_entry gw e = Some e' \<longrightarrow>
       stored_slots (st_options e') = stored_slots (st_options e)
     \<and> eo_capabilities (st_options e') = eo_capabilities (st_options e)
     \<and> eo_rest (st_options e') = eo_rest (st_options e) \<and> st_ieee e' = st_ieee e
     \<and> (st_model e \<noteq> [] \<longrightarrow> st_model e' = st_model e)
     \<and> (st_minor e < 3 \<longrightarrow> st_version e' = 2 \<and> st_minor e' = 3)
     \<and> (st_minor e < 2 \<and> eo_slots (st_options e') = Some m \<and> m k = Some s \<longrightarrow> dom s \<subseteq> {''name'', ''has_pin''})
     \<and> migrate_entry gw' e' = Some e')"
proof (intro conjI impI)
  show "st_version e > 2 \<longleftrightarrow> migrate_entry gw e = None" by (simp add: migrate_entry_def Let_def)
  assume m: "migrate_entry gw e = Some e'"
  then have v: "\<not> st_version e > 2" by (auto simp: migrate_entry_def)
  have e': "e' = (let e = (if st_minor e < 2 then migrate_slots e else e)
      in if st_minor e < 3 then migrate_model gw e else e)"
    using m v by (simp add: migrate_entry_def Let_def)
  show "stored_slots (st_options e') = stored_slots (st_options e)"
    using migrate_slots_stored [of e] by (simp add: e' Let_def migrate_model_def)
  show "eo_capabilities (st_options e') = eo_capabilities (st_options e)"
    "eo_rest (st_options e') = eo_rest (st_options e)" "st_ieee e' = st_ieee e"
    by (simp_all add: e' Let_def migrate_model_def migrate_slots_def)
  show "st_model e' = st_model e" if "st_model e \<noteq> []"
    using that by (simp add: e' Let_def migrate_model_def migrate_slots_def)
  show "st_version e' = 2" "st_minor e' = 3" if "st_minor e < 3"
    using that by (simp_all add: e' Let_def migrate_model_def migrate_slots_def)
  show "dom s \<subseteq> {''name'', ''has_pin''}"
    if "st_minor e < 2 \<and> eo_slots (st_options e') = Some m \<and> m k = Some s"
    using that by (auto simp: e' Let_def migrate_model_def migrate_slots_def keep_slot_fields_def
        split: if_splits)
  show "migrate_entry gw' e' = Some e'"
    using v by (simp add: migrate_entry_def e' Let_def migrate_model_def migrate_slots_def)
qed

definition old_entry :: stored_entry where
  "old_entry = \<lparr>st_version = 2, st_minor = 1,
     st_options = \<lparr>eo_slots = Some [''3'' \<mapsto> [''name'' \<mapsto> PStr ''Kari'', ''has_pin'' \<mapsto> PBool True, ''has_rfid'' \<mapsto> PBool False]],
       eo_capabilities = None, eo_rest = Map.empty\<rparr>,
     st_ieee = ''aa'', st_model = ''''\<rparr>"

theorem migration_keeps_slots_witness:
  "\<exists>e'. migrate_entry (None :: nat gateway) old_entry = Some e' \<and> st_minor e' = 3
     \<and> stored_slots (st_options e') ''3'' = Some \<lparr>sl_name = PStr ''Kari'', sl_has_pin = PBool True\<rparr>"
proof -
  obtain e' where e': "migrate_entry (None :: nat gateway) old_entry = Some e'"
    by (cases "migrate_entry (None :: nat gateway) old_entry")
      (auto simp: migrate_entry_def Let_def old_entry_def)
  have "stored_slots (st_options old_entry) ''3'' = Some \<lparr>sl_name = PStr ''Kari'', sl_has_pin = PBool True\<rparr>"
    by (simp add: stored_slots_def old_entry_def read_slot_def)
  moreover have "st_minor old_entry < 3" by (simp add: old_entry_def)
  then have "stored_slots (st_options e') = stored_slots (st_options old_entry) \<and> st_minor e' = 3"
    using e' migration_keeps_slots [of old_entry "None :: nat gateway" e'] by blast
  ultimately show ?thesis using e' by simp
qed

section \<open>Entity keys\<close>

lemma lower_no_dash: "CHR ''-'' \<notin> set s \<Longrightarrow> CHR ''-'' \<notin> set (str_lower s)"
  by (auto simp: str_lower_def image_iff eq_commute [of "CHR ''-''"])

lemma entry_key_not_stale:
  assumes "CHR ''-'' \<notin> set ieee" "CHR ''-'' \<notin> set entry_id" "str_lower entry_id \<noteq> str_lower ieee"
  shows "\<not> has_stale_key ieee (e\<lparr>er_unique_id := entry_key entry_id ieee f\<rparr>)"
proof
  let ?n = "length (stale_prefix ieee)" and ?key = "str_lower (entry_key entry_id ieee f)"
  assume "has_stale_key ieee (e\<lparr>er_unique_id := entry_key entry_id ieee f\<rparr>)"
  then have "take ?n ?key = str_lower ieee @ ''-''" by (simp add: has_stale_key_def stale_prefix_def)
  then have "?key = str_lower ieee @ ''-'' @ drop ?n ?key"
    using append_take_drop_id [of ?n ?key] by simp
  moreover have "str_lower (entry_key entry_id ieee f)
      = str_lower entry_id @ ''-'' @ str_lower (drop (length (stale_prefix ieee)) (er_unique_id f))"
    using lower_sep(1) [of "CHR ''-''"] by (simp add: entry_key_def str_lower_def)
  ultimately obtain x y where "str_lower entry_id @ ''-'' @ x = str_lower ieee @ ''-'' @ y" by metis
  then have "takeWhile (\<lambda>c. c \<noteq> CHR ''-'') (str_lower entry_id @ ''-'' @ x)
      = takeWhile (\<lambda>c. c \<noteq> CHR ''-'') (str_lower ieee @ ''-'' @ y)" by simp
  then have "str_lower entry_id = str_lower ieee"
    using lower_no_dash [OF assms(1)] lower_no_dash [OF assms(2)]
    by (subst (asm) (1 2) takeWhile_append2) auto
  then show False using assms(3) by simp
qed

text \<open>A turn of the loop removes the row, renames it, or leaves the registry as it is.\<close>

lemma move_key_cases:
  assumes "e \<in> set reg" "distinct (map er_entity_id reg)" "has_stale_key ieee e"
  obtains a b where "reg = a @ e # b"
    "(er_domain e, er_platform e, entry_key entry_id ieee e) \<in> set (map entity_key reg)"
    "move_key entry_id ieee e reg = a @ b"
  | a b where "reg = a @ e # b"
    "(er_domain e, er_platform e, entry_key entry_id ieee e) \<notin> set (map entity_key reg)"
    "move_key entry_id ieee e reg = a @ e\<lparr>er_unique_id := entry_key entry_id ieee e\<rparr> # b"
proof -
  obtain a b where reg: "reg = a @ e # b" using assms(1) by (auto dest: split_list)
  then have ids: "\<forall>x \<in> set (a @ b). er_entity_id x \<noteq> er_entity_id e"
    using assms(2) by (fastforce simp: image_iff)
  have "filter (\<lambda>x. er_entity_id x \<noteq> er_entity_id e) reg = a @ b"
    using ids by (auto simp: reg filter_id_conv)
  moreover have "map (\<lambda>x. if er_entity_id x = er_entity_id e then f x else x) reg = a @ f e # b" for f
    using ids by (auto simp: reg map_idI)
  ultimately show ?thesis
    using that [OF reg] assms(3) by (auto simp: move_key_def Let_def)
qed

definition keys_inv ::
  "string \<Rightarrow> string \<Rightarrow> reg_entity list \<Rightarrow> reg_entity list \<Rightarrow> reg_entity list \<Rightarrow> bool" where
  "keys_inv entry_id ieee reg0 rest reg \<longleftrightarrow>
     distinct (map er_entity_id reg) \<and> distinct (map entity_key reg) \<and> distinct rest
   \<and> set rest \<subseteq> set reg \<and> (\<forall>e \<in> set rest. er_entry e = entry_id)
   \<and> filter (\<lambda>e. er_entry e \<noteq> entry_id) reg = filter (\<lambda>e. er_entry e \<noteq> entry_id) reg0
   \<and> (\<forall>x \<in> set reg. er_entry x = entry_id \<longrightarrow> x \<in> set rest \<or> \<not> has_stale_key ieee x)
   \<and> (\<forall>x \<in> set reg. \<exists>e \<in> set reg0. er_entity_id e = er_entity_id x
        \<and> (x = e \<or> has_stale_key ieee e \<and> x = e\<lparr>er_unique_id := entry_key entry_id ieee e\<rparr>))
   \<and> (\<forall>e \<in> set reg0. er_entry e = entry_id \<and> has_stale_key ieee e \<and> e \<notin> set rest \<longrightarrow>
        (er_domain e, er_platform e, entry_key entry_id ieee e) \<in> set (map entity_key reg))"

lemma keys_inv_step:
  assumes inv: "keys_inv entry_id ieee reg0 (e # rest) reg"
    and apart: "CHR ''-'' \<notin> set ieee" "CHR ''-'' \<notin> set entry_id" "str_lower entry_id \<noteq> str_lower ieee"
  shows "keys_inv entry_id ieee reg0 rest (move_key entry_id ieee e reg)"
proof (cases "has_stale_key ieee e")
  case False
  then show ?thesis using inv by (auto simp: keys_inv_def move_key_def)
next
  case True
  let ?e = "e\<lparr>er_unique_id := entry_key entry_id ieee e\<rparr>"
    and ?key = "(er_domain e, er_platform e, entry_key entry_id ieee e)"
  have ids: "distinct (map er_entity_id reg)" and keys: "distinct (map entity_key reg)"
    and rest: "distinct rest" "e \<notin> set rest" "set rest \<subseteq> set reg" "\<forall>x \<in> set rest. er_entry x = entry_id"
    and e: "e \<in> set reg" "er_entry e = entry_id"
    and others: "filter (\<lambda>e. er_entry e \<noteq> entry_id) reg = filter (\<lambda>e. er_entry e \<noteq> entry_id) reg0"
    and clean: "\<And>x. x \<in> set reg \<Longrightarrow> er_entry x = entry_id \<Longrightarrow> x = e \<or> x \<in> set rest \<or> \<not> has_stale_key ieee x"
    and from0: "\<And>x. x \<in> set reg \<Longrightarrow> \<exists>e \<in> set reg0. er_entity_id e = er_entity_id x
        \<and> (x = e \<or> has_stale_key ieee e \<and> x = e\<lparr>er_unique_id := entry_key entry_id ieee e\<rparr>)"
    and moved: "\<And>x. x \<in> set reg0 \<Longrightarrow> er_entry x = entry_id \<Longrightarrow> has_stale_key ieee x \<Longrightarrow>
        x \<noteq> e \<Longrightarrow> x \<notin> set rest \<Longrightarrow> (er_domain x, er_platform x, entry_key entry_id ieee x) \<in> entity_key ` set reg"
    using inv by (simp_all add: keys_inv_def)
  have fresh: "\<not> has_stale_key ieee (x\<lparr>er_unique_id := entry_key entry_id ieee f\<rparr>)" for x f
    by (rule entry_key_not_stale [OF apart])
  have other: "entity_key e \<noteq> (d, p, entry_key entry_id ieee f)" for d p f
    using fresh [where x = e and f = f] True by (cases e) (auto simp: entity_key_def)
  show ?thesis
  proof (rule move_key_cases [OF e(1) ids True, where entry_id = entry_id])
    fix a b
    assume reg: "reg = a @ e # b" and key: "?key \<in> set (map entity_key reg)"
      and now: "move_key entry_id ieee e reg = a @ b"
    have keep: "entity_key ` set (a @ b) \<supseteq> entity_key ` set reg - {entity_key e}" by (auto simp: reg)
    show ?thesis unfolding keys_inv_def now
    proof (intro conjI ballI impI)
      show "distinct (map er_entity_id (a @ b))" "distinct (map entity_key (a @ b))"
        using ids keys by (auto simp: reg)
      show "set rest \<subseteq> set (a @ b)" using rest by (auto simp: reg)
      show "filter (\<lambda>e. er_entry e \<noteq> entry_id) (a @ b) = filter (\<lambda>e. er_entry e \<noteq> entry_id) reg0"
        using others e(2) by (simp add: reg)
      fix x
      show "x \<in> set (a @ b) \<Longrightarrow> er_entry x = entry_id \<Longrightarrow> x \<in> set rest \<or> \<not> has_stale_key ieee x"
        using clean [of x] ids by (auto simp: reg)
      show "x \<in> set (a @ b) \<Longrightarrow> \<exists>e \<in> set reg0. er_entity_id e = er_entity_id x
          \<and> (x = e \<or> has_stale_key ieee e \<and> x = e\<lparr>er_unique_id := entry_key entry_id ieee e\<rparr>)"
        using from0 [of x] by (simp add: reg)
      assume "x \<in> set reg0" "er_entry x = entry_id \<and> has_stale_key ieee x \<and> x \<notin> set rest"
      then have "(er_domain x, er_platform x, entry_key entry_id ieee x) \<in> entity_key ` set reg"
        using moved [of x] key by (cases "x = e") auto
      then show "(er_domain x, er_platform x, entry_key entry_id ieee x) \<in> set (map entity_key (a @ b))"
        using keep other by (metis (no_types, lifting) DiffI list.set_map singletonD subsetD)
    qed (use rest in auto)
  next
    fix a b
    assume reg: "reg = a @ e # b" and key: "?key \<notin> set (map entity_key reg)"
      and now: "move_key entry_id ieee e reg = a @ ?e # b"
    have keep: "entity_key ` set (a @ ?e # b) \<supseteq> insert ?key (entity_key ` set reg - {entity_key e})"
      by (auto simp: reg entity_key_def)
    show ?thesis unfolding keys_inv_def now
    proof (intro conjI ballI impI)
      show "distinct (map er_entity_id (a @ ?e # b))" "distinct (map entity_key (a @ ?e # b))"
        using ids keys key by (auto simp: reg entity_key_def)
      show "set rest \<subseteq> set (a @ ?e # b)" using rest by (auto simp: reg)
      show "filter (\<lambda>e. er_entry e \<noteq> entry_id) (a @ ?e # b) = filter (\<lambda>e. er_entry e \<noteq> entry_id) reg0"
        using others e(2) by (simp add: reg)
      fix x
      show "x \<in> set (a @ ?e # b) \<Longrightarrow> er_entry x = entry_id \<Longrightarrow> x \<in> set rest \<or> \<not> has_stale_key ieee x"
        using clean [of x] ids fresh [where x = e and f = e] by (cases "x = ?e") (auto simp: reg)
      show "\<exists>f \<in> set reg0. er_entity_id f = er_entity_id x
          \<and> (x = f \<or> has_stale_key ieee f \<and> x = f\<lparr>er_unique_id := entry_key entry_id ieee f\<rparr>)"
        if "x \<in> set (a @ ?e # b)"
      proof (cases "x = ?e")
        case True
        have "e \<in> set reg0"
          using from0 [OF e(1)] fresh \<open>has_stale_key ieee e\<close> by metis
        then show ?thesis using True \<open>has_stale_key ieee e\<close> by (intro bexI [of _ e]) simp_all
      next
        case False
        then show ?thesis using that from0 [of x] by (simp add: reg)
      qed
      assume "x \<in> set reg0" "er_entry x = entry_id \<and> has_stale_key ieee x \<and> x \<notin> set rest"
      then have "(er_domain x, er_platform x, entry_key entry_id ieee x) = ?key
          \<or> (er_domain x, er_platform x, entry_key entry_id ieee x) \<in> entity_key ` set reg"
        using moved [of x] by (cases "x = e") auto
      then have "(er_domain x, er_platform x, entry_key entry_id ieee x)
          \<in> insert ?key (entity_key ` set reg - {entity_key e})"
        using other by (metis DiffI insertCI singletonD)
      then show "(er_domain x, er_platform x, entry_key entry_id ieee x) \<in> set (map entity_key (a @ ?e # b))"
        using keep unfolding set_map by (rule set_rev_mp)
    qed (use rest in auto)
  qed
qed

lemma keys_inv_fold:
  assumes "keys_inv entry_id ieee reg0 rest reg"
    and "CHR ''-'' \<notin> set ieee" "CHR ''-'' \<notin> set entry_id" "str_lower entry_id \<noteq> str_lower ieee"
  shows "keys_inv entry_id ieee reg0 [] (fold (move_key entry_id ieee) rest reg)"
  using assms(1) by (induction rest arbitrary: reg) (auto dest: keys_inv_step [OF _ assms(2-4)])

lemma keys_inv_start:
  assumes "distinct (map er_entity_id reg)" "distinct (map entity_key reg)"
  shows "keys_inv entry_id ieee reg (filter (\<lambda>e. er_entry e = entry_id) reg) reg"
  using assms by (auto simp: keys_inv_def distinct_map)

lemma move_keys_id:
  "\<forall>e \<in> set rows. \<not> has_stale_key ieee e \<Longrightarrow> fold (move_key entry_id ieee) rows reg = reg"
  by (induction rows) (auto simp: move_key_def)

text \<open>
  Entity ids survive the move of the registry keys. After it no row of the entry has a
  key on the address; every key has moved to the entry id, onto the row that had it or onto
  one that stood there already, so that no two rows collide; each row left has the entity id
  it had and at most a new key; the rows of other entries are untouched; and a second run,
  which every load is, changes nothing.
\<close>

theorem registry_moves_to_entry_id:
  assumes "CHR ''-'' \<notin> set ieee" "CHR ''-'' \<notin> set entry_id" "str_lower entry_id \<noteq> str_lower ieee"
    and "distinct (map er_entity_id reg)" "distinct (map entity_key reg)"
    and "reg' = migrate_entities entry_id ieee reg"
  shows "(\<forall>e \<in> set reg'. er_entry e = entry_id \<longrightarrow> \<not> has_stale_key ieee e)
    \<and> (\<forall>e \<in> set reg. er_entry e = entry_id \<and> has_stale_key ieee e \<longrightarrow>
         (er_domain e, er_platform e, entry_key entry_id ieee e) \<in> set (map entity_key reg'))
    \<and> distinct (map entity_key reg')
    \<and> (\<forall>x \<in> set reg'. \<exists>e \<in> set reg. er_entity_id e = er_entity_id x
         \<and> (x = e \<or> has_stale_key ieee e \<and> x = e\<lparr>er_unique_id := entry_key entry_id ieee e\<rparr>))
    \<and> filter (\<lambda>e. er_entry e \<noteq> entry_id) reg' = filter (\<lambda>e. er_entry e \<noteq> entry_id) reg
    \<and> migrate_entities entry_id ieee reg' = reg'"
proof -
  have inv: "keys_inv entry_id ieee reg [] reg'"
    unfolding assms(6) migrate_entities_def
    by (rule keys_inv_fold [OF keys_inv_start [OF assms(4,5)] assms(1-3)])
  then have "migrate_entities entry_id ieee reg' = reg'"
    unfolding migrate_entities_def by (intro move_keys_id) (auto simp: keys_inv_def)
  with inv show ?thesis by (simp add: keys_inv_def)
qed

definition old_rows :: "reg_entity list" where
  "old_rows =
     [\<lparr>er_entity_id = ''sensor.kari'', er_domain = ''sensor'', er_platform = DOMAIN, er_unique_id = ''AA-slot-3'', er_entry = ''e1''\<rparr>,
      \<lparr>er_entity_id = ''sensor.other'', er_domain = ''sensor'', er_platform = DOMAIN, er_unique_id = ''e2-slot-3'', er_entry = ''e2''\<rparr>]"

theorem registry_moves_to_entry_id_witness:
  "distinct (map entity_key (migrate_entities ''e1'' ''aa'' old_rows))
    \<and> migrate_entities ''e1'' ''aa'' (migrate_entities ''e1'' ''aa'' old_rows) = migrate_entities ''e1'' ''aa'' old_rows
    \<and> filter (\<lambda>e. er_entry e \<noteq> ''e1'') (migrate_entities ''e1'' ''aa'' old_rows) = tl old_rows"
proof -
  have l: "str_lower ''e1'' \<noteq> str_lower ''aa''" by code_simp
  have d: "distinct (map er_entity_id old_rows)" "distinct (map entity_key old_rows)"
    by (simp_all add: old_rows_def entity_key_def)
  have f: "filter (\<lambda>e. er_entry e \<noteq> ''e1'') old_rows = tl old_rows" by (simp add: old_rows_def)
  from registry_moves_to_entry_id [OF _ _ l d refl] f show ?thesis by simp
qed

end
