(* ===== verification/Setup_Watch.thy ===== *)
theory Setup_Watch
  imports Setup Coordinator_Props
begin

text \<open>
  What a loaded entry promises: the entities say truthfully whether lock events arrive, events
  resume when ZHA comes back with other objects, and only a change of the first user slot
  reloads the entry.
\<close>

section \<open>Availability\<close>

lemma coord_log [simp]: "coord (log_availability a w) j = coord w j"
  by (simp add: log_availability_def coord_def)

lemma log_frame [simp]:
  "length (ew_coordinators (log_availability a w)) = length (ew_coordinators w)"
  "ew_current (log_availability a w) = ew_current w" "ew_options (log_availability a w) = ew_options w"
  "ew_loss_logged (log_availability False w)"
  by (simp_all add: log_availability_def)

lemma notify_keeps [simp]:
  "co_available (notify_listeners c) = co_available c" "co_listened (notify_listeners c) = co_listened c"
  "co_setup_first (notify_listeners c) = co_setup_first c"
  "co_setup_first (load_slots opts c) = co_setup_first c"
  "co_setup_first (adopt_stored_slots opts c) = co_setup_first c"
  by (simp_all add: notify_listeners_def load_slots_def adopt_stored_slots_def)

lemma set_available_effect:
  assumes "i < length (ew_coordinators w)"
  shows "co_available (coord (set_available i a q w) i) = a"
    and "co_listened (coord (set_available i a q w) j) = co_listened (coord w j)"
    and "co_setup_first (coord (set_available i a q w) j) = co_setup_first (coord w j)"
    and "ew_loss_logged (set_available i False False w)"
  using assms by (auto simp: set_available_def Let_def)

lemma set_listened_effect:
  assumes "i < length (ew_coordinators w)"
  shows "co_listened (coord (set_listened_cluster i c w) i) = c"
    and "co_available (coord (set_listened_cluster i c w) i) = (c \<noteq> None)"
    and "ew_current (set_listened_cluster i c w) = ew_current w"
  using assms set_available_effect [of i "update_coord i (\<lambda>x. x\<lparr>co_listened := c\<rparr>) w"]
  by (simp_all add: set_listened_cluster_def available_frame(2))

text \<open>The coordinators of the entry over the wait in a setup: as many, each on the cluster it was on.\<close>

lemma update_coord_listened [simp]:
  "(\<And>c. co_listened (f c) = co_listened c) \<Longrightarrow> co_listened (coord (update_coord i f w) j) = co_listened (coord w j)"
  by (simp add: coord_update_any del: coord_update)

lemma adopt_listened [simp]:
  "co_listened (load_slots opts c) = co_listened c" "co_listened (adopt_stored_slots opts c) = co_listened c"
  by (simp_all add: load_slots_def adopt_stored_slots_def)

lemma change_slots_listened [simp]:
  "co_listened (coord (change_slots i f w) j) = co_listened (coord w j)"
  "length (ew_coordinators (change_slots i f w)) = length (ew_coordinators w)"
  by (simp_all add: change_slots_def save_slots_def Let_def load_slots_def split: option.splits)

lemma finish_op_listened [simp]:
  "co_listened (coord (finish_op i op out w) j) = co_listened (coord w j)"
  "length (ew_coordinators (finish_op i op out w)) = length (ew_coordinators w)"
  by (cases op; simp add: set_pin_finish_def clear_pin_finish_def clear_slot_finish_def set_slot_name_def
      load_slots_def)+

lemma finish_writes_listened [simp]:
  "co_listened (coord (finish_writes ws w) j) = co_listened (coord w j)"
  "length (ew_coordinators (finish_writes ws w)) = length (ew_coordinators w)"
  unfolding finish_writes_def by (induction ws arbitrary: w) auto

definition set_up :: "bool \<Rightarrow> (nat \<times> slot_op \<times> send_outcome) list \<Rightarrow> entry_world \<Rightarrow> entry_world" where
  "set_up z ws w =
     publish_coordinator (length (ew_coordinators w)) (finish_writes ws (construct_coordinator z w))"

lemma set_up_effect [simp]:
  "length (ew_coordinators (set_up z ws w)) = Suc (length (ew_coordinators w))"
  "ew_current (set_up z ws w) = Some (length (ew_coordinators w))"
  "co_listened (coord (set_up z ws w) (length (ew_coordinators w))) = None"
proof -
  have c: "coord (publish_coordinator i w) j = coord w j"
    "ew_coordinators (publish_coordinator i w) = ew_coordinators w" for i j and w
    by (simp_all add: publish_coordinator_def coord_def)
  show "length (ew_coordinators (set_up z ws w)) = Suc (length (ew_coordinators w))"
    "co_listened (coord (set_up z ws w) (length (ew_coordinators w))) = None"
    by (simp_all add: set_up_def c) (simp_all add: construct_coordinator_def coord_def coordinator_init_def load_slots_def)
  show "ew_current (set_up z ws w) = Some (length (ew_coordinators w))"
    by (simp add: set_up_def publish_coordinator_def)
qed

lemma migrate_keys_frame [simp]:
  "su_world (migrate_to_entry_id_keys s) = su_world s" "su_ieee (migrate_to_entry_id_keys s) = su_ieee s"
  "su_issue (migrate_to_entry_id_keys s) = su_issue s"
  by (simp_all add: migrate_to_entry_id_keys_def)

section \<open>Finding the lock\<close>

lemma first_cluster_device:
  "first_cluster ieee ds = Some c \<Longrightarrow> \<exists>(d, p) \<in> set ds. str_lower d = str_lower ieee"
  by (induction ieee ds rule: first_cluster.induct) (auto split: if_splits option.splits)

lemma found_cluster_in_zha:
  "find_door_lock_cluster gw ieee = Some c \<Longrightarrow> is_zha_loaded gw \<and> lock_in_zha gw ieee"
  by (auto simp: find_door_lock_cluster_def lock_in_zha_def dest: first_cluster_device split: if_splits)

text \<open>What the listener's start leaves on the coordinator it was started for.\<close>

lemma start_listener_cases:
  assumes "start_event_listener gw i s = (s', how)" "i < length (ew_coordinators (su_world s))"
  obtains cl h where "how = Some h" "find_door_lock_cluster gw (su_ieee s) = Some cl" "subscribe cl = Inr h"
    "su_world s' = set_listened_cluster i (Some (cl_key cl)) (su_world s)" "su_issue s' = None"
  | "how = None" "\<nexists>cl h. find_door_lock_cluster gw (su_ieee s) = Some cl \<and> subscribe cl = Inr h"
    "su_world s' = set_available i False True (su_world s)" "su_issue s' \<noteq> None"
  using assms(1) that
  by (auto simp: start_event_listener_def register_event_listener_def Let_def
      split: sum.splits option.splits prod.splits)

text \<open>Where setup ends: not ready, waiting for ZHA, or at the listener's start.\<close>

lemma setup_entry_cases:
  assumes "setup_entry gw z ws s = (s', r)"
  obtains "r = NotReady (su_ieee s)" "is_zha_loaded gw" "\<not> lock_in_zha gw (su_ieee s)" "su_world s' = su_world s"
  | "r = SetUp None" "\<not> is_zha_loaded gw" "\<not> z"
    "su_world s' = set_available (length (ew_coordinators (su_world s))) False False
       (set_up (is_zha_loaded gw) ws (su_world s))"
  | how s1 where "r = SetUp how" "is_zha_loaded gw \<longrightarrow> lock_in_zha gw (su_ieee s)" "is_zha_loaded gw \<or> z"
    "su_world s1 = set_up (is_zha_loaded gw) ws (su_world s)" "su_ieee s1 = su_ieee s"
    "start_event_listener gw (length (ew_coordinators (su_world s))) s1 = (s', how)"
proof (cases "is_zha_loaded gw \<and> \<not> lock_in_zha gw (su_ieee s)")
  case True
  then show ?thesis using assms that(1) by (auto simp: setup_entry_def set_up_def Let_def)
next
  case found: False
  let ?s = "migrate_to_entry_id_keys s"
  let ?s = "if su_model ?s = [] then ?s\<lparr>su_model := model_in_zha gw (su_ieee ?s)\<rparr> else ?s"
  let ?s = "?s\<lparr>su_world := set_up (is_zha_loaded gw) ws (su_world ?s)\<rparr>"
  have s: "su_world ?s = set_up (is_zha_loaded gw) ws (su_world s)" "su_ieee ?s = su_ieee s" by simp_all
  show ?thesis
  proof (cases "\<not> is_zha_loaded gw \<and> \<not> z")
    case True
    then show ?thesis using assms that(2) found by (auto simp: setup_entry_def set_up_def Let_def)
  next
    case False
    then have "(case start_event_listener gw (length (ew_coordinators (su_world s))) ?s of
        (s, how) \<Rightarrow> (s, SetUp how)) = (s', r)"
      using assms found by (simp add: setup_entry_def set_up_def Let_def del: set_up_effect) (auto split: if_splits)
    then show ?thesis using that(3) [OF _ _ _ s] found False by (auto split: prod.splits)
  qed
qed

section \<open>Properties\<close>

text \<open>
  Setup says what is true. It is not ready exactly when ZHA runs without the lock, and
  then has made no coordinator. Else the activity sensor is available exactly when a listener
  sits on the lock's own cluster; when none does, either ZHA is not up and its loss is in the
  log, or a repair issue names what was missing.
\<close>

theorem setup_tells_truth:
  assumes "setup_entry gw z ws s = (s', r)"
  shows "case r of
      NotReady ieee \<Rightarrow> ieee = su_ieee s \<and> is_zha_loaded gw \<and> \<not> lock_in_zha gw ieee \<and> su_world s' = su_world s
    | SetUp how \<Rightarrow> (\<not> is_zha_loaded gw \<or> lock_in_zha gw (su_ieee s))
        \<and> (\<exists>i. ew_current (su_world s') = Some i
          \<and> co_available (coord (su_world s') i) = (how \<noteq> None)
          \<and> (case how of
               Some h \<Rightarrow> \<exists>cl. find_door_lock_cluster gw (su_ieee s) = Some cl \<and> subscribe cl = Inr h
                 \<and> co_listened (coord (su_world s') i) = Some (cl_key cl) \<and> su_issue s' = None
             | None \<Rightarrow> co_listened (coord (su_world s') i) = None
                 \<and> (if is_zha_loaded gw \<or> z then su_issue s' \<noteq> None else ew_loss_logged (su_world s'))))"
proof -
  let ?i = "length (ew_coordinators (su_world s))"
  from assms show ?thesis
  proof (cases rule: setup_entry_cases)
    case 2
    then show ?thesis
      using set_available_effect [of ?i "set_up (is_zha_loaded gw) ws (su_world s)"] by (simp add: available_frame(2))
  next
    case (3 how s1)
    have len: "?i < length (ew_coordinators (su_world s1))" using 3(4) by simp
    from 3(6) len show ?thesis
    proof (cases rule: start_listener_cases)
      case (1 cl h)
      then show ?thesis using 3 set_listened_effect [OF len] by auto
    next
      case 2
      then show ?thesis using 3 set_available_effect [OF len] by (auto simp: available_frame(2))
    qed
  qed simp
qed

definition setup_example :: setup_world where
  "setup_example = \<lparr>su_entry_id = ''e1'', su_ieee = ''AA'', su_model = '''',
     su_world = sw_entry (reload_world no_options 2), su_issue = None, su_devices = [], su_entities = []\<rparr>"

definition gateway_example :: "nat \<Rightarrow> zigpy_cluster gateway" where
  "gateway_example key = Some [(''aa'', ZObj (Some [(11, [257 \<mapsto> \<lparr>cl_key = key, cl_type = ''DoorLock'',
     cl_on_event = True, cl_add_listener = False, cl_remove_listener = False\<rparr>])]) None MANUFACTURER ''NimlyPRO'')]"

lemma gateway_example_cluster:
  "\<exists>cl. find_door_lock_cluster (gateway_example key) ''AA'' = Some cl \<and> cl_key cl = key \<and> subscribe cl = Inr OnEvent"
proof -
  have l: "str_lower ''aa'' = str_lower ''AA''" by code_simp
  then show ?thesis
    by (simp add: find_door_lock_cluster_def gateway_example_def is_zha_loaded_def iter_device_proxies_def
        CHAIN_DEPTH_def object_cluster_def subscribe_def eval_nat_numeral)
qed

theorem setup_tells_truth_witness:
  "\<exists>s' how. setup_entry None False [] setup_example = (s', SetUp how) \<and> how = None \<and> ew_loss_logged (su_world s')"
proof -
  obtain s' r where run: "setup_entry None False [] setup_example = (s', r)" by (cases "setup_entry None False [] setup_example")
  have "r = SetUp None" using run by (cases rule: setup_entry_cases) (auto simp: is_zha_loaded_def)
  with setup_tells_truth [OF run] run show ?thesis by (auto simp: is_zha_loaded_def)
qed

text \<open>
  C27: lock events resume. When ZHA is loaded again and has the lock's cluster, the watch
  either leaves a listener on that very cluster, or reloads the entry, and the setup that
  follows puts one there; either way the activity sensor is available.
\<close>

theorem watch_follows_zha:
  assumes "find_door_lock_cluster gw (su_ieee s) = Some cl" "subscribe cl = Inr h"
    and "ew_current (su_world s) = Some i" "i < length (ew_coordinators (su_world s))"
    and "on_zha_state_change True True any gw (su_ieee s) i (su_world s) = (w, reload_scheduled)"
    and "w' = (if reload_scheduled then su_world (fst (setup_entry gw z ws (s\<lparr>su_world := w\<rparr>))) else w)"
  shows "\<exists>j. ew_current w' = Some j \<and> co_listened (coord w' j) = Some (cl_key cl) \<and> co_available (coord w' j)"
proof (cases reload_scheduled)
  case False
  then have "co_listened (coord (su_world s) i) = Some (cl_key cl)" "w' = set_available i True False (su_world s)"
    using assms(1,5,6) by (auto simp: on_zha_state_change_def split: option.splits if_splits)
  then show ?thesis using set_available_effect [OF assms(4)] assms(3) by (simp add: available_frame(2))
next
  case True
  obtain s' r where run: "setup_entry gw z ws (s\<lparr>su_world := w\<rparr>) = (s', r)"
    by (cases "setup_entry gw z ws (s\<lparr>su_world := w\<rparr>)")
  note found = found_cluster_in_zha [OF assms(1)]
  have w': "w' = su_world s'" using True assms(6) run by simp
  from run show ?thesis
  proof (cases rule: setup_entry_cases)
    case (3 how s1)
    have len: "length (ew_coordinators (su_world (s\<lparr>su_world := w\<rparr>))) < length (ew_coordinators (su_world s1))"
      using 3(4) by simp
    from 3(6) len show ?thesis
    proof (cases rule: start_listener_cases)
      case (1 cl' h')
      then show ?thesis using 3 w' assms(1) set_listened_effect [OF len] by auto
    next
      case 2
      then show ?thesis using 3 assms(1,2) by auto
    qed
  qed (use found in auto)
qed

theorem watch_follows_zha_witness:
  "\<exists>w w' j. on_zha_state_change True True True (gateway_example 7) ''AA'' 0 (su_world setup_example) = (w, True)
     \<and> w' = su_world (fst (setup_entry (gateway_example 7) True [] (setup_example\<lparr>su_world := w\<rparr>)))
     \<and> ew_current w' = Some j \<and> co_listened (coord w' j) = Some 7 \<and> co_available (coord w' j)"
proof -
  have s: "su_ieee setup_example = ''AA''" "ew_current (su_world setup_example) = Some 0"
    "0 < length (ew_coordinators (su_world setup_example))"
    "co_listened (coord (su_world setup_example) 0) = None"
    by (simp_all add: setup_example_def reload_world_simps construct_coordinator_def publish_coordinator_def coord_def
        coordinator_init_def load_slots_def)
  obtain cl where cl: "find_door_lock_cluster (gateway_example 7) (su_ieee setup_example) = Some cl"
    "cl_key cl = 7" "subscribe cl = Inr OnEvent"
    using gateway_example_cluster [of 7] s(1) by auto
  have run: "on_zha_state_change True True True (gateway_example 7) (su_ieee setup_example) 0 (su_world setup_example)
      = (su_world setup_example, True)"
    using s(4) by (simp add: on_zha_state_change_def)
  from watch_follows_zha [OF cl(1,3) s(2,3) run refl, of True "[]"] run s(1) cl(2) show ?thesis by auto
qed

section \<open>Reloads\<close>

lemma update_setup_first [simp]:
  "(\<And>c. co_setup_first (f c) = co_setup_first c) \<Longrightarrow>
     co_setup_first (coord (update_coord i f w) j) = co_setup_first (coord w j)"
  by (cases "i < length (ew_coordinators w)"; cases "i = j") (auto simp: coord_def update_coord_def list_update_beyond)

lemma change_slots_setup_first: "co_setup_first (coord (change_slots i f w) j) = co_setup_first (coord w j)"
  by (simp add: change_slots_def save_slots_def Let_def split: option.splits)

lemma finish_op_setup_first [simp]:
  "co_setup_first (coord (finish_op i op out w) j) = co_setup_first (coord w j)"
  by (cases op; simp add: set_pin_finish_def clear_pin_finish_def clear_slot_finish_def set_slot_name_def
      change_slots_setup_first)+

lemma same_first_slot: "eo_rest opts' = eo_rest opts \<Longrightarrow> first_slot_of opts' = first_slot_of opts"
  by (simp add: first_slot_of_def reserved_option_def)

text \<open>
  Only a change of the first user slot reloads. Whatever the coordinators write to the
  options, PIN operations, names and capabilities, starts no reload that was not due; and the
  settings form's answer starts one exactly when its number, held between 1 and 3, differs
  from the one the entry was set up with.
\<close>

theorem only_settings_reload:
  assumes "reach (store_start opts) store_step w" "store_step w w'" "j < length (ew_coordinators (sw_entry w))"
  shows "(eo_rest (ew_options (sw_entry w')) = eo_rest (ew_options (sw_entry w)) \<longrightarrow>
      options_updated j (sw_entry w') = options_updated j (sw_entry w))
    \<and> (step_settings env (Some n) = SaveOptions opts' \<longrightarrow>
      options_updated j ((sw_entry w)\<lparr>ew_options := opts'\<rparr>)
        = (max 1 (min 3 n) \<noteq> co_setup_first (coord (sw_entry w) j)))"
proof (rule conjI; rule impI)
  let ?w = "sw_entry w"
  assume rest: "eo_rest (ew_options (sw_entry w')) = eo_rest (ew_options ?w)"
  have "co_setup_first (coord (sw_entry w') j) = co_setup_first (coord ?w j)"
    using assms(2)
  proof (cases rule: store_step_cases)
    case (finish_write before t after out)
    then show ?thesis by simp
  next
    case (name_slot i n name)
    then show ?thesis using finish_op_setup_first [of i "SetName n name" SEND_DELIVERED] by simp
  next
    case (make_coordinator z)
    then show ?thesis using assms(3) by (simp add: construct_coordinator_def coord_def nth_append)
  next
    case (capabilities_answer i answer)
    then show ?thesis
      by (auto simp: refresh_capabilities_def Let_def split: option.splits)
  next
    case (availability i a q)
    then show ?thesis using set_available_effect(3) by simp
  qed (simp_all add: coord_def publish_coordinator_def)
  then show "options_updated j (sw_entry w') = options_updated j ?w"
    using same_first_slot [OF rest] by (simp add: options_updated_def)
next
  assume "step_settings env (Some n) = SaveOptions opts'"
  then show "options_updated j ((sw_entry w)\<lparr>ew_options := opts'\<rparr>)
      = (max 1 (min 3 n) \<noteq> co_setup_first (coord (sw_entry w) j))"
    by (auto simp: step_settings_def options_updated_def first_slot_of_def reserved_option_def
        first_user_slot_def py_get_def clamp_reserved_def coord_def)
qed

theorem only_settings_reload_witness:
  "\<exists>opts'. step_settings \<lparr>di_loaded = True, di_options = no_options, di_capabilities = Map.empty, di_strings = Map.empty\<rparr>
       (Some 1) = SaveOptions opts'
     \<and> options_updated 0 ((sw_entry (reload_world no_options 9))\<lparr>ew_options := opts'\<rparr>)
         = (1 \<noteq> co_setup_first (coord (sw_entry (reload_world no_options 9)) 0))"
proof -
  let ?env = "\<lparr>di_loaded = True, di_options = no_options, di_capabilities = Map.empty, di_strings = Map.empty\<rparr>"
  obtain opts' where o: "step_settings ?env (Some 1) = SaveOptions opts'" by (simp add: step_settings_def)
  have len: "0 < length (ew_coordinators (sw_entry (reload_world no_options 9)))"
    by (simp add: reload_world_simps available_frame(1) construct_coordinator_def publish_coordinator_def
        set_pin_finish_def delivered_def SEND_DELIVERED_def)
  show ?thesis
    using only_settings_reload [OF reload_run store_step.unload_entry len, of ?env 1 opts'] o by auto
qed

section \<open>Discovery\<close>

lemma in_known_addresses:
  "a \<in> set (known_addresses entries) \<longleftrightarrow> (\<exists>e \<in> set entries. \<exists>x. x \<noteq> [] \<and>
     (ce_ieee e = Some x \<or> ce_unique_id e = Some x) \<and> a = str_lower x)"
  by (induction entries) (auto simp: known_addresses_def split: option.splits)

lemma discovery_offers_new_locks:
  "(ieee, model) \<in> set (discover_locks entries gw) \<longleftrightarrow> (ieee, model) \<in> set (iter_onesti_locks gw)
     \<and> (\<forall>e \<in> set entries. \<forall>a. a \<noteq> [] \<and> (ce_ieee e = Some a \<or> ce_unique_id e = Some a) \<longrightarrow>
          str_lower a \<noteq> str_lower ieee)"
  by (simp add: discover_locks_def in_known_addresses) metis

end
