(* ===== verification/Entities.thy ===== *)
theory Entities
  imports Setup
begin

text \<open>
  \<^verbatim>\<open>entity.py\<close> and \<^verbatim>\<open>sensor.py\<close>: the device the sensors hang on, their keys, what each shows, the
  last activity and its restored form, and the registry rows of sensors that left the row of
  slots. \<open>show\<close> stands for \<^verbatim>\<open>str.format\<close>'s text of a value that is not a string.
\<close>

section \<open>The device\<close>

definition device_name :: "string \<Rightarrow> string \<Rightarrow> string" where
  "device_name ieee model =
     (let digits = filter (\<lambda>c. c \<noteq> CHR '':'') ieee; tail = drop (length digits - 4) digits in
      (if model \<noteq> [] then model else ''Onesti Lock'') @ '' ('' @ tail @ '')'')"

record device_info =
  di_identifiers :: "(string \<times> string) list"
  di_name :: string
  di_manufacturer :: string
  di_model :: "string option"
  di_serial :: string
  di_connections :: "(string \<times> string) list option"
  di_via :: "string option"

text \<open>\<open>has_via\<close> tells the releases apart; \<open>zha_device\<close> is what \<^verbatim>\<open>find_zha_device\<close> found.\<close>

definition build_device_info ::
  "bool \<Rightarrow> registry_device option \<Rightarrow> string \<Rightarrow> string \<Rightarrow> string \<Rightarrow> device_info" where
  "build_device_info has_via zha_device entry_id ieee model =
     \<lparr>di_identifiers = [(DOMAIN, entry_id)], di_name = device_name ieee model,
      di_manufacturer = MANUFACTURER, di_model = (if model = [] then None else Some model), di_serial = ieee,
      di_connections = (if has_via then Some [(''zigbee'', str_lower ieee)] else None),
      di_via = (if has_via then map_option rd_id zha_device else None)\<rparr>"

definition entity_unique_id :: "string \<Rightarrow> string \<Rightarrow> string" where
  "entity_unique_id entry_id key = entry_id @ ''-'' @ key"

section \<open>The row of sensors\<close>

definition CAPABILITY_SENSORS :: "(string \<times> string \<times> string) list" where
  "CAPABILITY_SENSORS =
     [(''pin-users'', ''pin_users'', ''num_pin_users''),
      (''pin-length-min'', ''pin_length_min'', ''min_pin_length''),
      (''pin-length-max'', ''pin_length_max'', ''max_pin_length'')]"

text \<open>The keys of the entities a setup adds.\<close>

definition sensor_keys :: "int \<Rightarrow> string list" where
  "sensor_keys first =
     map (\<lambda>n. ''slot-'' @ str_int n) (slot_row first) @ [''activity''] @ map fst CAPABILITY_SENSORS"

definition slot_prefix :: "string \<Rightarrow> string" where
  "slot_prefix entry_id = entry_id @ ''-slot-''"

definition is_slot_sensor :: "string \<Rightarrow> reg_entity \<Rightarrow> bool" where
  "is_slot_sensor entry_id e \<longleftrightarrow> er_entry e = entry_id \<and> er_domain e = ''sensor''
     \<and> take (length (slot_prefix entry_id)) (er_unique_id e) = slot_prefix entry_id"

definition slot_suffix :: "string \<Rightarrow> reg_entity \<Rightarrow> string" where
  "slot_suffix entry_id e = drop (length (slot_prefix entry_id)) (er_unique_id e)"

text \<open>
  \<^verbatim>\<open>_remove_orphaned_slot_sensors\<close> over the entry's rows; False with the registry so far is the
  ValueError of \<^verbatim>\<open>int\<close> on a superscript that \<^verbatim>\<open>isdigit\<close> let through.
\<close>

fun remove_orphans ::
  "string \<Rightarrow> int list \<Rightarrow> reg_entity list \<Rightarrow> reg_entity list \<Rightarrow> reg_entity list \<times> bool" where
  "remove_orphans entry_id slots [] reg = (reg, True)"
| "remove_orphans entry_id slots (e # rows) reg =
     (if \<not> is_slot_sensor entry_id e then remove_orphans entry_id slots rows reg
      else let suffix = slot_suffix entry_id e in
        if str_isdigit suffix \<and> \<not> list_all is_decimal suffix then (reg, False)
        else if str_isdigit suffix \<and> int (nat_of_str suffix) \<in> set slots
        then remove_orphans entry_id slots rows reg
        else remove_orphans entry_id slots rows (filter (\<lambda>x. er_entity_id x \<noteq> er_entity_id e) reg))"

definition remove_orphaned_slot_sensors :: "string \<Rightarrow> int \<Rightarrow> reg_entity list \<Rightarrow> reg_entity list \<times> bool" where
  "remove_orphaned_slot_sensors entry_id first reg =
     remove_orphans entry_id (slot_row first) (filter (\<lambda>e. er_entry e = entry_id) reg) reg"

section \<open>What the sensors show\<close>

definition slot_sensor_value :: "strings \<Rightarrow> coordinator \<Rightarrow> int \<Rightarrow> py" where
  "slot_sensor_value strings c n =
     (let name = sl_name (get_slot c n) in
      if py_truth name then name else PStr (string_or strings ''slot_vacant'' ''Vacant''))"

definition slot_sensor_attributes :: "coordinator \<Rightarrow> int \<Rightarrow> (string \<times> py) list" where
  "slot_sensor_attributes c n = [(''slot_id'', PInt n), (''has_pin'', sl_has_pin (get_slot c n))]"

definition capability_sensor_value :: "coordinator \<Rightarrow> string \<Rightarrow> py" where
  "capability_sensor_value c capability =
     (let v = py_get (co_capabilities c) capability in if py_int v \<noteq> None then v else PNone)"

section \<open>The last activity\<close>

definition ACTIVITY_KEYS :: "string list" where
  "ACTIVITY_KEYS = [''user_name'', ''user_slot'', ''action'', ''source'', ''timestamp'']"

text \<open>\<^verbatim>\<open>ActivityExtraStoredData.as_dict\<close> and \<^verbatim>\<open>from_dict\<close>\<close>

definition activity_as_dict :: "py_map \<Rightarrow> py_map" where
  "activity_as_dict activity = activity"

definition is_str :: "py \<Rightarrow> bool" where
  "is_str v = (case v of PStr s \<Rightarrow> True | _ \<Rightarrow> False)"

definition activity_from_dict :: "py_map \<Rightarrow> py_map option" where
  "activity_from_dict restored =
     (let activity = (\<lambda>k. if k \<in> set ACTIVITY_KEYS then Some (py_get restored k) else None) in
      if \<not> is_str (py_get activity ''action'') \<or> \<not> is_str (py_get activity ''source'') then None
      else Some activity)"

text \<open>The sensor's state is the activity, None before the first one.\<close>

definition update_activity ::
  "(int \<Rightarrow> py) \<Rightarrow> string \<Rightarrow> int option \<Rightarrow> lock_action \<Rightarrow> lock_source \<Rightarrow> py_map" where
  "update_activity name_of now user_slot action source = map_of [
     (''user_name'', case user_slot of None \<Rightarrow> PNone | Some n \<Rightarrow> name_of n),
     (''user_slot'', case user_slot of None \<Rightarrow> PNone | Some n \<Rightarrow> PInt n),
     (''action'', PStr (action_value action)),
     (''source'', PStr (source_value source)),
     (''timestamp'', PStr now)]"

definition restore_activity :: "py_map option \<Rightarrow> py_map option" where
  "restore_activity extra = (case extra of None \<Rightarrow> None | Some d \<Rightarrow> activity_from_dict d)"

definition py_text :: "(py \<Rightarrow> string) \<Rightarrow> py \<Rightarrow> string" where
  "py_text show v = (case v of PStr s \<Rightarrow> s | _ \<Rightarrow> show v)"

definition activity_field :: "(py \<Rightarrow> string) \<Rightarrow> py_map \<Rightarrow> string \<Rightarrow> string" where
  "activity_field show activity k = (case activity k of None \<Rightarrow> ''unknown'' | Some v \<Rightarrow> py_text show v)"

text \<open>The outer None is no state yet, the inner one the exception of a template.\<close>

definition activity_value :: "(py \<Rightarrow> string) \<Rightarrow> strings \<Rightarrow> py_map option \<Rightarrow> string option option" where
  "activity_value show strings activity =
     (case activity of
        None \<Rightarrow> None
      | Some a \<Rightarrow>
          (let name = py_get a ''user_name'';
               name = (if py_truth name then name else PStr (string_or strings ''unknown_user'' ''Unknown''))
           in Some (format_activity strings (activity_field show a ''action'') (activity_field show a ''source'')
                      (py_text show name))))"

definition activity_attributes :: "py_map option \<Rightarrow> py_map" where
  "activity_attributes activity = (case activity of None \<Rightarrow> Map.empty | Some a \<Rightarrow> a)"

text \<open>What the effects of a report leave on the sensor, while it is added.\<close>

fun sensor_after :: "(int \<Rightarrow> py) \<Rightarrow> string \<Rightarrow> report_effect list \<Rightarrow> py_map option \<Rightarrow> py_map option" where
  "sensor_after name_of now [] a = a"
| "sensor_after name_of now (UpdateActivity slot action source # effects) a =
     sensor_after name_of now effects (Some (update_activity name_of now slot action source))"
| "sensor_after name_of now (_ # effects) a = sensor_after name_of now effects a"

section \<open>Properties\<close>

text \<open>
  The last activity survives a restart. What the sensor stores restores to the same
  activity, so it shows the same sentence in whatever language the server has then; anything
  else in the cache is dropped, and what has no action or source restores to nothing.
\<close>

theorem activity_restores:
  "(dom extra \<inter> set ACTIVITY_KEYS = {} \<longrightarrow>
      restore_activity (Some (activity_as_dict (update_activity name_of now slot action source) ++ extra))
      = Some (update_activity name_of now slot action source))
   \<and> (restore_activity stored = Some a \<longrightarrow> dom a = set ACTIVITY_KEYS
       \<and> is_str (py_get a ''action'') \<and> is_str (py_get a ''source''))"
proof (rule conjI; rule impI)
  let ?a = "update_activity name_of now slot action source"
  assume d: "dom extra \<inter> set ACTIVITY_KEYS = {}"
  have get: "py_get (?a ++ extra) k = py_get ?a k" if "k \<in> set ACTIVITY_KEYS" for k
    using that d by (cases "extra k") (auto simp: py_get_def map_add_def)
  have "(\<lambda>k. if k \<in> set ACTIVITY_KEYS then Some (py_get (?a ++ extra) k) else None) = ?a"
    by (rule ext) (simp add: get, auto simp: update_activity_def ACTIVITY_KEYS_def)
  moreover have "is_str (py_get ?a ''action'')" "is_str (py_get ?a ''source'')"
    by (simp_all add: update_activity_def is_str_def)
  ultimately show "restore_activity (Some (activity_as_dict ?a ++ extra)) = Some ?a"
    by (simp add: restore_activity_def activity_from_dict_def activity_as_dict_def Let_def)
next
  assume "restore_activity stored = Some a"
  then show "dom a = set ACTIVITY_KEYS \<and> is_str (py_get a ''action'') \<and> is_str (py_get a ''source'')"
    by (auto simp: restore_activity_def activity_from_dict_def Let_def split: option.splits if_splits)
qed

theorem activity_restores_witness:
  "restore_activity (Some (activity_as_dict (update_activity (\<lambda>n. PStr ''Kari'') ''2026'' (Some 3) ACTION_UNLOCK SOURCE_KEYPAD)
       ++ [''pin_code'' \<mapsto> PStr ''1'']))
     = Some (update_activity (\<lambda>n. PStr ''Kari'') ''2026'' (Some 3) ACTION_UNLOCK SOURCE_KEYPAD)"
  by (rule activity_restores [THEN conjunct1, THEN mp]) (simp add: ACTIVITY_KEYS_def)

section \<open>The row in the registry\<close>

definition is_orphan :: "string \<Rightarrow> int list \<Rightarrow> reg_entity \<Rightarrow> bool" where
  "is_orphan entry_id slots e \<longleftrightarrow> is_slot_sensor entry_id e
     \<and> \<not> (slot_suffix entry_id e \<noteq> [] \<and> int (nat_of_str (slot_suffix entry_id e)) \<in> set slots)"

lemma decimal_isdigit: "list_all is_decimal s \<Longrightarrow> str_isdigit s = (s \<noteq> [])"
  by (auto simp: str_isdigit_def is_digit_def list_all_iff)

lemma remove_orphans_turn:
  "(is_slot_sensor entry_id e \<longrightarrow> list_all is_decimal (slot_suffix entry_id e)) \<Longrightarrow>
     remove_orphans entry_id slots (e # rows) reg = remove_orphans entry_id slots rows
       (if is_orphan entry_id slots e then filter (\<lambda>x. er_entity_id x \<noteq> er_entity_id e) reg else reg)"
  by (auto simp: is_orphan_def decimal_isdigit Let_def)

lemma remove_orphans_filter:
  assumes "\<forall>e \<in> set rows. is_slot_sensor entry_id e \<longrightarrow> list_all is_decimal (slot_suffix entry_id e)"
  shows "remove_orphans entry_id slots rows reg = (filter (\<lambda>x. \<forall>e \<in> set rows.
      is_orphan entry_id slots e \<longrightarrow> er_entity_id x \<noteq> er_entity_id e) reg, True)"
  using assms
proof (induction rows arbitrary: reg)
  case (Cons e rows)
  then have "remove_orphans entry_id slots (e # rows) reg = remove_orphans entry_id slots rows
      (if is_orphan entry_id slots e then filter (\<lambda>x. er_entity_id x \<noteq> er_entity_id e) reg else reg)"
    by (intro remove_orphans_turn) simp
  then show ?case using Cons by (simp add: conj_commute del: remove_orphans.simps(2))
qed simp

text \<open>
  The sensor row follows the setting. When the first user slot moves, exactly the rows of
  this entry's slot sensors outside the new row leave the registry, so that a slot in both rows
  keeps its entity, and no other row is touched.
\<close>

theorem sensor_row_follows_setting:
  assumes "distinct (map er_entity_id reg)"
    and "\<forall>e \<in> set reg. is_slot_sensor entry_id e \<longrightarrow> list_all is_decimal (slot_suffix entry_id e)"
  shows "remove_orphaned_slot_sensors entry_id first reg
      = (filter (\<lambda>e. is_slot_sensor entry_id e \<longrightarrow> slot_suffix entry_id e \<noteq> []
           \<and> int (nat_of_str (slot_suffix entry_id e)) \<in> {first..first + 9}) reg, True)
    \<and> (0 \<le> n \<and> first \<le> n \<and> n \<le> first + 9 \<and> e \<in> set reg
        \<and> er_unique_id e = entity_unique_id entry_id (''slot-'' @ str_int n)
       \<longrightarrow> e \<in> set (fst (remove_orphaned_slot_sensors entry_id first reg)))"
proof -
  have row: "set (slot_row first) = {first..first + 9}" by (simp add: slot_row_def NUM_USER_SLOTS_def)
  have "remove_orphaned_slot_sensors entry_id first reg = (filter (\<lambda>x. \<forall>e \<in> set (filter (\<lambda>e. er_entry e = entry_id) reg).
      is_orphan entry_id (slot_row first) e \<longrightarrow> er_entity_id x \<noteq> er_entity_id e) reg, True)"
    unfolding remove_orphaned_slot_sensors_def by (rule remove_orphans_filter) (use assms(2) in auto)
  also have "filter (\<lambda>x. \<forall>e \<in> set (filter (\<lambda>e. er_entry e = entry_id) reg).
      is_orphan entry_id (slot_row first) e \<longrightarrow> er_entity_id x \<noteq> er_entity_id e) reg
      = filter (\<lambda>x. \<not> is_orphan entry_id (slot_row first) x) reg"
    using assms(1) by (intro filter_cong refl)
      (auto simp: is_orphan_def is_slot_sensor_def distinct_map dest: inj_onD)
  finally have eq: "remove_orphaned_slot_sensors entry_id first reg
      = (filter (\<lambda>x. \<not> is_orphan entry_id (slot_row first) x) reg, True)" .
  have "\<not> is_orphan entry_id (slot_row first) e"
    if "0 \<le> n" "first \<le> n" "n \<le> first + 9" "er_unique_id e = entity_unique_id entry_id (''slot-'' @ str_int n)"
  proof -
    have "slot_suffix entry_id e = str_int n" using that(4) by (simp add: slot_suffix_def slot_prefix_def entity_unique_id_def)
    then show ?thesis using that(1-3) row str_nat_decimal [of "nat n"]
      by (simp add: is_orphan_def str_int_def nat_of_str_str)
  qed
  then show ?thesis unfolding eq by (auto simp: is_orphan_def row intro!: filter_cong)
qed

theorem sensor_row_follows_setting_witness:
  "remove_orphaned_slot_sensors ''e1'' 1 [\<lparr>er_entity_id = ''sensor.a'', er_domain = ''sensor'', er_platform = DOMAIN,
       er_unique_id = ''e1-slot-12'', er_entry = ''e1''\<rparr>] = ([], True)"
proof -
  let ?reg = "[\<lparr>er_entity_id = ''sensor.a'', er_domain = ''sensor'', er_platform = DOMAIN,
       er_unique_id = ''e1-slot-12'', er_entry = ''e1''\<rparr>]"
  have "distinct (map er_entity_id ?reg)"
    "\<forall>e \<in> set ?reg. is_slot_sensor ''e1'' e \<longrightarrow> list_all is_decimal (slot_suffix ''e1'' e)"
    by (simp_all add: slot_suffix_def slot_prefix_def is_decimal_def)
  from sensor_row_follows_setting [OF this, of 1 0] show ?thesis
    by (simp add: is_slot_sensor_def slot_suffix_def slot_prefix_def nat_of_str_def digit_value_def)
qed

end
