(* ===== verification/Diagnostics.thy ===== *)
theory Diagnostics
  imports Entities
begin

text \<open>
  \<^verbatim>\<open>diagnostics.py\<close>: what a user attaches to a public issue. \<^verbatim>\<open>async_redact_data\<close> is Home
  Assistant's, the argument \<open>redact\<close>; the sensor's state attributes are those of \<open>Entities\<close>.
\<close>

definition name_state :: "py \<Rightarrow> string" where
  "name_state name = (if py_truth name then ''named'' else ''unnamed'')"

definition diag_slot :: "py_map \<Rightarrow> string \<times> bool" where
  "diag_slot s = (name_state (py_get s ''name''), py_truth (py_get s ''has_pin''))"

record diag_options =
  do_slots :: "string \<rightharpoonup> string \<times> bool"
  do_capabilities :: "py_map option"
  do_rest :: py_map

definition diag_options_of :: "entry_options \<Rightarrow> diag_options" where
  "diag_options_of opts =
     \<lparr>do_slots = (\<lambda>k. map_option diag_slot (case eo_slots opts of None \<Rightarrow> None | Some m \<Rightarrow> m k)),
      do_capabilities = eo_capabilities opts, do_rest = eo_rest opts\<rparr>"

record diag_zha =
  dz_loaded :: bool
  dz_entry_states :: "string list"
  dz_device_found :: bool
  dz_manufacturer :: "string option"
  dz_model :: "string option"
  dz_cluster_found :: bool
  dz_cluster_type :: "string option"
  dz_cluster_endpoint :: "int option"
  dz_entity_found :: bool

text \<open>\<open>endpoint_of\<close> reads \<^verbatim>\<open>cluster.endpoint.endpoint_id\<close>; \<open>entity\<close> is ZHA's lock entity.\<close>

definition diag_zha_of ::
  "zigpy_cluster gateway \<Rightarrow> string list \<Rightarrow> (zigpy_cluster \<Rightarrow> int option) \<Rightarrow> string option \<Rightarrow> string \<Rightarrow> diag_zha" where
  "diag_zha_of gw states endpoint_of entity ieee =
     (let proxy = map_option snd (find (\<lambda>(d, _). str_lower d = str_lower ieee) (iter_device_proxies gw));
          cluster = (if proxy \<noteq> None then find_door_lock_cluster gw ieee else None)
      in \<lparr>dz_loaded = is_zha_loaded gw, dz_entry_states = states, dz_device_found = (proxy \<noteq> None),
          dz_manufacturer = map_option (\<lambda>p. fst (device_metadata p)) proxy,
          dz_model = map_option (\<lambda>p. snd (device_metadata p)) proxy,
          dz_cluster_found = (case proxy of None \<Rightarrow> False | Some p \<Rightarrow> has_door_lock_cluster p),
          dz_cluster_type = map_option cl_type cluster,
          dz_cluster_endpoint = (case cluster of None \<Rightarrow> None | Some c \<Rightarrow> endpoint_of c),
          dz_entity_found = (entity \<noteq> None)\<rparr>)"

record diag_listener =
  dl_registered :: bool
  dl_cluster_type :: "string option"
  dl_on_current :: bool
  dl_repair_issue :: bool

definition diag_listener_of ::
  "zigpy_cluster gateway \<Rightarrow> (nat \<Rightarrow> string) \<Rightarrow> string \<Rightarrow> coordinator \<Rightarrow> string option \<Rightarrow> diag_listener" where
  "diag_listener_of gw type_of ieee c issue =
     (let current = (if co_listened c \<noteq> None \<and> is_zha_loaded gw
                     then map_option cl_key (find_door_lock_cluster gw ieee) else None)
      in \<lparr>dl_registered = (co_listened c \<noteq> None), dl_cluster_type = map_option type_of (co_listened c),
          dl_on_current = (co_listened c \<noteq> None \<and> co_listened c = current), dl_repair_issue = (issue \<noteq> None)\<rparr>)"

text \<open>The activity sensor's attributes, None when it has no state; its slot is what it stored.\<close>

definition diag_last_activity :: "coordinator \<Rightarrow> py_map option \<Rightarrow> (string \<times> py) list option" where
  "diag_last_activity c attributes =
     (case attributes of
        None \<Rightarrow> None
      | Some a \<Rightarrow>
          if a ''action'' = None then None
          else let slot = py_get a ''user_slot'' in Some
            [(''user_slot'', slot),
             (''user_name'', case slot of PInt n \<Rightarrow> PStr (name_state (sl_name (get_slot c n))) | _ \<Rightarrow> PNone),
             (''action'', py_get a ''action''), (''source'', py_get a ''source''),
             (''timestamp'', py_get a ''timestamp'')])"

record diag_entry =
  dn_title :: string
  dn_unique_id :: "string option"
  dn_version :: int
  dn_minor :: int
  dn_ieee :: string
  dn_model :: string
  dn_options :: diag_options

record 'r diagnostics =
  dg_entry :: 'r
  dg_first_user_slot :: int
  dg_setup_first_user_slot :: int
  dg_max_user_slot :: int
  dg_capabilities_final :: bool
  dg_lock_capabilities :: py_map
  dg_zha :: diag_zha
  dg_listener :: diag_listener
  dg_wake_echo :: bool
  dg_last_activity :: "(string \<times> py) list option"

definition entry_diagnostics ::
  "(diag_entry \<Rightarrow> 'r) \<Rightarrow> string \<Rightarrow> string option \<Rightarrow> stored_entry \<Rightarrow> coordinator \<Rightarrow> diag_zha \<Rightarrow> diag_listener
     \<Rightarrow> bool \<Rightarrow> py_map option \<Rightarrow> 'r diagnostics" where
  "entry_diagnostics redact title unique_id e c zha listener echo attributes =
     \<lparr>dg_entry = redact \<lparr>dn_title = title, dn_unique_id = unique_id, dn_version = st_version e,
        dn_minor = st_minor e, dn_ieee = st_ieee e, dn_model = st_model e,
        dn_options = diag_options_of (st_options e)\<rparr>,
      dg_first_user_slot = first_slot_of (st_options e), dg_setup_first_user_slot = co_setup_first c,
      dg_max_user_slot = max_slot_of c, dg_capabilities_final = co_capabilities_final c,
      dg_lock_capabilities = co_capabilities c, dg_zha = zha, dg_listener = listener,
      dg_wake_echo = echo, dg_last_activity = diag_last_activity c attributes\<rparr>"

section \<open>Properties\<close>

text \<open>Two stored slots that a reader of the diagnostics must not tell apart.\<close>

definition same_but_name :: "py_map option \<Rightarrow> py_map option \<Rightarrow> bool" where
  "same_but_name s s' \<longleftrightarrow> rel_option (\<lambda>a b.
     py_truth (py_get a ''name'') = py_truth (py_get b ''name'')
     \<and> py_truth (py_get a ''has_pin'') = py_truth (py_get b ''has_pin'')) s s'"

definition option_slot :: "entry_options \<Rightarrow> string \<Rightarrow> py_map option" where
  "option_slot opts k = (case eo_slots opts of None \<Rightarrow> None | Some m \<Rightarrow> m k)"

lemma get_slot_same_name:
  assumes "\<And>k. same_but_name (option_slot opts k) (option_slot opts' k)"
    and "co_slots c = stored_slots opts" "co_slots c' = stored_slots opts'"
  shows "name_state (sl_name (get_slot c n)) = name_state (sl_name (get_slot c' n))"
proof -
  have stored: "stored_slots o' k = map_option read_slot (option_slot o' k)" for o' k
    by (simp add: stored_slots_def option_slot_def split: option.splits)
  have named: "py_truth (sl_name (read_slot s)) = py_truth (py_get s ''name'')" for s
    by (simp add: read_slot_def py_get_def DEFAULT_SLOT_def split: option.splits)
  show ?thesis
    using assms(1) [of "str_int n"]
    by (auto simp: get_slot_def assms(2,3) stored same_but_name_def name_state_def named
        option_rel_Some1 split: option.splits)
qed

text \<open>
  C30: no one's name in a bug report. Whatever Home Assistant redacts, the diagnostics are the
  same for any two households whose slots are named and coded alike: neither a stored name nor
  the name in the last activity makes a difference.
\<close>

theorem diagnostics_hide_names:
  assumes "\<And>k. same_but_name (option_slot opts k) (option_slot opts' k)"
    and "eo_capabilities opts' = eo_capabilities opts" "eo_rest opts' = eo_rest opts"
    and "co_slots c = stored_slots opts" "c' = c\<lparr>co_slots := stored_slots opts'\<rparr>"
    and "e' = e\<lparr>st_options := opts'\<rparr>" "st_options e = opts"
    and "attributes' = map_option (\<lambda>a. a(''user_name'' \<mapsto> name)) attributes"
  shows "entry_diagnostics redact title uid e' c' zha listener echo attributes'
       = entry_diagnostics redact title uid e c zha listener echo attributes"
proof -
  have slots: "diag_options_of opts' = diag_options_of opts"
  proof -
    have "map_option diag_slot (option_slot opts' k) = map_option diag_slot (option_slot opts k)" for k
      using assms(1) [of k] by (auto simp: same_but_name_def diag_slot_def name_state_def option_rel_Some1
          split: option.splits elim!: option.rel_cases)
    then show ?thesis
      using assms(2,3) by (simp add: diag_options_of_def option_slot_def [symmetric])
  qed
  have names: "name_state (sl_name (get_slot c' n)) = name_state (sl_name (get_slot c n))" for n
    using get_slot_same_name [OF assms(1,4), of c' n] assms(5) by simp
  have "diag_last_activity c' attributes' = diag_last_activity c attributes"
    using names by (auto simp: diag_last_activity_def assms(8) Let_def py_get_def split: option.splits py.splits)
  moreover have "first_slot_of opts' = first_slot_of opts"
    using assms(3) by (simp add: first_slot_of_def reserved_option_def)
  ultimately show ?thesis
    using slots assms(5-7) by (simp add: entry_diagnostics_def max_slot_of_def)
qed

definition household :: "string \<Rightarrow> entry_options" where
  "household name = \<lparr>eo_slots = Some [''3'' \<mapsto> [''name'' \<mapsto> PStr name, ''has_pin'' \<mapsto> PBool True]],
     eo_capabilities = None, eo_rest = Map.empty\<rparr>"

definition household_entry :: "string \<Rightarrow> stored_entry" where
  "household_entry name = \<lparr>st_version = 2, st_minor = 3, st_options = household name, st_ieee = ''aa'', st_model = ''''\<rparr>"

theorem diagnostics_hide_names_witness:
  "entry_diagnostics id ''Onesti Lock'' None (household_entry ''Ola'') (coordinator_init True (household ''Ola''))
       (diag_zha_of None [] (\<lambda>_. None) None ''aa'')
       (diag_listener_of None (\<lambda>_. ''LockDevice'') ''aa'' (coordinator_init True no_options) None) False None
     = entry_diagnostics id ''Onesti Lock'' None (household_entry ''Kari'') (coordinator_init True (household ''Kari''))
       (diag_zha_of None [] (\<lambda>_. None) None ''aa'')
       (diag_listener_of None (\<lambda>_. ''LockDevice'') ''aa'' (coordinator_init True no_options) None) False None"
proof -
  have s: "same_but_name (option_slot (household ''Kari'') k) (option_slot (household ''Ola'') k)" for k
    by (simp add: same_but_name_def option_slot_def household_def)
  have c: "coordinator_init True (household ''Ola'')
      = (coordinator_init True (household ''Kari''))\<lparr>co_slots := stored_slots (household ''Ola'')\<rparr>"
    by (simp add: coordinator_init_def load_slots_def household_def first_slot_of_def reserved_option_def)
  show ?thesis
    by (rule diagnostics_hide_names [OF s _ _ _ c])
      (simp_all add: household_def household_entry_def coordinator_init_def load_slots_def)
qed

end
