(* ===== verification/Bluetooth.thy ===== *)
theory Bluetooth
  imports Advertisement Pin_Rules
begin

text \<open>
  \<^verbatim>\<open>bluetooth.py\<close>: finding a lock among the advertisements Home Assistant hears, connecting to
  it, and opening a session. The advertisements it holds, the ones that arrive while waiting
  and what bleak's connector answers are arguments.
\<close>

section \<open>Finding a lock\<close>

record service_info =
  sv_address :: string
  sv_name :: string
  sv_rssi :: int
  sv_data :: "bytes option"

record found_lock =
  fl_address :: string
  fl_name :: string
  fl_rssi :: int
  fl_advertisement :: advertisement

definition require_bluetooth :: "bool \<Rightarrow> unit res" where
  "require_bluetooth loaded = raise_if (\<not> loaded) (BleError
     (''Home Assistant's Bluetooth integration is not set up, so no lock can be reached over Bluetooth'', []))"

definition lock_advertisement :: "service_info \<Rightarrow> advertisement option res" where
  "lock_advertisement info =
     (case sv_data info of
        None \<Rightarrow> Inr None
      | Some data \<Rightarrow>
          (case parse_advertisement data of
             Inr a \<Rightarrow> Inr (Some a)
           | Inl e \<Rightarrow> if is_protocol_error e then Inr None else Inl e))"

definition is_wanted :: "(bytes \<Rightarrow> bytes) \<Rightarrow> advertisement \<Rightarrow> bytes option \<Rightarrow> bool res" where
  "is_wanted sha1 a device_id =
     (case device_id of None \<Rightarrow> Inr (\<not> enrolled a) | Some d \<Rightarrow> ad_matches sha1 a d)"

definition found_of :: "service_info \<Rightarrow> advertisement \<Rightarrow> found_lock" where
  "found_of info a =
     \<lparr>fl_address = sv_address info,
      fl_name = (if sv_name info \<noteq> [] then sv_name info else sv_address info),
      fl_rssi = sv_rssi info, fl_advertisement = a\<rparr>"

text \<open>\<^verbatim>\<open>str.upper\<close>, for the letters whose capital is below 256 too; an address has no other.\<close>

definition upper_char :: "char \<Rightarrow> char" where
  "upper_char c = (let n = code_point c in
     if 97 \<le> n \<and> n \<le> 122 \<or> 224 \<le> n \<and> n \<le> 254 \<and> n \<noteq> 247 then char_of (n - 32) else c)"

definition same_address :: "string \<Rightarrow> string \<Rightarrow> bool" where
  "same_address a b = (map upper_char a = map upper_char b)"

definition describe_wanted :: "bytes option \<Rightarrow> string option \<Rightarrow> string" where
  "describe_wanted device_id address =
     (let what = (if device_id \<noteq> None then ''the enrolled lock'' else ''a factory-reset lock'')
      in case address of None \<Rightarrow> what | Some a \<Rightarrow> what @ '' at '' @ a)"

text \<open>One advertisement: the lock it is of, when it is a wanted one.\<close>

definition wanted_lock ::
  "(bytes \<Rightarrow> bytes) \<Rightarrow> bytes option \<Rightarrow> string option \<Rightarrow> service_info \<Rightarrow> found_lock option res" where
  "wanted_lock sha1 device_id address info =
     (if (case address of None \<Rightarrow> False | Some a \<Rightarrow> \<not> same_address (sv_address info) a) then Inr None
      else bindE (lock_advertisement info) (\<lambda>ad.
        (case ad of
           None \<Rightarrow> Inr None
         | Some a \<Rightarrow> bindE (is_wanted sha1 a device_id) (\<lambda>w.
             Inr (if w then Some (found_of info a) else None)))))"

fun wanted_locks ::
  "(bytes \<Rightarrow> bytes) \<Rightarrow> bytes option \<Rightarrow> string option \<Rightarrow> service_info list \<Rightarrow> found_lock list res" where
  "wanted_locks sha1 device_id address [] = Inr []"
| "wanted_locks sha1 device_id address (info # infos) =
     bindE (wanted_lock sha1 device_id address info) (\<lambda>found.
     bindE (wanted_locks sha1 device_id address infos) (\<lambda>rest.
     Inr ((case found of None \<Rightarrow> [] | Some l \<Rightarrow> [l]) @ rest)))"

definition discovered_locks ::
  "(bytes \<Rightarrow> bytes) \<Rightarrow> bool \<Rightarrow> service_info list \<Rightarrow> bytes option \<Rightarrow> string option \<Rightarrow> found_lock list res" where
  "discovered_locks sha1 loaded infos device_id address =
     bindE (require_bluetooth loaded) (\<lambda>_. wanted_locks sha1 device_id address infos)"

text \<open>
  The wait: the callback on every advertisement that arrives in time, the first wanted one
  wins. An exception of the callback is Home Assistant's to log, and the wait goes on.
\<close>

fun advertised ::
  "(bytes \<Rightarrow> bytes) \<Rightarrow> bytes option \<Rightarrow> string option \<Rightarrow> service_info list \<Rightarrow> found_lock option" where
  "advertised sha1 device_id address [] = None"
| "advertised sha1 device_id address (info # infos) =
     (case wanted_lock sha1 device_id address info of
        Inr (Some l) \<Rightarrow> Some l
      | _ \<Rightarrow> advertised sha1 device_id address infos)"

definition find_lock ::
  "(bytes \<Rightarrow> bytes) \<Rightarrow> bool \<Rightarrow> service_info list \<Rightarrow> service_info list \<Rightarrow> int
     \<Rightarrow> bytes option \<Rightarrow> string option \<Rightarrow> found_lock res" where
  "find_lock sha1 loaded held arriving timeout device_id address =
     bindE (discovered_locks sha1 loaded held device_id address) (\<lambda>known.
       (case known of
          l # l' # others \<Rightarrow> Inl (BleError (''Found {} locks where '' @ describe_wanted device_id address
             @ '' was wanted; give the address of the one to use'', [int (length known)]))
        | [l] \<Rightarrow> Inr l
        | [] \<Rightarrow>
            (case advertised sha1 device_id address arriving of
               Some l \<Rightarrow> Inr l
             | None \<Rightarrow> Inl (BleTimeoutError (''Did not see '' @ describe_wanted device_id address
                 @ '' advertising within {} s'', [timeout])))))"

section \<open>Connecting\<close>

text \<open>What \<^verbatim>\<open>establish_connection\<close> does: hand out a client, or raise, with its text.\<close>

datatype 'c connect_end =
    Established 'c
  | ConnectTimeout
  | OutOfSlots string
  | DeviceNotFound string
  | BleakFailure string string
  | ConnectRaises string

definition connect_client :: "bool \<Rightarrow> bool \<Rightarrow> string \<Rightarrow> 'c connect_end \<Rightarrow> 'c res" where
  "connect_client loaded reachable address outcome =
     bindE (require_bluetooth loaded) (\<lambda>_.
     bindE (raise_if (\<not> reachable) (BleError
       (''No Bluetooth adapter or proxy with active connections can reach the lock at '' @ address, []))) (\<lambda>_.
       (case outcome of
          Established client \<Rightarrow> Inr client
        | ConnectTimeout \<Rightarrow> Inl (BleTimeoutError (''Connecting to the lock at '' @ address @ '' timed out'', []))
        | OutOfSlots text \<Rightarrow> Inl (BleError (''No free connection slot to reach the lock at '' @ address
            @ ''; a Bluetooth proxy has only a few: '' @ redact_digits text, []))
        | DeviceNotFound text \<Rightarrow> Inl (BleError (''The lock at '' @ address @ '' is out of reach: ''
            @ redact_digits text, []))
        | BleakFailure kind text \<Rightarrow> Inl (BleError (''Could not connect to the lock at '' @ address @ '': ''
            @ kind @ '': '' @ redact_digits text, []))
        | ConnectRaises text \<Rightarrow> Inl (PyException text))))"

text \<open>
  \<^verbatim>\<open>async_open_session\<close> up to its body: find, connect, make the session; the flag is whether the
  connection made on the way was closed again.
\<close>

definition open_session ::
  "found_lock res \<Rightarrow> (found_lock \<Rightarrow> 't res) \<Rightarrow> ('t \<Rightarrow> 'x res) \<Rightarrow> 'x res \<times> bool" where
  "open_session found connect new_session =
     (case found of
        Inl e \<Rightarrow> (Inl e, False)
      | Inr lock \<Rightarrow>
          (case connect lock of
             Inl e \<Rightarrow> (Inl e, False)
           | Inr t \<Rightarrow> (case new_session t of Inl e \<Rightarrow> (Inl e, True) | Inr s \<Rightarrow> (Inr s, False))))"

section \<open>Properties\<close>

text \<open>What it is to be wanted, spelled out.\<close>

definition wanted_ad :: "(bytes \<Rightarrow> bytes) \<Rightarrow> bytes option \<Rightarrow> advertisement \<Rightarrow> bool" where
  "wanted_ad sha1 device_id a \<longleftrightarrow>
     (case device_id of None \<Rightarrow> \<not> enrolled a | Some d \<Rightarrow> ad_matches sha1 a d = Inr True)"

lemma wanted_lock_Some:
  "wanted_lock sha1 device_id address info = Inr (Some l) \<Longrightarrow>
     wanted_ad sha1 device_id (fl_advertisement l) \<and> fl_address l = sv_address info
     \<and> (\<forall>a. address = Some a \<longrightarrow> same_address (fl_address l) a)"
proof -
  assume found: "wanted_lock sha1 device_id address info = Inr (Some l)"
  then have addr: "\<forall>a. address = Some a \<longrightarrow> same_address (sv_address info) a"
    by (auto simp: wanted_lock_def split: if_splits)
  from found obtain ad where "(case ad of None \<Rightarrow> Inr None | Some a \<Rightarrow>
      bindE (is_wanted sha1 a device_id) (\<lambda>w. Inr (if w then Some (found_of info a) else None))) = Inr (Some l)"
    unfolding wanted_lock_def bindE_eq_Inr by (simp only: bindE_eq_Inr split: if_splits) auto
  then obtain a where "is_wanted sha1 a device_id = Inr True" "l = found_of info a"
    by (cases ad) (auto simp: bindE_eq_Inr split: if_splits)
  then show ?thesis using addr by (auto simp: is_wanted_def wanted_ad_def found_of_def split: option.splits)
qed

lemma wanted_locks_each:
  "wanted_locks sha1 device_id address infos = Inr ls \<Longrightarrow> l \<in> set ls \<Longrightarrow>
     \<exists>info \<in> set infos. wanted_lock sha1 device_id address info = Inr (Some l)"
  by (induction infos arbitrary: ls) (auto simp: bindE_eq_Inr split: option.splits)

lemma wanted_locks_all:
  "wanted_locks sha1 device_id address infos = Inr ls \<Longrightarrow> info \<in> set infos \<Longrightarrow>
     wanted_lock sha1 device_id address info = Inr (Some l) \<Longrightarrow> l \<in> set ls"
  by (induction infos arbitrary: ls) (auto simp: bindE_eq_Inr)

lemma advertised_Some:
  "advertised sha1 device_id address infos = Some l \<Longrightarrow>
     \<exists>info \<in> set infos. wanted_lock sha1 device_id address info = Inr (Some l)"
  by (induction infos) (auto split: sum.splits option.splits)

text \<open>
  The lock found is the lock wanted. It was heard, it has the wanted id, or none at all
  when a factory-reset lock is wanted, and the wanted address in any letter case; and when two
  wanted locks are known at different addresses none is picked.
\<close>

theorem find_lock_wanted:
  "find_lock sha1 loaded held arriving timeout device_id address = r \<Longrightarrow>
     (r = Inr l \<longrightarrow> loaded \<and> wanted_ad sha1 device_id (fl_advertisement l)
        \<and> (\<exists>info \<in> set (held @ arriving). sv_address info = fl_address l)
        \<and> (\<forall>a. address = Some a \<longrightarrow> same_address (fl_address l) a))
   \<and> (i \<in> set held \<and> j \<in> set held \<and> sv_address i \<noteq> sv_address j
        \<and> wanted_lock sha1 device_id address i = Inr (Some l1)
        \<and> wanted_lock sha1 device_id address j = Inr (Some l2) \<longrightarrow> (\<exists>e. r = Inl e))"
proof (rule conjI; (intro impI)?)
  assume r: "find_lock sha1 loaded held arriving timeout device_id address = r"
  {
    assume l: "r = Inr l"
    obtain known where known: "discovered_locks sha1 loaded held device_id address = Inr known"
      using r l by (cases "discovered_locks sha1 loaded held device_id address") (auto simp: find_lock_def)
    then have "known = [l] \<or> known = [] \<and> advertised sha1 device_id address arriving = Some l"
      using r l by (cases known; cases "tl known") (auto simp: find_lock_def split: option.splits)
    note known = known this
    from known have "\<exists>info \<in> set (held @ arriving). wanted_lock sha1 device_id address info = Inr (Some l)"
      using advertised_Some by (fastforce simp: discovered_locks_def bindE_eq_Inr dest: wanted_locks_each)
    moreover have loaded using known(1) by (auto simp: discovered_locks_def require_bluetooth_def bindE_eq_Inr)
    ultimately show "loaded \<and> wanted_ad sha1 device_id (fl_advertisement l)
        \<and> (\<exists>info \<in> set (held @ arriving). sv_address info = fl_address l)
        \<and> (\<forall>a. address = Some a \<longrightarrow> same_address (fl_address l) a)"
      using wanted_lock_Some by metis
  }
  assume two: "i \<in> set held \<and> j \<in> set held \<and> sv_address i \<noteq> sv_address j
        \<and> wanted_lock sha1 device_id address i = Inr (Some l1)
        \<and> wanted_lock sha1 device_id address j = Inr (Some l2)"
  then have "l1 \<noteq> l2" using wanted_lock_Some [of sha1 device_id address] by metis
  show "\<exists>e. r = Inl e"
  proof (cases "discovered_locks sha1 loaded held device_id address")
    case (Inl e)
    then show ?thesis using r by (auto simp: find_lock_def)
  next
    case (Inr known)
    then have "l1 \<in> set known" "l2 \<in> set known"
      using two wanted_locks_all by (auto simp: discovered_locks_def bindE_eq_Inr)
    then obtain a b others where "known = a # b # others"
      using \<open>l1 \<noteq> l2\<close> by (cases known; cases "tl known") auto
    then show ?thesis using r Inr by (auto simp: find_lock_def)
  qed
qed

definition bluetooth_example :: service_info where
  "bluetooth_example = \<lparr>sv_address = ''F4:CE'', sv_name = '''', sv_rssi = -60, sv_data = Some [0, 0, 1, 2, 3, 4, 5, 6]\<rparr>"

theorem find_lock_wanted_witness:
  "\<exists>l. find_lock (\<lambda>x. x) True [bluetooth_example] [] 30 None (Some ''f4:ce'') = Inr l
     \<and> wanted_ad (\<lambda>x. x) None (fl_advertisement l) \<and> fl_name l = ''F4:CE''"
proof -
  have "case find_lock (\<lambda>x. x) True [bluetooth_example] [] 30 None (Some ''f4:ce'') of
      Inr l \<Rightarrow> fl_name l = ''F4:CE'' | Inl e \<Rightarrow> False" by code_simp
  then obtain l where l: "find_lock (\<lambda>x. x) True [bluetooth_example] [] 30 None (Some ''f4:ce'') = Inr l"
    "fl_name l = ''F4:CE''" by (auto split: sum.splits)
  then show ?thesis using find_lock_wanted [OF l(1), of l] by auto
qed

text \<open>The enrolled lock is recognised by what it advertises: a lock with the id, whatever its seed.\<close>

lemma enrolled_lock_wanted:
  assumes "length seed = 2" "seed \<noteq> [0, 0]" "length device_id = 6" "\<And>x. length (sha1 x) = 20"
    and "sv_data info = Some (seed @ take 6 (sha1 (seed @ device_id)) @ more_data)"
  shows "\<exists>l. wanted_lock sha1 (Some device_id) None info = Inr (Some l) \<and> fl_address l = sv_address info"
proof -
  obtain a where "parse_advertisement (seed @ take 6 (sha1 (seed @ device_id)) @ more_data) = Inr a"
    "ad_matches sha1 a device_id = Inr True"
    using advertisement_recognises [of seed device_id sha1 more_data, OF assms(1,3,4)] assms(2) by auto
  then show ?thesis
    by (simp add: wanted_lock_def lock_advertisement_def assms(5) is_wanted_def found_of_def)
qed

end
