(* ===== verification/Bleak_Transport.thy ===== *)
theory Bleak_Transport
  imports Ble_Errors "HOL-Library.List_Lexorder" "HOL-Library.Char_ord"
begin

text \<open>
  \<^verbatim>\<open>client/transport.py\<close> and \<^verbatim>\<open>client/bleak_transport.py\<close>: a lock's link over a bleak client. A
  method that awaits the client is two functions, what runs before the await and what runs
  after it, since the client may report the loss of the link in between. Whether the client is
  connected, its services and how a call ended are arguments.
\<close>

section \<open>The write type\<close>

definition list_repr :: "string list \<Rightarrow> string" where
  "list_repr xs = ''['' @ concat (map (\<lambda>(i, x). (if i = 0 then '''' else '', '') @ [CHR 0x27] @ x @ [CHR 0x27])
                        (zip [0..<length xs] xs)) @ '']''"

definition write_with_response :: "string list \<Rightarrow> bool res" where
  "write_with_response properties =
     (if ''write-without-response'' \<in> set properties then Inr False
      else if ''write'' \<in> set properties then Inr True
      else Inl (BleError (''The communication characteristic cannot be written (properties: ''
             @ list_repr (sort (remdups properties)) @ '')'', [])))"

section \<open>The transport\<close>

record bleak_transport =
  bk_characteristic :: bool
  bk_with_response :: bool
  bk_callbacks :: bool
  bk_subscribed :: bool
  bk_link_lost :: bool
  bk_closed :: bool

definition bleak_transport_init :: "bool \<Rightarrow> bleak_transport res" where
  "bleak_transport_init connected =
     (if \<not> connected then Inl (BleDisconnectedError (''The bleak client is not connected'', []))
      else Inr \<lparr>bk_characteristic = False, bk_with_response = True, bk_callbacks = False,
                bk_subscribed = False, bk_link_lost = False, bk_closed = False\<rparr>)"

text \<open>A failed client call: a timeout, one of the errors bleak raises with its text, or any other.\<close>

datatype client_failure = CallTimeout | CallFailed string | CallRaises string

definition bleak_connect :: "client_failure option \<Rightarrow> bool \<Rightarrow> int \<Rightarrow> bleak_transport res" where
  "bleak_connect failure connected timeout =
     (case failure of
        Some CallTimeout \<Rightarrow> Inl (BleTimeoutError (''Connecting to the lock timed out after {} s'', [timeout]))
      | Some (CallFailed text) \<Rightarrow> Inl (BleError (''Connecting to the lock failed: '' @ text, []))
      | Some (CallRaises text) \<Rightarrow> Inl (PyException text)
      | None \<Rightarrow> bleak_transport_init connected)"

definition check_open :: "bleak_transport \<Rightarrow> unit res" where
  "check_open t =
     (if bk_closed t then Inl (BleDisconnectedError (''The transport is closed'', []))
      else if bk_link_lost t then Inl (BleDisconnectedError (''The lock disconnected'', []))
      else Inr ())"

definition call_failed :: "bleak_transport \<Rightarrow> bool \<Rightarrow> string \<Rightarrow> string \<Rightarrow> ble_error" where
  "call_failed t connected action text =
     (if bk_link_lost t \<or> \<not> connected
      then BleDisconnectedError (action @ '' failed, the lock disconnected: '' @ text, [])
      else BleError (action @ '' failed: '' @ text, []))"

text \<open>The end of an awaited call: its failure as the transport raises it.\<close>

definition call_ended ::
  "bleak_transport \<Rightarrow> bool \<Rightarrow> string \<Rightarrow> string \<Rightarrow> client_failure + 'a \<Rightarrow> 'a res" where
  "call_ended t connected action timed_out r =
     (case r of
        Inr x \<Rightarrow> Inr x
      | Inl CallTimeout \<Rightarrow> Inl (BleTimeoutError (timed_out, []))
      | Inl (CallFailed text) \<Rightarrow> Inl (call_failed t connected action text)
      | Inl (CallRaises text) \<Rightarrow> Inl (PyException text))"

definition read_revision_end :: "bleak_transport \<Rightarrow> bool \<Rightarrow> client_failure + bytes \<Rightarrow> bytes res" where
  "read_revision_end t connected r =
     call_ended t connected ''Reading the software revision'' ''Reading the software revision timed out'' r"

text \<open>The client's services: not discovered, without the characteristic, or with its properties.\<close>

datatype gatt_lookup = ServicesUnknown string | NoCharacteristic | Characteristic "string list"

definition communication_characteristic ::
  "bleak_transport \<Rightarrow> gatt_lookup \<Rightarrow> bleak_transport \<times> unit res" where
  "communication_characteristic t lookup =
     (if bk_characteristic t then (t, Inr ())
      else case lookup of
        ServicesUnknown text \<Rightarrow> (t, Inl (BleError (''The lock's GATT services are not known: '' @ text, [])))
      | NoCharacteristic \<Rightarrow>
          (t, Inl (BleError (''The lock has no communication characteristic; is it a Nimly/Onesti lock?'', [])))
      | Characteristic properties \<Rightarrow>
          (case write_with_response properties of
             Inl e \<Rightarrow> (t, Inl e)
           | Inr flag \<Rightarrow> (t\<lparr>bk_with_response := flag, bk_characteristic := True\<rparr>, Inr ())))"

definition start_notify_begin :: "bleak_transport \<Rightarrow> gatt_lookup \<Rightarrow> bleak_transport \<times> unit res" where
  "start_notify_begin t lookup =
     (case check_open t of
        Inl e \<Rightarrow> (t, Inl e)
      | Inr _ \<Rightarrow>
          (let (t, r) = communication_characteristic t lookup
           in case r of Inl e \<Rightarrow> (t, Inl e) | Inr _ \<Rightarrow> (t\<lparr>bk_callbacks := True\<rparr>, Inr ())))"

definition start_notify_end :: "bleak_transport \<Rightarrow> bool \<Rightarrow> client_failure + unit \<Rightarrow> bleak_transport \<times> unit res" where
  "start_notify_end t connected r =
     (case call_ended t connected ''Subscribing to the lock'' ''Subscribing to the lock timed out'' r of
        Inl e \<Rightarrow> (t, Inl e) | Inr _ \<Rightarrow> (t\<lparr>bk_subscribed := True\<rparr>, Inr ()))"

text \<open>\<open>Inr flag\<close>: the client is asked to write, with a response or without.\<close>

definition write_begin :: "bleak_transport \<Rightarrow> gatt_lookup \<Rightarrow> bleak_transport \<times> bool res" where
  "write_begin t lookup =
     (case check_open t of
        Inl e \<Rightarrow> (t, Inl e)
      | Inr _ \<Rightarrow>
          (let (t, r) = communication_characteristic t lookup
           in case r of Inl e \<Rightarrow> (t, Inl e) | Inr _ \<Rightarrow> (t, Inr (bk_with_response t))))"

definition write_done :: "bleak_transport \<Rightarrow> bool \<Rightarrow> client_failure + unit \<Rightarrow> unit res" where
  "write_done t connected r = call_ended t connected ''Writing to the lock'' ''Writing to the lock timed out'' r"

text \<open>The flag is whether the session's callback is called.\<close>

definition client_disconnected :: "bleak_transport \<Rightarrow> bleak_transport \<times> bool" where
  "client_disconnected t =
     (if bk_closed t \<or> bk_link_lost t then (t, False) else (t\<lparr>bk_link_lost := True\<rparr>, bk_callbacks t))"

definition notified :: "bleak_transport \<Rightarrow> bytes \<Rightarrow> bytes option" where
  "notified t data = (if bk_closed t \<or> \<not> bk_callbacks t then None else Some data)"

datatype client_call = StopNotify | Disconnect

text \<open>Closing: the client calls it makes, whose failures are only logged.\<close>

definition close_transport :: "bleak_transport \<Rightarrow> bool \<Rightarrow> bleak_transport \<times> client_call list" where
  "close_transport t connected =
     (if bk_closed t then (t, [])
      else (t\<lparr>bk_closed := True\<rparr>,
            if \<not> connected then []
            else (if bk_subscribed t \<and> bk_characteristic t then [StopNotify] else []) @ [Disconnect]))"

text \<open>
  \<^verbatim>\<open>_DisconnectRelay\<close> of \<^verbatim>\<open>bluetooth.py\<close>, and the closure of \<^verbatim>\<open>connect\<close>: the client's callback,
  to the transport once there is one.
\<close>

definition disconnect_relay :: "bleak_transport option \<Rightarrow> bleak_transport option \<times> bool" where
  "disconnect_relay t =
     (case t of None \<Rightarrow> (None, False) | Some t \<Rightarrow> (let (t, called) = client_disconnected t in (Some t, called)))"

section \<open>Runs\<close>

datatype link_event =
    Delivered bytes
  | LossReported
  | WriteAsked bytes bool
  | TransportClosed

inductive link_step :: "bleak_transport \<times> link_event list \<Rightarrow> bleak_transport \<times> link_event list \<Rightarrow> bool" where
  link_lost: "client_disconnected t = (t', called) \<Longrightarrow>
    link_step (t, tr) (t', tr @ (if called then [LossReported] else []))"
| notification: "notified t data = Some data' \<Longrightarrow> link_step (t, tr) (t, tr @ [Delivered data'])"
| subscribing: "start_notify_begin t lookup = (t', r) \<Longrightarrow> link_step (t, tr) (t', tr)"
| subscribed: "start_notify_end t connected r = (t', r') \<Longrightarrow> link_step (t, tr) (t', tr)"
| write_refused: "write_begin t lookup = (t', Inl e) \<Longrightarrow> link_step (t, tr) (t', tr)"
| write_asked: "write_begin t lookup = (t', Inr flag) \<Longrightarrow> link_step (t, tr) (t', tr @ [WriteAsked data flag])"
| closing: "close_transport t connected = (t', calls) \<Longrightarrow> \<not> bk_closed t \<Longrightarrow>
    link_step (t, tr) (t', tr @ [TransportClosed])"

inductive_cases link_stepE: "link_step x y"

definition link_start :: "bool \<Rightarrow> bleak_transport \<times> link_event list \<Rightarrow> bool" where
  "link_start connected x \<longleftrightarrow> bleak_transport_init connected = Inr (fst x) \<and> snd x = []"

section \<open>Properties\<close>

lemma check_open_Inr [simp]: "check_open t = Inr u \<longleftrightarrow> \<not> bk_closed t \<and> \<not> bk_link_lost t"
  by (simp add: check_open_def)

lemma characteristic_keeps:
  "communication_characteristic t lookup = (t', r) \<Longrightarrow>
     bk_closed t' = bk_closed t \<and> bk_link_lost t' = bk_link_lost t"
  by (auto simp: communication_characteristic_def split: if_splits gatt_lookup.splits sum.splits)

lemma begin_keeps:
  "start_notify_begin t lookup = (t', r) \<Longrightarrow> bk_closed t' = bk_closed t \<and> bk_link_lost t' = bk_link_lost t"
  "write_begin t lookup = (t', r') \<Longrightarrow> bk_closed t' = bk_closed t \<and> bk_link_lost t' = bk_link_lost t"
  "start_notify_end t connected e = (t', r) \<Longrightarrow> bk_closed t' = bk_closed t \<and> bk_link_lost t' = bk_link_lost t"
  by (auto simp: start_notify_begin_def write_begin_def start_notify_end_def
      split: sum.splits prod.splits dest: characteristic_keeps)

lemma write_begin_open: "write_begin t lookup = (t', Inr flag) \<Longrightarrow> \<not> bk_closed t \<and> \<not> bk_link_lost t"
  by (auto simp: write_begin_def split: sum.splits)

text \<open>What may follow an event in a trace.\<close>

definition follows :: "link_event \<Rightarrow> link_event \<Rightarrow> bool" where
  "follows e f \<longleftrightarrow> e \<noteq> TransportClosed
     \<and> (e = LossReported \<longrightarrow> f \<noteq> LossReported \<and> (\<forall>d b. f \<noteq> WriteAsked d b))"

fun well_ordered :: "link_event list \<Rightarrow> bool" where
  "well_ordered [] = True"
| "well_ordered (e # es) = (list_all (follows e) es \<and> well_ordered es)"

lemma well_ordered_snoc: "well_ordered (es @ [f]) = (well_ordered es \<and> (\<forall>e \<in> set es. follows e f))"
  by (induction es) (auto simp: list_all_iff)

definition link_inv :: "bleak_transport \<times> link_event list \<Rightarrow> bool" where
  "link_inv x \<longleftrightarrow> well_ordered (snd x)
     \<and> (TransportClosed \<in> set (snd x) \<longrightarrow> bk_closed (fst x)) \<and> (LossReported \<in> set (snd x) \<longrightarrow> bk_link_lost (fst x))"

lemma link_inv_step:
  assumes "link_inv x" "link_step x y"
  shows "link_inv y"
  using assms(2,1)
proof cases
  case (link_lost t t' called tr)
  then show ?thesis using assms(1)
    by (auto simp: link_inv_def client_disconnected_def well_ordered_snoc follows_def split: if_splits)
next
  case (notification t data data' tr)
  then show ?thesis using assms(1)
    by (auto simp: link_inv_def notified_def well_ordered_snoc follows_def split: if_splits)
next
  case (write_asked t lookup t' flag tr data)
  then show ?thesis using assms(1) begin_keeps(2) write_begin_open
    by (fastforce simp: link_inv_def well_ordered_snoc follows_def)
next
  case (closing t connected t' calls tr)
  then show ?thesis using assms(1)
    by (auto simp: link_inv_def close_transport_def well_ordered_snoc follows_def)
qed (auto simp: link_inv_def dest: begin_keeps)

interpretation link_machine: state_machine "link_start connected" link_step link_inv
proof
  show "link_start connected x \<Longrightarrow> link_inv x" for x by (simp add: link_start_def link_inv_def)
qed (rule link_inv_step)

text \<open>
  C19: what a session may rely on. However bleak's callbacks, the session's calls and the
  close interleave: the loss of the link is reported at most once, and nothing is written
  after it; after the close there is neither a notification, nor a report, nor a write.
\<close>

theorem transport_contract:
  assumes "reach (link_start connected) link_step (t, tr)" "tr = before @ e # after"
  shows "(e = TransportClosed \<longrightarrow> after = [])
    \<and> (e = LossReported \<longrightarrow> LossReported \<notin> set after \<and> (\<forall>d b. WriteAsked d b \<notin> set after))"
proof -
  have "link_inv (t, tr)" using assms(1) by (rule link_machine.reach_inv)
  then have "list_all (follows e) after"
    unfolding assms(2) link_inv_def snd_conv by (induction before) auto
  then show ?thesis by (cases "after") (auto simp: follows_def list_all_iff)
qed

theorem transport_contract_witness:
  "\<exists>t. reach (link_start True) link_step (t, [LossReported, TransportClosed])
     \<and> LossReported \<notin> set [TransportClosed]"
proof -
  obtain t0 where t0: "bleak_transport_init True = Inr t0" "\<not> bk_closed t0" "\<not> bk_link_lost t0" "\<not> bk_characteristic t0"
    by (simp add: bleak_transport_init_def)
  let ?t1 = "t0\<lparr>bk_with_response := False, bk_characteristic := True, bk_callbacks := True\<rparr>"
  let ?t2 = "?t1\<lparr>bk_link_lost := True\<rparr>" and ?look = "Characteristic [''write-without-response'']"
  have "reach (link_start True) link_step (t0, [])" by (rule reach.reach_start) (simp add: link_start_def t0(1))
  moreover have "start_notify_begin t0 ?look = (?t1, Inr ())"
    using t0(2-4) by (simp add: start_notify_begin_def check_open_def communication_characteristic_def
        write_with_response_def)
  ultimately have "reach (link_start True) link_step (?t1, [])"
    by (blast intro: reach.reach_step link_step.subscribing)
  moreover have "client_disconnected ?t1 = (?t2, True)" using t0(2,3) by (simp add: client_disconnected_def)
  ultimately have "reach (link_start True) link_step (?t2, [LossReported])"
    using link_step.link_lost [of ?t1 ?t2 True "[]"] by (auto intro: reach.reach_step)
  moreover have "close_transport ?t2 False = (?t2\<lparr>bk_closed := True\<rparr>, [])" "\<not> bk_closed ?t2"
    using t0(2) by (simp_all add: close_transport_def)
  ultimately have r: "reach (link_start True) link_step (?t2\<lparr>bk_closed := True\<rparr>, [LossReported, TransportClosed])"
    using link_step.closing [of ?t2 False "?t2\<lparr>bk_closed := True\<rparr>" "[]" "[LossReported]"]
    by (auto intro: reach.reach_step)
  from transport_contract [OF r, of "[]" LossReported "[TransportClosed]"] r show ?thesis by auto
qed

text \<open>Every failure of a method is a BleError, but for an exception the client is not known to raise.\<close>

lemma call_errors:
  "call_ended t connected action timed_out r = Inl e \<Longrightarrow> is_ble_error e \<or> (\<exists>text. r = Inl (CallRaises text))"
  "call_ended t connected action timed_out (Inl (CallFailed text)) = Inl e \<Longrightarrow>
     bk_link_lost t \<or> \<not> connected \<longleftrightarrow> (\<exists>m. e = BleDisconnectedError m)"
  by (auto simp: call_ended_def call_failed_def is_ble_error_def split: sum.splits client_failure.splits)

text \<open>A loss in the gap before the transport is built: the relay has nobody to tell, and the build is refused.\<close>

lemma loss_before_transport:
  "disconnect_relay None = (None, False)" "\<exists>m. bleak_transport_init False = Inl (BleDisconnectedError m)"
  by (simp_all add: disconnect_relay_def bleak_transport_init_def)

end
