(* ===== verification/Release_Notes.thy ===== *)
theory Release_Notes
  imports Py_Text Prelude
begin

text \<open>
  \<^verbatim>\<open>scripts/release_notes.py\<close>: the note of a version, cut out of the changelog. A regular
  expression of the script is a function on the text it is tried at. The files of the
  repository are the record \<open>note_repo\<close>.
\<close>

section \<open>Sections\<close>

definition NOTES_TRIAL_VERSION :: string where "NOTES_TRIAL_VERSION = ''0.0.0''"
definition ACTION_NAME :: string where "ACTION_NAME = ''Action required''"
definition MARKER_TEXT :: string where "MARKER_TEXT = ''<!--short-->''"

datatype notes_error =
    DeadLinkError "string list"
  | EmptyActionError string string
  | UnmarkedError string
  | UndatedError string string string

text \<open>\<^verbatim>\<open>SECTION.match(line)\<close>: the version and what stands after the dash.\<close>

definition section_match :: "string \<Rightarrow> (string \<times> string option) option" where
  "section_match line =
     (case after_prefix ''## ['' line of
        None \<Rightarrow> None
      | Some r \<Rightarrow>
          (let version = takeWhile (\<lambda>c. c \<noteq> CHR '']'') r; rest = dropWhile (\<lambda>c. c \<noteq> CHR '']'') r
           in if version = [] \<or> rest = [] then None
              else case lstrip_by is_space (tl rest) of
                  [] \<Rightarrow> Some (version, None)
                | c # s \<Rightarrow> if c = CHR ''-'' \<and> str_strip s \<noteq> [] then Some (version, Some (str_strip s)) else None))"

text \<open>\<^verbatim>\<open>RELEASE_DATE.match(found)\<close> for a text without white space at its end.\<close>

definition is_release_date :: "string \<Rightarrow> bool" where
  "is_release_date s \<longleftrightarrow> length s = 10 \<and> s ! 4 = CHR ''-'' \<and> s ! 7 = CHR ''-''
     \<and> list_all is_decimal (take 4 s @ take 2 (drop 5 s) @ drop 8 s)"

definition is_section :: "string \<Rightarrow> bool" where
  "is_section line \<longleftrightarrow> section_match line \<noteq> None"

definition heads_version :: "string \<Rightarrow> string \<Rightarrow> bool" where
  "heads_version version line \<longleftrightarrow> map_option fst (section_match line) = Some version"

definition find_section :: "string \<Rightarrow> string \<Rightarrow> string option" where
  "find_section changelog version =
     (case dropWhile (\<lambda>l. \<not> heads_version version l) (str_splitlines changelog) of
        [] \<Rightarrow> None
      | _ # rest \<Rightarrow>
          (let text = strip_by (\<lambda>c. c = newline) (join_lines (takeWhile (\<lambda>l. \<not> is_section l) rest))
           in if is_blank text then None else Some text))"

definition known_versions :: "string \<Rightarrow> string list" where
  "known_versions changelog = List.map_filter (\<lambda>l. map_option fst (section_match l)) (str_splitlines changelog)"

definition previous_version :: "string \<Rightarrow> string \<Rightarrow> string option" where
  "previous_version changelog version =
     (case dropWhile (\<lambda>v. v \<noteq> version) (known_versions changelog) of
        _ # previous # _ \<Rightarrow> Some previous
      | _ \<Rightarrow> None)"

definition is_in_progress :: "string \<Rightarrow> string \<Rightarrow> bool" where
  "is_in_progress changelog version =
     (case known_versions changelog of [] \<Rightarrow> False | v # _ \<Rightarrow> v = version)"

definition section_heading :: "string \<Rightarrow> string \<Rightarrow> string option" where
  "section_heading changelog version = find (heads_version version) (str_splitlines changelog)"

text \<open>\<^verbatim>\<open>(match.group("date") or "").strip()\<close>\<close>

definition heading_date :: "string \<Rightarrow> string" where
  "heading_date line = (case section_match line of Some (_, Some d) \<Rightarrow> str_strip d | _ \<Rightarrow> '''')"

definition section_date :: "string \<Rightarrow> string \<Rightarrow> string option" where
  "section_date changelog version =
     (case section_heading changelog version of
        None \<Rightarrow> None
      | Some line \<Rightarrow> if heading_date line = [] then None else Some (heading_date line))"

definition require_release_date :: "string \<Rightarrow> string \<Rightarrow> notes_error + unit" where
  "require_release_date changelog version =
     (if version = NOTES_TRIAL_VERSION then Inr ()
      else case section_heading changelog version of
        None \<Rightarrow> Inr ()
      | Some line \<Rightarrow>
          if is_release_date (heading_date line) then Inr ()
          else Inl (UndatedError version (str_strip line) (heading_date line)))"

section \<open>Links\<close>

text \<open>
  \<open>nr_file\<close> takes a path of the changelog to the path of the file relative to the root, None
  when it leads out of the root or to nothing.
\<close>

record note_repo =
  nr_url :: string
  nr_file :: "string \<Rightarrow> string option"

definition is_letter :: "char \<Rightarrow> bool" where
  "is_letter c \<longleftrightarrow> (let n = code_point c in 65 \<le> n \<and> n \<le> 90 \<or> 97 \<le> n \<and> n \<le> 122)"

text \<open>\<^verbatim>\<open>ABSOLUTE.match(target)\<close>\<close>

definition is_absolute :: "string \<Rightarrow> bool" where
  "is_absolute target \<longleftrightarrow>
     (case target of
        [] \<Rightarrow> False
      | c # cs \<Rightarrow>
          is_letter c \<and> (case dropWhile (\<lambda>x. is_letter x \<or> is_decimal x \<or> x \<in> set ''+.-'') cs of
                              [] \<Rightarrow> False | d # _ \<Rightarrow> d = CHR '':'')
          \<or> take 2 target = ''//'')"

definition upper_hex_digit :: "nat \<Rightarrow> char" where
  "upper_hex_digit n = char_of (if n < 10 then 48 + n else 55 + n)"

text \<open>\<^verbatim>\<open>urllib.parse.quote\<close>: what is not safe is escaped byte by byte of its UTF-8 form.\<close>

definition percent :: "nat \<Rightarrow> string" where
  "percent n = [CHR ''%'', upper_hex_digit (n div 16), upper_hex_digit (n mod 16)]"

definition url_quote :: "string \<Rightarrow> string" where
  "url_quote s = concat (map (\<lambda>c. let n = code_point c in
     if is_letter c \<or> is_decimal c \<or> c \<in> set ''_.-~/'' then [c]
     else if n < 128 then percent n else percent (192 + n div 64) @ percent (128 + n mod 64)) s)"

text \<open>\<^verbatim>\<open>_absolute_url\<close>: the new target, and what it adds to \<^verbatim>\<open>dead\<close>.\<close>

definition absolute_url :: "note_repo \<Rightarrow> string \<Rightarrow> string \<Rightarrow> string \<times> string list" where
  "absolute_url repo tag target =
     (if is_absolute target then (target, [])
      else if take 1 target = ''#''
      then (nr_url repo @ ''/blob/'' @ tag @ ''/CHANGELOG.md'' @ target, [])
      else let (path, anchor) = str_partition (CHR ''#'') target; path = remove_prefix ''./'' path
           in if path = [] then (target, [target])
              else case nr_file repo path of
                  None \<Rightarrow> (target, [target])
                | Some relative \<Rightarrow>
                    (let url = nr_url repo @ ''/blob/'' @ tag @ ''/'' @ url_quote relative
                     in (if anchor = [] then url else url @ ''#'' @ anchor, [])))"

definition new_target :: "note_repo \<Rightarrow> string \<Rightarrow> bool \<Rightarrow> string \<Rightarrow> string \<times> string list" where
  "new_target repo tag angle target =
     (let (url, dead) = absolute_url repo tag target
      in (if angle \<and> url = target then ''<'' @ target @ ''>'' else url, dead))"

text \<open>A target in angle brackets, and the text after it.\<close>

definition angle_target :: "string \<Rightarrow> (string \<times> string) option" where
  "angle_target s =
     (case s of
        [] \<Rightarrow> None
      | c # cs \<Rightarrow>
          if c \<noteq> CHR ''<'' then None
          else let stop = (\<lambda>x. x \<in> {CHR ''<'', CHR ''>'', newline})
               in case dropWhile (\<lambda>x. \<not> stop x) cs of
                    [] \<Rightarrow> None
                  | d # r \<Rightarrow> if d = CHR ''>'' then Some (takeWhile (\<lambda>x. \<not> stop x) cs, r) else None)"

text \<open>A title between one and another character after white space, and the text after it.\<close>

definition quoted_title :: "(char \<Rightarrow> bool) \<Rightarrow> (char \<Rightarrow> bool) \<Rightarrow> char \<Rightarrow> char \<Rightarrow> string \<Rightarrow> (string \<times> string) option" where
  "quoted_title space inner open close s =
     (case dropWhile space s of
        [] \<Rightarrow> None
      | c # cs \<Rightarrow>
          if takeWhile space s = [] \<or> c \<noteq> open then None
          else case dropWhile inner cs of
              [] \<Rightarrow> None
            | d # r \<Rightarrow> if d = close then Some (takeWhile space s @ [open] @ takeWhile inner cs @ [close], r) else None)"

definition link_close :: "string \<Rightarrow> (string \<times> string) option" where
  "link_close s =
     (let (title, r) = (case quoted_title is_space (\<lambda>c. c \<noteq> CHR 0x22) (CHR 0x22) (CHR 0x22) s of
                          None \<Rightarrow> ([], s) | Some x \<Rightarrow> x)
      in case r of [] \<Rightarrow> None | c # r' \<Rightarrow> if c = CHR '')'' then Some (title, r') else None)"

text \<open>
  \<^verbatim>\<open>LINK\<close> after its opening: whether the target is in brackets, the target, the title and the
  text after the link. The plain form is tried when the bracketed one does not match.
\<close>

definition link_match :: "string \<Rightarrow> (bool \<times> string \<times> string \<times> string) option" where
  "link_match s =
     (let plain = (let p = takeWhile (\<lambda>c. c \<noteq> CHR '')'' \<and> \<not> is_space c) s
                   in if p = [] then None
                      else map_option (\<lambda>(title, r). (False, p, title, r)) (link_close (drop (length p) s)))
      in case angle_target s of
           None \<Rightarrow> plain
         | Some (a, r) \<Rightarrow> (case link_close r of None \<Rightarrow> plain | Some (title, r') \<Rightarrow> Some (True, a, title, r')))"

definition is_blank_char :: "char \<Rightarrow> bool" where
  "is_blank_char c \<longleftrightarrow> c = CHR '' '' \<or> c = CHR 0x09"

text \<open>The end of a reference definition: the title, and the text from the end of the line.\<close>

definition line_end :: "string \<Rightarrow> string option" where
  "line_end s = (case dropWhile is_blank_char s of
     [] \<Rightarrow> Some [] | c # r \<Rightarrow> if c = newline then Some (c # r) else None)"

definition reference_title :: "string \<Rightarrow> (string \<times> string) option" where
  "reference_title s =
     (let title = (\<lambda>open close. quoted_title is_blank_char (\<lambda>c. c \<noteq> close \<and> c \<noteq> newline) open close s)
      in case title (CHR 0x22) (CHR 0x22) of
           Some x \<Rightarrow> Some x
         | None \<Rightarrow> (case title (CHR 0x27) (CHR 0x27) of
               Some x \<Rightarrow> Some x
             | None \<Rightarrow> title (CHR ''('') (CHR '')'')))"

definition reference_close :: "string \<Rightarrow> (string \<times> string) option" where
  "reference_close s =
     (case reference_title s of
        Some (title, r) \<Rightarrow>
          (case line_end r of Some e \<Rightarrow> Some (title, e) | None \<Rightarrow> map_option (\<lambda>e. ([], e)) (line_end s))
      | None \<Rightarrow> map_option (\<lambda>e. ([], e)) (line_end s))"

text \<open>\<^verbatim>\<open>REFERENCE\<close> at the start of a line: what stands before the target, then as in a link.\<close>

definition reference_start :: "string \<Rightarrow> (string \<times> string) option" where
  "reference_start s =
     (let space = takeWhile is_space s
      in case dropWhile is_space s of
           [] \<Rightarrow> None
         | c # cs \<Rightarrow>
             (let inner = (\<lambda>x. x \<noteq> CHR '']'' \<and> x \<noteq> newline); label = takeWhile inner cs
              in if 3 < length space \<or> c \<noteq> CHR ''['' \<or> label = [] then None
                 else case after_prefix '']:'' (dropWhile inner cs) of
                     None \<Rightarrow> None
                   | Some r \<Rightarrow> Some (space @ [c] @ label @ '']:'' @ takeWhile is_blank_char r, dropWhile is_blank_char r)))"

definition reference_match :: "string \<Rightarrow> (string \<times> bool \<times> string \<times> string \<times> string) option" where
  "reference_match s =
     (case reference_start s of
        None \<Rightarrow> None
      | Some (pre, s) \<Rightarrow>
          (let plain = (let p = takeWhile (\<lambda>c. \<not> is_space c) s
                        in if p = [] then None
                           else map_option (\<lambda>(title, r). (pre, False, p, title, r)) (reference_close (drop (length p) s)))
           in case angle_target s of
                None \<Rightarrow> plain
              | Some (a, r) \<Rightarrow>
                  (case reference_close r of None \<Rightarrow> plain | Some (title, r') \<Rightarrow> Some (pre, True, a, title, r'))))"

lemma dropWhile_le: "length (dropWhile p s) \<le> length s"
  by (rule length_dropWhile_le)

lemma quoted_title_less: "quoted_title space inner op cl s = Some (t, r) \<Longrightarrow> length r < length s"
  using dropWhile_le [of space s] dropWhile_le [of inner "tl (dropWhile space s)"]
  by (auto simp: quoted_title_def split: list.splits if_splits)

lemma link_close_less: "link_close s = Some (t, r) \<Longrightarrow> length r < length s"
  by (auto simp: link_close_def split: option.splits list.splits prod.splits if_splits dest: quoted_title_less)

lemma angle_target_less: "angle_target s = Some (a, r) \<Longrightarrow> length r < length s"
  using dropWhile_le [of "\<lambda>x. x \<notin> {CHR ''<'', CHR ''>'', newline}" "tl s"]
  by (auto simp: angle_target_def Let_def split: list.splits if_splits)

lemma link_match_less: "link_match s = Some (b, a, t, r) \<Longrightarrow> length r < length s"
  by (fastforce simp: link_match_def Let_def split: option.splits prod.splits if_splits
      dest: link_close_less angle_target_less)

lemma line_end_le:
  assumes "line_end s = Some e"
  shows "length e \<le> length s"
proof -
  have "dropWhile is_blank_char s = e"
    using assms by (cases "dropWhile is_blank_char s") (simp_all add: line_end_def split: if_splits)
  then show ?thesis using dropWhile_le by metis
qed

lemma reference_title_less: "reference_title s = Some (t, r) \<Longrightarrow> length r < length s"
  by (auto simp: reference_title_def Let_def split: option.splits dest: quoted_title_less)

lemma reference_close_le: "reference_close s = Some (t, r) \<Longrightarrow> length r \<le> length s"
  by (fastforce simp: reference_close_def split: option.splits dest: reference_title_less line_end_le)

lemma reference_start_less:
  assumes "reference_start s = Some (p, r)"
  shows "length r < length s"
proof -
  obtain c cs where c: "dropWhile is_space s = c # cs"
    using assms by (cases "dropWhile is_space s") (simp_all add: reference_start_def)
  let ?inner = "\<lambda>x. x \<noteq> CHR '']'' \<and> x \<noteq> newline"
  obtain r' where r': "after_prefix '']:'' (dropWhile ?inner cs) = Some r'" "r = dropWhile is_blank_char r'"
    using assms c by (auto simp: reference_start_def Let_def split: if_splits option.splits)
  have "length r \<le> length r'" using r'(2) dropWhile_le by simp
  moreover have "length r' + 2 = length (dropWhile ?inner cs)" using after_prefix_length [OF r'(1)] by simp
  moreover have "length (dropWhile ?inner cs) \<le> length cs" by (rule dropWhile_le)
  moreover have "length (c # cs) \<le> length s" using dropWhile_le [of is_space s] c by simp
  ultimately show ?thesis by simp
qed

lemma reference_match_less: "reference_match s = Some (p, b, a, t, r) \<Longrightarrow> length r < length s"
  by (fastforce simp: reference_match_def Let_def split: option.splits prod.splits if_splits
      dest: reference_start_less reference_close_le angle_target_less)

text \<open>\<^verbatim>\<open>REFERENCE.sub\<close> and \<^verbatim>\<open>LINK.sub\<close>: the new text, and the dead targets met on the way.\<close>

function replace_references :: "(bool \<Rightarrow> string \<Rightarrow> string \<times> string list) \<Rightarrow> bool \<Rightarrow> string \<Rightarrow> string \<times> string list" where
  "replace_references f at_start s =
     (case (if at_start then reference_match s else None) of
        Some (pre, angle, target, title, r) \<Rightarrow>
          (let (url, dead) = f angle target; (out, more) = replace_references f False r
           in (pre @ url @ title @ out, dead @ more))
      | None \<Rightarrow>
          (case s of
             [] \<Rightarrow> ([], [])
           | c # cs \<Rightarrow> (let (out, dead) = replace_references f (c = newline) cs in (c # out, dead))))"
  by pat_completeness auto
termination
  by (relation "measure (\<lambda>(_, _, s). length s)") (auto split: if_splits dest: reference_match_less)

function replace_links :: "(bool \<Rightarrow> string \<Rightarrow> string \<times> string list) \<Rightarrow> string \<Rightarrow> string \<times> string list" where
  "replace_links f s =
     (case Option.bind (after_prefix '']('' s) link_match of
        Some (angle, target, title, r) \<Rightarrow>
          (let (url, dead) = f angle target; (out, more) = replace_links f r
           in ('']('' @ url @ title @ '')'' @ out, dead @ more))
      | None \<Rightarrow>
          (case s of
             [] \<Rightarrow> ([], [])
           | c # cs \<Rightarrow> (let (out, dead) = replace_links f cs in (c # out, dead))))"
  by pat_completeness auto
termination
  by (relation "measure (\<lambda>(_, s). length s)")
    (auto simp: bind_eq_Some_conv dest!: after_prefix_length link_match_less)

declare replace_references.simps [simp del] replace_links.simps [simp del]

text \<open>\<^verbatim>\<open>dict.fromkeys(dead)\<close>: the first of each.\<close>

definition from_keys :: "'a list \<Rightarrow> 'a list" where
  "from_keys xs = rev (remdups (rev xs))"

definition absolutize_links :: "note_repo \<Rightarrow> string \<Rightarrow> string \<Rightarrow> notes_error + string" where
  "absolutize_links repo version text =
     (let target = new_target repo (CHR ''v'' # version);
          (result, dead) = replace_references target True text;
          (result, more) = replace_links target result
      in if dead @ more = [] then Inr result else Inl (DeadLinkError (from_keys (dead @ more))))"

section \<open>Categories\<close>

text \<open>\<^verbatim>\<open>CATEGORY.match(line)\<close>; when only spaces follow the hashes, the last of two is the name.\<close>

definition category_match :: "string \<Rightarrow> string option" where
  "category_match line =
     (case after_prefix ''###'' line of
        None \<Rightarrow> None
      | Some r \<Rightarrow>
          (let spaces = takeWhile (\<lambda>c. c = CHR '' '') r; rest = dropWhile (\<lambda>c. c = CHR '' '') r
           in if spaces = [] then None
              else if rest = [] then (if length spaces < 2 then None else Some '' '')
              else if is_blank rest then Some (take 1 rest)
              else Some (rstrip_by is_space rest)))"

definition is_category :: "string \<Rightarrow> bool" where
  "is_category line \<longleftrightarrow> category_match line \<noteq> None"

definition is_bullet :: "string \<Rightarrow> bool" where
  "is_bullet line \<longleftrightarrow>
     (case line of
        c # d # cs \<Rightarrow> (c = CHR ''-'' \<or> c = CHR ''*'') \<and> d = CHR '' ''
          \<and> (case dropWhile (\<lambda>x. x = CHR '' '') cs of [] \<Rightarrow> False | x # _ \<Rightarrow> \<not> is_space x)
      | _ \<Rightarrow> False)"

definition is_action :: "string \<Rightarrow> bool" where
  "is_action name \<longleftrightarrow> str_casefold name = str_casefold ACTION_NAME"

definition is_action_heading :: "string \<Rightarrow> bool" where
  "is_action_heading line \<longleftrightarrow> (case category_match line of None \<Rightarrow> False | Some name \<Rightarrow> is_action name)"

definition lift_action :: "string \<Rightarrow> string \<Rightarrow> notes_error + string" where
  "lift_action text version =
     (let lines = str_splitlines text;
          front = takeWhile (\<lambda>l. \<not> is_action_heading l) lines
      in case dropWhile (\<lambda>l. \<not> is_action_heading l) lines of
           [] \<Rightarrow> Inr text
         | heading # rest \<Rightarrow>
             (let content = takeWhile (\<lambda>l. \<not> is_category l) rest;
                  after = dropWhile (\<lambda>l. \<not> is_category l) rest
              in if list_all is_blank content then Inl (EmptyActionError version (str_strip heading))
                 else if \<not> list_ex is_category front then Inr text
                 else let block = rstrip_by is_blank (heading # content);
                          lead = takeWhile (\<lambda>l. \<not> is_category l) front;
                          others = rstrip_by is_blank (dropWhile (\<lambda>l. \<not> is_category l) front @ after)
                      in Inr (strip_by (\<lambda>c. c = newline) (join_lines (lead @ block @ [''''] @ others)))))"

text \<open>The state of \<^verbatim>\<open>split_categories\<close>, its \<^verbatim>\<open>close()\<close> and the loop over the lines.\<close>

record split_state =
  sp_lead :: "string list"
  sp_categories :: "(string \<times> string list) list"
  sp_current :: "string list option"

definition add_bullet :: "string \<Rightarrow> (string \<times> string list) list \<Rightarrow> (string \<times> string list) list" where
  "add_bullet b cs = butlast cs @ [(fst (last cs), snd (last cs) @ [b])]"

definition split_close :: "split_state \<Rightarrow> split_state" where
  "split_close st =
     (case sp_current st of
        None \<Rightarrow> st
      | Some ls \<Rightarrow> st\<lparr>sp_categories := add_bullet (join_lines (rstrip_by is_blank ls)) (sp_categories st),
                      sp_current := None\<rparr>)"

definition split_line :: "split_state \<Rightarrow> string \<Rightarrow> split_state" where
  "split_line st line =
     (case category_match line of
        Some name \<Rightarrow> (let st = split_close st in st\<lparr>sp_categories := sp_categories st @ [(name, [])]\<rparr>)
      | None \<Rightarrow>
          if sp_categories st = [] then st\<lparr>sp_lead := sp_lead st @ [line]\<rparr>
          else if is_bullet line then (split_close st)\<lparr>sp_current := Some [line]\<rparr>
          else case sp_current st of
              Some ls \<Rightarrow>
                if is_blank line \<or> take 1 line = '' '' \<or> take 1 line = [CHR 0x09]
                then st\<lparr>sp_current := Some (ls @ [line])\<rparr>
                else split_close st
            | None \<Rightarrow> split_close st)"

definition split_categories :: "string \<Rightarrow> string \<times> (string \<times> string list) list" where
  "split_categories text =
     (let st = split_close (foldl split_line \<lparr>sp_lead = [], sp_categories = [], sp_current = None\<rparr> (str_splitlines text))
      in (strip_by (\<lambda>c. c = newline) (join_lines (sp_lead st)), sp_categories st))"

text \<open>\<^verbatim>\<open>MARKER\<close> at a position: the text after it.\<close>

definition marker_match :: "string \<Rightarrow> string option" where
  "marker_match s =
     (case after_prefix ''<!--'' (dropWhile is_blank_char s) of
        None \<Rightarrow> None
      | Some r \<Rightarrow>
          (case after_prefix ''short'' (dropWhile is_space r) of
             None \<Rightarrow> None
           | Some r \<Rightarrow> after_prefix ''-->'' (dropWhile is_space r)))"

lemma marker_match_less:
  assumes "marker_match s = Some r"
  shows "length r < length s"
proof -
  obtain a b where "after_prefix ''<!--'' (dropWhile is_blank_char s) = Some a"
    "after_prefix ''short'' (dropWhile is_space a) = Some b" "after_prefix ''-->'' (dropWhile is_space b) = Some r"
    using assms by (auto simp: marker_match_def split: option.splits)
  then show ?thesis
    using dropWhile_le [of is_blank_char s] dropWhile_le [of is_space a] dropWhile_le [of is_space b]
    by (fastforce dest!: after_prefix_length)
qed

function strip_markers :: "string \<Rightarrow> string" where
  "strip_markers s =
     (case marker_match s of
        Some r \<Rightarrow> strip_markers r
      | None \<Rightarrow> (case s of [] \<Rightarrow> [] | c # cs \<Rightarrow> c # strip_markers cs))"
  by pat_completeness auto
termination
  by (relation "measure length") (auto dest: marker_match_less)

declare strip_markers.simps [simp del]

fun has_marker :: "string \<Rightarrow> bool" where
  "has_marker [] = False"
| "has_marker (c # cs) = (marker_match (c # cs) \<noteq> None \<or> has_marker cs)"

definition marked_bullets :: "string \<Rightarrow> (string \<times> string list) list" where
  "marked_bullets section =
     filter (\<lambda>(_, marked). marked \<noteq> [])
       (map (\<lambda>(name, bullets). (name, filter has_marker bullets))
         (filter (\<lambda>(name, _). \<not> is_action name) (snd (split_categories section))))"

definition category_lines :: "string \<times> string list \<Rightarrow> string list" where
  "category_lines c = [''### '' @ fst c, ''''] @ snd c @ ['''']"

definition build_short :: "string \<Rightarrow> string \<Rightarrow> notes_error + string" where
  "build_short section version =
     (let (lead, categories) = split_categories section; marked = marked_bullets section
      in if marked = [] then Inl (UnmarkedError version)
         else Inr (strip_markers (join_lines (
             (if lead = [] then [] else [lead, ''''])
             @ concat (map category_lines (filter (\<lambda>(name, bullets). is_action name \<and> bullets \<noteq> []) categories))
             @ concat (map category_lines marked)
             @ [''Every change in this release is in [CHANGELOG.md](CHANGELOG.md).'']))))"

definition with_compare_link :: "note_repo \<Rightarrow> string \<Rightarrow> string \<Rightarrow> string \<Rightarrow> string" where
  "with_compare_link repo body changelog version =
     (case previous_version changelog version of
        None \<Rightarrow> body
      | Some previous \<Rightarrow>
          body @ [newline, newline] @ ''---'' @ [newline, newline] @ ''**Full changelog**: '' @ nr_url repo
            @ ''/compare/v'' @ previous @ ''...v'' @ version)"

definition notes_body :: "note_repo \<Rightarrow> string \<Rightarrow> string \<Rightarrow> notes_error + string option" where
  "notes_body repo changelog version =
     (case find_section changelog version of
        None \<Rightarrow> Inr None
      | Some section \<Rightarrow>
          bindE (lift_action section version) (\<lambda>lifted.
          bindE (absolutize_links repo version (strip_markers lifted)) (\<lambda>body.
          Inr (Some (with_compare_link repo body changelog version)))))"

definition build_short_body :: "note_repo \<Rightarrow> bool \<Rightarrow> string \<Rightarrow> string \<Rightarrow> notes_error + string option" where
  "build_short_body repo strict changelog version =
     (case find_section changelog version of
        None \<Rightarrow> Inr None
      | Some section \<Rightarrow>
          bindE (lift_action section version) (\<lambda>lifted.
          bindE (case build_short lifted version of
                   Inl e \<Rightarrow> if strict then Inl e else Inr (strip_markers lifted)
                 | Inr short \<Rightarrow> Inr short) (\<lambda>short.
          bindE (absolutize_links repo version short) (\<lambda>short.
          Inr (Some (with_compare_link repo short changelog version))))))"

section \<open>Lifting loses nothing\<close>

definition filled :: "string list \<Rightarrow> string list" where
  "filled ls = filter (\<lambda>l. \<not> is_blank l) ls"

lemma filled_simps [simp]:
  "filled [] = []" "filled (l # ls) = (if is_blank l then filled ls else l # filled ls)"
  "filled (ls @ ms) = filled ls @ filled ms"
  by (simp_all add: filled_def)

lemma blank_Nil [simp]: "is_blank []"
  by (simp add: is_blank_def)

lemma filled_rstrip [simp]: "filled (rstrip_by is_blank ls) = filled ls"
proof -
  obtain t where "ls = rstrip_by is_blank ls @ t" "list_all is_blank t" using rstrip_by_prefix by blast
  moreover have "list_all is_blank t \<Longrightarrow> filled t = []" by (induction t) simp_all
  ultimately show ?thesis by (metis append_Nil2 filled_simps(3))
qed

lemma splitlines_snoc: "str_splitlines (s @ [newline]) \<in> {str_splitlines s, str_splitlines s @ [[]]}"
proof (induction s rule: str_splitlines.induct)
  case (2 c cs)
  show ?case
  proof (cases "is_line_break c")
    case False
    with 2(3) show ?thesis by (cases "str_splitlines cs") auto
  next
    case True
    show ?thesis
    proof (cases cs)
      case (Cons d ds)
      then show ?thesis
        using 2(1) [OF True Cons] 2(2) [OF True Cons] True by (cases "c = CHR 0x0D \<and> d = newline") auto
    qed (use True in simp)
  qed
qed simp

lemma filled_lstrip: "filled (str_splitlines (lstrip_by (\<lambda>c. c = newline) s)) = filled (str_splitlines s)"
  by (induction s) (auto simp: lstrip_by_def split: list.splits)

lemma filled_rstrip_newline: "filled (str_splitlines (rstrip_by (\<lambda>c. c = newline) s)) = filled (str_splitlines s)"
proof (induction s rule: rev_induct)
  case (snoc c s)
  then show ?case using splitlines_snoc [of s] by auto
qed simp

lemma filled_join:
  assumes "list_all plain_line ls"
  shows "filled (str_splitlines (strip_by (\<lambda>c. c = newline) (join_lines ls))) = filled ls"
proof -
  have "filled (str_splitlines (join_lines ls)) = filled ls"
    using assms
  proof (induction ls rule: induct_list012)
    case (2 l)
    then show ?case by (cases "l = []") (simp_all add: splitlines_plain)
  next
    case (3 x y zs)
    then show ?case by (simp add: splitlines_line)
  qed simp
  then show ?thesis by (simp add: strip_by_def filled_lstrip filled_rstrip_newline)
qed

lemma heading_not_blank:
  assumes "is_category l"
  shows "\<not> is_blank l"
proof -
  have "after_prefix ''###'' l \<noteq> None"
    using assms by (cases "after_prefix ''###'' l") (simp_all add: is_category_def category_match_def)
  then have "take 3 l = ''###''" by (simp add: after_prefix_def numeral_3_eq_3 split: if_splits)
  then have "CHR ''#'' \<in> set l" by (metis in_set_takeD list.set_intros(1))
  moreover have "\<not> is_space (CHR ''#'')" by (simp add: is_space_def Let_def)
  ultimately show ?thesis by (auto simp: is_blank_def list_all_iff)
qed

lemma action_category: "is_action_heading l \<Longrightarrow> is_category l"
  by (auto simp: is_action_heading_def is_category_def split: option.splits)

lemma filled_takeWhile:
  assumes "\<And>l. \<not> p l \<Longrightarrow> \<not> is_blank l"
  shows "filled (takeWhile p ls) = takeWhile p (filled ls)" "filled (dropWhile p ls) = dropWhile p (filled ls)"
  by (induction ls) (auto dest: assms)

lemmas filled_before =
  filled_takeWhile [of "\<lambda>l. \<not> is_category l", simplified, OF heading_not_blank]
  filled_takeWhile [of "\<lambda>l. \<not> is_action_heading l", simplified, OF heading_not_blank, OF action_category]

lemma list_all_filled: "list_all p ls \<Longrightarrow> list_all p (filled ls)"
  by (simp add: filled_def list_all_iff)

lemma list_all_takeWhile: "list_all p (takeWhile p ls)"
  by (auto simp: list_all_iff dest: set_takeWhileD)

lemma blank_filled: "list_all is_blank ls \<longleftrightarrow> filled ls = []"
  by (induction ls) simp_all

text \<open>What the lines of a text that is lifted are, and those of the text lifted.\<close>

lemma lift_action_cases:
  assumes "lift_action text version = Inr out"
  obtains
    (same) "out = text"
      "list_all (\<lambda>l. \<not> is_action_heading l) (filled (str_splitlines text))"
  | (first) lead heading rest where "out = text" "filled (str_splitlines text) = lead @ heading # rest"
      "list_all (\<lambda>l. \<not> is_category l) lead" "is_action_heading heading"
      "takeWhile (\<lambda>l. \<not> is_category l) rest \<noteq> []"
  | (moved) lead between heading content after where
      "filled (str_splitlines text) = lead @ between @ (heading # content) @ after"
      "filled (str_splitlines out) = lead @ (heading # content) @ between @ after"
      "list_all (\<lambda>l. \<not> is_category l) lead" "is_action_heading heading"
      "list_all (\<lambda>l. \<not> is_category l) content" "content \<noteq> []"
      "list_all (\<lambda>l. \<not> is_action_heading l) between" "between \<noteq> [] \<and> is_category (hd between)"
      "after = [] \<or> is_category (hd after)"
proof -
  define ls where "ls = str_splitlines text"
  define front where "front = takeWhile (\<lambda>l. \<not> is_action_heading l) ls"
  have plain: "list_all plain_line ls" unfolding ls_def by (rule splitlines_are_plain)
  show ?thesis
  proof (cases "dropWhile (\<lambda>l. \<not> is_action_heading l) ls")
    case Nil
    then have "list_all (\<lambda>l. \<not> is_action_heading l) ls" by (simp add: list_all_iff)
    then have "list_all (\<lambda>l. \<not> is_action_heading l) (filled ls)" by (simp add: filled_def list_all_iff)
    moreover have "out = text" using assms by (simp add: lift_action_def ls_def [symmetric] Nil Let_def)
    ultimately show ?thesis by (intro same) (simp_all add: ls_def)
  next
    case (Cons heading rest)
    define content where "content = takeWhile (\<lambda>l. \<not> is_category l) rest"
    define after where "after = dropWhile (\<lambda>l. \<not> is_category l) rest"
    have h: "is_action_heading heading" using Cons by (metis hd_dropWhile list.sel(1) list.distinct(1))
    then have nb: "\<not> is_blank heading" using action_category heading_not_blank by blast
    have split: "ls = front @ heading # content @ after"
      using Cons takeWhile_dropWhile_id [of "\<lambda>l. \<not> is_action_heading l" ls]
      by (simp add: front_def content_def after_def)
    have front: "list_all (\<lambda>l. \<not> is_action_heading l) front"
      unfolding front_def by (rule list_all_takeWhile)
    have c: "filled content \<noteq> []"
      using assms Cons by (auto simp: lift_action_def ls_def [symmetric] Let_def content_def blank_filled split: if_splits)
    show ?thesis
    proof (cases "list_ex is_category front")
      case False
      then have lead: "list_all (\<lambda>l. \<not> is_category l) front" by (simp add: list_all_iff list_ex_iff)
      have out: "out = text"
        using assms Cons c False
        by (simp add: lift_action_def ls_def [symmetric] Let_def content_def [symmetric] front_def [symmetric] blank_filled)
      have "takeWhile (\<lambda>l. \<not> is_category l) (filled (content @ after)) \<noteq> []"
        using c filled_before(1) [of rest] by (simp add: content_def after_def filled_before)
      with out lead h nb split show ?thesis
        by (intro first [of "filled front" heading "filled (content @ after)"])
          (simp_all add: ls_def [symmetric] list_all_iff filled_def)
    next
      case True
      define lead where "lead = takeWhile (\<lambda>l. \<not> is_category l) front"
      define between where "between = dropWhile (\<lambda>l. \<not> is_category l) front"
      have fr: "front = lead @ between" by (simp add: lead_def between_def)
      have out: "out = strip_by (\<lambda>c. c = newline)
          (join_lines (lead @ rstrip_by is_blank (heading # content) @ [''''] @ rstrip_by is_blank (between @ after)))"
        using assms Cons c True
        by (simp add: lift_action_def ls_def [symmetric] Let_def content_def [symmetric] front_def [symmetric]
            after_def [symmetric] lead_def [symmetric] between_def [symmetric] blank_filled)
      have "list_all plain_line (lead @ rstrip_by is_blank (heading # content) @ [''''] @ rstrip_by is_blank (between @ after))"
        using plain by (auto simp: split fr plain_line_def [of "[]"] intro!: list_all_rstrip_by)
      then have new: "filled (str_splitlines out) = filled lead @ (heading # filled content) @ filled between @ filled after"
        using nb unfolding out by (simp add: filled_join)
      have b: "between \<noteq> []" using True by (auto simp: between_def list_ex_iff)
      then have "is_category (hd between)" unfolding between_def using hd_dropWhile by blast
      then have b': "filled between \<noteq> [] \<and> is_category (hd (filled between))"
        using b heading_not_blank by (cases between) auto
      have a': "filled after = [] \<or> is_category (hd (filled after))"
        using hd_dropWhile [of "\<lambda>l. \<not> is_category l" "filled rest"] by (auto simp: after_def filled_before)
      show ?thesis
      proof (rule moved [OF _ _ _ h _ c _ b' a'])
        show "filled (str_splitlines text) = filled lead @ filled between @ (heading # filled content) @ filled after"
          using nb split by (simp add: ls_def [symmetric] fr)
        show "filled (str_splitlines out) = filled lead @ (heading # filled content) @ filled between @ filled after"
          by (rule new)
        show "list_all (\<lambda>l. \<not> is_category l) (filled lead)" "list_all (\<lambda>l. \<not> is_category l) (filled content)"
          unfolding lead_def content_def by (rule list_all_filled, rule list_all_takeWhile)+
        show "list_all (\<lambda>l. \<not> is_action_heading l) (filled between)"
          using front unfolding fr by (simp add: list_all_filled)
      qed
    qed
  qed
qed

lemma same_parts: "\<exists>lead between block after. xs = lead @ between @ block @ after \<and> xs = lead @ block @ between @ after"
  by (rule exI [of _ xs], rule exI [of _ "[]"], rule exI [of _ "[]"], rule exI [of _ "[]"]) simp

text \<open>
  The action category of a release note comes first and nothing is lost. The lines that
  are not blank are those of the section, with the block of the category moved in front of
  the categories before it and every other line in its order; when the section has the
  category, it is the first category of the note; lifting again changes nothing.
\<close>

theorem lifting_keeps_lines:
  assumes "lift_action text version = Inr out"
  shows "(\<exists>lead between block after.
        filled (str_splitlines text) = lead @ between @ block @ after
      \<and> filled (str_splitlines out) = lead @ block @ between @ after)
    \<and> (list_ex is_action_heading (str_splitlines text) \<longrightarrow>
         (\<exists>heading. find is_category (filled (str_splitlines out)) = Some heading \<and> is_action_heading heading))
    \<and> lift_action out version = Inr out"
  using assms
proof (cases rule: lift_action_cases)
  case same
  then have "\<not> list_ex is_action_heading (str_splitlines text)"
    using action_category heading_not_blank by (auto simp: list_ex_iff list_all_iff filled_def)
  with same assms same_parts show ?thesis by auto
next
  case (first lead heading rest)
  then have "find is_category (filled (str_splitlines out)) = Some heading"
    unfolding first(1,2) using first(3,4) action_category by (induction lead) auto
  with first(1,4) assms same_parts show ?thesis by auto
next
  case (moved lead between heading content after)
  have "find is_category (lead @ heading # xs) = Some heading" for xs
    using moved(3,4) action_category by (induction lead) auto
  moreover have "lift_action out version = Inr out"
  proof -
    define L where "L = str_splitlines out"
    have fl: "takeWhile (\<lambda>l. \<not> is_action_heading l) (filled L) = lead"
      "dropWhile (\<lambda>l. \<not> is_action_heading l) (filled L) = (heading # content) @ between @ after"
      using moved(2-4) action_category by (auto simp: L_def list_all_iff takeWhile_append dropWhile_append)
    obtain h r where d: "dropWhile (\<lambda>l. \<not> is_action_heading l) L = h # r"
      using fl(2) filled_before(4) [of L] by (cases "dropWhile (\<lambda>l. \<not> is_action_heading l) L") auto
    have "is_action_heading h" using d by (metis hd_dropWhile list.sel(1) list.distinct(1))
    then have "\<not> is_blank h" using action_category heading_not_blank by blast
    then have r: "filled r = content @ between @ after"
      using fl(2) filled_before(4) [of L] d by simp
    have "filled (takeWhile (\<lambda>l. \<not> is_category l) r) \<noteq> []"
      using moved(5,6) by (cases content) (simp_all add: filled_before r)
    moreover have "filled (takeWhile (\<lambda>l. \<not> is_action_heading l) L) = lead"
      using fl(1) by (simp add: filled_before)
    then have "\<not> list_ex is_category (takeWhile (\<lambda>l. \<not> is_action_heading l) L)"
      using moved(3) heading_not_blank by (fastforce simp: list_ex_iff list_all_iff filled_def)
    ultimately show ?thesis
      by (simp add: lift_action_def L_def [symmetric] Let_def d blank_filled)
  qed
  moreover have "\<exists>lead between block after. filled (str_splitlines text) = lead @ between @ block @ after
      \<and> filled (str_splitlines out) = lead @ block @ between @ after"
    using moved(1,2) by blast
  ultimately show ?thesis using moved(2,4) by simp
qed

definition written_section :: string where
  "written_section = join_lines [''Lead.'', ''### Bug fixes'', ''- A fix'', '''', ''### Action required'', ''- A step'']"

definition lifted_section :: string where
  "lifted_section = join_lines [''Lead.'', ''### Action required'', ''- A step'', '''', ''### Bug fixes'', ''- A fix'']"

theorem lifting_keeps_lines_witness:
  "lift_action written_section ''1.0.0'' = Inr lifted_section
    \<and> (\<exists>heading. find is_category (filled (str_splitlines lifted_section)) = Some heading \<and> is_action_heading heading)
    \<and> lift_action lifted_section ''1.0.0'' = Inr lifted_section"
proof -
  have run: "lift_action written_section ''1.0.0'' = Inr lifted_section" by code_simp
  have "list_ex is_action_heading (str_splitlines written_section)" by code_simp
  with run lifting_keeps_lines [OF run] show ?thesis by blast
qed

text \<open>
  A target in angle brackets loses them once it is absolute. Its path is quoted, but its anchor
  is not, so an anchor with a space ends up in a target that may hold none.
\<close>

lemma anchor_loses_brackets:
  "absolutize_links \<lparr>nr_url = ''https://host/r'', nr_file = Some\<rparr> ''1.0.0'' ''[x](<d.md#a b>)''
     = Inr ''[x](https://host/r/blob/v1.0.0/d.md#a b)''"
  by code_simp

section \<open>Links\<close>

text \<open>
  An absolute target stays as it is, a dead one is reported; every other one comes out under
  the repository at the tag.
\<close>

lemma absolute_url_cases:
  "is_absolute target \<and> absolute_url repo tag target = (target, [])
    \<or> absolute_url repo tag target = (target, [target])
    \<or> (\<exists>rest. absolute_url repo tag target = (nr_url repo @ ''/blob/'' @ tag @ ''/'' @ rest, []))"
  by (auto simp: absolute_url_def Let_def split: prod.splits option.splits)

end
