(* ===== verification/Release_Publish.thy ===== *)
theory Release_Publish
  imports Release_Notes Effects "HOL-Library.Multiset" "HOL-Library.Char_ord" "HOL-Library.List_Lexorder"
begin

text \<open>
  \<^verbatim>\<open>scripts/release_publish.py\<close>: the flow that ships a version. The programs it runs, \<^verbatim>\<open>gh\<close> and
  \<^verbatim>\<open>git\<close>, and the parts of the standard library that are formats of their own (JSON, ZIP,
  SHA-256, the Python parser) are the record \<open>release_env\<close>. The world has the state \<^verbatim>\<open>gh\<close>
  talks to and the trace of its runs with what each answered. What is printed is left out.
\<close>

section \<open>Errors and runs of gh\<close>

datatype http_method = GET | POST | PATCH

datatype failure =
    GitFailed "string list" string
  | NotFullSha string string
  | ManifestNotJson string
  | VersionInvalid string
  | NotAFile string string
  | ModeNotPackable string string
  | NoFiles string
  | NotPython string
  | ReachesExcluded "string list"
  | DryRunWrote http_method string
  | GhApiFailed http_method string string
  | NoteUndated notes_error
  | NoteNotReady notes_error
  | NoteMissing string
  | AssetNotUploaded

datatype stop =
    AttestationRefused string
  | NoAttestation
  | OtherArtifact string
  | TagNotACommit
  | ManyReleases nat
  | TrialOnly string
  | CommitUnknown
  | NotOnMain string
  | TagElsewhere string
  | DraftElsewhere string
  | OtherAsset string
  | OtherReadback string
  | OtherZip string string
  | NotPublished
  | DoesNotHang "string list"

text \<open>A Python exception the flow does not turn into one of its own is named by its class.\<close>

datatype publish_error = Failure failure | Stop stop | PyRaise string

datatype gh_call =
    ApiCall http_method string "py option" "bytes option"
  | RawCall string
  | AttestCall bytes string string string

type_synonym gh_answer = "string + bytes"

record 's release_env =
  rl_gh :: "'s \<Rightarrow> gh_call \<Rightarrow> 's \<times> gh_answer"
  rl_git :: "string list \<Rightarrow> string + bytes"
  rl_decode :: "bytes \<Rightarrow> string"
  rl_loads :: "bytes \<Rightarrow> py option"
  rl_str :: "py \<Rightarrow> string"
  rl_imports :: "bytes \<Rightarrow> (string \<times> string option \<times> string list) list option"
  rl_pack :: "(string \<times> int \<times> bytes) list \<Rightarrow> bytes"
  rl_unpack :: "bytes \<Rightarrow> (string \<times> bytes) list option"
  rl_sha256 :: "bytes \<Rightarrow> string"
  rl_changelog :: string
  rl_notes :: note_repo

record 's gh_world =
  gw_hub :: 's
  gw_trace :: "(gh_call \<times> gh_answer) list"

type_synonym ('s, 'a) publish = "('s gh_world, publish_error, 'a) effect"

section \<open>JSON values\<close>

text \<open>\<^verbatim>\<open>v.get(k, default)\<close>, \<^verbatim>\<open>v[k]\<close>, a loop over \<^verbatim>\<open>v\<close> and \<^verbatim>\<open>str(v)\<close> on what an API answered.\<close>

definition json_get :: "py \<Rightarrow> string \<Rightarrow> py \<Rightarrow> publish_error + py" where
  "json_get v k dflt =
     (case v of
        PDict d \<Rightarrow> Inr (case map_of d k of None \<Rightarrow> dflt | Some x \<Rightarrow> x)
      | _ \<Rightarrow> Inl (PyRaise ''AttributeError''))"

definition json_item :: "py \<Rightarrow> string \<Rightarrow> publish_error + py" where
  "json_item v k =
     (case v of
        PDict d \<Rightarrow> (case map_of d k of None \<Rightarrow> Inl (PyRaise ''KeyError'') | Some x \<Rightarrow> Inr x)
      | _ \<Rightarrow> Inl (PyRaise ''TypeError''))"

definition json_items :: "py \<Rightarrow> publish_error + py list" where
  "json_items v =
     (case v of
        PList l \<Rightarrow> Inr l
      | PDict d \<Rightarrow> Inr (map (PStr \<circ> fst) d)
      | PStr s \<Rightarrow> Inr (map (\<lambda>c. PStr [c]) s)
      | _ \<Rightarrow> Inl (PyRaise ''TypeError''))"

definition json_or :: "py \<Rightarrow> py \<Rightarrow> py" where
  "json_or v dflt = (if py_truth v then v else dflt)"

definition json_str :: "'s release_env \<Rightarrow> py \<Rightarrow> string" where
  "json_str env v = (case v of PStr s \<Rightarrow> s | _ \<Rightarrow> rl_str env v)"

text \<open>The elements of a list a test that may raise holds for.\<close>

fun filterE :: "('a \<Rightarrow> 'e + bool) \<Rightarrow> 'a list \<Rightarrow> 'e + 'a list" where
  "filterE p [] = Inr []"
| "filterE p (x # xs) = bindE (p x) (\<lambda>b. bindE (filterE p xs) (\<lambda>ys. Inr (if b then x # ys else ys)))"

section \<open>git and the ZIP\<close>

definition COMPONENT :: string where "COMPONENT = ''custom_components/onesti_lock''"
definition ASSET_NAME :: string where "ASSET_NAME = ''onesti_lock.zip''"
definition ZIP_EXCLUDE :: "string list" where "ZIP_EXCLUDE = [''ble/'', ''bluetooth.py'']"
definition SIGNER_WORKFLOW :: string where "SIGNER_WORKFLOW = ''.github/workflows/release.yml''"
definition TRIAL_VERSION :: string where "TRIAL_VERSION = NOTES_TRIAL_VERSION"
definition FIRST_ZIP_VERSION :: "nat list" where "FIRST_ZIP_VERSION = [1, 4, 0]"

definition zip_permissions :: "string \<Rightarrow> int option" where
  "zip_permissions mode = (if mode = ''100644'' then Some 420 else if mode = ''100755'' then Some 493 else None)"

text \<open>\<^verbatim>\<open>SHA_RE\<close> and \<^verbatim>\<open>VERSION_RE\<close>; the \<^verbatim>\<open>$\<close> of both also matches before a final line feed.\<close>

definition chomp :: "string \<Rightarrow> string" where
  "chomp s = (if s \<noteq> [] \<and> last s = newline then butlast s else s)"

definition is_sha :: "string \<Rightarrow> bool" where
  "is_sha s \<longleftrightarrow> length (chomp s) = 40
     \<and> list_all (\<lambda>c. is_decimal c \<or> (let n = code_point c in 97 \<le> n \<and> n \<le> 102)) (chomp s)"

definition is_version :: "string \<Rightarrow> bool" where
  "is_version s \<longleftrightarrow> (let parts = str_split (CHR ''.'') (chomp s)
     in length parts = 3 \<and> list_all (\<lambda>p. p \<noteq> [] \<and> list_all is_decimal p) parts)"

definition version_numbers :: "string \<Rightarrow> nat list" where
  "version_numbers v = map nat_of_str (str_split (CHR ''.'') (chomp v))"

fun tuple_less :: "nat list \<Rightarrow> nat list \<Rightarrow> bool" where
  "tuple_less xs [] = False"
| "tuple_less [] (y # ys) = True"
| "tuple_less (x # xs) (y # ys) = (x < y \<or> x = y \<and> tuple_less xs ys)"

definition git_raw :: "'s release_env \<Rightarrow> string list \<Rightarrow> publish_error + bytes" where
  "git_raw env argv = (case rl_git env argv of Inl err \<Rightarrow> Inl (Failure (GitFailed argv err)) | Inr out \<Rightarrow> Inr out)"

definition git_text :: "'s release_env \<Rightarrow> string list \<Rightarrow> publish_error + string" where
  "git_text env argv = bindE (git_raw env argv) (\<lambda>out. Inr (str_strip (rl_decode env out)))"

definition full_sha :: "'s release_env \<Rightarrow> string \<Rightarrow> publish_error + string" where
  "full_sha env ref =
     bindE (git_text env [''rev-parse'', ''--verify'', ref @ ''^{commit}'']) (\<lambda>sha.
     bindE (raise_if (\<not> is_sha sha) (Failure (NotFullSha ref sha))) (\<lambda>_. Inr sha))"

definition read_version :: "'s release_env \<Rightarrow> string \<Rightarrow> publish_error + string" where
  "read_version env sha =
     bindE (git_raw env [''show'', sha @ '':'' @ COMPONENT @ ''/manifest.json'']) (\<lambda>raw.
     case rl_loads env raw of
       None \<Rightarrow> Inl (Failure (ManifestNotJson sha))
     | Some manifest \<Rightarrow>
         bindE (json_get manifest ''version'' PNone) (\<lambda>version.
         case version of
           PStr v \<Rightarrow> if is_version v then Inr v else Inl (Failure (VersionInvalid sha))
         | _ \<Rightarrow> Inl (Failure (VersionInvalid sha))))"

definition ends_with :: "string \<Rightarrow> string \<Rightarrow> bool" where
  "ends_with suffix s \<longleftrightarrow> length suffix \<le> length s \<and> drop (length s - length suffix) s = suffix"

definition is_excluded :: "string \<Rightarrow> bool" where
  "is_excluded name \<longleftrightarrow>
     list_ex (\<lambda>entry. name = entry \<or> ends_with ''/'' entry \<and> take (length entry) name = entry) ZIP_EXCLUDE"

definition remove_suffix :: "string \<Rightarrow> string \<Rightarrow> string" where
  "remove_suffix suffix s = (if ends_with suffix s then take (length s - length suffix) s else s)"

definition excluded_modules :: "string list" where
  "excluded_modules =
     map (\<lambda>entry. hd (str_split (CHR ''/'') (remove_suffix ''.py'' (rstrip_by (\<lambda>c. c = CHR ''/'') entry)))) ZIP_EXCLUDE"

type_synonym tracked_file = "string \<times> string \<times> string"

text \<open>
  \<open>rl_imports\<close> lists the relative imports of a module: the line, the module named after the
  dots, the names imported.
\<close>

definition packed_imports_excluded :: "'s release_env \<Rightarrow> tracked_file list \<Rightarrow> publish_error + string list" where
  "packed_imports_excluded env files =
     bindE (mapE (\<lambda>(mode, blob, name).
         bindE (git_raw env [''cat-file'', ''blob'', blob]) (\<lambda>source.
         case rl_imports env source of
           None \<Rightarrow> Inl (Failure (NotPython name))
         | Some imports \<Rightarrow> Inr
             (map (\<lambda>(line, _). name @ '':'' @ line)
               (filter (\<lambda>(_, module, names).
                  list_ex (\<lambda>m. m \<in> set excluded_modules)
                    (hd (str_split (CHR ''.'') (case module of None \<Rightarrow> [] | Some m \<Rightarrow> m)) # names)) imports))))
       (filter (\<lambda>(_, _, name). ends_with ''.py'' name) files)) (\<lambda>offenders.
     Inr (sort (concat offenders)))"

text \<open>\<^verbatim>\<open>meta.split()\<close>: the words between white space.\<close>

fun str_words :: "string \<Rightarrow> string list" where
  "str_words [] = []"
| "str_words (c # cs) =
     (if is_space c then str_words cs
      else case cs of
          [] \<Rightarrow> [[c]]
        | d # _ \<Rightarrow> if is_space d then [c] # str_words cs
                   else case str_words cs of [] \<Rightarrow> [[c]] | w # ws \<Rightarrow> (c # w) # ws)"

definition tracked_entry :: "string \<Rightarrow> string \<Rightarrow> publish_error + tracked_file option" where
  "tracked_entry sha entry =
     (let (meta, path) = str_partition (CHR 0x09) entry
      in case str_words meta of
           [mode, kind, blob] \<Rightarrow>
             if kind \<noteq> ''blob'' then Inl (Failure (NotAFile path kind))
             else if zip_permissions mode = None then Inl (Failure (ModeNotPackable path mode))
             else let name = drop (length COMPONENT + 1) path
                  in Inr (if is_excluded name then None else Some (mode, blob, name))
         | _ \<Rightarrow> Inl (PyRaise ''ValueError''))"

abbreviation file_name :: "tracked_file \<Rightarrow> string" where
  "file_name f \<equiv> snd (snd f)"

text \<open>Strings are ordered by their code points, as Python orders them.\<close>

definition component_files :: "'s release_env \<Rightarrow> string \<Rightarrow> publish_error + tracked_file list" where
  "component_files env sha =
     bindE (git_text env [''ls-tree'', ''-r'', ''-z'', sha, ''--'', COMPONENT]) (\<lambda>raw.
     bindE (mapE (tracked_entry sha) (filter (\<lambda>e. e \<noteq> []) (str_split (CHR 0x00) raw))) (\<lambda>entries.
     let files = List.map_filter id entries
     in if files = [] then Inl (Failure (NoFiles sha)) else Inr (sort_key file_name files)))"

definition zip_entry :: "'s release_env \<Rightarrow> tracked_file \<Rightarrow> publish_error + string \<times> int \<times> bytes" where
  "zip_entry env file =
     (let (mode, blob, name) = file
      in bindE (git_raw env [''cat-file'', ''blob'', blob]) (\<lambda>content.
         Inr (name, the (zip_permissions mode), content)))"

text \<open>\<^verbatim>\<open>build_zip\<close>: the file it writes; its digest is \<open>rl_sha256\<close> of it.\<close>

definition build_zip :: "'s release_env \<Rightarrow> string \<Rightarrow> publish_error + bytes" where
  "build_zip env sha =
     bindE (component_files env sha) (\<lambda>files.
     bindE (packed_imports_excluded env files) (\<lambda>reaching.
     bindE (raise_if (reaching \<noteq> []) (Failure (ReachesExcluded reaching))) (\<lambda>_.
     bindE (mapE (zip_entry env) files) (\<lambda>entries.
     Inr (rl_pack env entries)))))"

section \<open>gh\<close>

text \<open>Every run of gh goes into the trace with its answer; a dry run refuses to write.\<close>

definition gh_run :: "'s release_env \<Rightarrow> gh_call \<Rightarrow> 's gh_world \<Rightarrow> 's gh_world \<times> gh_answer" where
  "gh_run env call w =
     (let (s, a) = rl_gh env (gw_hub w) call in (\<lparr>gw_hub = s, gw_trace = gw_trace w @ [(call, a)]\<rparr>, a))"

fun contains_text :: "string \<Rightarrow> string \<Rightarrow> bool" where
  "contains_text p [] = (p = [])"
| "contains_text p (c # cs) = (take (length p) (c # cs) = p \<or> contains_text p cs)"

definition bytes_blank :: "bytes \<Rightarrow> bool" where
  "bytes_blank b = list_all (\<lambda>x. x = 32 \<or> 9 \<le> x \<and> x \<le> 13) b"

definition parse_answer :: "'s release_env \<Rightarrow> bytes \<Rightarrow> publish_error + py" where
  "parse_answer env out =
     (if bytes_blank out then Inr PNone
      else case rl_loads env out of None \<Rightarrow> Inl (PyRaise ''JSONDecodeError'') | Some v \<Rightarrow> Inr v)"

definition gh_api ::
  "'s release_env \<Rightarrow> bool \<Rightarrow> http_method \<Rightarrow> string \<Rightarrow> py option \<Rightarrow> bytes option \<Rightarrow> bool \<Rightarrow> ('s, py) publish" where
  "gh_api env dry meth path data file allow_404 =
     (if meth \<noteq> GET \<and> dry then raiseS (Failure (DryRunWrote meth path))
      else (\<lambda>w. let (w, a) = gh_run env (ApiCall meth path data file) w
           in (w, case a of
                    Inl message \<Rightarrow> if allow_404 \<and> contains_text ''HTTP 404'' message then Inr PNone
                                   else Inl (Failure (GhApiFailed meth path message))
                  | Inr out \<Rightarrow> parse_answer env out)))"

abbreviation gh_get :: "'s release_env \<Rightarrow> string \<Rightarrow> bool \<Rightarrow> ('s, py) publish" where
  "gh_get env path allow_404 \<equiv> gh_api env False GET path None None allow_404"

definition gh_raw :: "'s release_env \<Rightarrow> string \<Rightarrow> ('s, bytes) publish" where
  "gh_raw env path =
     (\<lambda>w. let (w, a) = gh_run env (RawCall path) w
          in (w, case a of Inl message \<Rightarrow> Inl (Failure (GhApiFailed GET path message)) | Inr out \<Rightarrow> Inr out))"

definition gh_attestation :: "'s release_env \<Rightarrow> bytes \<Rightarrow> string \<Rightarrow> string \<Rightarrow> string \<Rightarrow> ('s, py) publish" where
  "gh_attestation env archive repo source workflow =
     (\<lambda>w. let (w, a) = gh_run env (AttestCall archive repo source workflow) w
          in (w, case a of
                   Inl message \<Rightarrow> Inl (Stop (AttestationRefused message))
                 | Inr out \<Rightarrow> (case rl_loads env out of
                       None \<Rightarrow> Inl (PyRaise ''JSONDecodeError'') | Some v \<Rightarrow> Inr v)))"

section \<open>Candidate and state\<close>

record candidate =
  cd_repo :: string
  cd_sha :: string
  cd_version :: string

definition cd_tag :: "candidate \<Rightarrow> string" where
  "cd_tag c = CHR ''v'' # cd_version c"

definition repo_path :: "candidate \<Rightarrow> string" where
  "repo_path c = ''repos/'' @ cd_repo c"

definition read_candidate :: "'s release_env \<Rightarrow> string \<Rightarrow> string \<Rightarrow> publish_error + candidate" where
  "read_candidate env repo ref =
     bindE (full_sha env ref) (\<lambda>sha.
     bindE (read_version env sha) (\<lambda>version.
     Inr \<lparr>cd_repo = repo, cd_sha = sha, cd_version = version\<rparr>))"

definition tag_path :: "candidate \<Rightarrow> string" where
  "tag_path c = repo_path c @ ''/git/ref/tags/'' @ cd_tag c"

definition tag_sha :: "'s release_env \<Rightarrow> candidate \<Rightarrow> ('s, string option) publish" where
  "tag_sha env c =
     bindS (gh_get env (tag_path c) True) (\<lambda>ref.
     if ref = PNone then returnS None
     else bindS (liftE (json_item ref ''object'')) (\<lambda>obj.
          bindS (liftE (json_item obj ''type'')) (\<lambda>type.
          if type = PStr ''commit''
          then bindS (liftE (json_item obj ''sha'')) (\<lambda>sha. returnS (Some (json_str env sha)))
          else if type = PStr ''tag''
          then bindS (liftE (json_item obj ''sha'')) (\<lambda>sha.
               bindS (gh_get env (repo_path c @ ''/git/tags/'' @ json_str env sha) False) (\<lambda>tag.
               bindS (liftE (json_item tag ''object'')) (\<lambda>obj.
               bindS (liftE (json_item obj ''sha'')) (\<lambda>sha. returnS (Some (json_str env sha))))))
          else raiseS (Stop TagNotACommit))))"

definition find_release :: "'s release_env \<Rightarrow> candidate \<Rightarrow> ('s, py option) publish" where
  "find_release env c =
     bindS (gh_get env (repo_path c @ ''/releases'') False) (\<lambda>answer.
     bindS (liftE (json_items (json_or answer (PList [])))) (\<lambda>releases.
     bindS (liftE (filterE (\<lambda>rel. bindE (json_get rel ''tag_name'' PNone) (\<lambda>t. Inr (t = PStr (cd_tag c)))) releases))
       (\<lambda>hits.
     if 1 < length hits then raiseS (Stop (ManyReleases (length hits)))
     else returnS (case hits of [] \<Rightarrow> None | hit # _ \<Rightarrow> Some hit))))"

definition require_main_branch :: "'s release_env \<Rightarrow> candidate \<Rightarrow> bool \<Rightarrow> ('s, unit) publish" where
  "require_main_branch env c trial =
     (if trial
      then if cd_version c \<noteq> TRIAL_VERSION then raiseS (Stop (TrialOnly (cd_version c))) else returnS ()
      else bindS (gh_get env (repo_path c) False) (\<lambda>repo.
           bindS (liftE (json_get (json_or repo (PDict [])) ''default_branch'' PNone)) (\<lambda>branch.
           let main = json_str env (json_or branch (PStr ''main''))
           in bindS (gh_get env (repo_path c @ ''/compare/'' @ main @ ''...'' @ cd_sha c) True) (\<lambda>answer.
              if answer = PNone then raiseS (Stop CommitUnknown)
              else bindS (liftE (json_get answer ''status'' PNone)) (\<lambda>status.
                   let status = json_str env (json_or status (PStr ''unknown''))
                   in if status \<notin> {''identical'', ''behind''} then raiseS (Stop (NotOnMain status))
                      else returnS ())))))"

text \<open>The digests an attestation covers; a set of them refuses a list or a dict.\<close>

definition subject_digest :: "py \<Rightarrow> publish_error + py" where
  "subject_digest subject =
     bindE (json_get subject ''digest'' (PDict [])) (\<lambda>d.
     bindE (json_get d ''sha256'' PNone) (\<lambda>v.
     case v of PList _ \<Rightarrow> Inl (PyRaise ''TypeError'') | PDict _ \<Rightarrow> Inl (PyRaise ''TypeError'') | _ \<Rightarrow> Inr v))"

definition entry_digests :: "py \<Rightarrow> publish_error + py list" where
  "entry_digests entry =
     bindE (json_get entry ''verificationResult'' (PDict [])) (\<lambda>result.
     bindE (json_get result ''statement'' (PDict [])) (\<lambda>statement.
     bindE (json_get statement ''subject'' (PList [])) (\<lambda>subject.
     bindE (json_items subject) (\<lambda>subjects. mapE subject_digest subjects))))"

definition is_PStr :: "py \<Rightarrow> bool" where
  "is_PStr v \<longleftrightarrow> (case v of PStr _ \<Rightarrow> True | _ \<Rightarrow> False)"

text \<open>The message of the last error sorts what is covered, which fails on text beside numbers.\<close>

definition verify_attestation :: "'s release_env \<Rightarrow> candidate \<Rightarrow> bytes \<Rightarrow> string \<Rightarrow> ('s, unit) publish" where
  "verify_attestation env c archive digest =
     bindS (gh_attestation env archive (cd_repo c) (cd_sha c) (cd_repo c @ ''/'' @ SIGNER_WORKFLOW)) (\<lambda>answer.
     case answer of
       PList (entry # entries) \<Rightarrow>
         bindS (liftE (mapE entry_digests (entry # entries))) (\<lambda>digests.
         let shown = filter py_truth (concat digests)
         in if PStr digest \<in> set (concat digests) then returnS ()
            else if list_ex is_PStr shown \<and> \<not> list_all is_PStr shown then raiseS (PyRaise ''TypeError'')
            else raiseS (Stop (OtherArtifact digest)))
     | _ \<Rightarrow> raiseS (Stop NoAttestation))"

definition download_asset :: "'s release_env \<Rightarrow> candidate \<Rightarrow> py \<Rightarrow> ('s, bytes) publish" where
  "download_asset env c asset =
     bindS (liftE (json_item asset ''id'')) (\<lambda>i.
     gh_raw env (repo_path c @ ''/releases/assets/'' @ json_str env i))"

section \<open>The release body\<close>

definition release_note :: "'s release_env \<Rightarrow> string \<Rightarrow> publish_error + string" where
  "release_note env version =
     (let changelog = rl_changelog env
      in case require_release_date changelog version of
           Inl e \<Rightarrow> Inl (Failure (NoteUndated e))
         | Inr _ \<Rightarrow>
             (case build_short_body (rl_notes env) (is_in_progress changelog version) changelog version of
                Inl e \<Rightarrow> Inl (Failure (NoteNotReady e))
              | Inr None \<Rightarrow> Inl (Failure (NoteMissing version))
              | Inr (Some body) \<Rightarrow> Inr body))"

definition commits_since_previous :: "'s release_env \<Rightarrow> candidate \<Rightarrow> publish_error + string" where
  "commits_since_previous env c =
     bindE (git_text env [''tag'', ''--sort=-version:refname'']) (\<lambda>listed.
     let tags = filter (\<lambda>t. t \<noteq> cd_tag c) (str_splitlines listed);
         span = (case tags of [] \<Rightarrow> cd_sha c | t # _ \<Rightarrow> t @ ''..'' @ cd_sha c)
     in bindE (git_text env [''log'', span, ''--pretty=format:- %s'', ''--no-merges'']) (\<lambda>log.
        Inr (if log = [] then ''- First release'' else log)))"

definition build_body :: "'s release_env \<Rightarrow> candidate \<Rightarrow> string \<Rightarrow> publish_error + string" where
  "build_body env c digest =
     (let url = ''https://github.com/'' @ cd_repo c
      in bindE (release_note env (cd_version c)) (\<lambda>note.
         bindE (commits_since_previous env c) (\<lambda>commits.
         Inr (join_lines
           [note, '''', ''## Verification'', '''',
            ''Built from commit [`'' @ take 12 (cd_sha c) @ ''`]('' @ url @ ''/commit/'' @ cd_sha c @ ''), ''
              @ ''the commit the tag `'' @ cd_tag c @ ''` points at.'',
            '''',
            ''**SHA256:** `'' @ digest @ ''` ([how to verify]('' @ url @ ''/blob/'' @ cd_tag c @ ''/SECURITY.md))'',
            '''', ''<details>'', ''<summary>All commits</summary>'', '''', commits, '''', ''</details>'']))))"

definition should_be_latest :: "'s release_env \<Rightarrow> candidate \<Rightarrow> ('s, bool) publish" where
  "should_be_latest env c =
     (if cd_version c = TRIAL_VERSION then returnS False
      else bindS (gh_get env (repo_path c @ ''/releases/latest'') True) (\<lambda>latest.
           if latest = PNone then returnS True
           else bindS (liftE (json_get latest ''tag_name'' (PStr ''''))) (\<lambda>name.
                let current = lstrip_by (\<lambda>x. x = CHR ''v'') (json_str env name)
                in if \<not> is_version current then returnS True
                   else returnS (tuple_less (version_numbers current) (version_numbers (cd_version c))))))"

section \<open>The state machine\<close>

datatype tag_step = TagUnchanged | TagWouldCreate | TagCreated

definition ensure_tag :: "'s release_env \<Rightarrow> bool \<Rightarrow> candidate \<Rightarrow> ('s, tag_step) publish" where
  "ensure_tag env dry c =
     bindS (tag_sha env c) (\<lambda>existing.
     if existing = Some (cd_sha c) then returnS TagUnchanged
     else case existing of
         Some sha \<Rightarrow> raiseS (Stop (TagElsewhere sha))
       | None \<Rightarrow>
           if dry then returnS TagWouldCreate
           else bindS (gh_api env dry POST (repo_path c @ ''/git/refs'')
                  (Some (PDict [(''ref'', PStr (''refs/tags/'' @ cd_tag c)), (''sha'', PStr (cd_sha c))])) None False) (\<lambda>_.
                returnS TagCreated))"

definition require_draft_on_candidate :: "'s release_env \<Rightarrow> candidate \<Rightarrow> py \<Rightarrow> publish_error + unit" where
  "require_draft_on_candidate env c release =
     bindE (json_get release ''target_commitish'' PNone) (\<lambda>v.
     let target = json_str env (json_or v (PStr ''''))
     in raise_if (is_sha target \<and> target \<noteq> cd_sha c) (Stop (DraftElsewhere target)))"

text \<open>Whether a draft that is there has another body only decides a message.\<close>

definition ensure_draft :: "'s release_env \<Rightarrow> bool \<Rightarrow> candidate \<Rightarrow> py option \<Rightarrow> string \<Rightarrow> ('s, py option) publish" where
  "ensure_draft env dry c release body =
     (case release of
        Some rel \<Rightarrow> bindS (liftE (json_get rel ''body'' (PStr ''''))) (\<lambda>_. returnS (Some rel))
      | None \<Rightarrow>
          if dry then returnS None
          else bindS (gh_api env dry POST (repo_path c @ ''/releases'')
                 (Some (PDict [(''tag_name'', PStr (cd_tag c)), (''target_commitish'', PStr (cd_sha c)),
                   (''name'', PStr (cd_tag c)), (''body'', PStr body), (''draft'', PBool True),
                   (''prerelease'', PBool (cd_version c = TRIAL_VERSION))])) None False) (\<lambda>created.
               returnS (Some created)))"

definition named_assets :: "py \<Rightarrow> publish_error + py list" where
  "named_assets release =
     bindE (json_get release ''assets'' (PList [])) (\<lambda>assets.
     bindE (json_items assets) (\<lambda>items.
     filterE (\<lambda>a. bindE (json_get a ''name'' PNone) (\<lambda>n. Inr (n = PStr ASSET_NAME))) items))"

datatype asset_step = AssetInPlace | AssetWouldUpload | AssetUploaded

text \<open>An upload that fails may still have arrived, so its failure is caught and the asset read back.\<close>

definition upload_asset :: "'s release_env \<Rightarrow> bool \<Rightarrow> candidate \<Rightarrow> py \<Rightarrow> bytes \<Rightarrow> ('s, unit) publish" where
  "upload_asset env dry c release archive =
     bindS (liftE (json_item release ''id'')) (\<lambda>i.
     tryS (bindS (gh_api env dry POST
             (''https://uploads.github.com/'' @ repo_path c @ ''/releases/'' @ json_str env i @ ''/assets?name='' @ ASSET_NAME)
             None (Some archive) False) (\<lambda>_. returnS ()))
       (\<lambda>e. case e of Failure _ \<Rightarrow> returnS () | _ \<Rightarrow> raiseS e))"

definition ensure_asset ::
  "'s release_env \<Rightarrow> bool \<Rightarrow> candidate \<Rightarrow> py \<Rightarrow> bytes \<Rightarrow> string \<Rightarrow> ('s, asset_step) publish" where
  "ensure_asset env dry c release archive digest =
     bindS (liftE (named_assets release)) (\<lambda>existing.
     case existing of
       asset # _ \<Rightarrow>
         bindS (download_asset env c asset) (\<lambda>loaded.
         if rl_sha256 env loaded = digest then returnS AssetInPlace
         else raiseS (Stop (OtherAsset (rl_sha256 env loaded))))
     | [] \<Rightarrow>
         if dry then returnS AssetWouldUpload
         else bindS (upload_asset env dry c release archive) (\<lambda>_.
              bindS (liftE (json_item release ''id'')) (\<lambda>i.
              bindS (gh_get env (repo_path c @ ''/releases/'' @ json_str env i) False) (\<lambda>updated.
              bindS (liftE (named_assets updated)) (\<lambda>after.
              case after of
                [] \<Rightarrow> raiseS (Failure AssetNotUploaded)
              | asset # _ \<Rightarrow>
                  bindS (download_asset env c asset) (\<lambda>loaded.
                  if rl_sha256 env loaded \<noteq> digest then raiseS (Stop (OtherReadback (rl_sha256 env loaded)))
                  else returnS AssetUploaded))))))"

record check =
  ck_name :: string
  ck_ok :: bool
  ck_blocking :: bool

definition mk_check :: "string \<Rightarrow> bool \<Rightarrow> bool \<Rightarrow> check" where
  "mk_check name good blocking = \<lparr>ck_name = name, ck_ok = good, ck_blocking = blocking\<rparr>"

text \<open>\<^verbatim>\<open>_unpack\<close>: the names and contents, without directories, that make a dict.\<close>

definition unpack_zip :: "'s release_env \<Rightarrow> bytes \<Rightarrow> publish_error + (string \<times> bytes) list" where
  "unpack_zip env archive =
     (case rl_unpack env archive of None \<Rightarrow> Inl (PyRaise ''BadZipFile'') | Some files \<Rightarrow> Inr files)"

definition same_dict :: "(string \<times> bytes) list \<Rightarrow> (string \<times> bytes) list \<Rightarrow> bool" where
  "same_dict xs ys \<longleftrightarrow> list_all (\<lambda>k. map_of (rev xs) k = map_of (rev ys) k) (map fst (xs @ ys))"

definition attestation_check ::
  "'s release_env \<Rightarrow> candidate \<Rightarrow> string \<Rightarrow> bytes \<Rightarrow> ('s, check list) publish" where
  "attestation_check env c sha published =
     tryS (bindS (verify_attestation env (c\<lparr>cd_sha := sha\<rparr>) published (rl_sha256 env published)) (\<lambda>_.
           returnS [mk_check ''attestation'' True False]))
       (\<lambda>e. case e of Stop _ \<Rightarrow> returnS [mk_check ''attestation'' False False] | _ \<Rightarrow> raiseS e)"

definition check_content ::
  "'s release_env \<Rightarrow> candidate \<Rightarrow> string \<Rightarrow> bool \<Rightarrow> py \<Rightarrow> ('s, check list) publish" where
  "check_content env c sha predates_zip asset =
     bindS (liftE (build_zip env sha)) (\<lambda>from_tag.
     bindS (download_asset env c asset) (\<lambda>published.
     let tag_check = mk_check ''tag'' True False; attested = attestation_check env c sha published
     in if rl_sha256 env published = rl_sha256 env from_tag
        then bindS attested (\<lambda>cs. returnS ([tag_check, mk_check ''content'' True False] @ cs))
        else bindS (liftE (unpack_zip env from_tag)) (\<lambda>reference.
             bindS (liftE (unpack_zip env published)) (\<lambda>shipped.
             if same_dict reference shipped
             then bindS attested (\<lambda>cs. returnS ([tag_check, mk_check ''content'' True False] @ cs))
             else returnS [tag_check, mk_check ''content'' False (\<not> predates_zip)]))))"

definition check_published :: "'s release_env \<Rightarrow> candidate \<Rightarrow> py \<Rightarrow> ('s, check list) publish" where
  "check_published env c release =
     bindS (tag_sha env c) (\<lambda>sha.
     case sha of
       None \<Rightarrow> returnS [mk_check ''tag'' False False]
     | Some sha \<Rightarrow>
         let predates_zip = tuple_less (version_numbers (cd_version c)) FIRST_ZIP_VERSION
         in bindS (liftE (named_assets release)) (\<lambda>existing.
            case existing of
              [] \<Rightarrow> returnS [mk_check ''tag'' True False, mk_check ''content'' False (\<not> predates_zip)]
            | asset # _ \<Rightarrow> check_content env c sha predates_zip asset))"

text \<open>What a run is told: \<open>rc_zip\<close> is the ZIP handed over, \<open>rc_dry\<close> the switch of \<^verbatim>\<open>Gh\<close>.\<close>

record run_config =
  rc_dry :: bool
  rc_plan_only :: bool
  rc_attest :: bool
  rc_strict :: bool
  rc_trial :: bool
  rc_zip :: "bytes option"

datatype run_outcome = NothingToDo | Planned | Published

definition prove_published :: "'s release_env \<Rightarrow> run_config \<Rightarrow> candidate \<Rightarrow> py \<Rightarrow> ('s, run_outcome) publish" where
  "prove_published env cfg c release =
     bindS (check_published env c release) (\<lambda>checks.
     let worse = filter (\<lambda>k. \<not> ck_ok k \<and> (ck_blocking k \<or> rc_strict cfg)) checks
     in if worse \<noteq> [] then raiseS (Stop (DoesNotHang (map ck_name worse))) else returnS NothingToDo)"

definition run_zip :: "'s release_env \<Rightarrow> run_config \<Rightarrow> candidate \<Rightarrow> publish_error + bytes" where
  "run_zip env cfg c =
     (case rc_zip cfg of
        None \<Rightarrow> build_zip env (cd_sha c)
      | Some archive \<Rightarrow>
          bindE (build_zip env (cd_sha c)) (\<lambda>control.
          if rl_sha256 env archive \<noteq> rl_sha256 env control
          then Inl (Stop (OtherZip (rl_sha256 env archive) (rl_sha256 env control)))
          else Inr archive))"

text \<open>The path to a new release, from its last call back: public, draft, the checks before it.\<close>

definition make_public :: "'s release_env \<Rightarrow> bool \<Rightarrow> candidate \<Rightarrow> py \<Rightarrow> bool \<Rightarrow> ('s, run_outcome) publish" where
  "make_public env dry c release latest =
     bindS (liftE (json_item release ''id'')) (\<lambda>i.
     bindS (gh_api env dry PATCH (repo_path c @ ''/releases/'' @ json_str env i)
         (Some (PDict [(''draft'', PBool False),
            (''make_latest'', PStr (if latest then ''true'' else ''false''))])) None False) (\<lambda>_.
     returnS Published))"

definition publish_drafted ::
  "'s release_env \<Rightarrow> bool \<Rightarrow> candidate \<Rightarrow> bytes \<Rightarrow> bool \<Rightarrow> py option \<Rightarrow> ('s, run_outcome) publish" where
  "publish_drafted env dry c archive latest release =
     (case release of
        None \<Rightarrow> raiseS (PyRaise ''AssertionError'')
      | Some rel \<Rightarrow>
          bindS (ensure_asset env dry c rel archive (rl_sha256 env archive)) (\<lambda>_. make_public env dry c rel latest))"

definition publish_draft :: "'s release_env \<Rightarrow> bool \<Rightarrow> candidate \<Rightarrow> py option \<Rightarrow> bytes \<Rightarrow> string \<Rightarrow> bool
    \<Rightarrow> ('s, run_outcome) publish" where
  "publish_draft env dry c release archive body latest =
     bindS (ensure_tag env dry c) (\<lambda>_.
     bindS (ensure_draft env dry c release body) (publish_drafted env dry c archive latest))"

definition plan_draft :: "'s release_env \<Rightarrow> bool \<Rightarrow> candidate \<Rightarrow> py option \<Rightarrow> ('s, run_outcome) publish" where
  "plan_draft env dry c release =
     bindS (ensure_tag env dry c) (\<lambda>_.
     bindS (liftE (case release of None \<Rightarrow> Inr [] | Some rel \<Rightarrow>
              bindE (json_get rel ''assets'' (PList [])) (\<lambda>assets.
              bindE (json_items assets) (\<lambda>items. mapE (\<lambda>a. json_get a ''name'' PNone) items)))) (\<lambda>_.
     returnS Planned))"

definition run_latest ::
  "'s release_env \<Rightarrow> run_config \<Rightarrow> candidate \<Rightarrow> py option \<Rightarrow> bytes \<Rightarrow> string \<Rightarrow> ('s, run_outcome) publish" where
  "run_latest env cfg c release archive body =
     bindS (should_be_latest env c) (\<lambda>latest.
     if rc_plan_only cfg then plan_draft env (rc_dry cfg) c release
     else publish_draft env (rc_dry cfg) c release archive body latest)"

definition run_attested ::
  "'s release_env \<Rightarrow> run_config \<Rightarrow> candidate \<Rightarrow> py option \<Rightarrow> bytes \<Rightarrow> ('s, run_outcome) publish" where
  "run_attested env cfg c release archive =
     bindS (if rc_attest cfg then verify_attestation env c archive (rl_sha256 env archive) else returnS ()) (\<lambda>_.
     bindS (liftE (build_body env c (rl_sha256 env archive))) (run_latest env cfg c release archive))"

definition run_new :: "'s release_env \<Rightarrow> run_config \<Rightarrow> candidate \<Rightarrow> py option \<Rightarrow> ('s, run_outcome) publish" where
  "run_new env cfg c release =
     bindS (require_main_branch env c (rc_trial cfg)) (\<lambda>_.
     bindS (liftE (case release of None \<Rightarrow> Inr () | Some rel \<Rightarrow> require_draft_on_candidate env c rel)) (\<lambda>_.
     bindS (liftE (run_zip env cfg c)) (run_attested env cfg c release)))"

text \<open>\<^verbatim>\<open>not release.get("draft", False)\<close>\<close>

definition is_draft :: "py \<Rightarrow> publish_error + bool" where
  "is_draft release = bindE (json_get release ''draft'' (PBool False)) (\<lambda>v. Inr (py_truth v))"

definition run_release :: "'s release_env \<Rightarrow> run_config \<Rightarrow> candidate \<Rightarrow> ('s, run_outcome) publish" where
  "run_release env cfg c =
     bindS (find_release env c) (\<lambda>release.
     case release of
       None \<Rightarrow> if rc_strict cfg then raiseS (Stop NotPublished) else run_new env cfg c None
     | Some rel \<Rightarrow>
         bindS (liftE (is_draft rel)) (\<lambda>draft.
         if draft then if rc_strict cfg then raiseS (Stop NotPublished) else run_new env cfg c (Some rel)
         else prove_published env cfg c rel))"

text \<open>\<^verbatim>\<open>main\<close>: the configuration of each command, and the exit code.\<close>

datatype release_command = Plan bool | Verify | Publish bool bool

definition command_config :: "release_command \<Rightarrow> bytes option \<Rightarrow> run_config" where
  "command_config command archive =
     (let plan_only = (case command of Publish _ dry_run \<Rightarrow> dry_run | _ \<Rightarrow> True)
      in \<lparr>rc_dry = plan_only, rc_plan_only = plan_only,
          rc_attest = (case command of Plan _ \<Rightarrow> False | _ \<Rightarrow> True), rc_strict = (command = Verify),
          rc_trial = (case command of Plan trial \<Rightarrow> trial | Publish trial _ \<Rightarrow> trial | Verify \<Rightarrow> False),
          rc_zip = archive\<rparr>)"

definition release_main ::
  "'s release_env \<Rightarrow> release_command \<Rightarrow> string \<Rightarrow> string \<Rightarrow> bytes option \<Rightarrow> ('s, run_outcome) publish" where
  "release_main env command repo sha archive =
     bindS (liftE (read_candidate env repo sha)) (\<lambda>c. run_release env (command_config command archive) c)"

fun exit_code :: "publish_error + run_outcome \<Rightarrow> int option" where
  "exit_code (Inr _) = Some 0"
| "exit_code (Inl (Failure _)) = Some 1"
| "exit_code (Inl (Stop _)) = Some 2"
| "exit_code (Inl (PyRaise _)) = None"

end
