(* ===== verification/Release_Props.thy ===== *)
theory Release_Props
  imports Release_Publish
begin

text \<open>
  What the release flow may do to the repository on GitHub, whatever GitHub answers: the runs
  of gh it adds to the trace, which of them write, and what stands before the one that
  publishes.
\<close>

section \<open>What a step adds to the trace\<close>

definition adds :: "(gh_call \<times> gh_answer \<Rightarrow> bool) \<Rightarrow> ('s, 'a) publish \<Rightarrow> bool" where
  "adds p m \<longleftrightarrow> (\<forall>w w' r. m w = (w', r) \<longrightarrow> (\<exists>new. gw_trace w' = gw_trace w @ new \<and> list_all p new))"

named_theorems adds_intros \<open>steps that add only runs of a kind\<close>

lemma addsD: "adds p m \<Longrightarrow> m w = (w', r) \<Longrightarrow> \<exists>new. gw_trace w' = gw_trace w @ new \<and> list_all p new"
  by (simp add: adds_def)

lemma adds_pure [adds_intros]: "adds p (returnS x)" "adds p (raiseS e)" "adds p (liftE r)"
  by (simp_all add: adds_def returnS_def raiseS_def liftE_def)

lemma adds_bind [adds_intros]:
  assumes "adds p m" "\<And>x. adds p (f x)"
  shows "adds p (bindS m f)"
  unfolding adds_def
proof (intro allI impI)
  fix w w' r
  assume run: "bindS m f w = (w', r)"
  obtain v y where m: "m w = (v, y)" by (cases "m w")
  then obtain a where a: "gw_trace v = gw_trace w @ a" "list_all p a" using addsD [OF assms(1)] by blast
  show "\<exists>new. gw_trace w' = gw_trace w @ new \<and> list_all p new"
  proof (cases y)
    case (Inr x)
    then have "f x v = (w', r)" using run m by (simp add: bindS_def)
    then obtain b where "gw_trace w' = gw_trace v @ b" "list_all p b" using addsD [OF assms(2)] by blast
    with a show ?thesis by auto
  qed (use run m a in \<open>auto simp: bindS_def\<close>)
qed

lemma adds_try [adds_intros]:
  assumes "adds p m" "\<And>e. adds p (h e)"
  shows "adds p (tryS m h)"
  unfolding adds_def
proof (intro allI impI)
  fix w w' r
  assume run: "tryS m h w = (w', r)"
  obtain v y where m: "m w = (v, y)" by (cases "m w")
  then obtain a where a: "gw_trace v = gw_trace w @ a" "list_all p a" using addsD [OF assms(1)] by blast
  show "\<exists>new. gw_trace w' = gw_trace w @ new \<and> list_all p new"
  proof (cases y)
    case (Inl e)
    then have "h e v = (w', r)" using run m by (simp add: tryS_def)
    then obtain b where "gw_trace w' = gw_trace v @ b" "list_all p b" using addsD [OF assms(2)] by blast
    with a show ?thesis by auto
  qed (use run m a in \<open>auto simp: tryS_def\<close>)
qed

lemma adds_mono: "adds p m \<Longrightarrow> (\<And>x. p x \<Longrightarrow> q x) \<Longrightarrow> adds q m"
  unfolding adds_def by (metis list_all_iff)

text \<open>Of the runs of gh only an API call with another method than GET writes.\<close>

fun is_write :: "gh_call \<Rightarrow> bool" where
  "is_write (ApiCall meth path data file) = (meth \<noteq> GET)"
| "is_write _ = False"

abbreviation reads :: "('s, 'a) publish \<Rightarrow> bool" where
  "reads m \<equiv> adds (\<lambda>x. \<not> is_write (fst x)) m"

lemma adds_api:
  "(meth \<noteq> GET \<and> dry) \<or> (\<forall>a. p (ApiCall meth path data file, a))
     \<Longrightarrow> adds p (gh_api env dry meth path data file allow)"
  by (auto simp: adds_def gh_api_def gh_run_def raiseS_def split: prod.splits)

lemma reads_gh [adds_intros]:
  "reads (gh_get env path allow)" "reads (gh_raw env path)" "reads (gh_attestation env z r s w)"
  by (rule adds_api, simp)
    (auto simp: adds_def gh_raw_def gh_attestation_def gh_run_def split: prod.splits)

lemma reads_dry [adds_intros]: "meth \<noteq> GET \<Longrightarrow> reads (gh_api env True meth path data file allow)"
  by (rule adds_api) simp

lemma adds_let [adds_intros]: "adds p (f x) \<Longrightarrow> adds p (Let x f)"
  by simp

lemma adds_if [adds_intros]: "(b \<Longrightarrow> adds p m) \<Longrightarrow> (\<not> b \<Longrightarrow> adds p n) \<Longrightarrow> adds p (if b then m else n)"
  by simp

lemma adds_option [adds_intros]:
  "adds p m \<Longrightarrow> (\<And>x. adds p (f x)) \<Longrightarrow> adds p (case v of None \<Rightarrow> m | Some x \<Rightarrow> f x)"
  by (cases v) simp_all

lemma adds_list [adds_intros]:
  "adds p m \<Longrightarrow> (\<And>x xs. adds p (f x xs)) \<Longrightarrow> adds p (case l of [] \<Rightarrow> m | x # xs \<Rightarrow> f x xs)"
  by (cases l) simp_all

lemma reads_tag_sha [adds_intros]: "reads (tag_sha env c)"
  unfolding tag_sha_def by (intro adds_intros)

lemma reads_find_release [adds_intros]: "reads (find_release env c)"
  unfolding find_release_def by (intro adds_intros)

lemma reads_require_main_branch [adds_intros]: "reads (require_main_branch env c trial)"
  unfolding require_main_branch_def by (intro adds_intros)

lemma reads_verify_attestation [adds_intros]: "reads (verify_attestation env c z d)"
  unfolding verify_attestation_def
  by (intro adds_intros) (auto intro!: adds_intros simp: Let_def split: py.splits list.splits)

lemma reads_download_asset [adds_intros]: "reads (download_asset env c a)"
  unfolding download_asset_def by (intro adds_intros)

lemma reads_should_be_latest [adds_intros]: "reads (should_be_latest env c)"
  unfolding should_be_latest_def by (intro adds_intros)

lemma reads_attestation_check [adds_intros]: "reads (attestation_check env c sha z)"
  unfolding attestation_check_def
  by (intro adds_intros) (auto intro!: adds_intros split: publish_error.splits)

lemma reads_check_published [adds_intros]: "reads (check_published env c rel)"
  unfolding check_published_def check_content_def by (intro adds_intros)

lemma reads_prove_published [adds_intros]: "reads (prove_published env cfg c rel)"
  unfolding prove_published_def by (intro adds_intros)

section \<open>Dry runs\<close>

lemma reads_ensure_dry [adds_intros]:
  "reads (ensure_tag env True c)" "reads (ensure_draft env True c rel body)"
  "reads (ensure_asset env True c r z d)"
  unfolding ensure_tag_def ensure_draft_def ensure_asset_def upload_asset_def
  by (intro adds_intros; simp; fail)+

lemma reads_run_dry:
  assumes "rc_dry cfg"
  shows "reads (run_release env cfg c)"
  unfolding run_release_def run_new_def run_attested_def run_latest_def plan_draft_def publish_draft_def
    publish_drafted_def make_public_def using assms
  by (auto intro!: adds_intros)

text \<open>
  C40: only \<open>publish\<close> without \<open>--dry-run\<close> writes. Whatever GitHub answers, \<open>plan\<close>, \<open>verify\<close> and a
  dry run of \<open>publish\<close> end with no run of gh that writes.
\<close>

theorem dry_runs_write_nothing:
  assumes "release_main env command repo ref archive w = (w', r)" "\<forall>trial. command \<noteq> Publish trial False"
  shows "\<exists>new. gw_trace w' = gw_trace w @ new \<and> list_all (\<lambda>x. \<not> is_write (fst x)) new"
proof -
  have "rc_dry (command_config command archive)"
    using assms(2) by (cases command) (auto simp: command_config_def)
  then have "reads (release_main env command repo ref archive)"
    unfolding release_main_def by (intro adds_intros reads_run_dry)
  then show ?thesis using assms(1) by (rule addsD)
qed

section \<open>The writes of a run\<close>

definition tag_write :: "candidate \<Rightarrow> gh_call" where
  "tag_write c = ApiCall POST (repo_path c @ ''/git/refs'')
     (Some (PDict [(''ref'', PStr (''refs/tags/'' @ cd_tag c)), (''sha'', PStr (cd_sha c))])) None"

definition draft_write :: "candidate \<Rightarrow> string \<Rightarrow> gh_call" where
  "draft_write c body = ApiCall POST (repo_path c @ ''/releases'')
     (Some (PDict [(''tag_name'', PStr (cd_tag c)), (''target_commitish'', PStr (cd_sha c)),
        (''name'', PStr (cd_tag c)), (''body'', PStr body), (''draft'', PBool True),
        (''prerelease'', PBool (cd_version c = TRIAL_VERSION))])) None"

definition asset_write :: "candidate \<Rightarrow> string \<Rightarrow> bytes \<Rightarrow> gh_call" where
  "asset_write c i archive = ApiCall POST
     (''https://uploads.github.com/'' @ repo_path c @ ''/releases/'' @ i @ ''/assets?name='' @ ASSET_NAME) None (Some archive)"

definition publish_write :: "candidate \<Rightarrow> string \<Rightarrow> bool \<Rightarrow> gh_call" where
  "publish_write c i latest = ApiCall PATCH (repo_path c @ ''/releases/'' @ i)
     (Some (PDict [(''draft'', PBool False), (''make_latest'', PStr (if latest then ''true'' else ''false''))])) None"

definition writes_of :: "(gh_call \<times> gh_answer) list \<Rightarrow> gh_call list" where
  "writes_of t = filter is_write (map fst t)"

lemma writes_of_append [simp]: "writes_of (s @ t) = writes_of s @ writes_of t"
  by (simp add: writes_of_def)

text \<open>The writes a step adds are one of the sequences \<open>s\<close>.\<close>

definition wrote :: "('s, 'a) publish \<Rightarrow> gh_call list set \<Rightarrow> bool" where
  "wrote m s \<longleftrightarrow> (\<forall>w w' r. m w = (w', r) \<longrightarrow> (\<exists>new. gw_trace w' = gw_trace w @ new \<and> writes_of new \<in> s))"

lemma wroteD: "wrote m s \<Longrightarrow> m w = (w', r) \<Longrightarrow> \<exists>new. gw_trace w' = gw_trace w @ new \<and> writes_of new \<in> s"
  by (simp add: wrote_def)

lemma wrote_reads: "reads m \<Longrightarrow> [] \<in> s \<Longrightarrow> wrote m s"
  by (fastforce simp: adds_def wrote_def writes_of_def list_all_iff filter_empty_conv)

lemma reads_run:
  assumes "reads m" "m w = (w', r)"
  obtains new where "gw_trace w' = gw_trace w @ new" "writes_of new = []"
  using wroteD [OF wrote_reads [OF assms(1), of "{[]}"] assms(2)] by blast

lemma wrote_bind:
  assumes "wrote m s" "\<And>x. wrote (f x) t" "[] \<in> t"
  shows "wrote (bindS m f) {a @ b | a b. a \<in> s \<and> b \<in> t}"
  unfolding wrote_def
proof (intro allI impI)
  fix w w' r
  assume run: "bindS m f w = (w', r)"
  obtain v y where m: "m w = (v, y)" by (cases "m w")
  then obtain a where a: "gw_trace v = gw_trace w @ a" "writes_of a \<in> s" using wroteD [OF assms(1)] by blast
  show "\<exists>new. gw_trace w' = gw_trace w @ new \<and> writes_of new \<in> {a @ b | a b. a \<in> s \<and> b \<in> t}"
  proof (cases y)
    case (Inl e)
    then have "w' = v" using run m by (simp add: bindS_def)
    moreover have "writes_of a = writes_of a @ []" by simp
    ultimately show ?thesis using a assms(3) by blast
  next
    case (Inr x)
    then have "f x v = (w', r)" using run m by (simp add: bindS_def)
    then obtain b where "gw_trace w' = gw_trace v @ b" "writes_of b \<in> t" using wroteD [OF assms(2)] by blast
    with a have "gw_trace w' = gw_trace w @ (a @ b)" "writes_of (a @ b) = writes_of a @ writes_of b" by simp_all
    then show ?thesis using a(2) \<open>writes_of b \<in> t\<close> by blast
  qed
qed

lemma wrote_mono: "wrote m s \<Longrightarrow> s \<subseteq> t \<Longrightarrow> wrote m t"
  by (fastforce simp: wrote_def)

lemma wrote_then_reads: "wrote m s \<Longrightarrow> (\<And>x. reads (f x)) \<Longrightarrow> wrote (bindS m f) s"
  by (rule wrote_mono [OF wrote_bind [of m s f "{[]}"]]) (auto intro: wrote_reads)

lemma reads_then_wrote: "reads m \<Longrightarrow> (\<And>x. wrote (f x) s) \<Longrightarrow> [] \<in> s \<Longrightarrow> wrote (bindS m f) s"
  by (rule wrote_mono [OF wrote_bind [of m "{[]}" f s]]) (auto intro: wrote_reads)

lemma wrote_caught: "wrote m s \<Longrightarrow> (\<And>e. reads (h e)) \<Longrightarrow> wrote (tryS m h) s"
  unfolding wrote_def
proof (intro allI impI)
  fix w w' r
  assume m: "\<forall>w w' r. m w = (w', r) \<longrightarrow> (\<exists>new. gw_trace w' = gw_trace w @ new \<and> writes_of new \<in> s)"
    and h: "\<And>e. reads (h e)" and run: "tryS m h w = (w', r)"
  obtain v y where v: "m w = (v, y)" by (cases "m w")
  then obtain a where a: "gw_trace v = gw_trace w @ a" "writes_of a \<in> s" using m by blast
  show "\<exists>new. gw_trace w' = gw_trace w @ new \<and> writes_of new \<in> s"
  proof (cases y)
    case (Inl e)
    then have "h e v = (w', r)" using run v by (simp add: tryS_def)
    then obtain b where b: "gw_trace w' = gw_trace v @ b" "list_all (\<lambda>x. \<not> is_write (fst x)) b"
      using addsD [OF h] by blast
    have "writes_of b = []" using b(2) by (auto simp: writes_of_def list_all_iff filter_empty_conv)
    with a b(1) show ?thesis by (intro exI [of _ "a @ b"]) simp
  qed (use run v a in \<open>auto simp: tryS_def\<close>)
qed

lemma wrote_api: "meth \<noteq> GET \<Longrightarrow> wrote (gh_api env dry meth path data file allow) {[], [ApiCall meth path data file]}"
  by (auto simp: wrote_def gh_api_def gh_run_def raiseS_def writes_of_def split: prod.splits)

lemma wrote_tag: "wrote (ensure_tag env dry c) {[], [tag_write c]}"
  unfolding ensure_tag_def tag_write_def
  by (intro reads_then_wrote reads_tag_sha)
    (auto intro!: wrote_reads adds_intros wrote_then_reads wrote_api split: option.splits)

lemma wrote_draft: "wrote (ensure_draft env dry c rel body) {[], [draft_write c body]}"
  unfolding ensure_draft_def draft_write_def
  by (auto intro!: wrote_reads adds_intros wrote_then_reads wrote_api split: option.splits)

lemma wrote_cases:
  "\<lbrakk>b \<Longrightarrow> wrote m s; \<not> b \<Longrightarrow> wrote n s\<rbrakk> \<Longrightarrow> wrote (if b then m else n) s"
  "\<lbrakk>wrote m s; \<And>x. wrote (f x) s\<rbrakk> \<Longrightarrow> wrote (case v of None \<Rightarrow> m | Some x \<Rightarrow> f x) s"
  "\<lbrakk>wrote m s; \<And>x xs. wrote (g x xs) s\<rbrakk> \<Longrightarrow> wrote (case l of [] \<Rightarrow> m | x # xs \<Rightarrow> g x xs) s"
  by (simp, cases v, simp_all, cases l, simp_all)

text \<open>What a step that came through leaves in the trace.\<close>

lemma gh_api_Inr:
  assumes "gh_api env dry meth path data file allow w = (v, Inr x)"
  shows "\<exists>a. gw_trace v = gw_trace w @ [(ApiCall meth path data file, a)]
    \<and> ((\<exists>out. a = Inr out \<and> parse_answer env out = Inr x) \<or> allow \<and> x = PNone)"
  using assms by (auto simp: gh_api_def gh_run_def raiseS_def split: prod.splits if_splits sum.splits)

lemma run_zip_Inr:
  assumes "run_zip env cfg c = Inr archive"
  shows "\<exists>control. build_zip env (cd_sha c) = Inr control \<and> rl_sha256 env archive = rl_sha256 env control"
  using assms by (auto simp: run_zip_def bindE_eq_Inr split: option.splits if_splits)

text \<open>The upload to a release and the change that makes it public, for the release's own id.\<close>

definition asset_writes :: "'s release_env \<Rightarrow> candidate \<Rightarrow> py \<Rightarrow> bytes \<Rightarrow> gh_call list set" where
  "asset_writes env c rel archive =
     {u. u = [] \<or> (\<exists>i. json_item rel ''id'' = Inr i \<and> u = [asset_write c (json_str env i) archive])}"

definition publish_writes :: "'s release_env \<Rightarrow> candidate \<Rightarrow> py \<Rightarrow> bool \<Rightarrow> gh_call list set" where
  "publish_writes env c rel latest =
     {p. p = [] \<or> (\<exists>i. json_item rel ''id'' = Inr i \<and> p = [publish_write c (json_str env i) latest])}"

lemma nothing_written [simp]: "[] \<in> asset_writes env c rel archive" "[] \<in> publish_writes env c rel latest"
  by (simp_all add: asset_writes_def publish_writes_def)

lemma one_release:
  "u \<in> asset_writes env c rel archive \<Longrightarrow> p \<in> publish_writes env c rel latest \<Longrightarrow>
     \<exists>i. (u = [] \<or> json_item rel ''id'' = Inr i \<and> u = [asset_write c (json_str env i) archive])
       \<and> (p = [] \<or> json_item rel ''id'' = Inr i \<and> p = [publish_write c (json_str env i) latest])"
  by (auto simp: asset_writes_def publish_writes_def)

lemma wrote_pure: "[] \<in> s \<Longrightarrow> (\<And>x. y = Inr x \<Longrightarrow> wrote (f x) s) \<Longrightarrow> wrote (bindS (liftE y) f) s"
  by (cases y) (auto simp: wrote_def bindS_def liftE_def writes_of_def)

lemma wrote_upload: "wrote (upload_asset env dry c rel archive) (asset_writes env c rel archive)"
  unfolding upload_asset_def
proof (rule wrote_pure [OF nothing_written(1)])
  fix i assume "json_item rel ''id'' = Inr i"
  then have "{[], [asset_write c (json_str env i) archive]} \<subseteq> asset_writes env c rel archive"
    by (auto simp: asset_writes_def)
  then show "wrote (tryS (bindS (gh_api env dry POST
      (''https://uploads.github.com/'' @ repo_path c @ ''/releases/'' @ json_str env i @ ''/assets?name='' @ ASSET_NAME)
      None (Some archive) False) (\<lambda>_. returnS ()))
      (\<lambda>e. case e of Failure _ \<Rightarrow> returnS () | _ \<Rightarrow> raiseS e)) (asset_writes env c rel archive)"
    unfolding asset_write_def
    by (intro wrote_caught wrote_then_reads wrote_mono [OF wrote_api] adds_intros)
      (auto intro!: adds_intros split: publish_error.splits)
qed

lemma wrote_asset: "wrote (ensure_asset env dry c rel archive d) (asset_writes env c rel archive)"
  unfolding ensure_asset_def
proof (rule reads_then_wrote [OF adds_pure(3)], rule wrote_cases(3), rule wrote_cases(1))
  show "wrote (returnS AssetWouldUpload) (asset_writes env c rel archive)"
    by (intro wrote_reads adds_intros nothing_written)
qed (rule wrote_then_reads [OF wrote_upload] | intro wrote_reads adds_intros nothing_written)+

lemma wrote_public: "wrote (make_public env dry c rel latest) (publish_writes env c rel latest)"
  unfolding make_public_def
proof (rule wrote_pure [OF nothing_written(2)])
  fix i assume "json_item rel ''id'' = Inr i"
  then have "{[], [publish_write c (json_str env i) latest]} \<subseteq> publish_writes env c rel latest"
    by (auto simp: publish_writes_def)
  then show "wrote (bindS (gh_api env dry PATCH (repo_path c @ ''/releases/'' @ json_str env i)
      (Some (PDict [(''draft'', PBool False), (''make_latest'', PStr (if latest then ''true'' else ''false''))]))
      None False) (\<lambda>_. returnS Published)) (publish_writes env c rel latest)"
    unfolding publish_write_def by (intro wrote_then_reads wrote_mono [OF wrote_api] adds_intros) simp_all
qed

lemma wrote_drafted:
  "wrote (publish_drafted env dry c archive latest (Some rel))
     {u @ p | u p. u \<in> asset_writes env c rel archive \<and> p \<in> publish_writes env c rel latest}"
  unfolding publish_drafted_def option.case
  by (intro wrote_bind [OF wrote_asset wrote_public] nothing_written)

text \<open>The draft a run works on: the one that was there, or GitHub's answer to its own draft.\<close>

definition draft_of :: "'s release_env \<Rightarrow> candidate \<Rightarrow> py option \<Rightarrow> (gh_call \<times> gh_answer) list \<Rightarrow> py \<Rightarrow> bool" where
  "draft_of env c found t rel \<longleftrightarrow> found = Some rel
     \<or> found = None \<and> (\<exists>body out. (draft_write c body, Inr out) \<in> set t \<and> parse_answer env out = Inr rel)"

lemma draft_of_mono: "draft_of env c found t rel \<Longrightarrow> set t \<subseteq> set t' \<Longrightarrow> draft_of env c found t' rel"
  unfolding draft_of_def by blast

lemma ensure_draft_run:
  assumes "ensure_draft env dry c found body w = (v, r)"
  obtains d where "gw_trace v = gw_trace w @ d" "writes_of d \<in> {[], [draft_write c body]}"
    "\<And>rel. r = Inr (Some rel) \<Longrightarrow> draft_of env c found d rel"
proof -
  obtain d where d: "gw_trace v = gw_trace w @ d" "writes_of d \<in> {[], [draft_write c body]}"
    using wroteD [OF wrote_draft assms] by blast
  have "draft_of env c found d rel" if r: "r = Inr (Some rel)" for rel
  proof (cases found)
    case None
    then have "gh_api env dry POST (repo_path c @ ''/releases'')
        (Some (PDict [(''tag_name'', PStr (cd_tag c)), (''target_commitish'', PStr (cd_sha c)),
           (''name'', PStr (cd_tag c)), (''body'', PStr body), (''draft'', PBool True),
           (''prerelease'', PBool (cd_version c = TRIAL_VERSION))])) None False w = (v, Inr rel)"
      using assms r by (auto simp: ensure_draft_def effect_eqs returnS_def split: if_splits)
    from gh_api_Inr [OF this] d(1) show ?thesis
      using None by (auto simp: draft_of_def draft_write_def)
  qed (use assms r in \<open>auto simp: ensure_draft_def effect_eqs returnS_def draft_of_def\<close>)
  with d that show ?thesis by blast
qed

text \<open>
  What a run may leave in the trace. The tag, the draft, the upload and the change that
  publishes come in this order; the ZIP is the run's, the text of the draft is built from it,
  and upload and publication go to one release, by its id.
\<close>

definition released ::
  "'s release_env \<Rightarrow> run_config \<Rightarrow> candidate \<Rightarrow> py option \<Rightarrow> (gh_call \<times> gh_answer) list \<Rightarrow> bool" where
  "released env cfg c found new \<longleftrightarrow> writes_of new = [] \<or> (\<exists>archive body latest t d u p.
     run_zip env cfg c = Inr archive \<and> build_body env c (rl_sha256 env archive) = Inr body
     \<and> writes_of new = t @ d @ u @ p \<and> t \<in> {[], [tag_write c]} \<and> d \<in> {[], [draft_write c body]}
     \<and> (u = [] \<and> p = [] \<or> (\<exists>rel. draft_of env c found new rel
          \<and> u \<in> asset_writes env c rel archive \<and> p \<in> publish_writes env c rel latest)))"

definition leaves :: "('s, 'a) publish \<Rightarrow> ((gh_call \<times> gh_answer) list \<Rightarrow> bool) \<Rightarrow> bool" where
  "leaves m q \<longleftrightarrow> (\<forall>w w' r. m w = (w', r) \<longrightarrow> (\<exists>new. gw_trace w' = gw_trace w @ new \<and> q new))"

lemma released_unwritten: "writes_of new = [] \<Longrightarrow> released env cfg c found new"
  by (simp add: released_def)

lemma released_later: "writes_of a = [] \<Longrightarrow> released env cfg c found b \<Longrightarrow> released env cfg c found (a @ b)"
proof -
  have "draft_of env c found b rel \<Longrightarrow> draft_of env c found (a @ b) rel" for rel
    by (erule draft_of_mono) simp
  moreover assume "writes_of a = []" "released env cfg c found b"
  ultimately show ?thesis unfolding released_def writes_of_append by (simp only: append_Nil) blast
qed

lemma leaves_reads: "reads m \<Longrightarrow> leaves m (released env cfg c found)"
  unfolding leaves_def by (metis reads_run released_unwritten)

lemma leaves_after:
  assumes "reads m" "\<And>x. leaves (f x) (released env cfg c found)"
  shows "leaves (bindS m f) (released env cfg c found)"
  unfolding leaves_def
proof (intro allI impI)
  fix w w' r
  assume run: "bindS m f w = (w', r)"
  obtain v y where m: "m w = (v, y)" by (cases "m w")
  then obtain a where a: "gw_trace v = gw_trace w @ a" "writes_of a = []"
    using reads_run [OF assms(1)] by blast
  show "\<exists>new. gw_trace w' = gw_trace w @ new \<and> released env cfg c found new"
  proof (cases y)
    case (Inr x)
    then obtain b where "gw_trace w' = gw_trace v @ b" "released env cfg c found b"
      using run m assms(2) by (fastforce simp: bindS_def leaves_def)
    with a show ?thesis by (intro exI [of _ "a @ b"]) (simp add: released_later)
  qed (use run m a in \<open>auto simp: bindS_def released_unwritten\<close>)
qed

lemma leaves_pure:
  assumes "\<And>x. y = Inr x \<Longrightarrow> leaves (f x) (released env cfg c found)"
  shows "leaves (bindS (liftE y) f) (released env cfg c found)"
  using assms by (cases y) (auto simp: leaves_def bindS_def liftE_def released_unwritten writes_of_def)

lemma leaves_publish_draft:
  assumes "run_zip env cfg c = Inr archive" "build_body env c (rl_sha256 env archive) = Inr body"
  shows "leaves (publish_draft env dry c found archive body latest) (released env cfg c found)"
  unfolding leaves_def
proof (intro allI impI)
  fix w w' r
  assume run: "publish_draft env dry c found archive body latest w = (w', r)"
  obtain v1 x where tag: "ensure_tag env dry c w = (v1, x)" by fastforce
  then obtain t where t: "gw_trace v1 = gw_trace w @ t" "writes_of t \<in> {[], [tag_write c]}"
    using wroteD [OF wrote_tag] by blast
  obtain v2 y where draft: "ensure_draft env dry c found body v1 = (v2, y)" by fastforce
  then obtain d where d: "gw_trace v2 = gw_trace v1 @ d" "writes_of d \<in> {[], [draft_write c body]}"
    "\<And>rel. y = Inr (Some rel) \<Longrightarrow> draft_of env c found d rel" by (rule ensure_draft_run) blast
  have rel: "released env cfg c found new"
    if "writes_of new = a @ b" "a \<in> {[], [tag_write c]}" "b \<in> {[], [draft_write c body]}" for a b new
    using that assms unfolding released_def
    by (intro disjI2 exI [of _ archive] exI [of _ body] exI [of _ latest] exI [of _ a] exI [of _ b] exI [of _ "[]"]) simp
  show "\<exists>new. gw_trace w' = gw_trace w @ new \<and> released env cfg c found new"
  proof (cases "\<exists>z rel. x = Inr z \<and> y = Inr (Some rel)")
    case True
    then obtain z rel' where xy: "x = Inr z" "y = Inr (Some rel')" by blast
    then have "publish_drafted env dry c archive latest (Some rel') v2 = (w', r)"
      using run tag draft by (simp add: publish_draft_def bindS_def)
    then obtain e u p where e: "gw_trace w' = gw_trace v2 @ e" "writes_of e = u @ p"
      "u \<in> asset_writes env c rel' archive" "p \<in> publish_writes env c rel' latest"
      using wroteD [OF wrote_drafted] by blast
    have "draft_of env c found (t @ d @ e) rel'" by (rule draft_of_mono [OF d(3) [OF xy(2)]]) auto
    then have "released env cfg c found (t @ d @ e)"
      unfolding released_def using assms t(2) d(2) e(2-4)
      by (intro disjI2 exI [of _ archive] exI [of _ body] exI [of _ latest] exI [of _ "writes_of t"]
          exI [of _ "writes_of d"] exI [of _ u] exI [of _ p]) auto
    then show ?thesis using t(1) d(1) e(1) by (intro exI [of _ "t @ d @ e"]) simp
  next
    case False
    then consider (tag) err where "x = Inl err" | (draft) z where "x = Inr z" "\<forall>rel. y \<noteq> Inr (Some rel)"
      by (cases x) auto
    then show ?thesis
    proof cases
      case tag': tag
      then have "w' = v1" using run tag by (simp add: publish_draft_def bindS_def)
      then show ?thesis using t rel [of t "writes_of t" "[]"] by auto
    next
      case draft': draft
      then have "w' = v2"
        using run tag draft by (cases y) (auto simp: publish_draft_def publish_drafted_def bindS_def raiseS_def split: option.splits)
      then show ?thesis using t d(1,2) rel [of "t @ d" "writes_of t" "writes_of d"] by auto
    qed
  qed
qed

lemma leaves_plan:
  assumes "run_zip env cfg c = Inr archive" "build_body env c (rl_sha256 env archive) = Inr body"
  shows "leaves (plan_draft env dry c found) (released env cfg c found)"
proof -
  have "wrote (plan_draft env dry c found) {[], [tag_write c]}"
    unfolding plan_draft_def by (intro wrote_then_reads [OF wrote_tag] adds_intros)
  moreover have "released env cfg c found new" if "writes_of new \<in> {[], [tag_write c]}" for new
    using that assms unfolding released_def
    by (intro disjI2 exI [of _ archive] exI [of _ body] exI [of _ True] exI [of _ "writes_of new"] exI [of _ "[]"]) simp
  ultimately show ?thesis unfolding leaves_def using wroteD by blast
qed

lemma leaves_run_new: "leaves (run_new env cfg c found) (released env cfg c found)"
  unfolding run_new_def
proof (rule leaves_after [OF reads_require_main_branch], rule leaves_pure, rule leaves_pure)
  fix archive assume zip: "run_zip env cfg c = Inr archive"
  have last: "leaves (run_latest env cfg c found archive body) (released env cfg c found)"
    if "build_body env c (rl_sha256 env archive) = Inr body" for body
    unfolding run_latest_def
    using leaves_plan [OF zip that] leaves_publish_draft [OF zip that] by (intro leaves_after adds_intros) simp
  show "leaves (run_attested env cfg c found archive) (released env cfg c found)"
    unfolding run_attested_def by (rule leaves_after) (intro adds_intros, rule leaves_pure, rule last)
qed

text \<open>The releases GitHub listed have this one, a draft for the candidate's tag.\<close>

definition listed_draft :: "'s release_env \<Rightarrow> candidate \<Rightarrow> (gh_call \<times> gh_answer) list \<Rightarrow> py \<Rightarrow> bool" where
  "listed_draft env c t rel \<longleftrightarrow> (\<exists>out answer releases.
     (ApiCall GET (repo_path c @ ''/releases'') None None, Inr out) \<in> set t \<and> parse_answer env out = Inr answer
     \<and> json_items (json_or answer (PList [])) = Inr releases \<and> rel \<in> set releases
     \<and> json_get rel ''tag_name'' PNone = Inr (PStr (cd_tag c)) \<and> is_draft rel = Inr True)"

text \<open>The release a run works on: the draft in the list, or the one it made.\<close>

definition the_draft :: "'s release_env \<Rightarrow> candidate \<Rightarrow> (gh_call \<times> gh_answer) list \<Rightarrow> py \<Rightarrow> bool" where
  "the_draft env c t rel \<longleftrightarrow> listed_draft env c t rel
     \<or> (\<exists>body out. (draft_write c body, Inr out) \<in> set t \<and> parse_answer env out = Inr rel)"

lemma filterE_member: "filterE p xs = Inr ys \<Longrightarrow> y \<in> set ys \<Longrightarrow> y \<in> set xs \<and> p y = Inr True"
  by (induction xs arbitrary: ys) (auto simp: bindE_eq_Inr split: if_splits)

lemma find_release_Inr:
  assumes "find_release env c w = (v, Inr (Some rel))" "is_draft rel = Inr True" "gw_trace v = gw_trace w @ a"
  shows "listed_draft env c a rel"
proof -
  obtain w1 answer releases hits where 1: "gh_get env (repo_path c @ ''/releases'') False w = (w1, Inr answer)"
    "json_items (json_or answer (PList [])) = Inr releases"
    "filterE (\<lambda>rel. bindE (json_get rel ''tag_name'' PNone) (\<lambda>t. Inr (t = PStr (cd_tag c)))) releases = Inr hits"
    "v = w1" "rel \<in> set hits"
    using assms(1)
    by (auto simp: find_release_def effect_eqs liftE_def returnS_def raiseS_def split: if_splits list.splits)
  obtain out where "gw_trace w1 = gw_trace w @ [(ApiCall GET (repo_path c @ ''/releases'') None None, Inr out)]"
    "parse_answer env out = Inr answer" using gh_api_Inr [OF 1(1)] by blast
  with 1 assms(2,3) filterE_member [OF 1(3,5)] show ?thesis
    unfolding listed_draft_def by (intro exI [of _ out] exI [of _ answer] exI [of _ releases]) (auto simp: bindE_eq_Inr)
qed

lemma the_draft_found:
  "draft_of env c found b rel \<Longrightarrow> (\<And>r. found = Some r \<Longrightarrow> listed_draft env c a r) \<Longrightarrow> the_draft env c (a @ b) rel"
  unfolding draft_of_def the_draft_def listed_draft_def by (auto; fastforce)

lemma run_release_new:
  assumes "run_release env cfg c w = (w', r)"
  obtains (unwritten) new where "gw_trace w' = gw_trace w @ new" "writes_of new = []"
  | (new) v found a where "find_release env c w = (v, Inr found)" "gw_trace v = gw_trace w @ a"
      "writes_of a = []" "run_new env cfg c found v = (w', r)" "\<And>rel. found = Some rel \<Longrightarrow> listed_draft env c a rel"
proof -
  obtain v y where find: "find_release env c w = (v, y)" by fastforce
  then obtain a where a: "gw_trace v = gw_trace w @ a" "writes_of a = []"
    using reads_run [OF reads_find_release] by blast
  have quiet: thesis if "w' = v" using unwritten [of a] a that by simp
  have read: thesis if "prove_published env cfg c rel v = (w', r)" for rel
    using reads_run [OF reads_prove_published that] a unwritten by (metis append_assoc append_Nil writes_of_append)
  show thesis
  proof (cases y)
    case (Inl e)
    then show ?thesis using assms find quiet by (simp add: run_release_def bindS_def)
  next
    case (Inr found)
    show ?thesis
    proof (cases found)
      case None
      then show ?thesis using assms find Inr quiet new [OF find [unfolded Inr] a]
        by (auto simp: run_release_def bindS_def raiseS_def split: if_splits)
    next
      case (Some rel)
      show ?thesis
      proof (cases "is_draft rel")
        case (Inr draft)
        then consider "run_new env cfg c found v = (w', r)" "draft" | "w' = v" | "prove_published env cfg c rel v = (w', r)"
          using assms find \<open>y = Inr found\<close> Some
          by (auto simp: run_release_def bindS_def liftE_def raiseS_def split: if_splits)
        then show ?thesis
        proof cases
          case 1
          have "listed_draft env c a rel" using find_release_Inr find \<open>y = Inr found\<close> Some Inr 1(2) a(1) by simp
          with 1(1) Some show ?thesis using new [OF find [unfolded \<open>y = Inr found\<close>] a] by blast
        next
          case 3
          then show ?thesis by (rule read)
        qed (rule quiet)
      qed (use assms find \<open>y = Inr found\<close> Some quiet in \<open>simp add: run_release_def bindS_def liftE_def\<close>)
    qed
  qed
qed

text \<open>
  C39: the flow writes in one order and nothing else. Whatever GitHub answers, the writes of a
  run are, in this order and each at most once: the new tag on the candidate's commit; the
  draft for that tag and commit, its text built for the run's ZIP; the upload of that ZIP,
  whose digest is that of a build from the commit; and the change that makes the release
  public. Upload and publication go to one release, by the id GitHub gave for the draft of
  the candidate's tag: the one in its list, or the one the run made. No tag is moved, no draft
  rewritten, no asset replaced or deleted. A release that is public already is only read.
\<close>

theorem release_writes_in_order:
  assumes "run_release env cfg c \<lparr>gw_hub = s, gw_trace = []\<rparr> = (w', r)"
  shows "(writes_of (gw_trace w') = [] \<or> (\<exists>archive control body t d u p.
      run_zip env cfg c = Inr archive \<and> build_zip env (cd_sha c) = Inr control
      \<and> rl_sha256 env archive = rl_sha256 env control
      \<and> build_body env c (rl_sha256 env archive) = Inr body
      \<and> writes_of (gw_trace w') = t @ d @ u @ p
      \<and> t \<in> {[], [tag_write c]} \<and> d \<in> {[], [draft_write c body]}
      \<and> (u = [] \<and> p = [] \<or> (\<exists>rel i latest. the_draft env c (gw_trace w') rel
           \<and> (u = [] \<or> json_item rel ''id'' = Inr i \<and> u = [asset_write c (json_str env i) archive])
           \<and> (p = [] \<or> json_item rel ''id'' = Inr i \<and> p = [publish_write c (json_str env i) latest])))))
    \<and> (\<forall>v rel. find_release env c \<lparr>gw_hub = s, gw_trace = []\<rparr> = (v, Inr (Some rel)) \<and> is_draft rel = Inr False
         \<longrightarrow> writes_of (gw_trace w') = [])"
proof (intro conjI allI impI, goal_cases)
  case 1
  show ?case
    using assms
  proof (cases rule: run_release_new)
    case (new v found a)
    obtain b where b: "gw_trace w' = gw_trace v @ b" "released env cfg c found b"
      using leaves_run_new new(4) unfolding leaves_def by blast
    have t: "gw_trace w' = a @ b" "writes_of (gw_trace w') = writes_of b" using b(1) new(2,3) by simp_all
    show ?thesis
    proof (cases "writes_of b = []")
      case False
      then obtain archive body latest t d u p where p: "run_zip env cfg c = Inr archive"
        "build_body env c (rl_sha256 env archive) = Inr body" "writes_of b = t @ d @ u @ p"
        "t \<in> {[], [tag_write c]}" "d \<in> {[], [draft_write c body]}"
        "u = [] \<and> p = [] \<or> (\<exists>rel. draft_of env c found b rel
          \<and> u \<in> asset_writes env c rel archive \<and> p \<in> publish_writes env c rel latest)"
        using b(2) unfolding released_def by blast
      have "u = [] \<and> p = [] \<or> (\<exists>rel i latest. the_draft env c (gw_trace w') rel
           \<and> (u = [] \<or> json_item rel ''id'' = Inr i \<and> u = [asset_write c (json_str env i) archive])
           \<and> (p = [] \<or> json_item rel ''id'' = Inr i \<and> p = [publish_write c (json_str env i) latest]))"
      proof (cases "u = [] \<and> p = []")
        case False
        then obtain rel where rel: "draft_of env c found b rel" "u \<in> asset_writes env c rel archive"
          "p \<in> publish_writes env c rel latest" using p(6) by blast
        have "the_draft env c (gw_trace w') rel" unfolding t(1) by (rule the_draft_found [OF rel(1) new(5)])
        with one_release [OF rel(2,3)] show ?thesis by blast
      qed simp
      with p run_zip_Inr [OF p(1)] show ?thesis unfolding t(2) by blast
    qed (use t(2) in simp)
  qed simp
next
  case (2 v rel)
  then have "prove_published env cfg c rel v = (w', r)"
    using assms by (simp add: run_release_def bindS_def liftE_def)
  then obtain new where "gw_trace w' = gw_trace v @ new" "writes_of new = []"
    by (rule reads_run [OF reads_prove_published])
  moreover obtain old where "gw_trace v = old" "writes_of old = []"
    using reads_run [OF reads_find_release conjunct1 [OF 2]] by auto
  ultimately show ?case by simp
qed

section \<open>What stands before the publication\<close>

fun is_patch :: "gh_call \<Rightarrow> bool" where
  "is_patch (ApiCall meth path data file) = (meth = PATCH)"
| "is_patch _ = False"

abbreviation spares :: "('s, 'a) publish \<Rightarrow> bool" where
  "spares m \<equiv> adds (\<lambda>x. \<not> is_patch (fst x)) m"

lemma spares_reads: "reads m \<Longrightarrow> spares m"
proof (erule adds_mono)
  fix x :: "gh_call \<times> gh_answer"
  show "\<not> is_write (fst x) \<Longrightarrow> \<not> is_patch (fst x)" by (cases "fst x") auto
qed

lemma spares_api [adds_intros]: "meth \<noteq> PATCH \<Longrightarrow> spares (gh_api env dry meth path data file allow)"
  by (rule adds_api) simp

lemmas spares_steps [adds_intros] =
  reads_tag_sha [THEN spares_reads] reads_download_asset [THEN spares_reads] reads_gh [THEN spares_reads]

lemma spares_ensure [adds_intros]:
  "spares (ensure_tag env dry c)" "spares (ensure_draft env dry c rel body)" "spares (ensure_asset env dry c r z d)"
proof -
  show "spares (ensure_tag env dry c)" "spares (ensure_draft env dry c rel body)"
    unfolding ensure_tag_def ensure_draft_def by (intro adds_intros; simp)+
  have "spares (upload_asset env dry c r z)"
    unfolding upload_asset_def
    by (intro adds_intros; (simp; fail)?) (auto intro: adds_intros split: publish_error.splits)
  then show "spares (ensure_asset env dry c r z d)"
    unfolding ensure_asset_def by (intro adds_intros) simp_all
qed

abbreviation extends :: "('s, 'a) publish \<Rightarrow> bool" where
  "extends m \<equiv> adds (\<lambda>_. True) m"

lemma extends_adds: "adds p m \<Longrightarrow> extends m"
  by (erule adds_mono) simp

lemma extends_api [adds_intros]: "extends (gh_api env dry meth path data file allow)"
  by (rule adds_api) simp

lemmas extends_steps [adds_intros] =
  reads_tag_sha [THEN extends_adds] reads_download_asset [THEN extends_adds] reads_gh [THEN extends_adds]
  reads_require_main_branch [THEN extends_adds] reads_verify_attestation [THEN extends_adds]
  reads_should_be_latest [THEN extends_adds] reads_find_release [THEN extends_adds]
  reads_prove_published [THEN extends_adds] spares_ensure [THEN extends_adds]

lemma extends_runs [adds_intros]:
  "extends (make_public env dry c r l)" "extends (publish_drafted env dry c archive l rel)"
  "extends (publish_draft env dry c rel archive body l)" "extends (run_latest env cfg c rel archive body)"
  "extends (run_attested env cfg c rel archive)" "extends (run_new env cfg c rel)"
  unfolding run_new_def run_attested_def run_latest_def plan_draft_def publish_draft_def publish_drafted_def
    make_public_def
  by (intro adds_intros)+

text \<open>A run with a PATCH in it came past every step that does not send one.\<close>

definition patched :: "(gh_call \<times> gh_answer) list \<Rightarrow> bool" where
  "patched t = list_ex (is_patch \<circ> fst) t"

lemma patched_append [simp]: "patched (s @ t) \<longleftrightarrow> patched s \<or> patched t" "\<not> patched []"
  by (simp_all add: patched_def)

lemma patched_write: "patched t \<Longrightarrow> \<exists>x \<in> set (writes_of t). is_patch x"
proof -
  assume "patched t"
  then obtain x where x: "x \<in> set t" "is_patch (fst x)" by (auto simp: patched_def list_ex_iff)
  then have "is_write (fst x)" by (cases "fst x") auto
  with x show ?thesis by (auto simp: writes_of_def)
qed

lemma came_past:
  assumes "bindS m f w = (w', r)" "gw_trace w' = gw_trace w @ new" "patched new"
    and "spares m" "\<And>x. extends (f x)"
  obtains v x a b where "m w = (v, Inr x)" "f x v = (w', r)" "gw_trace v = gw_trace w @ a"
    "gw_trace w' = gw_trace v @ b" "new = a @ b" "patched b" "\<not> patched a"
proof -
  obtain v y where m: "m w = (v, y)" by (cases "m w")
  then obtain a where a: "gw_trace v = gw_trace w @ a" "\<not> patched a"
    using addsD [OF assms(4)] by (fastforce simp: list_all_iff list_ex_iff patched_def)
  show ?thesis
  proof (cases y)
    case (Inl e)
    then have "w' = v" using assms(1) m by (simp add: bindS_def)
    with a assms(2,3) show ?thesis by simp
  next
    case (Inr x)
    then have f: "f x v = (w', r)" using assms(1) m by (simp add: bindS_def)
    then obtain b where "gw_trace w' = gw_trace v @ b" using addsD [OF assms(5)] by blast
    with that m Inr f a assms(2,3) show ?thesis by auto
  qed
qed

text \<open>
  GitHub named the repository's main branch, and answered that the commit is its tip or behind
  it. A repository that names none counts as having \<^verbatim>\<open>main\<close>.
\<close>

definition on_main :: "'s release_env \<Rightarrow> candidate \<Rightarrow> (gh_call \<times> gh_answer) list \<Rightarrow> bool" where
  "on_main env c t \<longleftrightarrow> (\<exists>out repo branch out' answer status.
     (ApiCall GET (repo_path c) None None, Inr out) \<in> set t \<and> parse_answer env out = Inr repo
     \<and> json_get (json_or repo (PDict [])) ''default_branch'' PNone = Inr branch
     \<and> (ApiCall GET (repo_path c @ ''/compare/'' @ json_str env (json_or branch (PStr ''main''))
          @ ''...'' @ cd_sha c) None None, Inr out') \<in> set t
     \<and> parse_answer env out' = Inr answer \<and> json_get answer ''status'' PNone = Inr status
     \<and> json_str env (json_or status (PStr ''unknown'')) \<in> {''identical'', ''behind''})"

text \<open>
  The path is that of an asset with the ZIP's name, the first that the release has or that
  GitHub gave when the release was read again by its id.
\<close>

definition asset_of :: "'s release_env \<Rightarrow> candidate \<Rightarrow> (gh_call \<times> gh_answer) list \<Rightarrow> py \<Rightarrow> string \<Rightarrow> bool" where
  "asset_of env c t rel path \<longleftrightarrow> (\<exists>holder asset rest k.
     (holder = rel \<or> (\<exists>i out. json_item rel ''id'' = Inr i
        \<and> (ApiCall GET (repo_path c @ ''/releases/'' @ json_str env i) None None, Inr out) \<in> set t
        \<and> parse_answer env out = Inr holder))
     \<and> named_assets holder = Inr (asset # rest) \<and> json_item asset ''id'' = Inr k
     \<and> path = repo_path c @ ''/releases/assets/'' @ json_str env k)"

lemma on_main_later: "on_main env c t \<Longrightarrow> on_main env c (s @ t)" "on_main env c s \<Longrightarrow> on_main env c (s @ t)"
  unfolding on_main_def by auto blast+

lemma asset_of_mono: "asset_of env c t rel path \<Longrightarrow> set t \<subseteq> set t' \<Longrightarrow> asset_of env c t' rel path"
  unfolding asset_of_def by blast

text \<open>An attestation for the file covers its digest, bound to the commit and the workflow.\<close>

definition attested :: "'s release_env \<Rightarrow> candidate \<Rightarrow> bytes \<Rightarrow> (gh_call \<times> gh_answer) list \<Rightarrow> bool" where
  "attested env c archive t \<longleftrightarrow> (\<exists>out entries digests.
     (AttestCall archive (cd_repo c) (cd_sha c) (cd_repo c @ ''/'' @ SIGNER_WORKFLOW), Inr out) \<in> set t
     \<and> rl_loads env out = Some (PList entries) \<and> mapE entry_digests entries = Inr digests
     \<and> PStr (rl_sha256 env archive) \<in> set (concat digests))"

text \<open>The tag was made on the commit, or reading it gave the commit.\<close>

definition tag_on_commit :: "'s release_env \<Rightarrow> candidate \<Rightarrow> (gh_call \<times> gh_answer) list \<Rightarrow> bool" where
  "tag_on_commit env c t \<longleftrightarrow>
     (\<exists>out. (tag_write c, Inr out) \<in> set t)
     \<or> (\<exists>v v' before read after. tag_sha env c v = (v', Inr (Some (cd_sha c)))
          \<and> gw_trace v' = gw_trace v @ read \<and> t = before @ read @ after)"

lemma require_main_branch_Inr:
  assumes "require_main_branch env c trial w = (v, Inr u)" "gw_trace v = gw_trace w @ a"
  shows "trial \<and> cd_version c = TRIAL_VERSION \<or> on_main env c a"
proof (cases trial)
  case False
  let ?compare = "\<lambda>b. repo_path c @ ''/compare/'' @ json_str env (json_or b (PStr ''main'')) @ ''...'' @ cd_sha c"
  obtain w1 x1 b w2 x2 s where 1: "gh_get env (repo_path c) False w = (w1, Inr x1)"
      "json_get (json_or x1 (PDict [])) ''default_branch'' PNone = Inr b"
    and 2: "gh_get env (?compare b) True w1 = (w2, Inr x2)" "x2 \<noteq> PNone"
    and 3: "json_get x2 ''status'' PNone = Inr s" "json_str env (json_or s (PStr ''unknown'')) \<in> {''identical'', ''behind''}"
      "v = w2"
    using assms(1) False
    by (auto simp: require_main_branch_def effect_eqs liftE_def returnS_def raiseS_def Let_def split: if_splits)
  obtain out where out: "gw_trace w1 = gw_trace w @ [(ApiCall GET (repo_path c) None None, Inr out)]"
    "parse_answer env out = Inr x1"
    using gh_api_Inr [OF 1(1)] by blast
  obtain out' where "gw_trace w2 = gw_trace w1 @ [(ApiCall GET (?compare b) None None, Inr out')]"
      "parse_answer env out' = Inr x2"
    using gh_api_Inr [OF 2(1)] 2(2) by blast
  with out 1(2) assms(2) 3 show ?thesis
    unfolding on_main_def
    by (intro disjI2 exI [of _ out] exI [of _ x1] exI [of _ b] exI [of _ out'] exI [of _ x2] exI [of _ s]) auto
qed (use assms in \<open>auto simp: require_main_branch_def returnS_def raiseS_def split: if_splits\<close>)

lemma verify_attestation_Inr:
  assumes "verify_attestation env c archive (rl_sha256 env archive) w = (v, Inr u)" "gw_trace v = gw_trace w @ a"
  shows "attested env c archive a"
  using assms
  by (auto simp: verify_attestation_def effect_eqs liftE_def returnS_def raiseS_def Let_def gh_attestation_def
      gh_run_def attested_def split: if_splits prod.splits sum.splits option.splits py.splits list.splits)
    blast+

lemma ensure_tag_Inr:
  assumes "ensure_tag env dry c w = (v, Inr x)" "\<not> dry" "gw_trace v = gw_trace w @ a"
  shows "tag_on_commit env c a"
proof -
  obtain w1 e where 1: "tag_sha env c w = (w1, Inr e)"
    and 2: "if e = Some (cd_sha c) then v = w1 else e = None
      \<and> (\<exists>y. gh_api env dry POST (repo_path c @ ''/git/refs'')
           (Some (PDict [(''ref'', PStr (''refs/tags/'' @ cd_tag c)), (''sha'', PStr (cd_sha c))])) None False w1
           = (v, Inr y))"
    using assms(1,2)
    by (auto simp: ensure_tag_def effect_eqs returnS_def raiseS_def split: if_splits option.splits)
  obtain r where r: "gw_trace w1 = gw_trace w @ r" using addsD [OF reads_tag_sha 1] by blast
  show ?thesis
  proof (cases "e = Some (cd_sha c)")
    case True
    then have "a = [] @ r @ []" using 2 r assms(3) by simp
    with 1 r True show ?thesis unfolding tag_on_commit_def by blast
  next
    case False
    then obtain y where "gh_api env dry POST (repo_path c @ ''/git/refs'')
        (Some (PDict [(''ref'', PStr (''refs/tags/'' @ cd_tag c)), (''sha'', PStr (cd_sha c))])) None False w1 = (v, Inr y)"
      using 2 by auto
    from gh_api_Inr [OF this] obtain out where "gw_trace v = gw_trace w1 @ [(tag_write c, Inr out)]"
      unfolding tag_write_def by blast
    with r assms(3) have "a = r @ [(tag_write c, Inr out)]" by simp
    then have "(tag_write c, Inr out) \<in> set a" by simp
    then show ?thesis unfolding tag_on_commit_def by blast
  qed
qed

lemma gh_raw_Inr:
  "gh_raw env path w = (v, Inr x) \<Longrightarrow> gw_trace v = gw_trace w @ [(RawCall path, Inr x)]"
  by (auto simp: gh_raw_def gh_run_def split: prod.splits sum.splits)

lemma download_asset_Inr:
  assumes "download_asset env c asset w = (v, Inr loaded)"
  obtains k where "json_item asset ''id'' = Inr k"
    "gw_trace v = gw_trace w @ [(RawCall (repo_path c @ ''/releases/assets/'' @ json_str env k), Inr loaded)]"
  using assms by (auto simp: download_asset_def effect_eqs liftE_def dest: gh_raw_Inr)

lemma ensure_asset_Inr:
  assumes "ensure_asset env dry c rel archive d w = (v, Inr x)" "\<not> dry" "gw_trace v = gw_trace w @ a"
  shows "\<exists>before path loaded. a = before @ [(RawCall path, Inr loaded)] \<and> rl_sha256 env loaded = d
    \<and> asset_of env c before rel path"
proof -
  obtain w1 holder asset rest loaded b where 1: "download_asset env c asset w1 = (v, Inr loaded)"
    "rl_sha256 env loaded = d" "gw_trace w1 = gw_trace w @ b" "named_assets holder = Inr (asset # rest)"
    "holder = rel \<or> (\<exists>i out. json_item rel ''id'' = Inr i
        \<and> (ApiCall GET (repo_path c @ ''/releases/'' @ json_str env i) None None, Inr out) \<in> set b
        \<and> parse_answer env out = Inr holder)"
  proof (cases "named_assets rel")
    case (Inr existing)
    show ?thesis
    proof (cases existing)
      case (Cons y ys)
      then show ?thesis using assms(1) Inr that [of y w _ "[]" rel ys]
        by (auto simp: ensure_asset_def effect_eqs liftE_def returnS_def raiseS_def split: if_splits)
    next
      case Nil
      then obtain w2 i w3 u found where 2: "upload_asset env dry c rel archive w = (w2, Inr ())"
        "json_item rel ''id'' = Inr i"
        "gh_get env (repo_path c @ ''/releases/'' @ json_str env i) False w2 = (w3, Inr u)"
        "named_assets u = Inr found"
        and 3: "(case found of [] \<Rightarrow> raiseS (Failure AssetNotUploaded)
          | asset # _ \<Rightarrow> bindS (download_asset env c asset) (\<lambda>loaded.
              if rl_sha256 env loaded \<noteq> d then raiseS (Stop (OtherReadback (rl_sha256 env loaded)))
              else returnS AssetUploaded)) w3 = (v, Inr x)"
        using assms(1,2) Inr by (auto simp: ensure_asset_def bindS_eq_Inr liftE_def)
      then obtain y ys loaded where 4: "found = y # ys" "download_asset env c y w3 = (v, Inr loaded)" "rl_sha256 env loaded = d"
        by (auto simp: effect_eqs returnS_def raiseS_def split: if_splits list.splits)
      obtain b out where "gw_trace w2 = gw_trace w @ b" "parse_answer env out = Inr u"
        "gw_trace w3 = gw_trace w2 @ [(ApiCall GET (repo_path c @ ''/releases/'' @ json_str env i) None None, Inr out)]"
        using wroteD [OF wrote_upload 2(1)] gh_api_Inr [OF 2(3)] by blast
      with 2(2,4) 4 that [OF 4(2,3), of _ u ys] show ?thesis by fastforce
    qed
  qed (use assms(1) in \<open>simp add: ensure_asset_def bindS_def liftE_def\<close>)
  obtain k where k: "json_item asset ''id'' = Inr k"
    "gw_trace v = gw_trace w1 @ [(RawCall (repo_path c @ ''/releases/assets/'' @ json_str env k), Inr loaded)]"
    using 1(1) by (rule download_asset_Inr)
  then have "asset_of env c b rel (repo_path c @ ''/releases/assets/'' @ json_str env k)"
    unfolding asset_of_def using 1(4,5)
    by (intro exI [of _ holder] exI [of _ asset] exI [of _ rest] exI [of _ k]) simp
  with assms(3) 1(2,3) k(2) show ?thesis by auto
qed

text \<open>The end of a run that publishes: the asset of the release read back, then the release made public.\<close>

definition public_end ::
  "'s release_env \<Rightarrow> candidate \<Rightarrow> bytes \<Rightarrow> py \<Rightarrow> bool \<Rightarrow> (gh_call \<times> gh_answer) list \<Rightarrow> (gh_call \<times> gh_answer) list \<Rightarrow> bool" where
  "public_end env c archive rel latest middle final \<longleftrightarrow> (\<exists>path loaded i a.
     final = [(RawCall path, Inr loaded), (publish_write c (json_str env i) latest, a)]
     \<and> json_item rel ''id'' = Inr i \<and> asset_of env c middle rel path
     \<and> rl_sha256 env loaded = rl_sha256 env archive)"

lemma public_end_earlier: "public_end env c archive rel latest middle final \<Longrightarrow> public_end env c archive rel latest (b @ middle) final"
  unfolding public_end_def by (metis asset_of_mono Un_upper2 set_append)

lemma publish_drafted_patched:
  assumes run: "publish_drafted env dry c archive latest rel w = (w', r)" "gw_trace w' = gw_trace w @ new" "patched new"
  shows "\<not> dry \<and> (\<exists>rel' more final. rel = Some rel' \<and> new = more @ final
     \<and> public_end env c archive rel' latest more final \<and> \<not> patched more)"
proof -
  obtain rel' where rel: "rel = Some rel'"
    using run by (cases rel) (auto simp: publish_drafted_def raiseS_def)
  obtain v x u b where 1: "ensure_asset env dry c rel' archive (rl_sha256 env archive) w = (v, Inr x)"
    "make_public env dry c rel' latest v = (w', r)" "gw_trace v = gw_trace w @ u" "gw_trace w' = gw_trace v @ b"
    "new = u @ b" "patched b" "\<not> patched u"
    using run(1) unfolding publish_drafted_def rel option.case
    by (rule came_past [OF _ run(2,3)]) (intro adds_intros | blast)+
  obtain i a where 2: "b = [(publish_write c (json_str env i) latest, a)]" "\<not> dry" "json_item rel' ''id'' = Inr i"
    using 1(2,4,6)
    by (auto simp: make_public_def bindS_def liftE_def returnS_def gh_api_def gh_run_def raiseS_def publish_write_def
        split: sum.splits prod.splits if_splits)
  obtain before path loaded where "u = before @ [(RawCall path, Inr loaded)]" "rl_sha256 env loaded = rl_sha256 env archive"
    "asset_of env c before rel' path"
    using ensure_asset_Inr [OF 1(1) 2(2) 1(3)] by blast
  with 1(5,7) 2 rel show ?thesis unfolding public_end_def
    by (intro conjI exI [of _ rel'] exI [of _ before] exI [of _ "(RawCall path, Inr loaded) # b"]) auto
qed

lemma publish_draft_patched:
  assumes run: "publish_draft env dry c rel archive body latest w = (w', r)" "gw_trace w' = gw_trace w @ new" "patched new"
  shows "\<not> dry \<and> (\<exists>t more final rel'. new = t @ more @ final
     \<and> tag_on_commit env c t \<and> draft_of env c rel more rel' \<and> public_end env c archive rel' latest more final
     \<and> \<not> patched (t @ more))"
proof -
  obtain v1 x1 t b1 where 1: "ensure_tag env dry c w = (v1, Inr x1)"
    "bindS (ensure_draft env dry c rel body) (publish_drafted env dry c archive latest) v1 = (w', r)"
    "gw_trace v1 = gw_trace w @ t" "gw_trace w' = gw_trace v1 @ b1" "new = t @ b1" "patched b1" "\<not> patched t"
    using run(1) unfolding publish_draft_def by (rule came_past [OF _ run(2,3)]) (intro adds_intros | blast)+
  obtain v2 x2 d b2 where 2: "publish_drafted env dry c archive latest x2 v2 = (w', r)"
    "gw_trace v2 = gw_trace v1 @ d" "gw_trace w' = gw_trace v2 @ b2" "b1 = d @ b2" "patched b2" "\<not> patched d"
    "ensure_draft env dry c rel body v1 = (v2, Inr x2)"
    using 1(2) by (rule came_past [OF _ 1(4,6)]) (intro adds_intros | blast)+
  obtain rel' more final where 3: "\<not> dry" "x2 = Some rel'" "b2 = more @ final"
    "public_end env c archive rel' latest more final" "\<not> patched more"
    using publish_drafted_patched [OF 2(1,3,5)] by blast
  have "draft_of env c rel d rel'"
    using 2(7) by (rule ensure_draft_run) (use 2(2) 3(2) in simp)
  then have "draft_of env c rel (d @ more) rel'" by (rule draft_of_mono) simp
  moreover have "new = t @ (d @ more) @ final" by (simp add: 1(5) 2(4) 3(3))
  moreover have "\<not> patched (t @ d @ more)" using 1(7) 2(6) 3(5) by simp
  ultimately show ?thesis using ensure_tag_Inr [OF 1(1) 3(1) 1(3)] 3(1) public_end_earlier [OF 3(4)] by blast
qed

lemma liftE_past:
  "bindS (liftE y) f w = (w', r) \<Longrightarrow> gw_trace w' = gw_trace w @ new \<Longrightarrow> patched new
     \<Longrightarrow> \<exists>x. y = Inr x \<and> f x w = (w', r)"
  by (cases y) (auto simp: bindS_def liftE_def)

lemma run_latest_patched:
  assumes run: "run_latest env cfg c rel archive body w = (w', r)" "gw_trace w' = gw_trace w @ new" "patched new"
  shows "\<not> rc_plan_only cfg \<and> (\<exists>a body latest v b. publish_draft env (rc_dry cfg) c rel archive body latest v = (w', r)
     \<and> gw_trace w' = gw_trace v @ b \<and> new = a @ b \<and> patched b \<and> \<not> patched a)"
proof -
  obtain v latest a b where 1: "(if rc_plan_only cfg then plan_draft env (rc_dry cfg) c rel
      else publish_draft env (rc_dry cfg) c rel archive body latest) v = (w', r)"
    "gw_trace w' = gw_trace v @ b" "new = a @ b" "patched b" "\<not> patched a"
    using run(1) unfolding run_latest_def
    by (rule came_past [OF _ run(2,3)])
      (intro reads_should_be_latest [THEN spares_reads] adds_intros wroteD | simp add: plan_draft_def adds_intros | blast)+
  have "\<not> rc_plan_only cfg"
  proof
    assume "rc_plan_only cfg"
    then have "plan_draft env (rc_dry cfg) c rel v = (w', r)" using 1(1) by simp
    moreover have "spares (plan_draft env (rc_dry cfg) c rel)" unfolding plan_draft_def by (intro adds_intros)
    ultimately obtain b' where "gw_trace w' = gw_trace v @ b'" "list_all (\<lambda>x. \<not> is_patch (fst x)) b'"
      using addsD by blast
    with 1(2,4) show False by (auto simp: patched_def list_all_iff list_ex_iff)
  qed
  moreover from this have "publish_draft env (rc_dry cfg) c rel archive body latest v = (w', r)" using 1(1) by simp
  ultimately show ?thesis using 1(2-5) by blast
qed

lemma run_new_patched:
  assumes run: "run_new env cfg c rel w = (w', r)" "gw_trace w' = gw_trace w @ new" "patched new"
  shows "\<not> rc_dry cfg \<and> \<not> rc_plan_only cfg \<and> (\<exists>archive before t more final rel' latest.
     run_zip env cfg c = Inr archive \<and> new = before @ t @ more @ final
     \<and> (rc_trial cfg \<and> cd_version c = TRIAL_VERSION \<or> on_main env c before)
     \<and> (rc_attest cfg \<longrightarrow> attested env c archive before)
     \<and> tag_on_commit env c t \<and> draft_of env c rel more rel' \<and> public_end env c archive rel' latest more final
     \<and> \<not> patched (before @ t @ more))"
proof -
  obtain v1 x1 a1 b1 where 1: "require_main_branch env c (rc_trial cfg) w = (v1, Inr x1)"
    "bindS (liftE (case rel of None \<Rightarrow> Inr () | Some rel \<Rightarrow> require_draft_on_candidate env c rel)) (\<lambda>_.
     bindS (liftE (run_zip env cfg c)) (run_attested env cfg c rel)) v1 = (w', r)"
    "gw_trace v1 = gw_trace w @ a1" "gw_trace w' = gw_trace v1 @ b1" "new = a1 @ b1" "patched b1" "\<not> patched a1"
    using run(1) unfolding run_new_def
    by (rule came_past [OF _ run(2,3)]) (intro reads_require_main_branch [THEN spares_reads] adds_intros | blast)+
  obtain archive where zip: "run_zip env cfg c = Inr archive" "run_attested env cfg c rel archive v1 = (w', r)"
    using liftE_past [OF 1(2,4,6)] liftE_past [OF _ 1(4,6)] by blast
  obtain v2 x2 a2 b2 where 2: "(if rc_attest cfg then verify_attestation env c archive (rl_sha256 env archive) else returnS ()) v1
      = (v2, Inr x2)" "bindS (liftE (build_body env c (rl_sha256 env archive))) (run_latest env cfg c rel archive) v2 = (w', r)"
    "gw_trace v2 = gw_trace v1 @ a2" "gw_trace w' = gw_trace v2 @ b2" "b1 = a2 @ b2" "patched b2" "\<not> patched a2"
    using zip(2) unfolding run_attested_def
    by (rule came_past [OF _ 1(4,6)]) (intro reads_verify_attestation [THEN spares_reads] adds_intros | blast)+
  obtain body where body: "run_latest env cfg c rel archive body v2 = (w', r)" using liftE_past [OF 2(2,4,6)] by blast
  obtain a3 body' latest v3 b3 where 3: "\<not> rc_plan_only cfg"
    "publish_draft env (rc_dry cfg) c rel archive body' latest v3 = (w', r)"
    "gw_trace w' = gw_trace v3 @ b3" "b2 = a3 @ b3" "patched b3" "\<not> patched a3"
    using run_latest_patched [OF body 2(4,6)] by blast
  obtain t more final rel' where 4: "\<not> rc_dry cfg" "b3 = t @ more @ final" "tag_on_commit env c t"
    "draft_of env c rel more rel'" "public_end env c archive rel' latest more final" "\<not> patched (t @ more)"
    using publish_draft_patched [OF 3(2,3,5)] by blast
  have "rc_trial cfg \<and> cd_version c = TRIAL_VERSION \<or> on_main env c a1"
    by (rule require_main_branch_Inr [OF 1(1,3)])
  then have main: "rc_trial cfg \<and> cd_version c = TRIAL_VERSION \<or> on_main env c (a1 @ a2 @ a3)"
    using on_main_later(2) by blast
  have "rc_attest cfg \<longrightarrow> attested env c archive a2" using verify_attestation_Inr 2(1,3) by auto
  then have att: "rc_attest cfg \<longrightarrow> attested env c archive (a1 @ a2 @ a3)" by (auto simp: attested_def)
  have "new = (a1 @ a2 @ a3) @ t @ more @ final"
    by (simp add: 1(5) 2(5) 3(4) 4(2))
  moreover have "\<not> patched ((a1 @ a2 @ a3) @ t @ more)" using 1(7) 2(7) 3(6) 4(6) by simp
  ultimately show ?thesis using 3(1) 4(1,3,4,5) zip(1) main att by blast
qed

lemma not_patched_dry:
  assumes "reads m" "m w = (w', r)" "gw_trace w' = gw_trace w @ new"
  shows "\<not> patched new"
proof -
  obtain b where "gw_trace w' = gw_trace w @ b" "list_all (\<lambda>x. \<not> is_patch (fst x)) b"
    using addsD [OF spares_reads [OF assms(1)] assms(2)] by blast
  with assms(3) show ?thesis by (auto simp: patched_def list_all_iff list_ex_iff)
qed

text \<open>
  C38: a release becomes public last, and only when its ends are one. If a command sent a
  change that makes a release public, it was \<open>publish\<close> and not dry; the change is the last run
  of gh, and the only one of its kind. Before it, GitHub named the main branch of the
  repository and placed the candidate's commit on it (or it is the trial version of a trial
  run); an attestation by the release workflow for that commit covered the ZIP, whose digest
  is that of a build from the commit; and the tag was read or made on the commit. What becomes
  public is the draft of the candidate's tag, from GitHub's list or made by the run, by its id,
  and the run just before read an asset of that release back from GitHub, under the name of the
  ZIP and with the same digest.
\<close>

theorem publishes_only_what_is_proved:
  assumes "release_main env command repo ref handed \<lparr>gw_hub = s, gw_trace = []\<rparr> = (w', r)"
    and "patched (gw_trace w')"
  shows "\<exists>trial c archive control before t more rel path loaded i latest a.
     command = Publish trial False \<and> read_candidate env repo ref = Inr c
     \<and> gw_trace w' = before @ t @ more
         @ [(RawCall path, Inr loaded), (publish_write c (json_str env i) latest, a)]
     \<and> \<not> patched (before @ t @ more)
     \<and> (trial \<and> cd_version c = TRIAL_VERSION \<or> on_main env c before)
     \<and> build_zip env (cd_sha c) = Inr control \<and> rl_sha256 env archive = rl_sha256 env control
     \<and> attested env c archive before \<and> tag_on_commit env c t
     \<and> the_draft env c (before @ more) rel \<and> json_item rel ''id'' = Inr i
     \<and> asset_of env c more rel path \<and> rl_sha256 env loaded = rl_sha256 env archive"
proof -
  let ?w = "\<lparr>gw_hub = s, gw_trace = []\<rparr>" and ?cfg = "command_config command handed"
  obtain c where c: "read_candidate env repo ref = Inr c" "run_release env ?cfg c ?w = (w', r)"
    using assms liftE_past [OF assms(1)[unfolded release_main_def]] by auto
  have "writes_of (gw_trace w') \<noteq> []" using patched_write [OF assms(2)] by auto
  then obtain v found a where 1: "gw_trace v = a" "writes_of a = []" "run_new env ?cfg c found v = (w', r)"
    "\<And>rel. found = Some rel \<Longrightarrow> listed_draft env c a rel"
    by - (rule run_release_new [OF c(2)], auto)
  obtain b where b: "gw_trace w' = gw_trace v @ b" using addsD [OF extends_runs(6) 1(3)] by blast
  have early: "\<not> patched a" using 1(2) patched_write by force
  then have "patched b" using assms(2) b 1(1) by simp
  from run_new_patched [OF 1(3) b this] obtain archive before t more final rel latest where
    2: "\<not> rc_dry ?cfg" "run_zip env ?cfg c = Inr archive" "b = before @ t @ more @ final"
    "rc_trial ?cfg \<and> cd_version c = TRIAL_VERSION \<or> on_main env c before"
    "rc_attest ?cfg \<longrightarrow> attested env c archive before" "tag_on_commit env c t"
    "draft_of env c found more rel" "public_end env c archive rel latest more final" "\<not> patched (before @ t @ more)"
    by blast
  obtain path loaded i x where final: "final = [(RawCall path, Inr loaded), (publish_write c (json_str env i) latest, x)]"
    "json_item rel ''id'' = Inr i" "asset_of env c more rel path" "rl_sha256 env loaded = rl_sha256 env archive"
    using 2(8) unfolding public_end_def by blast
  obtain trial where command: "command = Publish trial False"
    using 2(1) by (cases command) (auto simp: command_config_def)
  then have cfg: "rc_trial ?cfg = trial" "rc_attest ?cfg" by (simp_all add: command_config_def)
  have trace: "gw_trace w' = (a @ before) @ t @ more @ [(RawCall path, Inr loaded), (publish_write c (json_str env i) latest, x)]"
    using 1(1) b 2(3) final(1) by simp
  have main: "trial \<and> cd_version c = TRIAL_VERSION \<or> on_main env c (a @ before)" 
    using 2(4) cfg on_main_later by blast
  have att: "attested env c archive (a @ before)" using 2(5) cfg by (auto simp: attested_def)
  have "draft_of env c found (before @ more) rel" by (rule draft_of_mono [OF 2(7)]) simp
  then have "the_draft env c (a @ before @ more) rel" by (rule the_draft_found [OF _ 1(4)])
  then have draft: "the_draft env c ((a @ before) @ more) rel" by simp
  have "\<not> patched ((a @ before) @ t @ more)" using early 2(9) by simp
  moreover obtain control where "build_zip env (cd_sha c) = Inr control" "rl_sha256 env archive = rl_sha256 env control"
    using run_zip_Inr [OF 2(2)] by blast
  ultimately show ?thesis using command c(1) trace main att draft final(2-4) 2(6) by blast
qed

section \<open>A release, run\<close>

text \<open>A GitHub that answers from a script, and a repository with one file.\<close>

definition json_code :: "bytes \<Rightarrow> py option" where
  "json_code b =
     (if b = [65] then Some (PDict [(''status'', PStr ''identical'')])
      else if b = [66] then Some (PList [PDict [(''verificationResult'', PDict [(''statement'', PDict [(''subject'',
             PList [PDict [(''digest'', PDict [(''sha256'', PStr ''4d'')])]])])])]])
      else if b = [67] then Some (PDict [(''id'', PInt 1)])
      else if b = [68] then Some (PDict [(''assets'', PList [PDict [(''name'', PStr ASSET_NAME), (''id'', PInt 2)]])])
      else if b = [69] then Some (PDict [(''version'', PStr ''1.4.0'')])
      else None)"

definition example_sha :: string where
  "example_sha = replicate 40 (CHR ''a'')"

definition ascii_bytes :: "string \<Rightarrow> bytes" where
  "ascii_bytes s = map (\<lambda>c. of_nat (code_point c)) s"

definition example_git :: "string list \<Rightarrow> string + bytes" where
  "example_git argv =
     (if hd argv = ''rev-parse'' then Inr (ascii_bytes example_sha)
      else if hd argv = ''show'' then Inr [69]
      else if hd argv = ''ls-tree'' then Inr (ascii_bytes (''100644 blob b1'' @ [CHR 0x09] @ COMPONENT @ ''/a.json'' @ [CHR 0x00]))
      else if hd argv = ''cat-file'' then Inr [77]
      else if hd argv = ''log'' then Inr (ascii_bytes ''- First'')
      else Inr [])"

definition example_release :: "gh_answer list release_env" where
  "example_release =
     \<lparr>rl_gh = (\<lambda>s _. (tl s, hd s)), rl_git = example_git, rl_decode = map (\<lambda>b. char_of (unat b)),
      rl_loads = json_code, rl_str = (\<lambda>v. case v of PInt n \<Rightarrow> str_int n | _ \<Rightarrow> ''?''), rl_imports = (\<lambda>_. Some []),
      rl_pack = (\<lambda>es. concat (map (\<lambda>(_, _, content). content) es)), rl_unpack = (\<lambda>_. None), rl_sha256 = bytes_hex,
      rl_changelog = join_lines [''## [1.4.0] - 2026-01-02'', ''### Bug fixes'', ''- **Fix** <!--short-->''],
      rl_notes = \<lparr>nr_url = ''https://host/r'', nr_file = Some\<rparr>\<rparr>"

definition example_answers :: "gh_answer list" where
  "example_answers = [Inr [], Inr [], Inr [65], Inr [66], Inr [], Inl ''HTTP 404'', Inr [], Inr [67], Inr [], Inr [68], Inr [77], Inr []]"

definition example_candidate :: candidate where
  "example_candidate = \<lparr>cd_repo = ''o/r'', cd_sha = example_sha, cd_version = ''1.4.0''\<rparr>"

lemma example_candidate_read: "read_candidate example_release ''o/r'' ''HEAD'' = Inr example_candidate"
  unfolding example_candidate_def by code_simp

lemma example_zip: "build_zip example_release example_sha = Inr [77]"
  by code_simp

lemma example_body: "\<exists>body. build_body example_release example_candidate ''4d'' = Inr body"
proof -
  have "case release_note example_release ''1.4.0'' of Inl _ \<Rightarrow> False | Inr _ \<Rightarrow> True" by code_simp
  moreover have "case commits_since_previous example_release example_candidate of Inl _ \<Rightarrow> False | Inr _ \<Rightarrow> True"
    by code_simp
  ultimately show ?thesis
    by (auto simp: build_body_def example_candidate_def split: sum.splits)
qed

lemma script_run:
  "gh_run example_release call \<lparr>gw_hub = a # s, gw_trace = t\<rparr> = (\<lparr>gw_hub = s, gw_trace = t @ [(call, a)]\<rparr>, a)"
  by (simp add: gh_run_def example_release_def)

lemma example_env:
  "rl_loads example_release = json_code" "rl_sha256 example_release [77] = ''4d''"
  "json_str example_release (PInt 1) = ''1''" "json_str example_release (PInt 2) = ''2''" "json_str example_release (PStr t) = t"
  by (simp_all add: example_release_def json_str_def) code_simp+

lemma example_codes:
  "parse_answer example_release [] = Inr PNone"
  "parse_answer example_release [65] = Inr (PDict [(''status'', PStr ''identical'')])"
  "parse_answer example_release [67] = Inr (PDict [(''id'', PInt 1)])"
  "parse_answer example_release [68] = Inr (PDict [(''assets'', PList [PDict [(''name'', PStr ASSET_NAME), (''id'', PInt 2)]])])"
  by (simp_all add: parse_answer_def example_env json_code_def bytes_blank_def)

lemma example_published:
  "patched (gw_trace (fst (release_main example_release (Publish False False) ''o/r'' ''HEAD'' None
     \<lparr>gw_hub = example_answers, gw_trace = []\<rparr>)))"
proof -
  obtain body where body: "build_body example_release example_candidate ''4d'' = Inr body" using example_body by blast
  have c: "cd_sha example_candidate = example_sha" "cd_version example_candidate = ''1.4.0''" "cd_repo example_candidate = ''o/r''"
    "example_sha \<noteq> ''''"
    by (simp_all add: example_candidate_def example_sha_def)
  have cfg: "command_config (Publish False False) None = \<lparr>rc_dry = False, rc_plan_only = False, rc_attest = True,
      rc_strict = False, rc_trial = False, rc_zip = None\<rparr>"
    by (simp add: command_config_def)
  show ?thesis
    by (simp add: release_main_def example_candidate_read cfg run_release_def find_release_def gh_api_def script_run
        example_answers_def example_codes example_env bindS_def liftE_def returnS_def json_or_def json_items_def
        run_new_def require_main_branch_def json_get_def c run_zip_def example_zip run_attested_def
        verify_attestation_def gh_attestation_def json_code_def subject_digest_def entry_digests_def
        body run_latest_def should_be_latest_def TRIAL_VERSION_def NOTES_TRIAL_VERSION_def publish_draft_def
        ensure_tag_def tag_sha_def ensure_draft_def publish_drafted_def ensure_asset_def named_assets_def
        upload_asset_def json_item_def tryS_def download_asset_def gh_raw_def make_public_def patched_def)
qed

theorem publishes_only_what_is_proved_witness:
  "\<exists>c archive before t rel path loaded i latest a more.
     read_candidate example_release ''o/r'' ''HEAD'' = Inr c \<and> on_main example_release c before
     \<and> gw_trace (fst (release_main example_release (Publish False False) ''o/r'' ''HEAD'' None
         \<lparr>gw_hub = example_answers, gw_trace = []\<rparr>))
       = before @ t @ more @ [(RawCall path, Inr loaded), (publish_write c (json_str example_release i) latest, a)]
     \<and> attested example_release c archive before \<and> tag_on_commit example_release c t
     \<and> the_draft example_release c (before @ more) rel \<and> json_item rel ''id'' = Inr i
     \<and> rl_sha256 example_release loaded = rl_sha256 example_release archive"
proof -
  obtain w' r where run: "release_main example_release (Publish False False) ''o/r'' ''HEAD'' None
      \<lparr>gw_hub = example_answers, gw_trace = []\<rparr> = (w', r)" by fastforce
  then have "patched (gw_trace w')" using example_published by simp
  from publishes_only_what_is_proved [OF run this] obtain trial c archive before t more rel path loaded i latest a where
    x: "Publish False False = Publish trial False" "read_candidate example_release ''o/r'' ''HEAD'' = Inr c"
    "gw_trace w' = before @ t @ more @ [(RawCall path, Inr loaded), (publish_write c (json_str example_release i) latest, a)]"
    "trial \<and> cd_version c = TRIAL_VERSION \<or> on_main example_release c before"
    "attested example_release c archive before" "tag_on_commit example_release c t"
    "the_draft example_release c (before @ more) rel" "json_item rel ''id'' = Inr i"
    "rl_sha256 example_release loaded = rl_sha256 example_release archive"
    by blast
  then have "on_main example_release c before" by simp
  with x run show ?thesis by (metis fst_conv)
qed

theorem dry_runs_write_nothing_witness:
  "list_all (\<lambda>x. \<not> is_write (fst x)) (gw_trace (fst (release_main example_release Verify ''o/r'' ''HEAD'' None
     \<lparr>gw_hub = example_answers, gw_trace = []\<rparr>)))"
proof -
  obtain w' r where run: "release_main example_release Verify ''o/r'' ''HEAD'' None
      \<lparr>gw_hub = example_answers, gw_trace = []\<rparr> = (w', r)" by fastforce
  from dry_runs_write_nothing [OF this] run show ?thesis by auto
qed

theorem release_writes_in_order_witness:
  "\<exists>archive body t d u p. run_zip example_release (command_config (Publish False False) None) example_candidate = Inr archive
     \<and> build_body example_release example_candidate (rl_sha256 example_release archive) = Inr body
     \<and> writes_of (gw_trace (fst (run_release example_release (command_config (Publish False False) None)
         example_candidate \<lparr>gw_hub = example_answers, gw_trace = []\<rparr>))) = t @ d @ u @ p
     \<and> t \<in> {[], [tag_write example_candidate]} \<and> d \<in> {[], [draft_write example_candidate body]}
     \<and> (\<exists>i latest. p = [publish_write example_candidate (json_str example_release i) latest])"
proof -
  let ?run = "run_release example_release (command_config (Publish False False) None) example_candidate
      \<lparr>gw_hub = example_answers, gw_trace = []\<rparr>"
  obtain w' r where run: "?run = (w', r)" by fastforce
  have "patched (gw_trace (fst ?run))"
    using example_published by (simp add: release_main_def example_candidate_read bindS_def liftE_def)
  then have p: "patched (gw_trace w')" unfolding run by simp
  then have some: "writes_of (gw_trace w') \<noteq> []" "\<exists>x \<in> set (writes_of (gw_trace w')). is_patch x"
    using patched_write [OF p] by auto
  from release_writes_in_order [OF run] some(1) obtain archive body t d u p where
    x: "run_zip example_release (command_config (Publish False False) None) example_candidate = Inr archive"
      "build_body example_release example_candidate (rl_sha256 example_release archive) = Inr body"
      "writes_of (gw_trace w') = t @ d @ u @ p"
      "t \<in> {[], [tag_write example_candidate]}" "d \<in> {[], [draft_write example_candidate body]}"
      "u = [] \<and> p = [] \<or> (\<exists>rel i latest. the_draft example_release example_candidate (gw_trace w') rel
           \<and> (u = [] \<or> json_item rel ''id'' = Inr i \<and> u = [asset_write example_candidate (json_str example_release i) archive])
           \<and> (p = [] \<or> json_item rel ''id'' = Inr i \<and> p = [publish_write example_candidate (json_str example_release i) latest]))"
    by blast
  have "p \<noteq> []" using some(2) x(3-6) by (auto simp: tag_write_def draft_write_def asset_write_def)
  with x(6) have "\<exists>i latest. p = [publish_write example_candidate (json_str example_release i) latest]" by blast
  with x(1-5) show ?thesis unfolding run fst_conv by blast
qed

section \<open>The ZIP is the tracked tree\<close>

definition listed_entries :: "'s release_env \<Rightarrow> string \<Rightarrow> string list" where
  "listed_entries env sha =
     (case git_text env [''ls-tree'', ''-r'', ''-z'', sha, ''--'', COMPONENT] of
        Inl _ \<Rightarrow> [] | Inr raw \<Rightarrow> filter (\<lambda>e. e \<noteq> []) (str_split (CHR 0x00) raw))"

lemma mapE_Inr: "mapE f xs = Inr ys \<longleftrightarrow> map f xs = map Inr ys"
  by (induction xs arbitrary: ys) (auto simp: bindE_eq_Inr map_eq_Cons_conv)

lemma map_filter_id: "set (List.map_filter id os) = {x. Some x \<in> set os}"
  by (force simp: map_filter_def)

lemma component_files_Inr:
  assumes "component_files env sha = Inr files"
  obtains entries where "map (tracked_entry sha) (listed_entries env sha) = map Inr entries"
    "files = sort_key file_name (List.map_filter id entries)"
  using assms
  by (auto simp: component_files_def listed_entries_def bindE_eq_Inr mapE_Inr Let_def split: if_splits)

lemma tracked_entry_Some:
  "tracked_entry sha e = Inr (Some (mode, blob, name)) \<Longrightarrow> \<not> is_excluded name \<and> zip_permissions mode \<noteq> None"
  by (auto simp: tracked_entry_def Let_def split: prod.splits list.splits if_splits)

text \<open>
  The ZIP of a commit holds the tracked files of the component but the excluded ones,
  sorted by name, each with the content git has for it; nothing packed imports what is left
  out. It does not depend on the order in which git lists the tree: another listing of the
  same entries gives the same file.
\<close>

theorem zip_is_tracked_tree:
  assumes "build_zip env sha = Inr archive"
  shows "(\<exists>files entries. archive = rl_pack env entries \<and> map fst entries = map file_name files
      \<and> sorted (map file_name files)
      \<and> set files = {f. \<exists>e \<in> set (listed_entries env sha). tracked_entry sha e = Inr (Some f)}
      \<and> (\<forall>(mode, blob, name) \<in> set files. \<not> is_excluded name
           \<and> (\<exists>content. git_raw env [''cat-file'', ''blob'', blob] = Inr content
                \<and> (name, the (zip_permissions mode), content) \<in> set entries))
      \<and> packed_imports_excluded env files = Inr [])
    \<and> (\<forall>g other. build_zip (env\<lparr>rl_git := g\<rparr>) sha = Inr other
         \<and> (\<forall>argv. hd argv \<noteq> ''ls-tree'' \<longrightarrow> g argv = rl_git env argv)
         \<and> mset (listed_entries (env\<lparr>rl_git := g\<rparr>) sha) = mset (listed_entries env sha)
         \<and> (\<forall>files. component_files env sha = Inr files \<longrightarrow> distinct (map file_name files))
         \<longrightarrow> other = archive)"
proof -
  obtain files entries where build: "component_files env sha = Inr files" "packed_imports_excluded env files = Inr []"
    "mapE (zip_entry env) files = Inr entries" "archive = rl_pack env entries"
    using assms by (auto simp: build_zip_def bindE_eq_Inr)
  obtain os where os: "map (tracked_entry sha) (listed_entries env sha) = map Inr os"
    "files = sort_key file_name (List.map_filter id os)"
    using component_files_Inr [OF build(1)] by blast
  have files: "set files = {f. \<exists>e \<in> set (listed_entries env sha). tracked_entry sha e = Inr (Some f)}"
  proof -
    have image: "tracked_entry sha ` set (listed_entries env sha) = Inr ` set os"
      using arg_cong [OF os(1), of set] by simp
    show ?thesis
    proof (intro set_eqI iffI)
      fix f
      assume "f \<in> set files"
      then have "(Inr (Some f) :: publish_error + tracked_file option) \<in> Inr ` set os" using os(2) by (simp add: map_filter_id)
      then show "f \<in> {f. \<exists>e \<in> set (listed_entries env sha). tracked_entry sha e = Inr (Some f)}"
        unfolding image [symmetric] by auto
    next
      fix f
      assume "f \<in> {f. \<exists>e \<in> set (listed_entries env sha). tracked_entry sha e = Inr (Some f)}"
      then have "Inr (Some f) \<in> tracked_entry sha ` set (listed_entries env sha)" by force
      then show "f \<in> set files" unfolding image using os(2) by (auto simp: map_filter_id)
    qed
  qed
  have entries: "list_all2 (\<lambda>f e. zip_entry env f = Inr e) files entries"
    using build(3) by (simp add: mapE_Inr list_all2_conv_all_nth list_eq_iff_nth_eq) 
  then have names: "map fst entries = map file_name files"
    by (induction rule: list_all2_induct) (auto simp: zip_entry_def bindE_eq_Inr)
  have "\<not> is_excluded name \<and> (\<exists>content. git_raw env [''cat-file'', ''blob'', blob] = Inr content
      \<and> (name, the (zip_permissions mode), content) \<in> set entries)" if f: "(mode, blob, name) \<in> set files" for mode blob name
  proof -
    obtain k where k: "k < length files" "files ! k = (mode, blob, name)" using f by (meson in_set_conv_nth)
    then have "entries ! k \<in> set entries" "zip_entry env (mode, blob, name) = Inr (entries ! k)"
      using list_all2_nthD [OF entries k(1)] list_all2_lengthD [OF entries] by auto
    moreover have "\<not> is_excluded name" using f files tracked_entry_Some by fastforce
    ultimately show ?thesis by (auto simp: zip_entry_def bindE_eq_Inr)
  qed
  then have 1: "\<forall>(mode, blob, name) \<in> set files. \<not> is_excluded name
           \<and> (\<exists>content. git_raw env [''cat-file'', ''blob'', blob] = Inr content
                \<and> (name, the (zip_permissions mode), content) \<in> set entries)" by blast
  have 2: "other = archive"
    if g: "build_zip (env\<lparr>rl_git := g\<rparr>) sha = Inr other" "\<forall>argv. hd argv \<noteq> ''ls-tree'' \<longrightarrow> g argv = rl_git env argv"
      "mset (listed_entries (env\<lparr>rl_git := g\<rparr>) sha) = mset (listed_entries env sha)"
      "\<forall>files. component_files env sha = Inr files \<longrightarrow> distinct (map file_name files)" for g other
  proof -
    let ?env = "env\<lparr>rl_git := g\<rparr>"
    obtain files' entries' where b: "component_files ?env sha = Inr files'"
      "mapE (zip_entry ?env) files' = Inr entries'" "other = rl_pack env entries'"
      using g(1) by (auto simp: build_zip_def bindE_eq_Inr)
    obtain os' where o: "map (tracked_entry sha) (listed_entries ?env sha) = map Inr os'"
      "files' = sort_key file_name (List.map_filter id os')"
      using component_files_Inr [OF b(1)] by blast
    have "mset (map (tracked_entry sha) (listed_entries ?env sha)) = mset (map (tracked_entry sha) (listed_entries env sha))"
      using g(3) by (simp only: mset_map)
    then have "mset (map projr (map Inr os' :: (publish_error + tracked_file option) list))
        = mset (map projr (map Inr os :: (publish_error + tracked_file option) list))"
      unfolding o(1) os(1) by (simp only: mset_map [of projr])
    then have "mset os' = mset os" by (simp add: o_def)
    then have "mset (List.map_filter id os') = mset (List.map_filter id os)"
      by (simp add: map_filter_def)
    moreover have "inj_on file_name (set (List.map_filter id os'))"
      using g(4) build(1) os(2) calculation by (auto simp: distinct_map dest: mset_eq_setD)
    ultimately have same: "files' = files" unfolding o(2) os(2) by (intro sort_key_inj_key_eq) simp_all
    have "zip_entry ?env = zip_entry env"
      using g(2) by (auto simp: zip_entry_def git_raw_def)
    then show ?thesis using b(2,3) build(3,4) same by simp
  qed
  show ?thesis using build(2,4) names files 1 2 os(2) by (intro conjI exI [of _ files] exI [of _ entries]) auto
qed

theorem zip_is_tracked_tree_witness:
  "\<exists>files entries. [77] = rl_pack example_release entries \<and> map fst entries = map file_name files
     \<and> set files = {f. \<exists>e \<in> set (listed_entries example_release example_sha). tracked_entry example_sha e = Inr (Some f)}"
  using zip_is_tracked_tree [OF example_zip] by blast

end
