(* ===== verification/Ble_State.thy ===== *)
theory Ble_State
  imports Enrollment_Store Advertisement Py_Text "HOL-Library.AList" "HOL-Library.Char_ord"
    "HOL-Library.List_Lexorder"
begin

text \<open>
  What \<^verbatim>\<open>scripts/ble_cli.py\<close> keeps on disk: the state files of the locks it enrolled
  (\<^verbatim>\<open>StateStore\<close>) and the failed owner logins (\<^verbatim>\<open>FailedLogins\<close>), with the errors of the command
  line. A file is what reading it gives; the JSON reader is Python's, so a file holds its
  value. File modes, and the warning about a loose one, are left out.
\<close>

section \<open>Errors\<close>

datatype state_path = InStore string | Elsewhere string

text \<open>The messages of \<^verbatim>\<open>CliError\<close>, by what they say.\<close>

datatype cli_reason =
    NeverSent command_id
  | SentOnlyByEnroll command_id
  | NothingStored string
  | SeveralStored string "state_path list"
  | BudgetSpent nat string
  | LoginRefused ble_error
  | NotOffered command_id device_feature
  | BadArgument ble_error
  | UnverifiedSlot string int
  | PinsDiffer
  | NameMissing
  | AlreadyStored state_path string
  | NotHeard string
  | OwnedAlready string bytes
  | FactoryRefused ble_error
  | StoredKeyRefused ble_error
  | StateDirReadOnly
  | CannotRead state_path
  | NotValidJson state_path
  | NotAStateFile state_path
  | BadStateFile state_path ble_error
  | NotSeenByRadio string

definition EXIT_OK :: int where [simp]: "EXIT_OK = 0"
definition EXIT_FAILED :: int where [simp]: "EXIT_FAILED = 1"
definition EXIT_REFUSED :: int where [simp]: "EXIT_REFUSED = 2"

text \<open>\<open>Failure\<close> is any other exception, the library's or Python's.\<close>

datatype cli_error = CliError cli_reason int | Failure ble_error

definition lift_ble :: "'a res \<Rightarrow> cli_error + 'a" where
  "lift_ble r = (case r of Inl e \<Rightarrow> Inl (Failure e) | Inr x \<Rightarrow> Inr x)"

section \<open>State files\<close>

definition STATE_FORMAT :: int where [simp]: "STATE_FORMAT = 1"

datatype file_content = Unreadable | Undecodable | NotJson | Json py

type_synonym state_files = "(state_path \<times> file_content) list"

record stored_lock =
  sl_path :: state_path
  sl_enrollment :: enrollment
  sl_address :: "string option"

definition path_for :: "(bytes \<Rightarrow> bytes) \<Rightarrow> enrollment \<Rightarrow> state_path" where
  "path_for sha256 e = InStore (''lock-'' @ take 16 (bytes_hex (sha256 (en_device_id e))) @ ''.json'')"

definition state_data :: "enrollment \<Rightarrow> string option \<Rightarrow> string \<Rightarrow> py" where
  "state_data e address saved = PDict
     [(''format'', PInt STATE_FORMAT),
      (''address'', case address of None \<Rightarrow> PNone | Some a \<Rightarrow> PStr a),
      (''saved'', PStr saved),
      (''enrollment'', PDict (enrollment_fields e))]"

text \<open>\<^verbatim>\<open>StateStore.save\<close> when the disk takes it: the file is replaced whole.\<close>

definition save_file ::
  "(bytes \<Rightarrow> bytes) \<Rightarrow> enrollment \<Rightarrow> string option \<Rightarrow> string \<Rightarrow> state_files \<Rightarrow> state_files" where
  "save_file sha256 e address saved files =
     AList.update (path_for sha256 e) (Json (state_data e address saved)) files"

text \<open>
  \<^verbatim>\<open>Enrollment.from_dict(data.get("enrollment") or {})\<close>: anything true that is not a dict has
  no \<^verbatim>\<open>get\<close>.
\<close>

definition stored_enrollment :: "crypto_lib \<Rightarrow> py \<Rightarrow> enrollment res" where
  "stored_enrollment lib v =
     (if \<not> py_truth v then enrollment_from_dict lib Map.empty
      else case v of
             PDict d \<Rightarrow> enrollment_from_dict lib (map_of d)
           | _ \<Rightarrow> Inl (PyException ''AttributeError''))"

definition load_data :: "crypto_lib \<Rightarrow> state_path \<Rightarrow> py \<Rightarrow> cli_error + stored_lock" where
  "load_data lib path data =
     (case data of
        PDict d \<Rightarrow>
          (let m = map_of d in
           bindE (raise_if (py_number (py_get m ''format'') \<noteq> Some STATE_FORMAT)
                    (CliError (NotAStateFile path) EXIT_FAILED)) (\<lambda>_.
           case stored_enrollment lib (py_get m ''enrollment'') of
             Inl err \<Rightarrow> Inl (if is_ble_error err then CliError (BadStateFile path err) EXIT_FAILED
                            else Failure err)
           | Inr e \<Rightarrow> Inr \<lparr>sl_path = path, sl_enrollment = e,
               sl_address = (case py_get m ''address'' of PStr a \<Rightarrow> Some a | _ \<Rightarrow> None)\<rparr>))
      | _ \<Rightarrow> Inl (CliError (NotAStateFile path) EXIT_FAILED))"

definition load_stored :: "crypto_lib \<Rightarrow> state_files \<Rightarrow> state_path \<Rightarrow> cli_error + stored_lock" where
  "load_stored lib files path =
     (case map_of files path of
        None \<Rightarrow> Inl (CliError (CannotRead path) EXIT_FAILED)
      | Some Unreadable \<Rightarrow> Inl (CliError (CannotRead path) EXIT_FAILED)
      | Some Undecodable \<Rightarrow> Inl (Failure (PyException ''UnicodeDecodeError''))
      | Some NotJson \<Rightarrow> Inl (CliError (NotValidJson path) EXIT_FAILED)
      | Some (Json data) \<Rightarrow> load_data lib path data)"

definition is_json_name :: "string \<Rightarrow> bool" where
  "is_json_name name \<longleftrightarrow> drop (length name - 5) name = ''.json''"

text \<open>\<^verbatim>\<open>sorted(self.directory.glob("*.json"))\<close>\<close>

fun store_name :: "state_path \<Rightarrow> string option" where
  "store_name (InStore name) = (if is_json_name name then Some name else None)"
| "store_name (Elsewhere path) = None"

definition store_names :: "state_files \<Rightarrow> string list" where
  "store_names files = sort (List.map_filter (\<lambda>f. store_name (fst f)) files)"

fun load_each :: "crypto_lib \<Rightarrow> state_files \<Rightarrow> string list \<Rightarrow> cli_error + stored_lock list" where
  "load_each lib files [] = Inr []"
| "load_each lib files (name # names) =
     (case load_stored lib files (InStore name) of
        Inl (CliError r c) \<Rightarrow> load_each lib files names
      | Inl (Failure e) \<Rightarrow> Inl (Failure e)
      | Inr stored \<Rightarrow> bindE (load_each lib files names) (\<lambda>rest. Inr (stored # rest)))"

definition all_stored :: "crypto_lib \<Rightarrow> state_files \<Rightarrow> cli_error + stored_lock list" where
  "all_stored lib files = load_each lib files (store_names files)"

definition same_lock_address :: "string \<Rightarrow> string \<Rightarrow> bool" where
  "same_lock_address a b \<longleftrightarrow> str_casefold a = str_casefold b"

definition stored_at :: "string \<Rightarrow> stored_lock \<Rightarrow> bool" where
  "stored_at address l \<longleftrightarrow> (case sl_address l of None \<Rightarrow> False | Some a \<Rightarrow> same_lock_address a address)"

definition by_address :: "crypto_lib \<Rightarrow> state_files \<Rightarrow> string \<Rightarrow> cli_error + stored_lock list" where
  "by_address lib files address =
     bindE (all_stored lib files) (\<lambda>all. Inr (filter (stored_at address) all))"

lemma load_saved:
  assumes "enrollment_check lib e = Inr ()"
  shows "load_stored lib (save_file sha256 e (Some a) saved files) (path_for sha256 e)
    = Inr \<lparr>sl_path = path_for sha256 e, sl_enrollment = e, sl_address = Some a\<rparr>"
proof -
  have "enrollment_from_dict lib (map_of (enrollment_fields e)) = Inr e"
    using enrollment_store_ok [OF assms] by (simp add: enrollment_to_dict_def)
  moreover have "enrollment_fields e \<noteq> []" by (simp add: enrollment_fields_def)
  ultimately show ?thesis
    by (simp add: load_stored_def save_file_def update_conv' load_data_def state_data_def stored_enrollment_def)
qed

lemma load_elsewhere:
  "path \<noteq> path_for sha256 e \<Longrightarrow> load_stored lib (save_file sha256 e a saved files) path = load_stored lib files path"
  by (simp add: load_stored_def save_file_def update_conv')

text \<open>The state directory as a store: a lock is kept under the hash of its device id.\<close>

interpretation lock_store: keyed_store "\<lambda>(e, a, s). save_file sha256 e (Some a) s" "load_stored lib"
  "\<lambda>(e, a, s). path_for sha256 e"
  "\<lambda>(e, a, s). Inr \<lparr>sl_path = path_for sha256 e, sl_enrollment = e, sl_address = Some a\<rparr>"
  "\<lambda>(e, a, s). enrollment_check lib e = Inr ()"
  by unfold_locales (auto simp: load_saved load_elsewhere)

section \<open>Failed logins\<close>

definition FAILED_LOGIN_LIMIT :: nat where [simp]: "FAILED_LOGIN_LIMIT = 2"
definition FAILED_LOGIN_WINDOW :: int where [simp]: "FAILED_LOGIN_WINDOW = 24 * 60 * MICROS_PER_MINUTE"

text \<open>
  A line of the file: one that does not parse, or the moment, the address as text, what logged
  in and how it failed: the status of the lock's answer, or the type of another error.
\<close>

datatype failed_status = FailedStatus int | FailedType ble_error

datatype failed_line = BadLine | LoginLine moment string string failed_status

text \<open>
  \<^verbatim>\<open>FailedLogins.recent\<close>. The subtraction of a moment without a timezone raises, and stands
  outside the \<^verbatim>\<open>try\<close>; it is reached for a line of this address only.
\<close>

fun recent_failures :: "failed_line list \<Rightarrow> string \<Rightarrow> int \<Rightarrow> cli_error + nat" where
  "recent_failures [] address now = Inr 0"
| "recent_failures (BadLine # ls) address now = recent_failures ls address now"
| "recent_failures (LoginLine moment a kind status # ls) address now =
     (if same_lock_address a address
      then (case moment of
              Naive us \<Rightarrow> Inl (Failure (PyException ''TypeError''))
            | Aware us \<Rightarrow> bindE (recent_failures ls address now)
                (\<lambda>n. Inr (if now - us < FAILED_LOGIN_WINDOW then Suc n else n)))
      else recent_failures ls address now)"

text \<open>\<^verbatim>\<open>_now_iso\<close> writes whole milliseconds.\<close>

definition iso_moment :: "int \<Rightarrow> moment" where
  "iso_moment us = Aware (us div 1000 * 1000)"

definition failed_login_line :: "int \<Rightarrow> string \<Rightarrow> string \<Rightarrow> failed_status \<Rightarrow> failed_line" where
  "failed_login_line now address kind status = LoginLine (iso_moment now) address kind status"

end
