(* ===== verification/Tracing.thy ===== *)
theory Tracing
  imports Command Response Ble_Errors
begin

text \<open>
  \<^verbatim>\<open>ble/client/tracing.py\<close>: the frame events a session hands to its tracer. A tracer is the
  caller's code: a function of its state and the event, which may raise an exception, here its
  class. What a session calls is \<open>session_tracer\<close>, which never raises; the calls of
  \<^verbatim>\<open>session.py\<close> on it therefore change nothing in the session and are left out there.
\<close>

datatype frame_event =
    CommandSent command
  | PacketSent bytes
  | PacketReceived bytes
  | ResponseReceived response
  | FrameDropped ble_error bytes

text \<open>The caller's tracer, and the one made of it: none, or one that contains exceptions.\<close>

type_synonym 't frame_tracer = "frame_event \<Rightarrow> 't \<Rightarrow> 't \<times> string option"

datatype 't session_tracer = NoTracer | GuardedTracer "'t frame_tracer"

definition guarded_tracer :: "'t frame_tracer option \<Rightarrow> 't session_tracer" where
  "guarded_tracer tracer = (case tracer of None \<Rightarrow> NoTracer | Some t \<Rightarrow> GuardedTracer t)"

fun event_name :: "frame_event \<Rightarrow> string" where
  "event_name (CommandSent c) = ''command''"
| "event_name (PacketSent data) = ''packet_out''"
| "event_name (PacketReceived data) = ''packet_in''"
| "event_name (ResponseReceived r) = ''response''"
| "event_name (FrameDropped err data) = ''dropped''"

text \<open>\<^verbatim>\<open>_call\<close>: the state of the caller's tracer, and the lines logged: the event and the class.\<close>

fun session_event :: "'t session_tracer \<Rightarrow> frame_event \<Rightarrow> 't \<times> (string \<times> string) list \<Rightarrow> 't \<times> (string \<times> string) list" where
  "session_event NoTracer ev (t, logged) = (t, logged)"
| "session_event (GuardedTracer trace) ev (t, logged) =
     (case trace ev t of
        (t', None) \<Rightarrow> (t', logged)
      | (t', Some exn) \<Rightarrow> (t', logged @ [(event_name ev, exn)]))"

text \<open>
  Every event reaches the tracer, in order and whatever it raised before; what is logged has no
  more of a frame than its event's name.
\<close>

lemma guarded_sees_all:
  "fst (fold (session_event (GuardedTracer trace)) evs (t, logged)) = fold (\<lambda>ev t. fst (trace ev t)) evs t"
  by (induction evs arbitrary: t logged) (auto split: prod.split option.split)

lemma guarded_logs_names:
  "\<exists>new. snd (fold (session_event tracer) evs (t, logged)) = logged @ new \<and> length new \<le> length evs
     \<and> set (map fst new) \<subseteq> event_name ` set evs"
proof (induction evs arbitrary: t logged)
  case (Cons ev evs)
  obtain t' more where step: "session_event tracer ev (t, logged) = (t', logged @ more)"
      "length more \<le> 1" "set (map fst more) \<subseteq> {event_name ev}"
    by (cases tracer; cases "\<exists>trace. tracer = GuardedTracer trace") (fastforce split: prod.splits option.splits)+
  obtain new where "snd (fold (session_event tracer) evs (t', logged @ more)) = (logged @ more) @ new"
      "length new \<le> length evs" "set (map fst new) \<subseteq> event_name ` set evs"
    using Cons.IH [of t' "logged @ more"] by blast
  then show ?case using step by (intro exI [of _ "more @ new"]) auto
qed simp

end
