(* ===== verification/Ble_Trace.thy ===== *)
theory Ble_Trace
  imports Responses Packet Tracing
begin

text \<open>
  The frame log of \<^verbatim>\<open>scripts/ble_cli.py\<close>: \<^verbatim>\<open>RedactingTracer\<close>, the tracer of
  \<^verbatim>\<open>ble/client/tracing.py\<close> the command line hands to a session. A line is its event and its
  fields; the two times every line carries are left out. The names \<^verbatim>\<open>_id_name\<close> and
  \<^verbatim>\<open>_status_name\<close> look up are the members themselves, the text of an error is the error.
\<close>

section \<open>Lines\<close>

datatype trace_value =
    TNone
  | TFlag bool
  | TInt int
  | TText string
  | THex bytes
  | TTexts "string list"
  | TData "(string \<times> bytes) list"
  | TCharacteristics "(string \<times> string list) list"
  | TCommand command_id
  | TResponse "response_id raw_enum"
  | TStatus "response_status_id raw_enum"
  | TPacketType packet_type_id
  | TModel lock_model_id
  | TFirmware firmware_version
  | TError ble_error
  | TErrorType ble_error

type_synonym trace_fields = "(string \<times> trace_value) list"

record trace_line =
  tl_event :: string
  tl_fields :: trace_fields

record tracer =
  tr_lines :: "trace_line list"
  tr_open :: bool
  tr_secrets :: bool
  tr_failure :: "string option"

definition TRACE_PAYLOAD_COMMANDS :: "command_id list" where
  "TRACE_PAYLOAD_COMMANDS =
     [CMD_EXCHANGE_KEY_PUB_M, CMD_DEVICE_MODEL_GET, CMD_BATT_INFO_GET, CMD_DEVICE_LOG_GET,
      CMD_DEVICE_NAME_GET, CMD_DEVICE_NAME_SET, CMD_CURRENT_TIME_GET, CMD_CURRENT_TIME_SET,
      CMD_EKEY_OPERATE, CMD_PIN_CODE_CLEAR, CMD_SCAN_RFID_CODE, CMD_RFID_CODE_CLEAR,
      CMD_FINGERPRINT_SCAN, CMD_FINGERPRINT_CLEAR]"

definition TRACE_PAYLOAD_RESPONSES :: "response_id list" where
  "TRACE_PAYLOAD_RESPONSES =
     [RSP_EXCHANGE_KEY_PUB_L, RSP_DEVICE_MODEL_GET, RSP_BATT_INFO_GET, RSP_DEVICE_LOG_GET,
      RSP_DEVICE_NAME_GET, RSP_CURRENT_TIME_GET, RSP_LOCK_STATUS, RSP_USER_ADDED,
      RSP_SCAN_RFID_CODE, RSP_FINGERPRINT_SCAN] @ STATUS_ONLY_RESPONSES"

section \<open>The tracer\<close>

text \<open>
  Writing a line. \<open>refused\<close> is the file: it takes the next line, or raises the OSError or
  ValueError whose text it gives; the first one is kept and none stops the session.
\<close>

definition trace_write ::
  "(tracer \<Rightarrow> string option) \<Rightarrow> string \<Rightarrow> trace_fields \<Rightarrow> tracer \<Rightarrow> tracer" where
  "trace_write refused event fs t =
     (if \<not> tr_open t then t
      else case refused t of
             None \<Rightarrow> t\<lparr>tr_lines := tr_lines t @ [\<lparr>tl_event = event, tl_fields = fs\<rparr>]\<rparr>
           | Some err \<Rightarrow> (if tr_failure t = None then t\<lparr>tr_failure := Some err\<rparr> else t))"

definition packet_fields :: "bytes \<Rightarrow> trace_fields" where
  "packet_fields data =
     [(''hex'', THex data), (''len'', TInt (int (length data)))]
     @ (case packet_from_bytes data of
          Inl err \<Rightarrow> [(''parse_error'', TError err)]
        | Inr p \<Rightarrow> [(''type'', TPacketType (pk_type p)), (''seq'', TInt (pk_sequence p))])"

definition trace_command :: "bool \<Rightarrow> command \<Rightarrow> trace_fields" where
  "trace_command secrets c =
     [(''dir'', TText ''out''), (''id'', TCommand (cm_id c)), (''ref'', TInt (cm_ref c)),
      (''len'', TInt (int (length (cm_payload c))))]
     @ (if secrets \<or> cm_id c \<in> set TRACE_PAYLOAD_COMMANDS then [(''payload'', THex (cm_payload c))] else [])"

definition trace_response :: "bool \<Rightarrow> response \<Rightarrow> trace_fields" where
  "trace_response secrets r =
     [(''dir'', TText ''in''), (''id'', TResponse (rs_id r)), (''ref'', TInt (rs_ref r)),
      (''status'', TStatus (rs_status r)), (''len'', TInt (int (length (rs_payload r))))]
     @ (if is_event r then [(''unsolicited'', TFlag True)] else [])
     @ (if secrets \<or> rid_value r \<in> response_value ` set TRACE_PAYLOAD_RESPONSES
        then [(''payload'', THex (rs_payload r))] else [])"

definition trace_dropped :: "bool \<Rightarrow> ble_error \<Rightarrow> bytes \<Rightarrow> trace_fields" where
  "trace_dropped secrets err data =
     [(''dir'', TText ''in''), (''error'', TError err), (''len'', TInt (int (length data)))]
     @ (if secrets then [(''data'', THex data)] else [])"

text \<open>The calls a session and the command line make on the tracer.\<close>

datatype tracer_call =
    PacketOut bytes
  | PacketIn bytes
  | CommandOut command
  | ResponseIn response
  | DroppedIn ble_error bytes
  | NoteCall string trace_fields
  | SecretCall string trace_fields
  | CloseTrace

fun trace_call :: "(tracer \<Rightarrow> string option) \<Rightarrow> tracer_call \<Rightarrow> tracer \<Rightarrow> tracer" where
  "trace_call refused (PacketOut data) t =
     trace_write refused ''packet'' ((''dir'', TText ''out'') # packet_fields data) t"
| "trace_call refused (PacketIn data) t =
     trace_write refused ''packet'' ((''dir'', TText ''in'') # packet_fields data) t"
| "trace_call refused (CommandOut c) t = trace_write refused ''command'' (trace_command (tr_secrets t) c) t"
| "trace_call refused (ResponseIn r) t = trace_write refused ''response'' (trace_response (tr_secrets t) r) t"
| "trace_call refused (DroppedIn err data) t =
     trace_write refused ''dropped'' (trace_dropped (tr_secrets t) err data) t"
| "trace_call refused (NoteCall event fs) t = trace_write refused event fs t"
| "trace_call refused (SecretCall event fs) t =
     (if tr_secrets t then trace_write refused event fs t else t)"
| "trace_call refused CloseTrace t = t\<lparr>tr_open := False\<rparr>"

definition run_tracer :: "(tracer \<Rightarrow> string option) \<Rightarrow> tracer_call list \<Rightarrow> tracer \<Rightarrow> tracer" where
  "run_tracer refused calls t = fold (trace_call refused) calls t"

text \<open>As the tracer of a session: it keeps its own failure and raises nothing.\<close>

fun traced :: "frame_event \<Rightarrow> tracer_call" where
  "traced (CommandSent c) = CommandOut c"
| "traced (PacketSent data) = PacketOut data"
| "traced (PacketReceived data) = PacketIn data"
| "traced (ResponseReceived r) = ResponseIn r"
| "traced (FrameDropped err data) = DroppedIn err data"

definition redacting_tracer :: "(tracer \<Rightarrow> string option) \<Rightarrow> tracer frame_tracer" where
  "redacting_tracer refused = (\<lambda>ev t. (trace_call refused (traced ev) t, None))"

lemma session_trace:
  "fold (session_event (guarded_tracer (Some (redacting_tracer refused)))) evs (t, logged)
     = (run_tracer refused (map traced evs) t, logged)"
  by (induction evs arbitrary: t) (simp_all add: guarded_tracer_def redacting_tracer_def run_tracer_def)

section \<open>What a log may not depend on\<close>

text \<open>
  The commands and answers that carry a code, a key, a challenge or a device id, and a call
  with everything secret in it blanked: the payloads of those, the bytes of a dropped frame,
  and what is written with \<^verbatim>\<open>--trace-secrets\<close> only.
\<close>

definition secret_commands :: "command_id list" where
  "secret_commands =
     [CMD_PIN_CODE_SET, CMD_USER_AUTH_BEGIN, CMD_USER_AUTH_FINALIZE, CMD_USER_AUTH_UPDATE,
      CMD_SERVER_KEY_UPDATE, CMD_DEVICE_ID_SET]"

definition secret_responses :: "response_id list" where
  "secret_responses =
     [RSP_USER_AUTH_BEGIN, RSP_USER_AUTH_UPDATE, RSP_SERVER_KEY_UPDATE, RSP_DEVICE_ID_GET]"

definition blank :: "bytes \<Rightarrow> bytes" where
  "blank bs = replicate (length bs) 0"

fun redacted :: "tracer_call \<Rightarrow> tracer_call" where
  "redacted (CommandOut c) =
     CommandOut (if cm_id c \<in> set secret_commands then c\<lparr>cm_payload := blank (cm_payload c)\<rparr> else c)"
| "redacted (ResponseIn r) =
     ResponseIn (if rid_value r \<in> response_value ` set secret_responses
                 then r\<lparr>rs_payload := blank (rs_payload r)\<rparr> else r)"
| "redacted (DroppedIn err data) = DroppedIn err (blank data)"
| "redacted (SecretCall event fs) = SecretCall [] []"
| "redacted call = call"

lemma length_blank [simp]: "length (blank bs) = length bs"
  by (simp add: blank_def)

lemma secret_command_unlisted: "c \<in> set secret_commands \<Longrightarrow> c \<notin> set TRACE_PAYLOAD_COMMANDS"
  by (auto simp: secret_commands_def TRACE_PAYLOAD_COMMANDS_def)

lemma secret_response_unlisted:
  "v \<in> response_value ` set secret_responses \<Longrightarrow> v \<notin> response_value ` set TRACE_PAYLOAD_RESPONSES"
  by (auto simp: secret_responses_def TRACE_PAYLOAD_RESPONSES_def STATUS_ONLY_RESPONSES_def)

lemma trace_call_redacted:
  "\<not> tr_secrets t \<Longrightarrow> trace_call refused (redacted call) t = trace_call refused call t"
  by (cases call) (simp_all add: trace_command_def trace_response_def trace_dropped_def is_event_def
      secret_command_unlisted secret_response_unlisted)

lemma trace_call_secrets [simp]: "tr_secrets (trace_call refused call t) = tr_secrets t"
  by (cases call) (simp_all add: trace_write_def split: option.splits)

section \<open>Properties\<close>

text \<open>
  C11: a frame log written without \<^verbatim>\<open>--trace-secrets\<close> tells nothing of what is secret. Whatever
  calls a session and the command line make and however the file fails, the log, its lines and
  its failure, is the one written had every code, key, challenge, device id and dropped frame
  been zeros of the same length and no link key been offered.
\<close>

theorem trace_hides_secrets:
  assumes "\<not> tr_secrets t"
  shows "run_tracer refused (map redacted calls) t = run_tracer refused calls t"
  using assms
  by (induction calls arbitrary: t) (simp_all add: run_tracer_def trace_call_redacted)

theorem trace_hides_secrets_witness:
  "run_tracer (\<lambda>_. None) [CommandOut \<lparr>cm_id = CMD_PIN_CODE_SET, cm_ref = 1, cm_payload = [0, 0, 0], cm_rfu = 0\<rparr>]
       \<lparr>tr_lines = [], tr_open = True, tr_secrets = False, tr_failure = None\<rparr>
   = run_tracer (\<lambda>_. None) [CommandOut \<lparr>cm_id = CMD_PIN_CODE_SET, cm_ref = 1, cm_payload = [49, 50, 51], cm_rfu = 0\<rparr>]
       \<lparr>tr_lines = [], tr_open = True, tr_secrets = False, tr_failure = None\<rparr>"
  using trace_hides_secrets [of "\<lparr>tr_lines = [], tr_open = True, tr_secrets = False, tr_failure = None\<rparr>" "\<lambda>_. None"
      "[CommandOut \<lparr>cm_id = CMD_PIN_CODE_SET, cm_ref = 1, cm_payload = [49, 50, 51], cm_rfu = 0\<rparr>]"]
  by (simp add: secret_commands_def blank_def)

end
