(* ===== verification/Ble_Cli.thy ===== *)
theory Ble_Cli
  imports Ble_State Ble_Trace Effects
begin

text \<open>
  The commands of \<^verbatim>\<open>scripts/ble_cli.py\<close>. A command acts on a world of the radio and the lock
  behind it, the state files and the failed logins, and leaves a trace of what it did to them
  in order. The radio, the session it builds, the disk and the clock are the record
  \<open>cli_env\<close>, as the tool's own \<^verbatim>\<open>Deps\<close> has them; the library's login and enrollment run on the
  session's channel. What is printed to the terminal is left out.
\<close>

section \<open>World and environment\<close>

datatype disk_write = StateFile enrollment | FailedLogin failed_line | WriteCheck

datatype cli_event =
    Listened
  | Opened string
  | LetGo
  | Command command_payload
  | Wrote enrollment "string option" bool
  | LoggedFailure failed_line
  | Noted trace_line

record 's cli_world =
  cw_link :: 's
  cw_files :: state_files
  cw_failed :: "failed_line list"
  cw_trace :: "cli_event list"

record seen =
  sv_address :: string
  sv_name :: "string option"
  sv_rssi :: "int option"
  sv_service_data :: "(string \<times> bytes) list"

text \<open>The services of a connected lock: each characteristic's uuid and properties.\<close>

type_synonym gatt_services = "(string \<times> (string \<times> string list) list) list"

record 's cli_env =
  ce_lib :: crypto_lib
  ce_sha1 :: "bytes \<Rightarrow> bytes"
  ce_sha256 :: "bytes \<Rightarrow> bytes"
  ce_clock :: "cli_event list \<Rightarrow> int"
  ce_monotonic :: "'s \<Rightarrow> int"
  ce_iso :: "int \<Rightarrow> string"
  ce_disk :: "cli_event list \<Rightarrow> disk_write \<Rightarrow> bool"
  ce_scan :: "int \<Rightarrow> 's \<Rightarrow> 's \<times> seen list \<times> cli_error option"
  ce_inspect :: "string \<Rightarrow> 's \<Rightarrow> 's \<times> (cli_error + gatt_services)"
  ce_read_gatt :: "string \<Rightarrow> 's \<Rightarrow> 's \<times> (string + bytes)"
  ce_open :: "string \<Rightarrow> 's \<Rightarrow> 's \<times> (cli_error + unit)"
  ce_factory :: "'s \<Rightarrow> 's \<times> unit res"
  ce_drop :: "'s \<Rightarrow> 's \<times> unit res"
  ce_disconnect :: "'s \<Rightarrow> 's \<times> unit res"
  ce_mtu :: "'s \<Rightarrow> int option"
  ce_connect :: "'s \<Rightarrow> 's \<times> unit res"
  ce_close :: "'s \<Rightarrow> 's \<times> unit res"
  ce_channel :: "'s channel"
  ce_firmware :: "'s \<Rightarrow> firmware_version res"
  ce_model :: "'s \<Rightarrow> lock_model_id option"
  ce_link_keys :: "'s \<Rightarrow> link_keys res"
  ce_available :: "'s \<Rightarrow> command_payload \<Rightarrow> device_feature res"
  ce_device_id :: bytes
  ce_server_key :: bytes
  ce_update_key :: key_pair
  ce_stdin_line :: string
  ce_getpass :: "string \<times> string"

text \<open>The arguments argparse leaves; those a command does not take have their defaults.\<close>

record cli_args =
  ca_command :: string
  ca_address :: string
  ca_factory :: bool
  ca_state :: "state_path option"
  ca_force_login :: bool
  ca_yes :: bool
  ca_slot_unverified :: bool
  ca_slot :: int
  ca_action :: string
  ca_operation :: string
  ca_pin_stdin :: bool
  ca_name :: "string option"
  ca_resume :: bool
  ca_seconds :: int
  ca_watch :: "int option"
  ca_window :: int
  ca_trace_secrets :: bool

type_synonym ('s, 'a) cli = "('s cli_world, cli_error, 'a) effect"

definition FIRST_UNCONTESTED_PIN_SLOT :: int where [simp]: "FIRST_UNCONTESTED_PIN_SLOT = 805"

definition ADVERTISING_UUID :: string where
  "ADVERTISING_UUID = ''0000fd00-0000-1000-8000-00805f9b34fb''"

definition ENROLLMENT_ONLY_COMMANDS :: "command_id list" where
  "ENROLLMENT_ONLY_COMMANDS = [CMD_DEVICE_ID_SET, CMD_USER_AUTH_UPDATE, CMD_SERVER_KEY_UPDATE]"

definition NEVER_SENT_COMMANDS :: "command_id list" where
  "NEVER_SENT_COMMANDS = [CMD_FACTORY_RESET_MODULE]"

section \<open>Steps on the world\<close>

definition happens :: "cli_event \<Rightarrow> 's cli_world \<Rightarrow> 's cli_world" where
  "happens ev w = w\<lparr>cw_trace := cw_trace w @ [ev]\<rparr>"

definition event :: "cli_event \<Rightarrow> ('s, unit) cli" where
  "event ev = (\<lambda>w. (happens ev w, Inr ()))"

definition add_note :: "string \<Rightarrow> trace_fields \<Rightarrow> ('s, unit) cli" where
  "add_note ev fs = event (Noted \<lparr>tl_event = ev, tl_fields = fs\<rparr>)"

definition refuse :: "cli_reason \<Rightarrow> int \<Rightarrow> ('s, 'a) cli" where
  "refuse reason code = raiseS (CliError reason code)"

text \<open>A step of the radio or the session, on the link alone.\<close>

definition on_link :: "('s \<Rightarrow> 's \<times> (cli_error + 'a)) \<Rightarrow> ('s, 'a) cli" where
  "on_link f = (\<lambda>w. let (s, r) = f (cw_link w) in (w\<lparr>cw_link := s\<rparr>, r))"

definition on_session :: "('s \<Rightarrow> 's \<times> 'a res) \<Rightarrow> ('s, 'a) cli" where
  "on_session f = on_link (\<lambda>s. let (s', r) = f s in (s', lift_ble r))"

definition ask :: "('s cli_world \<Rightarrow> cli_error + 'a) \<Rightarrow> ('s, 'a) cli" where
  "ask f = (\<lambda>w. (w, f w))"

text \<open>\<^verbatim>\<open>try: m finally: f\<close>; what \<open>f\<close> raises takes the place of how \<open>m\<close> ended.\<close>

definition finallyS :: "('w, 'e, 'a) effect \<Rightarrow> ('w, 'e, unit) effect \<Rightarrow> ('w, 'e, 'a) effect" where
  "finallyS m f = (\<lambda>w. case m w of (w', r) \<Rightarrow>
     (case f w' of (w'', Inl e) \<Rightarrow> (w'', Inl e) | (w'', Inr _) \<Rightarrow> (w'', r)))"

text \<open>\<^verbatim>\<open>try: m except err: h err else: k\<close>, and what the other steps may raise.\<close>

definition handleS ::
  "('w, 'd, 'a) effect \<Rightarrow> ('d \<Rightarrow> ('w, 'e, 'b) effect) \<Rightarrow> ('a \<Rightarrow> ('w, 'e, 'b) effect) \<Rightarrow> ('w, 'e, 'b) effect" where
  "handleS m h k = (\<lambda>w. case m w of (w', Inl e) \<Rightarrow> h e w' | (w', Inr x) \<Rightarrow> k x w')"

definition raises :: "'a res \<Rightarrow> ('s, 'a) cli" where
  "raises r = liftE (lift_ble r)"

section \<open>State files and failed logins\<close>

definition now_at :: "'s cli_env \<Rightarrow> 's cli_world \<Rightarrow> int" where
  "now_at env w = ce_clock env (cw_trace w)"

text \<open>One write of a state file, with the disk's answer.\<close>

definition put_state :: "'s cli_env \<Rightarrow> enrollment \<Rightarrow> string option \<Rightarrow> bool \<Rightarrow> 's cli_world \<Rightarrow> 's cli_world" where
  "put_state env e address ok w =
     happens (Wrote e address ok)
       (if ok then w\<lparr>cw_files := save_file (ce_sha256 env) e address
                       (ce_iso env (now_at env w)) (cw_files w)\<rparr> else w)"

definition store_save :: "'s cli_env \<Rightarrow> enrollment \<Rightarrow> string option \<Rightarrow> ('s, state_path) cli" where
  "store_save env e address = (\<lambda>w.
     let ok = ce_disk env (cw_trace w) (StateFile e) in
     (put_state env e address ok w,
      if ok then Inr (path_for (ce_sha256 env) e) else Inl (Failure (PyException ''OSError''))))"

definition store_set_address :: "'s cli_env \<Rightarrow> stored_lock \<Rightarrow> string \<Rightarrow> ('s, unit) cli" where
  "store_set_address env stored address =
     (if sl_address stored \<noteq> Some address
      then bindS (store_save env (sl_enrollment stored) (Some address)) (\<lambda>_. returnS ())
      else returnS ())"

definition store_writable :: "'s cli_env \<Rightarrow> ('s, unit) cli" where
  "store_writable env = ask (\<lambda>w.
     if ce_disk env (cw_trace w) WriteCheck then Inr () else Inl (CliError StateDirReadOnly EXIT_FAILED))"

definition store_by_address :: "'s cli_env \<Rightarrow> string \<Rightarrow> ('s, stored_lock list) cli" where
  "store_by_address env address = ask (\<lambda>w. by_address (ce_lib env) (cw_files w) address)"

definition store_load :: "'s cli_env \<Rightarrow> state_path \<Rightarrow> ('s, stored_lock) cli" where
  "store_load env path = ask (\<lambda>w. load_stored (ce_lib env) (cw_files w) path)"

definition record_failure :: "'s cli_env \<Rightarrow> string \<Rightarrow> string \<Rightarrow> failed_status \<Rightarrow> ('s, unit) cli" where
  "record_failure env address kind status = (\<lambda>w.
     let line = failed_login_line (now_at env w) address kind status in
     if ce_disk env (cw_trace w) (FailedLogin line)
     then (happens (LoggedFailure line) (w\<lparr>cw_failed := cw_failed w @ [line]\<rparr>), Inr ())
     else (w, Inl (Failure (PyException ''OSError''))))"

definition status_of_failure :: "ble_error \<Rightarrow> failed_status" where
  "status_of_failure err = (case err of BleOperationError c status i \<Rightarrow> FailedStatus status | _ \<Rightarrow> FailedType err)"

definition is_operation_error :: "ble_error \<Rightarrow> bool" where
  "is_operation_error err = (case err of BleOperationError c s i \<Rightarrow> True | _ \<Rightarrow> False)"

text \<open>\<open>earlier\<close> is the error's \<^verbatim>\<open>__context__\<close>.\<close>

definition record_login_failures ::
  "'s cli_env \<Rightarrow> string \<Rightarrow> string \<Rightarrow> ble_error option \<Rightarrow> ble_error \<Rightarrow> ('s, unit) cli" where
  "record_login_failures env address kind earlier err =
     bindS (case earlier of
              Some (BleOperationError c status i) \<Rightarrow> record_failure env address kind (FailedStatus status)
            | _ \<Rightarrow> returnS ()) (\<lambda>_.
     record_failure env address kind (status_of_failure err))"

definition check_login_budget :: "'s cli_env \<Rightarrow> cli_args \<Rightarrow> string \<Rightarrow> ('s, unit) cli" where
  "check_login_budget env args address =
     bindS (ask (\<lambda>w. recent_failures (cw_failed w) address (now_at env w))) (\<lambda>failures.
     if failures = 0 then returnS ()
     else if failures \<ge> FAILED_LOGIN_LIMIT \<and> \<not> ca_force_login args
     then refuse (BudgetSpent failures address) EXIT_REFUSED
     else returnS ())"

section \<open>Sessions\<close>

text \<open>What the library did on the session's channel, in the order it did it.\<close>

definition done_steps :: "enrollment \<Rightarrow> string list" where
  "done_steps e = map step_value (filter (\<lambda>s. s \<in> en_completed e) enrollment_steps)"

fun library_event :: "'s cli_env \<Rightarrow> string \<Rightarrow> enroll_event \<Rightarrow> 's cli_world \<Rightarrow> 's cli_world" where
  "library_event env address (Sent c) w = happens (Command c) w"
| "library_event env address (Saved e ok) w =
     (let w = put_state env e (Some address) ok w in
      if ok then happens (Noted \<lparr>tl_event = ''enroll'',
                    tl_fields = [(''step'', TText ''saved''), (''completed'', TTexts (done_steps e))]\<rparr>) w
      else w)"

definition on_library ::
  "'s cli_env \<Rightarrow> string \<Rightarrow> ('s enroll_world, 'e, 'a) effect \<Rightarrow> ('s cli_world, 'e, 'a) effect" where
  "on_library env address m = (\<lambda>w.
     let (v, r) = m \<lparr>ew_channel = cw_link w, ew_trace = []\<rparr> in
     (fold (library_event env address) (ew_trace v) (w\<lparr>cw_link := ew_channel v\<rparr>), r))"

definition trace_link_keys :: "'s cli_env \<Rightarrow> cli_args \<Rightarrow> ('s, unit) cli" where
  "trace_link_keys env args = (\<lambda>w.
     case ce_link_keys env (cw_link w) of
       Inl err \<Rightarrow> (if is_ble_error err then returnS () else raiseS (Failure err)) w
     | Inr keys \<Rightarrow> (if ca_trace_secrets args
                    then add_note ''link_keys'' [(''key'', THex (lk_key keys)), (''iv'', THex (lk_iv keys))]
                    else returnS ()) w)"

definition note_session :: "'s cli_env \<Rightarrow> ('s, unit) cli" where
  "note_session env =
     bindS (on_session (\<lambda>s. (s, ce_firmware env s))) (\<lambda>firmware.
     bindS (ask (\<lambda>w. Inr (ce_model env (cw_link w)))) (\<lambda>model.
     add_note ''session'' [(''firmware'', TFirmware firmware),
       (''command_ref'', TText (if firmware < MIN_FIRMWARE_ADMIN then ''static 16'' else ''counter 1-127'')),
       (''model'', case model of None \<Rightarrow> TNone | Some m \<Rightarrow> TModel m)]))"

definition let_go :: "'s cli_env \<Rightarrow> ('s, unit) cli" where
  "let_go env =
     bindS (event LetGo) (\<lambda>_.
     bindS (on_session (ce_close env)) (\<lambda>_.
     add_note ''closed'' []))"

definition with_session :: "'s cli_env \<Rightarrow> cli_args \<Rightarrow> string \<Rightarrow> ('s, 'a) cli \<Rightarrow> ('s, 'a) cli" where
  "with_session env args address body =
     bindS (on_link (ce_open env address)) (\<lambda>_.
     bindS (event (Opened address)) (\<lambda>_.
     bindS (ask (\<lambda>w. Inr (ce_mtu env (cw_link w)))) (\<lambda>mtu.
     bindS (add_note ''connected'' [(''address'', TText address),
              (''mtu'', case mtu of None \<Rightarrow> TNone | Some m \<Rightarrow> TInt m)]) (\<lambda>_.
     bindS (tryS (on_session (ce_factory env)) (\<lambda>err.
              bindS (event LetGo) (\<lambda>_. bindS (on_session (ce_drop env)) (\<lambda>_. raiseS err)))) (\<lambda>_.
     finallyS
       (bindS (finallyS (on_session (ce_connect env)) (trace_link_keys env args)) (\<lambda>_.
        bindS (note_session env) (\<lambda>_. body)))
       (let_go env))))))"

text \<open>\<^verbatim>\<open>_send\<close>\<close>

definition send_command :: "'s cli_env \<Rightarrow> command_payload \<Rightarrow> ('s, response) cli" where
  "send_command env c =
     (if cp_id c \<in> set NEVER_SENT_COMMANDS then refuse (NeverSent (cp_id c)) EXIT_REFUSED
      else if cp_id c \<in> set ENROLLMENT_ONLY_COMMANDS then refuse (SentOnlyByEnroll (cp_id c)) EXIT_REFUSED
      else bindS (event (Command c)) (\<lambda>_. on_session (\<lambda>s. ch_send (ce_channel env) s c)))"

section \<open>Credentials\<close>

record login =
  lg_credential :: owner_credential
  lg_kind :: string
  lg_stored :: "stored_lock option"

definition resolve_login :: "'s cli_env \<Rightarrow> cli_args \<Rightarrow> string \<Rightarrow> ('s, login) cli" where
  "resolve_login env args address =
     (if ca_factory args
      then returnS \<lparr>lg_credential = DEFAULT_OWNER_CREDENTIAL, lg_kind = ''factory'', lg_stored = None\<rparr>
      else bindS (case ca_state args of
                    Some path \<Rightarrow> store_load env path
                  | None \<Rightarrow> bindS (store_by_address env address) (\<lambda>found.
                      case found of
                        [] \<Rightarrow> refuse (NothingStored address) EXIT_REFUSED
                      | [stored] \<Rightarrow> returnS stored
                      | _ \<Rightarrow> refuse (SeveralStored address (map sl_path found)) EXIT_FAILED)) (\<lambda>stored.
           bindS (raises (enrollment_credential (sl_enrollment stored))) (\<lambda>cred.
           returnS \<lparr>lg_credential = cred, lg_kind = ''stored'', lg_stored = Some stored\<rparr>)))"

definition log_in :: "'s cli_env \<Rightarrow> string \<Rightarrow> login \<Rightarrow> ('s, unit) cli" where
  "log_in env address login =
     bindS (add_note ''login'' [(''credential'', TText (lg_kind login))]) (\<lambda>_.
     handleS (on_library env address (authenticate_owner (ce_lib env) (ce_channel env) (lg_credential login)))
       (\<lambda>err.
          case err of
            BleOperationError c status i \<Rightarrow>
              bindS (record_login_failures env address (lg_kind login) None err) (\<lambda>_.
              bindS (add_note ''login_refused'' [(''status'', TStatus (known status_of status))]) (\<lambda>_.
              refuse (LoginRefused err) EXIT_FAILED))
          | _ \<Rightarrow>
              if is_ble_error err
              then bindS (record_login_failures env address (lg_kind login) None err) (\<lambda>_.
                   bindS (add_note ''login_failed'' [(''kind'', TErrorType err)]) (\<lambda>_.
                   raiseS (Failure err)))
              else raiseS (Failure err))
       (\<lambda>_. bindS (add_note ''logged_in'' []) (\<lambda>_.
          case lg_stored login of
            None \<Rightarrow> returnS ()
          | Some stored \<Rightarrow> store_set_address env stored address)))"

definition available :: "'s cli_env \<Rightarrow> command_payload \<Rightarrow> ('s, device_feature) cli" where
  "available env c = on_session (\<lambda>s. (s, ce_available env s c))"

definition check_available :: "'s cli_env \<Rightarrow> command_payload \<Rightarrow> ('s, unit) cli" where
  "check_available env c =
     bindS (available env c) (\<lambda>feature.
     if \<not> feature_available feature then refuse (NotOffered (cp_id c) feature) EXIT_REFUSED else returnS ())"

section \<open>Commands\<close>

definition operation_failure :: "cli_error \<Rightarrow> bool" where
  "operation_failure err = (case err of Failure e \<Rightarrow> is_operation_error e | CliError r c \<Rightarrow> False)"

definition timeout_failure :: "cli_error \<Rightarrow> bool" where
  "timeout_failure err = (case err of Failure (BleTimeoutError m) \<Rightarrow> True | _ \<Rightarrow> False)"

definition cmd_handshake :: "'s cli_env \<Rightarrow> cli_args \<Rightarrow> ('s, int) cli" where
  "cmd_handshake env args = with_session env args (ca_address args) (returnS EXIT_OK)"

definition cmd_login :: "'s cli_env \<Rightarrow> cli_args \<Rightarrow> ('s, int) cli" where
  "cmd_login env args =
     bindS (resolve_login env args (ca_address args)) (\<lambda>login.
     bindS (check_login_budget env args (ca_address args)) (\<lambda>_.
     with_session env args (ca_address args)
       (bindS (log_in env (ca_address args) login) (\<lambda>_. returnS EXIT_OK))))"

text \<open>
  A command of \<^verbatim>\<open>READS\<close>: its payload, and what reading its answer does: parsing may raise, and
  so may showing what was parsed, after the \<^verbatim>\<open>try\<close>.
\<close>

type_synonym read_command = "command_payload res \<times> (response \<Rightarrow> unit res res)"

definition shown :: "'a res \<Rightarrow> unit res res" where
  "shown r = bindE r (\<lambda>_. Inr (Inr ()))"

definition READS :: "read_command list" where
  "READS =
     [(device_model_get, \<lambda>r. shown (parse_device_model r)),
      (batt_info_get, \<lambda>r. shown (parse_batt_info r)),
      (device_log_get, \<lambda>r. shown (parse_device_log r)),
      (device_name_get, \<lambda>r. shown (parse_device_name_get r)),
      (current_time_get, \<lambda>r. bindE (parse_current_time r) (\<lambda>t.
          Inr (bindE (current_time_moment t) (\<lambda>_. Inr ()))))]"

text \<open>The loop of \<^verbatim>\<open>cmd_read\<close>; its value is \<^verbatim>\<open>failed\<close>.\<close>

fun read_each :: "'s cli_env \<Rightarrow> read_command list \<Rightarrow> bool \<Rightarrow> ('s, bool) cli" where
  "read_each env [] failed = returnS failed"
| "read_each env ((payload, parse) # rest) failed =
     bindS (raises payload) (\<lambda>c.
     bindS (available env c) (\<lambda>feature.
     if \<not> feature_available feature then read_each env rest failed
     else handleS (bindS (send_command env c) (\<lambda>r. raises (parse r)))
            (\<lambda>err. if operation_failure err then read_each env rest True
                   else if timeout_failure err then returnS True
                   else raiseS err)
            (\<lambda>result. bindS (raises result) (\<lambda>_. read_each env rest failed))))"

definition cmd_read :: "'s cli_env \<Rightarrow> cli_args \<Rightarrow> ('s, int) cli" where
  "cmd_read env args =
     bindS (resolve_login env args (ca_address args)) (\<lambda>login.
     bindS (check_login_budget env args (ca_address args)) (\<lambda>_.
     bindS (with_session env args (ca_address args)
       (bindS (log_in env (ca_address args) login) (\<lambda>_. read_each env READS False))) (\<lambda>failed.
     returnS (if failed then EXIT_FAILED else EXIT_OK))))"

subsection \<open>Writes\<close>

record write_command =
  wr_payload :: command_payload
  wr_parse :: "(response \<Rightarrow> unit res) option"

definition confirm :: "cli_args \<Rightarrow> bool" where
  "confirm args = ca_yes args"

definition send_write :: "'s cli_env \<Rightarrow> write_command \<Rightarrow> ('s, int) cli" where
  "send_write env wr =
     handleS (send_command env (wr_payload wr))
       (\<lambda>err. if operation_failure err then returnS EXIT_FAILED else raiseS err)
       (\<lambda>r. bindS (case wr_parse wr of None \<Rightarrow> returnS () | Some parse \<Rightarrow> raises (parse r)) (\<lambda>_.
          returnS EXIT_OK))"

definition run_write :: "'s cli_env \<Rightarrow> cli_args \<Rightarrow> write_command \<Rightarrow> ('s, int) cli" where
  "run_write env args wr =
     bindS (resolve_login env args (ca_address args)) (\<lambda>login.
     if \<not> confirm args then returnS EXIT_REFUSED
     else bindS (check_login_budget env args (ca_address args)) (\<lambda>_.
          with_session env args (ca_address args)
            (bindS (check_available env (wr_payload wr)) (\<lambda>_.
             bindS (log_in env (ca_address args) login) (\<lambda>_.
             send_write env wr)))))"

definition validated :: "'a res \<Rightarrow> ('s, 'a) cli" where
  "validated r =
     (case r of
        Inr x \<Rightarrow> returnS x
      | Inl err \<Rightarrow> if is_ble_error err then refuse (BadArgument err) EXIT_REFUSED else raiseS (Failure err))"

definition require_slot_acknowledgement :: "cli_args \<Rightarrow> ('s, unit) cli" where
  "require_slot_acknowledgement args =
     (if ca_slot_unverified args then returnS ()
      else refuse (UnverifiedSlot (ca_command args) (ca_slot args)) EXIT_REFUSED)"

definition plain_write :: "command_payload \<Rightarrow> write_command" where
  "plain_write c = \<lparr>wr_payload = c, wr_parse = None\<rparr>"

definition cmd_operate :: "'s cli_env \<Rightarrow> cli_args \<Rightarrow> ('s, int) cli" where
  "cmd_operate env args =
     bindS (validated (ekey_operate
       (ekey_op_value (if ca_operation args = ''lock'' then EKEY_OP_LOCK else EKEY_OP_UNLOCK)))) (\<lambda>c.
     run_write env args (plain_write c))"

definition read_pin :: "'s cli_env \<Rightarrow> cli_args \<Rightarrow> ('s, string) cli" where
  "read_pin env args =
     (if ca_pin_stdin args then returnS (str_strip (ce_stdin_line env))
      else let (first, again) = ce_getpass env in
           if first \<noteq> again then refuse PinsDiffer EXIT_REFUSED else returnS first)"

definition cmd_pin :: "'s cli_env \<Rightarrow> cli_args \<Rightarrow> ('s, int) cli" where
  "cmd_pin env args =
     bindS (validated (pin_code_clear (ca_slot args))) (\<lambda>_.
     bindS (if ca_slot args < FIRST_UNCONTESTED_PIN_SLOT then require_slot_acknowledgement args
            else returnS ()) (\<lambda>_.
     if ca_action args = ''clear''
     then bindS (validated (pin_code_clear (ca_slot args))) (\<lambda>c. run_write env args (plain_write c))
     else if \<not> ca_yes args
     then bindS (resolve_login env args (ca_address args)) (\<lambda>_. returnS EXIT_REFUSED)
     else bindS (read_pin env args) (\<lambda>pin.
          bindS (validated (pin_code_set (ca_slot args) pin False)) (\<lambda>c.
          run_write env args (plain_write c)))))"

text \<open>\<^verbatim>\<open>cmd_rfid\<close> and \<^verbatim>\<open>cmd_fingerprint\<close> with their builders and parser.\<close>

definition clear_or_scan ::
  "'s cli_env \<Rightarrow> cli_args \<Rightarrow> (int \<Rightarrow> command_payload res) \<Rightarrow> (int \<Rightarrow> command_payload res)
     \<Rightarrow> (response \<Rightarrow> scan_result res) \<Rightarrow> ('s, int) cli" where
  "clear_or_scan env args clear scan parse =
     (if ca_action args = ''clear''
      then bindS (validated (clear (ca_slot args))) (\<lambda>c.
           bindS (require_slot_acknowledgement args) (\<lambda>_.
           run_write env args (plain_write c)))
      else bindS (validated (scan (ca_slot args))) (\<lambda>c.
           run_write env args
             \<lparr>wr_payload = c, wr_parse = Some (\<lambda>r. bindE (parse r) (\<lambda>_. Inr ()))\<rparr>))"

definition cmd_rfid :: "'s cli_env \<Rightarrow> cli_args \<Rightarrow> ('s, int) cli" where
  "cmd_rfid env args = clear_or_scan env args rfid_code_clear scan_rfid_code parse_scan_rfid_code"

definition cmd_fingerprint :: "'s cli_env \<Rightarrow> cli_args \<Rightarrow> ('s, int) cli" where
  "cmd_fingerprint env args =
     clear_or_scan env args fingerprint_clear fingerprint_scan parse_fingerprint_scan"

subsection \<open>Listening\<close>

definition lock_data :: "seen \<Rightarrow> bytes option" where
  "lock_data s = map_of (sv_service_data s) ADVERTISING_UUID"

definition trace_advertisement :: "seen \<Rightarrow> ('s, unit) cli" where
  "trace_advertisement s =
     add_note ''advertisement''
       [(''address'', TText (sv_address s)),
        (''name'', case sv_name s of None \<Rightarrow> TNone | Some n \<Rightarrow> TText n),
        (''rssi'', case sv_rssi s of None \<Rightarrow> TNone | Some n \<Rightarrow> TInt n),
        (''service_data'', TData (sv_service_data s))]"

text \<open>\<^verbatim>\<open>radio.scan\<close>: the advertisements it calls back with, in order, then perhaps an exception.\<close>

fun each_seen :: "(seen \<Rightarrow> ('s, unit) cli) \<Rightarrow> seen list \<Rightarrow> ('s, unit) cli" where
  "each_seen on_seen [] = returnS ()"
| "each_seen on_seen (s # rest) = bindS (on_seen s) (\<lambda>_. each_seen on_seen rest)"

definition listen :: "'s cli_env \<Rightarrow> (seen \<Rightarrow> bool) \<Rightarrow> int \<Rightarrow> ('s, seen list) cli" where
  "listen env wanted seconds = (\<lambda>w.
     let (s, heard, err) = ce_scan env seconds (cw_link w); heard = filter wanted heard in
     bindS (event Listened) (\<lambda>_.
     bindS (each_seen trace_advertisement heard) (\<lambda>_.
     case err of Some e \<Rightarrow> raiseS e | None \<Rightarrow> returnS heard)) (w\<lparr>cw_link := s\<rparr>))"

text \<open>\<^verbatim>\<open>set_address\<close> on every stored lock an advertisement matches.\<close>

fun set_addresses ::
  "'s cli_env \<Rightarrow> string \<Rightarrow> (stored_lock \<times> bool) list \<Rightarrow> ('s, stored_lock list) cli" where
  "set_addresses env address [] = returnS []"
| "set_addresses env address ((l, match) # rest) =
     bindS (if match then store_set_address env l address else returnS ()) (\<lambda>_.
     bindS (set_addresses env address rest) (\<lambda>ls.
     returnS ((if match then l\<lparr>sl_address := Some address\<rparr> else l) # ls)))"

definition describe_advertisement ::
  "'s cli_env \<Rightarrow> seen \<Rightarrow> stored_lock list \<Rightarrow> ('s, stored_lock list) cli" where
  "describe_advertisement env s stored =
     (case parse_advertisement (case lock_data s of None \<Rightarrow> [] | Some d \<Rightarrow> d) of
        Inl err \<Rightarrow> if is_ble_error err then returnS stored else raiseS (Failure err)
      | Inr ad \<Rightarrow>
          bindS (raises (mapE (\<lambda>l. ad_matches (ce_sha1 env) ad (en_device_id (sl_enrollment l))) stored)) (\<lambda>ms.
          set_addresses env (sv_address s) (zip stored ms)))"

fun describe_each :: "'s cli_env \<Rightarrow> seen list \<Rightarrow> stored_lock list \<Rightarrow> ('s, unit) cli" where
  "describe_each env [] stored = returnS ()"
| "describe_each env (s # rest) stored =
     bindS (describe_advertisement env s stored) (\<lambda>stored. describe_each env rest stored)"

text \<open>
  The loop of \<^verbatim>\<open>_watch\<close>, which ends when the clock says so: None is a watch that never does.
  Its value is \<^verbatim>\<open>heard_any\<close>; the addresses not heard in a window are only printed.
\<close>

partial_function (option) watch_loop ::
  "'s cli_env \<Rightarrow> int \<Rightarrow> int \<Rightarrow> int \<Rightarrow> bool \<Rightarrow> 's cli_world \<Rightarrow> ('s cli_world \<times> (cli_error + bool)) option" where
  "watch_loop env start seconds window heard_any w =
     (let elapsed = ce_monotonic env (cw_link w) - start in
      if elapsed < seconds
      then case listen env (\<lambda>s. lock_data s \<noteq> None) (min window (seconds - elapsed)) w of
             (w', Inl e) \<Rightarrow> Some (w', Inl e)
           | (w', Inr heard) \<Rightarrow> watch_loop env start seconds window (heard_any \<or> heard \<noteq> []) w'
      else Some (w, Inr heard_any))"

declare watch_loop.simps [code]

text \<open>A watch that never ends gives no exit code.\<close>

definition watch :: "'s cli_env \<Rightarrow> cli_args \<Rightarrow> int \<Rightarrow> 's cli_world \<Rightarrow> ('s cli_world \<times> (cli_error + int)) option" where
  "watch env args seconds w =
     map_option (\<lambda>(w', r). (w', bindE r (\<lambda>heard_any. Inr (if heard_any then EXIT_OK else EXIT_FAILED))))
       (watch_loop env (ce_monotonic env (cw_link w)) seconds (ca_window args) False w)"

text \<open>\<^verbatim>\<open>cmd_scan\<close> without \<^verbatim>\<open>--watch\<close>; \<^verbatim>\<open>latest\<close> has the last advertisement of each address.\<close>

definition cmd_scan_once :: "'s cli_env \<Rightarrow> cli_args \<Rightarrow> stored_lock list \<Rightarrow> ('s, int) cli" where
  "cmd_scan_once env args stored =
     bindS (listen env (\<lambda>s. lock_data s \<noteq> None) (ca_seconds args)) (\<lambda>heard.
     let latest = fold (\<lambda>s m. AList.update (sv_address s) s m) heard [] in
     if latest = [] then returnS EXIT_FAILED
     else bindS (describe_each env (map snd latest) stored) (\<lambda>_. returnS EXIT_OK))"

text \<open>A watch prints the stored locks it hears; of them it keeps nothing.\<close>

type_synonym 's command_run = "'s cli_world \<Rightarrow> ('s cli_world \<times> (cli_error + int)) option"

definition cmd_scan :: "'s cli_env \<Rightarrow> cli_args \<Rightarrow> 's command_run" where
  "cmd_scan env args w =
     (case all_stored (ce_lib env) (cw_files w) of
        Inl err \<Rightarrow> Some (w, Inl err)
      | Inr stored \<Rightarrow>
          (case ca_watch args of
             Some seconds \<Rightarrow> watch env args seconds w
           | None \<Rightarrow> Some (cmd_scan_once env args stored w)))"

subsection \<open>Inspection\<close>

definition DEVICE_INFORMATION :: "string list" where
  "DEVICE_INFORMATION =
     [''00002a29-0000-1000-8000-00805f9b34fb'', ''00002a24-0000-1000-8000-00805f9b34fb'',
      ''00002a25-0000-1000-8000-00805f9b34fb'', ''00002a27-0000-1000-8000-00805f9b34fb'',
      ''00002a26-0000-1000-8000-00805f9b34fb'', ''00002a28-0000-1000-8000-00805f9b34fb'']"

fun note_services :: "gatt_services \<Rightarrow> ('s, unit) cli" where
  "note_services [] = returnS ()"
| "note_services ((uuid, characteristics) # rest) =
     bindS (add_note ''service'' [(''uuid'', TText uuid), 
       (''characteristics'', TCharacteristics (map (\<lambda>(c, properties). (c, sort properties)) characteristics))]) (\<lambda>_.
     note_services rest)"

definition readable :: "gatt_services \<Rightarrow> string list" where
  "readable services =
     map fst (filter (\<lambda>(uuid, properties). str_lower uuid \<in> set DEVICE_INFORMATION \<and> ''read'' \<in> set properties)
       (concat (map snd services)))"

fun read_characteristics :: "'s cli_env \<Rightarrow> string list \<Rightarrow> ('s, unit) cli" where
  "read_characteristics env [] = returnS ()"
| "read_characteristics env (uuid # rest) =
     bindS (on_link (\<lambda>s. let (s', r) = ce_read_gatt env uuid s in (s', Inr r))) (\<lambda>r.
     bindS (case r of
              Inl name \<Rightarrow> add_note ''read_failed'' [(''uuid'', TText uuid), (''error'', TText name)]
            | Inr value \<Rightarrow> add_note ''read'' [(''uuid'', TText uuid), (''hex'', THex value)]) (\<lambda>_.
     read_characteristics env rest))"

definition cmd_info :: "'s cli_env \<Rightarrow> cli_args \<Rightarrow> ('s, int) cli" where
  "cmd_info env args =
     bindS (on_link (ce_inspect env (ca_address args))) (\<lambda>services.
     bindS (event (Opened (ca_address args))) (\<lambda>_.
     finallyS
       (bindS (ask (\<lambda>w. Inr (ce_mtu env (cw_link w)))) (\<lambda>mtu.
        bindS (add_note ''connected'' [(''address'', TText (ca_address args)),
                 (''mtu'', case mtu of None \<Rightarrow> TNone | Some m \<Rightarrow> TInt m)]) (\<lambda>_.
        bindS (note_services services) (\<lambda>_.
        bindS (read_characteristics env (readable services)) (\<lambda>_. returnS EXIT_OK)))))
       (bindS (event LetGo) (\<lambda>_.
        bindS (on_session (ce_disconnect env)) (\<lambda>_. add_note ''closed'' [])))))"

section \<open>Enrollment\<close>

definition find_advertisement :: "'s cli_env \<Rightarrow> string \<Rightarrow> int \<Rightarrow> ('s, advertisement option) cli" where
  "find_advertisement env address seconds =
     bindS (listen env (\<lambda>s. lock_data s \<noteq> None \<and> same_lock_address (sv_address s) address) seconds) (\<lambda>heard.
     let found = List.map_filter (\<lambda>s. case parse_advertisement (the (lock_data s)) of
                                     Inr ad \<Rightarrow> Some ad | Inl err \<Rightarrow> None) heard in
     returnS (if found = [] then None else Some (last found)))"

definition stopped_note :: "enrollment_step \<Rightarrow> bool \<Rightarrow> ('s, unit) cli" where
  "stopped_note step saved =
     add_note ''enroll'' [(''step'', TText ''stopped''), (''at'', TText (step_value step)), (''saved'', TFlag saved)]"

text \<open>
  \<^verbatim>\<open>_enrollment_stopped\<close> and \<^verbatim>\<open>_enrollment_not_saved\<close>: one more try to save, whose OSError only
  the second one catches.
\<close>

definition enrollment_not_saved :: "'s cli_env \<Rightarrow> string \<Rightarrow> enrollment_step \<Rightarrow> enrollment \<Rightarrow> ('s, int) cli" where
  "enrollment_not_saved env address step e =
     handleS (store_save env e (Some address))
       (\<lambda>_. bindS (stopped_note step False) (\<lambda>_. returnS EXIT_FAILED))
       (\<lambda>_. bindS (stopped_note step True) (\<lambda>_. returnS EXIT_FAILED))"

definition enrollment_stopped :: "'s cli_env \<Rightarrow> string \<Rightarrow> enrollment_step \<Rightarrow> enrollment option \<Rightarrow> ('s, int) cli" where
  "enrollment_stopped env address step partial =
     (case partial of
        Some e \<Rightarrow> bindS (store_save env e (Some address)) (\<lambda>_.
                  bindS (stopped_note step True) (\<lambda>_. returnS EXIT_FAILED))
      | None \<Rightarrow> bindS (stopped_note step False) (\<lambda>_. returnS EXIT_FAILED))"

text \<open>
  \<^verbatim>\<open>EnrollmentSaver.last\<close>, read off the trace of the run, and what is noted when the task is
  cancelled.
\<close>

definition saver_last :: "enrollment option \<Rightarrow> cli_event list \<Rightarrow> enrollment option" where
  "saver_last stored tr =
     fold (\<lambda>ev l. case ev of Wrote e a True \<Rightarrow> Some e | _ \<Rightarrow> l) tr stored"

definition interrupted_note :: "enrollment option \<Rightarrow> ('s, unit) cli" where
  "interrupted_note saved =
     (case saved of
        None \<Rightarrow> add_note ''enroll'' [(''step'', TText ''interrupted''), (''saved'', TFlag False)]
      | Some e \<Rightarrow> add_note ''enroll'' [(''step'', TText ''interrupted''), (''saved'', TFlag True),
                    (''completed'', TTexts (done_steps e))])"

text \<open>
  The four \<^verbatim>\<open>except\<close> clauses around the library's enrollment. A cancellation is the exception
  \<^verbatim>\<open>CancelledError\<close>; \<open>earlier\<close> is the context of a refused login.
\<close>

definition CANCELLED :: ble_error where "CANCELLED = PyException ''CancelledError''"

definition enrollment_failed ::
  "'s cli_env \<Rightarrow> string \<Rightarrow> string \<Rightarrow> ble_error option \<Rightarrow> (ble_error \<Rightarrow> cli_reason) \<Rightarrow> enrollment option
     \<Rightarrow> enroll_error \<Rightarrow> ('s, int) cli" where
  "enrollment_failed env address kind earlier reason stored err =
     (case err of
        EnrollmentNotSaved step e \<Rightarrow> enrollment_not_saved env address step e
      | EnrollmentStopped step partial cause \<Rightarrow> enrollment_stopped env address step partial
      | Raised e \<Rightarrow>
          if is_operation_error e
          then bindS (record_login_failures env address kind earlier e) (\<lambda>_. refuse (reason e) EXIT_FAILED)
          else if e = CANCELLED
          then (\<lambda>w. bindS (interrupted_note (saver_last stored (cw_trace w))) (\<lambda>_. raiseS (Failure e)) w)
          else raiseS (Failure e))"

definition enroll_library :: "'s cli_env \<Rightarrow> cli_args \<Rightarrow> string \<Rightarrow> ('s, int) cli" where
  "enroll_library env args name = (\<lambda>w.
     handleS
       (on_library env (ca_address args)
         (enroll (ce_lib env) (ce_channel env) name (\<lambda>e. ce_disk env (cw_trace w) (StateFile e))
           (ce_device_id env) (ce_server_key env) (Aware (now_at env w)) (ce_update_key env)))
       (enrollment_failed env (ca_address args) ''factory'' None FactoryRefused None)
       (\<lambda>_. returnS EXIT_OK) w)"

definition enroll_session :: "'s cli_env \<Rightarrow> cli_args \<Rightarrow> string \<Rightarrow> ('s, int) cli" where
  "enroll_session env args name =
     with_session env args (ca_address args)
       (bindS (add_note ''enroll'' [(''step'', TText ''start'')]) (\<lambda>_. enroll_library env args name))"

text \<open>\<open>enroll_session\<close> ends in 0 exactly when the library's enrollment returned.\<close>

definition enrolled_note :: "int \<Rightarrow> ('s, int) cli" where
  "enrolled_note code =
     (if code = EXIT_OK
      then bindS (add_note ''enroll'' [(''step'', TText ''done'')]) (\<lambda>_. returnS EXIT_OK)
      else returnS code)"

text \<open>
  The error of a resumed login carries the first refusal as its context when there was one:
  the lock refused the factory device id and the enrolled one was tried.
\<close>

definition refused_first :: "'s cli_env \<Rightarrow> enrollment \<Rightarrow> 's \<Rightarrow> ble_error option" where
  "refused_first env e s =
     (case enrollment_credential e of
        Inl err \<Rightarrow> None
      | Inr cred \<Rightarrow>
          (case snd (authenticate_owner (ce_lib env) (ce_channel env) cred \<lparr>ew_channel = s, ew_trace = []\<rparr>) of
             Inl err \<Rightarrow> if is_security_error err \<and> DEVICE_ID \<notin> en_completed e then Some err else None
           | Inr _ \<Rightarrow> None))"

definition resume_library :: "'s cli_env \<Rightarrow> cli_args \<Rightarrow> enrollment \<Rightarrow> ('s, int) cli" where
  "resume_library env args e = (\<lambda>w.
     handleS
       (on_library env (ca_address args)
         (resume_enrollment (ce_lib env) (ce_channel env) e
           (\<lambda>e. ce_disk env (cw_trace w) (StateFile e)) (Aware (now_at env w))))
       (enrollment_failed env (ca_address args) ''stored'' (refused_first env e (cw_link w))
         StoredKeyRefused (Some e))
       (\<lambda>_. returnS EXIT_OK) w)"

definition resume_session :: "'s cli_env \<Rightarrow> cli_args \<Rightarrow> stored_lock \<Rightarrow> ('s, int) cli" where
  "resume_session env args stored =
     (let e = sl_enrollment stored in
      with_session env args (ca_address args)
       (bindS (add_note ''enroll'' [(''step'', TText ''resume''),
                 (''remaining'', TTexts (map step_value (enrollment_remaining e)))]) (\<lambda>_.
        resume_library env args e)))"

definition resume_target :: "'s cli_env \<Rightarrow> cli_args \<Rightarrow> ('s, stored_lock) cli" where
  "resume_target env args =
     (case ca_state args of
        Some path \<Rightarrow> store_load env path
      | None \<Rightarrow> bindS (store_by_address env (ca_address args)) (\<lambda>found.
          case found of
            [] \<Rightarrow> refuse (NothingStored (ca_address args)) EXIT_REFUSED
          | [stored] \<Rightarrow> returnS stored
          | _ \<Rightarrow> refuse (SeveralStored (ca_address args) (map sl_path found)) EXIT_REFUSED))"

definition cmd_resume :: "'s cli_env \<Rightarrow> cli_args \<Rightarrow> ('s, int) cli" where
  "cmd_resume env args =
     bindS (resume_target env args) (\<lambda>stored.
     if enrollment_complete (sl_enrollment stored) then returnS EXIT_OK
     else if \<not> confirm args then returnS EXIT_REFUSED
     else bindS (store_writable env) (\<lambda>_.
          bindS (check_login_budget env args (ca_address args)) (\<lambda>_.
          bindS (resume_session env args stored) enrolled_note)))"

definition cmd_enroll :: "'s cli_env \<Rightarrow> cli_args \<Rightarrow> ('s, int) cli" where
  "cmd_enroll env args =
     (if ca_resume args then cmd_resume env args
      else case ca_name args of
        None \<Rightarrow> refuse NameMissing EXIT_REFUSED
      | Some name \<Rightarrow>
          bindS (validated (device_name_set name)) (\<lambda>_.
          bindS (store_by_address env (ca_address args)) (\<lambda>existing.
          if existing \<noteq> [] then refuse (AlreadyStored (sl_path (hd existing)) (ca_address args)) EXIT_REFUSED
          else if \<not> confirm args then returnS EXIT_REFUSED
          else bindS (store_writable env) (\<lambda>_.
               bindS (find_advertisement env (ca_address args) (ca_seconds args)) (\<lambda>found.
               case found of
                 None \<Rightarrow> refuse (NotHeard (ca_address args)) EXIT_REFUSED
               | Some ad \<Rightarrow>
                   if enrolled ad then refuse (OwnedAlready (ca_address args) (ad_seed ad)) EXIT_REFUSED
                   else bindS (check_login_budget env args (ca_address args)) (\<lambda>_.
                        bindS (enroll_session env args name) enrolled_note))))))"

section \<open>main\<close>

text \<open>\<^verbatim>\<open>COMMANDS\<close>, whose keys are the only commands argparse lets through.\<close>

definition COMMANDS :: "'s cli_env \<Rightarrow> cli_args \<Rightarrow> (string \<times> 's command_run) list" where
  "COMMANDS env args =
     [(''scan'', cmd_scan env args), (''info'', \<lambda>w. Some (cmd_info env args w)),
      (''handshake'', \<lambda>w. Some (cmd_handshake env args w)), (''login'', \<lambda>w. Some (cmd_login env args w)),
      (''read'', \<lambda>w. Some (cmd_read env args w)), (''operate'', \<lambda>w. Some (cmd_operate env args w)),
      (''pin'', \<lambda>w. Some (cmd_pin env args w)), (''rfid'', \<lambda>w. Some (cmd_rfid env args w)),
      (''fingerprint'', \<lambda>w. Some (cmd_fingerprint env args w)), (''enroll'', \<lambda>w. Some (cmd_enroll env args w))]"

definition run_command :: "'s cli_env \<Rightarrow> cli_args \<Rightarrow> 's command_run" where
  "run_command env args w =
     (case map_of (COMMANDS env args) (ca_command args) of
        Some m \<Rightarrow> m w
      | None \<Rightarrow> Some (w, Inl (Failure (PyException ''KeyError''))))"

text \<open>
  The \<^verbatim>\<open>try\<close> of \<^verbatim>\<open>main\<close> without \<^verbatim>\<open>--debug\<close>: the exit code. Ctrl-C cancels the task, and 130
  says so.
\<close>

definition exit_code_of :: "cli_error + int \<Rightarrow> int" where
  "exit_code_of r =
     (case r of
        Inr code \<Rightarrow> code
      | Inl (CliError reason code) \<Rightarrow> code
      | Inl (Failure e) \<Rightarrow> if e = CANCELLED then 130 else EXIT_FAILED)"

definition main_code :: "'s cli_env \<Rightarrow> cli_args \<Rightarrow> 's cli_world \<Rightarrow> ('s cli_world \<times> int) option" where
  "main_code env args w = map_option (\<lambda>(w', r). (w', exit_code_of r)) (run_command env args w)"

text \<open>
  The frame log around a command: \<^verbatim>\<open>open_trace\<close> with its first line, and the lines \<^verbatim>\<open>main\<close> ends it
  with. Whether the directory and the file open is \<open>ta_opens\<close>; the versions of Python and of the
  platform, and the text of a \<^verbatim>\<open>CliError\<close>, are left out of the lines.
\<close>

definition TRACE_FORMAT :: int where "TRACE_FORMAT = 1"

record trace_args =
  ta_no_trace :: bool
  ta_opens :: bool

definition open_trace :: "cli_args \<Rightarrow> trace_args \<Rightarrow> 's cli_world \<Rightarrow> 's cli_world option" where
  "open_trace args ta w =
     (if ta_no_trace ta then Some w
      else if \<not> ta_opens ta then None
      else Some (happens (Noted \<lparr>tl_event = ''start'', tl_fields =
             [(''format'', TInt TRACE_FORMAT), (''command'', TText (ca_command args)),
              (''address'', if ca_command args = ''scan'' then TNone else TText (ca_address args)),
              (''secrets'', TFlag (ca_trace_secrets args))]\<rparr>) w))"

definition error_fields :: "cli_error \<Rightarrow> trace_fields" where
  "error_fields err =
     (case err of
        CliError reason code \<Rightarrow> [(''kind'', TText ''cli'')]
      | Failure e \<Rightarrow>
          if is_ble_error e then [(''kind'', TErrorType e), (''message'', TError e)]
          else if e = CANCELLED then [(''kind'', TText ''interrupted'')]
          else [(''kind'', TErrorType e)])"

definition close_trace :: "cli_error + int \<Rightarrow> 's cli_world \<Rightarrow> 's cli_world" where
  "close_trace r w =
     happens (Noted \<lparr>tl_event = ''end'', tl_fields = []\<rparr>)
       (case r of
          Inl err \<Rightarrow> happens (Noted \<lparr>tl_event = ''error'', tl_fields = error_fields err\<rparr>) w
        | Inr code \<Rightarrow> w)"

definition main_run :: "'s cli_env \<Rightarrow> trace_args \<Rightarrow> cli_args \<Rightarrow> 's cli_world \<Rightarrow> ('s cli_world \<times> int) option" where
  "main_run env ta args w =
     (case open_trace args ta w of
        None \<Rightarrow> Some (w, EXIT_FAILED)
      | Some w \<Rightarrow> map_option (\<lambda>(w', r). (close_trace r w', exit_code_of r)) (run_command env args w))"

text \<open>All of it is the command, with lines before and after it.\<close>

lemma main_run_code:
  assumes "main_run env ta args w = Some (w', code)"
  shows "w' = w \<and> code = EXIT_FAILED
    \<or> (\<exists>v v' before after. main_code env args v = Some (v', code)
         \<and> v = w\<lparr>cw_trace := cw_trace w @ map Noted before\<rparr> \<and> w' = v'\<lparr>cw_trace := cw_trace v' @ map Noted after\<rparr>)"
proof (cases "open_trace args ta w")
  case None
  then show ?thesis using assms by (simp add: main_run_def)
next
  case (Some v)
  then obtain v' r where r: "run_command env args v = Some (v', r)" "w' = close_trace r v'" "code = exit_code_of r"
    using assms by (auto simp: main_run_def)
  then have "main_code env args v = Some (v', code)" by (simp add: main_code_def)
  moreover have "\<exists>before. v = w\<lparr>cw_trace := cw_trace w @ map Noted before\<rparr>"
  proof (cases "ta_no_trace ta")
    case True
    then show ?thesis using Some by (intro exI [of _ "[]"]) (simp add: open_trace_def)
  next
    case False
    then obtain l where "v = happens (Noted l) w" using Some by (auto simp: open_trace_def split: if_splits)
    then show ?thesis by (intro exI [of _ "[l]"]) (simp add: happens_def)
  qed
  moreover have "\<exists>after. w' = v'\<lparr>cw_trace := cw_trace v' @ map Noted after\<rparr>"
  proof (cases r)
    case (Inl err)
    then show ?thesis
      unfolding r(2) by (intro exI [of _ "[_, _]"]) (simp add: close_trace_def happens_def)
  next
    case (Inr c)
    then show ?thesis
      unfolding r(2) by (intro exI [of _ "[_]"]) (simp add: close_trace_def happens_def)
  qed
  ultimately show ?thesis by blast
qed

end
