(* ===== verification/Ble_Cli_Steps.thy ===== *)
theory Ble_Cli_Steps
  imports Ble_Cli Enrollment_Props
begin

text \<open>
  What a command of the command line does to the lock is a word over the link
  events of its trace: a session opened, the commands handed to it, the session let go. The
  rules of \<open>does\<close> give the words of a composed step from those of its parts.
\<close>

section \<open>Link words\<close>

fun on_the_link :: "cli_event \<Rightarrow> bool" where
  "on_the_link (Opened a) = True"
| "on_the_link LetGo = True"
| "on_the_link (Command c) = True"
| "on_the_link _ = False"

definition links :: "cli_event list \<Rightarrow> cli_event list" where
  "links tr = filter on_the_link tr"

lemma links_simps [simp]:
  "links [] = []" "links (xs @ ys) = links xs @ links ys"
  "links (ev # tr) = (if on_the_link ev then ev # links tr else links tr)"
  by (simp_all add: links_def)

definition words :: "cli_event list set \<Rightarrow> ('s cli_world \<Rightarrow> 's cli_world \<times> 'r) \<Rightarrow> bool" where
  "words L m \<longleftrightarrow> (\<forall>w. \<exists>tr. cw_trace (fst (m w)) = cw_trace w @ tr \<and> links tr \<in> L)"

definition does :: "cli_event set \<Rightarrow> ('s cli_world \<Rightarrow> 's cli_world \<times> 'r) \<Rightarrow> bool" where
  "does S m \<longleftrightarrow> words (lists S) m"

lemma wordsD: "words L m \<Longrightarrow> m w = (w', r) \<Longrightarrow> \<exists>tr. cw_trace w' = cw_trace w @ tr \<and> links tr \<in> L"
  unfolding words_def by (metis fst_conv)

lemma words_at: "words L m \<Longrightarrow> \<exists>tr. cw_trace (fst (m w)) = cw_trace w @ tr \<and> links tr \<in> L"
  by (simp add: words_def)

lemma words_mono: "words L m \<Longrightarrow> L \<subseteq> L' \<Longrightarrow> words L' m"
  by (fastforce simp: words_def)

lemma does_mono: "does S m \<Longrightarrow> S \<subseteq> S' \<Longrightarrow> does S' m"
  unfolding does_def by (rule words_mono) auto

lemma words_bind:
  assumes "words L m" "\<And>x. words L' (f x)" "L \<subseteq> L''" "\<And>xs ys. xs \<in> L \<Longrightarrow> ys \<in> L' \<Longrightarrow> xs @ ys \<in> L''"
  shows "words L'' (bindS m f)"
  unfolding words_def
proof
  fix w
  obtain w' r where m: "m w = (w', r)" by fastforce
  obtain tr where tr: "cw_trace w' = cw_trace w @ tr" "links tr \<in> L" using wordsD [OF assms(1) m] by blast
  show "\<exists>tr. cw_trace (fst (bindS m f w)) = cw_trace w @ tr \<and> links tr \<in> L''"
  proof (cases r)
    case (Inl e)
    then show ?thesis using m tr assms(3) by (auto simp: effect_simps)
  next
    case (Inr x)
    obtain w'' r' where f: "f x w' = (w'', r')" by fastforce
    obtain tr' where "cw_trace w'' = cw_trace w' @ tr'" "links tr' \<in> L'"
      using wordsD [OF assms(2) f] by blast
    then show ?thesis using m Inr f tr assms(4) by (auto simp: effect_simps intro!: exI [of _ "tr @ tr'"])
  qed
qed

lemma words_finally:
  assumes "words L m" "words L' f" "\<And>xs ys. xs \<in> L \<Longrightarrow> ys \<in> L' \<Longrightarrow> xs @ ys \<in> L''"
  shows "words L'' (finallyS m f)"
  unfolding words_def
proof
  fix w
  obtain w' r where m: "m w = (w', r)" by fastforce
  obtain w'' r' where f: "f w' = (w'', r')" by fastforce
  obtain tr tr' where "cw_trace w' = cw_trace w @ tr" "links tr \<in> L"
      "cw_trace w'' = cw_trace w' @ tr'" "links tr' \<in> L'"
    using wordsD [OF assms(1) m] wordsD [OF assms(2) f] by blast
  then show "\<exists>tr. cw_trace (fst (finallyS m f w)) = cw_trace w @ tr \<and> links tr \<in> L''"
    using m f assms(3) by (auto simp: finallyS_def split: sum.splits intro!: exI [of _ "tr @ tr'"])
qed

lemma words_handle:
  assumes "words L m" "\<And>e. words L' (h e)" "\<And>x. words L' (k x)"
    "\<And>xs ys. xs \<in> L \<Longrightarrow> ys \<in> L' \<Longrightarrow> xs @ ys \<in> L''"
  shows "words L'' (handleS m h k)"
  unfolding words_def
proof
  fix w
  obtain w' r where m: "m w = (w', r)" by fastforce
  define c where "c = (case r of Inl e \<Rightarrow> h e w' | Inr x \<Rightarrow> k x w')"
  obtain tr where tr: "cw_trace w' = cw_trace w @ tr" "links tr \<in> L" using wordsD [OF assms(1) m] by blast
  obtain tr' where "cw_trace (fst c) = cw_trace w' @ tr'" "links tr' \<in> L'"
    using words_at [OF assms(2)] words_at [OF assms(3)] by (cases r) (fastforce simp: c_def)+
  then show "\<exists>tr. cw_trace (fst (handleS m h k w)) = cw_trace w @ tr \<and> links tr \<in> L''"
    using m tr assms(4) by (auto simp: handleS_def c_def split: sum.splits intro!: exI [of _ "tr @ tr'"])
qed

named_theorems does_intros \<open>the link events of a step from those of its parts\<close>

lemma does_basic [does_intros]:
  "does S (returnS x)" "does S (raiseS e)" "does S (refuse reason code)" "does S (liftE v)"
  "does S (raises v)" "does S (ask g)" "does S (on_link f)" "does S (on_session g')"
  "does S (add_note ev fs)" "does S (validated v)"
  by (auto simp: does_def words_def returnS_def raiseS_def refuse_def liftE_def raises_def ask_def
      on_link_def on_session_def add_note_def event_def happens_def validated_def Let_def
      split: prod.splits sum.splits)

lemma does_event [does_intros]: "\<not> on_the_link ev \<or> ev \<in> S \<Longrightarrow> does S (event ev)"
  by (auto simp: does_def words_def event_def happens_def)

lemma does_bind [does_intros]: "does S m \<Longrightarrow> (\<And>x. does S (f x)) \<Longrightarrow> does S (bindS m f)"
  unfolding does_def by (rule words_bind) auto

lemma does_finally [does_intros]: "does S m \<Longrightarrow> does S f \<Longrightarrow> does S (finallyS m f)"
  unfolding does_def by (rule words_finally) auto

lemma does_handle [does_intros]:
  "does S m \<Longrightarrow> (\<And>e. does S (h e)) \<Longrightarrow> (\<And>x. does S (k x)) \<Longrightarrow> does S (handleS m h k)"
  unfolding does_def by (rule words_handle) auto

lemma does_try [does_intros]: "does S m \<Longrightarrow> (\<And>e. does S (h e)) \<Longrightarrow> does S (tryS m h)"
proof -
  have "tryS m h = handleS m h returnS"
    by (auto simp: tryS_def handleS_def returnS_def fun_eq_iff split: sum.splits prod.splits)
  then show "does S m \<Longrightarrow> (\<And>e. does S (h e)) \<Longrightarrow> does S (tryS m h)"
    by (simp add: does_handle does_basic)
qed

lemma does_world: "(\<And>w. does S (m w)) \<Longrightarrow> does S (\<lambda>w. m w w)"
  by (auto simp: does_def words_def)

lemma does_if [does_intros]: "(b \<Longrightarrow> does S m) \<Longrightarrow> (\<not> b \<Longrightarrow> does S n) \<Longrightarrow> does S (if b then m else n)"
  by simp

lemma does_option [does_intros]:
  "(v = None \<Longrightarrow> does S m) \<Longrightarrow> (\<And>x. v = Some x \<Longrightarrow> does S (f x)) \<Longrightarrow> does S (case v of None \<Rightarrow> m | Some x \<Rightarrow> f x)"
  by (simp split: option.split)

lemma does_sum [does_intros]:
  "(\<And>e. v = Inl e \<Longrightarrow> does S (f e)) \<Longrightarrow> (\<And>x. v = Inr x \<Longrightarrow> does S (g x))
     \<Longrightarrow> does S (case v of Inl e \<Rightarrow> f e | Inr x \<Rightarrow> g x)"
  by (simp split: sum.split)

lemma does_list [does_intros]:
  "does S m \<Longrightarrow> (\<And>x xs. does S (f x xs)) \<Longrightarrow> does S (case v of [] \<Rightarrow> m | x # xs \<Rightarrow> f x xs)"
  by (simp split: list.split)

lemma does_pair [does_intros]: "(\<And>x y. v = (x, y) \<Longrightarrow> does S (f x y)) \<Longrightarrow> does S (case v of (x, y) \<Rightarrow> f x y)"
  by (simp split: prod.split)

section \<open>The library on a session\<close>

text \<open>The commands the library's login and enrollment hand to the session.\<close>

definition sends :: "command_id set \<Rightarrow> ('s enroll_world \<Rightarrow> 's enroll_world \<times> 'r) \<Rightarrow> bool" where
  "sends I m \<longleftrightarrow> (\<forall>w. \<exists>tr. ew_trace (fst (m w)) = ew_trace w @ tr \<and> set (sent_ids tr) \<subseteq> I)"

lemma sendsD: "sends I m \<Longrightarrow> m w = (w', r) \<Longrightarrow> \<exists>tr. ew_trace w' = ew_trace w @ tr \<and> set (sent_ids tr) \<subseteq> I"
  unfolding sends_def by (metis fst_conv)

lemma sendsI:
  "(\<And>w w' r. m w = (w', r) \<Longrightarrow> \<exists>tr. ew_trace w' = ew_trace w @ tr \<and> set (sent_ids tr) \<subseteq> I) \<Longrightarrow> sends I m"
  by (auto simp: sends_def) (metis prod.collapse)

lemma sends_mono: "sends I m \<Longrightarrow> I \<subseteq> J \<Longrightarrow> sends J m"
  by (fastforce simp: sends_def)

lemma sends_basic: "sends I (returnS x)" "sends I (raiseS e)" "sends I (liftE v)"
  by (auto simp: sends_def returnS_def raiseS_def liftE_def)

lemma sends_bind:
  assumes "sends I m" "\<And>x. sends I (f x)"
  shows "sends I (bindS m f)"
proof (rule sendsI)
  fix w w' r assume run: "bindS m f w = (w', r)"
  obtain v q where m: "m w = (v, q)" by fastforce
  obtain tr where tr: "ew_trace v = ew_trace w @ tr" "set (sent_ids tr) \<subseteq> I"
    using sendsD [OF assms(1) m] by blast
  show "\<exists>tr. ew_trace w' = ew_trace w @ tr \<and> set (sent_ids tr) \<subseteq> I"
  proof (cases q)
    case (Inl e)
    then show ?thesis using run m tr by (auto simp: effect_simps)
  next
    case (Inr x)
    then have "f x v = (w', r)" using run m by (simp add: effect_simps)
    then obtain tr' where "ew_trace w' = ew_trace v @ tr'" "set (sent_ids tr') \<subseteq> I"
      using sendsD [OF assms(2)] by blast
    then show ?thesis using tr by (auto intro!: exI [of _ "tr @ tr'"])
  qed
qed

lemma sends_mapErr: "sends I m \<Longrightarrow> sends I (mapErr g m)"
proof (rule sendsI)
  fix w w' r assume "sends I m" "mapErr g m w = (w', r)"
  moreover obtain q where "m w = (w', q)"
    using \<open>mapErr g m w = (w', r)\<close> by (auto simp: mapErr_def split: prod.splits sum.splits)
  ultimately show "\<exists>tr. ew_trace w' = ew_trace w @ tr \<and> set (sent_ids tr) \<subseteq> I" by (blast dest: sendsD)
qed

abbreviation LOGIN_COMMANDS :: "command_id set" where
  "LOGIN_COMMANDS \<equiv> {CMD_USER_AUTH_BEGIN, CMD_USER_AUTH_FINALIZE}"

abbreviation STEP_COMMANDS :: "command_id set" where
  "STEP_COMMANDS \<equiv> {CMD_DEVICE_ID_SET, CMD_CURRENT_TIME_SET, CMD_SERVER_KEY_UPDATE, CMD_DEVICE_NAME_SET}"

lemma sends_login: "sends LOGIN_COMMANDS (authenticate_owner lib ch cred)"
  by (rule sendsI) (blast dest: login_trace)

lemma sends_send: "cp_id c \<in> I \<Longrightarrow> sends I (channel_send ch c)"
  by (rule sendsI) (auto dest!: channel_send_trace)

lemma sends_built:
  assumes "\<And>c. v = Inr c \<Longrightarrow> cp_id c \<in> I" "\<And>x. sends I (f x)"
  shows "sends I (bindS (liftE v) (\<lambda>c. bindS (channel_send ch c) f))"
proof (rule sendsI)
  fix w w' r assume run: "bindS (liftE v) (\<lambda>c. bindS (channel_send ch c) f) w = (w', r)"
  show "\<exists>tr. ew_trace w' = ew_trace w @ tr \<and> set (sent_ids tr) \<subseteq> I"
  proof (cases v)
    case (Inl e)
    then show ?thesis using run by (auto simp: bindS_def liftE_def)
  next
    case (Inr c)
    then have "bindS (channel_send ch c) f w = (w', r)" using run by (simp add: bindS_def liftE_def)
    moreover have "sends I (bindS (channel_send ch c) f)"
      by (rule sends_bind [OF sends_send assms(2)]) (rule assms(1) [OF Inr])
    ultimately show ?thesis by (blast dest: sendsD)
  qed
qed

lemma sends_step: "sends STEP_COMMANDS (run_step lib ch now e step)"
proof -
  have "cp_id c \<in> STEP_COMMANDS" if "(if step = DEVICE_ID then device_id_set (en_device_id e)
      else if step = CLOCK then bindE (to_lock_time now) current_time_set else device_name_set (en_name e)) = Inr c" for c
    using that by (auto simp: device_id_set_def current_time_set_def device_name_set_def bindE_eq_Inr split: if_splits)
  moreover have "cp_id c \<in> STEP_COMMANDS" if "server_key_update pk = Inr c" for c pk
    using that by (auto simp: server_key_update_def bindE_eq_Inr)
  ultimately show ?thesis
    unfolding run_step_def Let_def
    by (cases "step = SERVER_KEY") (simp_all add: sends_bind sends_built sends_basic)
qed

lemma sends_save: "sends I (save_enrollment save step e)"
  by (rule sendsI) (auto simp: save_enrollment_def intro: exI [of _ "[Saved e (save e)]"])

lemma sends_steps: "sends STEP_COMMANDS (run_steps lib ch now save e steps)"
  by (induction steps arbitrary: e) (simp_all add: sends_basic sends_bind sends_mapErr sends_step sends_save)

lemma sends_remaining: "sends STEP_COMMANDS (run_remaining lib ch now save e)"
  by (simp add: run_remaining_def sends_steps)

lemma sends_owner_key: "sends {CMD_USER_AUTH_UPDATE} (enroll_owner_key lib ch uk)"
  by (rule sendsI) (auto dest!: owner_key_trace)

lemma sends_resume_login: "sends LOGIN_COMMANDS (log_in_to_resume lib ch e)"
  by (rule sendsI) (blast dest: resume_login_trace)

definition ENROLL_COMMANDS :: "command_id set" where
  "ENROLL_COMMANDS = LOGIN_COMMANDS \<union> {CMD_USER_AUTH_UPDATE} \<union> STEP_COMMANDS"

lemma sends_enroll: "sends ENROLL_COMMANDS (enroll lib ch name save device_id server_key now update_key)"
  unfolding enroll_def
  by (intro sends_bind sends_mapErr sends_basic sends_mono [OF sends_login] sends_mono [OF sends_owner_key]
      sends_save sends_mono [OF sends_remaining])
    (auto simp: ENROLL_COMMANDS_def split: prod.split intro!: sends_bind sends_mapErr sends_basic sends_save
      sends_mono [OF sends_remaining])

lemma sends_resume: "sends ENROLL_COMMANDS (resume_enrollment lib ch e save now)"
  unfolding resume_enrollment_def
  by (auto intro!: sends_bind sends_mapErr sends_basic sends_save sends_mono [OF sends_resume_login]
      sends_mono [OF sends_remaining] simp: ENROLL_COMMANDS_def)

text \<open>Its commands stand in the trace in their order, and it neither opens nor closes.\<close>

fun sent_events :: "enroll_event list \<Rightarrow> cli_event list" where
  "sent_events [] = []"
| "sent_events (Sent c # tr) = Command c # sent_events tr"
| "sent_events (Saved e ok # tr) = sent_events tr"

lemma sent_events_in: "ev \<in> set (sent_events tr) \<Longrightarrow> \<exists>c. ev = Command c \<and> cp_id c \<in> set (sent_ids tr)"
  by (induction tr rule: sent_events.induct) auto

lemma library_events_trace:
  "\<exists>t. cw_trace (fold (library_event env a) tr w) = cw_trace w @ t \<and> links t = sent_events tr"
proof (induction tr arbitrary: w)
  case (Cons ev tr)
  have "\<exists>t. cw_trace (library_event env a ev w) = cw_trace w @ t \<and> links t = sent_events [ev]"
    by (cases ev) (auto simp: happens_def put_state_def Let_def)
  moreover have "sent_events (ev # tr) = sent_events [ev] @ sent_events tr" by (cases ev) auto
  ultimately show ?case using Cons.IH [of "library_event env a ev w"] by fastforce
qed simp

definition commands_in :: "command_id set \<Rightarrow> cli_event set" where
  "commands_in I = {ev. \<exists>c. ev = Command c \<and> cp_id c \<in> I}"

lemma commands_in_mono: "I \<subseteq> J \<Longrightarrow> commands_in I \<subseteq> commands_in J"
  by (auto simp: commands_in_def)

lemma does_library: "sends I m \<Longrightarrow> does (commands_in I) (on_library env a m)"
  unfolding does_def words_def
proof
  fix w :: "'a cli_world"
  obtain v r where m: "m \<lparr>ew_channel = cw_link w, ew_trace = []\<rparr> = (v, r)" by fastforce
  assume "sends I m"
  then have "set (sent_ids (ew_trace v)) \<subseteq> I" using sendsD [of I m, OF _ m] by fastforce
  then have "sent_events (ew_trace v) \<in> lists (commands_in I)"
    using sent_events_in by (fastforce simp: commands_in_def)
  then show "\<exists>tr. cw_trace (fst (on_library env a m w)) = cw_trace w @ tr \<and> links tr \<in> lists (commands_in I)"
    using library_events_trace [of env a "ew_trace v" "w\<lparr>cw_link := ew_channel v\<rparr>"] m
    by (auto simp: on_library_def)
qed

lemma does_login: "does (commands_in LOGIN_COMMANDS) (on_library env a (authenticate_owner lib ch cred))"
  by (rule does_library [OF sends_login])

section \<open>The steps of a command\<close>

lemma does_save [does_intros]: "does S (store_save env e a)"
  by (auto simp: does_def words_def store_save_def put_state_def happens_def Let_def)

lemma does_record [does_intros]: "does S (record_failure env a kind status)"
  by (auto simp: does_def words_def record_failure_def happens_def Let_def)

lemma does_set_address [does_intros]: "does S (store_set_address env l a)"
  unfolding store_set_address_def by (intro does_intros)

lemma does_lookups [does_intros]:
  "does S (store_writable env)" "does S (store_by_address env a)" "does S (store_load env p)"
  "does S (check_login_budget env args a)" "does S (resolve_login env args a)" "does S (available env c)"
  "does S (check_available env c)" "does S (note_session env)" "does S (require_slot_acknowledgement args)"
  "does S (read_pin env args)" "does S (resume_target env args)"
  unfolding store_writable_def store_by_address_def store_load_def check_login_budget_def resolve_login_def
    available_def check_available_def note_session_def require_slot_acknowledgement_def read_pin_def
    resume_target_def Let_def
  by (intro does_intros)+

lemma does_failures [does_intros]: "does S (record_login_failures env a kind earlier err)"
  unfolding record_login_failures_def by (auto intro!: does_intros split: option.split ble_error.split)

lemma does_link_keys [does_intros]: "does S (trace_link_keys env args)"
  by (auto simp: does_def words_def trace_link_keys_def returnS_def raiseS_def add_note_def event_def
      happens_def split: sum.split)

lemma does_log_in: "does (commands_in LOGIN_COMMANDS) (log_in env a login)"
  unfolding log_in_def by (auto intro!: does_intros does_login split: ble_error.split)

lemma does_send:
  "does (commands_in ({cp_id c} - set NEVER_SENT_COMMANDS - set ENROLLMENT_ONLY_COMMANDS)) (send_command env c)"
  unfolding send_command_def by (intro does_intros) (auto simp: commands_in_def)

lemma does_sent: "cp_id c \<in> I \<Longrightarrow> does (commands_in I) (send_command env c)"
  by (rule does_mono [OF does_send]) (auto simp: commands_in_def)

lemma does_advertisements [does_intros]: "does S (each_seen trace_advertisement heard)"
  by (induction heard) (auto intro!: does_intros simp: trace_advertisement_def)

lemma does_listen [does_intros]: "does S (listen env wanted seconds)"
  unfolding does_def words_def
proof
  fix w :: "'a cli_world"
  obtain s heard err where scan: "ce_scan env seconds (cw_link w) = (s, heard, err)" by (metis prod_cases3)
  define m :: "('a, seen list) cli" where "m = bindS (event Listened) (\<lambda>_. bindS (each_seen trace_advertisement (filter wanted heard))
    (\<lambda>_. case err of Some e \<Rightarrow> raiseS e | None \<Rightarrow> returnS (filter wanted heard)))"
  have "words (lists S) m"
    unfolding m_def by (fold does_def) (auto intro!: does_intros split: option.split)
  moreover have "listen env wanted seconds w = m (w\<lparr>cw_link := s\<rparr>)"
    by (simp add: listen_def Let_def scan m_def)
  ultimately show "\<exists>tr. cw_trace (fst (listen env wanted seconds w)) = cw_trace w @ tr \<and> links tr \<in> lists S"
    using words_at [of "lists S" m "w\<lparr>cw_link := s\<rparr>"] by simp
qed

lemma does_set_addresses [does_intros]: "does S (set_addresses env a ls)"
  by (induction env a ls rule: set_addresses.induct) (auto intro!: does_intros)

lemma does_describe [does_intros]: "does S (describe_advertisement env s stored)"
  unfolding describe_advertisement_def by (intro does_intros)

lemma does_describe_each [does_intros]: "does S (describe_each env heard stored)"
  by (induction heard arbitrary: stored) (auto intro!: does_intros)

lemma does_scan_once: "does S (cmd_scan_once env args stored)"
  unfolding cmd_scan_once_def Let_def by (intro does_intros)

lemma does_find [does_intros]: "does S (find_advertisement env a seconds)"
  unfolding find_advertisement_def Let_def by (intro does_intros)

lemma does_inspection [does_intros]: "does S (note_services services)" "does S (read_characteristics env uuids)"
  by (induction services rule: note_services.induct; auto intro!: does_intros)
    (induction uuids; auto intro!: does_intros)

lemma does_enrollment_end [does_intros]: "does S (enrollment_failed env a kind earlier reason stored err)"
proof -
  have n: "does S (interrupted_note saved)" "does S (stopped_note step ok)" for saved step ok
    unfolding interrupted_note_def stopped_note_def by (intro does_intros)+
  show ?thesis
  proof (cases err)
    case (Raised e)
    have "does S (\<lambda>w. bindS (interrupted_note (saver_last stored (cw_trace w))) (\<lambda>_. raiseS (Failure e)) w)"
      by (rule does_world) (intro does_intros n)
    then show ?thesis
      using Raised unfolding enrollment_failed_def by (auto intro!: does_intros)
  qed (auto simp: enrollment_failed_def enrollment_not_saved_def enrollment_stopped_def
      intro!: does_intros n split: option.split)
qed

lemma does_enrolled_note [does_intros]: "does S (enrolled_note code)"
  unfolding enrolled_note_def by (intro does_intros)

section \<open>One session a command\<close>

definition session_words :: "string \<Rightarrow> command_id set \<Rightarrow> cli_event list set" where
  "session_words a I = {[]} \<union> {Opened a # ws @ [LetGo] |ws. ws \<in> lists (commands_in I)}"

lemma words_event:
  assumes "on_the_link ev" "words L m"
  shows "words ((#) ev ` L) (bindS (event ev) (\<lambda>_. m))"
  unfolding words_def
proof
  fix w
  obtain tr where "cw_trace (fst (m (happens ev w))) = cw_trace (happens ev w) @ tr" "links tr \<in> L"
    using words_at [OF assms(2)] by blast
  then show "\<exists>tr. cw_trace (fst (bindS (event ev) (\<lambda>_. m) w)) = cw_trace w @ tr \<and> links tr \<in> (#) ev ` L"
    using assms(1) by (auto simp: bindS_def event_def happens_def intro!: exI [of _ "ev # tr"])
qed

lemma words_note:
  assumes "words L m"
  shows "words L (bindS (add_note ev fs) (\<lambda>_. m))"
  unfolding words_def
proof
  fix w
  let ?n = "Noted \<lparr>tl_event = ev, tl_fields = fs\<rparr>"
  obtain tr where "cw_trace (fst (m (happens ?n w))) = cw_trace (happens ?n w) @ tr" "links tr \<in> L"
    using words_at [OF assms] by blast
  then show "\<exists>tr. cw_trace (fst (bindS (add_note ev fs) (\<lambda>_. m) w)) = cw_trace w @ tr \<and> links tr \<in> L"
    by (auto simp: bindS_def event_def happens_def add_note_def intro!: exI [of _ "?n # tr"])
qed

lemma words_ask: "(\<And>x. words L (f x)) \<Longrightarrow> words L (bindS (ask (\<lambda>w. Inr (g w))) f)"
  by (simp add: words_def bindS_def ask_def)

lemma quiet: "does {} m \<Longrightarrow> words {[]} m"
  by (simp add: does_def)

lemma try_raises:
  "bindS (tryS m (\<lambda>e. bindS (event ev) (\<lambda>_. bindS d (\<lambda>_. raiseS e)))) f
     = handleS m (\<lambda>e. bindS (event ev) (\<lambda>_. bindS d (\<lambda>_. raiseS e))) f"
  by (auto simp: bindS_def tryS_def handleS_def event_def raiseS_def fun_eq_iff split: prod.splits sum.splits)

lemma words_closing: "words {[LetGo]} (bindS (event LetGo) (\<lambda>_. m))" if "does {} m"
  using words_event [of LetGo, OF _ quiet [OF that]] by simp

lemma words_let_go: "words {[LetGo]} (let_go env)"
  unfolding let_go_def by (rule words_closing) (intro does_intros)

lemma words_session:
  assumes "does (commands_in I) body"
  shows "words (session_words a I) (with_session env args a body)"
proof -
  let ?L = "{ws @ [LetGo] |ws. ws \<in> lists (commands_in I)}"
  have inner: "does (commands_in I) (bindS (finallyS (on_session (ce_connect env)) (trace_link_keys env args))
      (\<lambda>_. bindS (note_session env) (\<lambda>_. body)))"
    by (intro does_intros assms)
  have fin: "words ?L (finallyS (bindS (finallyS (on_session (ce_connect env)) (trace_link_keys env args))
      (\<lambda>_. bindS (note_session env) (\<lambda>_. body))) (let_go env))"
    by (rule words_finally [OF inner [unfolded does_def] words_let_go]) auto
  have drop: "words ?L (bindS (event LetGo) (\<lambda>_. bindS (on_session (ce_drop env)) (\<lambda>_. raiseS e)))"
    for e by (rule words_mono [OF words_closing]) (auto intro!: does_intros)
  have tried: "words ?L (bindS (tryS (on_session (ce_factory env)) (\<lambda>err.
      bindS (event LetGo) (\<lambda>_. bindS (on_session (ce_drop env)) (\<lambda>_. raiseS err)))) (\<lambda>_.
      finallyS (bindS (finallyS (on_session (ce_connect env)) (trace_link_keys env args)) (\<lambda>_.
        bindS (note_session env) (\<lambda>_. body))) (let_go env)))"
    unfolding try_raises by (rule words_handle [OF quiet [OF does_basic(8)] drop fin]) auto
  have opened: "words {Opened a # ws @ [LetGo] |ws. ws \<in> lists (commands_in I)}
      (bindS (event (Opened a)) (\<lambda>_. m))" if "words ?L m" for m :: "('a, 'b) cli"
    by (rule words_mono [OF words_event [OF _ that]]) auto
  show ?thesis
    unfolding with_session_def session_words_def
    by (rule words_bind [OF quiet [OF does_basic(7)] opened [OF words_ask [OF words_note [OF tried]]]]) auto
qed

lemma words_before:
  assumes "does {} m" "\<And>x. words (session_words a I) (f x)"
  shows "words (session_words a I) (bindS m f)"
  by (rule words_bind [OF quiet [OF assms(1)] assms(2)]) (auto simp: session_words_def)

lemma words_after:
  assumes "words (session_words a I) m" "\<And>x. does {} (f x)"
  shows "words (session_words a I) (bindS m f)"
  by (rule words_bind [OF assms(1) quiet [OF assms(2)]]) (auto simp: session_words_def)

lemma words_quiet: "does {} m \<Longrightarrow> words (session_words a I) m"
  by (rule words_mono [OF quiet]) (auto simp: session_words_def)

lemma words_if: "(b \<Longrightarrow> words L m) \<Longrightarrow> (\<not> b \<Longrightarrow> words L n) \<Longrightarrow> words L (if b then m else n)"
  by simp

section \<open>What each command sends\<close>

definition allowed_commands :: "string \<Rightarrow> command_id set" where
  "allowed_commands command =
     (if command = ''login'' then LOGIN_COMMANDS
      else if command = ''read'' then LOGIN_COMMANDS \<union> {CMD_DEVICE_MODEL_GET, CMD_BATT_INFO_GET,
        CMD_DEVICE_LOG_GET, CMD_DEVICE_NAME_GET, CMD_CURRENT_TIME_GET}
      else if command = ''operate'' then LOGIN_COMMANDS \<union> {CMD_EKEY_OPERATE}
      else if command = ''pin'' then LOGIN_COMMANDS \<union> {CMD_PIN_CODE_SET, CMD_PIN_CODE_CLEAR}
      else if command = ''rfid'' then LOGIN_COMMANDS \<union> {CMD_SCAN_RFID_CODE, CMD_RFID_CODE_CLEAR}
      else if command = ''fingerprint'' then LOGIN_COMMANDS \<union> {CMD_FINGERPRINT_SCAN, CMD_FINGERPRINT_CLEAR}
      else if command = ''enroll'' then ENROLL_COMMANDS
      else {})"

abbreviation one_session :: "cli_args \<Rightarrow> command_id set \<Rightarrow> ('s cli_world \<Rightarrow> 's cli_world \<times> 'r) \<Rightarrow> bool" where
  "one_session args I m \<equiv> words (session_words (ca_address args) I) m"

lemma does_log_in_in: "LOGIN_COMMANDS \<subseteq> I \<Longrightarrow> does (commands_in I) (log_in env a login)"
  by (rule does_mono [OF does_log_in commands_in_mono])

lemma session_handshake: "one_session args I (cmd_handshake env args)"
  unfolding cmd_handshake_def by (rule words_session) (intro does_intros)

lemma session_login: "LOGIN_COMMANDS \<subseteq> I \<Longrightarrow> one_session args I (cmd_login env args)"
  unfolding cmd_login_def
  by (intro words_before words_session does_bind does_log_in_in does_intros)

lemma bindS_raises:
  "bindS (raises (Inr x)) f = f x" "bindS (raises (Inl e)) f = raiseS (Failure e)"
  by (simp_all add: raises_def lift_ble_def bindS_def liftE_def raiseS_def fun_eq_iff)

lemma does_read:
  assumes "\<forall>(b, p) \<in> set reads. \<forall>c. b = Inr c \<longrightarrow> cp_id c \<in> I"
  shows "does (commands_in I) (read_each env reads failed)"
  using assms
proof (induction reads arbitrary: failed)
  case (Cons rd reads)
  obtain b p where rd: "rd = (b, p)" by fastforce
  have rest: "does (commands_in I) (read_each env reads failed)" for failed using Cons by simp
  show ?case
  proof (cases b)
    case (Inl e)
    then show ?thesis by (simp add: rd bindS_raises does_basic)
  next
    case (Inr c)
    moreover have "cp_id c \<in> I" using Cons.prems Inr rd by simp
    ultimately show ?thesis by (auto simp: rd bindS_raises intro!: does_intros rest does_sent)
  qed
qed (simp add: does_basic)

lemma session_read: "one_session args (allowed_commands ''read'') (cmd_read env args)"
  unfolding cmd_read_def
  by (intro words_before words_after words_session does_bind does_log_in_in does_read does_intros)
    (auto simp: allowed_commands_def READS_def device_model_get_def batt_info_get_def device_log_get_def
      device_name_get_def current_time_get_def empty_command_def mk_command_payload_def)

lemma session_write:
  assumes "cp_id (wr_payload wr) \<in> I" "LOGIN_COMMANDS \<subseteq> I"
  shows "one_session args I (run_write env args wr)"
proof -
  have "does (commands_in I) (send_write env wr)"
    unfolding send_write_def by (auto intro!: does_intros does_sent assms(1))
  then have "one_session args I (with_session env args (ca_address args)
      (bindS (check_available env (wr_payload wr)) (\<lambda>_. bindS (log_in env (ca_address args) login) (\<lambda>_.
       send_write env wr))))" for login
    by (intro words_session does_bind does_log_in_in assms(2) does_intros)
  moreover have "one_session args I (returnS EXIT_REFUSED)" by (intro words_quiet does_intros)
  ultimately show ?thesis
    unfolding run_write_def by (intro words_before words_if does_intros)
qed

lemma id_of_built [simp]:
  "slot_command i slot slots = Inr c \<Longrightarrow> cp_id c = i"
  "pin_code_set slot pin ig = Inr c \<Longrightarrow> cp_id c = CMD_PIN_CODE_SET"
  "ekey_operate n = Inr c \<Longrightarrow> cp_id c = CMD_EKEY_OPERATE"
  by (auto simp: slot_command_def pin_code_set_def ekey_operate_def mk_command_payload_def bindE_eq_Inr)

text \<open>A builder's refusal ends the command; its payload goes on.\<close>

lemma words_validated:
  "words (session_words a I) (bindS (validated b) f)" if "\<And>c. b = Inr c \<Longrightarrow> words (session_words a I) (f c)"
proof (cases b)
  case (Inl e)
  then have "bindS (validated b) f = (if is_ble_error e then refuse (BadArgument e) EXIT_REFUSED else raiseS (Failure e))"
    by (simp add: validated_def bindS_def refuse_def raiseS_def fun_eq_iff)
  then show ?thesis by (simp add: words_quiet does_basic)
next
  case (Inr c)
  then have "bindS (validated b) f = f c" by (simp add: validated_def bindS_def returnS_def)
  then show ?thesis using that [OF Inr] by simp
qed

lemma session_operate: "one_session args (allowed_commands ''operate'') (cmd_operate env args)"
  unfolding cmd_operate_def
  by (rule words_validated, rule session_write) (auto simp: allowed_commands_def plain_write_def)

lemma session_pin: "one_session args (allowed_commands ''pin'') (cmd_pin env args)"
proof -
  have w: "one_session args (allowed_commands ''pin'') (run_write env args (plain_write c))"
    if "cp_id c = CMD_PIN_CODE_CLEAR \<or> cp_id c = CMD_PIN_CODE_SET" for c
    by (rule session_write) (use that in \<open>auto simp: allowed_commands_def plain_write_def\<close>)
  have q: "one_session args (allowed_commands ''pin'') (bindS (resolve_login env args a) (\<lambda>_. returnS n))" for a n
    by (intro words_quiet does_intros)
  show ?thesis
    unfolding cmd_pin_def
    by (intro words_before words_validated words_if does_intros q w) (auto simp: pin_code_clear_def)
qed

lemma session_clear_or_scan:
  assumes "\<And>c. clear (ca_slot args) = Inr c \<Longrightarrow> cp_id c \<in> I" "\<And>c. scan (ca_slot args) = Inr c \<Longrightarrow> cp_id c \<in> I"
    and "LOGIN_COMMANDS \<subseteq> I"
  shows "one_session args I (clear_or_scan env args clear scan parse)"
  unfolding clear_or_scan_def
  by (intro words_if words_validated words_before session_write does_intros)
    (use assms in \<open>auto simp: plain_write_def\<close>)

lemma session_rfid: "one_session args (allowed_commands ''rfid'') (cmd_rfid env args)"
  unfolding cmd_rfid_def
  by (rule session_clear_or_scan) (auto simp: allowed_commands_def rfid_code_clear_def scan_rfid_code_def)

lemma session_fingerprint: "one_session args (allowed_commands ''fingerprint'') (cmd_fingerprint env args)"
  unfolding cmd_fingerprint_def
  by (rule session_clear_or_scan) (auto simp: allowed_commands_def fingerprint_clear_def fingerprint_scan_def)

lemma session_info: "one_session args I (cmd_info env args)"
proof -
  let ?close = "bindS (event LetGo) (\<lambda>_. bindS (on_session (ce_disconnect env)) (\<lambda>_. add_note ''closed'' []))"
  have close: "words {[LetGo]} (finallyS m ?close)" if "does {} m" for m :: "('a, int) cli"
    by (rule words_finally [OF quiet [OF that] words_closing]) (auto intro!: does_intros)
  have sess: "one_session args I (bindS (event (Opened (ca_address args))) (\<lambda>_. finallyS m ?close))"
    if "does {} m" for m :: "('a, int) cli"
    by (rule words_mono [OF words_event [OF _ close [OF that]]]) (auto simp: session_words_def intro!: exI [of _ "[]"])
  show ?thesis
    unfolding cmd_info_def by (rule words_before [OF does_basic(7) sess]) (intro does_intros)
qed

lemma does_run:
  assumes "\<And>w. sends I (m w)" "does {} n" "\<And>x. does {} (k x)"
  shows "does (commands_in I) (bindS n (\<lambda>_. \<lambda>w. handleS (on_library env a (m w)) (enrollment_failed env a kind (earlier w) reason stored) k w))"
proof -
  have "does (commands_in I) (\<lambda>w. handleS (on_library env a (m w)) (enrollment_failed env a kind (earlier w) reason stored) k w)"
    by (rule does_world, rule does_handle [OF does_library [OF assms(1)] does_enrollment_end])
      (rule does_mono [OF assms(3)], simp)
  then show ?thesis by (rule does_bind [OF does_mono [OF assms(2) empty_subsetI]])
qed

lemma session_enroll_session: "one_session args ENROLL_COMMANDS (enroll_session env args name)"
  unfolding enroll_session_def enroll_library_def by (intro words_session does_run sends_enroll does_intros)

lemma session_resume_session: "one_session args ENROLL_COMMANDS (resume_session env args stored)"
  unfolding resume_session_def resume_library_def Let_def by (intro words_session does_run sends_resume does_intros)

lemma session_enroll: "one_session args (allowed_commands ''enroll'') (cmd_enroll env args)"
proof -
  have [simp]: "allowed_commands ''enroll'' = ENROLL_COMMANDS" by (simp add: allowed_commands_def)
  have q: "one_session args ENROLL_COMMANDS (returnS n :: ('a, int) cli)"
    "one_session args ENROLL_COMMANDS (refuse reason code :: ('a, int) cli)" for n reason code
    by (intro words_quiet does_intros)+
  have resume: "one_session args ENROLL_COMMANDS (cmd_resume env args)"
    unfolding cmd_resume_def
    by (intro words_before words_if words_after session_resume_session q does_intros)
  have e: "one_session args ENROLL_COMMANDS (bindS (check_login_budget env args a) (\<lambda>_.
      bindS (enroll_session env args name) enrolled_note))" for a name
    by (intro words_before words_after session_enroll_session does_intros)
  show ?thesis
    unfolding cmd_enroll_def
    by (auto split: option.split intro!: resume q words_validated words_before words_if e does_intros)
qed

text \<open>A watch leaves the lock alone.\<close>

lemma watch_loop_quiet:
  "watch_loop env start seconds window heard w = Some y \<Longrightarrow>
     \<exists>tr. cw_trace (fst y) = cw_trace w @ tr \<and> links tr = []"
proof (induction rule: watch_loop.raw_induct [rotated, consumes 1, case_names step])
  case (step rec env start seconds window heard w y)
  let ?l = "listen env (\<lambda>s. lock_data s \<noteq> None) (min window (seconds - (ce_monotonic env (cw_link w) - start))) w"
  show ?case
  proof (cases "ce_monotonic env (cw_link w) - start < seconds")
    case False
    then show ?thesis using step(2) by (auto intro: exI [of _ "[]"])
  next
    case True
    obtain v q where l: "?l = (v, q)" by fastforce
    obtain tr where tr: "cw_trace v = cw_trace w @ tr" "links tr = []"
      using wordsD [OF quiet [OF does_listen] l] by auto
    show ?thesis
    proof (cases q)
      case (Inl e)
      then show ?thesis using step(2) True l tr by (auto simp: Let_def)
    next
      case (Inr hs)
      then have "rec env start seconds window (heard \<or> hs \<noteq> []) v = Some y"
        using step(2) True l by (simp add: Let_def)
      then obtain tr' where "cw_trace (fst y) = cw_trace v @ tr'" "links tr' = []" using step(1) by blast
      then show ?thesis using tr by (intro exI [of _ "tr @ tr'"]) simp
    qed
  qed
qed

lemma scan_quiet: "cmd_scan env args w = Some (w', r) \<Longrightarrow> \<exists>tr. cw_trace w' = cw_trace w @ tr \<and> links tr = []"
  using wordsD [OF quiet [OF does_scan_once]] watch_loop_quiet
  by (auto simp: cmd_scan_def watch_def split: sum.splits option.splits) fastforce+

end
