(* ===== verification/Ble_Cli_Props.thy ===== *)
theory Ble_Cli_Props
  imports Ble_Cli_Steps
begin

text \<open>
  The properties of the command line, \<^verbatim>\<open>scripts/ble_cli.py\<close>: what goes out and when, what is
  asked first, what a failed login leaves behind, and where the key of an enrollment is.
\<close>

section \<open>One session\<close>

lemma words_result:
  assumes "words (session_words a I) m" "m w = (w', r)"
  shows "\<exists>tr. cw_trace w' = cw_trace w @ tr
    \<and> (links tr = [] \<or> (\<exists>sent. links tr = Opened a # map Command sent @ [LetGo] \<and> (\<forall>c \<in> set sent. cp_id c \<in> I)))"
proof -
  obtain tr where tr: "cw_trace w' = cw_trace w @ tr" "links tr \<in> session_words a I"
    using wordsD [OF assms] by blast
  have "\<exists>sent. ws = map Command sent \<and> (\<forall>c \<in> set sent. cp_id c \<in> I)" if "ws \<in> lists (commands_in I)" for ws
    using that
  proof induction
    case (Cons ev ws)
    then obtain c sent where "ev = Command c" "cp_id c \<in> I" "ws = map Command sent" "\<forall>c \<in> set sent. cp_id c \<in> I"
      by (auto simp: commands_in_def)
    then show ?case by (auto intro!: exI [of _ "c # sent"])
  qed simp
  then show ?thesis using tr by (fastforce simp: session_words_def)
qed

lemma session_login_command: "one_session args (allowed_commands ''login'') (cmd_login env args)"
  by (rule session_login) (simp add: allowed_commands_def)

lemma dispatch:
  "run_command env args w = Some (w', r) \<Longrightarrow>
     ca_command args = ''scan'' \<and> cmd_scan env args w = Some (w', r)
   \<or> ca_command args = ''info'' \<and> cmd_info env args w = (w', r)
   \<or> ca_command args = ''handshake'' \<and> cmd_handshake env args w = (w', r)
   \<or> ca_command args = ''login'' \<and> cmd_login env args w = (w', r)
   \<or> ca_command args = ''read'' \<and> cmd_read env args w = (w', r)
   \<or> ca_command args = ''operate'' \<and> cmd_operate env args w = (w', r)
   \<or> ca_command args = ''pin'' \<and> cmd_pin env args w = (w', r)
   \<or> ca_command args = ''rfid'' \<and> cmd_rfid env args w = (w', r)
   \<or> ca_command args = ''fingerprint'' \<and> cmd_fingerprint env args w = (w', r)
   \<or> ca_command args = ''enroll'' \<and> cmd_enroll env args w = (w', r)
   \<or> w' = w \<and> r = Inl (Failure (PyException ''KeyError''))"
  by (simp add: run_command_def COMMANDS_def split: if_splits)

text \<open>
  C9: one session, let go, with the commands of its kind. However a command ends, what it did
  to the lock is nothing, or one session on the address it was given, opened once and let go
  last, with only the commands that subcommand is for between the two: the module reset is
  never sent, and what makes a new owner goes out from enroll alone.
\<close>

theorem one_session_per_command:
  assumes "main_code env args w = Some (w', code)"
  shows "\<exists>tr. cw_trace w' = cw_trace w @ tr \<and> (links tr = []
    \<or> (\<exists>sent. links tr = Opened (ca_address args) # map Command sent @ [LetGo]
        \<and> (\<forall>c \<in> set sent. cp_id c \<in> allowed_commands (ca_command args))))"
proof -
  obtain r where run: "run_command env args w = Some (w', r)" using assms by (auto simp: main_code_def)
  from dispatch [OF this] show ?thesis
  proof (elim disjE conjE)
    assume "cmd_scan env args w = Some (w', r)"
    from scan_quiet [OF this] show ?thesis by blast
  next
    assume "w' = w"
    then show ?thesis by (auto intro: exI [of _ "[]"])
  qed (metis words_result session_info session_handshake session_login_command session_read session_operate
      session_pin session_rfid session_fingerprint session_enroll)+
qed

section \<open>What is asked first\<close>

text \<open>Steps that only look.\<close>

definition quiet :: "('s cli_world \<Rightarrow> 's cli_world \<times> 'r) \<Rightarrow> bool" where
  "quiet m \<longleftrightarrow> (\<forall>w. fst (m w) = w)"

named_theorems quiet_intros \<open>steps that change nothing\<close>

lemma quiet_basic [quiet_intros]:
  "quiet (returnS x)" "quiet (raiseS e)" "quiet (refuse reason code)" "quiet (raises v)" "quiet (ask g)"
  "quiet (validated v)"
  by (auto simp: quiet_def returnS_def raiseS_def refuse_def raises_def liftE_def ask_def validated_def
      split: sum.split)

lemma quiet_bind [quiet_intros]: "quiet m \<Longrightarrow> (\<And>x. quiet (f x)) \<Longrightarrow> quiet (bindS m f)"
  unfolding quiet_def
proof
  fix w
  obtain w' r where "m w = (w', r)" by fastforce
  moreover assume "\<forall>w. fst (m w) = w" "\<And>x. \<forall>w. fst (f x w) = w"
  ultimately show "fst (bindS m f w) = w" by (cases r) (auto simp: bindS_def dest: spec [of _ w])
qed

lemma quiet_if [quiet_intros]: "(b \<Longrightarrow> quiet m) \<Longrightarrow> (\<not> b \<Longrightarrow> quiet n) \<Longrightarrow> quiet (if b then m else n)"
  by simp

lemma quiet_option [quiet_intros]:
  "quiet m \<Longrightarrow> (\<And>x. quiet (f x)) \<Longrightarrow> quiet (case v of None \<Rightarrow> m | Some x \<Rightarrow> f x)"
  by (simp split: option.split)

lemma quiet_list [quiet_intros]:
  "quiet m \<Longrightarrow> (\<And>x xs. quiet (f x xs)) \<Longrightarrow> quiet (case v of [] \<Rightarrow> m | x # xs \<Rightarrow> f x xs)"
  by (simp split: list.split)

lemma quiet_pair [quiet_intros]: "(\<And>x y. quiet (f x y)) \<Longrightarrow> quiet (case v of (x, y) \<Rightarrow> f x y)"
  by (simp split: prod.split)

lemma quiet_lookups [quiet_intros]:
  "quiet (store_writable env)" "quiet (store_by_address env a)" "quiet (store_load env p)"
  "quiet (check_login_budget env args a)" "quiet (resolve_login env args a)"
  "quiet (require_slot_acknowledgement args)" "quiet (read_pin env args)" "quiet (resume_target env args)"
  unfolding store_writable_def store_by_address_def store_load_def check_login_budget_def resolve_login_def
    require_slot_acknowledgement_def read_pin_def resume_target_def Let_def
  by (intro quiet_intros)+

lemma quietD: "quiet m \<Longrightarrow> m w = (w', r) \<Longrightarrow> w' = w"
  unfolding quiet_def by (metis fst_conv)

text \<open>
  A command that changes the lock without \<^verbatim>\<open>--yes\<close>, or that writes to a PIN slot below 805 or
  deletes a tag or a finger without the long flag.
\<close>

definition unconfirmed :: "cli_args \<Rightarrow> bool" where
  "unconfirmed args \<longleftrightarrow>
     ca_command args \<in> {''operate'', ''pin'', ''rfid'', ''fingerprint'', ''enroll''} \<and> \<not> ca_yes args
   \<or> \<not> ca_slot_unverified args
       \<and> (ca_command args = ''pin'' \<and> ca_slot args < 805
          \<or> ca_command args \<in> {''rfid'', ''fingerprint''} \<and> ca_action args = ''clear'')"

lemma quiet_write: "\<not> ca_yes args \<Longrightarrow> quiet (run_write env args wr)"
  unfolding run_write_def confirm_def by (simp cong: if_cong) (intro quiet_intros)

lemma quiet_refused: "\<not> ca_slot_unverified args \<Longrightarrow> quiet (bindS (require_slot_acknowledgement args) f)"
  by (auto simp: quiet_def require_slot_acknowledgement_def bindS_def refuse_def raiseS_def)

lemma quiet_clear_or_scan:
  "\<not> ca_yes args \<or> \<not> ca_slot_unverified args \<and> ca_action args = ''clear'' \<Longrightarrow>
     quiet (clear_or_scan env args clear scan parse)"
proof (cases "ca_yes args")
  case True
  then show "\<not> ca_yes args \<or> \<not> ca_slot_unverified args \<and> ca_action args = ''clear'' \<Longrightarrow> ?thesis"
    unfolding clear_or_scan_def by (auto intro!: quiet_bind [OF quiet_basic(6)] quiet_refused)
next
  case False
  then show ?thesis
    unfolding clear_or_scan_def by (auto intro!: quiet_bind quiet_basic quiet_write quiet_lookups)
qed

lemma quiet_pin:
  "\<not> ca_yes args \<or> \<not> ca_slot_unverified args \<and> ca_slot args < 805 \<Longrightarrow> quiet (cmd_pin env args)"
proof (cases "ca_yes args")
  case True
  then show "\<not> ca_yes args \<or> \<not> ca_slot_unverified args \<and> ca_slot args < 805 \<Longrightarrow> ?thesis"
    unfolding cmd_pin_def by (auto intro!: quiet_bind [OF quiet_basic(6)] quiet_refused)
next
  case False
  then show ?thesis
    unfolding cmd_pin_def by (auto intro!: quiet_bind quiet_basic quiet_write quiet_lookups)
qed

lemma quiet_enroll: "\<not> ca_yes args \<Longrightarrow> quiet (cmd_enroll env args)"
  unfolding cmd_enroll_def cmd_resume_def confirm_def
  by (auto intro!: quiet_bind quiet_basic quiet_lookups quiet_if split: option.split)

text \<open>
  C21: nothing happens unasked. Without \<^verbatim>\<open>--yes\<close> a command that changes the lock, and without
  the flag that owns up to it a write to a slot whose meaning is a guess, ends with the lock,
  the radio, the state files and the failed logins as they were, and leaves no trace.
\<close>

theorem unconfirmed_does_nothing:
  assumes "unconfirmed args" "main_code env args w = Some (w', code)"
  shows "w' = w"
proof -
  obtain r where run: "run_command env args w = Some (w', r)" using assms by (auto simp: main_code_def)
  have "quiet (cmd_operate env args)" if "\<not> ca_yes args"
    unfolding cmd_operate_def by (intro quiet_bind quiet_basic quiet_write that)
  then show ?thesis
    using dispatch [OF run] assms(1)
    by (auto simp: unconfirmed_def cmd_rfid_def cmd_fingerprint_def
        dest!: quietD [rotated] intro!: quiet_clear_or_scan quiet_pin quiet_enroll)
qed

section \<open>The login budget\<close>

text \<open>
  Two recorded failures of the last day against the address, at every moment from here on, and
  no \<^verbatim>\<open>--force-login\<close>.
\<close>

definition budget_spent :: "'s cli_env \<Rightarrow> cli_args \<Rightarrow> 's cli_world \<Rightarrow> bool" where
  "budget_spent env args w \<longleftrightarrow> \<not> ca_force_login args
     \<and> (\<forall>tr. \<exists>n. recent_failures (cw_failed w) (ca_address args) (ce_clock env (cw_trace w @ tr)) = Inr n
            \<and> FAILED_LOGIN_LIMIT \<le> n)"

text \<open>Steps that stay away from the lock while the budget is spent, and leave it spent.\<close>

definition guarded :: "'s cli_env \<Rightarrow> cli_args \<Rightarrow> ('s cli_world \<Rightarrow> 's cli_world \<times> 'r) \<Rightarrow> bool" where
  "guarded env args m \<longleftrightarrow> (\<forall>w. budget_spent env args w \<longrightarrow> budget_spent env args (fst (m w))
     \<and> (\<exists>tr. cw_trace (fst (m w)) = cw_trace w @ tr \<and> links tr = []))"

lemma guarded_idle: "quiet m \<Longrightarrow> guarded env args m"
  by (simp add: guarded_def quiet_def)

lemma guarded_bind:
  assumes "guarded env args m" "\<And>x. guarded env args (f x)"
  shows "guarded env args (bindS m f)"
  unfolding guarded_def
proof (intro allI impI)
  fix w assume spent: "budget_spent env args w"
  obtain w' r where m: "m w = (w', r)" by fastforce
  obtain tr where tr: "budget_spent env args w'" "cw_trace w' = cw_trace w @ tr" "links tr = []"
    using assms(1) spent m unfolding guarded_def by (metis fst_conv)
  show "budget_spent env args (fst (bindS m f w))
      \<and> (\<exists>tr. cw_trace (fst (bindS m f w)) = cw_trace w @ tr \<and> links tr = [])"
  proof (cases r)
    case (Inl e)
    then show ?thesis using m tr by (simp add: effect_simps)
  next
    case (Inr x)
    then obtain tr' where "budget_spent env args (fst (f x w'))"
        "cw_trace (fst (f x w')) = cw_trace w' @ tr'" "links tr' = []"
      using assms(2) tr(1) unfolding guarded_def by blast
    then show ?thesis using m Inr tr by (simp add: effect_simps)
  qed
qed

lemma guarded_budget: "guarded env args (bindS (check_login_budget env args (ca_address args)) f)"
  unfolding guarded_def
proof (intro allI impI)
  fix w assume "budget_spent env args w"
  moreover from this obtain n where
    "recent_failures (cw_failed w) (ca_address args) (now_at env w) = Inr n" "2 \<le> n"
    by (auto simp: budget_spent_def now_at_def dest: spec [of _ "[]"])
  ultimately have "bindS (check_login_budget env args (ca_address args)) f w
      = (w, Inl (CliError (BudgetSpent n (ca_address args)) EXIT_REFUSED))"
    by (simp add: check_login_budget_def ask_def refuse_def raiseS_def bindS_def budget_spent_def)
  then show "budget_spent env args (fst (bindS (check_login_budget env args (ca_address args)) f w))
      \<and> (\<exists>tr. cw_trace (fst (bindS (check_login_budget env args (ca_address args)) f w)) = cw_trace w @ tr
            \<and> links tr = [])"
    using \<open>budget_spent env args w\<close> by simp
qed

lemma notes_keep_failed: "cw_failed (fst (each_seen trace_advertisement heard w)) = cw_failed w"
  by (induction heard arbitrary: w)
    (auto simp: returnS_def bindS_def trace_advertisement_def add_note_def event_def happens_def)

lemma listening_keeps_failed: "cw_failed (fst (listen env wanted seconds w)) = cw_failed w"
proof -
  obtain s heard err where scan: "ce_scan env seconds (cw_link w) = (s, heard, err)" by (metis prod_cases3)
  let ?v = "happens Listened (w\<lparr>cw_link := s\<rparr>)"
  obtain v q where v: "each_seen trace_advertisement (filter wanted heard) ?v = (v, q)" by fastforce
  then have "cw_failed v = cw_failed w"
    using notes_keep_failed [of "filter wanted heard" ?v] by (simp add: happens_def)
  then show ?thesis
    by (cases q; cases err) (simp_all add: listen_def Let_def scan bindS_def event_def v raiseS_def returnS_def)
qed

lemma find_keeps_failed: "cw_failed (fst (find_advertisement env a seconds w)) = cw_failed w"
  using listening_keeps_failed [of env "\<lambda>s. lock_data s \<noteq> None \<and> same_lock_address (sv_address s) a" seconds w]
  by (auto simp: find_advertisement_def bindS_def Let_def returnS_def split: prod.split sum.split)

lemma guarded_find: "guarded env args (find_advertisement env a seconds)"
  unfolding guarded_def
proof (intro allI impI)
  fix w :: "'a cli_world"
  assume spent: "budget_spent env args w"
  obtain tr where tr: "cw_trace (fst (find_advertisement env a seconds w)) = cw_trace w @ tr" "links tr = []"
    using words_at [OF quiet [OF does_find]] by fastforce
  moreover have "budget_spent env args (fst (find_advertisement env a seconds w))"
    using spent tr(1) by (simp add: budget_spent_def find_keeps_failed)
  ultimately show "budget_spent env args (fst (find_advertisement env a seconds w))
      \<and> (\<exists>tr. cw_trace (fst (find_advertisement env a seconds w)) = cw_trace w @ tr \<and> links tr = [])"
    by blast
qed

lemma guarded_if: "(b \<Longrightarrow> guarded env args m) \<Longrightarrow> (\<not> b \<Longrightarrow> guarded env args n) \<Longrightarrow> guarded env args (if b then m else n)"
  by simp

lemma guarded_option:
  "guarded env args m \<Longrightarrow> (\<And>x. guarded env args (f x)) \<Longrightarrow> guarded env args (case v of None \<Rightarrow> m | Some x \<Rightarrow> f x)"
  by (simp split: option.split)

lemmas guarded_intros = guarded_budget guarded_bind guarded_find guarded_if guarded_option

lemma guarded_write: "guarded env args (run_write env args wr)"
  unfolding run_write_def by (intro guarded_intros guarded_idle quiet_intros)

lemma guarded_commands:
  "guarded env args (cmd_login env args)" "guarded env args (cmd_read env args)"
  "guarded env args (cmd_operate env args)" "guarded env args (cmd_pin env args)"
  "guarded env args (cmd_rfid env args)" "guarded env args (cmd_fingerprint env args)"
  "guarded env args (cmd_enroll env args)"
  unfolding cmd_login_def cmd_read_def cmd_operate_def cmd_pin_def cmd_rfid_def cmd_fingerprint_def
    clear_or_scan_def cmd_enroll_def cmd_resume_def
  by (intro guarded_budget guarded_if guarded_option guarded_bind guarded_find guarded_write
      guarded_idle quiet_intros)+

definition login_subcommands :: "string set" where
  "login_subcommands = {''login'', ''read'', ''operate'', ''pin'', ''rfid'', ''fingerprint'', ''enroll''}"

text \<open>
  C10: after two failed logins in a day the lock is left alone. While the budget of an address
  is spent, no subcommand that logs in opens a session on it, a resumed enrollment included.
\<close>

theorem spent_budget_stops_logins:
  assumes "budget_spent env args w" "ca_command args \<in> login_subcommands"
    and "main_code env args w = Some (w', code)"
  shows "\<exists>tr. cw_trace w' = cw_trace w @ tr \<and> links tr = []"
proof -
  obtain r where run: "run_command env args w = Some (w', r)" using assms by (auto simp: main_code_def)
  have stays: "\<exists>tr. cw_trace w' = cw_trace w @ tr \<and> links tr = []" if "guarded env args m" "m w = (w', r)"
    for m :: "'a cli_world \<Rightarrow> 'a cli_world \<times> (cli_error + int)"
    using assms(1) that unfolding guarded_def by (metis fst_conv)
  show ?thesis
    using dispatch [OF run] assms(2)
    by (elim disjE conjE)
      (simp_all add: login_subcommands_def stays [OF guarded_commands(1)] stays [OF guarded_commands(2)]
        stays [OF guarded_commands(3)] stays [OF guarded_commands(4)] stays [OF guarded_commands(5)]
        stays [OF guarded_commands(6)] stays [OF guarded_commands(7)])
qed

section \<open>What a failed login leaves behind\<close>

lemma recent_snoc:
  assumes "recent_failures ls a t = Inr n" "same_lock_address b a"
  shows "recent_failures (ls @ [LoginLine (Aware us) b kind status]) a t
    = Inr (if t - us < FAILED_LOGIN_WINDOW then Suc n else n)"
  using assms
  by (induction ls a t arbitrary: n rule: recent_failures.induct)
    (auto simp: bindE_eq_Inr split: moment.splits if_splits)

lemma same_lock_address_refl [simp]: "same_lock_address a a"
  by (simp add: same_lock_address_def)

lemma library_keeps_failed: "cw_failed (fold (library_event env a) tr w) = cw_failed w"
proof (induction tr arbitrary: w)
  case (Cons ev tr)
  have "cw_failed (library_event env a ev w) = cw_failed w"
    by (cases ev) (auto simp: happens_def put_state_def Let_def)
  then show ?case using Cons.IH by simp
qed simp

text \<open>What a login that the library gives up on leaves behind.\<close>

lemma login_leaves_line:
  assumes "snd (authenticate_owner (ce_lib env) (ce_channel env) (lg_credential login)
      \<lparr>ew_channel = cw_link w, ew_trace = []\<rparr>) = Inl e" "is_ble_error e"
    and "\<And>tr line. ce_disk env tr (FailedLogin line)"
    and "log_in env address login w = (w', r)"
  shows "\<exists>tr. (\<exists>err. r = Inl err)
    \<and> cw_failed w' = cw_failed w
        @ [failed_login_line (ce_clock env (cw_trace w @ tr)) address (lg_kind login) (status_of_failure e)]
    \<and> (\<forall>t n. recent_failures (cw_failed w) address t = Inr n
          \<and> t - ce_clock env (cw_trace w @ tr) div 1000 * 1000 < FAILED_LOGIN_WINDOW
        \<longrightarrow> recent_failures (cw_failed w') address t = Inr (Suc n))"
proof -
  let ?m = "authenticate_owner (ce_lib env) (ce_channel env) (lg_credential login)"
  define v where "v = happens (Noted \<lparr>tl_event = ''login'', tl_fields = [(''credential'', TText (lg_kind login))]\<rparr>) w"
  have v: "cw_link v = cw_link w" "cw_failed v = cw_failed w" "\<exists>tr. cw_trace v = cw_trace w @ tr"
    by (simp_all add: v_def happens_def)
  obtain u q where lib: "on_library env address ?m v = (u, q)" by fastforce
  then have q: "q = Inl e" and uf: "cw_failed u = cw_failed w"
    using assms(1) v by (auto simp: on_library_def library_keeps_failed split: prod.splits)
  obtain tr0 where "cw_trace u = cw_trace v @ tr0"
    using wordsD [OF does_login [unfolded does_def] lib] by blast
  then obtain tr where tr: "cw_trace u = cw_trace w @ tr" using v(3) by auto
  let ?line = "failed_login_line (ce_clock env (cw_trace w @ tr)) address (lg_kind login) (status_of_failure e)"
  have rec: "record_login_failures env address (lg_kind login) None e u
      = (happens (LoggedFailure ?line) (u\<lparr>cw_failed := cw_failed w @ [?line]\<rparr>), Inr ())"
    using assms(3) uf tr
    by (simp add: record_login_failures_def record_failure_def bindS_def returnS_def now_at_def Let_def)
  have "log_in env address login w = (case e of
      BleOperationError c status i \<Rightarrow>
        bindS (add_note ''login_refused'' [(''status'', TStatus (known status_of status))]) (\<lambda>_.
          refuse (LoginRefused e) EXIT_FAILED)
    | _ \<Rightarrow> bindS (add_note ''login_failed'' [(''kind'', TErrorType e)]) (\<lambda>_. raiseS (Failure e)))
      (happens (LoggedFailure ?line) (u\<lparr>cw_failed := cw_failed w @ [?line]\<rparr>))"
    using lib q rec assms(2)
    by (cases e) (simp_all add: log_in_def handleS_def bindS_def add_note_def event_def v_def)
  then have "cw_failed w' = cw_failed w @ [?line] \<and> (\<exists>err. r = Inl err)"
    using assms(4) by (cases e) (auto simp: bindS_def add_note_def event_def happens_def refuse_def raiseS_def)
  moreover have "recent_failures (cw_failed w @ [?line]) address t = Inr (Suc n)"
    if "recent_failures (cw_failed w) address t = Inr n"
      "t - ce_clock env (cw_trace w @ tr) div 1000 * 1000 < FAILED_LOGIN_WINDOW" for t n
    using recent_snoc [OF that(1) same_lock_address_refl] that(2)
    by (simp add: failed_login_line_def iso_moment_def)
  ultimately show ?thesis by auto
qed

text \<open>
  C22: every login the library gives up on is counted. Whatever error of the library ends the
  login of login, read or a write, a refusal, a timeout or a lost link, one line is added to
  the file, and for a day from that moment (cut to the millisecond) it is one failure more.
\<close>

theorem failed_login_counts:
  assumes "snd (authenticate_owner (ce_lib env) (ce_channel env) (lg_credential login)
      \<lparr>ew_channel = cw_link w, ew_trace = []\<rparr>) = Inl e" "is_ble_error e"
    and "\<And>tr line. ce_disk env tr (FailedLogin line)"
    and "log_in env address login w = (w', r)"
  shows "\<exists>tr. (\<exists>err. r = Inl err)
    \<and> cw_failed w' = cw_failed w
        @ [failed_login_line (ce_clock env (cw_trace w @ tr)) address (lg_kind login) (status_of_failure e)]
    \<and> (\<forall>t n. recent_failures (cw_failed w) address t = Inr n
          \<and> t - ce_clock env (cw_trace w @ tr) div 1000 * 1000 < FAILED_LOGIN_WINDOW
        \<longrightarrow> recent_failures (cw_failed w') address t = Inr (Suc n))"
  by (rule login_leaves_line [OF assms])

section \<open>A lock to try it on\<close>

text \<open>The link is whether the lock answers; it always connects.\<close>

definition example_channel :: "bool channel" where
  "example_channel = \<lparr>
     ch_send = (\<lambda>up c. (up, if up then snd (ch_send friendly_channel () c)
                             else Inl (BleTimeoutError (''no answer'', [])))),
     ch_iv = (\<lambda>_. Inr (replicate 16 0))\<rparr>"

interpretation example_link: command_channel example_channel
  using friendly.answer_ok friendly.answer_kind
  by unfold_locales (auto simp: example_channel_def friendly_channel_def response_is_ok_def split: if_splits)

definition example_seen :: seen where
  "example_seen = \<lparr>sv_address = ''AA:BB'', sv_name = None, sv_rssi = None,
     sv_service_data = [(ADVERTISING_UUID, replicate 8 0)]\<rparr>"

definition env_on :: "'s channel \<Rightarrow> ('s \<Rightarrow> int) \<Rightarrow> (int \<Rightarrow> 's \<Rightarrow> 's \<times> seen list \<times> cli_error option) \<Rightarrow> 's cli_env" where
  "env_on channel monotonic scan = \<lparr>ce_lib = small_lib, ce_sha1 = (\<lambda>bs. bs), ce_sha256 = (\<lambda>bs. bs),
     ce_clock = (\<lambda>tr. 1000000000000000 + 1000 * int (length tr)), ce_monotonic = monotonic,
     ce_iso = (\<lambda>t. ''now''), ce_disk = (\<lambda>_ _. True), ce_scan = scan,
     ce_inspect = (\<lambda>_ s. (s, Inr [])), ce_read_gatt = (\<lambda>_ s. (s, Inr [])),
     ce_open = (\<lambda>_ s. (s, Inr ())), ce_factory = (\<lambda>s. (s, Inr ())), ce_drop = (\<lambda>s. (s, Inr ())),
     ce_disconnect = (\<lambda>s. (s, Inr ())), ce_mtu = (\<lambda>_. None), ce_connect = (\<lambda>s. (s, Inr ())),
     ce_close = (\<lambda>s. (s, Inr ())), ce_channel = channel, ce_firmware = (\<lambda>_. Inr (4, 8, 0)),
     ce_model = (\<lambda>_. None), ce_link_keys = (\<lambda>_. Inl (BleSessionStateError ([], []))),
     ce_available = (\<lambda>_ c. Inr AVAILABLE), ce_device_id = replicate 6 1,
     ce_server_key = 1 # replicate 31 0,
     ce_update_key = \<lparr>kp_private_key = 1 # replicate 31 0, kp_public_key = encode_public_key (1, 0)\<rparr>,
     ce_stdin_line = [], ce_getpass = ([], [])\<rparr>"

definition example_cli :: "bool cli_env" where
  "example_cli = env_on example_channel (\<lambda>_. 0) (\<lambda>_ up. (up, [example_seen], None))"

definition example_args :: "string \<Rightarrow> bool \<Rightarrow> cli_args" where
  "example_args command yes = \<lparr>ca_command = command, ca_address = ''aa:bb'', ca_factory = True,
     ca_state = None, ca_force_login = False, ca_yes = yes, ca_slot_unverified = False, ca_slot = 803,
     ca_action = ''clear'', ca_operation = ''lock'', ca_pin_stdin = False, ca_name = Some ''door'',
     ca_resume = False, ca_seconds = 1000, ca_watch = None, ca_window = 1000, ca_trace_secrets = False\<rparr>"

definition example_world :: "bool \<Rightarrow> failed_line list \<Rightarrow> bool cli_world" where
  "example_world up failed = \<lparr>cw_link = up, cw_files = [], cw_failed = failed, cw_trace = []\<rparr>"

definition sends_begin :: "'s cli_world \<Rightarrow> bool" where
  "sends_begin w \<longleftrightarrow> list_ex (\<lambda>ev. case ev of Command c \<Rightarrow> cp_id c = CMD_USER_AUTH_BEGIN | _ \<Rightarrow> False) (cw_trace w)"

lemma main_commands:
  "ca_command args = ''login'' \<Longrightarrow> main_code env args w = Some (map_prod id exit_code_of (cmd_login env args w))"
  "ca_command args = ''operate'' \<Longrightarrow> main_code env args w = Some (map_prod id exit_code_of (cmd_operate env args w))"
  "ca_command args = ''enroll'' \<Longrightarrow> main_code env args w = Some (map_prod id exit_code_of (cmd_enroll env args w))"
  by (simp_all add: main_code_def run_command_def COMMANDS_def map_prod_def)

lemma example_runs:
  "case cmd_login example_cli (example_args ''login'' True) (example_world False []) of
     (w, r) \<Rightarrow> exit_code_of r = EXIT_FAILED \<and> sends_begin w \<and> length (cw_failed w) = 1"
  "case cmd_enroll example_cli (example_args ''enroll'' True) (example_world False []) of
     (w, r) \<Rightarrow> exit_code_of r = EXIT_FAILED \<and> sends_begin w \<and> cw_failed w = []"
  "exit_code_of (snd (cmd_operate example_cli (example_args ''operate'' False) (example_world True []))) = EXIT_REFUSED"
  by code_simp+

text \<open>A library run that raises an error other than a refusal leaves no line.\<close>

lemma unrefused_leaves_no_line:
  assumes "m \<lparr>ew_channel = cw_link w, ew_trace = []\<rparr> = (u, Inl (Raised err))"
    and "\<not> is_operation_error err"
  shows "cw_failed (fst (handleS (on_library env a m) (enrollment_failed env a kind earlier reason stored) k w)) = cw_failed w"
  using assms
  by (auto simp: handleS_def on_library_def enrollment_failed_def interrupted_note_def add_note_def event_def
      happens_def bindS_def raiseS_def library_keeps_failed split: option.splits)

lemma pure_checks_refuse_nothing:
  assumes "bindE (device_name_set name) (\<lambda>_. bindE (check_device_id device_id) (\<lambda>_.
    bindE (key_pair_from_private_key lib server_key) (\<lambda>_. Inr ()))) = Inl err"
  shows "\<not> is_operation_error err"
  using assms
  by (auto simp: bindE_eq_Inl device_name_set_def write_string_def check_device_id_def key_pair_from_private_key_def
      load_private_key_def raise_if_def write_bytes_def ascii_error_def is_operation_error_def Let_def
      split: if_splits option.splits)

lemma enroll_login_fails:
  assumes "authenticate_owner lib ch DEFAULT_OWNER_CREDENTIAL w0 = (u, Inl err)"
    and "\<not> is_operation_error err"
  shows "\<exists>u d. enroll lib ch name save device_id server_key now update_key w0 = (u, Inl (Raised d))
    \<and> \<not> is_operation_error d"
proof -
  let ?pure = "bindE (device_name_set name) (\<lambda>_. bindE (check_device_id device_id) (\<lambda>_.
    bindE (key_pair_from_private_key lib server_key) (\<lambda>_. Inr ())))"
  show ?thesis
  proof (cases ?pure)
    case (Inl d)
    show ?thesis unfolding enroll_def bind_liftE(1) [OF Inl] using pure_checks_refuse_nothing [OF Inl] by blast
  next
    case (Inr x)
    then show ?thesis
      unfolding enroll_def bind_liftE(2) [OF Inr]
      using assms bind_mapErr(1) [where m = "authenticate_owner lib ch DEFAULT_OWNER_CREDENTIAL" and w = w0, OF assms(1)]
      by auto
  qed
qed

lemma resume_login_fails:
  assumes "enrollment_credential e = Inr cred" "authenticate_owner lib ch cred w0 = (u, Inl err)"
    and "\<not> is_operation_error err" "\<not> enrollment_complete e"
  shows "\<exists>u. resume_enrollment lib ch e save now w0 = (u, Inl (Raised err))"
proof -
  have "\<not> is_security_error err" using assms(3) by (cases err) (auto simp: is_security_error_def is_operation_error_def)
  then have "log_in_to_resume lib ch e w0 = (u, Inl err)"
    using assms(1,2) by (simp add: log_in_to_resume_def bindS_def liftE_def tryS_def raiseS_def)
  then show ?thesis using assms(4) by (auto simp: resume_enrollment_def bind_mapErr(1))
qed

text \<open>
  C23: enroll and resume do not count a login that times out, though login does. On any open
  session whose lock ends the login with an error of the library that is not a refusal, a
  timeout or a lost link, the same credential leaves one line behind in \<open>log_in\<close>, and none in an
  enrollment with the factory credential, nor in the resumption of an enrollment that logs in with it.
\<close>

theorem enroll_timeout_uncounted:
  assumes "authenticate_owner (ce_lib env) (ce_channel env) cred \<lparr>ew_channel = cw_link w, ew_trace = []\<rparr> = (u, Inl err)"
    and "is_ble_error err" "\<not> is_operation_error err"
    and "\<And>tr line. ce_disk env tr (FailedLogin line)"
  shows "length (cw_failed (fst (log_in env (ca_address args) \<lparr>lg_credential = cred, lg_kind = kind, lg_stored = stored\<rparr> w)))
      = Suc (length (cw_failed w))
    \<and> (cred = DEFAULT_OWNER_CREDENTIAL \<longrightarrow> cw_failed (fst (enroll_library env args name w)) = cw_failed w)
    \<and> (enrollment_credential e = Inr cred \<longrightarrow> \<not> enrollment_complete e \<longrightarrow>
        cw_failed (fst (resume_library env args e w)) = cw_failed w)"
proof (intro conjI impI)
  let ?l = "\<lparr>lg_credential = cred, lg_kind = kind, lg_stored = stored\<rparr>"
  obtain w' r where run: "log_in env (ca_address args) ?l w = (w', r)" by fastforce
  have "\<exists>line. cw_failed w' = cw_failed w @ [line]"
    using login_leaves_line [of env ?l w err "ca_address args" w' r] assms run by auto
  then show "length (cw_failed (fst (log_in env (ca_address args) ?l w))) = Suc (length (cw_failed w))"
    using run by auto
next
  assume "cred = DEFAULT_OWNER_CREDENTIAL"
  then show "cw_failed (fst (enroll_library env args name w)) = cw_failed w"
    unfolding enroll_library_def using enroll_login_fails assms(1,3) unrefused_leaves_no_line by metis
next
  assume e: "enrollment_credential e = Inr cred" "\<not> enrollment_complete e"
  show "cw_failed (fst (resume_library env args e w)) = cw_failed w"
    unfolding resume_library_def
    using resume_login_fails [OF e(1) assms(1,3) e(2)] assms(3) unrefused_leaves_no_line by metis
qed

section \<open>Witnesses\<close>

lemma sends_begin_links: "sends_begin w \<Longrightarrow> links (cw_trace w) \<noteq> []"
proof -
  assume "sends_begin w"
  then obtain x where x: "x \<in> set (cw_trace w)" "case x of Command c \<Rightarrow> cp_id c = CMD_USER_AUTH_BEGIN | _ \<Rightarrow> False"
    by (auto simp: sends_begin_def list_ex_iff)
  from x(2) obtain c where "x = Command c" by (cases x; simp)
  with x(1) have "Command c \<in> set (cw_trace w)" by simp
  then have "Command c \<in> set (links (cw_trace w))" by (simp add: links_def)
  then show ?thesis by auto
qed

theorem one_session_per_command_witness:
  "\<exists>w' sent. main_code example_cli (example_args ''enroll'' True) (example_world False []) = Some (w', EXIT_FAILED)
     \<and> links (cw_trace w') = Opened ''aa:bb'' # map Command sent @ [LetGo]
     \<and> CMD_FACTORY_RESET_MODULE \<notin> cp_id ` set sent"
proof -
  obtain w' r where run: "cmd_enroll example_cli (example_args ''enroll'' True) (example_world False []) = (w', r)"
    by fastforce
  have w': "exit_code_of r = EXIT_FAILED" "sends_begin w'" using example_runs(2) by (simp_all add: run)
  then have m: "main_code example_cli (example_args ''enroll'' True) (example_world False []) = Some (w', EXIT_FAILED)"
    using run by (simp add: main_commands example_args_def)
  from one_session_per_command [OF m] have "links (cw_trace w') = []
      \<or> (\<exists>sent. links (cw_trace w') = Opened ''aa:bb'' # map Command sent @ [LetGo]
          \<and> (\<forall>c \<in> set sent. cp_id c \<in> ENROLL_COMMANDS))"
    by (auto simp: example_world_def example_args_def allowed_commands_def)
  then obtain sent where sent: "links (cw_trace w') = Opened ''aa:bb'' # map Command sent @ [LetGo]"
      "\<forall>c \<in> set sent. cp_id c \<in> ENROLL_COMMANDS"
    using sends_begin_links [OF w'(2)] by blast
  then have "CMD_FACTORY_RESET_MODULE \<notin> cp_id ` set sent" by (auto simp: ENROLL_COMMANDS_def)
  then show ?thesis using m sent(1) by blast
qed

theorem unconfirmed_does_nothing_witness:
  "unconfirmed (example_args ''operate'' False)
   \<and> main_code example_cli (example_args ''operate'' False) (example_world True [])
       = Some (example_world True [], EXIT_REFUSED)"
proof -
  let ?a = "example_args ''operate'' False" and ?w = "example_world True []"
  have u: "unconfirmed ?a" by (simp add: unconfirmed_def example_args_def)
  obtain w' r where run: "cmd_operate example_cli ?a ?w = (w', r)" by fastforce
  have m: "main_code example_cli ?a ?w = Some (w', EXIT_REFUSED)"
    using example_runs(3) run by (simp add: main_commands example_args_def)
  from unconfirmed_does_nothing [OF u m] show ?thesis using m u by simp
qed

definition example_failure :: failed_line where
  "example_failure = LoginLine (Aware 1000000000000000) ''AA:BB'' ''factory'' (FailedStatus 10)"

theorem spent_budget_stops_logins_witness:
  "\<exists>w' code tr. main_code (example_cli\<lparr>ce_clock := \<lambda>_. 1000000000000000\<rparr>) (example_args ''login'' True)
         (example_world True [example_failure, example_failure]) = Some (w', code)
     \<and> cw_trace w' = tr \<and> links tr = []"
proof -
  let ?e = "example_cli\<lparr>ce_clock := \<lambda>_. 1000000000000000\<rparr>" and ?a = "example_args ''login'' True"
    and ?w = "example_world True [example_failure, example_failure]"
  have s: "same_lock_address ''AA:BB'' ''aa:bb''" by code_simp
  have b: "budget_spent ?e ?a ?w"
    by (simp add: budget_spent_def example_args_def example_world_def example_failure_def s)
  obtain w' code where m: "main_code ?e ?a ?w = Some (w', code)"
    by (cases "cmd_login ?e ?a ?w") (auto simp: main_commands example_args_def)
  show ?thesis
    using spent_budget_stops_logins [OF b _ m] m
    by (simp add: example_args_def login_subcommands_def example_world_def)
qed

theorem enroll_timeout_uncounted_witness:
  "length (cw_failed (fst (log_in example_cli ''aa:bb'' \<lparr>lg_credential = DEFAULT_OWNER_CREDENTIAL, lg_kind = ''factory'',
       lg_stored = None\<rparr> (example_world False [])))) = 1
   \<and> cw_failed (fst (enroll_library example_cli (example_args ''enroll'' True) ''door'' (example_world False []))) = []"
proof -
  obtain u r where u: "authenticate_owner (ce_lib example_cli) (ce_channel example_cli) DEFAULT_OWNER_CREDENTIAL
      \<lparr>ew_channel = cw_link (example_world False []), ew_trace = []\<rparr> = (u, r)" by fastforce
  have "snd (authenticate_owner (ce_lib example_cli) (ce_channel example_cli) DEFAULT_OWNER_CREDENTIAL
      \<lparr>ew_channel = cw_link (example_world False []), ew_trace = []\<rparr>) = Inl (BleTimeoutError (''no answer'', []))"
    by code_simp
  with u have u: "authenticate_owner (ce_lib example_cli) (ce_channel example_cli) DEFAULT_OWNER_CREDENTIAL
      \<lparr>ew_channel = cw_link (example_world False []), ew_trace = []\<rparr> = (u, Inl (BleTimeoutError (''no answer'', [])))"
    by simp
  have a: "ca_address (example_args ''enroll'' True) = ''aa:bb''" "cw_failed (example_world False []) = []"
    by (simp_all add: example_args_def example_world_def)
  from enroll_timeout_uncounted [OF u, of "example_args ''enroll'' True" "''factory''" None "''door''"] a show ?thesis
    by (simp add: is_ble_error_def is_operation_error_def example_cli_def env_on_def)
qed

theorem failed_login_counts_witness:
  "\<exists>w' r. log_in example_cli ''aa:bb'' \<lparr>lg_credential = DEFAULT_OWNER_CREDENTIAL, lg_kind = ''factory'', lg_stored = None\<rparr>
       (example_world False []) = (w', Inl r) \<and> length (cw_failed w') = 1"
proof -
  let ?l = "\<lparr>lg_credential = DEFAULT_OWNER_CREDENTIAL, lg_kind = ''factory'', lg_stored = None\<rparr> :: login"
  have l: "snd (authenticate_owner (ce_lib example_cli) (ce_channel example_cli) (lg_credential ?l)
      \<lparr>ew_channel = cw_link (example_world False []), ew_trace = []\<rparr>) = Inl (BleTimeoutError (''no answer'', []))"
    by code_simp
  obtain w' r where run: "log_in example_cli ''aa:bb'' ?l (example_world False []) = (w', r)" by fastforce
  from failed_login_counts [OF l _ _ run] have "(\<exists>err. r = Inl err) \<and> length (cw_failed w') = 1"
    by (auto simp: is_ble_error_def example_cli_def env_on_def example_world_def)
  then show ?thesis using run by blast
qed

end
