(* ===== verification/Ble_Cli_Keys.thy ===== *)
theory Ble_Cli_Keys
  imports Ble_Cli_Props
begin

text \<open>
  Where an enrollment's key is: what the state files hold after the writes of a run of
  \<^verbatim>\<open>enroll\<close>, what may be read from them, and that a watch ends.
\<close>

section \<open>Reading back a state file\<close>

text \<open>
  C34: what is read is well formed. Whatever stands in the state files, written by this tool or
  edited, a stored lock that loads has the path that was read and an enrollment that passes
  every check of its constructor, so that its credential exists.
\<close>

theorem loaded_is_wellformed:
  assumes "load_stored lib files path = Inr stored"
  shows "sl_path stored = path \<and> enrollment_check lib (sl_enrollment stored) = Inr ()
    \<and> (\<exists>cred. enrollment_credential (sl_enrollment stored) = Inr cred)"
proof -
  have "\<exists>d. sl_path stored = path \<and> stored_enrollment (lib) d = Inr (sl_enrollment stored)"
    using assms
    by (auto simp: load_stored_def load_data_def Let_def bindE_eq_Inr
        split: option.splits file_content.splits py.splits sum.splits if_splits)
  then obtain d where d: "sl_path stored = path" "stored_enrollment lib d = Inr (sl_enrollment stored)" by blast
  then have ok: "enrollment_check lib (sl_enrollment stored) = Inr ()"
    by (auto simp: stored_enrollment_def enrollment_from_dict_def bindE_eq_Inr mk_enrollment_Inr
        split: py.splits if_splits)
  then have "\<exists>cred. enrollment_credential (sl_enrollment stored) = Inr cred"
    by (auto simp: enrollment_check_def enrollment_credential_def bindE_eq_Inr mk_owner_credential_def
        DEFAULT_DEVICE_ID_def)
  then show ?thesis using d(1) ok by blast
qed

theorem loaded_is_wellformed_witness:
  "\<exists>stored. load_stored small_lib (save_file id (example_enrollment {OWNER_KEY, CLOCK}) (Some ''AA'') [] [])
       (path_for id (example_enrollment {OWNER_KEY, CLOCK})) = Inr stored
     \<and> (\<exists>cred. enrollment_credential (sl_enrollment stored) = Inr cred)"
proof -
  let ?s = "\<lparr>sl_path = path_for id (example_enrollment {OWNER_KEY, CLOCK}),
    sl_enrollment = example_enrollment {OWNER_KEY, CLOCK}, sl_address = Some ''AA''\<rparr>"
  have l: "load_stored small_lib (save_file id (example_enrollment {OWNER_KEY, CLOCK}) (Some ''AA'') [] [])
      (path_for id (example_enrollment {OWNER_KEY, CLOCK})) = Inr ?s"
    by (rule load_saved [OF example_resumes(1)])
  from loaded_is_wellformed [OF l] l show ?thesis by blast
qed

section \<open>Writes and commands\<close>

fun write_event :: "cli_event \<Rightarrow> bool" where
  "write_event (Wrote e a ok) = True"
| "write_event (Command c) = True"
| "write_event _ = False"

definition acts :: "cli_event list \<Rightarrow> cli_event list" where
  "acts tr = filter write_event tr"

lemma acts_simps [simp]:
  "acts [] = []" "acts (xs @ ys) = acts xs @ acts ys"
  "acts (ev # tr) = (if write_event ev then ev # acts tr else acts tr)"
  by (simp_all add: acts_def)

text \<open>The writes of state files, in order, with the disk's answers.\<close>

fun written :: "cli_event list \<Rightarrow> (enrollment \<times> bool) list" where
  "written [] = []"
| "written (Wrote e a ok # tr) = (e, ok) # written tr"
| "written (ev # tr) = written tr"

text \<open>A step of the enrollment goes out only while the last write went through.\<close>

fun steps_after_writes :: "bool \<Rightarrow> cli_event list \<Rightarrow> bool" where
  "steps_after_writes ok [] = True"
| "steps_after_writes ok (Wrote e a ok' # tr) = steps_after_writes ok' tr"
| "steps_after_writes ok (Command c # tr) = ((cp_id c \<in> STEP_COMMANDS \<longrightarrow> ok) \<and> steps_after_writes ok tr)"
| "steps_after_writes ok (ev # tr) = steps_after_writes ok tr"

lemma written_acts [simp]: "written (acts tr) = written tr"
  by (induction tr rule: written.induct) auto

lemma steps_acts [simp]: "steps_after_writes ok (acts tr) = steps_after_writes ok tr"
  by (induction ok tr rule: steps_after_writes.induct) auto

lemma written_append [simp]: "written (xs @ ys) = written xs @ written ys"
  by (induction xs rule: written.induct) auto

text \<open>Steps that neither write a state file nor hand over a command.\<close>

definition still :: "('s cli_world \<Rightarrow> 's cli_world \<times> 'r) \<Rightarrow> bool" where
  "still m \<longleftrightarrow> (\<forall>w. cw_files (fst (m w)) = cw_files w
     \<and> (\<exists>tr. cw_trace (fst (m w)) = cw_trace w @ tr \<and> acts tr = []))"

lemma stillD:
  "still m \<Longrightarrow> m w = (w', r) \<Longrightarrow>
     cw_files w' = cw_files w \<and> (\<exists>tr. cw_trace w' = cw_trace w @ tr \<and> acts tr = [])"
  unfolding still_def by (metis fst_conv)

lemma stillI:
  "(\<And>w w' r. m w = (w', r) \<Longrightarrow>
      cw_files w' = cw_files w \<and> (\<exists>tr. cw_trace w' = cw_trace w @ tr \<and> acts tr = [])) \<Longrightarrow> still m"
  unfolding still_def by (metis prod.collapse)

named_theorems still_intros \<open>steps that write nothing\<close>

lemma still_basic [still_intros]:
  "still (returnS x)" "still (raiseS e)" "still (refuse reason code)" "still (ask g)" "still (on_link f)"
  "still (on_session f')" "still (add_note ev fs)"
  by (auto simp: still_def returnS_def raiseS_def refuse_def ask_def on_link_def on_session_def
      add_note_def event_def happens_def Let_def split: prod.splits)

lemma still_event [still_intros]: "\<not> write_event ev \<Longrightarrow> still (event ev)"
  by (auto simp: still_def event_def happens_def)

lemma still_bind [still_intros]:
  assumes "still m" "\<And>x. still (f x)"
  shows "still (bindS m f)"
proof (rule stillI)
  fix w w' r assume run: "bindS m f w = (w', r)"
  obtain v q where m: "m w = (v, q)" by fastforce
  obtain tr where tr: "cw_files v = cw_files w" "cw_trace v = cw_trace w @ tr" "acts tr = []"
    using stillD [OF assms(1) m] by blast
  show "cw_files w' = cw_files w \<and> (\<exists>tr. cw_trace w' = cw_trace w @ tr \<and> acts tr = [])"
  proof (cases q)
    case (Inl e)
    then show ?thesis using run m tr by (auto simp: effect_simps)
  next
    case (Inr x)
    then have "f x v = (w', r)" using run m by (simp add: effect_simps)
    from stillD [OF assms(2) this] obtain tr' where
      "cw_files w' = cw_files v" "cw_trace w' = cw_trace v @ tr'" "acts tr' = []" by blast
    then show ?thesis using tr by (auto intro!: exI [of _ "tr @ tr'"])
  qed
qed

lemma still_try [still_intros]:
  assumes "still m" "\<And>e. still (h e)"
  shows "still (tryS m h)"
proof (rule stillI)
  fix w w' r assume run: "tryS m h w = (w', r)"
  obtain v q where m: "m w = (v, q)" by fastforce
  obtain tr where tr: "cw_files v = cw_files w" "cw_trace v = cw_trace w @ tr" "acts tr = []"
    using stillD [OF assms(1) m] by blast
  show "cw_files w' = cw_files w \<and> (\<exists>tr. cw_trace w' = cw_trace w @ tr \<and> acts tr = [])"
  proof (cases q)
    case (Inr x)
    then show ?thesis using run m tr by (auto simp: effect_simps)
  next
    case (Inl e)
    then have "h e v = (w', r)" using run m by (simp add: effect_simps)
    from stillD [OF assms(2) this] obtain tr' where
      "cw_files w' = cw_files v" "cw_trace w' = cw_trace v @ tr'" "acts tr' = []" by blast
    then show ?thesis using tr by (auto intro!: exI [of _ "tr @ tr'"])
  qed
qed

lemma still_finally [still_intros]:
  assumes "still m" "still f"
  shows "still (finallyS m f)"
proof (rule stillI)
  fix w w' r assume run: "finallyS m f w = (w', r)"
  obtain v q where m: "m w = (v, q)" by fastforce
  obtain u p where f: "f v = (u, p)" by fastforce
  have "w' = u" using run m f by (auto simp: finallyS_def split: sum.splits)
  then show "cw_files w' = cw_files w \<and> (\<exists>tr. cw_trace w' = cw_trace w @ tr \<and> acts tr = [])"
    using stillD [OF assms(1) m] stillD [OF assms(2) f] by (metis acts_simps(1,2) append.assoc append_Nil)
qed

lemma still_session_parts [still_intros]:
  "still (trace_link_keys env args)" "still (note_session env)" "still (let_go env)"
proof -
  show "still (trace_link_keys env args)"
    by (auto simp: still_def trace_link_keys_def returnS_def raiseS_def add_note_def event_def
        happens_def split: sum.split)
  show "still (note_session env)" "still (let_go env)"
    unfolding note_session_def let_go_def by (intro still_intros; simp)+
qed

lemma bindS_assoc: "bindS (bindS m f) g = bindS m (\<lambda>x. bindS (f x) g)"
  by (auto simp: bindS_def fun_eq_iff split: prod.splits sum.splits)

text \<open>A session adds nothing to what its body writes and sends, and a body that runs is whole.\<close>

lemma session_body:
  assumes "with_session env args a body w = (w', r)"
  shows "(cw_files w' = cw_files w \<and> (\<exists>tr. cw_trace w' = cw_trace w @ tr \<and> acts tr = []))
    \<or> (\<exists>v v' q pre post. body v = (v', q) \<and> cw_files v = cw_files w \<and> cw_files w' = cw_files v'
        \<and> cw_trace v = cw_trace w @ pre \<and> cw_trace w' = cw_trace v' @ post \<and> acts pre = [] \<and> acts post = [])"
proof -
  define start :: "('a, unit) cli" where
    "start = bindS (on_link (ce_open env a)) (\<lambda>_. bindS (event (Opened a)) (\<lambda>_.
       bindS (ask (\<lambda>w. Inr (ce_mtu env (cw_link w)))) (\<lambda>mtu.
       bindS (add_note ''connected'' [(''address'', TText a),
                (''mtu'', case mtu of None \<Rightarrow> TNone | Some m \<Rightarrow> TInt m)]) (\<lambda>_.
       tryS (on_session (ce_factory env)) (\<lambda>err.
         bindS (event LetGo) (\<lambda>_. bindS (on_session (ce_drop env)) (\<lambda>_. raiseS err)))))))"
  define greet :: "('a, unit) cli" where
    "greet = bindS (finallyS (on_session (ce_connect env)) (trace_link_keys env args)) (\<lambda>_. note_session env)"
  have still: "still start" "still greet" unfolding start_def greet_def by (intro still_intros; simp)+
  have "with_session env args a body = bindS start (\<lambda>_. finallyS (bindS greet (\<lambda>_. body)) (let_go env))"
    by (simp add: with_session_def start_def greet_def bindS_assoc)
  with assms have run: "bindS start (\<lambda>_. finallyS (bindS greet (\<lambda>_. body)) (let_go env)) w = (w', r)" by simp
  obtain s sr where s: "start w = (s, sr)" by fastforce
  obtain ts where ts: "cw_files s = cw_files w" "cw_trace s = cw_trace w @ ts" "acts ts = []"
    using stillD [OF still(1) s] by blast
  show ?thesis
  proof (cases sr)
    case (Inl e)
    then show ?thesis using run s ts by (auto simp: effect_simps)
  next
    case (Inr u)
    then have fin: "finallyS (bindS greet (\<lambda>_. body)) (let_go env) s = (w', r)" using run s by (simp add: effect_simps)
    obtain m mr where m: "bindS greet (\<lambda>_. body) s = (m, mr)" by fastforce
    obtain l lr where l: "let_go env m = (l, lr)" by fastforce
    have "w' = l" using fin m l by (auto simp: finallyS_def split: sum.splits)
    with stillD [OF still_session_parts(3) l] obtain tl where
      tl: "cw_files w' = cw_files m" "cw_trace w' = cw_trace m @ tl" "acts tl = []" by blast
    obtain g gr where g: "greet s = (g, gr)" by fastforce
    obtain tg where tg: "cw_files g = cw_files s" "cw_trace g = cw_trace s @ tg" "acts tg = []"
      using stillD [OF still(2) g] by blast
    show ?thesis
    proof (cases gr)
      case (Inl e)
      then have "m = g" using m g by (simp add: effect_simps)
      then show ?thesis using ts tg tl by auto
    next
      case (Inr u')
      then have b: "body g = (m, mr)" using m g by (simp add: effect_simps)
      show ?thesis
        by (rule disjI2, rule exI [of _ g], rule exI [of _ m], rule exI [of _ mr],
            rule exI [of _ "ts @ tg"], rule exI [of _ tl]) (simp add: b ts tg tl)
    qed
  qed
qed

section \<open>What the library saves\<close>

definition saves :: "enroll_event list \<Rightarrow> (enrollment \<times> bool) list" where
  "saves tr = concat (map (\<lambda>x. case x of Saved e ok \<Rightarrow> [(e, ok)] | _ \<Rightarrow> []) tr)"

lemma saves_simps [simp]:
  "saves [] = []" "saves (Sent c # tr) = saves tr" "saves (Saved e ok # tr) = (e, ok) # saves tr"
  "saves (xs @ ys) = saves xs @ saves ys"
  by (simp_all add: saves_def)

text \<open>
  All of its saves went through, but the last one of a run that ends unsaved; what it saves
  passes the checks of its constructor.
\<close>

definition saves_end :: "crypto_lib \<Rightarrow> enroll_error + 'a \<Rightarrow> enroll_event list \<Rightarrow> bool" where
  "saves_end lib r tr \<longleftrightarrow> (\<forall>(e, ok) \<in> set (saves tr). enrollment_check lib e = Inr ())
     \<and> (case r of
          Inl (EnrollmentNotSaved step e) \<Rightarrow> \<exists>pre. tr = pre @ [Saved e False] \<and> (\<forall>(e, ok) \<in> set (saves pre). ok)
        | _ \<Rightarrow> \<forall>(e, ok) \<in> set (saves tr). ok)"

lemma run_step_checked: "run_step lib ch now e step w = (w', Inr e') \<Longrightarrow> enrollment_check lib e' = Inr ()"
  by (auto simp: run_step_def Let_def effect_eqs liftE_def mk_enrollment_Inr split: if_splits)

lemma no_saves: "\<forall>x \<in> set tr. \<exists>c. x = Sent c \<Longrightarrow> saves tr = []"
  by (induction tr) auto

lemma step_no_saves:
  assumes "run_step lib ch now e step w = (w', r)"
  shows "\<exists>tr. ew_trace w' = ew_trace w @ tr \<and> saves tr = []"
proof -
  have send: "\<exists>tr. ew_trace v' = ew_trace v @ tr \<and> saves tr = []" if "channel_send ch c v = (v', q)" for c v v' q
    using channel_send_trace [OF that] by auto
  show ?thesis
    using assms
    by (cases r) (auto simp: run_step_def Let_def effect_eqs liftE_def split: if_splits dest: send)
qed

lemma saves_end_cons:
  "saves_end lib r (tr @ Saved e True # tr')
     \<longleftrightarrow> saves tr = [] \<and> enrollment_check lib e = Inr () \<and> saves_end lib r tr'" if "saves tr = []"
proof -
  have "(\<exists>pre. tr @ Saved e True # tr' = pre @ [Saved d False] \<and> (\<forall>(e, ok) \<in> set (saves pre). ok))
    = (\<exists>pre. tr' = pre @ [Saved d False] \<and> (\<forall>(e, ok) \<in> set (saves pre). ok))" for d
  proof (cases tr' rule: rev_cases)
    case Nil
    then show ?thesis by auto
  next
    case (snoc ys y)
    then have "tr @ Saved e True # tr' = (tr @ Saved e True # ys) @ [y]" by simp
    then show ?thesis using that snoc by auto
  qed
  then show ?thesis
    using that by (auto simp: saves_end_def split: sum.split enroll_error.split)
qed

lemma run_steps_saves:
  "run_steps lib ch now save e steps w = (w', r) \<Longrightarrow> \<exists>tr. ew_trace w' = ew_trace w @ tr \<and> saves_end lib r tr"
proof (induction steps arbitrary: e w)
  case Nil
  then show ?case by (auto simp: returnS_def saves_end_def)
next
  case (Cons step steps)
  obtain v q where step: "run_step lib ch now e step w = (v, q)" by fastforce
  obtain tr where tr: "ew_trace v = ew_trace w @ tr" "saves tr = []" using step_no_saves [OF step] by blast
  show ?case
  proof (cases q)
    case (Inl err)
    then have "w' = v" "r = Inl (if is_ble_error err then EnrollmentStopped step (Some e) err else Raised err)"
      using Cons.prems step by (simp_all add: bind_mapErr)
    then show ?thesis using tr by (auto simp: saves_end_def)
  next
    case (Inr e')
    let ?u = "v\<lparr>ew_trace := ew_trace v @ [Saved e' (save e')]\<rparr>"
    have run: "bindS (save_enrollment save step e') (\<lambda>_. run_steps lib ch now save e' steps) v = (w', r)"
      using Cons.prems step Inr by (simp add: bind_mapErr)
    have ok: "enrollment_check lib e' = Inr ()" using run_step_checked step Inr by blast
    show ?thesis
    proof (cases "save e'")
      case False
      then have "w' = ?u" "r = Inl (EnrollmentNotSaved step e')"
        using run by (simp_all add: save_enrollment_def bindS_def)
      then show ?thesis
        using tr ok False by (auto simp: saves_end_def intro!: exI [of _ "tr @ [Saved e' False]"])
    next
      case True
      then have "run_steps lib ch now save e' steps ?u = (w', r)"
        using run by (simp add: save_enrollment_def bindS_def)
      from Cons.IH [OF this] obtain tr' where "ew_trace w' = ew_trace ?u @ tr'" "saves_end lib r tr'" by blast
      then show ?thesis
        using tr ok True saves_end_cons [OF tr(2)] by (auto intro!: exI [of _ "tr @ Saved e' True # tr'"])
    qed
  qed
qed

text \<open>A whole enrollment: login and key exchange first, then the first save, then the steps.\<close>

definition enroll_shape :: "crypto_lib \<Rightarrow> enroll_error + 'a \<Rightarrow> enroll_event list \<Rightarrow> bool" where
  "enroll_shape lib r tr \<longleftrightarrow> saves_end lib r tr
     \<and> (\<exists>pre post. tr = pre @ post \<and> saves pre = [] \<and> set (sent_ids pre) \<inter> STEP_COMMANDS = {}
          \<and> (post = [] \<or> (\<exists>e ok rest. post = Saved e ok # rest)))"

lemma enroll_shapeI:
  "saves_end lib r tr \<Longrightarrow> tr = pre @ Saved e ok # rest \<Longrightarrow> saves pre = []
     \<Longrightarrow> set (sent_ids pre) \<inter> STEP_COMMANDS = {} \<Longrightarrow> enroll_shape lib r tr"
  unfolding enroll_shape_def by (intro conjI exI [of _ pre] exI [of _ "Saved e ok # rest"]) auto

lemma enroll_saves:
  assumes "enroll lib ch name save device_id server_key now update_key \<lparr>ew_channel = s, ew_trace = []\<rparr> = (w, r)"
  shows "enroll_shape lib r (ew_trace w)"
proof -
  have login: "saves tr = [] \<and> set (sent_ids tr) \<inter> STEP_COMMANDS = {}"
    if "authenticate_owner lib ch cred \<lparr>ew_channel = s, ew_trace = []\<rparr> = (v, q)" "ew_trace v = tr" for cred v q tr
    using login_trace [OF that(1)] that(2) no_saves by fastforce
  have key: "saves (ew_trace v') = [] \<and> set (sent_ids (ew_trace v')) \<inter> STEP_COMMANDS = {}"
    if k: "authenticate_owner lib ch cred \<lparr>ew_channel = s, ew_trace = []\<rparr> = (v, p)"
      "enroll_owner_key lib ch update_key v = (v', q)" for cred v v' p q
  proof -
    obtain tr where "ew_trace v' = ew_trace v @ tr" "saves tr = []" "set (sent_ids tr) \<inter> STEP_COMMANDS = {}"
      using owner_key_trace [OF k(2)] by auto
    moreover have "saves (ew_trace v) = []" "set (sent_ids (ew_trace v)) \<inter> STEP_COMMANDS = {}"
      using login [OF k(1) refl] by simp_all
    ultimately show ?thesis by auto
  qed
  have quiet: "enroll_shape lib r (ew_trace w)"
    if "saves (ew_trace w) = []" "set (sent_ids (ew_trace w)) \<inter> STEP_COMMANDS = {}" "\<forall>step e. r \<noteq> Inl (EnrollmentNotSaved step e)"
    using that by (auto simp: enroll_shape_def saves_end_def split: sum.split enroll_error.split)
  show ?thesis
    using enroll_phases [OF assms]
  proof (elim disjE exE conjE, goal_cases)
    case (1 d)
    then show ?case using quiet by simp
  next
    case (2 d)
    then show ?case using quiet login [OF 2(2) refl] by simp
  next
    case (3 w1 d)
    then show ?case using quiet key [OF 3(1,2)] by simp
  next
    case (4 w1 w2 ok lk d)
    then show ?case using quiet key [OF 4(1,2)] by simp
  next
    case (5 w1 w2 ok lk e)
    have pre: "saves (ew_trace w2) = []" "set (sent_ids (ew_trace w2)) \<inter> STEP_COMMANDS = {}"
      using key [OF 5(1,2)] by simp_all
    show ?case
    proof (cases "save e")
      case False
      then have "ew_trace w = ew_trace w2 @ [Saved e False]" "r = Inl (EnrollmentNotSaved OWNER_KEY e)"
        using 5(8) by (auto simp: save_enrollment_def bindS_def)
      moreover from this have "saves_end lib r (ew_trace w)" using pre(1) 5(3) by (auto simp: saves_end_def)
      ultimately show ?thesis using pre by (intro enroll_shapeI [where rest = "[]" and e = e and ok = False]) simp_all
    next
      case True
      then have "run_remaining lib ch now save e (w2\<lparr>ew_trace := ew_trace w2 @ [Saved e True]\<rparr>) = (w, r)"
        using 5(8) by (simp add: save_enrollment_def bindS_def)
      then obtain tr where "ew_trace w = ew_trace w2 @ Saved e True # tr" "saves_end lib r tr"
        using run_steps_saves [of lib ch now save e] by (fastforce simp: run_remaining_def)
      then show ?thesis
        using pre 5(3) by (intro enroll_shapeI) (simp_all add: saves_end_cons [OF pre(1)])
    qed
  qed
qed

section \<open>The newest key\<close>

text \<open>The trace of the command line has the library's saves and commands in their order.\<close>

fun act_of :: "string \<Rightarrow> enroll_event \<Rightarrow> cli_event" where
  "act_of a (Sent c) = Command c"
| "act_of a (Saved e ok) = Wrote e (Some a) ok"

lemma library_acts:
  "\<exists>t. cw_trace (fold (library_event env a) tr w) = cw_trace w @ t \<and> acts t = map (act_of a) tr"
proof (induction tr arbitrary: w)
  case (Cons ev tr)
  have "\<exists>t. cw_trace (library_event env a ev w) = cw_trace w @ t \<and> acts t = [act_of a ev]"
    by (cases ev) (auto simp: happens_def put_state_def Let_def)
  moreover obtain t' where "cw_trace (fold (library_event env a) tr (library_event env a ev w))
      = cw_trace (library_event env a ev w) @ t'" "acts t' = map (act_of a) tr"
    using Cons.IH by blast
  ultimately show ?case by (fastforce simp: acts_def)
qed simp

lemma written_lib: "written (map (act_of a) tr) = saves tr"
proof (induction tr)
  case (Cons ev tr)
  then show ?case by (cases ev) simp_all
qed simp

text \<open>A file that was written holds what was written last.\<close>

definition holds_newest :: "'s cli_env \<Rightarrow> string \<Rightarrow> state_files \<Rightarrow> enrollment \<Rightarrow> bool" where
  "holds_newest env a files e \<longleftrightarrow>
     load_stored (ce_lib env) files (path_for (ce_sha256 env) e)
       = Inr \<lparr>sl_path = path_for (ce_sha256 env) e, sl_enrollment = e, sl_address = Some a\<rparr>"

lemma put_state_holds:
  "enrollment_check (ce_lib env) e = Inr () \<Longrightarrow> holds_newest env a (cw_files (put_state env e (Some a) True w)) e"
  by (simp add: holds_newest_def put_state_def happens_def load_saved)

text \<open>What the library's run does to the files is one save after another.\<close>

lemma library_writes:
  "\<exists>vs. cw_files (fold (library_event env a) tr w)
       = fold (\<lambda>(e, a, s). save_file (ce_sha256 env) e (Some a) s) vs (cw_files w)
     \<and> map fst vs = map fst (filter snd (saves tr)) \<and> (\<forall>v \<in> set vs. fst (snd v) = a)"
proof (induction tr rule: rev_induct)
  case (snoc ev tr)
  then obtain vs where vs: "cw_files (fold (library_event env a) tr w)
       = fold (\<lambda>(e, a, s). save_file (ce_sha256 env) e (Some a) s) vs (cw_files w)"
      "map fst vs = map fst (filter snd (saves tr))" "\<forall>v \<in> set vs. fst (snd v) = a"
    by blast
  show ?case
  proof (cases "\<exists>e. ev = Saved e True")
    case True
    then obtain e where ev: "ev = Saved e True" by blast
    let ?u = "fold (library_event env a) tr w"
    show ?thesis
      by (rule exI [of _ "vs @ [(e, a, ce_iso env (now_at env ?u))]"])
        (use vs in \<open>simp add: ev happens_def put_state_def Let_def\<close>)
  next
    case False
    then have "cw_files (library_event env a ev (fold (library_event env a) tr w)) = cw_files (fold (library_event env a) tr w)"
      "filter snd (saves (tr @ [ev])) = filter snd (saves tr)"
      by (cases ev; auto simp: happens_def put_state_def Let_def)+
    then show ?thesis using vs by (intro exI [of _ vs]) simp
  qed
qed simp

lemma library_files:
  assumes "saves tr = us @ [(e, True)]" "enrollment_check (ce_lib env) e = Inr ()"
  shows "holds_newest env a (cw_files (fold (library_event env a) tr w)) e"
proof -
  obtain vs where vs: "cw_files (fold (library_event env a) tr w)
       = fold (\<lambda>(e, a, s). save_file (ce_sha256 env) e (Some a) s) vs (cw_files w)"
      "map fst vs = map fst (filter snd us) @ [e]" "\<forall>v \<in> set vs. fst (snd v) = a"
    using library_writes [of env a tr w] assms(1) by auto
  then obtain us' v where v: "vs = us' @ [v]" "fst v = e" by (auto simp: map_eq_append_conv)
  with vs(3) obtain s where "v = (e, a, s)" by (cases v) auto
  have "load_stored (ce_lib env) (fold (\<lambda>(e, a, s). save_file (ce_sha256 env) e (Some a) s) (us' @ (e, a, s) # []) (cw_files w))
      ((\<lambda>(e, a, s). path_for (ce_sha256 env) e) (e, a, s))
    = (\<lambda>(e, a, s). Inr \<lparr>sl_path = path_for (ce_sha256 env) e, sl_enrollment = e, sl_address = Some a\<rparr>) (e, a, s)"
    by (rule lock_store.get_last) (simp_all add: assms(2))
  then show ?thesis unfolding holds_newest_def vs(1) by (simp add: v(1) \<open>v = (e, a, s)\<close>)
qed

text \<open>The file of another lock is as it was, whether it loads or not.\<close>

lemma library_spares_others:
  assumes "path \<notin> path_for (ce_sha256 env) ` fst ` set (saves tr)"
  shows "load_stored (ce_lib env) (cw_files (fold (library_event env a) tr w)) path = load_stored (ce_lib env) (cw_files w) path"
proof -
  obtain vs where vs: "cw_files (fold (library_event env a) tr w)
       = fold (\<lambda>(e, a, s). save_file (ce_sha256 env) e (Some a) s) vs (cw_files w)"
      "map fst vs = map fst (filter snd (saves tr))"
    using library_writes [of env a tr w] by blast
  have "fst ` set vs \<subseteq> fst ` set (saves tr)"
    using arg_cong [OF vs(2), of set] by auto
  then have "path \<notin> (\<lambda>(e, a, s). path_for (ce_sha256 env) e) ` set vs"
    using assms by (auto simp: case_prod_unfold)
  then show ?thesis unfolding vs(1) by (rule lock_store.get_others)
qed

lemma refused_files: "cw_files (fold (library_event env a) (tr @ [Saved e False]) w) = cw_files (fold (library_event env a) tr w)"
  by (simp add: put_state_def happens_def Let_def)

lemma steps_lib:
  assumes "enroll_shape lib r tr"
  shows "steps_after_writes False (map (act_of a) tr)"
proof -
  obtain pre post where tr: "tr = pre @ post" "saves pre = []" "set (sent_ids pre) \<inter> STEP_COMMANDS = {}"
      "post = [] \<or> (\<exists>e ok rest. post = Saved e ok # rest)" and ends: "saves_end lib r tr"
    using assms by (auto simp: enroll_shape_def simp del: saves_simps)
  have after: "steps_after_writes ok (map (act_of a) t)"
    if "ok" "\<forall>(e, ok) \<in> set (saves t). ok" for ok t
    using that
  proof (induction t arbitrary: ok)
    case (Cons ev t)
    then show ?case by (cases ev) auto
  qed simp
  have last_refused: "steps_after_writes ok (map (act_of a) (t @ [Saved e False]))"
    if "ok" "\<forall>(e, ok) \<in> set (saves t). ok" for ok t e
    using that
  proof (induction t arbitrary: ok)
    case (Cons ev t)
    then show ?case by (cases ev) auto
  qed simp
  have "(\<forall>(e, ok) \<in> set (saves tr). ok)
      \<or> (\<exists>p d. tr = p @ [Saved d False] \<and> (\<forall>(e, ok) \<in> set (saves p). ok))"
    using ends by (auto simp: saves_end_def split: sum.splits enroll_error.splits)
  then have rest: "steps_after_writes ok (map (act_of a) rest)" if post: "post = Saved e ok # rest" for e ok rest
  proof (elim disjE exE conjE)
    assume "\<forall>(e, ok) \<in> set (saves tr). ok"
    then show ?thesis using after tr(1) post by simp
  next
    fix p d assume p: "tr = p @ [Saved d False]" "\<forall>(e, ok) \<in> set (saves p). ok"
    show ?thesis
    proof (cases rest rule: rev_cases)
      case (snoc ys y)
      then have "p = pre @ Saved e ok # ys" "y = Saved d False" using tr(1) post p(1) by simp_all
      then show ?thesis using p(2) snoc last_refused by simp
    qed simp
  qed
  have before: "steps_after_writes False (map (act_of a) pre @ q) = steps_after_writes False q" for q
    using tr(2,3)
  proof (induction pre)
    case (Cons ev pre)
    then show ?case by (cases ev) auto
  qed simp
  show ?thesis using tr(1,4) rest before by auto
qed

lemma steps_then_write [simp]:
  "steps_after_writes ok (tr @ [Wrote e a ok']) = steps_after_writes ok tr"
  by (induction ok tr rule: steps_after_writes.induct) auto

lemma last_saves:
  "last_saved d tr = Some e \<Longrightarrow> \<forall>(e, ok) \<in> set (saves tr). ok \<Longrightarrow>
     (\<exists>us. saves tr = us @ [(e, True)]) \<or> d = Some e \<and> saves tr = []"
  by (induction d tr rule: last_saved.induct) auto

lemma still_endings [still_intros]:
  "still (stopped_note step saved)" "still (interrupted_note e)" "still (record_failure env a kind status)"
  "still (record_login_failures env a kind earlier err)"
proof -
  show r: "still (record_failure env a kind status)" for status
    by (auto simp: still_def record_failure_def happens_def Let_def)
  show "still (stopped_note step saved)" "still (interrupted_note e)"
    unfolding stopped_note_def interrupted_note_def by (auto intro: still_intros split: option.split)
  show "still (record_login_failures env a kind earlier err)"
    unfolding record_login_failures_def
    by (auto intro!: still_bind still_basic r split: option.split ble_error.split)
qed

lemma still_if: "still m \<Longrightarrow> still n \<Longrightarrow> still (if b then m else n)"
  by simp

text \<open>How the command line ends a run that raised: at most one more write.\<close>

lemma raised_still: "still (enrollment_failed env a kind earlier reason stored (Raised d))"
proof -
  have cancelled: "still (\<lambda>w. bindS (interrupted_note (saver_last stored (cw_trace w))) (\<lambda>_. raiseS (Failure d)) w)"
  proof (rule stillI)
    fix w w' r
    assume run: "bindS (interrupted_note (saver_last stored (cw_trace w))) (\<lambda>_. raiseS (Failure d)) w = (w', r)"
    have still: "still (bindS (interrupted_note (saver_last stored (cw_trace w))) (\<lambda>_. raiseS (Failure d)))"
      by (intro still_intros)
    show "cw_files w' = cw_files w \<and> (\<exists>tr. cw_trace w' = cw_trace w @ tr \<and> acts tr = [])"
      by (rule stillD [OF still run])
  qed
  have refused: "still (bindS (record_login_failures env a kind earlier d) (\<lambda>_. refuse (reason d) EXIT_FAILED))"
    by (intro still_intros)
  show ?thesis
    unfolding enrollment_failed_def enroll_error.case
    by (intro still_if refused cancelled still_basic)
qed

lemma stopped_none_still: "still (enrollment_failed env a kind earlier reason stored (EnrollmentStopped step None d))"
  by (simp add: enrollment_failed_def enrollment_stopped_def still_bind still_basic still_endings)

definition writes_again :: "'s cli_env \<Rightarrow> string \<Rightarrow> enrollment \<Rightarrow> 's cli_world \<Rightarrow> 's cli_world \<Rightarrow> bool" where
  "writes_again env a e u w' \<longleftrightarrow> (\<exists>ok. cw_files w' = cw_files (put_state env e (Some a) ok u)
     \<and> (\<exists>tr. cw_trace w' = cw_trace u @ tr \<and> acts tr = [Wrote e (Some a) ok]))"

lemma writes_then:
  assumes "handleS (store_save env e (Some a)) h f u = (w', q)" "\<And>err. still (h err)" "\<And>x. still (f x)"
  shows "writes_again env a e u w'"
proof -
  define ok where "ok = ce_disk env (cw_trace u) (StateFile e)"
  let ?v = "put_state env e (Some a) ok u"
  have "w' = fst (h (Failure (PyException ''OSError'')) ?v) \<or> (\<exists>x. w' = fst (f x ?v))"
    using assms(1) by (auto simp: handleS_def store_save_def Let_def ok_def split: if_splits) (metis fst_conv)+
  then have "cw_files w' = cw_files ?v \<and> (\<exists>tr. cw_trace w' = cw_trace ?v @ tr \<and> acts tr = [])"
    using assms(2,3) unfolding still_def by blast
  moreover have "cw_trace ?v = cw_trace u @ [Wrote e (Some a) ok]" by (simp add: put_state_def happens_def)
  ultimately show ?thesis unfolding writes_again_def by auto
qed

lemma stopped_writes:
  assumes "enrollment_failed env a kind earlier reason stored (EnrollmentStopped step (Some e) d) u = (w', q)"
  shows "writes_again env a e u w'"
proof (rule writes_then)
  show "handleS (store_save env e (Some a)) raiseS (\<lambda>_. bindS (stopped_note step True) (\<lambda>_. returnS EXIT_FAILED)) u
      = (w', q)"
    using assms by (simp add: enrollment_failed_def enrollment_stopped_def handleS_def bindS_def raiseS_def)
qed (intro still_intros)+

lemma not_saved_writes:
  assumes "enrollment_failed env a kind earlier reason stored (EnrollmentNotSaved step e) u = (w', q)"
  shows "writes_again env a e u w'"
  using assms unfolding enrollment_failed_def enrollment_not_saved_def
  by (auto intro!: writes_then still_intros)

lemma filter_act_of [simp]: "filter write_event (map (act_of a) tr) = map (act_of a) tr"
proof (induction tr)
  case (Cons ev tr)
  then show ?case by (cases ev) simp_all
qed simp

definition disk_good :: "'s cli_env \<Rightarrow> string \<Rightarrow> state_files \<Rightarrow> cli_event list \<Rightarrow> bool" where
  "disk_good env a files tr \<longleftrightarrow> steps_after_writes False tr
     \<and> (\<forall>us e ok. written tr = us @ [(e, ok)] \<longrightarrow>
           holds_newest env a files e \<or> \<not> ok \<and> us \<noteq> [] \<and> last us = (e, False))"

lemma disk_good_acts: "acts tr = acts tr' \<Longrightarrow> disk_good env a files tr = disk_good env a files tr'"
  unfolding disk_good_def using steps_acts written_acts by metis

text \<open>
  What a run of the library left is good if nothing is written after it, and after one more
  write of what it wrote last.
\<close>

lemma good_unchanged:
  assumes "steps_after_writes False (map (act_of a) t)" "acts tu = map (act_of a) t" "acts tr = []"
    and "\<And>us e. saves t = us @ [(e, True)] \<Longrightarrow> holds_newest env a files e"
    and "\<forall>(e, ok) \<in> set (saves t). ok"
  shows "disk_good env a files (tu @ tr)"
proof -
  have "disk_good env a files (map (act_of a) t)"
    unfolding disk_good_def using assms(1,4,5) by (auto simp: written_lib)
  moreover have "disk_good env a files (tu @ tr) = disk_good env a files (map (act_of a) t)"
    by (rule disk_good_acts) (simp add: assms(2,3) acts_def [of "map (act_of a) t"])
  ultimately show ?thesis by simp
qed

lemma good_again:
  assumes steps: "steps_after_writes False (map (act_of a) t)"
    and acts: "acts tu = map (act_of a) t" "acts tr = [Wrote e (Some a) ok]"
    and files: "\<And>us e. saves t = us @ [(e, True)] \<Longrightarrow> holds_newest env a (cw_files u) e"
    and before: "saves t = us @ [(e, b)]" and e: "enrollment_check (ce_lib env) e = Inr ()"
  shows "disk_good env a (cw_files (put_state env e (Some a) ok u)) (tu @ tr)"
proof -
  let ?w = "put_state env e (Some a) ok u"
  have "disk_good env a (cw_files ?w) (map (act_of a) t @ [Wrote e (Some a) ok])"
  proof (cases ok)
    case True
    then have "holds_newest env a (cw_files ?w) e" using put_state_holds [OF e] by simp
    then show ?thesis using steps by (simp add: disk_good_def written_lib)
  next
    case False
    then have "cw_files ?w = cw_files u" by (simp add: put_state_def happens_def)
    then have "holds_newest env a (cw_files ?w) e \<or> \<not> b" using files before by (cases b) auto
    then show ?thesis using steps False before by (auto simp: disk_good_def written_lib)
  qed
  moreover have "disk_good env a (cw_files ?w) (tu @ tr)
      = disk_good env a (cw_files ?w) (map (act_of a) t @ [Wrote e (Some a) ok])"
    by (rule disk_good_acts) (simp add: acts acts_def [of "map (act_of a) t"])
  ultimately show ?thesis by simp
qed

text \<open>
  How a failed enrollment ends: nothing more is written, or what was written last is written
  once more.
\<close>

lemma failure_writes:
  assumes fail: "enrollment_failed env a kind earlier reason stored err u = (w', r)"
    and saved: "saves_end lib (Inl err) t" and ends: "ends_consistent None t (Inl err)"
  shows "(\<forall>(e, ok) \<in> set (saves t). ok) \<and> cw_files w' = cw_files u
            \<and> (\<exists>tr. cw_trace w' = cw_trace u @ tr \<and> acts tr = [])
    \<or> (\<exists>us e b. saves t = us @ [(e, b)] \<and> writes_again env a e u w')"
proof (cases err)
  case (Raised d)
  then show ?thesis
    using stillD [OF raised_still fail [unfolded Raised]] saved by (auto simp: saves_end_def)
next
  case (EnrollmentNotSaved step e)
  then obtain pre where "t = pre @ [Saved e False]" using saved by (auto simp: saves_end_def)
  then have "saves t = saves pre @ [(e, False)]" by simp
  then show ?thesis using not_saved_writes [OF fail [unfolded EnrollmentNotSaved]] by blast
next
  case (EnrollmentStopped step partial d)
  then have all: "\<forall>(e, ok) \<in> set (saves t). ok" using saved by (simp add: saves_end_def)
  show ?thesis
  proof (cases partial)
    case None
    then show ?thesis
      using all stillD [OF stopped_none_still fail [unfolded EnrollmentStopped None]] by auto
  next
    case (Some e)
    then have "last_saved None t = Some e" using ends EnrollmentStopped by (simp add: ends_consistent_def)
    then obtain us where "saves t = us @ [(e, True)]" using last_saves [OF _ all] by auto
    then show ?thesis using stopped_writes [OF fail [unfolded EnrollmentStopped Some]] by blast
  qed
qed

lemma run_good:
  assumes lib: "enroll (ce_lib env) ch name save i k t uk \<lparr>ew_channel = s, ew_trace = []\<rparr> = (x, q)"
    and fin: "(case q of Inl err \<Rightarrow> enrollment_failed env a kind earlier reason stored err u | Inr e \<Rightarrow> returnS EXIT_OK u) = (w', r)"
    and u: "u = fold (library_event env a) (ew_trace x) v"
  shows "\<exists>tr. cw_trace w' = cw_trace v @ tr \<and> disk_good env a (cw_files w') tr"
proof -
  let ?t = "ew_trace x"
  have shape: "enroll_shape (ce_lib env) q ?t" and ends: "ends_consistent None ?t q"
    using enroll_saves [OF lib] enroll_run [OF lib] by blast+
  then have saved: "saves_end (ce_lib env) q ?t" by (simp add: enroll_shape_def)
  then have checked: "enrollment_check (ce_lib env) e = Inr ()" if "(e, ok) \<in> set (saves ?t)" for e ok
    using that by (auto simp: saves_end_def)
  obtain tu where tu: "cw_trace u = cw_trace v @ tu" "acts tu = map (act_of a) ?t"
    using library_acts u by blast
  note steps = steps_lib [OF shape]
  have files: "holds_newest env a (cw_files u) e" if "saves ?t = us @ [(e, True)]" for us e
    unfolding u by (rule library_files [OF that checked [of e True]]) (simp add: that)
  have "(\<forall>(e, ok) \<in> set (saves ?t). ok) \<and> cw_files w' = cw_files u
        \<and> (\<exists>tr. cw_trace w' = cw_trace u @ tr \<and> acts tr = [])
      \<or> (\<exists>us e b. saves ?t = us @ [(e, b)] \<and> writes_again env a e u w')"
  proof (cases q)
    case (Inl err)
    then show ?thesis using failure_writes fin saved ends by simp
  next
    case (Inr e)
    then show ?thesis using fin saved by (simp add: returnS_def saves_end_def)
  qed
  then show ?thesis
  proof (elim disjE conjE exE)
    fix tr assume "\<forall>(e, ok) \<in> set (saves ?t). ok" "cw_files w' = cw_files u"
      "cw_trace w' = cw_trace u @ tr" "acts tr = []"
    then show ?thesis using good_unchanged [OF steps tu(2) _ files] tu(1) by auto
  next
    fix us e b assume before: "saves ?t = us @ [(e, b)]" and "writes_again env a e u w'"
    then obtain ok tr where again: "cw_files w' = cw_files (put_state env e (Some a) ok u)"
        "cw_trace w' = cw_trace u @ tr" "acts tr = [Wrote e (Some a) ok]"
      unfolding writes_again_def by blast
    have "enrollment_check (ce_lib env) e = Inr ()" by (rule checked [of e b]) (simp add: before)
    from good_again [OF steps tu(2) again(3) files before this] show ?thesis using again(1,2) tu(1) by auto
  qed
qed

text \<open>
  C4: an enrollment's key is never only on the lock. However a run of enroll ends, a step that
  goes out finds the state so far on disk; and what was written last is what the state file
  of the lock gives back, address included, unless the disk refused it twice in a row.
\<close>

theorem newest_key_on_disk:
  assumes "enroll_session env args name w = (w', r)"
  shows "\<exists>tr. cw_trace w' = cw_trace w @ tr \<and> steps_after_writes False tr
    \<and> (\<forall>us e ok. written tr = us @ [(e, ok)] \<longrightarrow>
          holds_newest env (ca_address args) (cw_files w') e
          \<or> \<not> ok \<and> us \<noteq> [] \<and> last us = (e, False))"
proof -
  let ?good = "\<lambda>tr. steps_after_writes False tr \<and> (\<forall>us e ok. written tr = us @ [(e, ok)] \<longrightarrow>
      holds_newest env (ca_address args) (cw_files w') e \<or> \<not> ok \<and> us \<noteq> [] \<and> last us = (e, False))"
  let ?a = "ca_address args"
  have good: "?good tr = disk_good env ?a (cw_files w') tr" for tr by (simp add: disk_good_def)
  from session_body [OF assms [unfolded enroll_session_def enroll_library_def]] show ?thesis
  proof (elim disjE exE conjE)
    fix tr assume tr: "cw_trace w' = cw_trace w @ tr" "acts tr = []"
    then have "written tr = []" "steps_after_writes False tr"
      using written_acts [of tr] steps_acts [of False tr] by simp_all
    then show ?thesis using tr(1) by auto
  next
    fix v v' q pre post
    assume b: "bindS (add_note ''enroll'' [(''step'', TText ''start'')])
        (\<lambda>_ w. handleS (on_library env ?a (enroll (ce_lib env) (ce_channel env) name
            (\<lambda>e. ce_disk env (cw_trace w) (StateFile e)) (ce_device_id env) (ce_server_key env)
            (Aware (now_at env w)) (ce_update_key env)))
          (enrollment_failed env ?a ''factory'' None FactoryRefused None) (\<lambda>_. returnS EXIT_OK) w) v = (v', q)"
      and files: "cw_files w' = cw_files v'"
      and tr: "cw_trace v = cw_trace w @ pre" "cw_trace w' = cw_trace v' @ post" "acts pre = []" "acts post = []"
    define v1 where "v1 = happens (Noted \<lparr>tl_event = ''enroll'', tl_fields = [(''step'', TText ''start'')]\<rparr>) v"
    obtain x l where lib: "enroll (ce_lib env) (ce_channel env) name
        (\<lambda>e. ce_disk env (cw_trace v1) (StateFile e)) (ce_device_id env) (ce_server_key env)
        (Aware (now_at env v1)) (ce_update_key env) \<lparr>ew_channel = cw_link v1, ew_trace = []\<rparr> = (x, l)"
      by fastforce
    let ?v2 = "v1\<lparr>cw_link := ew_channel x\<rparr>"
    have "(case l of Inl err \<Rightarrow> enrollment_failed env ?a ''factory'' None FactoryRefused None err
            (fold (library_event env ?a) (ew_trace x) ?v2)
          | Inr e \<Rightarrow> returnS EXIT_OK (fold (library_event env ?a) (ew_trace x) ?v2)) = (v', q)"
      using b lib by (simp add: bindS_def add_note_def event_def handleS_def on_library_def v1_def split: sum.splits)
    from run_good [OF lib this refl] obtain t where
      t: "cw_trace v' = cw_trace v1 @ t" "disk_good env ?a (cw_files v') t" by auto
    obtain n where n: "cw_trace v1 = cw_trace v @ n" "acts n = []" by (simp add: v1_def happens_def)
    have "disk_good env ?a (cw_files w') (pre @ n @ t @ post) = disk_good env ?a (cw_files w') t"
      by (rule disk_good_acts) (simp add: tr n)
    then have "?good (pre @ n @ t @ post)" unfolding good using t(2) files by simp
    moreover have "cw_trace w' = cw_trace w @ pre @ n @ t @ post" by (simp add: tr t(1) n)
    ultimately show ?thesis by blast
  qed
qed

definition example_start :: "bool cli_world" where
  "example_start = \<lparr>cw_link = True, cw_files = [], cw_failed = [], cw_trace =
     [Opened ''aa:bb'', Noted \<lparr>tl_event = ''connected'', tl_fields = [(''address'', TText ''aa:bb''), (''mtu'', TNone)]\<rparr>,
      Noted \<lparr>tl_event = ''session'', tl_fields = [(''firmware'', TFirmware (4, 8, 0)),
        (''command_ref'', TText ''counter 1-127''), (''model'', TNone)]\<rparr>,
      Noted \<lparr>tl_event = ''enroll'', tl_fields = [(''step'', TText ''start'')]\<rparr>]\<rparr>"

lemma example_library_run:
  "case enroll small_lib example_channel ''door'' (\<lambda>_. True) (replicate 6 1) (1 # replicate 31 0)
       (Aware 1000000000004000) (ce_update_key example_cli) \<lparr>ew_channel = True, ew_trace = []\<rparr> of
     (x, Inl e) \<Rightarrow> False | (x, Inr e) \<Rightarrow> True"
  by code_simp

lemma example_session:
  assumes lib: "enroll small_lib example_channel ''door'' (\<lambda>_. True) (replicate 6 1) (1 # replicate 31 0)
       (Aware 1000000000004000) (ce_update_key example_cli) \<lparr>ew_channel = True, ew_trace = []\<rparr> = (x, Inr e)"
  shows "enroll_session example_cli (example_args ''enroll'' True) ''door'' (example_world True []) =
   (happens (Noted \<lparr>tl_event = ''closed'', tl_fields = []\<rparr>) (happens LetGo
     (fold (library_event example_cli ''aa:bb'') (ew_trace x) (example_start\<lparr>cw_link := ew_channel x\<rparr>))), Inr 0)"
proof -
  let ?w = "fold (library_event example_cli ''aa:bb'') (ew_trace x) (example_start\<lparr>cw_link := ew_channel x\<rparr>)"
  have at: "now_at example_cli example_start = 1000000000004000" by code_simp
  have sel: "ce_lib example_cli = small_lib" "ce_channel example_cli = example_channel" "ce_disk example_cli = (\<lambda>_ _. True)"
    "ce_device_id example_cli = replicate 6 1" "ce_server_key example_cli = 1 # replicate 31 0"
    "ce_open example_cli = (\<lambda>_ s. (s, Inr ()))" "ce_factory example_cli = (\<lambda>s. (s, Inr ()))"
    "ce_connect example_cli = (\<lambda>s. (s, Inr ()))" "ce_close example_cli = (\<lambda>s. (s, Inr ()))" "ce_mtu example_cli = (\<lambda>_. None)"
    "ce_firmware example_cli = (\<lambda>_. Inr (4, 8, 0))" "ce_model example_cli = (\<lambda>_. None)"
    "ce_link_keys example_cli = (\<lambda>_. Inl (BleSessionStateError ([], [])))"
    by (simp_all add: example_cli_def env_on_def)
  have run: "(\<lambda>w. handleS
          (on_library example_cli ''aa:bb''
            (enroll small_lib example_channel ''door'' (\<lambda>e. True) (replicate 6 1) (1 # replicate 31 0)
              (Aware (now_at example_cli w)) (ce_update_key example_cli)))
          (enrollment_failed example_cli ''aa:bb'' ''factory'' None FactoryRefused None)
          (\<lambda>_. returnS EXIT_OK) w) example_start = (?w, Inr 0)"
    using lib by (simp add: at handleS_def on_library_def returnS_def) (simp add: example_start_def)
  have "MIN_FIRMWARE_ADMIN \<le> (4, 8, 0)" by code_simp
  then show ?thesis
    using run
    by (simp add: enroll_session_def enroll_library_def with_session_def sel example_args_def
        example_world_def bindS_def on_link_def on_session_def lift_ble_def event_def happens_def ask_def add_note_def
        tryS_def finallyS_def trace_link_keys_def note_session_def is_ble_error_def let_go_def returnS_def not_less)
      (simp add: example_start_def)
qed

theorem newest_key_on_disk_witness:
  "\<exists>w' r e. enroll_session example_cli (example_args ''enroll'' True) ''door'' (example_world True []) = (w', r)
     \<and> enrollment_complete e \<and> holds_newest example_cli ''aa:bb'' (cw_files w') e"
proof -
  obtain x e where lib: "enroll small_lib example_channel ''door'' (\<lambda>_. True) (replicate 6 1) (1 # replicate 31 0)
      (Aware 1000000000004000) (ce_update_key example_cli) \<lparr>ew_channel = True, ew_trace = []\<rparr> = (x, Inr e)"
    using example_library_run by (auto split: prod.splits sum.splits)
  have e: "last_saved None (ew_trace x) = Some e" "enrollment_complete e"
    using enroll_run [OF lib] by (simp_all add: ends_consistent_def)
  have "\<forall>(e, ok) \<in> set (saves (ew_trace x)). ok"
    using enroll_saves [OF lib] by (simp add: enroll_shape_def saves_end_def)
  from last_saves [OF e(1) this] obtain us where us: "saves (ew_trace x) = us @ [(e, True)]" by auto
  obtain w' r where run: "enroll_session example_cli (example_args ''enroll'' True) ''door'' (example_world True []) = (w', r)"
    by fastforce
  obtain t where t: "cw_trace (fold (library_event example_cli ''aa:bb'') (ew_trace x) (example_start\<lparr>cw_link := ew_channel x\<rparr>))
      = cw_trace example_start @ t" "acts t = map (act_of ''aa:bb'') (ew_trace x)"
    using library_acts [of example_cli "''aa:bb''" "ew_trace x" "example_start\<lparr>cw_link := ew_channel x\<rparr>"] by auto
  then have "written t = us @ [(e, True)]" using written_acts [of t] by (simp add: written_lib us)
  with t(1) have w: "written (cw_trace w') = us @ [(e, True)]"
    using run example_session [OF lib] by (auto simp: happens_def example_start_def)
  obtain tr where tr: "cw_trace w' = cw_trace (example_world True []) @ tr"
      and newest: "\<forall>us e ok. written tr = us @ [(e, ok)] \<longrightarrow>
        holds_newest example_cli (ca_address (example_args ''enroll'' True)) (cw_files w') e
        \<or> \<not> ok \<and> us \<noteq> [] \<and> last us = (e, False)"
    using newest_key_on_disk [OF run] by blast
  have "written tr = us @ [(e, True)]" using w tr by (simp add: example_world_def)
  with newest have "holds_newest example_cli (ca_address (example_args ''enroll'' True)) (cw_files w') e" by blast
  then show ?thesis using run e(2) by (auto simp: example_args_def)
qed

section \<open>A watch ends\<close>

lemma notes_keep_link: "cw_link (fst (each_seen trace_advertisement heard w)) = cw_link w"
  by (induction heard arbitrary: w)
    (auto simp: returnS_def bindS_def trace_advertisement_def add_note_def event_def happens_def)

lemma listening_link: "cw_link (fst (listen env wanted seconds w)) = fst (ce_scan env seconds (cw_link w))"
proof -
  obtain s heard err where scan: "ce_scan env seconds (cw_link w) = (s, heard, err)" by (metis prod_cases3)
  let ?v = "happens Listened (w\<lparr>cw_link := s\<rparr>)"
  obtain v q where v: "each_seen trace_advertisement (filter wanted heard) ?v = (v, q)" by fastforce
  then have "cw_link v = s"
    using notes_keep_link [of "filter wanted heard" ?v] by (simp add: happens_def)
  then show ?thesis
    by (cases q; cases err) (simp_all add: listen_def Let_def scan bindS_def event_def v raiseS_def returnS_def)
qed

lemma watch_loop_returns:
  assumes "\<And>t s. 0 < t \<Longrightarrow> ce_monotonic env s + t \<le> ce_monotonic env (fst (ce_scan env t s))" "0 < window"
  shows "\<exists>y. watch_loop env start seconds window heard w = Some y"
proof (induction "nat (seconds - (ce_monotonic env (cw_link w) - start))" arbitrary: heard w rule: less_induct)
  case less
  let ?left = "seconds - (ce_monotonic env (cw_link w) - start)"
  obtain v q where l: "listen env (\<lambda>s. lock_data s \<noteq> None) (min window ?left) w = (v, q)" by fastforce
  show ?case
  proof (cases "0 < ?left")
    case False
    then show ?thesis by (subst watch_loop.simps) simp
  next
    case True
    have "cw_link v = fst (ce_scan env (min window ?left) (cw_link w))"
      using listening_link [of env "\<lambda>s. lock_data s \<noteq> None" "min window ?left" w] l by simp
    then have "ce_monotonic env (cw_link w) + min window ?left \<le> ce_monotonic env (cw_link v)"
      using assms True by simp
    then have "nat (seconds - (ce_monotonic env (cw_link v) - start)) < nat ?left" using True assms(2) by linarith
    then have "\<exists>y. watch_loop env start seconds window h v = Some y" for h by (rule less)
    then show ?thesis by (subst watch_loop.simps) (use True l in \<open>simp split: sum.split\<close>)
  qed
qed

text \<open>
  C35: \<^verbatim>\<open>scan --watch\<close> ends. If listening for a while takes that while and the window is not
  empty, the loop over the clock comes to an end whatever is heard, and the command has an
  exit code.
\<close>

theorem watch_ends:
  assumes "\<And>t s. 0 < t \<Longrightarrow> ce_monotonic env s + t \<le> ce_monotonic env (fst (ce_scan env t s))"
    and "0 < ca_window args"
  shows "\<exists>w' code. main_code env args w = Some (w', code)"
proof -
  have "\<exists>y. cmd_scan env args w = Some y"
    using watch_loop_returns [OF assms]
    by (fastforce simp: cmd_scan_def watch_def split: sum.split option.split)
  then show ?thesis by (auto simp: main_code_def run_command_def COMMANDS_def)
qed

theorem watch_ends_witness:
  "\<exists>w' code. main_code (env_on \<lparr>ch_send = \<lambda>s c. (s, Inl (BleTimeoutError ([], []))), ch_iv = \<lambda>_. Inr []\<rparr>
       (\<lambda>s :: int. s) (\<lambda>t s. (s + t, [example_seen], None)))
     ((example_args ''scan'' False)\<lparr>ca_watch := Some 5000\<rparr>)
     \<lparr>cw_link = 0, cw_files = [], cw_failed = [], cw_trace = []\<rparr> = Some (w', code)"
  by (rule watch_ends) (simp_all add: env_on_def example_args_def)

end
