(* ===== verification/Manual_Tables.thy ===== *)
theory Manual_Tables
  imports Py_Text "HOL-Library.Char_ord" "HOL-Library.List_Lexorder"
begin

text \<open>
  The two tables \<^verbatim>\<open>scripts/fetch_manuals.py\<close> reads out of \<^verbatim>\<open>docs/manuals/README.md\<close>: the
  sources pinned by a hash, and the living sources, whose rows it writes back with the date
  and the marker of the last fetch.
\<close>

section \<open>Rows\<close>

text \<open>
  A match of \<^verbatim>\<open>ROW_RE\<close> or \<^verbatim>\<open>LIVING_ROW_RE\<close> with \<open>n\<close> groups: no cell has a bar or is empty, and
  after the last bar only white space is left.
\<close>

definition row_cells :: "nat \<Rightarrow> string \<Rightarrow> string list option" where
  "row_cells n line =
     (case str_split (CHR ''|'') line of
        [] \<Rightarrow> None
      | lead # parts \<Rightarrow>
          if lead = [] \<and> length parts = Suc n \<and> list_all (\<lambda>c. c \<noteq> []) (take n parts) \<and> is_blank (last parts)
          then Some (take n parts) else None)"

definition rstrip :: "string \<Rightarrow> string" where
  "rstrip s = rstrip_by is_space s"

definition strip_ticks :: "string \<Rightarrow> string" where
  "strip_ticks s = strip_by (\<lambda>c. c = CHR 0x60) s"

definition cell_text :: "string \<Rightarrow> string" where
  "cell_text c = strip_ticks (str_strip c)"

text \<open>\<^verbatim>\<open>SHA_RE\<close>, \<^verbatim>\<open>URL_RE\<close> and \<^verbatim>\<open>TYPES\<close>, on a cell, which has no line feed.\<close>

definition is_digest :: "string \<Rightarrow> bool" where
  "is_digest s \<longleftrightarrow> length s = 64
     \<and> list_all (\<lambda>c. is_decimal c \<or> 97 \<le> code_point c \<and> code_point c \<le> 102) s"

definition is_web_address :: "string \<Rightarrow> bool" where
  "is_web_address s \<longleftrightarrow>
     list_ex (\<lambda>scheme. case after_prefix scheme s of
                None \<Rightarrow> False | Some rest \<Rightarrow> rest \<noteq> [] \<and> list_all (\<lambda>c. \<not> is_space c) rest)
       [''http://'', ''https://'']"

definition TYPES :: "string list" where
  "TYPES = [''pdf'', ''txt'', ''json'', ''zip'', ''repo-snapshot'']"

record pinned_row =
  pr_url :: string
  pr_file :: string
  pr_kind :: string
  pr_sha :: string

definition pinned_row_of :: "string \<Rightarrow> pinned_row option" where
  "pinned_row_of line =
     (case row_cells 4 (str_strip line) of
        Some [file, url, kind, sha] \<Rightarrow>
          (let r = \<lparr>pr_url = cell_text url, pr_file = cell_text file,
                   pr_kind = str_lower (cell_text kind), pr_sha = str_lower (cell_text sha)\<rparr>
           in if is_digest (pr_sha r) \<and> is_web_address (pr_url r) \<and> pr_file r \<noteq> [] \<and> pr_kind r \<in> set TYPES
              then Some r else None)
      | _ \<Rightarrow> None)"

definition parse_table :: "string \<Rightarrow> pinned_row list" where
  "parse_table text = List.map_filter pinned_row_of (str_splitlines text)"

section \<open>Living sources\<close>

definition LIVING_TYPES :: "string list" where
  "LIVING_TYPES = [''discourse'', ''invision'', ''gh-issue'', ''gh-file'', ''gh-repo'', ''web'',
     ''appstore'', ''android'', ''manual'']"

record living_row =
  lr_line :: string
  lr_item :: string
  lr_source :: string
  lr_kind :: string
  lr_key :: string
  lr_retrieved :: string
  lr_marker :: string

definition living_row_of :: "string \<Rightarrow> living_row option" where
  "living_row_of line =
     (case row_cells 6 (rstrip line) of
        Some [item, source, kind, key, retrieved, marker] \<Rightarrow>
          if str_lower (cell_text kind) \<notin> set LIVING_TYPES then None
          else Some \<lparr>lr_line = rstrip line, lr_item = cell_text item,
                 lr_source = strip_by (\<lambda>c. c \<in> set ''<>'') (cell_text source),
                 lr_kind = str_lower (cell_text kind), lr_key = cell_text key,
                 lr_retrieved = str_strip retrieved, lr_marker = cell_text marker\<rparr>
      | _ \<Rightarrow> None)"

definition parse_living_table :: "string \<Rightarrow> living_row list" where
  "parse_living_table text = List.map_filter living_row_of (str_splitlines text)"

definition pad_like :: "string \<Rightarrow> string \<Rightarrow> string" where
  "pad_like old val =
     (let text = '' '' @ val @ '' ''
      in if length text > length old then text
         else text @ replicate (length old - length text) (CHR '' ''))"

text \<open>\<^verbatim>\<open>cells[-3]\<close> and \<^verbatim>\<open>cells[-2]\<close>; a row of the table has eight.\<close>

definition rewritten :: "living_row \<Rightarrow> string \<Rightarrow> string \<Rightarrow> string" where
  "rewritten r retrieved marker =
     (let cells = str_split (CHR ''|'') (rstrip (lr_line r)); n = length cells;
          cells = cells[n - 3 := pad_like (cells ! (n - 3)) retrieved];
          cells = cells[n - 2 := pad_like (cells ! (n - 2)) marker]
      in str_join ''|'' cells)"

definition duplicate_items :: "living_row list \<Rightarrow> (string \<times> nat) list" where
  "duplicate_items rows =
     (let items = map lr_item rows
      in filter (\<lambda>(item, n). n > 1)
           (map (\<lambda>item. (item, length (filter (\<lambda>i. i = item) items))) (sort (remdups items))))"

text \<open>The README after the fetch: a line whose row was fetched is replaced.\<close>

definition replace_rows :: "(string \<times> string) list \<Rightarrow> string \<Rightarrow> string" where
  "replace_rows replacements text =
     join_lines (map (\<lambda>line. case map_of replacements (rstrip line) of None \<Rightarrow> line | Some new \<Rightarrow> new)
       (str_splitlines text)) @ [newline]"

section \<open>Splitting and joining\<close>

definition bar_free :: "string \<Rightarrow> bool" where
  "bar_free s \<longleftrightarrow> CHR ''|'' \<notin> set s"

lemma split_not_Nil [simp]: "str_split sep s \<noteq> []"
  by (induction sep s rule: str_split.induct) (auto split: list.splits)

lemma split_free: "\<forall>p \<in> set (str_split sep s). sep \<notin> set p"
  by (induction sep s rule: str_split.induct) (auto split: list.splits)

lemma join_split: "str_join [sep] (str_split sep s) = s"
proof (induction sep s rule: str_split.induct)
  case (2 sep c cs)
  then show ?case by (cases "str_split sep cs"; cases "tl (str_split sep cs)") auto
qed simp

lemma split_piece: "sep \<notin> set p \<Longrightarrow> str_split sep p = [p]"
  by (induction p) auto

lemma split_append: "sep \<notin> set p \<Longrightarrow> str_split sep (p @ sep # s) = p # str_split sep s"
  by (induction p) auto

lemma split_join: "ps \<noteq> [] \<Longrightarrow> \<forall>p \<in> set ps. sep \<notin> set p \<Longrightarrow> str_split sep (str_join [sep] ps) = ps"
  by (induction "[sep]" ps rule: str_join.induct) (simp_all add: split_piece split_append)

lemma rstrip_idem [simp]: "rstrip (rstrip s) = rstrip s"
  by (simp add: rstrip_def)

lemma rstrip_bar: "rstrip (s @ ''|'') = s @ ''|''"
  by (simp add: rstrip_def is_space_def)

lemma rstrip_last: "rstrip s = s \<Longrightarrow> s = t @ u \<Longrightarrow> is_blank u \<Longrightarrow> u = []"
proof (induction u rule: rev_induct)
  case (snoc x u)
  then have "rstrip ((t @ u) @ [x]) = (t @ u) @ [x]" "is_space x" by (simp_all add: is_blank_def)
  then have "rstrip_by is_space (t @ u) = t @ u @ [x]" by (simp only: rstrip_def rstrip_by_snoc) simp
  moreover have "length (rstrip_by is_space (t @ u)) \<le> length (t @ u)"
    using rstrip_by_prefix [of "t @ u" is_space] by (metis le_add1 length_append)
  ultimately show ?case by simp
qed simp

lemma rstrip_by_padded: "list_all p v \<Longrightarrow> rstrip_by p (s @ v) = rstrip_by p s"
proof (induction v rule: rev_induct)
  case (snoc x v)
  have "rstrip_by p ((s @ v) @ [x]) = rstrip_by p (s @ v)" using snoc.prems by (simp only: rstrip_by_snoc) simp
  then show ?case using snoc by simp
qed simp

lemma strip_by_padded: "list_all p u \<Longrightarrow> list_all p v \<Longrightarrow> strip_by p (u @ s @ v) = strip_by p s"
proof -
  assume uv: "list_all p u" "list_all p v"
  have "dropWhile p (u @ s @ v) = dropWhile p (s @ v)" using uv(1) by (induction u) auto
  also have "... = (if list_all p s then [] else dropWhile p s @ v)"
    using uv(2) by (induction s) (auto simp: list_all_iff)
  finally have e: "dropWhile p (u @ s @ v) = (if list_all p s then [] else dropWhile p s @ v)" .
  have "dropWhile p s = []" if "list_all p s" using that by (induction s) auto
  then show ?thesis
    unfolding strip_by_def lstrip_by_def e
    by (cases "list_all p s") (simp_all only: if_True if_False rstrip_by_padded [OF uv(2)])
qed

lemma strip_pad_like [simp]: "str_strip (pad_like old v) = str_strip v"
proof -
  have "list_all is_space (CHR '' '' # replicate n (CHR '' ''))" for n by (simp add: list_all_iff is_space_def)
  then show ?thesis
    using strip_by_padded [of is_space "'' ''" _ v] unfolding str_strip_def pad_like_def Let_def
    by (simp add: is_space_def)
qed

lemma pad_like_bar_free [simp]: "bar_free (pad_like old v) = bar_free v"
  by (auto simp: bar_free_def pad_like_def Let_def)

lemma pad_like_filled [simp]: "pad_like old v \<noteq> []"
  by (simp add: pad_like_def Let_def)

section \<open>A row written back\<close>

lemma row_cellsD:
  assumes "row_cells n s = Some cells"
  shows "\<exists>end. str_split (CHR ''|'') s = [] # cells @ [end] \<and> is_blank end \<and> length cells = n
    \<and> list_all (\<lambda>c. c \<noteq> [] \<and> bar_free c) cells"
proof -
  obtain parts where s: "str_split (CHR ''|'') s = [] # parts" "length parts = Suc n" "cells = take n parts"
      "list_all (\<lambda>c. c \<noteq> []) (take n parts)" "is_blank (last parts)"
    using assms by (auto simp: row_cells_def split: list.splits if_splits)
  have "parts = take n parts @ [last parts]"
    using s(2) by (metis append_butlast_last_id butlast_conv_take diff_Suc_1 list.size(3) old.nat.distinct(1))
  moreover have "\<forall>c \<in> set (take n parts). bar_free c"
    using split_free [of "CHR ''|''" s] s(1) by (auto simp: bar_free_def dest: in_set_takeD)
  ultimately show ?thesis using s by (auto simp: list_all_iff)
qed

lemma row_cells_join:
  assumes "length cells = n" "list_all (\<lambda>c. c \<noteq> [] \<and> bar_free c) cells"
  shows "row_cells n (str_join ''|'' ([] # cells @ [[]])) = Some cells"
proof -
  have "str_split (CHR ''|'') (str_join ''|'' ([] # cells @ [[]])) = [] # cells @ [[]]"
    by (rule split_join) (use assms(2) in \<open>auto simp: list_all_iff bar_free_def\<close>)
  then show ?thesis using assms by (auto simp: row_cells_def is_blank_def list_all_iff)
qed


lemma living_row_shape:
  assumes "living_row_of line = Some r"
  shows "\<exists>item source kind key retrieved old.
    str_split (CHR ''|'') (rstrip line) = [[], item, source, kind, key, retrieved, old, []]
    \<and> list_all (\<lambda>c. c \<noteq> [] \<and> bar_free c) [item, source, kind, key, retrieved, old]
    \<and> r = \<lparr>lr_line = rstrip line, lr_item = cell_text item,
           lr_source = strip_by (\<lambda>c. c \<in> set ''<>'') (cell_text source),
           lr_kind = str_lower (cell_text kind), lr_key = cell_text key,
           lr_retrieved = str_strip retrieved, lr_marker = cell_text old\<rparr>
    \<and> str_lower (cell_text kind) \<in> set LIVING_TYPES"
proof -
  obtain cells where c: "row_cells 6 (rstrip line) = Some cells"
    using assms by (auto simp: living_row_of_def split: option.splits)
  obtain rest where s: "str_split (CHR ''|'') (rstrip line) = [] # cells @ [rest]" "is_blank rest"
    using row_cellsD [OF c] by blast
  have "rstrip line = str_join ''|'' ([] # cells @ [rest])"
    using join_split [of "CHR ''|''" "rstrip line"] s(1) by simp
  moreover have "\<exists>u. str_join ''|'' ([] # cells @ [rest]) = u @ rest" for cells rest
  proof (induction cells)
    case (Cons c cells)
    then show ?case by (cases cells) auto
  qed auto
  ultimately have "rest = []" using rstrip_last [OF rstrip_idem _ s(2)] by metis
  then show ?thesis
    using row_cellsD [OF c] assms c s(1)
    by (auto simp: living_row_of_def split: list.splits if_splits)
qed

lemma rewritten_shape:
  assumes "living_row_of line = Some r"
  shows "\<exists>item source kind key retrieved old.
    str_split (CHR ''|'') (rstrip line) = [[], item, source, kind, key, retrieved, old, []]
    \<and> rewritten r date marker
        = str_join ''|'' [[], item, source, kind, key, pad_like retrieved date, pad_like old marker, []]"
  using living_row_shape [OF assms] by (auto simp: rewritten_def Let_def)

text \<open>
  A row that is written back is read as the same row. For any line the living table has a
  row for, the line the fetch puts in its place is read with the new date and the new marker,
  and with every other cell as it was: the item, the source, the type and the key.
\<close>

theorem rewritten_row_read_back:
  assumes "living_row_of line = Some r" "bar_free date" "bar_free marker"
  shows "living_row_of (rewritten r date marker)
    = Some (r\<lparr>lr_line := rewritten r date marker, lr_retrieved := str_strip date, lr_marker := cell_text marker\<rparr>)"
proof -
  obtain item source kind key retrieved old where
    s: "str_split (CHR ''|'') (rstrip line) = [[], item, source, kind, key, retrieved, old, []]"
    and free: "list_all (\<lambda>c. c \<noteq> [] \<and> bar_free c) [item, source, kind, key, retrieved, old]"
    and r: "r = \<lparr>lr_line = rstrip line, lr_item = cell_text item,
           lr_source = strip_by (\<lambda>c. c \<in> set ''<>'') (cell_text source),
           lr_kind = str_lower (cell_text kind), lr_key = cell_text key,
           lr_retrieved = str_strip retrieved, lr_marker = cell_text old\<rparr>"
    and kind: "str_lower (cell_text kind) \<in> set LIVING_TYPES"
    using living_row_shape [OF assms(1)] by blast
  define new where "new = rewritten r date marker"
  let ?cells = "[item, source, kind, key, pad_like retrieved date, pad_like old marker]"
  have new: "new = str_join ''|'' ([] # ?cells @ [[]])" by (simp add: new_def r rewritten_def s Let_def)
  then have "new = str_join ''|'' ([] # ?cells) @ ''|''" by simp
  then have "rstrip new = new" by (metis rstrip_bar)
  moreover have "row_cells 6 new = Some ?cells"
    unfolding new by (rule row_cells_join) (use free assms(2,3) in simp_all)
  ultimately have "living_row_of new = Some (r\<lparr>lr_line := new, lr_retrieved := str_strip date, lr_marker := cell_text marker\<rparr>)"
    using kind by (simp add: living_row_of_def r cell_text_def)
  then show ?thesis by (simp add: new_def)
qed

section \<open>The table written back\<close>

lemma splitlines_written:
  "list_all plain_line ls \<Longrightarrow> ls \<noteq> [] \<Longrightarrow> str_splitlines (join_lines ls @ [newline]) = ls"
  by (induction "[newline]" ls rule: str_join.induct) (simp_all add: splitlines_line)

lemma set_join: "set (str_join [sep] ps) \<subseteq> insert sep (\<Union> (set ` set ps))"
  by (induction "[sep]" ps rule: str_join.induct) auto

lemma plain_rstrip: "plain_line l \<Longrightarrow> plain_line (rstrip l)"
  unfolding plain_line_def rstrip_def by (rule list_all_rstrip_by)

lemma rewritten_plain:
  assumes "living_row_of line = Some r" "plain_line line" "plain_line date" "plain_line marker"
  shows "plain_line (rewritten r date marker)"
proof -
  obtain item source kind key retrieved old where
    s: "str_split (CHR ''|'') (rstrip line) = [[], item, source, kind, key, retrieved, old, []]"
    and new: "rewritten r date marker
        = str_join ''|'' [[], item, source, kind, key, pad_like retrieved date, pad_like old marker, []]"
    using rewritten_shape [OF assms(1)] by blast
  have "rstrip line = str_join ''|'' [[], item, source, kind, key, retrieved, old, []]"
    using join_split [of "CHR ''|''" "rstrip line"] s by simp
  then have "plain_line (str_join ''|'' [[], item, source, kind, key, retrieved, old, []])"
    using plain_rstrip [OF assms(2)] by simp
  then show ?thesis
    using assms(3,4) unfolding new by (simp add: plain_line_def list_all_iff) (auto simp: pad_like_def Let_def is_line_break_def)
qed

text \<open>What stands in the table after the lines of \<open>replacements\<close> were put in.\<close>

definition updated_row :: "(string \<times> string) list \<Rightarrow> living_row \<Rightarrow> living_row" where
  "updated_row replacements r =
     (case map_of replacements (lr_line r) of
        None \<Rightarrow> r
      | Some new \<Rightarrow> (case living_row_of new of None \<Rightarrow> r | Some r' \<Rightarrow> r'))"

lemma living_row_rstrip: "living_row_of (rstrip l) = living_row_of l"
  unfolding living_row_of_def rstrip_idem ..

lemma living_row_line: "living_row_of l = Some r \<Longrightarrow> lr_line r = rstrip l"
  using living_row_shape by force

lemma replaced_table:
  assumes rows: "\<And>l new. map_of replacements l = Some new \<Longrightarrow>
      \<exists>r date marker. living_row_of l = Some r \<and> new = rewritten r date marker
        \<and> bar_free date \<and> plain_line date \<and> bar_free marker \<and> plain_line marker"
  shows "parse_living_table (replace_rows replacements text)
    = map (updated_row replacements) (parse_living_table text)"
proof -
  define out where "out line = (case map_of replacements (rstrip line) of None \<Rightarrow> line | Some new \<Rightarrow> new)" for line
  have whole: "replace_rows replacements text = join_lines (map out (str_splitlines text)) @ [newline]"
    by (simp add: replace_rows_def out_def [abs_def])
  have row: "living_row_of (out l) = map_option (updated_row replacements) (living_row_of l)" for l
  proof (cases "map_of replacements (rstrip l)")
    case None
    then show ?thesis
      using living_row_line [of l] by (cases "living_row_of l") (auto simp: out_def updated_row_def)
  next
    case (Some new)
    then obtain r date marker where r: "living_row_of (rstrip l) = Some r" "new = rewritten r date marker"
        "bar_free date" "bar_free marker"
      using rows by blast
    then show ?thesis
      using rewritten_row_read_back [OF r(1,3,4)] living_row_line [of l] Some
      by (auto simp: out_def updated_row_def living_row_rstrip)
  qed
  have plain: "plain_line (out l)" if l: "plain_line l" for l
  proof (cases "map_of replacements (rstrip l)")
    case (Some new)
    then obtain r date marker where "living_row_of (rstrip l) = Some r" "new = rewritten r date marker"
        "plain_line date" "plain_line marker"
      using rows by blast
    then show ?thesis using rewritten_plain [OF _ plain_rstrip [OF l]] Some by (simp add: out_def)
  qed (simp add: out_def l)
  show ?thesis
  proof (cases "str_splitlines text")
    case Nil
    then show ?thesis
      by (simp add: whole parse_living_table_def map_filter_simps living_row_of_def row_cells_def rstrip_def)
  next
    case (Cons l ls)
    have "list_all plain_line (map out (str_splitlines text))"
      using splitlines_are_plain [of "text"] plain by (simp add: list_all_iff)
    then have "str_splitlines (replace_rows replacements text) = map out (str_splitlines text)"
      unfolding whole by (rule splitlines_written) (simp add: Cons)
    moreover have "List.map_filter living_row_of (map out ls) = map (updated_row replacements) (List.map_filter living_row_of ls)"
      for ls by (induction ls) (auto simp: map_filter_simps row split: option.splits)
    ultimately show ?thesis by (simp add: parse_living_table_def)
  qed
qed

end
