(* ===== verification/Manuals.thy ===== *)
theory Manuals
  imports Manual_Tables Release_Publish "HOL-Library.AList"
begin

text \<open>
  \<^verbatim>\<open>scripts/fetch_manuals.py\<close>: what it downloads and what it leaves on disk. HTTP, \<^verbatim>\<open>gh\<close>,
  \<^verbatim>\<open>pdftotext\<close>, the archive formats, SHA-256, UTF-8, JSON and the table of HTML entities are
  the record \<open>manual_env\<close>; an archive unpacks to its files and whether it came to its end. A path is relative to \<^verbatim>\<open>docs/manuals\<close>, where no item is the README
  or the directory itself; a directory that only holds sources is not listed. The disk takes every write, and
  what is printed is left out. An exception is named by its class.
\<close>

section \<open>World\<close>

datatype http_answer = Refused string | HttpStatus nat | Body bytes bool

text \<open>\<open>Body b False\<close>: reading broke off after \<open>b\<close>.\<close>

datatype node = Plain bytes | Folder "(string \<times> bytes) list"

record 's manual_world =
  mw_net :: 's
  mw_requests :: "(string \<times> http_answer) list"
  mw_files :: "(string \<times> node) list"
  mw_readme :: "string option"

record 's manual_env =
  mn_http :: "string \<Rightarrow> 's \<Rightarrow> 's \<times> http_answer"
  mn_gh :: "string list \<Rightarrow> 's \<Rightarrow> 's \<times> (string + string)"
  mn_gh_raw :: "string list \<Rightarrow> 's \<Rightarrow> 's \<times> bytes \<times> bool"
  mn_pdftotext :: "(bytes \<Rightarrow> bytes option) option"
  mn_unpack :: "string \<Rightarrow> bytes \<Rightarrow> (string \<times> bytes) list \<times> bool"
  mn_sha256 :: "bytes \<Rightarrow> string"
  mn_strict :: "bytes \<Rightarrow> string option"
  mn_lossy :: "bytes \<Rightarrow> string"
  mn_utf8 :: "string \<Rightarrow> bytes"
  mn_loads :: "string \<Rightarrow> py option"
  mn_dumps :: "py \<Rightarrow> string"
  mn_str :: "py \<Rightarrow> string"
  mn_unescape :: "string \<Rightarrow> string"
  mn_today :: string

type_synonym ('s, 'a) fetch = "('s manual_world, publish_error, 'a) effect"

definition node_at :: "'s manual_world \<Rightarrow> string \<Rightarrow> node option" where
  "node_at w path = map_of (mw_files w) path"

definition put_node :: "string \<Rightarrow> node \<Rightarrow> 's manual_world \<Rightarrow> 's manual_world" where
  "put_node path x w = w\<lparr>mw_files := AList.update path x (mw_files w)\<rparr>"

definition drop_node :: "string \<Rightarrow> 's manual_world \<Rightarrow> 's manual_world" where
  "drop_node path w = w\<lparr>mw_files := AList.delete path (mw_files w)\<rparr>"

definition write_node :: "string \<Rightarrow> node \<Rightarrow> ('s, unit) fetch" where
  "write_node path x = (\<lambda>w. (put_node path x w, Inr ()))"

lemma node_put [simp]: "node_at (put_node p x w) q = (if q = p then Some x else node_at w q)"
  by (simp add: node_at_def put_node_def update_conv')

interpretation manual_store: keyed_store "\<lambda>(path, x). put_node path x" node_at fst "\<lambda>(path, x). Some x" "\<lambda>_. True"
  by unfold_locales auto

section \<open>HTTP\<close>

definition request_url :: "string \<Rightarrow> string" where
  "request_url url = concat (map (\<lambda>c. let n = code_point c in
     if is_letter c \<or> is_decimal c \<or> c \<in> set ''_.-~:/?#[]@!$&()*+,;=%'' \<or> n = 39 then [c]
     else if n < 128 then percent n else percent (192 + n div 64) @ percent (128 + n mod 64)) url)"

definition urlopen :: "'s manual_env \<Rightarrow> string \<Rightarrow> ('s, http_answer) fetch" where
  "urlopen env url = (\<lambda>w.
     let (s, a) = mn_http env (request_url url) (mw_net w)
     in (w\<lparr>mw_net := s, mw_requests := mw_requests w @ [(url, a)]\<rparr>, Inr a))"

definition read_body :: "'s manual_env \<Rightarrow> string \<Rightarrow> ('s, bytes) fetch" where
  "read_body env url = bindS (urlopen env url) (\<lambda>a.
     case a of
       Refused e \<Rightarrow> raiseS (PyRaise e)
     | HttpStatus n \<Rightarrow> raiseS (PyRaise ''HTTPError'')
     | Body b whole \<Rightarrow> if whole then returnS b else raiseS (PyRaise ''IncompleteRead''))"

text \<open>\<^verbatim>\<open>download\<close>: the file is opened once the server has answered, and filled as the body comes.\<close>

definition download :: "'s manual_env \<Rightarrow> string \<Rightarrow> string \<Rightarrow> ('s, unit) fetch" where
  "download env url dest = bindS (urlopen env url) (\<lambda>a.
     case a of
       Refused e \<Rightarrow> raiseS (PyRaise e)
     | HttpStatus n \<Rightarrow> raiseS (PyRaise ''HTTPError'')
     | Body b whole \<Rightarrow> (\<lambda>w.
         case node_at w dest of
           Some (Folder fs) \<Rightarrow> (w, Inl (PyRaise ''IsADirectoryError''))
         | _ \<Rightarrow> (put_node dest (Plain b) w, if whole then Inr () else Inl (PyRaise ''IncompleteRead''))))"

definition loads_text :: "'s manual_env \<Rightarrow> string \<Rightarrow> publish_error + py" where
  "loads_text env s = (case mn_loads env s of None \<Rightarrow> Inl (PyRaise ''JSONDecodeError'') | Some v \<Rightarrow> Inr v)"

definition get_json :: "'s manual_env \<Rightarrow> string \<Rightarrow> ('s, py) fetch" where
  "get_json env url = bindS (read_body env url) (\<lambda>b.
     liftE (case mn_strict env b of None \<Rightarrow> Inl (PyRaise ''UnicodeDecodeError'') | Some s \<Rightarrow> loads_text env s))"

definition gh_json :: "'s manual_env \<Rightarrow> string list \<Rightarrow> ('s, py) fetch" where
  "gh_json env argv = (\<lambda>w.
     let (s, a) = mn_gh env argv (mw_net w)
     in (w\<lparr>mw_net := s\<rparr>, case a of
           Inl err \<Rightarrow> Inl (PyRaise ''RuntimeError'')
         | Inr out \<Rightarrow> loads_text env (if out = [] then ''null'' else out)))"

section \<open>Paths\<close>

text \<open>\<^verbatim>\<open>MANUALS_DIR / item\<close>: empty parts and single dots go, so \<^verbatim>\<open>code/snapshot/\<close> names a folder
  of \<^verbatim>\<open>code\<close>.\<close>

definition manual_path :: "string \<Rightarrow> string" where
  "manual_path item = str_join ''/'' (filter (\<lambda>p. p \<noteq> [] \<and> p \<noteq> ''.'') (str_split (CHR ''/'') item))"

definition path_name :: "string \<Rightarrow> string" where
  "path_name path = rev (takeWhile (\<lambda>c. c \<noteq> CHR ''/'') (rev path))"

text \<open>\<^verbatim>\<open>Path.suffix\<close> and \<^verbatim>\<open>with_suffix\<close>: the last dot, but not one that starts or ends the name.\<close>

definition path_suffix :: "string \<Rightarrow> string" where
  "path_suffix path =
     (let name = path_name path; ext = rev (takeWhile (\<lambda>c. c \<noteq> CHR ''.'') (rev name))
      in if ext = [] \<or> length ext + 1 \<ge> length name then [] else CHR ''.'' # ext)"

definition with_suffix :: "string \<Rightarrow> string \<Rightarrow> string" where
  "with_suffix path ext = take (length path - length (path_suffix path)) path @ ext"

definition unpacked_dir :: "string \<Rightarrow> string" where
  "unpacked_dir path =
     (case filter (\<lambda>s. ends_with s (path_name path)) [''.tar.gz'', ''.tgz'', ''.zip''] of
        [] \<Rightarrow> path @ ''.unpacked''
      | s # _ \<Rightarrow> take (length path - length s) path)"

section \<open>Pinned sources\<close>

text \<open>\<^verbatim>\<open>ensure_file\<close>; its value is whether the path it gives is there.\<close>

definition ensure_file :: "'s manual_env \<Rightarrow> string \<Rightarrow> string \<Rightarrow> string \<Rightarrow> ('s, bool) fetch" where
  "ensure_file env url file sha = (\<lambda>w.
     let dest = manual_path file
     in case node_at w dest of
       Some (Folder fs) \<Rightarrow> (w, Inl (PyRaise ''IsADirectoryError''))
     | before \<Rightarrow>
         if (case before of Some (Plain b) \<Rightarrow> mn_sha256 env b = sha | _ \<Rightarrow> False) then (w, Inr True)
         else case download env url dest w of
                (w', Inl e) \<Rightarrow> (w', Inr (node_at w' dest \<noteq> None))
              | (w', Inr _) \<Rightarrow> (w', Inr True))"

definition ensure_text :: "'s manual_env \<Rightarrow> string \<Rightarrow> 's manual_world \<Rightarrow> 's manual_world" where
  "ensure_text env pdf w =
     (let txt = with_suffix pdf ''.txt''
      in if node_at w txt \<noteq> None then w
         else case (mn_pdftotext env, node_at w pdf) of
                (Some run, Some (Plain b)) \<Rightarrow>
                  (case run b of None \<Rightarrow> w | Some out \<Rightarrow> put_node txt (Plain out) w)
              | _ \<Rightarrow> w)"

text \<open>A failed unpacking removes what it unpacked; nothing was there before.\<close>

definition ensure_unpacked :: "'s manual_env \<Rightarrow> string \<Rightarrow> string \<Rightarrow> 's manual_world \<Rightarrow> 's manual_world" where
  "ensure_unpacked env archive kind w =
     (let target = unpacked_dir archive
      in if node_at w target \<noteq> None then w
         else case node_at w archive of
                Some (Plain b) \<Rightarrow>
                  (let (fs, ok) = mn_unpack env kind b in if ok then put_node target (Folder fs) w else w)
              | _ \<Rightarrow> w)"

definition fetch_pinned_row :: "'s manual_env \<Rightarrow> pinned_row \<Rightarrow> ('s, unit) fetch" where
  "fetch_pinned_row env r =
     bindS (ensure_file env (pr_url r) (pr_file r) (pr_sha r)) (\<lambda>there w.
       (let path = manual_path (pr_file r)
        in if \<not> there then w
        else if pr_kind r = ''pdf'' then ensure_text env path w
        else if pr_kind r \<in> {''zip'', ''repo-snapshot''} then ensure_unpacked env path (pr_kind r) w
        else w, Inr ()))"

fun fetch_pinned_rows :: "'s manual_env \<Rightarrow> pinned_row list \<Rightarrow> ('s, unit) fetch" where
  "fetch_pinned_rows env [] = returnS ()"
| "fetch_pinned_rows env (r # rs) = bindS (fetch_pinned_row env r) (\<lambda>_. fetch_pinned_rows env rs)"

definition readme_text :: "'s manual_world \<Rightarrow> string" where
  "readme_text w = (case mw_readme w of None \<Rightarrow> [] | Some s \<Rightarrow> s)"

definition fetch_pinned :: "'s manual_env \<Rightarrow> ('s, int) fetch" where
  "fetch_pinned env = (\<lambda>w.
     let rows = parse_table (readme_text w)
     in if rows = [] then (w, Inr 1)
        else bindS (fetch_pinned_rows env rows) (\<lambda>_. returnS 0) w)"

section \<open>HTML and text\<close>

text \<open>\<^verbatim>\<open>re.sub\<close> and \<^verbatim>\<open>rx.search\<close>, for a regular expression given as what it matches at a place.
  A match is never empty.\<close>

function subst_all :: "(string \<Rightarrow> (string \<times> string) option) \<Rightarrow> string \<Rightarrow> string" where
  "subst_all m [] = []"
| "subst_all m (c # cs) =
     (case m (c # cs) of
        Some (new, rest) \<Rightarrow>
          if length rest < length (c # cs) then new @ subst_all m rest else c # subst_all m cs
      | None \<Rightarrow> c # subst_all m cs)"
  by pat_completeness auto
termination by (relation "measure (length \<circ> snd)") auto

fun search_text :: "(string \<Rightarrow> 'a option) \<Rightarrow> string \<Rightarrow> 'a option" where
  "search_text m [] = m []"
| "search_text m (c # cs) = (case m (c # cs) of Some x \<Rightarrow> Some x | None \<Rightarrow> search_text m cs)"

fun html_block :: "string list \<Rightarrow> string \<Rightarrow> (string \<times> string) option" where
  "html_block [] s = None"
| "html_block (tag # tags) s =
     (case after_prefix (''<'' @ tag) s of
        None \<Rightarrow> html_block tags s
      | Some rest \<Rightarrow>
          (case search_text (after_prefix (''</'' @ tag @ ''>'')) rest of
             None \<Rightarrow> html_block tags s
           | Some rest \<Rightarrow> Some ([], rest)))"

definition html_break :: "string \<Rightarrow> (string \<times> string) option" where
  "html_break s =
     (case after_prefix ''<br'' s of
        Some rest \<Rightarrow>
          (let rest = dropWhile is_space rest; rest = remove_prefix ''/'' rest
           in map_option (\<lambda>r. ([newline], r)) (after_prefix ''>'' rest))
      | None \<Rightarrow>
          (case after_prefix ''</p>'' s of
             Some r \<Rightarrow> Some ([newline], r)
           | None \<Rightarrow> map_option (\<lambda>r. ([newline], r)) (after_prefix ''</li>'' s)))"

definition html_tag :: "string \<Rightarrow> (string \<times> string) option" where
  "html_tag s =
     (case after_prefix ''<'' s of
        None \<Rightarrow> None
      | Some rest \<Rightarrow>
          (case dropWhile (\<lambda>c. c \<noteq> CHR ''>'') rest of
             [] \<Rightarrow> None
           | _ # r \<Rightarrow> if take 1 rest = ''>'' then None else Some ([], r)))"

definition strip_html :: "'s manual_env \<Rightarrow> string \<Rightarrow> string" where
  "strip_html env text = str_strip (mn_unescape env (subst_all html_tag (subst_all html_break
     (subst_all (html_block [''script'', ''style'']) text))))"

text \<open>\<^verbatim>\<open>[ \t]+\<close> becomes a space, three line feeds or more become two.\<close>

definition run_of_blanks :: "string \<Rightarrow> (string \<times> string) option" where
  "run_of_blanks s =
     (let r = dropWhile (\<lambda>c. c = CHR '' '' \<or> c = CHR 0x09) s
      in if length r < length s then Some ('' '', r) else None)"

definition run_of_newlines :: "string \<Rightarrow> (string \<times> string) option" where
  "run_of_newlines s =
     (let r = dropWhile (\<lambda>c. c = newline) s
      in if length r + 3 \<le> length s then Some ([newline, newline], r) else None)"

text \<open>Reading a text file turns every line end into a line feed.\<close>

fun universal_newlines :: "string \<Rightarrow> string" where
  "universal_newlines [] = []"
| "universal_newlines [c] = [if c = CHR 0x0D then newline else c]"
| "universal_newlines (c # d # cs) =
     (if c = CHR 0x0D then newline # universal_newlines (if d = newline then cs else d # cs)
      else c # universal_newlines (d # cs))"

definition write_text :: "'s manual_env \<Rightarrow> string \<Rightarrow> string \<Rightarrow> ('s, unit) fetch" where
  "write_text env path text = write_node path (Plain (mn_utf8 env text))"

definition write_json :: "'s manual_env \<Rightarrow> string \<Rightarrow> py \<Rightarrow> ('s, unit) fetch" where
  "write_json env dest payload = write_text env dest (mn_dumps env payload)"

definition write_thread_text :: "'s manual_env \<Rightarrow> string \<Rightarrow> string \<Rightarrow> (string \<times> string) list \<Rightarrow> ('s, unit) fetch" where
  "write_thread_text env dest header entries =
     write_text env (with_suffix dest ''.txt'')
       (str_join [newline, newline]
          (header # map (\<lambda>(title, body). ''### '' @ title @ [newline] @ body) entries) @ [newline])"

section \<open>JSON values\<close>

text \<open>\<^verbatim>\<open>str(v)\<close>, \<^verbatim>\<open>v[:n]\<close> and \<^verbatim>\<open>v[0]\<close>; a key of a dict compares as its number when it is one.\<close>

definition man_str :: "'s manual_env \<Rightarrow> py \<Rightarrow> string" where
  "man_str env v = (case v of PStr s \<Rightarrow> s | _ \<Rightarrow> mn_str env v)"

definition json_take :: "'s manual_env \<Rightarrow> nat \<Rightarrow> py \<Rightarrow> publish_error + string" where
  "json_take env n v =
     (case v of
        PStr s \<Rightarrow> Inr (take n s)
      | PList l \<Rightarrow> Inr (mn_str env (PList (take n l)))
      | PDict d \<Rightarrow> Inl (PyRaise ''KeyError'')
      | _ \<Rightarrow> Inl (PyRaise ''TypeError''))"

definition json_first :: "py \<Rightarrow> publish_error + py" where
  "json_first v =
     (case v of
        PList (x # xs) \<Rightarrow> Inr x
      | PList [] \<Rightarrow> Inl (PyRaise ''IndexError'')
      | PStr (c # cs) \<Rightarrow> Inr (PStr [c])
      | PStr [] \<Rightarrow> Inl (PyRaise ''IndexError'')
      | PDict d \<Rightarrow> Inl (PyRaise ''KeyError'')
      | _ \<Rightarrow> Inl (PyRaise ''TypeError''))"

definition json_list :: "py \<Rightarrow> publish_error + py list" where
  "json_list v = (case v of PList l \<Rightarrow> Inr l | _ \<Rightarrow> Inl (PyRaise ''TypeError''))"

definition hash_key :: "py \<Rightarrow> publish_error + py" where
  "hash_key v =
     (case v of
        PList l \<Rightarrow> Inl (PyRaise ''TypeError'')
      | PDict d \<Rightarrow> Inl (PyRaise ''TypeError'')
      | _ \<Rightarrow> Inr (case py_number v of Some n \<Rightarrow> PInt n | None \<Rightarrow> v))"

text \<open>\<^verbatim>\<open>v[k][l]\<close>, \<^verbatim>\<open>v.get(k)\<close>, and \<^verbatim>\<open>v.get(k, '')[:10]\<close> as text.\<close>

definition json_item2 :: "py \<Rightarrow> string \<Rightarrow> string \<Rightarrow> publish_error + py" where
  "json_item2 v k l = bindE (json_item v k) (\<lambda>x. json_item x l)"

definition json_date :: "'s manual_env \<Rightarrow> py \<Rightarrow> string \<Rightarrow> publish_error + string" where
  "json_date env v k = bindE (json_get v k (PStr [])) (json_take env 10)"

section \<open>Discourse\<close>

text \<open>\<^verbatim>\<open>have\<close>: the posts by their id, a dict.\<close>

type_synonym posts = "(py \<times> py) list"

fun add_posts :: "py list \<Rightarrow> posts \<Rightarrow> publish_error + posts" where
  "add_posts [] have_posts = Inr have_posts"
| "add_posts (p # ps) have_posts =
     bindE (bindE (json_item p ''id'') hash_key) (\<lambda>k. add_posts ps (AList.update k p have_posts))"

definition has_post :: "posts \<Rightarrow> py \<Rightarrow> publish_error + bool" where
  "has_post have_posts i = bindE (hash_key i) (\<lambda>k. Inr (map_of have_posts k \<noteq> None))"

text \<open>The ids of \<^verbatim>\<open>stream[start : start + 20]\<close>, one list for each turn of the loop.\<close>

function chunks_of_20 :: "'a list \<Rightarrow> 'a list list" where
  "chunks_of_20 xs = (if xs = [] then [] else take 20 xs # chunks_of_20 (drop 20 xs))"
  by pat_completeness auto
termination by (relation "measure length") auto

declare chunks_of_20.simps [simp del]

fun discourse_chunks :: "'s manual_env \<Rightarrow> string \<Rightarrow> py list list \<Rightarrow> posts \<Rightarrow> ('s, posts) fetch" where
  "discourse_chunks env topic_url [] have_posts = returnS have_posts"
| "discourse_chunks env topic_url (ids # chunks) have_posts =
     bindS (liftE (filterE (\<lambda>i. bindE (has_post have_posts i) (\<lambda>b. Inr (\<not> b))) ids)) (\<lambda>missing.
     if missing = [] then discourse_chunks env topic_url chunks have_posts
     else bindS (get_json env (topic_url @ ''/posts.json?''
                   @ str_join ''&'' (map (\<lambda>i. ''post_ids[]='' @ man_str env i) missing) @ ''&include_raw=true'')) (\<lambda>chunk.
          bindS (liftE (bindE (json_item2 chunk ''post_stream'' ''posts'') json_items)) (\<lambda>ps.
          bindS (liftE (add_posts ps have_posts)) (\<lambda>have_posts.
          discourse_chunks env topic_url chunks have_posts))))"

definition discourse_entry :: "'s manual_env \<Rightarrow> py \<Rightarrow> publish_error + string \<times> string" where
  "discourse_entry env p =
     bindE (json_item p ''post_number'') (\<lambda>number.
     bindE (json_get p ''username'' PNone) (\<lambda>user.
     bindE (json_date env p ''created_at'') (\<lambda>date.
     bindE (json_get p ''raw'' PNone) (\<lambda>raw.
     bindE (if py_truth raw then Inr (man_str env raw)
            else bindE (json_get p ''cooked'' PNone) (\<lambda>cooked.
                 case json_or cooked (PStr []) of
                   PStr s \<Rightarrow> Inr (strip_html env s)
                 | _ \<Rightarrow> Inl (PyRaise ''TypeError''))) (\<lambda>body.
     Inr (''#'' @ man_str env number @ '' '' @ man_str env user @ '' '' @ date, body))))))"

text \<open>\<^verbatim>\<open>for start in range(0, len(stream), 20)\<close>: a stream that is no list raises when it is sliced.\<close>

definition discourse_stream :: "py \<Rightarrow> publish_error + py list" where
  "discourse_stream v =
     (case v of
        PList l \<Rightarrow> Inr l
      | PStr s \<Rightarrow> Inr (map (\<lambda>c. PStr [c]) s)
      | PDict [] \<Rightarrow> Inr []
      | PDict (kv # d) \<Rightarrow> Inl (PyRaise ''KeyError'')
      | _ \<Rightarrow> Inl (PyRaise ''TypeError''))"

definition fetch_discourse :: "'s manual_env \<Rightarrow> living_row \<Rightarrow> string \<Rightarrow> ('s, string) fetch" where
  "fetch_discourse env row dest =
     (let topic_url = rstrip_by (\<lambda>c. c = CHR ''/'') (lr_source row) @ ''/t/'' @ lr_key row in
      bindS (get_json env (topic_url @ ''.json?include_raw=true'')) (\<lambda>topic.
      bindS (liftE (json_item2 topic ''post_stream'' ''stream'')) (\<lambda>stream.
      bindS (liftE (bindE (json_item2 topic ''post_stream'' ''posts'') json_items)) (\<lambda>first.
      bindS (liftE (add_posts first [])) (\<lambda>have_posts.
      bindS (liftE (discourse_stream stream)) (\<lambda>ids.
      bindS (discourse_chunks env topic_url (chunks_of_20 ids) have_posts) (\<lambda>have_posts.
      bindS (liftE (bindE (filterE (has_post have_posts) ids)
               (mapE (\<lambda>i. bindE (hash_key i) (\<lambda>k. Inr (the (map_of have_posts k))))))) (\<lambda>posts.
      bindS (liftE (bindE (json_get topic ''title'' PNone) (\<lambda>title.
                    bindE (json_get topic ''posts_count'' PNone) (\<lambda>count.
                    bindE (json_get topic ''created_at'' PNone) (\<lambda>created.
                    bindE (json_get topic ''last_posted_at'' PNone) (\<lambda>last_posted.
                    Inr (title, count, created, last_posted))))))) (\<lambda>(title, count, created, last_posted).
      bindS (write_json env dest (PDict
               [(''fetched'', PStr (mn_today env)), (''url'', PStr topic_url), (''title'', title),
                (''posts_count'', count), (''created_at'', created), (''last_posted_at'', last_posted),
                (''posts'', PList posts)])) (\<lambda>_.
      bindS (liftE (mapE (discourse_entry env) posts)) (\<lambda>entries.
      bindS (write_thread_text env dest
               (''# '' @ man_str env title @ '' ('' @ man_str env count @ '' posts, fetched '' @ mn_today env
                 @ '')'' @ [newline] @ topic_url) entries) (\<lambda>_.
      bindS (liftE (json_get topic ''posts_count'' (PInt (int (length posts))))) (\<lambda>marker.
      returnS (man_str env marker))))))))))))))"

section \<open>GitHub\<close>

text \<open>\<^verbatim>\<open>\w\<close> for code points below 256, and \<^verbatim>\<open>[\w.-]+/[\w.-]+\<close>.\<close>

definition is_word_char :: "char \<Rightarrow> bool" where
  "is_word_char c \<longleftrightarrow> is_letter c \<or> is_decimal c \<or> (let n = code_point c in
     n = 95 \<or> n \<in> {170, 178, 179, 181, 185, 186, 188, 189, 190} \<or> 192 \<le> n \<and> n \<noteq> 215 \<and> n \<noteq> 247)"

definition is_repo_name :: "string \<Rightarrow> bool" where
  "is_repo_name s \<longleftrightarrow> (let parts = str_split (CHR ''/'') s in length parts = 2
     \<and> list_all (\<lambda>p. p \<noteq> [] \<and> list_all (\<lambda>c. is_word_char c \<or> c \<in> set ''.-'') p) parts)"

text \<open>\<^verbatim>\<open>GH_ISSUE_RE\<close>, \<^verbatim>\<open>GH_FILE_RE\<close> and \<^verbatim>\<open>GH_REPO_RE\<close> on a key, which has no line feed.\<close>

definition issue_key :: "string \<Rightarrow> (string \<times> string) option" where
  "issue_key key =
     (case str_split (CHR ''#'') key of
        [repo, number] \<Rightarrow>
          if is_repo_name repo \<and> number \<noteq> [] \<and> list_all is_decimal number then Some (repo, number) else None
      | _ \<Rightarrow> None)"

definition is_ref :: "string \<Rightarrow> bool" where
  "is_ref s \<longleftrightarrow> s \<noteq> [] \<and> list_all (\<lambda>c. \<not> is_space c) s"

definition file_key :: "string \<Rightarrow> (string \<times> string \<times> string) option" where
  "file_key key =
     (let (repo, rest) = str_partition (CHR '':'') key; (path, ref) = str_partition (CHR ''@'') rest
      in if is_repo_name repo \<and> path \<noteq> [] \<and> is_ref ref then Some (repo, path, ref) else None)"

definition repo_key :: "string \<Rightarrow> (string \<times> string) option" where
  "repo_key key =
     (let (repo, ref) = str_partition (CHR ''@'') key
      in if is_repo_name repo \<and> is_ref ref then Some (repo, ref) else None)"

definition comment_entry :: "'s manual_env \<Rightarrow> string \<Rightarrow> py \<Rightarrow> publish_error + string \<times> string" where
  "comment_entry env suffix c =
     bindE (json_item2 c ''user'' ''login'') (\<lambda>login.
     bindE (json_date env c ''created_at'') (\<lambda>date.
     bindE (json_get c ''body'' PNone) (\<lambda>body.
     Inr (man_str env login @ '' '' @ date @ suffix, man_str env (json_or body (PStr []))))))"

definition fetch_gh_issue :: "'s manual_env \<Rightarrow> living_row \<Rightarrow> string \<Rightarrow> ('s, string) fetch" where
  "fetch_gh_issue env row dest =
     (case issue_key (lr_key row) of
        None \<Rightarrow> raiseS (PyRaise ''RuntimeError'')
      | Some (repo, number) \<Rightarrow>
          bindS (gh_json env [''api'', ''repos/'' @ repo @ ''/issues/'' @ number]) (\<lambda>issue.
          bindS (gh_json env [''api'', ''--paginate'', ''repos/'' @ repo @ ''/issues/'' @ number @ ''/comments?per_page=100'']) (\<lambda>comments.
          bindS (liftE (json_get issue ''pull_request'' PNone)) (\<lambda>pull.
          bindS (if py_truth pull
                 then gh_json env [''api'', ''--paginate'', ''repos/'' @ repo @ ''/pulls/'' @ number @ ''/comments?per_page=100'']
                 else returnS (PList [])) (\<lambda>reviews.
          bindS (write_json env dest (PDict
                   [(''fetched'', PStr (mn_today env)), (''repo'', PStr repo), (''number'', PInt (int (nat_of_str number))),
                    (''issue'', issue), (''comments'', comments), (''review_comments'', reviews)])) (\<lambda>_.
          bindS (liftE (bindE (json_list comments) (\<lambda>cs. bindE (json_list reviews) (\<lambda>rs. Inr (cs @ rs))))) (\<lambda>all.
          bindS (liftE (bindE (json_get issue ''title'' PNone) (\<lambda>title.
                        bindE (json_get issue ''state'' PNone) (\<lambda>state.
                        bindE (json_get issue ''html_url'' PNone) (\<lambda>url. Inr (title, state, url)))))) (\<lambda>(title, state, url).
          bindS (liftE (comment_entry env '' (opening post)'' issue)) (\<lambda>opening.
          bindS (liftE (mapE (comment_entry env []) all)) (\<lambda>entries.
          bindS (write_thread_text env dest
                   (''# '' @ repo @ ''#'' @ number @ '' '' @ man_str env title @ '' ('' @ man_str env state @ '', ''
                     @ str_nat (length all) @ '' comments, fetched '' @ mn_today env @ '')'' @ [newline] @ man_str env url)
                   (opening # entries)) (\<lambda>_.
          returnS (str_nat (length all) @ ''c''))))))))))))"

definition commit_date :: "'s manual_env \<Rightarrow> py \<Rightarrow> publish_error + string" where
  "commit_date env c =
     bindE (json_item2 c ''commit'' ''committer'') (\<lambda>x. bindE (json_item x ''date'') (json_take env 10))"

text \<open>The file is emptied before \<^verbatim>\<open>gh\<close> starts to fill it.\<close>

definition fetch_gh_file :: "'s manual_env \<Rightarrow> living_row \<Rightarrow> string \<Rightarrow> ('s, string) fetch" where
  "fetch_gh_file env row dest =
     (case file_key (lr_key row) of
        None \<Rightarrow> raiseS (PyRaise ''RuntimeError'')
      | Some (repo, path, ref) \<Rightarrow>
          bindS (gh_json env [''api'', ''repos/'' @ repo @ ''/commits?path='' @ path @ ''&sha='' @ ref @ ''&per_page=1'']) (\<lambda>commits.
          if \<not> py_truth commits then raiseS (PyRaise ''RuntimeError'')
          else bindS (liftE (json_first commits)) (\<lambda>commit.
               bindS (liftE (json_item commit ''sha'')) (\<lambda>sha.
               bindS (\<lambda>w. let (s, out, ok) = mn_gh_raw env [''api'', ''-H'', ''Accept: application/vnd.github.raw'',
                                ''repos/'' @ repo @ ''/contents/'' @ path @ ''?ref='' @ man_str env sha] (mw_net w)
                      in (put_node dest (Plain out) (w\<lparr>mw_net := s\<rparr>),
                          if ok then Inr () else Inl (PyRaise ''CalledProcessError''))) (\<lambda>_.
               bindS (liftE (commit_date env commit)) (\<lambda>_.
               liftE (json_take env 12 sha)))))))"

text \<open>
  \<^verbatim>\<open>fetch_gh_repo\<close>. A folder is the files in it; \<^verbatim>\<open>.snapshot-sha\<close> is one of them. What codeload
  sends is wrapped in one directory, which is lifted; a child of its own name would not move.
\<close>

definition snapshot_name :: string where "snapshot_name = ''.snapshot-sha''"

definition first_part :: "string \<Rightarrow> string" where
  "first_part path = fst (str_partition (CHR ''/'') path)"

definition lift_inner :: "(string \<times> bytes) list \<Rightarrow> publish_error + (string \<times> bytes) list" where
  "lift_inner fs =
     (case remdups (map (first_part \<circ> fst) fs) of
        [inner] \<Rightarrow>
          if list_ex (\<lambda>(path, b). path = inner) fs then Inr fs
          else (let lifted = map (\<lambda>(path, b). (drop (length inner + 1) path, b)) fs
                in if list_ex (\<lambda>(path, b). first_part path = inner) lifted then Inl (PyRaise ''Error'') else Inr lifted)
      | _ \<Rightarrow> Inr fs)"

definition snapshot_of :: "'s manual_env \<Rightarrow> 's manual_world \<Rightarrow> string \<Rightarrow> publish_error + string option" where
  "snapshot_of env w dest =
     (case node_at w dest of
        Some (Folder fs) \<Rightarrow>
          (case map_of fs snapshot_name of
             None \<Rightarrow> Inr None
           | Some b \<Rightarrow> (case mn_strict env b of
                          None \<Rightarrow> Inl (PyRaise ''UnicodeDecodeError'') | Some s \<Rightarrow> Inr (Some (str_strip s))))
      | _ \<Rightarrow> Inr None)"

definition unpack_snapshot :: "'s manual_env \<Rightarrow> string \<Rightarrow> string \<Rightarrow> ('s, unit) fetch" where
  "unpack_snapshot env dest tarball = (\<lambda>w.
     case node_at w tarball of
       Some (Plain b) \<Rightarrow>
         (let (fs, ok) = mn_unpack env ''repo-snapshot'' b
          in if \<not> ok then (put_node dest (Folder fs) w, Inl (PyRaise ''TarError''))
             else case lift_inner fs of
                    Inl e \<Rightarrow> (put_node dest (Folder fs) (drop_node tarball w), Inl e)
                  | Inr fs \<Rightarrow> (put_node dest (Folder fs) (drop_node tarball w), Inr ()))
     | _ \<Rightarrow> (drop_node dest w, Inl (PyRaise ''FileNotFoundError'')))"

definition write_stamp :: "'s manual_env \<Rightarrow> string \<Rightarrow> py \<Rightarrow> ('s, unit) fetch" where
  "write_stamp env dest sha = (\<lambda>w.
     case (sha, node_at w dest) of
       (PStr s, Some (Folder fs)) \<Rightarrow>
         (put_node dest (Folder (AList.update snapshot_name (mn_utf8 env (s @ [newline])) fs)) w, Inr ())
     | _ \<Rightarrow> (w, Inl (PyRaise ''TypeError'')))"

definition fetch_gh_repo :: "'s manual_env \<Rightarrow> living_row \<Rightarrow> string \<Rightarrow> ('s, string) fetch" where
  "fetch_gh_repo env row dest =
     (case repo_key (lr_key row) of
        None \<Rightarrow> raiseS (PyRaise ''RuntimeError'')
      | Some (repo, ref) \<Rightarrow>
          bindS (gh_json env [''api'', ''repos/'' @ repo @ ''/commits/'' @ ref]) (\<lambda>head.
          bindS (liftE (json_item head ''sha'')) (\<lambda>sha.
          bindS (\<lambda>w. (w, snapshot_of env w dest)) (\<lambda>stamp.
          if stamp \<noteq> None \<and> sha = PStr (the stamp) then liftE (json_take env 12 sha)
          else let tarball = with_suffix dest ''.tar.gz'' in
               bindS (download env (''https://codeload.github.com/'' @ repo @ ''/tar.gz/'' @ man_str env sha) tarball) (\<lambda>_.
               bindS (unpack_snapshot env dest tarball) (\<lambda>_.
               bindS (write_stamp env dest sha) (\<lambda>_.
               bindS (liftE (commit_date env head)) (\<lambda>_.
               liftE (json_take env 12 sha)))))))))"

section \<open>Web pages and shops\<close>

text \<open>\<^verbatim>\<open>IPS_POST_RE\<close>: the id of a post, and the text after the match.\<close>

definition quote_mark :: string where "quote_mark = [CHR 0x27]"

definition post_match :: "string \<Rightarrow> (string \<times> string) option" where
  "post_match s =
     (case after_prefix ''contentcommentid&quot;:'' s of
        None \<Rightarrow> None
      | Some rest \<Rightarrow>
          (let digits = takeWhile is_decimal rest
           in if digits = [] then None
              else case after_prefix (''}'' @ quote_mark) (dropWhile is_decimal rest) of
                     None \<Rightarrow> None
                   | Some rest \<Rightarrow>
                       map_option (\<lambda>r. (digits, r))
                         (after_prefix (''class='' @ quote_mark @ ''ipsComment_content'') (dropWhile is_space rest))))"

text \<open>Every match with the text from its start on; the next is looked for behind it.\<close>

function post_starts :: "string \<Rightarrow> (string \<times> string) list" where
  "post_starts [] = []"
| "post_starts (c # cs) =
     (case post_match (c # cs) of
        Some (i, rest) \<Rightarrow>
          if length rest < length (c # cs) then (i, c # cs) # post_starts rest else post_starts cs
      | None \<Rightarrow> post_starts cs)"
  by pat_completeness auto
termination by (relation "measure length") auto

fun post_chunks :: "(string \<times> string) list \<Rightarrow> (string \<times> string) list" where
  "post_chunks [] = []"
| "post_chunks [(i, s)] = [(i, s)]"
| "post_chunks ((i, s) # (j, t) # rest) = (i, take (length s - length t) s) # post_chunks ((j, t) # rest)"

fun invision_pages ::
  "'s manual_env \<Rightarrow> string \<Rightarrow> nat list \<Rightarrow> string list \<Rightarrow> (string \<times> string) list
     \<Rightarrow> ('s, string list \<times> (string \<times> string) list) fetch" where
  "invision_pages env base [] seen chunks = returnS (seen, chunks)"
| "invision_pages env base (page # pages) seen chunks =
     bindS (urlopen env (if page = 1 then base else base @ ''/page/'' @ str_nat page @ ''/'')) (\<lambda>a.
     case a of
       HttpStatus code \<Rightarrow>
         if code = 404 \<and> page > 1 then returnS (seen, chunks) else raiseS (PyRaise ''HTTPError'')
     | Refused e \<Rightarrow> raiseS (PyRaise e)
     | Body b whole \<Rightarrow>
         if \<not> whole then raiseS (PyRaise ''IncompleteRead'')
         else let posts = post_starts (mn_lossy env b);
                  fresh = filter (\<lambda>i. i \<notin> set seen) (map fst posts)
              in if fresh = [] then returnS (seen, chunks)
                 else invision_pages env base pages (seen @ fresh)
                        (chunks @ map (\<lambda>(i, s). (i, strip_html env s))
                                    (filter (\<lambda>(i, s). i \<in> set fresh) (post_chunks posts))))"

definition fetch_invision :: "'s manual_env \<Rightarrow> living_row \<Rightarrow> string \<Rightarrow> ('s, string) fetch" where
  "fetch_invision env row dest =
     (let base = rstrip_by (\<lambda>c. c = CHR ''/'') (lr_source row) in
      bindS (invision_pages env base [1..<41] [] []) (\<lambda>(seen, chunks).
      if seen = [] then raiseS (PyRaise ''RuntimeError'')
      else bindS (write_thread_text env dest
                    (''# '' @ base @ '' ('' @ str_nat (length seen) @ '' posts, fetched '' @ mn_today env @ '')'')
                    (map (\<lambda>(i, body). (''post '' @ i, body)) chunks)) (\<lambda>_.
           returnS (str_nat (length seen)))))"

definition file_bytes :: "'s manual_world \<Rightarrow> string \<Rightarrow> bytes" where
  "file_bytes w path = (case node_at w path of Some (Plain b) \<Rightarrow> b | _ \<Rightarrow> [])"

definition fetch_web :: "'s manual_env \<Rightarrow> living_row \<Rightarrow> string \<Rightarrow> ('s, string) fetch" where
  "fetch_web env row dest =
     (if path_suffix dest \<noteq> ''.txt''
      then bindS (download env (lr_source row) dest) (\<lambda>_ w.
             (w, Inr (take 12 (mn_sha256 env (file_bytes w dest)))))
      else let raw = with_suffix dest ''.html'' in
           bindS (download env (lr_source row) raw) (\<lambda>_ w.
             let page = strip_html env (universal_newlines (mn_lossy env (file_bytes w raw)));
                 page = subst_all run_of_newlines (subst_all run_of_blanks page)
             in bindS (write_text env dest
                         (''# '' @ lr_source row @ [newline] @ ''# fetched '' @ mn_today env @ [newline, newline]
                           @ page @ [newline])) (\<lambda>_.
                returnS (take 12 (mn_sha256 env (mn_utf8 env page)))) w))"

definition fetch_appstore :: "'s manual_env \<Rightarrow> living_row \<Rightarrow> string \<Rightarrow> ('s, string) fetch" where
  "fetch_appstore env row dest =
     (let (app_id, country) = str_partition (CHR ''@'') (lr_key row);
          country = (if country = [] then ''no'' else country) in
      bindS (get_json env (''https://itunes.apple.com/lookup?id='' @ app_id @ ''&country='' @ country)) (\<lambda>data.
      bindS (liftE (json_get data ''results'' PNone)) (\<lambda>results.
      if \<not> py_truth results then raiseS (PyRaise ''RuntimeError'')
      else bindS (liftE (json_first results)) (\<lambda>app.
           bindS (write_json env dest (PDict [(''fetched'', PStr (mn_today env)), (''app'', app)])) (\<lambda>_.
           bindS (liftE (json_get app ''version'' (PStr ''?''))) (\<lambda>version.
           bindS (liftE (json_date env app ''currentVersionReleaseDate'')) (\<lambda>_.
           returnS (man_str env version))))))))"

text \<open>\<^verbatim>\<open>APKPURE_FIELDS\<close>\<close>

definition json_field :: "string \<Rightarrow> string \<Rightarrow> string option" where
  "json_field name s =
     (case after_prefix ([CHR 0x22] @ name @ [CHR 0x22]) s of
        None \<Rightarrow> None
      | Some rest \<Rightarrow>
          (case after_prefix '':'' (dropWhile is_space rest) of
             None \<Rightarrow> None
           | Some rest \<Rightarrow>
               (case after_prefix [CHR 0x22] (dropWhile is_space rest) of
                  None \<Rightarrow> None
                | Some rest \<Rightarrow>
                    (let text = takeWhile (\<lambda>c. c \<noteq> CHR 0x22) rest
                     in if text = [] \<or> text = rest then None else Some text))))"

definition version_code_field :: "string \<Rightarrow> string option" where
  "version_code_field s =
     (case after_prefix ''versionCode'' s of
        None \<Rightarrow> None
      | Some rest \<Rightarrow>
          (case after_prefix '':'' (dropWhile is_space (remove_prefix [CHR 0x22] rest)) of
             None \<Rightarrow> None
           | Some rest \<Rightarrow>
               (let digits = takeWhile is_decimal (remove_prefix [CHR 0x22] (dropWhile is_space rest))
                in if digits = [] then None else Some digits)))"

definition APKPURE_FIELDS :: "(string \<times> (string \<Rightarrow> string option)) list" where
  "APKPURE_FIELDS =
     [(''version'', json_field ''version''), (''versionCode'', version_code_field),
      (''datePublished'', json_field ''datePublished''), (''name'', json_field ''name'')]"

definition fetch_android :: "'s manual_env \<Rightarrow> living_row \<Rightarrow> string \<Rightarrow> ('s, string) fetch" where
  "fetch_android env row dest =
     bindS (read_body env (''https://apkpure.com/x/'' @ lr_key row)) (\<lambda>b.
     let found = map (\<lambda>(name, field). (name, search_text field (mn_lossy env b))) APKPURE_FIELDS in
     case the (map_of found ''version'') of
       None \<Rightarrow> raiseS (PyRaise ''RuntimeError'')
     | Some version \<Rightarrow>
         bindS (write_json env dest (PDict
                  ([(''fetched'', PStr (mn_today env)), (''package'', PStr (lr_key row))]
                   @ map (\<lambda>(name, v). (name, case v of None \<Rightarrow> PNone | Some s \<Rightarrow> PStr s)) found))) (\<lambda>_.
         returnS (version @ '' ('' @ (case the (map_of found ''versionCode'') of None \<Rightarrow> ''?'' | Some code \<Rightarrow> code) @ '')'')))"

section \<open>The run\<close>

definition FETCHERS :: "'s manual_env \<Rightarrow> (string \<times> (living_row \<Rightarrow> string \<Rightarrow> ('s, string) fetch)) list" where
  "FETCHERS env =
     [(''discourse'', fetch_discourse env), (''invision'', fetch_invision env), (''gh-issue'', fetch_gh_issue env),
      (''gh-file'', fetch_gh_file env), (''gh-repo'', fetch_gh_repo env), (''web'', fetch_web env),
      (''appstore'', fetch_appstore env), (''android'', fetch_android env)]"

definition fetch_living_row :: "'s manual_env \<Rightarrow> living_row \<Rightarrow> ('s, string) fetch" where
  "fetch_living_row env row =
     (case map_of (FETCHERS env) (lr_kind row) of
        None \<Rightarrow> raiseS (PyRaise ''KeyError'')
      | Some fetch \<Rightarrow> fetch row (manual_path (lr_item row)))"

text \<open>The loop of \<^verbatim>\<open>fetch_living\<close>: the rows that were fetched, each with its marker.\<close>

fun fetch_rows :: "'s manual_env \<Rightarrow> living_row list \<Rightarrow> 's manual_world \<Rightarrow> 's manual_world \<times> (living_row \<times> string) list" where
  "fetch_rows env [] w = (w, [])"
| "fetch_rows env (row # rows) w =
     (if lr_kind row = ''manual'' then fetch_rows env rows w
      else case fetch_living_row env row w of
             (w, Inl e) \<Rightarrow> fetch_rows env rows w
           | (w, Inr marker) \<Rightarrow> (let (w, rest) = fetch_rows env rows w in (w, (row, marker) # rest)))"

definition row_replacements :: "'s manual_env \<Rightarrow> (living_row \<times> string) list \<Rightarrow> (string \<times> string) list" where
  "row_replacements env fetched =
     fold (\<lambda>(row, marker). AList.update (lr_line row) (rewritten row (mn_today env) marker)) fetched []"

definition fetch_living :: "'s manual_env \<Rightarrow> bool \<Rightarrow> string list \<Rightarrow> 's manual_world \<Rightarrow> 's manual_world \<times> int" where
  "fetch_living env write_back only w =
     (let text = readme_text w; rows = parse_living_table text; duplicates = duplicate_items rows;
          rows = (if only \<noteq> [] then filter (\<lambda>r. lr_kind r \<in> set only) rows else rows)
      in if rows = [] then (w, 0)
         else let (w, fetched) = fetch_rows env rows w; replacements = row_replacements env fetched;
                  w = (if write_back \<and> replacements \<noteq> [] then w\<lparr>mw_readme := Some (replace_rows replacements text)\<rparr> else w)
              in (w, if duplicates \<noteq> [] then 1 else 0))"

record manual_args =
  ma_living :: bool
  ma_pinned :: bool
  ma_check :: bool
  ma_only :: "string list"

definition only_living :: "manual_args \<Rightarrow> bool" where
  "only_living args \<longleftrightarrow> ma_living args \<or> ma_check args \<or> ma_only args \<noteq> []"

unbundle bit_operations_syntax

definition manuals_main :: "'s manual_env \<Rightarrow> manual_args \<Rightarrow> ('s, int) fetch" where
  "manuals_main env args = (\<lambda>w.
     if mw_readme w = None then (w, Inr 1)
     else bindS (if only_living args then returnS 0 else fetch_pinned env) (\<lambda>status w.
            if ma_pinned args then (w, Inr status)
            else let (w, s) = fetch_living env (\<not> ma_check args) (ma_only args) w in (w, Inr (status OR s))) w)"

end
