(* ===== verification/Manual_Props.thy ===== *)
theory Manual_Props
  imports Manuals
begin

text \<open>
  The properties of \<^verbatim>\<open>scripts/fetch_manuals.py\<close>: what a run may change on disk, and what it
  writes back into the README.
\<close>

section \<open>Files\<close>

lemma put_frame [simp]:
  "mw_requests (put_node p x w) = mw_requests w" "mw_readme (put_node p x w) = mw_readme w"
  "mw_net (put_node p x w) = mw_net w"
  by (simp_all add: put_node_def)

text \<open>
  What may become of the file at \<open>path\<close>: it stays, or one of the \<open>rows\<close> wants another file there
  and the server sent one.
\<close>

definition spared :: "'s manual_env \<Rightarrow> pinned_row list \<Rightarrow> string \<Rightarrow> 's manual_world \<Rightarrow> 's manual_world \<Rightarrow> bool" where
  "spared env rows path w w' \<longleftrightarrow> (\<exists>tr. mw_requests w' = mw_requests w @ tr
     \<and> (\<forall>x. node_at w path = Some x \<longrightarrow> node_at w' path = Some x
          \<or> (\<exists>row \<in> set rows. \<exists>old b whole. manual_path (pr_file row) = path \<and> x = Plain old \<and> mn_sha256 env old \<noteq> pr_sha row
               \<and> (pr_url row, Body b whole) \<in> set tr)))"

lemma spared_refl [simp]: "spared env rows path w w"
  by (simp add: spared_def)

lemma spared_trans:
  assumes "spared env rows path w v" "spared env rows' path v u" "set rows \<union> set rows' \<subseteq> set all"
  shows "spared env all path w u"
proof -
  obtain tr tr' where "mw_requests v = mw_requests w @ tr" "mw_requests u = mw_requests v @ tr'"
    using assms(1,2) unfolding spared_def by blast
  then show ?thesis
    using assms unfolding spared_def by (intro exI [of _ "tr @ tr'"]) (simp, blast)
qed

lemma download_requests:
  assumes "download env url dest w = (w', r)"
  shows "\<exists>a. mw_requests w' = mw_requests w @ [(url, a)]
    \<and> (\<forall>p. node_at w' p = node_at w p \<or> p = dest \<and> (\<exists>b whole. a = Body b whole))"
  using assms
  by (auto simp: download_def bindS_def urlopen_def raiseS_def node_at_def [of _ dest] split: http_answer.splits
      prod.splits option.splits node.splits if_splits simp: node_at_def put_node_def update_conv')

lemma file_spared:
  assumes "ensure_file env url file sha w = (w', r)" "row \<in> set rows"
    "pr_url row = url" "pr_file row = file" "pr_sha row = sha"
  shows "spared env rows path w w'"
proof -
  obtain u q where u: "download env url (manual_path file) w = (u, q)" by fastforce
  then consider (same) "w' = w" | (load) q where "download env url (manual_path file) w = (w', q)"
      "\<forall>old. node_at w (manual_path file) = Some (Plain old) \<longrightarrow> mn_sha256 env old \<noteq> sha"
      "\<forall>fs. node_at w (manual_path file) \<noteq> Some (Folder fs)"
    using assms(1)
    by (cases "node_at w (manual_path file)"; cases "the (node_at w (manual_path file))"; cases q)
      (auto simp: ensure_file_def Let_def split: if_splits)
  then show ?thesis
  proof cases
    case load
    obtain a where a: "mw_requests w' = mw_requests w @ [(url, a)]"
        "\<forall>p. node_at w' p = node_at w p \<or> p = manual_path file \<and> (\<exists>b whole. a = Body b whole)"
      using download_requests [OF load(1)] by blast
    have "node_at w' path = Some x \<or> (\<exists>row \<in> set rows. \<exists>old b whole. manual_path (pr_file row) = path \<and> x = Plain old
        \<and> mn_sha256 env old \<noteq> pr_sha row \<and> (pr_url row, Body b whole) \<in> set [(url, a)])"
      if x: "node_at w path = Some x" for x
    proof (cases "node_at w' path = node_at w path")
      case False
      then have "path = manual_path file" "\<exists>b whole. a = Body b whole" using a(2) by blast+
      then show ?thesis using x load(2,3) assms(2-5) by (cases x) auto
    qed (simp add: x)
    then show ?thesis using a(1) unfolding spared_def by blast
  qed simp
qed

lemma later_steps_spare:
  "spared env rows path w (ensure_text env pdf w)" "spared env rows path w (ensure_unpacked env archive kind w)"
  by (auto simp: spared_def ensure_text_def ensure_unpacked_def Let_def split: option.splits node.splits prod.splits)

lemma row_spared:
  assumes "fetch_pinned_row env row w = (w', r)"
  shows "spared env [row] path w w'"
proof -
  obtain v q where v: "ensure_file env (pr_url row) (pr_file row) (pr_sha row) w = (v, q)" by fastforce
  have "spared env [row] path w v" by (rule file_spared [OF v]) simp_all
  moreover have "spared env [row] path v w'"
    using assms v
    by (auto simp: fetch_pinned_row_def bindS_def Let_def later_steps_spare split: sum.splits if_splits)
  ultimately show ?thesis by (rule spared_trans) simp
qed

lemma rows_spared: "fetch_pinned_rows env rows w = (w', r) \<Longrightarrow> spared env rows path w w'"
proof (induction rows arbitrary: w)
  case (Cons row rows)
  obtain v q where v: "fetch_pinned_row env row w = (v, q)" by fastforce
  note first = row_spared [OF v, of path]
  have "spared env rows path v w'" using Cons v by (cases q) (auto simp: bindS_def)
  with first show ?case by (rule spared_trans) simp
qed (simp add: returnS_def)

text \<open>
  C37: a copy is never damaged. Whatever a fetch of the pinned sources meets, a file or folder
  that was there before stays as it is, unless a row of the table names it with another
  digest and the server sent a body for that row: an extract or an unpacked folder is never
  overwritten, and a server that refuses leaves what is there.
\<close>

theorem good_copies_stay:
  assumes "fetch_pinned env w = (w', r)" "node_at w path = Some x"
  shows "\<exists>tr. mw_requests w' = mw_requests w @ tr
    \<and> (node_at w' path = Some x
       \<or> (\<exists>row \<in> set (parse_table (readme_text w)). \<exists>old b whole. manual_path (pr_file row) = path \<and> x = Plain old
            \<and> mn_sha256 env old \<noteq> pr_sha row \<and> (pr_url row, Body b whole) \<in> set tr))"
proof -
  have "spared env (parse_table (readme_text w)) path w w'"
  proof (cases "parse_table (readme_text w) = []")
    case False
    obtain q where "fetch_pinned_rows env (parse_table (readme_text w)) w = (w', q)"
      using assms(1) False
      by (cases "fetch_pinned_rows env (parse_table (readme_text w)) w")
        (auto simp: fetch_pinned_def Let_def bindS_def returnS_def split: sum.splits)
    then show ?thesis by (rule rows_spared)
  qed (use assms(1) in \<open>simp add: fetch_pinned_def\<close>)
  then show ?thesis using assms(2) unfolding spared_def by blast
qed

text \<open>Once every file has its digest, a run asks for nothing.\<close>

lemma nothing_to_fetch:
  assumes "\<forall>row \<in> set rows. \<exists>b. node_at w (manual_path (pr_file row)) = Some (Plain b) \<and> mn_sha256 env b = pr_sha row"
    and "fetch_pinned_rows env rows w = (w', r)"
  shows "mw_requests w' = mw_requests w"
  using assms
proof (induction rows arbitrary: w)
  case (Cons row rows)
  obtain v where v: "fetch_pinned_row env row w = (v, Inr ())"
    using Cons.prems(1) by (auto simp: fetch_pinned_row_def bindS_def ensure_file_def Let_def)
  have files: "node_at v p = node_at w p" if "node_at w p \<noteq> None" for p
    using v that Cons.prems(1)
    by (auto simp: fetch_pinned_row_def bindS_def ensure_file_def ensure_text_def ensure_unpacked_def Let_def
        split: option.splits node.splits prod.splits if_splits)
  have "mw_requests v = mw_requests w"
    using v Cons.prems(1)
    by (auto simp: fetch_pinned_row_def bindS_def ensure_file_def ensure_text_def ensure_unpacked_def Let_def
        split: option.splits node.splits prod.splits if_splits)
  moreover have "mw_requests w' = mw_requests v"
  proof (rule Cons.IH)
    show "\<forall>row \<in> set rows. \<exists>b. node_at v (manual_path (pr_file row)) = Some (Plain b) \<and> mn_sha256 env b = pr_sha row"
      using Cons.prems(1) files by fastforce
    show "fetch_pinned_rows env rows v = (w', r)" using Cons.prems(2) v by (simp add: bindS_def)
  qed
  ultimately show ?case by simp
qed (simp add: returnS_def)

section \<open>The README\<close>

text \<open>Nothing but the end of \<^verbatim>\<open>fetch_living\<close> writes to the README.\<close>

definition keeps_readme :: "('s manual_world \<Rightarrow> 's manual_world \<times> 'r) \<Rightarrow> bool" where
  "keeps_readme m \<longleftrightarrow> (\<forall>w. mw_readme (fst (m w)) = mw_readme w)"

named_theorems keeps_intros \<open>programs that leave the README alone\<close>

lemma keepsD: "keeps_readme m \<Longrightarrow> m w = (w', r) \<Longrightarrow> mw_readme w' = mw_readme w"
  unfolding keeps_readme_def by (metis fst_conv)

lemma keeps_basic [keeps_intros]:
  "keeps_readme (returnS x)" "keeps_readme (raiseS e)" "keeps_readme (liftE v)" "keeps_readme (write_node path n)"
  "keeps_readme (\<lambda>w. (w, f w))"
  by (simp_all add: keeps_readme_def returnS_def raiseS_def liftE_def write_node_def)

lemma keeps_bind [keeps_intros]:
  "keeps_readme m \<Longrightarrow> (\<And>x. keeps_readme (f x)) \<Longrightarrow> keeps_readme (bindS m f)"
  unfolding keeps_readme_def bindS_def by (auto split: prod.split sum.split simp: ) (metis fst_conv)+

lemma keeps_choice [keeps_intros]:
  "keeps_readme m \<Longrightarrow> keeps_readme n \<Longrightarrow> keeps_readme (if b then m else n)"
  by simp

lemma keeps_option [keeps_intros]:
  "keeps_readme m \<Longrightarrow> (\<And>x. keeps_readme (f x)) \<Longrightarrow> keeps_readme (case v of None \<Rightarrow> m | Some x \<Rightarrow> f x)"
  by (cases v) simp_all

lemma keeps_pair [keeps_intros]: "(\<And>x y. keeps_readme (f x y)) \<Longrightarrow> keeps_readme (case v of (x, y) \<Rightarrow> f x y)"
  by (cases v) simp

lemma keeps_answer [keeps_intros]:
  "(\<And>e. keeps_readme (f e)) \<Longrightarrow> (\<And>n. keeps_readme (g n)) \<Longrightarrow> (\<And>b whole. keeps_readme (h b whole)) \<Longrightarrow>
     keeps_readme (case a of Refused e \<Rightarrow> f e | HttpStatus n \<Rightarrow> g n | Body b whole \<Rightarrow> h b whole)"
  by (cases a) simp_all

lemma keeps_steps [keeps_intros]:
  "keeps_readme (urlopen env url)" "keeps_readme (gh_json env argv)"
  "keeps_readme (unpack_snapshot env dest tarball)" "keeps_readme (write_stamp env dest sha)"
  "keeps_readme (write_text env path text)" "keeps_readme (write_json env path v)"
  "keeps_readme (write_thread_text env path header entries)"
  by (auto simp: keeps_readme_def urlopen_def gh_json_def unpack_snapshot_def write_stamp_def
      drop_node_def write_text_def write_json_def write_thread_text_def write_node_def Let_def
      split: prod.splits option.splits node.splits py.splits sum.splits)

lemma keeps_download [keeps_intros]: "keeps_readme (download env url dest)"
  by (auto simp: keeps_readme_def download_def bindS_def urlopen_def raiseS_def
      split: http_answer.splits prod.splits option.splits node.splits sum.splits)

lemma keeps_reads [keeps_intros]: "keeps_readme (read_body env url)" "keeps_readme (get_json env url)"
  unfolding get_json_def read_body_def by (intro keeps_intros)+

lemma keeps_discourse_chunks [keeps_intros]: "keeps_readme (discourse_chunks env url chunks ps)"
proof (induction chunks arbitrary: ps)
  case (Cons ids chunks)
  show ?case unfolding discourse_chunks.simps by (intro keeps_intros Cons.IH)
qed (simp add: keeps_intros)

lemma keeps_invision [keeps_intros]: "keeps_readme (invision_pages env base pages seen chunks)"
proof (induction pages arbitrary: seen chunks)
  case (Cons page pages)
  show ?case unfolding invision_pages.simps Let_def by (intro keeps_intros Cons.IH)
qed (simp add: keeps_intros)

lemma keeps_raw [keeps_intros]:
  "keeps_readme (\<lambda>w. case f (mw_net w) of (s, out, ok) \<Rightarrow> (put_node dest (Plain out) (w\<lparr>mw_net := s\<rparr>), g ok))"
  by (simp add: keeps_readme_def split: prod.split)

lemma keeps_app: "(\<And>v. keeps_readme (f v)) \<Longrightarrow> keeps_readme (\<lambda>w. f w w)"
  by (simp add: keeps_readme_def)

lemma keeps_fetchers:
  "keeps_readme (fetch_discourse env row dest)" "keeps_readme (fetch_gh_issue env row dest)"
  "keeps_readme (fetch_gh_file env row dest)" "keeps_readme (fetch_gh_repo env row dest)"
  "keeps_readme (fetch_invision env row dest)" "keeps_readme (fetch_appstore env row dest)"
  "keeps_readme (fetch_android env row dest)"
  unfolding fetch_discourse_def fetch_gh_issue_def fetch_gh_file_def fetch_gh_repo_def fetch_invision_def
    fetch_appstore_def fetch_android_def Let_def
  by (intro keeps_intros)+

lemma keeps_web: "keeps_readme (fetch_web env row dest)"
proof -
  have "keeps_readme (\<lambda>w. bindS (write_text env dest (f w)) (\<lambda>_. returnS (g w)) w)" for f g :: "'a manual_world \<Rightarrow> string"
    by (rule keeps_app) (intro keeps_intros)
  then show ?thesis unfolding fetch_web_def Let_def by (intro keeps_intros)
qed
lemma keeps_living_row: "keeps_readme (fetch_living_row env row)"
  by (auto simp: fetch_living_row_def FETCHERS_def keeps_fetchers keeps_web keeps_basic)

text \<open>
  What the fetches of a run gave: every row not fetched by hand is tried once, in the order of
  the table, in the world the tries before it left behind, whatever they gave.
\<close>

fun fetch_outcomes ::
  "'s manual_env \<Rightarrow> living_row list \<Rightarrow> 's manual_world \<Rightarrow> (living_row \<times> (publish_error + string)) list" where
  "fetch_outcomes env [] w = []"
| "fetch_outcomes env (row # rows) w =
     (if lr_kind row = ''manual'' then fetch_outcomes env rows w
      else (row, snd (fetch_living_row env row w)) # fetch_outcomes env rows (fst (fetch_living_row env row w)))"

definition markers :: "(living_row \<times> (publish_error + string)) list \<Rightarrow> (living_row \<times> string) list" where
  "markers outcomes = List.map_filter (\<lambda>(row, r). case r of Inl e \<Rightarrow> None | Inr marker \<Rightarrow> Some (row, marker)) outcomes"

lemma markers_simps [simp]:
  "markers [] = []" "markers ((row, Inl e) # out) = markers out"
  "markers ((row, Inr m) # out) = (row, m) # markers out"
  by (simp_all add: markers_def map_filter_simps)

lemma markers_in: "(row, m) \<in> set (markers out) \<longleftrightarrow> (row, Inr m) \<in> set out"
proof (induction out)
  case (Cons x out)
  then show ?case by (cases x; cases "snd x") auto
qed simp

lemma outcomes_in:
  "(row, r) \<in> set (fetch_outcomes env rows w) \<Longrightarrow>
     row \<in> set rows \<and> lr_kind row \<noteq> ''manual'' \<and> (\<exists>v. snd (fetch_living_row env row v) = r)"
  by (induction rows arbitrary: w) (auto split: if_splits)

lemma fetch_rows_outcomes:
  assumes "fetch_rows env rows w = (w', fetched)"
  shows "mw_readme w' = mw_readme w \<and> fetched = markers (fetch_outcomes env rows w)"
  using assms
proof (induction rows arbitrary: w w' fetched)
  case (Cons row rows)
  show ?case
  proof (cases "lr_kind row = ''manual''")
    case False
    obtain v q where v: "fetch_living_row env row w = (v, q)" by fastforce
    obtain u rest where rest: "fetch_rows env rows v = (u, rest)" by fastforce
    have "mw_readme v = mw_readme w" by (rule keepsD [OF keeps_living_row v])
    with Cons.IH [OF rest] Cons.prems False v rest show ?thesis by (cases q) auto
  qed (use Cons in simp)
qed simp

lemma keeps_file [keeps_intros]: "keeps_readme (ensure_file env url file sha)"
proof -
  have "mw_readme (fst (ensure_file env url file sha w)) = mw_readme w" for w
  proof -
    obtain v q where v: "download env url (manual_path file) w = (v, q)" by fastforce
    then have "mw_readme v = mw_readme w" by (rule keepsD [OF keeps_download])
    then show ?thesis using v by (auto simp: ensure_file_def Let_def split: option.split node.split sum.split)
  qed
  then show ?thesis by (simp add: keeps_readme_def)
qed

lemma extracts_keep [simp]:
  "mw_readme (ensure_text env pdf w) = mw_readme w" "mw_readme (ensure_unpacked env archive kind w) = mw_readme w"
  by (auto simp: ensure_text_def ensure_unpacked_def Let_def split: option.split node.split prod.split)

lemma keeps_pinned: "keeps_readme (fetch_pinned env)"
proof -
  have row: "keeps_readme (fetch_pinned_row env row)" for row
    unfolding fetch_pinned_row_def Let_def by (intro keeps_intros) (simp add: keeps_readme_def)
  have "keeps_readme (fetch_pinned_rows env rows)" for rows
    by (induction rows) (simp_all add: keeps_intros row)
  then show ?thesis
    by (simp add: keeps_readme_def fetch_pinned_def Let_def)
      (metis keeps_basic(1) keeps_bind keeps_readme_def)
qed

text \<open>A cell can hold it, and the last marker a row's line was fetched with.\<close>

definition one_cell :: "string \<Rightarrow> bool" where
  "one_cell s \<longleftrightarrow> bar_free s \<and> plain_line s"

definition last_fetch :: "(living_row \<times> string) list \<Rightarrow> string \<Rightarrow> (living_row \<times> string) option" where
  "last_fetch fetched line = map_of (rev (map (\<lambda>(row, marker). (lr_line row, row, marker)) fetched)) line"

definition stamped :: "string \<Rightarrow> (living_row \<times> string) list \<Rightarrow> living_row \<Rightarrow> living_row" where
  "stamped date fetched r =
     (case last_fetch fetched (lr_line r) of
        None \<Rightarrow> r
      | Some (row, marker) \<Rightarrow> r\<lparr>lr_line := rewritten r date marker, lr_retrieved := str_strip date,
                                lr_marker := cell_text marker\<rparr>)"

lemma replacements_lookup:
  "map_of (row_replacements env fetched) line
    = map_option (\<lambda>(row, marker). rewritten row (mn_today env) marker) (last_fetch fetched line)"
  unfolding row_replacements_def last_fetch_def
  by (induction fetched rule: rev_induct) (auto simp: update_conv' split: prod.split)

lemma last_fetch_in: "last_fetch fetched line = Some (row, marker) \<Longrightarrow> (row, marker) \<in> set fetched \<and> lr_line row = line"
  unfolding last_fetch_def by (auto dest!: map_of_SomeD)

lemma table_rowD: "r \<in> set (parse_living_table text) \<Longrightarrow> living_row_of (lr_line r) = Some r"
proof -
  assume "r \<in> set (parse_living_table text)"
  then obtain line where "living_row_of line = Some r"
    by (auto simp: parse_living_table_def map_filter_def)
  then show ?thesis using living_row_rstrip living_row_line by metis
qed

lemma table_stamped:
  assumes "\<forall>(row, marker) \<in> set fetched. row \<in> set (parse_living_table text) \<and> one_cell marker"
    and "one_cell (mn_today env)"
  shows "parse_living_table (replace_rows (row_replacements env fetched) text)
    = map (stamped (mn_today env) fetched) (parse_living_table text)"
proof -
  have fetched: "living_row_of line = Some row \<and> one_cell marker \<and> (row, marker) \<in> set fetched"
    if "last_fetch fetched line = Some (row, marker)" for line row marker
    using last_fetch_in [OF that] assms(1) table_rowD by fastforce
  have "parse_living_table (replace_rows (row_replacements env fetched) text)
      = map (updated_row (row_replacements env fetched)) (parse_living_table text)"
    by (rule replaced_table) (use fetched assms(2) in \<open>fastforce simp: replacements_lookup one_cell_def\<close>)
  moreover have "updated_row (row_replacements env fetched) r = stamped (mn_today env) fetched r"
    if "r \<in> set (parse_living_table text)" for r
  proof (cases "last_fetch fetched (lr_line r)")
    case (Some x)
    then obtain row marker where x: "last_fetch fetched (lr_line r) = Some (row, marker)" by (cases x) auto
    with fetched table_rowD [OF that] have "row = r" "one_cell marker" by fastforce+
    then show ?thesis
      using rewritten_row_read_back [OF table_rowD [OF that]] assms(2) x
      by (simp add: updated_row_def stamped_def replacements_lookup one_cell_def)
  qed (simp add: updated_row_def stamped_def replacements_lookup)
  ultimately show ?thesis by simp
qed
lemma stamped_none [simp]: "stamped date [] r = r"
  by (simp add: stamped_def last_fetch_def)

text \<open>The rows a run is asked for; the world the pinned part of a run leaves, unless it raises.\<close>

definition wanted :: "manual_args \<Rightarrow> living_row list \<Rightarrow> living_row list" where
  "wanted args table = filter (\<lambda>r. ma_only args = [] \<or> lr_kind r \<in> set (ma_only args)) table"

definition after_pinned :: "'s manual_env \<Rightarrow> manual_args \<Rightarrow> 's manual_world \<Rightarrow> 's manual_world \<times> bool" where
  "after_pinned env args w =
     (if only_living args then (w, True)
      else case fetch_pinned env w of (v, Inl e) \<Rightarrow> (v, False) | (v, Inr _) \<Rightarrow> (v, True))"

text \<open>
  C36: the README follows what was fetched. A run tries every row of the kinds asked for that is
  not fetched by hand, in the order of the table and after the pinned sources; every row whose
  fetch gave a marker, the same as before or a new one, then has the day of the run, that
  marker and every other cell as before, and the other rows are what they were. With \<^verbatim>\<open>--check\<close>
  or \<^verbatim>\<open>--pinned\<close>, or when the pinned part raises, the README is not written at all.
\<close>

theorem readme_follows_fetches:
  assumes "manuals_main env args w = (w', r)" "mw_readme w = Some text" "one_cell (mn_today env)"
    and "\<And>row v marker. row \<in> set (parse_living_table text) \<Longrightarrow> snd (fetch_living_row env row v) = Inr marker \<Longrightarrow> one_cell marker"
    and "after_pinned env args w = (v, going)"
  shows "if \<not> going \<or> ma_check args \<or> ma_pinned args then mw_readme w' = Some text
    else parse_living_table (readme_text w')
      = map (stamped (mn_today env)
               (markers (fetch_outcomes env (wanted args (parse_living_table text)) v)))
          (parse_living_table text)"
proof -
  let ?table = "parse_living_table text" and ?rows = "wanted args (parse_living_table text)"
  obtain u q where u: "(if only_living args then returnS 0 else fetch_pinned env) w = (u, q)" by fastforce
  have "keeps_readme (if only_living args then returnS 0 else fetch_pinned env)"
    by (intro keeps_intros keeps_pinned)
  then have kept: "mw_readme u = Some text" using keepsD u assms(2) by metis
  have v: "v = u" "going = (\<exists>n. q = Inr n)"
    using u assms(5) by (auto simp: after_pinned_def returnS_def split: if_splits sum.splits)
  show ?thesis
  proof (cases "\<not> going \<or> ma_pinned args")
    case True
    then have "w' = u" using assms(1,2) u v
      by (cases q) (auto simp: manuals_main_def bindS_def split: sum.splits)
    with True kept show ?thesis by auto
  next
    case False
    then obtain s where s: "fetch_living env (\<not> ma_check args) (ma_only args) v = (w', s)"
      using assms(1,2) u v
      by (cases "fetch_living env (\<not> ma_check args) (ma_only args) v") (auto simp: manuals_main_def bindS_def split: sum.splits)
    obtain x fetched where x: "fetch_rows env ?rows v = (x, fetched)" by fastforce
    note rows = fetch_rows_outcomes [OF x]
    have w': "mw_readme w' = (if \<not> ma_check args \<and> row_replacements env fetched \<noteq> [] \<and> ?rows \<noteq> []
        then Some (replace_rows (row_replacements env fetched) text) else Some text)"
      using s x rows kept v(1)
      by (auto simp: fetch_living_def readme_text_def wanted_def Let_def split: if_splits prod.splits)
    have ok: "\<forall>(row, marker) \<in> set fetched. row \<in> set ?table \<and> one_cell marker"
    proof clarify
      fix row marker assume "(row, marker) \<in> set fetched"
      with rows outcomes_in [of row "Inr marker" env ?rows v] assms(4) [of row _ marker]
      show "row \<in> set ?table \<and> one_cell marker" by (auto simp: markers_in wanted_def)
    qed
    have "parse_living_table (readme_text w') = map (stamped (mn_today env) fetched) ?table"
      if "\<not> ma_check args"
    proof (cases "fetched = []")
      case True
      with w' that show ?thesis by (simp add: readme_text_def row_replacements_def map_idI)
    next
      case fetched: False
      then have "?rows \<noteq> []" using x by auto
      moreover have "row_replacements env fetched \<noteq> []"
        using fetched replacements_lookup [of env fetched "lr_line (fst (last fetched))"]
        by (cases fetched rule: rev_cases) (auto simp: last_fetch_def split: prod.splits)
      ultimately show ?thesis
        using w' that table_stamped [OF ok assms(3)] by (simp add: readme_text_def)
    qed
    with False w' rows show ?thesis by simp
  qed
qed

section \<open>A run to try it on\<close>

definition example_manuals :: "unit manual_env" where
  "example_manuals = \<lparr>mn_http = (\<lambda>url s. (s, Body [1] True)), mn_gh = (\<lambda>_ s. (s, Inl [])),
     mn_gh_raw = (\<lambda>_ s. (s, [], False)), mn_pdftotext = None, mn_unpack = (\<lambda>_ _. ([], False)),
     mn_sha256 = (\<lambda>b. replicate 64 (if b = [0] then CHR ''a'' else CHR ''b'')),
     mn_strict = (\<lambda>_. Some []), mn_lossy = (\<lambda>_. []), mn_utf8 = (\<lambda>_. []),
     mn_loads = (\<lambda>_. Some (PDict [(''results'', PList [PDict [(''version'', PStr ''2.0'')]])])),
     mn_dumps = (\<lambda>_. []), mn_str = (\<lambda>_. []), mn_unescape = id, mn_today = ''2026-10-01''\<rparr>"

definition example_readme :: string where
  "example_readme = ''| app.json | apple | appstore | 123 | 2026-09-20 | 1.9 |'' @ [newline]
     @ ''| old.txt | http://a.no/b | txt | '' @ replicate 64 (CHR ''a'') @ '' |'' @ [newline]"

definition example_manual_world :: "unit manual_world" where
  "example_manual_world = \<lparr>mw_net = (), mw_requests = [], mw_files = [(''old.txt'', Plain [0])], mw_readme = Some example_readme\<rparr>"

definition example_row :: living_row where
  "example_row = \<lparr>lr_line = ''| app.json | apple | appstore | 123 | 2026-09-20 | 1.9 |'', lr_item = ''app.json'',
     lr_source = ''apple'', lr_kind = ''appstore'', lr_key = ''123'', lr_retrieved = ''2026-09-20'', lr_marker = ''1.9''\<rparr>"

lemma example_tables:
  "parse_living_table example_readme = [example_row]"
  "parse_table example_readme = [\<lparr>pr_url = ''http://a.no/b'', pr_file = ''old.txt'', pr_kind = ''txt'', pr_sha = replicate 64 (CHR ''a'')\<rparr>]"
  by code_simp+

lemma example_written:
  "map lr_marker (parse_living_table (replace_rows [(lr_line example_row, rewritten example_row ''2026-10-01'' ''2.0'')] example_readme))
     = [''2.0'']"
  by code_simp

lemma example_fetch: "snd (fetch_living_row example_manuals example_row v) = Inr ''2.0''"
proof -
  have "str_partition (CHR ''@'') ''123'' = (''123'', [])" by code_simp
  then show ?thesis
    by (simp add: fetch_living_row_def FETCHERS_def example_row_def example_manuals_def fetch_appstore_def get_json_def
        read_body_def urlopen_def bindS_def liftE_def returnS_def loads_text_def json_get_def json_first_def
        write_json_def write_text_def write_node_def json_date_def json_take_def man_str_def)
qed

lemma example_run:
  assumes "manuals_main example_manuals \<lparr>ma_living = True, ma_pinned = False, ma_check = False, ma_only = []\<rparr>
      example_manual_world = (w', r)"
  shows "map lr_marker (parse_living_table (readme_text w')) = [''2.0'']"
proof -
  have table: "readme_text example_manual_world = example_readme"
    by (simp add: readme_text_def example_manual_world_def)
  obtain v where v: "fetch_living_row example_manuals example_row example_manual_world = (v, Inr ''2.0'')"
    using example_fetch by (metis prod.collapse)
  have "lr_kind example_row \<noteq> ''manual''" "mw_readme example_manual_world = Some example_readme"
    by (simp_all add: example_row_def example_manual_world_def)
  moreover have "mn_today example_manuals = ''2026-10-01''" by (simp add: example_manuals_def)
  ultimately have "readme_text w' = replace_rows [(lr_line example_row, rewritten example_row ''2026-10-01'' ''2.0'')] example_readme"
    using assms v
    by (auto simp: manuals_main_def only_living_def bindS_def returnS_def fetch_living_def table example_tables(1)
        row_replacements_def readme_text_def Let_def split: prod.splits)
  then show ?thesis using example_written by simp
qed

theorem readme_follows_fetches_witness:
  "\<exists>w' r fetched. manuals_main example_manuals \<lparr>ma_living = True, ma_pinned = False, ma_check = False, ma_only = []\<rparr>
       example_manual_world = (w', r)
     \<and> fetched = markers (fetch_outcomes example_manuals [example_row] example_manual_world)
     \<and> fetched = [(example_row, ''2.0'')]
     \<and> parse_living_table (readme_text w') = map (stamped ''2026-10-01'' fetched) [example_row]"
proof -
  let ?args = "\<lparr>ma_living = True, ma_pinned = False, ma_check = False, ma_only = []\<rparr>"
  obtain w' r where run: "manuals_main example_manuals ?args example_manual_world = (w', r)" by fastforce
  have today: "mn_today example_manuals = ''2026-10-01''" by (simp add: example_manuals_def)
  have cells: "one_cell ''2026-10-01''" "one_cell ''2.0''" by (simp_all add: one_cell_def bar_free_def plain_line_def is_line_break_def)
  have readme: "mw_readme example_manual_world = Some example_readme" by (simp add: example_manual_world_def)
  have pinned: "after_pinned example_manuals ?args example_manual_world = (example_manual_world, True)"
    by (simp add: after_pinned_def only_living_def)
  have kind: "lr_kind example_row \<noteq> ''manual''" by (simp add: example_row_def)
  have "wanted ?args [example_row] = [example_row]" by (simp add: wanted_def)
  then have "parse_living_table (readme_text w') = map (stamped ''2026-10-01''
      (markers (fetch_outcomes example_manuals [example_row] example_manual_world))) [example_row]"
    using readme_follows_fetches [OF run readme _ _ pinned] cells
    by (auto simp: example_tables(1) today example_fetch kind)
  moreover have "markers (fetch_outcomes example_manuals [example_row] example_manual_world) = [(example_row, ''2.0'')]"
    by (simp add: example_fetch kind)
  ultimately show ?thesis using run by blast
qed

theorem good_copies_stay_witness:
  "\<exists>w' r. fetch_pinned example_manuals example_manual_world = (w', r) \<and> node_at w' ''old.txt'' = Some (Plain [0])"
proof -
  obtain w' r where run: "fetch_pinned example_manuals example_manual_world = (w', r)" by fastforce
  have "node_at example_manual_world ''old.txt'' = Some (Plain [0])"
    by (simp add: node_at_def example_manual_world_def)
  from good_copies_stay [OF run this] show ?thesis
    using run by (auto simp: readme_text_def example_manual_world_def example_tables(2) example_manuals_def)
qed

end
