(* ===== verification/Spec2Isabelle.thy ===== *)
theory Spec2Isabelle
  imports Session_Props Enrollment_Props Enrollment_Store Zha_Props Options_Props Setup_Props Setup_Watch
    Diagnostics Bluetooth Bleak_Transport Release_Props Ble_Cli_Keys Manual_Props
begin

text \<open>
  A verification development for Onesti Lock, the Home Assistant integration under
  \<^verbatim>\<open>custom_components/onesti_lock\<close>: PIN management over Zigbee, and a library for the locks'
  Bluetooth protocol, with the tools of \<^verbatim>\<open>scripts/\<close> that drive a lock and ship a version.

  \<^bold>\<open>The program.\<close> Two halves share the lock and nothing else; the scripts stand beside them.

  The Bluetooth half, \<^verbatim>\<open>ble/\<close>, is a protocol stack. \<^verbatim>\<open>protocol/\<close> holds the layers: byte streams,
  blobs, packets, commands and responses, the typed builders and parsers, the feature table.
  \<^verbatim>\<open>crypto.py\<close> has the key agreement and the link cipher. \<^verbatim>\<open>client/\<close> drives a lock: a session that
  serialises exchanges over a link, the owner's login, and enrollment, which changes the lock
  step by step and saves each step.

  The Zigbee half is the integration itself. \<^verbatim>\<open>zha.py\<close> sends a command to a sleeping lock,
  \<^verbatim>\<open>coordinator.py\<close> keeps the slots in step with what the lock took, \<^verbatim>\<open>services.py\<close> and
  \<^verbatim>\<open>config_flow.py\<close> are its two front ends, \<^verbatim>\<open>events.py\<close> reads what the lock reports,
  \<^verbatim>\<open>pin_rules.py\<close>, \<^verbatim>\<open>redact.py\<close> and \<^verbatim>\<open>localize.py\<close> are the rules all of them ask.

  Of the scripts, \<^verbatim>\<open>ble_cli.py\<close> is the command line over the Bluetooth half: it asks before it
  changes a lock, keeps the owner keys and the failed logins on disk, and writes a frame log.
  \<^verbatim>\<open>release_notes.py\<close> cuts a version's notes from the changelog and \<^verbatim>\<open>release_publish.py\<close>
  publishes it, in an order that leaves nothing public before it is proved. \<^verbatim>\<open>fetch_manuals.py\<close>
  downloads the sources \<^verbatim>\<open>docs/manuals/README.md\<close> lists and writes back what it found.

  \<^bold>\<open>The theories\<close>, in the order they build on each other.

  \<^item> \<^theory_text>\<open>Prelude\<close>: the result type, a sum with the error on the left, and its bind; bytes as
    8-bit words and their little-endian numbers; reachability of a step relation, and the
    locale \<^theory_text>\<open>simulation\<close> of one step relation by another; the locale \<^theory_text>\<open>keyed_store\<close> of what is kept
    under keys, which the state directory and the manuals' files are instances of.
  \<^item> \<^theory_text>\<open>Wire_Const\<close>, \<^theory_text>\<open>Ble_Errors\<close>, \<^theory_text>\<open>Streams\<close>, \<^theory_text>\<open>Blob\<close>, \<^theory_text>\<open>Packet\<close>, \<^theory_text>\<open>Packet_Stream\<close>, \<^theory_text>\<open>Command\<close>,
    \<^theory_text>\<open>Response\<close>, \<^theory_text>\<open>Commands\<close>, \<^theory_text>\<open>Responses\<close>, \<^theory_text>\<open>Features\<close>, \<^theory_text>\<open>Advertisement\<close>: one theory per file of
    \<^verbatim>\<open>ble/protocol\<close> (two for \<^verbatim>\<open>packet.py\<close>). An object is a record, a method a function from the
    record to the changed record and a result; an exception is an error value.
  \<^item> \<^theory_text>\<open>Crypto\<close>: \<^verbatim>\<open>crypto.py\<close>. Curve arithmetic and AES come from a package, so they are the
    record \<^theory_text>\<open>crypto_lib\<close>, with its documented laws as hypotheses where a property needs them.
  \<^item> \<^theory_text>\<open>Session\<close>: \<^verbatim>\<open>session.py\<close>, each handler that runs between two suspensions as one function;
    \<^theory_text>\<open>Session_Safety\<close> and \<^theory_text>\<open>Session_Runs\<close> compose them to a step relation over every order the
    event loop can choose and prove its invariants; \<^theory_text>\<open>Session_Link\<close> follows the link keys from
    the key exchange to every frame; \<^theory_text>\<open>Session_Props\<close> has what follows.
  \<^item> \<^theory_text>\<open>Effects\<close>, \<^theory_text>\<open>Enrollment\<close>, \<^theory_text>\<open>Enrollment_Props\<close>, \<^theory_text>\<open>Enrollment_Store\<close>: \<^verbatim>\<open>auth.py\<close> and
    \<^verbatim>\<open>enrollment.py\<close> as a program over a channel that sends commands and a save that may fail,
    its trace the order of both; the stored form and its reader.
  \<^item> \<^theory_text>\<open>Py_Values\<close>: the Python values options and answers are made of, and the string methods
    used on them. \<^theory_text>\<open>Pin_Rules\<close>: \<^verbatim>\<open>pin_rules.py\<close> and \<^verbatim>\<open>redact.py\<close>.
  \<^item> \<^theory_text>\<open>Zha\<close>, \<^theory_text>\<open>Zha_Props\<close>: \<^verbatim>\<open>zha.py\<close> over a record of what it calls, with a trace of the commands
    sent, the bolt driven and the texts logged.
  \<^item> \<^theory_text>\<open>Coordinator\<close>, \<^theory_text>\<open>Coordinator_Runs\<close>, \<^theory_text>\<open>Coordinator_Props\<close>: \<^verbatim>\<open>coordinator.py\<close>. A write outlives a
    reload, so the world is the entry's options and every coordinator made on it. The runs are
    a step relation, shown to simulate one register the completed operations are applied to.
    A setup makes its coordinator, waits for the translations, and only then puts it into
    \<^verbatim>\<open>entry.runtime_data\<close>; these are two steps, and a write may end between them.
  \<^item> \<^theory_text>\<open>Localize\<close>, \<^theory_text>\<open>Events\<close>, \<^theory_text>\<open>Services\<close>, \<^theory_text>\<open>Options_Flow\<close>, \<^theory_text>\<open>Options_Props\<close>: \<^verbatim>\<open>localize.py\<close>,
    \<^verbatim>\<open>events.py\<close>, \<^verbatim>\<open>services.py\<close> and \<^verbatim>\<open>config_flow.py\<close>. A transport may raise an exception of its
    own; a service turns it into its own error and logs it.
  \<^item> \<^theory_text>\<open>Setup\<close>, \<^theory_text>\<open>Setup_Props\<close>, \<^theory_text>\<open>Setup_Watch\<close>: \<^verbatim>\<open>__init__.py\<close>, the migrations of stored
    entries, setup with the repair issues it raises and clears, the watch on ZHA, and reload.
    Writes of an older coordinator that end while a setup waits are an argument of it.
  \<^item> \<^theory_text>\<open>Entities\<close>: \<^verbatim>\<open>entity.py\<close> and \<^verbatim>\<open>sensor.py\<close>; \<^theory_text>\<open>Diagnostics\<close>: \<^verbatim>\<open>diagnostics.py\<close>;
    \<^theory_text>\<open>Bluetooth\<close>: \<^verbatim>\<open>bluetooth.py\<close>, which advertisements are offered as a lock.
  \<^item> \<^theory_text>\<open>Bleak_Transport\<close>: \<^verbatim>\<open>client/transport.py\<close> and \<^verbatim>\<open>client/bleak_transport.py\<close>, a machine
    over every order of calls and callbacks, shown to be a \<^theory_text>\<open>state_machine\<close> of its contract.
  \<^item> \<^theory_text>\<open>Py_Text\<close>: string methods and pieces of regular expressions. \<^theory_text>\<open>Release_Notes\<close>:
    \<^verbatim>\<open>release_notes.py\<close>, over the repository's files. \<^theory_text>\<open>Release_Publish\<close>, \<^theory_text>\<open>Release_Props\<close>:
    \<^verbatim>\<open>release_publish.py\<close>. \<^verbatim>\<open>gh\<close>, \<^verbatim>\<open>git\<close>, and the formats JSON, ZIP and SHA-256 are a record of
    functions; the trace has every run of \<^verbatim>\<open>gh\<close> with its answer.
  \<^item> \<^theory_text>\<open>Tracing\<close>: \<^verbatim>\<open>client/tracing.py\<close>, the frame events and the tracer that never raises.
  \<^item> \<^theory_text>\<open>Ble_Trace\<close>, \<^theory_text>\<open>Ble_State\<close>, \<^theory_text>\<open>Ble_Cli\<close>: \<^verbatim>\<open>ble_cli.py\<close>, its tracer, its files, and its
    commands as programs over a world of the link, the files and a trace. The radio, the
    session it builds, the disk and the clock are the record \<^theory_text>\<open>cli_env\<close>, the counterpart of the
    tool's \<^verbatim>\<open>Deps\<close>; the library's login and enrollment are those of \<^theory_text>\<open>Enrollment\<close>, run on the
    session's channel. \<^theory_text>\<open>Ble_Cli_Steps\<close> has the rules for the words of events a program can
    leave, one per construct; \<^theory_text>\<open>Ble_Cli_Props\<close> and \<^theory_text>\<open>Ble_Cli_Keys\<close> have the properties.
  \<^item> \<^theory_text>\<open>Manual_Tables\<close>, \<^theory_text>\<open>Manuals\<close>, \<^theory_text>\<open>Manual_Props\<close>: \<^verbatim>\<open>fetch_manuals.py\<close>, its two tables and the
    row it writes back; the pinned sources and the fetchers, over a world of the net, the files
    and the README; and what a run may change.
  \<^item> \<^theory_text>\<open>Spec2Isabelle\<close>: this header, and the properties that cross components.

  \<^bold>\<open>What the lemmas show.\<close> On the wire: what is framed is received, under any cipher that
  undoes itself; a lost packet delivers nothing and the stream recovers; builders refuse what
  the lock cannot take, parsers read back what a lock writes. In a session: only the key
  exchange travels in clear and everything else under the key shared with the lock, an answer
  reaches the command it answers, exchanges keep their distance and end by the session's own
  timers, closing is final but for one gap. In enrollment: no command follows
  the new owner key before that key is saved, every later step the lock took is saved before
  the next is sent, and resuming logs in and sends exactly the rest. In the integration:
  the bolt moves only for a sleeping lock, no code a keypad takes stands in the log, stored
  slots follow what the lock took under every interleaving (the slots shown may be older after a
  write that ended during a setup), a call touches one lock and no
  master slot, both front ends give the same verdict, and an event names whom it may. At
  setup: a migration loses no slot, the issue shown is the state ZHA is in, diagnostics carry
  no name. Across the stack: a command any builder accepts reaches the lock as it was built.
  In a release: nothing is public that was not proved, the writes come in one order and go to
  one release, a dry run writes nothing. On the command line: one session, let go, with the commands of its kind;
  nothing unasked; no login past the budget; a failed login is counted, but not by enroll when
  it times out; a key the lock holds is on disk; and the frame log does not depend on what is
  secret. Of the manuals: a good copy is never damaged, and the README's rows stay what they
  were, but that every row a run fetched has its day and its marker, one that fits a cell.

  \<^bold>\<open>Bounds.\<close> Recursion is structural or has a measure (the bytes or blocks left), so no fuel is
  used; the walk down ZHA's objects takes the code's own four levels. The loop of \<^verbatim>\<open>_watch\<close> ends
  when the clock says so: it is a partial function, and a theorem says when it returns. Integers of the wire are
  words of their width; Python's integers are \<^typ>\<open>int\<close>. Time is in milliseconds, an \<^typ>\<open>int\<close>.
  A string is a list of characters below 256: the functions that look at single characters
  treat those, and the wire's text is bytes.

  \<^bold>\<open>Not modelled.\<close> Where a session calls its tracer, which cannot change it; of the scripts,
  what they print, their argument parsers, file modes and the radio \<^verbatim>\<open>ble_cli.py\<close> builds from
  bleak; \<^verbatim>\<open>ci_sim.py\<close> and \<^verbatim>\<open>generate_brand_images.py\<close>, which run tests and draw; the
  end-to-end tools, which drive containers; the voluptuous schemas of the services and how
  they are registered; the writing of entity states and forwarding of platforms, which Home
  Assistant does. Log lines are modelled only where a property is about them. Home Assistant,
  ZHA, zigpy, bleak and the cryptography package are parameters.
\<close>

section \<open>Across the protocol layers\<close>

definition link_stream :: "crypto_lib \<Rightarrow> aes128_cbc \<Rightarrow> int \<Rightarrow> packet_stream" where
  "link_stream lib c mtu =
     \<lparr>ps_mtu = mtu, ps_cipher = Some (payload_cipher_of lib c), ps_blob = None, ps_last_sequence = 0\<rparr>"

text \<open>
  C14: a command reaches the lock as it was built. Once both sides have derived their link
  keys from the other's public key, whatever any builder accepts is framed for any MTU, and
  the lock's stream puts the packets together to one encrypted payload, whose plain text,
  padding and all, parses to the command and reference that were sent.
\<close>

theorem command_reaches_lock:
  assumes "curve_ok lib" "cbc_ok lib"
    and "key_pair_from_private_key lib a = Inr ka" "key_pair_from_private_key lib b = Inr kb"
    and "build cmd = Inr p" "1 \<le> ref" "ref \<le> 254" "MTU_MIN \<le> mtu"
  shows "\<exists>lk c bs frames r'. derive_link_keys lib a (kp_public_key kb) = Inr lk
    \<and> derive_link_keys lib b (kp_public_key ka) = Inr lk \<and> link_cipher lk = Inr c
    \<and> command_to_bytes (with_ref p ref) = Inr bs \<and> frame (link_stream lib c mtu) bs = Inr frames
    \<and> receive_all (link_stream lib c mtu) frames
        = (r', replicate (length frames - 1) (Inr RNothing) @ [Inr (RPayload (zero_pad bs) True)])
    \<and> command_from_bytes (zero_pad bs) = Inr (with_ref p ref)"
proof -
  obtain lk where lk: "derive_link_keys lib a (kp_public_key kb) = Inr lk"
    "derive_link_keys lib b (kp_public_key ka) = Inr lk" "length (lk_key lk) = 16" "length (lk_iv lk) = 16"
    by (rule same_link_keys [OF assms(1,3,4)])
  obtain c where c: "link_cipher lk = Inr c" "aes_ok c" using link_cipher_ok [OF lk(3,4)] by blast
  have ok: "command_ok (with_ref p ref)" by (rule build_command_ok [OF assms(5-7)])
  then obtain bs where bs: "command_to_bytes (with_ref p ref) = Inr bs" using command_frame.to_b_ok by blast
  have "cm_payload (with_ref p ref) = cp_data p" by (simp add: with_ref_def)
  then have len: "bs \<noteq> []" "length bs \<le> 300"
    using bs build_length [OF assms(5)] by (auto simp: command_to_bytes_ok [OF ok])
  let ?s = "link_stream lib c mtu" and ?w = "aes_encrypt lib c bs"
  have w: "stream_encrypt ?s bs = Inr ?w" "length ?w = length (zero_pad bs)"
    using aes_encrypt_whole [OF assms(2) c(2)] by (simp_all add: stream_encrypt_def link_stream_def payload_cipher_of_def)
  moreover have "length bs \<le> length (zero_pad bs)" by (simp add: zero_pad_def)
  ultimately have "?w \<noteq> [] \<and> length ?w \<le> 65535" using len zero_pad_less [of bs] by auto
  then obtain frames where frames: "frame ?s bs = Inr frames"
    using frame_Inr_iff [OF w(1)] assms(8) by (auto simp: link_stream_def)
  obtain r' where "receive_all ?s frames
      = (r', replicate (length frames - 1) (Inr RNothing) @ [deliver ?s ?w (ps_cipher ?s \<noteq> None)])"
    using receive_framed [OF frames w(1), of ?s] by (auto simp: link_stream_def)
  moreover have "deliver ?s ?w (ps_cipher ?s \<noteq> None) = Inr (RPayload (zero_pad bs) True)"
    using aes_decrypt_encrypt [OF assms(2) c(2)]
    by (simp add: deliver_def stream_decrypt_def link_stream_def payload_cipher_of_def)
  moreover have "command_from_bytes (zero_pad bs) = Inr (with_ref p ref)"
    using command_frame.from_to_b [OF ok bs] zero_pad_prefix [of bs] by metis
  ultimately show ?thesis using lk(1,2) c(1) bs frames by metis
qed

theorem command_reaches_lock_witness:
  "\<exists>p lk c bs. build (PinCodeClear 803) = Inr p \<and> link_cipher lk = Inr c
     \<and> command_to_bytes (with_ref p 16) = Inr bs
     \<and> (\<exists>frames. frame (link_stream small_lib c 23) bs = Inr frames)
     \<and> command_from_bytes (zero_pad bs) = Inr (with_ref p 16)"
proof -
  obtain ka kb where k: "key_pair_from_private_key small_lib (1 # replicate 31 0) = Inr ka"
    "key_pair_from_private_key small_lib (5 # replicate 31 0) = Inr kb"
    using small_pairs by blast
  have b: "build (PinCodeClear 803) = Inr (mk_command_payload CMD_PIN_CODE_CLEAR (int_to_le 2 803))"
    by (simp add: pin_code_clear_def slot_command_def check_slot_def codec_simps)
  have m: "MTU_MIN \<le> 23" by code_simp
  from command_reaches_lock [OF small_lib_ok(2,1) k b _ _ m, of 16] b show ?thesis by auto
qed

end
